(* ===== verification/Prelude.thy ===== *)
theory Prelude
  imports "HOL-Library.Word" "HOL-Library.Signed_Division"
begin

text \<open>
  Shared ground of the development: the abbreviations for the C integer types, the outcome type of a
  stateful C function (return, \<open>longjmp\<close>, or the death of the host process), the combinators that
  compose such functions, the two predicate transformers used by the component proofs (\<open>pres\<close> for
  invariants, \<open>vld\<close> for pre/post conditions), the bit-field operations that the C unions of the
  emulator denote, and first-match lookup in a decode table.
\<close>

unbundle bit_operations_syntax

named_theorems pres_intro \<open>closure rules of state invariants\<close>
named_theorems m_simps \<open>evaluation rules of the outcome combinators\<close>

type_synonym uint8 = "8 word"
type_synonym uint32 = "32 word"
type_synonym uint64 = "64 word"

section \<open>Outcomes and sequencing\<close>

text \<open>A C function either returns, or leaves through \<open>longjmp\<close> with the state reached so far, or
  takes the host process down (a failed assertion, a \<open>panic\<close>, or an access outside mapped host
  memory).\<close>

datatype crash = Assert_fail | Host_fault

datatype ('s, 'a) res = Ret 'a 's | LongJmp nat 's | Crash crash

type_synonym ('s, 'a) m = "'s \<Rightarrow> ('s, 'a) res"

definition ret :: "'a \<Rightarrow> ('s, 'a) m" where
  "ret x st = Ret x st"

definition bnd :: "('s, 'a) m \<Rightarrow> ('a \<Rightarrow> ('s, 'b) m) \<Rightarrow> ('s, 'b) m" where
  "bnd f g st = (case f st of Ret x st' \<Rightarrow> g x st' | LongJmp c st' \<Rightarrow> LongJmp c st' | Crash c \<Rightarrow> Crash c)"

definition thn :: "('s, unit) m \<Rightarrow> ('s, 'b) m \<Rightarrow> ('s, 'b) m" where
  "thn f g = bnd f (\<lambda>_. g)"

definition skip :: "('s, unit) m" where
  "skip = ret ()"

definition gets :: "('s \<Rightarrow> 'a) \<Rightarrow> ('s, 'a) m" where
  "gets f st = Ret (f st) st"

definition modify :: "('s \<Rightarrow> 's) \<Rightarrow> ('s, unit) m" where
  "modify f st = Ret () (f st)"

definition jump :: "nat \<Rightarrow> ('s, 'a) m" where
  "jump c st = LongJmp c st"

definition die :: "crash \<Rightarrow> ('s, 'a) m" where
  "die c st = Crash c"

definition assert_m :: "bool \<Rightarrow> ('s, unit) m" where
  "assert_m b = (if b then skip else die Assert_fail)"

primrec seqs :: "('s, unit) m list \<Rightarrow> ('s, unit) m" where
  "seqs [] = skip"
| "seqs (f # fs) = thn f (seqs fs)"

lemma ret_apply [m_simps]: "ret x st = Ret x st"
  by (simp add: ret_def)

lemma skip_apply [m_simps]: "skip st = Ret () st"
  by (simp add: skip_def ret_def)

lemma gets_apply [m_simps]: "gets f st = Ret (f st) st"
  by (simp add: gets_def)

lemma modify_apply [m_simps]: "modify f st = Ret () (f st)"
  by (simp add: modify_def)

lemma jump_apply [m_simps]: "jump c st = LongJmp c st"
  by (simp add: jump_def)

lemma die_apply [m_simps]: "die c st = Crash c"
  by (simp add: die_def)

lemma assert_m_apply [m_simps]: "assert_m b st = (if b then Ret () st else Crash Assert_fail)"
  by (simp add: assert_m_def skip_apply die_apply)

lemma bnd_apply [m_simps]:
  "bnd f g st = (case f st of Ret x st' \<Rightarrow> g x st' | LongJmp c st' \<Rightarrow> LongJmp c st' | Crash c \<Rightarrow> Crash c)"
  by (simp add: bnd_def)

lemma thn_apply [m_simps]:
  "thn f g st = (case f st of Ret x st' \<Rightarrow> g st' | LongJmp c st' \<Rightarrow> LongJmp c st' | Crash c \<Rightarrow> Crash c)"
  by (simp add: thn_def bnd_def)

lemma seqs_apply [m_simps]:
  "seqs [] st = Ret () st"
  "seqs (f # fs) st = (case f st of Ret x st' \<Rightarrow> seqs fs st' | LongJmp c st' \<Rightarrow> LongJmp c st' | Crash c \<Rightarrow> Crash c)"
  by (simp_all add: skip_apply thn_apply)

section \<open>Predicate transformers\<close>

text \<open>\<open>vld P f Q E\<close>: started in a state satisfying \<open>P\<close>, \<open>f\<close> returns only into \<open>Q\<close> and
  jumps only into \<open>E\<close>. \<open>pres I E f\<close> is the case of an invariant: both exits keep \<open>I\<close>, and a jump
  satisfies \<open>E\<close> besides.\<close>

definition vld :: "('s \<Rightarrow> bool) \<Rightarrow> ('s, 'a) m \<Rightarrow> ('a \<Rightarrow> 's \<Rightarrow> bool) \<Rightarrow> (nat \<Rightarrow> 's \<Rightarrow> bool) \<Rightarrow> bool" where
  "vld P f Q E \<longleftrightarrow> (\<forall>st. P st \<longrightarrow>
     (case f st of Ret x st' \<Rightarrow> Q x st' | LongJmp c st' \<Rightarrow> E c st' | Crash _ \<Rightarrow> True))"

definition pres :: "('s \<Rightarrow> bool) \<Rightarrow> (nat \<Rightarrow> 's \<Rightarrow> bool) \<Rightarrow> ('s, 'a) m \<Rightarrow> bool" where
  "pres I E f = vld I f (\<lambda>_. I) (\<lambda>c st. I st \<and> E c st)"

lemma vld_bnd:
  assumes "vld P f R E" and "\<And>x. vld (R x) (g x) Q E"
  shows "vld P (bnd f g) Q E"
  unfolding vld_def bnd_apply
proof (intro allI impI)
  fix st assume "P st"
  with assms(1) have f: "case f st of Ret x st' \<Rightarrow> R x st' | LongJmp c st' \<Rightarrow> E c st' | Crash _ \<Rightarrow> True"
    by (simp add: vld_def)
  show "case (case f st of Ret x st' \<Rightarrow> g x st' | LongJmp c st' \<Rightarrow> LongJmp c st' | Crash c \<Rightarrow> Crash c) of
      Ret x st' \<Rightarrow> Q x st' | LongJmp c st' \<Rightarrow> E c st' | Crash _ \<Rightarrow> True"
    using f assms(2) by (cases "f st") (simp_all add: vld_def)
qed

lemma vld_conseq:
  assumes "vld P' f Q' E'" "\<And>st. P st \<Longrightarrow> P' st" "\<And>x st. Q' x st \<Longrightarrow> Q x st" "\<And>c st. E' c st \<Longrightarrow> E c st"
  shows "vld P f Q E"
  unfolding vld_def
proof (intro allI impI)
  fix st assume "P st"
  with assms(1,2) have "case f st of Ret x st' \<Rightarrow> Q' x st' | LongJmp c st' \<Rightarrow> E' c st' | Crash _ \<Rightarrow> True"
    by (simp add: vld_def)
  then show "case f st of Ret x st' \<Rightarrow> Q x st' | LongJmp c st' \<Rightarrow> E c st' | Crash _ \<Rightarrow> True"
    using assms(3,4) by (cases "f st") simp_all
qed

lemma presD_Ret: "pres I E f \<Longrightarrow> I st \<Longrightarrow> f st = Ret x st' \<Longrightarrow> I st'"
  by (force simp: pres_def vld_def)

lemma presD_LongJmp: "pres I E f \<Longrightarrow> I st \<Longrightarrow> f st = LongJmp c st' \<Longrightarrow> I st' \<and> E c st'"
  by (force simp: pres_def vld_def)

lemma presI:
  assumes "\<And>st x st'. I st \<Longrightarrow> f st = Ret x st' \<Longrightarrow> I st'"
    and "\<And>st c st'. I st \<Longrightarrow> f st = LongJmp c st' \<Longrightarrow> I st' \<and> E c st'"
  shows "pres I E f"
  unfolding pres_def vld_def
proof (intro allI impI)
  fix st assume i: "I st"
  show "case f st of Ret x st' \<Rightarrow> I st' | LongJmp c st' \<Rightarrow> I st' \<and> E c st' | Crash _ \<Rightarrow> True"
  proof (cases "f st")
    case (Ret x st') with assms(1)[OF i] show ?thesis by simp
  next
    case (LongJmp c st') with assms(2)[OF i] show ?thesis by simp
  qed simp
qed

lemma pres_pure [pres_intro]:
  "pres I E (ret x)" "pres I E skip" "pres I E (gets f)" "pres I E (die c)" "pres I E (assert_m b)"
  by (simp_all add: pres_def vld_def m_simps)

lemma pres_jump: "(\<And>st. I st \<Longrightarrow> E c st) \<Longrightarrow> pres I E (jump c)"
  by (simp add: pres_def vld_def jump_apply)

lemma pres_modify [pres_intro]: "(\<And>st. I st \<Longrightarrow> I (f st)) \<Longrightarrow> pres I E (modify f)"
  by (simp add: pres_def vld_def modify_apply)

lemma pres_bnd [pres_intro]: "pres I E f \<Longrightarrow> (\<And>x. pres I E (g x)) \<Longrightarrow> pres I E (bnd f g)"
  unfolding pres_def by (rule vld_bnd)

lemma pres_thn [pres_intro]: "pres I E f \<Longrightarrow> pres I E g \<Longrightarrow> pres I E (thn f g)"
  unfolding thn_def by (rule pres_bnd)

lemma pres_seqs [pres_intro]:
  "pres I E (seqs [])"
  "pres I E f \<Longrightarrow> pres I E (seqs fs) \<Longrightarrow> pres I E (seqs (f # fs))"
  by (simp_all add: pres_pure pres_thn)

lemma pres_if [pres_intro]: "(b \<Longrightarrow> pres I E f) \<Longrightarrow> (\<not> b \<Longrightarrow> pres I E g) \<Longrightarrow> pres I E (if b then f else g)"
  by simp

lemma pres_let [pres_intro]: "(\<And>x. pres I E (f x)) \<Longrightarrow> pres I E (let y = e in f y)"
  by simp

lemma pres_case_option [pres_intro]:
  "(x = None \<Longrightarrow> pres I E f) \<Longrightarrow> (\<And>y. x = Some y \<Longrightarrow> pres I E (g y)) \<Longrightarrow> pres I E (case x of None \<Rightarrow> f | Some y \<Rightarrow> g y)"
  by (cases x) simp_all

lemma pres_case_prod [pres_intro]: "(\<And>a b. pres I E (f a b)) \<Longrightarrow> pres I E (case p of (a, b) \<Rightarrow> f a b)"
  by (cases p) simp

section \<open>Bit fields\<close>

text \<open>A C bit field of width \<open>n\<close> at bit offset \<open>lo\<close> is the pair \<open>(lo, n)\<close>. Reading a field shifts
  and truncates; assigning to it truncates the new value to the width of the field and leaves every
  other bit alone.\<close>

type_synonym field = "nat \<times> nat"

definition fld :: "field \<Rightarrow> uint64 \<Rightarrow> uint64" where
  "fld f w = take_bit (snd f) (drop_bit (fst f) w)"

definition set_fld :: "field \<Rightarrow> uint64 \<Rightarrow> uint64 \<Rightarrow> uint64" where
  "set_fld f v w = (w AND NOT (push_bit (fst f) (mask (snd f)))) OR push_bit (fst f) (take_bit (snd f) v)"

definition fld_disjoint :: "field \<Rightarrow> field \<Rightarrow> bool" where
  "fld_disjoint f g \<longleftrightarrow> fst f + snd f \<le> fst g \<or> fst g + snd g \<le> fst f"

lemma bit_fld: "bit (fld f w) i \<longleftrightarrow> i < snd f \<and> bit w (fst f + i)"
  by (auto simp: fld_def bit_simps)

lemma bit_set_fld:
  "bit (set_fld f v w) i \<longleftrightarrow>
     i < 64 \<and> (if fst f \<le> i \<and> i < fst f + snd f then bit v (i - fst f) else bit w i)"
  by (auto simp: set_fld_def bit_simps)

lemma fld_set_fld_same: "fst f + snd f \<le> 64 \<Longrightarrow> fld f (set_fld f v w) = take_bit (snd f) v"
  by (rule bit_word_eqI) (auto simp: bit_fld bit_set_fld bit_take_bit_iff)

lemma fld_set_fld_other: "fst f + snd f \<le> 64 \<Longrightarrow> fld_disjoint f g \<Longrightarrow> fld f (set_fld g v w) = fld f w"
  by (rule bit_word_eqI) (auto simp: bit_fld bit_set_fld fld_disjoint_def)

lemma fld_less: "snd f < 64 \<Longrightarrow> unat (fld f w) < 2 ^ snd f"
  by (simp add: fld_def unsigned_take_bit_eq )

text \<open>The C macros \<open>BITMASK\<close>, \<open>BITS\<close> and \<open>SEXT\<close> on the 32-bit instruction word. \<open>BITMASK\<close> shifts an
  \<open>int\<close>, so it is used with fewer than 31 bits only.\<close>

definition BITMASK :: "nat \<Rightarrow> uint32" where
  "BITMASK bits = push_bit bits 1 - 1"

definition BITS :: "uint32 \<Rightarrow> nat \<Rightarrow> nat \<Rightarrow> uint32" where
  "BITS x hi lo = drop_bit lo x AND BITMASK (hi - lo + 1)"

definition SEXT :: "uint32 \<Rightarrow> nat \<Rightarrow> uint64" where
  "SEXT x len = signed_take_bit (len - 1) (ucast x)"

lemma BITMASK_mask: "BITMASK bits = mask bits"
  by (simp add: BITMASK_def mask_eq_decr_exp push_bit_eq_mult)

lemma bit_BITS: "bit (BITS x hi lo) i \<longleftrightarrow> lo + i \<le> max lo hi \<and> bit x (lo + i)"
  by (cases "lo \<le> hi") (auto simp: BITS_def BITMASK_mask bit_simps dest: bit_imp_le_length)

section \<open>Machine words\<close>

lemma of_nat_eq64: "a < 2 ^ 64 \<Longrightarrow> b < 2 ^ 64 \<Longrightarrow> (of_nat a :: uint64) = of_nat b \<longleftrightarrow> a = b"
  by (simp add: word_of_nat_eq_iff take_bit_nat_eq_self)

section \<open>First match\<close>

text \<open>A decode table is a list of guarded alternatives; the first guard that holds decides.\<close>

fun first_match :: "(bool \<times> 'a) list \<Rightarrow> 'a \<Rightarrow> 'a" where
  "first_match [] d = d"
| "first_match ((b, x) # es) d = (if b then x else first_match es d)"

lemma first_match_P:
  assumes "P d" "\<And>b x. (b, x) \<in> set es \<Longrightarrow> b \<Longrightarrow> P x"
  shows "P (first_match es d)"
  using assms by (induction es d rule: first_match.induct) auto

lemma first_match_append:
  "first_match (xs @ ys) d = first_match xs (first_match ys d)"
  by (induction xs d rule: first_match.induct) auto

end
