(* ===== verification/Machine.thy ===== *)
theory Machine
  imports Prelude
begin

text \<open>
  The state of the riscv64 interpreter: the register file and execution state of
  \<open>riscv64_CPU_state\<close>, the decode record \<open>Decode\<close> with the C pointers of its operands as an explicit
  datatype, and the globals of the emulator (CSR array, physical memory, MMU state, the store-commit
  queue, the temporaries of the RTL layer, the run state). The configuration is the one committed in
  \<open>include/generated/autoconf.h\<close>: 64-bit interpreter in system mode, built as a difftest reference
  (\<open>CONFIG_SHARE\<close>), with run-time checks, guided execution, the store-commit queue and no devices.
  \<open>paddr_t\<close> is 32 bits wide there, because \<open>MBASE + MSIZE\<close> fits.
\<close>

section \<open>Enumerations\<close>

text \<open>\<open>enum { MMU_DIRECT, MMU_TRANSLATE, MMU_DYNAMIC }\<close> and \<open>enum { MEM_TYPE_IFETCH, ... }\<close>.\<close>

datatype mmu_mode = MMU_DIRECT | MMU_TRANSLATE | MMU_DYNAMIC

datatype mem_type = MEM_TYPE_IFETCH | MEM_TYPE_READ | MEM_TYPE_WRITE

definition MEM_RET_OK :: nat where "MEM_RET_OK = 0"
definition MEM_RET_FAIL :: nat where "MEM_RET_FAIL = 1"
definition MEM_RET_CROSS_PAGE :: nat where "MEM_RET_CROSS_PAGE = 2"

text \<open>Privilege modes; \<open>cpu.mode\<close> is a \<open>uint64_t\<close>.\<close>

definition MODE_U :: uint64 where "MODE_U = 0"
definition MODE_S :: uint64 where "MODE_S = 1"
definition MODE_H :: uint64 where "MODE_H = 2"
definition MODE_M :: uint64 where "MODE_M = 3"

lemmas mode_defs = MODE_U_def MODE_S_def MODE_H_def MODE_M_def

text \<open>Exception causes (\<open>enum EX_*\<close>).\<close>

definition EX_IAM :: uint64 where "EX_IAM = 0"
definition EX_IAF :: uint64 where "EX_IAF = 1"
definition EX_II :: uint64 where "EX_II = 2"
definition EX_BP :: uint64 where "EX_BP = 3"
definition EX_LAM :: uint64 where "EX_LAM = 4"
definition EX_LAF :: uint64 where "EX_LAF = 5"
definition EX_SAM :: uint64 where "EX_SAM = 6"
definition EX_SAF :: uint64 where "EX_SAF = 7"
definition EX_ECU :: uint64 where "EX_ECU = 8"
definition EX_ECS :: uint64 where "EX_ECS = 9"
definition EX_ECM :: uint64 where "EX_ECM = 11"
definition EX_IPF :: uint64 where "EX_IPF = 12"
definition EX_LPF :: uint64 where "EX_LPF = 13"
definition EX_SPF :: uint64 where "EX_SPF = 15"

lemmas ex_defs = EX_IAM_def EX_IAF_def EX_II_def EX_BP_def EX_LAM_def EX_LAF_def EX_SAM_def EX_SAF_def
  EX_ECU_def EX_ECS_def EX_ECM_def EX_IPF_def EX_LPF_def EX_SPF_def

text \<open>\<open>longjmp\<close> causes of the execution loop and the run state of the monitor.\<close>

definition NEMU_EXEC_END :: nat where "NEMU_EXEC_END = 1"
definition NEMU_EXEC_AGAIN :: nat where "NEMU_EXEC_AGAIN = 2"
definition NEMU_EXEC_EXCEPTION :: nat where "NEMU_EXEC_EXCEPTION = 3"

lemmas exec_cause_defs = NEMU_EXEC_END_def NEMU_EXEC_AGAIN_def NEMU_EXEC_EXCEPTION_def

definition SYS_STATE_UPDATE :: uint32 where "SYS_STATE_UPDATE = 1"
definition SYS_STATE_FLUSH_TCACHE :: uint32 where "SYS_STATE_FLUSH_TCACHE = 2"

datatype nemu_run = NEMU_RUNNING | NEMU_STOP | NEMU_END | NEMU_ABORT | NEMU_QUIT

record nemu_state_t =
  nstate :: nemu_run
  halt_pc :: uint64
  halt_ret :: uint32

text \<open>\<open>INSTR_TYPE_*\<close> of a decoded instruction.\<close>

datatype instr_type = INSTR_TYPE_N | INSTR_TYPE_J | INSTR_TYPE_B | INSTR_TYPE_I

section \<open>Operands\<close>

text \<open>The objects an operand pointer of the interpreter can designate: a register of the two register
  files (the 5-bit index is the one \<open>check_reg_index\<close> asserts), the dummy destination \<open>zero_null\<close> that
  replaces \<open>x0\<close>, a temporary of the RTL layer, and the read-only word \<open>rzero\<close>. An \<open>Operand\<close> is a
  union of such a pointer and an immediate.\<close>

datatype tmp = S0 | S1 | S2 | T0

datatype ptr = PGpr "5 word" | PFpr "5 word" | PZeroNull | PTmp tmp | PRz

datatype operand = Oreg ptr | Oimm uint64

record decode =
  d_pc :: uint64
  d_snpc :: uint64
  d_src1 :: operand
  d_src2 :: operand
  d_dest :: operand
  d_jnpc :: uint64
  d_type :: instr_type
  d_idx_in_bb :: "16 word"
  d_instr :: uint32

section \<open>Machine state\<close>

record execution_guide_t =
  exceptionNo :: uint64
  guide_mtval :: uint64
  guide_stval :: uint64

text \<open>The shadow CSRs that \<open>riscv64_CPU_state\<close> keeps for the difftest register copy.\<close>

record shadow_csrs =
  sh_mstatus :: uint64
  sh_mcause :: uint64
  sh_mepc :: uint64
  sh_sstatus :: uint64
  sh_scause :: uint64
  sh_sepc :: uint64
  sh_satp :: uint64
  sh_mip :: uint64
  sh_mie :: uint64
  sh_mscratch :: uint64
  sh_sscratch :: uint64
  sh_mideleg :: uint64
  sh_medeleg :: uint64
  sh_mtval :: uint64
  sh_stval :: uint64
  sh_mtvec :: uint64
  sh_stvec :: uint64

record cpu_state =
  gpr :: "5 word \<Rightarrow> uint64"
  fpr :: "5 word \<Rightarrow> uint64"
  cpu_pc :: uint64
  shadow :: shadow_csrs
  mode :: uint64
  amo :: bool
  mem_exception :: nat
  lr_addr :: uint64
  lr_valid :: uint64
  INTR :: bool
  guided_exec :: bool
  execution_guide :: execution_guide_t

record store_commit =
  sc_addr :: uint64
  sc_data :: uint64
  sc_mask :: uint8
  sc_valid :: uint8

text \<open>An entry of the host TLB: the guest page and the offset from guest virtual to host addresses.\<close>

record HostTLBEntry =
  tlb_offset :: uint64
  tlb_gvpn :: uint64

record machine =
  cpu :: cpu_state
  csr :: "12 word \<Rightarrow> uint64"
  csr_perf :: uint64
  pmem :: "uint64 \<Rightarrow> uint8"
  ifetch_mmu_state :: mmu_mode
  data_mmu_state :: mmu_mode
  tmp_reg :: "tmp \<Rightarrow> uint64"
  zero_null :: uint64
  nemu_state :: nemu_state_t
  g_ex_cause :: uint64
  g_sys_state_flag :: uint32
  g_nr_guest_instr :: uint64
  n_remain_total :: uint64
  n_remain :: int
  cur_s :: decode
  store_commit_queue :: "store_commit list"
  scq_head :: uint64
  scq_tail :: uint64
  scq_overflow :: bool
  hostrtlb :: "12 word \<Rightarrow> HostTLBEntry"
  hostwtlb :: "12 word \<Rightarrow> HostTLBEntry"
  last_addr :: "mem_type \<Rightarrow> uint64"
  force_count :: "mem_type \<Rightarrow> int"
  nemu_rm_cache :: uint32
  last_rm :: uint32
  softfloat_roundingMode :: uint8
  softfloat_exceptionFlags :: uint8

type_synonym 'a nemu = "(machine, 'a) m"

section \<open>Leaving through \<open>longjmp\<close>\<close>

definition longjmp_exec :: "nat \<Rightarrow> 'a nemu" where
  "longjmp_exec cause = jump cause"

definition longjmp_exception :: "uint64 \<Rightarrow> 'a nemu" where
  "longjmp_exception ex_cause =
     thn (modify (\<lambda>st. st\<lparr>cpu := (cpu st)\<lparr>guided_exec := False\<rparr>, g_ex_cause := ex_cause\<rparr>))
         (longjmp_exec NEMU_EXEC_EXCEPTION)"

definition set_sys_state_flag :: "uint32 \<Rightarrow> unit nemu" where
  "set_sys_state_flag flag = modify (\<lambda>st. st\<lparr>g_sys_state_flag := g_sys_state_flag st OR flag\<rparr>)"

definition set_nemu_state :: "nemu_run \<Rightarrow> uint64 \<Rightarrow> uint32 \<Rightarrow> unit nemu" where
  "set_nemu_state s pc r = modify (\<lambda>st. st\<lparr>nemu_state := \<lparr>nstate = s, halt_pc = pc, halt_ret = r\<rparr>\<rparr>)"

lemma longjmp_exception_apply [m_simps]:
  "longjmp_exception ex st =
     LongJmp NEMU_EXEC_EXCEPTION (st\<lparr>cpu := (cpu st)\<lparr>guided_exec := False\<rparr>, g_ex_cause := ex\<rparr>)"
  by (simp add: longjmp_exception_def longjmp_exec_def m_simps)

section \<open>Reading and writing through operand pointers\<close>

fun read_ptr :: "machine \<Rightarrow> ptr \<Rightarrow> uint64" where
  "read_ptr st (PGpr r) = gpr (cpu st) r"
| "read_ptr st (PFpr r) = fpr (cpu st) r"
| "read_ptr st PZeroNull = zero_null st"
| "read_ptr st (PTmp t) = tmp_reg st t"
| "read_ptr st PRz = 0"

text \<open>A store through \<open>rz\<close> would hit a \<open>const\<close> object in read-only memory.\<close>

fun write_ptr :: "ptr \<Rightarrow> uint64 \<Rightarrow> unit nemu" where
  "write_ptr (PGpr r) v = modify (\<lambda>st. st\<lparr>cpu := (cpu st)\<lparr>gpr := (gpr (cpu st))(r := v)\<rparr>\<rparr>)"
| "write_ptr (PFpr r) v = modify (\<lambda>st. st\<lparr>cpu := (cpu st)\<lparr>fpr := (fpr (cpu st))(r := v)\<rparr>\<rparr>)"
| "write_ptr PZeroNull v = modify (\<lambda>st. st\<lparr>zero_null := v\<rparr>)"
| "write_ptr (PTmp t) v = modify (\<lambda>st. st\<lparr>tmp_reg := (tmp_reg st)(t := v)\<rparr>)"
| "write_ptr PRz v = die Host_fault"

text \<open>Reading the member of an operand that the decoder did not set would reinterpret a pointer as a
  number or a number as a pointer; both are host faults of the model.\<close>

fun preg :: "operand \<Rightarrow> ptr nemu" where
  "preg (Oreg p) = ret p"
| "preg (Oimm w) = die Host_fault"

fun imm :: "operand \<Rightarrow> uint64 nemu" where
  "imm (Oimm w) = ret w"
| "imm (Oreg p) = die Host_fault"

text \<open>The macros \<open>ddest\<close>, \<open>dsrc1\<close>, \<open>dsrc2\<close> and the three immediates.\<close>

definition with_ddest :: "decode \<Rightarrow> (ptr \<Rightarrow> 'a nemu) \<Rightarrow> 'a nemu" where
  "with_ddest s k = bnd (preg (d_dest s)) k"

definition with_dsrc1 :: "decode \<Rightarrow> (ptr \<Rightarrow> 'a nemu) \<Rightarrow> 'a nemu" where
  "with_dsrc1 s k = bnd (preg (d_src1 s)) k"

definition with_dsrc2 :: "decode \<Rightarrow> (ptr \<Rightarrow> 'a nemu) \<Rightarrow> 'a nemu" where
  "with_dsrc2 s k = bnd (preg (d_src2 s)) k"

lemmas with_defs = with_ddest_def with_dsrc1_def with_dsrc2_def

lemma write_ptr_cases:
  "write_ptr p v st = (case p of
     PGpr r \<Rightarrow> Ret () (st\<lparr>cpu := (cpu st)\<lparr>gpr := (gpr (cpu st))(r := v)\<rparr>\<rparr>)
   | PFpr r \<Rightarrow> Ret () (st\<lparr>cpu := (cpu st)\<lparr>fpr := (fpr (cpu st))(r := v)\<rparr>\<rparr>)
   | PZeroNull \<Rightarrow> Ret () (st\<lparr>zero_null := v\<rparr>)
   | PTmp t \<Rightarrow> Ret () (st\<lparr>tmp_reg := (tmp_reg st)(t := v)\<rparr>)
   | PRz \<Rightarrow> Crash Host_fault)"
  by (cases p) (simp_all add: m_simps)

section \<open>The machine at program start\<close>

text \<open>C objects with static storage duration start at zero unless they have an initialiser. The ones
  here that do are \<open>nemu_state\<close> and \<open>last_rm\<close>; the enumerators of value 0 are \<open>MMU_DIRECT\<close> and
  \<open>INSTR_TYPE_N\<close>, and a null operand pointer is the immediate 0.\<close>

definition static_decode :: decode where
  "static_decode = \<lparr>d_pc = 0, d_snpc = 0, d_src1 = Oimm 0, d_src2 = Oimm 0, d_dest = Oimm 0, d_jnpc = 0,
     d_type = INSTR_TYPE_N, d_idx_in_bb = 0, d_instr = 0\<rparr>"

definition static_shadow :: shadow_csrs where
  "static_shadow = \<lparr>sh_mstatus = 0, sh_mcause = 0, sh_mepc = 0, sh_sstatus = 0, sh_scause = 0, sh_sepc = 0,
     sh_satp = 0, sh_mip = 0, sh_mie = 0, sh_mscratch = 0, sh_sscratch = 0, sh_mideleg = 0, sh_medeleg = 0,
     sh_mtval = 0, sh_stval = 0, sh_mtvec = 0, sh_stvec = 0\<rparr>"

definition static_cpu :: cpu_state where
  "static_cpu = \<lparr>gpr = (\<lambda>_. 0), fpr = (\<lambda>_. 0), cpu_pc = 0, shadow = static_shadow, mode = 0, amo = False,
     mem_exception = 0, lr_addr = 0, lr_valid = 0, INTR = False, guided_exec = False,
     execution_guide = \<lparr>exceptionNo = 0, guide_mtval = 0, guide_stval = 0\<rparr>\<rparr>"

definition static_machine :: machine where
  "static_machine = \<lparr>cpu = static_cpu, csr = (\<lambda>_. 0), csr_perf = 0, pmem = (\<lambda>_. 0),
     ifetch_mmu_state = MMU_DIRECT, data_mmu_state = MMU_DIRECT, tmp_reg = (\<lambda>_. 0), zero_null = 0,
     nemu_state = \<lparr>nstate = NEMU_STOP, halt_pc = 0, halt_ret = 0\<rparr>, g_ex_cause = 0, g_sys_state_flag = 0,
     g_nr_guest_instr = 0, n_remain_total = 0, n_remain = 0, cur_s = static_decode,
     store_commit_queue = replicate 48 \<lparr>sc_addr = 0, sc_data = 0, sc_mask = 0, sc_valid = 0\<rparr>,
     scq_head = 0, scq_tail = 0, scq_overflow = False,
     hostrtlb = (\<lambda>_. \<lparr>tlb_offset = 0, tlb_gvpn = 0\<rparr>), hostwtlb = (\<lambda>_. \<lparr>tlb_offset = 0, tlb_gvpn = 0\<rparr>),
     last_addr = (\<lambda>_. 0), force_count = (\<lambda>_. 0), nemu_rm_cache = 0, last_rm = -1,
     softfloat_roundingMode = 0, softfloat_exceptionFlags = 0\<rparr>"

lemmas static_defs = static_decode_def static_shadow_def static_cpu_def static_machine_def

lemma static_simps [simp]:
  "gpr (cpu static_machine) = (\<lambda>_. 0)" "fpr (cpu static_machine) = (\<lambda>_. 0)"
  "cpu_pc (cpu static_machine) = 0" "mode (cpu static_machine) = 0" "amo (cpu static_machine) = False"
  "lr_addr (cpu static_machine) = 0" "lr_valid (cpu static_machine) = 0"
  "guided_exec (cpu static_machine) = False" "csr static_machine = (\<lambda>_. 0)" "csr_perf static_machine = 0"
  "pmem static_machine = (\<lambda>_. 0)"
  "ifetch_mmu_state static_machine = MMU_DIRECT" "data_mmu_state static_machine = MMU_DIRECT"
  "tmp_reg static_machine = (\<lambda>_. 0)" "zero_null static_machine = 0"
  "nstate (nemu_state static_machine) = NEMU_STOP" "scq_overflow static_machine = False"
  "store_commit_queue static_machine = replicate 48 \<lparr>sc_addr = 0, sc_data = 0, sc_mask = 0, sc_valid = 0\<rparr>"
  "scq_head static_machine = 0" "scq_tail static_machine = 0" "cur_s static_machine = static_decode"
  "n_remain static_machine = 0" "g_nr_guest_instr static_machine = 0" "g_ex_cause static_machine = 0"
  by (simp_all add: static_machine_def static_cpu_def)

end
