(* ===== verification/ExecId.thy ===== *)
theory ExecId
  imports Machine
begin

text \<open>
  The instruction identities \<open>EXEC_ID_*\<close> (\<open>src/isa/riscv64/include/isa-all-instr.h\<close>), grouped by the
  directory of \<open>instr/\<close> that holds the execution helper. A load or store has one identity per MMU mode,
  as the macro \<open>def_all_ldst\<close> generates them.
\<close>

datatype id_special =
  ID_inv | ID_rt_inv | ID_nemu_trap

datatype id_rvi =
  ID_add | ID_sub | ID_sll | ID_sra | ID_srl | ID_slt | ID_sltu | ID_xor | ID_or | ID_and
  | ID_addi | ID_slli | ID_srai | ID_srli | ID_slti | ID_sltui | ID_xori | ID_ori | ID_andi
  | ID_auipc | ID_lui | ID_addw | ID_subw | ID_sllw | ID_srlw | ID_sraw | ID_addiw
  | ID_slliw | ID_srliw | ID_sraiw | ID_jal | ID_jalr | ID_beq | ID_bne | ID_blt | ID_bge
  | ID_bltu | ID_bgeu | ID_fence_i | ID_fence

datatype id_pseudo =
  ID_p_sext_w | ID_p_blez | ID_p_bgtz | ID_p_bltz | ID_p_bgez | ID_p_jal | ID_p_ret
  | ID_p_li_0 | ID_p_li_1 | ID_p_inc | ID_p_dec

datatype id_rvc =
  ID_c_j | ID_c_jr | ID_c_jalr | ID_c_beqz | ID_c_bnez | ID_c_li | ID_c_addi | ID_c_addiw
  | ID_c_slli | ID_c_srli | ID_c_srai | ID_c_andi | ID_c_mv | ID_c_add | ID_c_and | ID_c_or
  | ID_c_xor | ID_c_sub | ID_c_addw | ID_c_subw

datatype id_rvm =
  ID_mul | ID_mulh | ID_mulhu | ID_mulhsu | ID_div | ID_divu | ID_rem | ID_remu | ID_mulw
  | ID_divw | ID_remw | ID_divuw | ID_remuw

datatype id_rvb =
  ID_clz | ID_ctz | ID_cpop | ID_sext_b | ID_sext_h | ID_zext_h | ID_rev8 | ID_orc_b
  | ID_clzw | ID_ctzw | ID_cpopw | ID_andn | ID_orn | ID_xnor | ID_rol | ID_rolw | ID_ror
  | ID_rori | ID_rorw | ID_roriw | ID_bclr | ID_bclri | ID_bset | ID_bseti | ID_binv
  | ID_binvi | ID_bext | ID_bexti | ID_clmul | ID_clmulr | ID_clmulh | ID_min | ID_minu
  | ID_max | ID_maxu | ID_adduw | ID_slliuw | ID_sh1add | ID_sh2add | ID_sh3add
  | ID_sh1adduw | ID_sh2adduw | ID_sh3adduw

datatype id_rvf =
  ID_fadds | ID_fsubs | ID_fmuls | ID_fdivs | ID_fmins | ID_fmaxs | ID_fsqrts | ID_fmadds
  | ID_fmsubs | ID_fnmsubs | ID_fnmadds | ID_fles | ID_flts | ID_feqs | ID_fcvt_s_w
  | ID_fcvt_s_wu | ID_fcvt_s_l | ID_fcvt_s_lu | ID_fcvt_w_s | ID_fcvt_wu_s | ID_fcvt_l_s
  | ID_fcvt_lu_s | ID_fsgnjs | ID_fsgnjns | ID_fsgnjxs | ID_fmv_x_w | ID_fmv_w_x
  | ID_fclasss

datatype id_rvd =
  ID_faddd | ID_fsubd | ID_fmuld | ID_fdivd | ID_fmaxd | ID_fmind | ID_fsqrtd | ID_fmaddd
  | ID_fmsubd | ID_fnmsubd | ID_fnmaddd | ID_fled | ID_fltd | ID_feqd | ID_fcvt_d_w
  | ID_fcvt_d_wu | ID_fcvt_d_l | ID_fcvt_d_lu | ID_fcvt_w_d | ID_fcvt_wu_d | ID_fcvt_l_d
  | ID_fcvt_lu_d | ID_fcvt_d_s | ID_fcvt_s_d | ID_fsgnjd | ID_fsgnjnd | ID_fsgnjxd
  | ID_fmv_x_d | ID_fmv_d_x | ID_fclassd

datatype id_ldst = ID_ld | ID_lw | ID_lh | ID_lb | ID_lwu | ID_lhu | ID_lbu | ID_sd | ID_sw | ID_sh | ID_sb

datatype id_fldst = ID_flw | ID_fsw | ID_fld | ID_fsd

datatype exec_id =
  Special id_special | Rvi id_rvi | LdSt id_ldst mmu_mode | Pseudo id_pseudo | Rvc id_rvc
  | Rvm id_rvm | Atomic | System | Rvb id_rvb | Rvf id_rvf | Rvd id_rvd | FLdSt id_fldst mmu_mode

end
