(* ===== verification/Fifo.thy ===== *)
theory Fifo
  imports Prelude
begin

text \<open>
  The contract of the bounded queues of the emulator (the store-commit queue, the keyboard queue and the
  serial input queue), as a locale: an invariant, the sequence a state stands for, and the laws of
  insertion and removal. The lemmas proved from the laws hold for every queue that interprets it. Rings
  are described through \<open>rotate\<close>, with the head of the ring at index 0.
\<close>

section \<open>Rings as rotated lists\<close>

lemma mod_wrap: "a < n \<Longrightarrow> i < n \<Longrightarrow> (a + i) mod n = (if a + i < n then a + i else a + i - (n::nat))"
  by (simp add: mod_if)
lemma mod_shift_inj:
  assumes "i < n" "j < n"
  shows "((h + i) mod n = (h + j) mod n) = (i = (j::nat))"
proof -
  have "(h + k) mod n = (h mod n + k) mod n" for k by (simp add: mod_add_left_eq)
  moreover have "h mod n < n" using assms by simp
  ultimately show ?thesis using assms by (auto simp: mod_wrap split: if_splits)
qed
lemma rotate_update:
  assumes "i < length xs"
  shows "rotate h (xs[(h + i) mod length xs := x]) = (rotate h xs)[i := x]"
proof (rule nth_equalityI)
  fix j assume "j < length (rotate h (xs[(h + i) mod length xs := x]))"
  then have j: "j < length xs" by simp
  then have "(h + i) mod length xs < length xs" using assms by (cases xs) auto
  with j assms show "rotate h (xs[(h + i) mod length xs := x]) ! j = (rotate h xs)[i := x] ! j"
    by (auto simp: nth_rotate nth_list_update mod_shift_inj)
qed simp
lemma takeWhile_split:
  assumes "\<forall>x\<in>set xs. P x" "\<forall>y\<in>set ys. \<not> P y"
  shows "takeWhile P (xs @ ys) = xs"
  using assms by (cases ys) (simp_all add: takeWhile_append)

section \<open>Operations and reference runs\<close>

datatype 'a fop = Enq 'a | Deq

text \<open>The outputs of a sequence of operations on an implementation and on the list it stands for; an
  insertion outputs \<open>None\<close>.\<close>

primrec run_ops :: "('a \<Rightarrow> 's \<Rightarrow> 's) \<Rightarrow> ('s \<Rightarrow> ('a \<times> 's) option) \<Rightarrow> 'a fop list \<Rightarrow> 's \<Rightarrow> 'a option list \<times> 's" where
  "run_ops e d [] s = ([], s)"
| "run_ops e d (x # xs) s = (case x of
     Enq a \<Rightarrow> (case run_ops e d xs (e a s) of (os, s') \<Rightarrow> (None # os, s'))
   | Deq \<Rightarrow> (case d s of None \<Rightarrow> (case run_ops e d xs s of (os, s') \<Rightarrow> (None # os, s'))
              | Some (a, s1) \<Rightarrow> (case run_ops e d xs s1 of (os, s') \<Rightarrow> (Some a # os, s'))))"

primrec run_list :: "'a fop list \<Rightarrow> 'a list \<Rightarrow> 'a option list \<times> 'a list" where
  "run_list [] q = ([], q)"
| "run_list (x # xs) q = (case x of
     Enq a \<Rightarrow> (case run_list xs (q @ [a]) of (os, q') \<Rightarrow> (None # os, q'))
   | Deq \<Rightarrow> (case q of [] \<Rightarrow> (case run_list xs [] of (os, q') \<Rightarrow> (None # os, q'))
              | a # q1 \<Rightarrow> (case run_list xs q1 of (os, q') \<Rightarrow> (Some a # os, q'))))"

text \<open>No insertion of the sequence meets a full queue.\<close>

primrec fits :: "nat \<Rightarrow> 'a fop list \<Rightarrow> nat \<Rightarrow> bool" where
  "fits c [] n = True"
| "fits c (x # xs) n = (case x of Enq a \<Rightarrow> n < c \<and> fits c xs (n + 1) | Deq \<Rightarrow> fits c xs (n - 1))"

section \<open>The contract\<close>

locale fifo =
  fixes inv :: "'s \<Rightarrow> bool" and abs :: "'s \<Rightarrow> 'a list" and cap :: nat
    and enq :: "'a \<Rightarrow> 's \<Rightarrow> 's" and deq :: "'s \<Rightarrow> ('a \<times> 's) option"
  assumes enq_inv: "inv s \<Longrightarrow> length (abs s) < cap \<Longrightarrow> inv (enq x s)"
    and enq_abs: "inv s \<Longrightarrow> length (abs s) < cap \<Longrightarrow> abs (enq x s) = abs s @ [x]"
    and deq_none: "inv s \<Longrightarrow> abs s = [] \<Longrightarrow> deq s = None"
    and deq_some: "inv s \<Longrightarrow> abs s = x # xs \<Longrightarrow> \<exists>s'. deq s = Some (x, s') \<and> inv s' \<and> abs s' = xs"
begin

lemma run_sim:
  assumes "inv s" "fits cap ops (length (abs s))"
  shows "fst (run_ops enq deq ops s) = fst (run_list ops (abs s))
    \<and> abs (snd (run_ops enq deq ops s)) = snd (run_list ops (abs s)) \<and> inv (snd (run_ops enq deq ops s))"
  using assms
proof (induction ops arbitrary: s)
  case (Cons x ops)
  show ?case
  proof (cases x)
    case (Enq a)
    with Cons.prems have "length (abs s) < cap" by simp
    with Cons.prems(1) have "inv (enq a s)" "abs (enq a s) = abs s @ [a]"
      by (auto intro: enq_inv enq_abs)
    with Cons.IH[of "enq a s"] Cons.prems Enq show ?thesis
      by (simp add: split_beta)
  next
    case Deq
    show ?thesis
    proof (cases "abs s")
      case Nil
      with Cons.IH[of s] Cons.prems Deq deq_none show ?thesis by (simp add: split_beta)
    next
      case (Cons y ys)
      from deq_some[OF Cons.prems(1) this] obtain s' where
        "deq s = Some (y, s')" "inv s'" "abs s' = ys" by blast
      with Cons Cons.IH[of s'] Cons.prems Deq show ?thesis by (simp add: split_beta)
    qed
  qed
qed simp

text \<open>Everything inserted comes out once, in the order of insertion.\<close>

lemma fifo_order:
  assumes "inv s" "abs s = []" "length xs \<le> cap"
  shows "fst (run_ops enq deq (map Enq xs @ replicate (length xs) Deq) s) =
    replicate (length xs) None @ map Some xs"
proof -
  have fits: "fits cap (map Enq ys @ zs) n" if "n + length ys \<le> cap" "fits cap zs (n + length ys)" for ys zs n
    using that by (induction ys arbitrary: n) auto
  have fits_deq: "fits cap (replicate k Deq) n" for k n by (induction k arbitrary: n) auto
  have deqs: "run_list (replicate (length ys) Deq) ys = (map Some ys, [])" for ys :: "'a list"
    by (induction ys) auto
  have enqs: "fst (run_list (map Enq ys @ zs) q) = replicate (length ys) None @ fst (run_list zs (q @ ys))"
    for ys zs and q :: "'a list"
    by (induction ys arbitrary: q) (auto simp: split_beta)
  from assms run_sim[OF assms(1), of "map Enq xs @ replicate (length xs) Deq"] show ?thesis
    by (simp add: fits fits_deq deqs enqs)
qed

end

end
