(* ===== verification/Memory.thy ===== *)
theory Memory
  imports Machine Fifo
begin

text \<open>
  Physical memory (\<open>src/memory/paddr.c\<close>, \<open>include/memory/paddr.h\<close>, \<open>include/memory/host.h\<close>): the
  guest-to-host address map, the range test, the little-endian host accesses, the physical read and
  write, and the store-commit queue that records every store for the difftest partner. The host
  buffer is the \<open>mmap\<close>ed region at \<open>0x100000000\<close>; \<open>pmem st\<close> gives the byte at a host address, and an
  access that leaves the region is a host fault.
\<close>

section \<open>Little-endian byte access\<close>

primrec load_le :: "(uint64 \<Rightarrow> uint8) \<Rightarrow> uint64 \<Rightarrow> nat \<Rightarrow> uint64" where
  "load_le h a 0 = 0"
| "load_le h a (Suc n) = ucast (h a) OR push_bit 8 (load_le h (a + 1) n)"

primrec store_le :: "(uint64 \<Rightarrow> uint8) \<Rightarrow> uint64 \<Rightarrow> nat \<Rightarrow> uint64 \<Rightarrow> (uint64 \<Rightarrow> uint8)" where
  "store_le h a 0 v = h"
| "store_le h a (Suc n) v = store_le (h(a := ucast v)) (a + 1) n (drop_bit 8 v)"

section \<open>Address map\<close>

definition CONFIG_MBASE :: uint32 where "CONFIG_MBASE = 0x80000000"
definition CONFIG_MSIZE :: uint32 where "CONFIG_MSIZE = 0x10000000"
definition pmem_base :: uint64 where "pmem_base = 0x100000000"

definition RESET_VECTOR :: uint64 where "RESET_VECTOR = ucast CONFIG_MBASE + 0"

lemmas config_defs = CONFIG_MBASE_def CONFIG_MSIZE_def pmem_base_def

definition HOST_PMEM_OFFSET :: uint64 where
  "HOST_PMEM_OFFSET = pmem_base - ucast CONFIG_MBASE"

definition guest_to_host :: "uint32 \<Rightarrow> uint64" where
  "guest_to_host paddr = ucast paddr + HOST_PMEM_OFFSET"

definition host_to_guest :: "uint64 \<Rightarrow> uint32" where
  "host_to_guest haddr = ucast (haddr - HOST_PMEM_OFFSET)"

definition in_pmem :: "uint32 \<Rightarrow> bool" where
  "in_pmem addr =
     (let mbase_mask = CONFIG_MBASE - 1;
          msize_mask = CONFIG_MSIZE - 1;
          mbase_align = CONFIG_MBASE AND mbase_mask = 0;
          msize_align = CONFIG_MSIZE AND msize_mask = 0;
          msize_inside_mbase = msize_mask \<le> mbase_mask
      in if mbase_align \<and> msize_align \<and> msize_inside_mbase
         then addr AND NOT msize_mask = CONFIG_MBASE
         else addr \<ge> CONFIG_MBASE \<and> addr < CONFIG_MBASE + CONFIG_MSIZE)"

text \<open>All \<open>len\<close> bytes at a host address lie in the mapped region.\<close>

definition host_mapped :: "uint64 \<Rightarrow> nat \<Rightarrow> bool" where
  "host_mapped a len \<longleftrightarrow>
     uint pmem_base \<le> uint a \<and> uint a + int len \<le> uint pmem_base + uint CONFIG_MSIZE"

definition host_read :: "uint64 \<Rightarrow> nat \<Rightarrow> uint64 nemu" where
  "host_read addr len =
     (if len = 1 \<or> len = 2 \<or> len = 4 \<or> len = 8
      then (if host_mapped addr len then gets (\<lambda>st. load_le (pmem st) addr len) else die Host_fault)
      else die Assert_fail)"

definition host_write :: "uint64 \<Rightarrow> nat \<Rightarrow> uint64 \<Rightarrow> unit nemu" where
  "host_write addr len data =
     (if len = 1 \<or> len = 2 \<or> len = 4 \<or> len = 8
      then (if host_mapped addr len then modify (\<lambda>st. st\<lparr>pmem := store_le (pmem st) addr len data\<rparr>)
            else die Host_fault)
      else die Assert_fail)"

section \<open>Store-commit queue\<close>

definition STORE_QUEUE_SIZE :: nat where "STORE_QUEUE_SIZE = 48"

text \<open>The data and mask that a store of \<open>len\<close> bytes at offset \<open>ofs\<close> of its doubleword leaves in the
  queue; \<open>None\<close> is the assertion on other lengths.\<close>

definition commit_data :: "uint64 \<Rightarrow> uint64 \<Rightarrow> nat \<Rightarrow> (uint64 \<times> uint8) option" where
  "commit_data ofs data len =
     (if len = 1 then Some (push_bit (unat (push_bit 3 ofs)) (data AND 0xff), push_bit (unat ofs) 0x1)
      else if len = 2 then Some (push_bit (unat (push_bit 3 ofs)) (data AND 0xffff), push_bit (unat ofs) 0x3)
      else if len = 4 then Some (push_bit (unat (push_bit 3 ofs)) (data AND 0xffffffff), push_bit (unat ofs) 0xf)
      else if len = 8 then Some (data, 0xff)
      else None)"

definition store_commit_queue_push :: "uint64 \<Rightarrow> uint64 \<Rightarrow> nat \<Rightarrow> unit nemu" where
  "store_commit_queue_push addr data len st =
     (if amo (cpu st) \<or> scq_overflow st then Ret () st
      else
        let t = unat (scq_tail st);
            overflow = (sc_valid (store_commit_queue st ! t) \<noteq> 0);
            ofs = addr mod 8
        in case commit_data ofs data len of
             None \<Rightarrow> Crash Assert_fail
           | Some (d, msk) \<Rightarrow> Ret () (st\<lparr>
               store_commit_queue := (store_commit_queue st)[t :=
                 \<lparr>sc_addr = addr - ofs, sc_data = d, sc_mask = msk, sc_valid = 1\<rparr>],
               scq_overflow := overflow,
               scq_tail := (scq_tail st + 1) mod of_nat STORE_QUEUE_SIZE\<rparr>))"

definition store_commit_queue_pop :: "store_commit option nemu" where
  "store_commit_queue_pop st =
     (let h = unat (scq_head st); result = store_commit_queue st ! h
      in if sc_valid result = 0 then Ret None st
         else Ret (Some (result\<lparr>sc_valid := 0\<rparr>)) (st\<lparr>
           store_commit_queue := (store_commit_queue st)[h := result\<lparr>sc_valid := 0\<rparr>],
           scq_head := (scq_head st + 1) mod of_nat STORE_QUEUE_SIZE\<rparr>))"

text \<open>\<open>check_store_commit\<close> compares the partner's store with the oldest recorded one; it returns the
  verdict (0 is agreement) and the three words it leaves in the caller's variables.\<close>

definition check_store_commit ::
  "uint64 \<Rightarrow> uint64 \<Rightarrow> uint8 \<Rightarrow> (nat \<times> uint64 \<times> uint64 \<times> uint8) nemu" where
  "check_store_commit addr0 data msk =
     (let addr = addr0 - addr0 mod 8 in
      bnd store_commit_queue_pop (\<lambda>commit. ret (case commit of
          None \<Rightarrow> (1, addr, data, msk)
        | Some c \<Rightarrow> (if addr \<noteq> sc_addr c \<or> data \<noteq> sc_data c \<or> msk \<noteq> sc_mask c
                     then (1, sc_addr c, sc_data c, sc_mask c)
                     else (0, addr, data, msk)))))"

section \<open>Physical reads and writes\<close>

definition pmem_read :: "uint32 \<Rightarrow> nat \<Rightarrow> uint64 nemu" where
  "pmem_read addr len = host_read (guest_to_host addr) len"

definition pmem_write :: "uint32 \<Rightarrow> nat \<Rightarrow> uint64 \<Rightarrow> unit nemu" where
  "pmem_write addr len data =
     thn (store_commit_queue_push (ucast addr) data len) (host_write (guest_to_host addr) len data)"

definition paddr_read :: "uint32 \<Rightarrow> nat \<Rightarrow> uint64 nemu" where
  "paddr_read addr len = (if in_pmem addr then pmem_read addr len else longjmp_exception EX_II)"

definition paddr_write :: "uint32 \<Rightarrow> nat \<Rightarrow> uint64 \<Rightarrow> unit nemu" where
  "paddr_write addr len data = (if in_pmem addr then pmem_write addr len data else longjmp_exception EX_II)"

text \<open>\<open>init_mem\<close> maps the region (zero-filled by the kernel) and empties the queue; head and tail are
  static zeros.\<close>

definition init_mem :: "machine \<Rightarrow> machine" where
  "init_mem st = st\<lparr>pmem := (\<lambda>_. 0),
     store_commit_queue := map (sc_valid_update (\<lambda>_. 0)) (store_commit_queue st)\<rparr>"

section \<open>Facts about byte access and addresses\<close>

lemma bit_load_le:
  "bit (load_le h a n) i \<longleftrightarrow> i < 64 \<and> i div 8 < n \<and> bit (h (a + of_nat (i div 8))) (i mod 8)"
proof (induction n arbitrary: a i)
  case (Suc n)
  show ?case
  proof (cases "i < 8")
    case True
    then show ?thesis by (auto simp: bit_simps)
  next
    case False
    then obtain j where j: "i = j + 8" by (metis add.commute le_Suc_ex not_less)
    then have d: "i div 8 = Suc (j div 8)" "i mod 8 = j mod 8" by simp_all
    have e: "a + 1 + of_nat (j div 8) = a + of_nat (i div 8)" by (simp add: d algebra_simps)
    have "\<not> bit (h a) i" using False by (auto dest: bit_imp_le_length)
    then show ?thesis
      by (auto simp: bit_simps Suc.IH e j)
  qed
qed simp

lemma store_le_other:
  "(\<forall>k<n. x \<noteq> a + of_nat k) \<Longrightarrow> store_le h a n v x = h x"
proof (induction n arbitrary: h a v)
  case (Suc n)
  have "\<forall>k<n. x \<noteq> (a + 1) + of_nat k"
  proof (intro allI impI)
    fix k assume "k < n"
    then have "Suc k < Suc n" by simp
    with Suc.prems have "x \<noteq> a + of_nat (Suc k)" by blast
    then show "x \<noteq> a + 1 + of_nat k" by (simp add: algebra_simps)
  qed
  moreover have "x \<noteq> a" using Suc.prems by force
  ultimately show ?case by (simp add: Suc.IH)
qed simp

lemma store_le_at:
  "k < n \<Longrightarrow> n \<le> 8 \<Longrightarrow> store_le h a n v (a + of_nat k) = ucast (drop_bit (8 * k) v)"
proof (induction n arbitrary: h a v k)
  case (Suc n)
  show ?case
  proof (cases k)
    case 0
    have "\<forall>j<n. a \<noteq> (a + 1) + of_nat j"
    proof (intro allI impI notI)
      fix j assume "j < n" "a = (a + 1) + of_nat j"
      then have "(of_nat (Suc j) :: uint64) = 0" by (metis add.assoc add_cancel_right_right of_nat_Suc)
      then have "(of_nat (Suc j) :: uint64) = of_nat 0" by simp
      then have "Suc j = 0" by (subst (asm) of_nat_eq64) (use \<open>j < n\<close> Suc.prems in auto)
      then show False by simp
    qed
    with 0 show ?thesis by (simp add: store_le_other)
  next
    case (Suc j)
    have "store_le (h(a := ucast v)) (a + 1) n (drop_bit 8 v) (a + 1 + of_nat j) = ucast (drop_bit (8 * j) (drop_bit 8 v))"
      using Suc Suc.prems by (intro Suc.IH) auto
    then show ?thesis using Suc by (simp add: algebra_simps drop_bit_drop_bit)
  qed
qed simp

lemma load_store_same:
  assumes "n \<le> 8"
  shows "load_le (store_le h a n v) a n = take_bit (8 * n) v"
proof (rule bit_word_eqI)
  fix i assume "i < LENGTH(64)"
  show "bit (load_le (store_le h a n v) a n) i \<longleftrightarrow> bit (take_bit (8 * n) v) i"
  proof (cases "i div 8 < n")
    case True
    then have "i < 8 * n" by (simp add: less_mult_imp_div_less mult.commute div_less_iff_less_mult)
    with True assms \<open>i < LENGTH(64)\<close> show ?thesis
      by (simp add: bit_load_le store_le_at bit_simps)
  next
    case False
    then have "\<not> i < 8 * n" by (simp add: div_less_iff_less_mult mult.commute)
    with False show ?thesis by (simp add: bit_load_le bit_simps)
  qed
qed

lemma in_pmem_iff: "in_pmem a \<longleftrightarrow> drop_bit 28 a = 8"
proof -
  have "in_pmem a \<longleftrightarrow> a AND NOT (mask 28) = 0x80000000"
    by (simp add: in_pmem_def config_defs mask_eq_exp_minus_1)
  also have "\<dots> \<longleftrightarrow> drop_bit 28 a = 8"
  proof
    assume "a AND NOT (mask 28) = 0x80000000"
    then have "drop_bit 28 (a AND NOT (mask 28)) = drop_bit 28 (0x80000000 :: uint32)" by simp
    moreover have "drop_bit 28 (a AND NOT (mask 28)) = drop_bit 28 a"
      by (rule bit_word_eqI) (auto simp: bit_simps dest: bit_imp_le_length)
    ultimately show "drop_bit 28 a = 8" by simp
  next
    assume "drop_bit 28 a = 8"
    then have "push_bit 28 (drop_bit 28 a) = 0x80000000" by simp
    moreover have "a AND NOT (mask 28) = push_bit 28 (drop_bit 28 a)"
      by (rule bit_word_eqI) (auto simp: bit_simps)
    ultimately show "a AND NOT (mask 28) = 0x80000000" by simp
  qed
  finally show ?thesis .
qed

lemma in_pmem_range: "in_pmem a \<longleftrightarrow> 0x80000000 \<le> uint a \<and> uint a < 0x90000000"
proof -
  have "drop_bit 28 a = 8 \<longleftrightarrow> uint a div 2 ^ 28 = 8"
    by (subst word_uint_eq_iff) (simp add: drop_bit_eq_div uint_div_distrib)
  then show ?thesis by (simp add: in_pmem_iff) linarith
qed

lemma guest_to_host_uint: "in_pmem a \<Longrightarrow> uint (guest_to_host a) = uint a + 0x80000000"
  by (simp add: in_pmem_range guest_to_host_def HOST_PMEM_OFFSET_def config_defs uint_word_arith_bintrs
      unsigned_ucast_eq take_bit_int_eq_self)

lemma host_mapped_pmem:
  assumes "in_pmem a" "uint a + int n \<le> 0x90000000"
  shows "host_mapped (guest_to_host a) n"
proof -
  have r: "0x80000000 \<le> uint a" "uint a < 0x90000000" using assms(1) by (simp_all add: in_pmem_range)
  have "uint (guest_to_host a) = uint a + 0x80000000" using assms(1) by (rule guest_to_host_uint)
  then show ?thesis using r assms(2) by (simp add: host_mapped_def config_defs)
qed

section \<open>The queue as an interpretation of the FIFO contract\<close>

type_synonym scq = "store_commit list \<times> uint64 \<times> uint64"
type_synonym commit = "uint64 \<times> uint64 \<times> uint8"

definition scq_of :: "machine \<Rightarrow> scq" where
  "scq_of st = (store_commit_queue st, scq_head st, scq_tail st)"

definition entry :: "store_commit \<Rightarrow> commit" where
  "entry c = (sc_addr c, sc_data c, sc_mask c)"

definition scq_rot :: "scq \<Rightarrow> store_commit list" where
  "scq_rot q = (case q of (xs, h, t) \<Rightarrow> rotate (unat h) xs)"

definition scq_valid :: "store_commit \<Rightarrow> bool" where
  "scq_valid c \<longleftrightarrow> sc_valid c \<noteq> 0"

definition scq_abs :: "scq \<Rightarrow> commit list" where
  "scq_abs q = map entry (takeWhile scq_valid (scq_rot q))"

definition scq_inv :: "scq \<Rightarrow> bool" where
  "scq_inv q \<longleftrightarrow> (case q of (xs, h, t) \<Rightarrow>
     length xs = 48 \<and> unat h < 48 \<and> unat t = (unat h + length (scq_abs q)) mod 48 \<and>
     (\<forall>c \<in> set (dropWhile scq_valid (scq_rot q)). \<not> scq_valid c))"

definition scq_enq :: "commit \<Rightarrow> scq \<Rightarrow> scq" where
  "scq_enq e q = (case (e, q) of ((a, d, m), (xs, h, t)) \<Rightarrow>
     (xs[unat t := \<lparr>sc_addr = a, sc_data = d, sc_mask = m, sc_valid = 1\<rparr>], h, (t + 1) mod 48))"

definition scq_deq :: "scq \<Rightarrow> (commit \<times> scq) option" where
  "scq_deq q = (case q of (xs, h, t) \<Rightarrow>
     let c = xs ! unat h in
     if \<not> scq_valid c then None
     else Some (entry c, (xs[unat h := c\<lparr>sc_valid := 0\<rparr>], (h + 1) mod 48, t)))"

lemma unat_succ48: "unat h < 48 \<Longrightarrow> unat ((h + 1) mod (48 :: uint64)) = Suc (unat h) mod 48"
  by (simp add: unat_mod_distrib unat_word_ariths)

text \<open>The shape of a well-formed ring: the valid entries come first.\<close>

lemma scq_invE:
  assumes "scq_inv (xs, h, t)"
  obtains vs us where "rotate (unat h) xs = vs @ us" "\<forall>c\<in>set vs. scq_valid c" "\<forall>c\<in>set us. \<not> scq_valid c"
    "length vs + length us = 48" "unat h < 48" "unat t = (unat h + length vs) mod 48" "length xs = 48"
    "scq_abs (xs, h, t) = map entry vs"
proof -
  let ?r = "rotate (unat h) xs"
  have "length (takeWhile scq_valid ?r) + length (dropWhile scq_valid ?r) = 48"
    using assms by (simp add: scq_inv_def flip: length_append)
  then show thesis
    using assms by (intro that[of "takeWhile scq_valid ?r" "dropWhile scq_valid ?r"])
      (auto simp: scq_inv_def scq_abs_def scq_rot_def dest: set_takeWhileD)
qed

lemma scq_invI:
  assumes "rotate (unat h) xs = vs @ us" "\<forall>c\<in>set vs. scq_valid c" "\<forall>c\<in>set us. \<not> scq_valid c"
    "length xs = 48" "unat h < 48" "unat t = (unat h + length vs) mod 48"
  shows "scq_inv (xs, h, t) \<and> scq_abs (xs, h, t) = map entry vs"
proof -
  have "takeWhile scq_valid (vs @ us) = vs" using assms(2,3) by (rule takeWhile_split)
  moreover have "dropWhile scq_valid (vs @ us) = us"
    using assms(2,3) by (cases us) (simp_all add: dropWhile_append)
  ultimately show ?thesis using assms by (simp add: scq_inv_def scq_abs_def scq_rot_def)
qed

lemma scq_enq_ok:
  assumes "scq_inv q" "length (scq_abs q) < 48"
  shows "scq_inv (scq_enq e q) \<and> scq_abs (scq_enq e q) = scq_abs q @ [e]"
proof -
  obtain xs h t where q: "q = (xs, h, t)" by (cases q)
  obtain a d m where e: "e = (a, d, m)" by (cases e)
  let ?c = "\<lparr>sc_addr = a, sc_data = d, sc_mask = m, sc_valid = 1\<rparr>"
  from assms(1) obtain vs us where
    r: "rotate (unat h) xs = vs @ us" and v: "\<forall>c\<in>set vs. scq_valid c" "\<forall>c\<in>set us. \<not> scq_valid c"
    and l: "length vs + length us = 48" "unat h < 48" "unat t = (unat h + length vs) mod 48" "length xs = 48"
    and a: "scq_abs (xs, h, t) = map entry vs"
    unfolding q by (rule scq_invE)
  from assms(2) a q l(1) have "length vs < 48" "us \<noteq> []" by auto
  then obtain u us' where us: "us = u # us'" by (cases us) auto
  have "rotate (unat h) (xs[unat t := ?c]) = (vs @ us)[length vs := ?c]"
    using rotate_update[of "length vs" xs "unat h" ?c] l r \<open>length vs < 48\<close> by simp
  also have "\<dots> = (vs @ [?c]) @ us'" by (simp add: us)
  finally have r': "rotate (unat h) (xs[unat t := ?c]) = (vs @ [?c]) @ us'" .
  have t': "unat ((t + 1) mod 48) = (unat h + length (vs @ [?c])) mod 48"
    using l by (simp add: unat_succ48 mod_Suc_eq)
  from scq_invI[OF r' _ _ _ l(2) t'] v us l a show ?thesis
    by (simp add: q e scq_enq_def scq_valid_def entry_def)
qed

lemma scq_deq_ok:
  assumes "scq_inv q" "scq_abs q = x # ys"
  shows "\<exists>q'. scq_deq q = Some (x, q') \<and> scq_inv q' \<and> scq_abs q' = ys"
proof -
  obtain xs h t where q: "q = (xs, h, t)" by (cases q)
  from assms(1) obtain vs us where
    r: "rotate (unat h) xs = vs @ us" and v: "\<forall>c\<in>set vs. scq_valid c" "\<forall>c\<in>set us. \<not> scq_valid c"
    and l: "length vs + length us = 48" "unat h < 48" "unat t = (unat h + length vs) mod 48" "length xs = 48"
    and a: "scq_abs (xs, h, t) = map entry vs"
    unfolding q by (rule scq_invE)
  from assms(2) a q obtain w ws where vs: "vs = w # ws" "entry w = x" "map entry ws = ys" by auto
  let ?c = "w\<lparr>sc_valid := 0\<rparr>"
  have hd: "xs ! unat h = w"
    using nth_rotate[of 0 xs "unat h"] l r vs by simp
  have "rotate (unat h) (xs[unat h := ?c]) = ?c # ws @ us"
    using rotate_update[of 0 xs "unat h" ?c] l r vs by simp
  then have "rotate (Suc (unat h)) (xs[unat h := ?c]) = ws @ us @ [?c]"
    by (simp del: rotate_Suc add: rotate_def)
  then have r': "rotate (unat ((h + 1) mod 48)) (xs[unat h := ?c]) = ws @ us @ [?c]"
    using l rotate_conv_mod[of "Suc (unat h)" "xs[unat h := ?c]"] by (simp add: unat_succ48)
  have t': "unat t = (unat ((h + 1) mod 48) + length ws) mod 48"
    using l vs by (simp add: unat_succ48 mod_add_left_eq)
  have h': "unat ((h + 1) mod 48) < 48" using l by (simp add: unat_succ48)
  from scq_invI[OF r' _ _ _ h' t'] v vs l hd show ?thesis
    by (simp add: q scq_deq_def scq_valid_def)
qed

interpretation scq: fifo scq_inv scq_abs 48 scq_enq scq_deq
proof unfold_locales
  fix q assume "scq_inv q" "scq_abs q = []"
  then show "scq_deq q = None"
  proof (cases q)
    case (fields xs h t)
    from \<open>scq_inv q\<close> obtain vs us where "rotate (unat h) xs = vs @ us" "\<forall>c\<in>set us. \<not> scq_valid c"
      "length vs + length us = 48" "unat h < 48" "length xs = 48" "scq_abs (xs, h, t) = map entry vs"
      unfolding fields by (rule scq_invE)
    with \<open>scq_abs q = []\<close> fields nth_rotate[of 0 xs "unat h"] show ?thesis
      by (cases us) (auto simp: scq_deq_def)
  qed
qed (use scq_enq_ok scq_deq_ok in blast)+

section \<open>The machine operations on the queue\<close>

definition commit_of :: "uint64 \<times> uint64 \<times> nat \<Rightarrow> commit option" where
  "commit_of w = (case w of (addr, data, len) \<Rightarrow>
     map_option (\<lambda>(d, m). (addr - addr mod 8, d, m)) (commit_data (addr mod 8) data len))"

lemma push_enq:
  assumes "scq_inv (scq_of st)" "length (scq_abs (scq_of st)) < 48"
    "\<not> amo (cpu st)" "\<not> scq_overflow st" "commit_of (addr, data, len) = Some e"
  shows "\<exists>st'. store_commit_queue_push addr data len st = Ret () st'
    \<and> scq_of st' = scq_enq e (scq_of st) \<and> \<not> scq_overflow st' \<and> cpu st' = cpu st \<and> pmem st' = pmem st"
proof -
  obtain d m where dm: "commit_data (addr mod 8) data len = Some (d, m)" "e = (addr - addr mod 8, d, m)"
    using assms(5) by (auto simp: commit_of_def split: prod.splits)
  let ?xs = "store_commit_queue st" let ?h = "scq_head st" let ?t = "scq_tail st"
  from assms(1) obtain vs us where
    r: "rotate (unat ?h) ?xs = vs @ us" "\<forall>c\<in>set us. \<not> scq_valid c" "length vs + length us = 48"
      "unat ?h < 48" "unat ?t = (unat ?h + length vs) mod 48" "length ?xs = 48"
      "scq_abs (?xs, ?h, ?t) = map entry vs"
    unfolding scq_of_def by (rule scq_invE)
  with assms(2) have vs: "length vs < 48" by (simp add: scq_of_def)
  have "?xs ! unat ?t = (vs @ us) ! length vs"
    using nth_rotate[of "length vs" ?xs "unat ?h"] r vs by simp
  then have "\<not> scq_valid (?xs ! unat ?t)" using r vs by (cases us) (auto simp: nth_append)
  then show ?thesis using assms dm
    by (simp add: store_commit_queue_push_def Let_def scq_of_def scq_enq_def STORE_QUEUE_SIZE_def scq_valid_def)
qed

lemma pop_deq:
  "store_commit_queue_pop st = (case scq_deq (scq_of st) of
     None \<Rightarrow> Ret None st
   | Some (e, (xs, h, t)) \<Rightarrow>
       Ret (Some ((store_commit_queue st ! unat (scq_head st))\<lparr>sc_valid := 0\<rparr>))
           (st\<lparr>store_commit_queue := xs, scq_head := h\<rparr>))"
  by (simp add: store_commit_queue_pop_def scq_deq_def scq_of_def Let_def scq_valid_def STORE_QUEUE_SIZE_def)

lemma pop_some:
  assumes "scq_inv (scq_of st)" "scq_abs (scq_of st) = e # es"
  shows "\<exists>c st'. store_commit_queue_pop st = Ret (Some c) st' \<and> entry c = e \<and> scq_inv (scq_of st')
    \<and> scq_abs (scq_of st') = es \<and> cpu st' = cpu st \<and> pmem st' = pmem st \<and> scq_overflow st' = scq_overflow st"
proof -
  from scq.deq_some[OF assms] obtain q' where q': "scq_deq (scq_of st) = Some (e, q')" "scq_inv q'" "scq_abs q' = es"
    by blast
  obtain xs h t where t: "q' = (xs, h, t)" by (cases q')
  with q' have "t = scq_tail st" "entry (store_commit_queue st ! unat (scq_head st)) = e"
    by (auto simp: scq_deq_def scq_of_def Let_def split: if_splits)
  with q' t show ?thesis by (simp add: pop_deq) (auto simp: scq_of_def entry_def)
qed

text \<open>Committing a list of stores, and draining the queue through the partner's checks.\<close>

primrec push_all :: "(uint64 \<times> uint64 \<times> nat) list \<Rightarrow> unit nemu" where
  "push_all [] = skip"
| "push_all (w # ws) = (case w of (a, d, l) \<Rightarrow> thn (store_commit_queue_push a d l) (push_all ws))"

primrec check_all :: "commit list \<Rightarrow> nat list nemu" where
  "check_all [] = ret []"
| "check_all (c # cs) = (case c of (a, d, m) \<Rightarrow>
     bnd (check_store_commit a d m) (\<lambda>(r, _). bnd (check_all cs) (\<lambda>rs. ret (r # rs))))"

lemma push_all_abs:
  assumes "scq_inv (scq_of st)" "\<not> amo (cpu st)" "\<not> scq_overflow st"
    "length (scq_abs (scq_of st)) + length ws \<le> 48" "map commit_of ws = map Some es"
  shows "\<exists>st'. push_all ws st = Ret () st' \<and> scq_inv (scq_of st') \<and> \<not> scq_overflow st'
    \<and> scq_abs (scq_of st') = scq_abs (scq_of st) @ es"
  using assms
proof (induction ws arbitrary: st es)
  case (Cons w ws)
  obtain a d l where w: "w = (a, d, l)" by (cases w)
  from Cons.prems obtain e es' where es: "es = e # es'" "commit_of (a, d, l) = Some e" "map commit_of ws = map Some es'"
    by (cases es) (auto simp: w)
  have room: "length (scq_abs (scq_of st)) < 48" using Cons.prems by simp
  from push_enq[OF Cons.prems(1) room Cons.prems(2,3) es(2)] obtain st1 where
    1: "store_commit_queue_push a d l st = Ret () st1" "scq_of st1 = scq_enq e (scq_of st)"
       "\<not> scq_overflow st1" "cpu st1 = cpu st" by blast
  have 2: "scq_inv (scq_of st1)" "scq_abs (scq_of st1) = scq_abs (scq_of st) @ [e]"
    using Cons.prems(1) room by (simp_all only: 1(2) scq.enq_inv scq.enq_abs)
  have 3: "\<not> amo (cpu st1)" "length (scq_abs (scq_of st1)) + length ws \<le> 48"
    using Cons.prems 1(4) by (simp_all add: 2(2))
  from Cons.IH[OF 2(1) 3(1) 1(3) 3(2) es(3)] show ?case
    by (auto simp: w thn_apply 1(1) 2(2) es)
qed (simp add: skip_apply)

lemma word_align8: "x - x mod 8 = push_bit 3 (drop_bit 3 (x :: uint64))"
  by (simp add: push_bit_eq_mult drop_bit_eq_div minus_mod_eq_mult_div mult.commute)

lemma commit_aligned: "commit_of w = Some (a, d, m) \<Longrightarrow> a - a mod 8 = a"
proof -
  assume "commit_of w = Some (a, d, m)"
  then obtain x where x: "a = x - x mod 8" by (auto simp: commit_of_def split: prod.splits)
  have "push_bit 3 (drop_bit 3 (push_bit 3 (drop_bit 3 x))) = push_bit 3 (drop_bit 3 x)"
    by (rule bit_word_eqI) (auto simp: bit_simps)
  then show ?thesis by (simp only: word_align8 x)
qed

lemma check_all_agree:
  assumes "scq_inv (scq_of st)" "scq_abs (scq_of st) = es" "\<forall>e\<in>set es. fst e - fst e mod 8 = fst e"
  shows "\<exists>st'. check_all es st = Ret (replicate (length es) 0) st' \<and> scq_inv (scq_of st') \<and> scq_abs (scq_of st') = []"
  using assms
proof (induction es arbitrary: st)
  case (Cons e es)
  obtain a d m where e: "e = (a, d, m)" by (cases e)
  from pop_some[OF Cons.prems(1,2)] obtain c st1 where
    1: "store_commit_queue_pop st = Ret (Some c) st1" "entry c = e" "scq_inv (scq_of st1)" "scq_abs (scq_of st1) = es"
    by blast
  have "a - a mod 8 = a" "\<forall>e\<in>set es. fst e - fst e mod 8 = fst e" using Cons.prems(3) e by auto
  moreover from 1(2) e have "sc_addr c = a" "sc_data c = d" "sc_mask c = m" by (simp_all add: entry_def)
  moreover from Cons.IH[OF 1(3,4) calculation(2)] obtain st' where
    "check_all es st1 = Ret (replicate (length es) 0) st'" "scq_inv (scq_of st')" "scq_abs (scq_of st') = []" by blast
  ultimately show ?case
    by (simp add: e check_store_commit_def bnd_apply ret_apply 1 Let_def)
qed (simp add: ret_apply)

lemma static_queue: "scq_inv (scq_of static_machine)" "scq_abs (scq_of static_machine) = []"
proof -
  have "scq_inv (scq_of static_machine) \<and> scq_abs (scq_of static_machine) = map entry []"
    unfolding scq_of_def by (rule scq_invI[where us = "store_commit_queue static_machine"])
      (simp_all add: scq_valid_def)
  then show "scq_inv (scq_of static_machine)" "scq_abs (scq_of static_machine) = []" by simp_all
qed

text \<open>Property C16: stores that are pushed (at most as many as the queue holds) are checked in the order
  they were made: draining the queue against the same stores agrees on every one and empties it.\<close>

theorem store_commit_roundtrip:
  assumes "scq_inv (scq_of st)" "scq_abs (scq_of st) = []" "\<not> amo (cpu st)" "\<not> scq_overflow st"
    "length ws \<le> STORE_QUEUE_SIZE" "map commit_of ws = map Some es"
  shows "\<exists>st'. bnd (push_all ws) (\<lambda>_. check_all es) st = Ret (replicate (length ws) 0) st'
    \<and> scq_abs (scq_of st') = []"
proof -
  from push_all_abs[OF assms(1,3,4) _ assms(6)] assms(2,5) obtain st1 where
    1: "push_all ws st = Ret () st1" "scq_inv (scq_of st1)" "scq_abs (scq_of st1) = es"
    by (auto simp: STORE_QUEUE_SIZE_def)
  have "\<forall>e\<in>set es. fst e - fst e mod 8 = fst e"
  proof
    fix e assume "e \<in> set es"
    then have "Some e \<in> set (map commit_of ws)" by (simp add: assms(6))
    then show "fst e - fst e mod 8 = fst e"
      by (cases e) (auto dest: commit_aligned[OF sym])
  qed
  moreover have "length es = length ws" using assms(6) by (metis length_map)
  ultimately show ?thesis using check_all_agree[OF 1(2,3)] 1(1) by (auto simp: bnd_apply)
qed

lemma replicate_2: "replicate 2 x = [x, x]"
  by (simp add: numeral_2_eq_2)

theorem store_commit_roundtrip_witness:
  "\<exists>st'. bnd (push_all [(0x80000004, 0x1122334455667788, 4), (0x80000013, 0xab, 1)])
      (\<lambda>_. check_all [(0x80000000, 0x5566778800000000, 0xf0), (0x80000010, 0xab000000, 8)]) static_machine =
        Ret [0, 0] st' \<and> scq_abs (scq_of st') = []"
  using store_commit_roundtrip[of static_machine "[(0x80000004, 0x1122334455667788, 4), (0x80000013, 0xab, 1)]"
      "[(0x80000000, 0x5566778800000000, 0xf0), (0x80000010, 0xab000000, 8)]"]
  by (simp add: static_queue commit_of_def commit_data_def STORE_QUEUE_SIZE_def replicate_2)

lemma full_ring:
  assumes "scq_inv (xs, h, t)" "length (scq_abs (xs, h, t)) = 48"
  shows "t = h" "\<forall>c\<in>set (rotate (unat h) xs). scq_valid c" "length xs = 48" "unat h < 48"
proof -
  from assms(1) obtain vs us where r: "rotate (unat h) xs = vs @ us" "\<forall>c\<in>set vs. scq_valid c"
    "length vs + length us = 48" "unat h < 48" "unat t = (unat h + length vs) mod 48" "length xs = 48"
    "scq_abs (xs, h, t) = map entry vs" by (rule scq_invE)
  with assms(2) have "us = []" "length vs = 48" by auto
  with r show "t = h" "\<forall>c\<in>set (rotate (unat h) xs). scq_valid c" "length xs = 48" "unat h < 48"
    by (simp_all add: word_unat_eq_iff)
qed

text \<open>A store committed to a full queue returns but replaces the oldest recorded store, and it
  disables every later commit, so the partner's next check sees the newest store in place of the oldest.\<close>

theorem store_commit_overflow:
  assumes "scq_inv (scq_of st)" "length (scq_abs (scq_of st)) = STORE_QUEUE_SIZE" "\<not> amo (cpu st)"
    "\<not> scq_overflow st" "commit_of (addr, data, len) = Some e"
  shows "\<exists>st'. store_commit_queue_push addr data len st = Ret () st'
    \<and> scq_abs (scq_of st') = e # tl (scq_abs (scq_of st))
    \<and> (\<forall>a d n. store_commit_queue_push a d n st' = Ret () st')"
proof -
  let ?xs = "store_commit_queue st" let ?h = "scq_head st" let ?t = "scq_tail st"
  obtain d m where dm: "commit_data (addr mod 8) data len = Some (d, m)" "e = (addr - addr mod 8, d, m)"
    using assms(5) by (auto simp: commit_of_def split: prod.splits)
  let ?c = "\<lparr>sc_addr = addr - addr mod 8, sc_data = d, sc_mask = m, sc_valid = 1\<rparr>"
  have f: "?t = ?h" "\<forall>c\<in>set (rotate (unat ?h) ?xs). scq_valid c" "length ?xs = 48" "unat ?h < 48"
    using full_ring[of ?xs ?h ?t] assms(1,2) by (simp_all add: scq_of_def STORE_QUEUE_SIZE_def)
  obtain y ys where y: "rotate (unat ?h) ?xs = y # ys" using f(3) by (cases "rotate (unat ?h) ?xs") auto
  have "rotate (unat ?h) (?xs[unat ?h := ?c]) = ?c # ys"
    using rotate_update[of 0 ?xs "unat ?h" ?c] f y by simp
  moreover have "\<forall>c\<in>set ys. scq_valid c" using f(2) y by simp
  ultimately have "scq_abs (?xs[unat ?h := ?c], ?h, (?t + 1) mod 48) = e # map entry ys"
    by (simp add: scq_abs_def scq_rot_def takeWhile_eq_all_conv[THEN iffD2] dm entry_def scq_valid_def)
  moreover have "scq_abs (scq_of st) = map entry (y # ys)"
    using f(2) y by (simp add: scq_abs_def scq_rot_def scq_of_def takeWhile_eq_all_conv[THEN iffD2])
  moreover have "scq_valid (?xs ! unat ?h)"
    using nth_rotate[of 0 ?xs "unat ?h"] f y by simp
  ultimately show ?thesis
    using assms(3,4) f(1) dm by (simp add: store_commit_queue_push_def scq_of_def scq_valid_def STORE_QUEUE_SIZE_def)
qed

lemma rotate_replicate: "rotate n (replicate k x) = replicate k x"
  by (rule nth_equalityI) (simp_all add: nth_rotate)

theorem store_commit_overflow_witness:
  "\<exists>st'. store_commit_queue_push 0x80000008 7 8
       (static_machine\<lparr>store_commit_queue := replicate 48 \<lparr>sc_addr = 0x80000000, sc_data = 1, sc_mask = 1, sc_valid = 1\<rparr>\<rparr>)
     = Ret () st' \<and> scq_abs (scq_of st') = (0x80000008, 7, 0xff) # replicate 47 (0x80000000, 1, 1)"
proof -
  let ?c = "\<lparr>sc_addr = 0x80000000, sc_data = 1, sc_mask = 1, sc_valid = 1\<rparr> :: store_commit"
  let ?s = "static_machine\<lparr>store_commit_queue := replicate 48 ?c\<rparr>"
  have a: "scq_inv (scq_of ?s) \<and> scq_abs (scq_of ?s) = map entry (replicate 48 ?c)"
    unfolding scq_of_def by (rule scq_invI[where us = "[]"]) (simp_all add: scq_valid_def rotate_replicate)
  then have i: "scq_inv (scq_of ?s)" and q: "scq_abs (scq_of ?s) = replicate 48 (0x80000000, 1, 1)"
    by (simp_all add: entry_def)
  have "\<exists>st'. store_commit_queue_push 0x80000008 7 8 ?s = Ret () st'
    \<and> scq_abs (scq_of st') = (0x80000008, 7, 0xff) # tl (scq_abs (scq_of ?s))
    \<and> (\<forall>a d n. store_commit_queue_push a d n st' = Ret () st')"
    by (rule store_commit_overflow[OF i])
      (simp_all add: q STORE_QUEUE_SIZE_def commit_of_def commit_data_def)
  then show ?thesis by (auto simp: q)
qed

section \<open>Reads after writes\<close>

definition legal_len :: "nat \<Rightarrow> bool" where
  "legal_len n \<longleftrightarrow> n = 1 \<or> n = 2 \<or> n = 4 \<or> n = 8"

text \<open>An access whose bytes all lie in physical memory.\<close>

definition fits_pmem :: "uint32 \<Rightarrow> nat \<Rightarrow> bool" where
  "fits_pmem a n \<longleftrightarrow> in_pmem a \<and> uint a + int n \<le> 0x90000000"

lemma push_frame:
  "store_commit_queue_push a d n st = Ret () st' \<Longrightarrow> pmem st' = pmem st \<and> cpu st' = cpu st \<and> csr st' = csr st"
  by (auto simp: store_commit_queue_push_def Let_def split: if_splits option.splits)

lemma push_not_jump: "store_commit_queue_push a d n st \<noteq> LongJmp c st'"
  by (auto simp: store_commit_queue_push_def Let_def split: option.splits)

lemma push_legal: "legal_len n \<Longrightarrow> \<exists>st'. store_commit_queue_push a d n st = Ret () st'"
  by (auto simp: legal_len_def store_commit_queue_push_def Let_def commit_data_def)

lemma paddr_read_ok:
  "fits_pmem a n \<Longrightarrow> legal_len n \<Longrightarrow> paddr_read a n st = Ret (load_le (pmem st) (guest_to_host a) n) st"
  by (auto simp: fits_pmem_def legal_len_def paddr_read_def pmem_read_def host_read_def host_mapped_pmem gets_apply)

lemma paddr_write_ok:
  assumes "fits_pmem a n" "legal_len n"
  shows "\<exists>st'. paddr_write a n v st = Ret () st' \<and> pmem st' = store_le (pmem st) (guest_to_host a) n v
    \<and> cpu st' = cpu st \<and> csr st' = csr st"
proof -
  from push_legal[OF assms(2)] obtain st1 where 1: "store_commit_queue_push (ucast a) v n st = Ret () st1" by blast
  with push_frame[OF this] assms show ?thesis
    by (auto simp: fits_pmem_def legal_len_def paddr_write_def pmem_write_def host_write_def thn_apply modify_apply
      host_mapped_pmem)
qed

lemma guest_to_host_add:
  assumes "fits_pmem a n" "k < n"
  shows "guest_to_host a + of_nat k = guest_to_host (a + of_nat k)"
proof -
  have "uint a + int k < 2 ^ 32" "0 \<le> uint a" "int k < 2 ^ 32" using assms
    by (auto simp: fits_pmem_def in_pmem_range)
  then have u: "uint (a + of_nat k) = uint a + int k"
    by (simp add: uint_word_ariths unsigned_of_nat take_bit_int_eq_self take_bit_nat_eq_self)
  have "uint (ucast (a + of_nat k) :: uint64) = uint a + int k"
    using u \<open>uint a + int k < 2 ^ 32\<close> by (simp add: unsigned_ucast_eq take_bit_int_eq_self)
  moreover have "uint (ucast a + of_nat k :: uint64) = uint a + int k"
    using \<open>uint a + int k < 2 ^ 32\<close> \<open>0 \<le> uint a\<close> \<open>int k < 2 ^ 32\<close>
    by (simp add: uint_word_ariths unsigned_ucast_eq unsigned_of_nat take_bit_int_eq_self of_nat_take_bit)
  ultimately have "ucast (a + of_nat k) = (ucast a + of_nat k :: uint64)" by (simp add: word_uint_eq_iff)
  then show ?thesis by (simp add: guest_to_host_def)
qed

lemma host_guest [simp]: "host_to_guest (guest_to_host a) = a"
proof -
  have "guest_to_host a - HOST_PMEM_OFFSET = ucast a" by (simp add: guest_to_host_def)
  then show ?thesis unfolding host_to_guest_def
    by (simp only:) (rule bit_word_eqI, auto simp: bit_simps)
qed

lemma guest_to_host_inj: "guest_to_host a = guest_to_host b \<longleftrightarrow> a = b"
  by (metis host_guest)

lemma load_store_other:
  assumes "\<forall>i<k. \<forall>j<n. b + of_nat i \<noteq> a + of_nat j"
  shows "load_le (store_le h a n v) b k = load_le h b k"
proof (rule bit_word_eqI)
  fix i assume "i < LENGTH(64)"
  show "bit (load_le (store_le h a n v) b k) i \<longleftrightarrow> bit (load_le h b k) i"
  proof (cases "i div 8 < k")
    case True
    with assms have "\<forall>j<n. b + of_nat (i div 8) \<noteq> a + of_nat j" by blast
    then show ?thesis by (simp add: bit_load_le store_le_other)
  qed (simp add: bit_load_le)
qed

lemma guest_disjoint:
  assumes "fits_pmem a n" "fits_pmem b k" "uint b + int k \<le> uint a \<or> uint a + int n \<le> uint b" "i < k" "j < n"
  shows "guest_to_host b + of_nat i \<noteq> guest_to_host a + of_nat j"
proof
  assume "guest_to_host b + of_nat i = guest_to_host a + of_nat j"
  then have "b + of_nat i = a + of_nat j"
    using assms by (simp add: guest_to_host_add guest_to_host_inj)
  moreover have "uint (a + of_nat j) = uint a + int j" "uint (b + of_nat i) = uint b + int i"
    using assms by (auto simp: fits_pmem_def in_pmem_range uint_word_ariths unsigned_of_nat take_bit_int_eq_self
      take_bit_nat_eq_self)
  ultimately show False using assms by simp
qed

text \<open>A physical write inside the memory returns, a read of the same address and width gives
  back the value truncated to the width, and every disjoint read is unchanged.\<close>

theorem paddr_read_after_write:
  assumes "fits_pmem a n" "legal_len n" "fits_pmem b k" "legal_len k"
  shows "\<exists>st'. paddr_write a n v st = Ret () st' \<and> paddr_read a n st' = Ret (take_bit (8 * n) v) st'
    \<and> (uint b + int k \<le> uint a \<or> uint a + int n \<le> uint b \<longrightarrow>
         paddr_read b k st' = Ret (load_le (pmem st) (guest_to_host b) k) st')"
proof -
  obtain st' where st': "paddr_write a n v st = Ret () st'"
    "pmem st' = store_le (pmem st) (guest_to_host a) n v"
    using paddr_write_ok[OF assms(1,2)] by blast
  moreover have "n \<le> 8" using assms(2) by (auto simp: legal_len_def)
  moreover have "load_le (pmem st') (guest_to_host b) k = load_le (pmem st) (guest_to_host b) k"
    if "uint b + int k \<le> uint a \<or> uint a + int n \<le> uint b"
    using guest_disjoint[OF assms(1,3) that] by (simp add: st'(2) load_store_other)
  ultimately show ?thesis using assms by (auto simp: paddr_read_ok load_store_same)
qed

theorem paddr_read_after_write_witness:
  "\<exists>st'. paddr_write 0x80000000 4 0x1122334455667788 static_machine = Ret () st'
    \<and> paddr_read 0x80000000 4 st' = Ret 0x55667788 st' \<and> paddr_read 0x80000004 8 st' = Ret 0 st'"
proof -
  have "load_le (pmem static_machine) (guest_to_host 0x80000004) 8 = 0"
    by (rule bit_word_eqI) (simp add: bit_load_le)
  with paddr_read_after_write[where a = "0x80000000" and n = 4 and b = "0x80000004" and k = 8
      and v = "0x1122334455667788" and st = static_machine]
  show ?thesis by (simp add: fits_pmem_def legal_len_def in_pmem_range)
qed

text \<open>The outcome of every physical read of a legal width, for every address: the bytes when all of
  them lie in memory, the death of the host when the access starts inside and runs over the end (only the
  first byte is tested), and an illegal-instruction exception everywhere else.\<close>

theorem paddr_read_total:
  assumes "legal_len n"
  shows "paddr_read a n st =
    (if 0x80000000 \<le> uint a \<and> uint a + int n \<le> 0x90000000 then Ret (load_le (pmem st) (guest_to_host a) n) st
     else if 0x80000000 \<le> uint a \<and> uint a < 0x90000000 then Crash Host_fault
     else LongJmp NEMU_EXEC_EXCEPTION (st\<lparr>cpu := (cpu st)\<lparr>guided_exec := False\<rparr>, g_ex_cause := EX_II\<rparr>))"
proof (cases "in_pmem a")
  case True
  note True' = True
  then have r: "0x80000000 \<le> uint a" "uint a < 0x90000000" by (simp_all add: in_pmem_range)
  show ?thesis
  proof (cases "uint a + int n \<le> 0x90000000")
    case True
    with r assms show ?thesis by (simp add: paddr_read_ok fits_pmem_def in_pmem_range)
  next
    case False
    then have "\<not> host_mapped (guest_to_host a) n" using r by (simp add: host_mapped_def config_defs guest_to_host_uint[OF True'])
    with False r assms True' show ?thesis
      by (auto simp: paddr_read_def pmem_read_def host_read_def legal_len_def die_apply)
  qed
next
  case False
  with assms show ?thesis
    by (auto simp: paddr_read_def in_pmem_range m_simps legal_len_def)
qed

theorem paddr_read_total_witness:
  "paddr_read 0x8ffffffc 8 static_machine = Crash Host_fault"
  using paddr_read_total[of 8 "0x8ffffffc" static_machine] by (simp add: legal_len_def)

end
