(* ===== verification/Csr.thy ===== *)
theory Csr
  imports Machine
begin

text \<open>
  The control and status registers (\<open>src/isa/riscv64/local-include/csr.h\<close> and the masks of
  \<open>system/priv.c\<close>): the addresses of the implemented CSRs, the bit-field layout of each CSR union as a
  table from field names to (offset, width), the accessors the emulator uses, and the static
  properties of the layouts. \<open>csr st a\<close> is \<open>csr_array[a]\<close>.
\<close>

section \<open>Addresses\<close>

definition CSR_mstatus :: "12 word" where "CSR_mstatus = 0x300"
definition CSR_misa :: "12 word" where "CSR_misa = 0x301"
definition CSR_medeleg :: "12 word" where "CSR_medeleg = 0x302"
definition CSR_mideleg :: "12 word" where "CSR_mideleg = 0x303"
definition CSR_mie :: "12 word" where "CSR_mie = 0x304"
definition CSR_mtvec :: "12 word" where "CSR_mtvec = 0x305"
definition CSR_mcounteren :: "12 word" where "CSR_mcounteren = 0x306"
definition CSR_mscratch :: "12 word" where "CSR_mscratch = 0x340"
definition CSR_mepc :: "12 word" where "CSR_mepc = 0x341"
definition CSR_mcause :: "12 word" where "CSR_mcause = 0x342"
definition CSR_mtval :: "12 word" where "CSR_mtval = 0x343"
definition CSR_mip :: "12 word" where "CSR_mip = 0x344"
definition CSR_pmpcfg0 :: "12 word" where "CSR_pmpcfg0 = 0x3a0"
definition CSR_pmpaddr0 :: "12 word" where "CSR_pmpaddr0 = 0x3b0"
definition CSR_pmpaddr1 :: "12 word" where "CSR_pmpaddr1 = 0x3b1"
definition CSR_pmpaddr2 :: "12 word" where "CSR_pmpaddr2 = 0x3b2"
definition CSR_pmpaddr3 :: "12 word" where "CSR_pmpaddr3 = 0x3b3"
definition CSR_mhartid :: "12 word" where "CSR_mhartid = 0xf14"
definition CSR_sstatus :: "12 word" where "CSR_sstatus = 0x100"
definition CSR_sie :: "12 word" where "CSR_sie = 0x104"
definition CSR_stvec :: "12 word" where "CSR_stvec = 0x105"
definition CSR_scounteren :: "12 word" where "CSR_scounteren = 0x106"
definition CSR_sscratch :: "12 word" where "CSR_sscratch = 0x140"
definition CSR_sepc :: "12 word" where "CSR_sepc = 0x141"
definition CSR_scause :: "12 word" where "CSR_scause = 0x142"
definition CSR_stval :: "12 word" where "CSR_stval = 0x143"
definition CSR_sip :: "12 word" where "CSR_sip = 0x144"
definition CSR_satp :: "12 word" where "CSR_satp = 0x180"
definition CSR_fflags :: "12 word" where "CSR_fflags = 0x001"
definition CSR_frm :: "12 word" where "CSR_frm = 0x002"
definition CSR_fcsr :: "12 word" where "CSR_fcsr = 0x003"

lemmas csr_addr_defs =
  CSR_mstatus_def CSR_misa_def CSR_medeleg_def CSR_mideleg_def CSR_mie_def CSR_mtvec_def
  CSR_mcounteren_def CSR_mscratch_def CSR_mepc_def CSR_mcause_def CSR_mtval_def CSR_mip_def
  CSR_pmpcfg0_def CSR_pmpaddr0_def CSR_pmpaddr1_def CSR_pmpaddr2_def CSR_pmpaddr3_def
  CSR_mhartid_def CSR_sstatus_def CSR_sie_def CSR_stvec_def CSR_scounteren_def
  CSR_sscratch_def CSR_sepc_def CSR_scause_def CSR_stval_def CSR_sip_def CSR_satp_def
  CSR_fflags_def CSR_frm_def CSR_fcsr_def

text \<open>The list macro \<open>CSRS\<close> and the existence table that \<open>init_csr\<close> fills from it.\<close>

definition CSRS :: "12 word list" where
  "CSRS = [CSR_mstatus, CSR_misa, CSR_medeleg, CSR_mideleg, CSR_mie, CSR_mtvec, CSR_mcounteren,
    CSR_mscratch, CSR_mepc, CSR_mcause, CSR_mtval, CSR_mip, CSR_pmpcfg0, CSR_pmpaddr0,
    CSR_pmpaddr1, CSR_pmpaddr2, CSR_pmpaddr3, CSR_mhartid, CSR_sstatus, CSR_sie,
    CSR_stvec, CSR_scounteren, CSR_sscratch, CSR_sepc, CSR_scause, CSR_stval, CSR_sip,
    CSR_satp, CSR_fflags, CSR_frm, CSR_fcsr]"

definition csr_exist :: "12 word \<Rightarrow> bool" where
  "csr_exist addr = (addr \<in> set CSRS)"

section \<open>Layouts\<close>

datatype mstatus_field =
  Ms_uie | Ms_sie | Ms_pad0 | Ms_mie | Ms_upie | Ms_spie | Ms_pad1 | Ms_mpie | Ms_spp
  | Ms_vs | Ms_mpp | Ms_fs | Ms_xs | Ms_mprv | Ms_sum | Ms_mxr | Ms_tvm | Ms_tw | Ms_tsr
  | Ms_pad3 | Ms_uxl | Ms_sxl | Ms_sbe | Ms_mbe | Ms_pad4 | Ms_sd

primrec mstatus_f :: "mstatus_field \<Rightarrow> field" where
  "mstatus_f Ms_uie = (0, 1)"
| "mstatus_f Ms_sie = (1, 1)"
| "mstatus_f Ms_pad0 = (2, 1)"
| "mstatus_f Ms_mie = (3, 1)"
| "mstatus_f Ms_upie = (4, 1)"
| "mstatus_f Ms_spie = (5, 1)"
| "mstatus_f Ms_pad1 = (6, 1)"
| "mstatus_f Ms_mpie = (7, 1)"
| "mstatus_f Ms_spp = (8, 1)"
| "mstatus_f Ms_vs = (9, 2)"
| "mstatus_f Ms_mpp = (11, 2)"
| "mstatus_f Ms_fs = (13, 2)"
| "mstatus_f Ms_xs = (15, 2)"
| "mstatus_f Ms_mprv = (17, 1)"
| "mstatus_f Ms_sum = (18, 1)"
| "mstatus_f Ms_mxr = (19, 1)"
| "mstatus_f Ms_tvm = (20, 1)"
| "mstatus_f Ms_tw = (21, 1)"
| "mstatus_f Ms_tsr = (22, 1)"
| "mstatus_f Ms_pad3 = (23, 9)"
| "mstatus_f Ms_uxl = (32, 2)"
| "mstatus_f Ms_sxl = (34, 2)"
| "mstatus_f Ms_sbe = (36, 1)"
| "mstatus_f Ms_mbe = (37, 1)"
| "mstatus_f Ms_pad4 = (38, 25)"
| "mstatus_f Ms_sd = (63, 1)"

definition mstatus_layout :: "mstatus_field list" where
  "mstatus_layout = [Ms_uie, Ms_sie, Ms_pad0, Ms_mie, Ms_upie, Ms_spie, Ms_pad1, Ms_mpie, Ms_spp, Ms_vs
     , Ms_mpp, Ms_fs, Ms_xs, Ms_mprv, Ms_sum, Ms_mxr, Ms_tvm, Ms_tw, Ms_tsr, Ms_pad3, Ms_uxl
     , Ms_sxl, Ms_sbe, Ms_mbe, Ms_pad4, Ms_sd]"

datatype misa_field =
  Misa_extensions | Misa_pad | Misa_mxl

primrec misa_f :: "misa_field \<Rightarrow> field" where
  "misa_f Misa_extensions = (0, 26)"
| "misa_f Misa_pad = (26, 36)"
| "misa_f Misa_mxl = (62, 2)"

definition misa_layout :: "misa_field list" where
  "misa_layout = [Misa_extensions, Misa_pad, Misa_mxl]"

datatype mcause_field =
  Mcause_code | Mcause_intr

primrec mcause_f :: "mcause_field \<Rightarrow> field" where
  "mcause_f Mcause_code = (0, 63)"
| "mcause_f Mcause_intr = (63, 1)"

definition mcause_layout :: "mcause_field list" where
  "mcause_layout = [Mcause_code, Mcause_intr]"

datatype mie_field =
  Mie_usie | Mie_ssie | Mie_hsie | Mie_msie | Mie_utie | Mie_stie | Mie_htie | Mie_mtie
  | Mie_ueie | Mie_seie | Mie_heie | Mie_meie

primrec mie_f :: "mie_field \<Rightarrow> field" where
  "mie_f Mie_usie = (0, 1)"
| "mie_f Mie_ssie = (1, 1)"
| "mie_f Mie_hsie = (2, 1)"
| "mie_f Mie_msie = (3, 1)"
| "mie_f Mie_utie = (4, 1)"
| "mie_f Mie_stie = (5, 1)"
| "mie_f Mie_htie = (6, 1)"
| "mie_f Mie_mtie = (7, 1)"
| "mie_f Mie_ueie = (8, 1)"
| "mie_f Mie_seie = (9, 1)"
| "mie_f Mie_heie = (10, 1)"
| "mie_f Mie_meie = (11, 1)"

definition mie_layout :: "mie_field list" where
  "mie_layout = [Mie_usie, Mie_ssie, Mie_hsie, Mie_msie, Mie_utie, Mie_stie, Mie_htie, Mie_mtie, Mie_ueie
     , Mie_seie, Mie_heie, Mie_meie]"

datatype mip_field =
  Mip_usip | Mip_ssip | Mip_hsip | Mip_msip | Mip_utip | Mip_stip | Mip_htip | Mip_mtip
  | Mip_ueip | Mip_seip | Mip_heip | Mip_meip

primrec mip_f :: "mip_field \<Rightarrow> field" where
  "mip_f Mip_usip = (0, 1)"
| "mip_f Mip_ssip = (1, 1)"
| "mip_f Mip_hsip = (2, 1)"
| "mip_f Mip_msip = (3, 1)"
| "mip_f Mip_utip = (4, 1)"
| "mip_f Mip_stip = (5, 1)"
| "mip_f Mip_htip = (6, 1)"
| "mip_f Mip_mtip = (7, 1)"
| "mip_f Mip_ueip = (8, 1)"
| "mip_f Mip_seip = (9, 1)"
| "mip_f Mip_heip = (10, 1)"
| "mip_f Mip_meip = (11, 1)"

definition mip_layout :: "mip_field list" where
  "mip_layout = [Mip_usip, Mip_ssip, Mip_hsip, Mip_msip, Mip_utip, Mip_stip, Mip_htip, Mip_mtip, Mip_ueip
     , Mip_seip, Mip_heip, Mip_meip]"

datatype sstatus_field =
  Ss_uie | Ss_sie | Ss_pad0 | Ss_upie | Ss_spie | Ss_pad1 | Ss_spp | Ss_pad2

primrec sstatus_f :: "sstatus_field \<Rightarrow> field" where
  "sstatus_f Ss_uie = (0, 1)"
| "sstatus_f Ss_sie = (1, 1)"
| "sstatus_f Ss_pad0 = (2, 2)"
| "sstatus_f Ss_upie = (4, 1)"
| "sstatus_f Ss_spie = (5, 1)"
| "sstatus_f Ss_pad1 = (6, 2)"
| "sstatus_f Ss_spp = (8, 1)"
| "sstatus_f Ss_pad2 = (9, 4)"

definition sstatus_layout :: "sstatus_field list" where
  "sstatus_layout = [Ss_uie, Ss_sie, Ss_pad0, Ss_upie, Ss_spie, Ss_pad1, Ss_spp, Ss_pad2]"

datatype sie_field =
  Sie_usie | Sie_ssie | Sie_pad0 | Sie_utie | Sie_stie | Sie_pad1 | Sie_ueie | Sie_seie
  | Sie_pad2

primrec sie_f :: "sie_field \<Rightarrow> field" where
  "sie_f Sie_usie = (0, 1)"
| "sie_f Sie_ssie = (1, 1)"
| "sie_f Sie_pad0 = (2, 2)"
| "sie_f Sie_utie = (4, 1)"
| "sie_f Sie_stie = (5, 1)"
| "sie_f Sie_pad1 = (6, 2)"
| "sie_f Sie_ueie = (8, 1)"
| "sie_f Sie_seie = (9, 1)"
| "sie_f Sie_pad2 = (10, 2)"

definition sie_layout :: "sie_field list" where
  "sie_layout = [Sie_usie, Sie_ssie, Sie_pad0, Sie_utie, Sie_stie, Sie_pad1, Sie_ueie, Sie_seie, Sie_pad2]"

datatype sip_field =
  Sip_usip | Sip_ssip | Sip_pad0 | Sip_utip | Sip_stip | Sip_pad1 | Sip_ueip | Sip_seip
  | Sip_pad2

primrec sip_f :: "sip_field \<Rightarrow> field" where
  "sip_f Sip_usip = (0, 1)"
| "sip_f Sip_ssip = (1, 1)"
| "sip_f Sip_pad0 = (2, 2)"
| "sip_f Sip_utip = (4, 1)"
| "sip_f Sip_stip = (5, 1)"
| "sip_f Sip_pad1 = (6, 2)"
| "sip_f Sip_ueip = (8, 1)"
| "sip_f Sip_seip = (9, 1)"
| "sip_f Sip_pad2 = (10, 2)"

definition sip_layout :: "sip_field list" where
  "sip_layout = [Sip_usip, Sip_ssip, Sip_pad0, Sip_utip, Sip_stip, Sip_pad1, Sip_ueip, Sip_seip, Sip_pad2]"

datatype satp_field =
  Satp_ppn | Satp_asid | Satp_mode

primrec satp_f :: "satp_field \<Rightarrow> field" where
  "satp_f Satp_ppn = (0, 44)"
| "satp_f Satp_asid = (44, 16)"
| "satp_f Satp_mode = (60, 4)"

definition satp_layout :: "satp_field list" where
  "satp_layout = [Satp_ppn, Satp_asid, Satp_mode]"

datatype scause_field =
  Scause_code | Scause_intr

primrec scause_f :: "scause_field \<Rightarrow> field" where
  "scause_f Scause_code = (0, 63)"
| "scause_f Scause_intr = (63, 1)"

definition scause_layout :: "scause_field list" where
  "scause_layout = [Scause_code, Scause_intr]"

text \<open>\<open>fcsr\<close> overlays the flag bits with the 5-bit field \<open>fflags\<close>.\<close>

datatype fcsr_field = Fcsr_nv | Fcsr_dz | Fcsr_of | Fcsr_uf | Fcsr_nx | Fcsr_frm | Fcsr_fflags

primrec fcsr_f :: "fcsr_field \<Rightarrow> field" where
  "fcsr_f Fcsr_nv = (0, 1)"
| "fcsr_f Fcsr_dz = (1, 1)"
| "fcsr_f Fcsr_of = (2, 1)"
| "fcsr_f Fcsr_uf = (3, 1)"
| "fcsr_f Fcsr_nx = (4, 1)"
| "fcsr_f Fcsr_frm = (5, 3)"
| "fcsr_f Fcsr_fflags = (0, 5)"

section \<open>Accessors\<close>

definition set_csr :: "12 word \<Rightarrow> uint64 \<Rightarrow> machine \<Rightarrow> machine" where
  "set_csr a v st = st\<lparr>csr := (csr st)(a := v)\<rparr>"

text \<open>Reading a field \<open>mstatus->f\<close> and assigning to it.\<close>

definition ms :: "mstatus_field \<Rightarrow> machine \<Rightarrow> uint64" where
  "ms f st = fld (mstatus_f f) (csr st CSR_mstatus)"

definition set_ms :: "mstatus_field \<Rightarrow> uint64 \<Rightarrow> machine \<Rightarrow> machine" where
  "set_ms f v st = set_csr CSR_mstatus (set_fld (mstatus_f f) v (csr st CSR_mstatus)) st"

definition satp_ppn :: "machine \<Rightarrow> uint64" where
  "satp_ppn st = fld (satp_f Satp_ppn) (csr st CSR_satp)"

definition satp_mode :: "machine \<Rightarrow> uint64" where
  "satp_mode st = fld (satp_f Satp_mode) (csr st CSR_satp)"

text \<open>\<open>update_mstatus_sd\<close> derives the read-only summary bit from \<open>fs\<close>.\<close>

definition update_mstatus_sd :: "machine \<Rightarrow> machine" where
  "update_mstatus_sd st = set_ms Ms_sd (if ms Ms_fs st = 3 then 1 else 0) st"

text \<open>Write and read masks of the supervisor views.\<close>

definition SSTATUS_WMASK :: uint64 where
  "SSTATUS_WMASK = push_bit 19 1 OR push_bit 18 1 OR push_bit 13 3 OR push_bit 8 1 OR push_bit 5 1 OR push_bit 1 1"

definition SSTATUS_RMASK :: uint64 where
  "SSTATUS_RMASK = SSTATUS_WMASK OR push_bit 15 3 OR push_bit 63 1 OR push_bit 32 3"

definition SIE_MASK :: "machine \<Rightarrow> uint64" where
  "SIE_MASK st = 0x222 AND csr st CSR_mideleg"

definition SIP_MASK :: "machine \<Rightarrow> uint64" where
  "SIP_MASK st = 0x222 AND csr st CSR_mideleg"

definition FFLAGS_MASK :: uint64 where "FFLAGS_MASK = 0x1f"
definition FRM_MASK :: uint64 where "FRM_MASK = 0x07"
definition FCSR_MASK :: uint64 where "FCSR_MASK = 0xff"

definition mask_bitset :: "uint64 \<Rightarrow> uint64 \<Rightarrow> uint64 \<Rightarrow> uint64" where
  "mask_bitset old msk new = (old AND NOT msk) OR (new AND msk)"

section \<open>Properties of the layouts\<close>

text \<open>A layout tiles a CSR when each field starts where its predecessor ends and the last one ends at
  bit \<open>n\<close>.\<close>

fun tiles :: "nat \<Rightarrow> field list \<Rightarrow> nat \<Rightarrow> bool" where
  "tiles o0 [] n = (o0 = n)"
| "tiles o0 (f # fs) n = (fst f = o0 \<and> 0 < snd f \<and> tiles (o0 + snd f) fs n)"

lemma tiles_le: "tiles o0 fs n \<Longrightarrow> o0 \<le> n"
  by (induction o0 fs n rule: tiles.induct) auto

lemma tiles_mem: "tiles o0 fs n \<Longrightarrow> f \<in> set fs \<Longrightarrow> o0 \<le> fst f \<and> fst f + snd f \<le> n"
  by (induction o0 fs n rule: tiles.induct) (auto dest: tiles_le)

lemma tiles_disjoint:
  assumes "tiles o0 fs n" "f \<in> set fs" "g \<in> set fs" "f \<noteq> g"
  shows "fld_disjoint f g"
  using assms
proof (induction o0 fs n rule: tiles.induct)
  case (2 o0 h fs n)
  then show ?case
    by (auto simp: fld_disjoint_def dest: tiles_mem)
qed simp

lemma mstatus_tiles: "tiles 0 (map mstatus_f mstatus_layout) 64"
  by (simp add: mstatus_layout_def)

lemma satp_tiles: "tiles 0 (map satp_f satp_layout) 64"
  by (simp add: satp_layout_def)

lemma mstatus_layout_all: "f \<in> set mstatus_layout"
  by (cases f) (simp_all add: mstatus_layout_def)

lemma mstatus_f_inj: "mstatus_f f = mstatus_f g \<Longrightarrow> f = g"
  by (cases f; cases g; simp)

lemma mstatus_bound: "fst (mstatus_f f) + snd (mstatus_f f) \<le> 64"
  by (cases f) simp_all

lemma mstatus_disjoint: "f \<noteq> g \<Longrightarrow> fld_disjoint (mstatus_f f) (mstatus_f g)"
  by (rule tiles_disjoint[OF mstatus_tiles]) (use mstatus_f_inj mstatus_layout_all in auto)

lemma csr_set_csr [simp]: "csr (set_csr a v st) b = (if b = a then v else csr st b)"
  by (simp add: set_csr_def)

lemma ms_set_ms: "ms f (set_ms g v st) = (if f = g then take_bit (snd (mstatus_f f)) v else ms f st)"
  by (simp add: ms_def set_ms_def fld_set_fld_same fld_set_fld_other mstatus_bound mstatus_disjoint)

lemma csr_set_ms [simp]: "a \<noteq> CSR_mstatus \<Longrightarrow> csr (set_ms f v st) a = csr st a"
  by (simp add: set_ms_def)

lemma set_csr_frame [simp]:
  "cpu (set_csr a v st) = cpu st" "pmem (set_csr a v st) = pmem st"
  "tmp_reg (set_csr a v st) = tmp_reg st" "zero_null (set_csr a v st) = zero_null st"
  "ifetch_mmu_state (set_csr a v st) = ifetch_mmu_state st"
  "data_mmu_state (set_csr a v st) = data_mmu_state st"
  "nemu_state (set_csr a v st) = nemu_state st" "cur_s (set_csr a v st) = cur_s st"
  "g_sys_state_flag (set_csr a v st) = g_sys_state_flag st" "g_ex_cause (set_csr a v st) = g_ex_cause st"
  by (simp_all add: set_csr_def)

lemma set_ms_frame [simp]:
  "cpu (set_ms f v st) = cpu st" "pmem (set_ms f v st) = pmem st"
  "tmp_reg (set_ms f v st) = tmp_reg st" "zero_null (set_ms f v st) = zero_null st"
  "ifetch_mmu_state (set_ms f v st) = ifetch_mmu_state st"
  "data_mmu_state (set_ms f v st) = data_mmu_state st"
  "nemu_state (set_ms f v st) = nemu_state st" "cur_s (set_ms f v st) = cur_s st"
  "g_sys_state_flag (set_ms f v st) = g_sys_state_flag st" "g_ex_cause (set_ms f v st) = g_ex_cause st"
  by (simp_all add: set_ms_def)

end
