(* ===== verification/Mmu.thy ===== *)
theory Mmu
  imports Memory Csr
begin

text \<open>
  Address translation (\<open>src/isa/riscv64/system/mmu.c\<close>): the Sv39 page-table walk, the permission check
  that raises the page faults, the cached MMU state and its update, the canonical-address check and the
  guided page faults of the difftest reference. A fault leaves through \<open>longjmp_exception\<close>.
\<close>

section \<open>Page-table entries\<close>

datatype pte_field = Pte_v | Pte_r | Pte_w | Pte_x | Pte_u | Pte_g | Pte_a | Pte_d | Pte_rsw | Pte_ppn | Pte_pad

primrec pte_f :: "pte_field \<Rightarrow> field" where
  "pte_f Pte_v = (0, 1)"
| "pte_f Pte_r = (1, 1)"
| "pte_f Pte_w = (2, 1)"
| "pte_f Pte_x = (3, 1)"
| "pte_f Pte_u = (4, 1)"
| "pte_f Pte_g = (5, 1)"
| "pte_f Pte_a = (6, 1)"
| "pte_f Pte_d = (7, 1)"
| "pte_f Pte_rsw = (8, 2)"
| "pte_f Pte_ppn = (10, 44)"
| "pte_f Pte_pad = (54, 10)"

text \<open>A one-bit field used as a truth value.\<close>

definition pteb :: "pte_field \<Rightarrow> uint64 \<Rightarrow> bool" where
  "pteb f pte = (fld (pte_f f) pte \<noteq> 0)"

definition msb_on :: "mstatus_field \<Rightarrow> machine \<Rightarrow> bool" where
  "msb_on f st = (ms f st \<noteq> 0)"

definition PGSHFT :: nat where "PGSHFT = 12"
definition PGMASK :: uint64 where "PGMASK = push_bit PGSHFT 1 - 1"
definition PGBASE :: "uint64 \<Rightarrow> uint64" where "PGBASE pn = push_bit PGSHFT pn"

definition PTW_LEVEL :: nat where "PTW_LEVEL = 3"
definition PTE_SIZE :: nat where "PTE_SIZE = 8"
definition VPNMASK :: uint64 where "VPNMASK = 0x1ff"

definition VPNiSHFT :: "nat \<Rightarrow> nat" where
  "VPNiSHFT i = PGSHFT + 9 * i"

definition VPNi :: "uint64 \<Rightarrow> nat \<Rightarrow> uint64" where
  "VPNi va i = drop_bit (VPNiSHFT i) va AND VPNMASK"

section \<open>Permission check\<close>

text \<open>The mode an access of the given type is made in.\<close>

definition eff_mode :: "bool \<Rightarrow> machine \<Rightarrow> uint64" where
  "eff_mode ifetch st = (if msb_on Ms_mprv st \<and> \<not> ifetch then ms Ms_mpp st else mode (cpu st))"

text \<open>The fault address goes to \<open>mtval\<close> or \<open>stval\<close> according to the current mode, not to the mode the
  trap is taken in.\<close>

definition set_tval :: "uint64 \<Rightarrow> machine \<Rightarrow> machine" where
  "set_tval vaddr st = (if mode (cpu st) = MODE_M then set_csr CSR_mtval vaddr st else set_csr CSR_stval vaddr st)"

definition set_amo :: "bool \<Rightarrow> machine \<Rightarrow> machine" where
  "set_amo b st = st\<lparr>cpu := (cpu st)\<lparr>amo := b\<rparr>\<rparr>"

text \<open>The local variables \<open>mode\<close>, a \<open>uint32_t\<close>, and \<open>ok\<close> after the three tests on the entry.\<close>

definition access_mode :: "bool \<Rightarrow> machine \<Rightarrow> uint32" where
  "access_mode ifetch st = ucast (eff_mode ifetch st)"

definition perm_ok :: "uint64 \<Rightarrow> bool \<Rightarrow> bool \<Rightarrow> machine \<Rightarrow> bool" where
  "perm_ok pte ok ifetch st =
     (let m = access_mode ifetch st in
      ok \<and> pteb Pte_v pte
         \<and> \<not> (m = ucast MODE_U \<and> \<not> pteb Pte_u pte)
         \<and> \<not> (pteb Pte_u pte \<and> (m = ucast MODE_S \<and> (\<not> msb_on Ms_sum st \<or> ifetch))))"

definition check_permission :: "uint64 \<Rightarrow> bool \<Rightarrow> uint64 \<Rightarrow> mem_type \<Rightarrow> bool nemu" where
  "check_permission pte ok0 vaddr type st =
     (let ifetch = (type = MEM_TYPE_IFETCH);
          m = access_mode ifetch st;
          ok = perm_ok pte ok0 ifetch st
      in if \<not> (m = ucast MODE_U \<or> m = ucast MODE_S) then Crash Assert_fail
         else case type of
           MEM_TYPE_IFETCH \<Rightarrow>
             (let update_ad = \<not> pteb Pte_a pte in
              if \<not> (ok \<and> pteb Pte_x pte) \<or> update_ad
              then (if amo (cpu st) then Crash Assert_fail
                    else longjmp_exception EX_IPF (set_csr CSR_stval vaddr st))
              else Ret True st)
         | MEM_TYPE_READ \<Rightarrow>
             (let can_load = pteb Pte_r pte \<or> (msb_on Ms_mxr st \<and> pteb Pte_x pte);
                  update_ad = \<not> pteb Pte_a pte in
              if \<not> (ok \<and> can_load) \<or> update_ad
              then longjmp_exception (if amo (cpu st) then EX_SPF else EX_LPF)
                     (set_amo False (set_tval vaddr st))
              else Ret True st)
         | MEM_TYPE_WRITE \<Rightarrow>
             (let update_ad = \<not> pteb Pte_a pte \<or> \<not> pteb Pte_d pte in
              if \<not> (ok \<and> pteb Pte_w pte) \<or> update_ad
              then longjmp_exception EX_SPF (set_amo False (set_tval vaddr st))
              else Ret True st))"

section \<open>Page-table walk\<close>

text \<open>One iteration of the walk: read the entry of the level, and decide between a bad entry, a leaf
  and the next level. The frame of the entry is \<open>PGBASE(pte.ppn)\<close>; the physical address is truncated
  to 32 bits when it is used.\<close>

datatype ptw_out = PtwBad uint64 | PtwLeaf uint64 uint64 | PtwNext uint64 uint64

definition ptw_step :: "uint64 \<Rightarrow> uint64 \<Rightarrow> nat \<Rightarrow> ptw_out nemu" where
  "ptw_step pg_base vaddr level =
     (let p_pte = pg_base + VPNi vaddr level * of_nat PTE_SIZE in
      bnd (paddr_read (ucast p_pte) PTE_SIZE) (\<lambda>pte. ret (
        let pg_base' = PGBASE (fld (pte_f Pte_ppn) pte) in
        if \<not> pteb Pte_v pte \<or> (\<not> pteb Pte_r pte \<and> pteb Pte_w pte) then PtwBad pte
        else if pteb Pte_r pte \<or> pteb Pte_x pte then PtwLeaf pte pg_base'
        else PtwNext pte pg_base')))"

text \<open>The loop returns the last entry read and, for a leaf, its level and frame.\<close>

primrec ptw_loop :: "uint64 \<Rightarrow> nat \<Rightarrow> uint64 \<Rightarrow> (uint64 \<times> (nat \<times> uint64) option) nemu" where
  "ptw_loop vaddr 0 pg_base = bnd (ptw_step pg_base vaddr 0) (\<lambda>r. ret (case r of
       PtwBad pte \<Rightarrow> (pte, None) | PtwLeaf pte b \<Rightarrow> (pte, Some (0, b)) | PtwNext pte b \<Rightarrow> (pte, None)))"
| "ptw_loop vaddr (Suc l) pg_base = bnd (ptw_step pg_base vaddr (Suc l)) (\<lambda>r. (case r of
       PtwBad pte \<Rightarrow> ret (pte, None) | PtwLeaf pte b \<Rightarrow> ret (pte, Some (Suc l, b))
     | PtwNext pte b \<Rightarrow> ptw_loop vaddr l b))"

definition sext39 :: "uint64 \<Rightarrow> uint64" where
  "sext39 vaddr = signed_drop_bit (64 - 39) (push_bit (64 - 39) vaddr)"

text \<open>The walk. The entry is uninitialised when the address is not canonical; \<open>check_permission\<close> does
  not look at it then, and the model passes 0.\<close>

definition ptw_bad :: "uint64 \<Rightarrow> uint64 \<Rightarrow> mem_type \<Rightarrow> uint32 nemu" where
  "ptw_bad pte vaddr type =
     bnd (check_permission pte False vaddr type) (\<lambda>_. ret (of_nat MEM_RET_FAIL))"

definition ptw :: "uint64 \<Rightarrow> mem_type \<Rightarrow> uint32 nemu" where
  "ptw vaddr type =
     (if sext39 vaddr \<noteq> vaddr then ptw_bad 0 vaddr type
      else bnd (gets (\<lambda>st. PGBASE (satp_ppn st))) (\<lambda>pg_base.
        bnd (ptw_loop vaddr (PTW_LEVEL - 1) pg_base) (\<lambda>(pte, leaf).
          case leaf of
            None \<Rightarrow> ptw_bad pte vaddr type
          | Some (level, pg) \<Rightarrow>
              bnd (check_permission pte True vaddr type) (\<lambda>okk.
                if \<not> okk then ret (of_nat MEM_RET_FAIL)
                else if level > 0 then
                  (let pg_mask = push_bit (VPNiSHFT level) 1 - 1 in
                   if pg AND pg_mask \<noteq> 0 then ptw_bad pte vaddr type
                   else ret (ucast ((pg AND NOT pg_mask) OR (vaddr AND pg_mask AND NOT PGMASK))
                             OR of_nat MEM_RET_OK))
                else ret (ucast pg OR of_nat MEM_RET_OK)))))"

section \<open>Cached MMU state\<close>

definition get_data_mmu_state :: "machine \<Rightarrow> mmu_mode" where
  "get_data_mmu_state st = (if data_mmu_state st = MMU_DIRECT then MMU_DIRECT else MMU_TRANSLATE)"

definition update_mmu_state_internal :: "bool \<Rightarrow> mmu_mode nemu" where
  "update_mmu_state_internal ifetch st =
     (if ucast (eff_mode ifetch st) < (3 :: uint32)
      then (if \<not> (satp_mode st = 0 \<or> satp_mode st = 8) then Crash Assert_fail
            else if satp_mode st = 8 then Ret MMU_TRANSLATE st else Ret MMU_DIRECT st)
      else Ret MMU_DIRECT st)"

definition update_mmu_state :: "bool nemu" where
  "update_mmu_state =
     bnd (update_mmu_state_internal True) (\<lambda>i.
     bnd (modify (\<lambda>st. st\<lparr>ifetch_mmu_state := i\<rparr>)) (\<lambda>_.
     bnd (gets data_mmu_state) (\<lambda>old.
     bnd (update_mmu_state_internal False) (\<lambda>d.
     bnd (modify (\<lambda>st. st\<lparr>data_mmu_state := d\<rparr>)) (\<lambda>_.
     ret (d \<noteq> old))))))"

definition isa_mmu_check :: "uint64 \<Rightarrow> nat \<Rightarrow> mem_type \<Rightarrow> mmu_mode nemu" where
  "isa_mmu_check vaddr len type st =
     (let is_ifetch = (type = MEM_TYPE_IFETCH);
          vm_enable = (eff_mode is_ifetch st < MODE_M \<and> satp_mode st = 8);
          va_mask = push_bit (63 - 38 + 1) 1 - 1;
          va_msbs = drop_bit 38 vaddr;
          va_msbs_ok = (va_msbs = va_mask \<or> va_msbs = 0 \<or> \<not> vm_enable)
      in if \<not> va_msbs_ok then
           (case type of
              MEM_TYPE_IFETCH \<Rightarrow> longjmp_exception EX_IPF (set_csr CSR_stval vaddr st)
            | MEM_TYPE_READ \<Rightarrow>
                longjmp_exception (if amo (cpu st) then EX_SPF else EX_LPF) (set_tval vaddr st)
            | MEM_TYPE_WRITE \<Rightarrow> longjmp_exception EX_SPF (set_tval vaddr st))
         else if is_ifetch then Ret (if ifetch_mmu_state st \<noteq> MMU_DIRECT then MMU_TRANSLATE else MMU_DIRECT) st
         else Ret (if data_mmu_state st \<noteq> MMU_DIRECT then MMU_TRANSLATE else MMU_DIRECT) st)"

section \<open>Guided page faults\<close>

text \<open>The reference counts how often the same address faulted on demand, and gives up at the fifth
  time in a row.\<close>

definition force_raise_pf_record :: "uint64 \<Rightarrow> mem_type \<Rightarrow> bool nemu" where
  "force_raise_pf_record vaddr type st =
     (let st1 = (if vaddr \<noteq> last_addr st type
                 then st\<lparr>last_addr := (last_addr st)(type := vaddr),
                         force_count := (force_count st)(type := 0)\<rparr> else st);
          st2 = st1\<lparr>force_count := (force_count st1)(type := force_count st1 type + 1)\<rparr>
      in Ret (force_count st2 type = 5) st2)"

text \<open>The fault that the guide asks for, when it is one of this access type.\<close>

definition force_raise_pf :: "uint64 \<Rightarrow> mem_type \<Rightarrow> nat nemu" where
  "force_raise_pf vaddr type st =
     (let ifetch = (type = MEM_TYPE_IFETCH);
          guide = execution_guide (cpu st);
          raise = (\<lambda>ex upd. bnd (force_raise_pf_record vaddr type) (\<lambda>give_up.
                     if give_up then ret MEM_RET_OK
                     else bnd (modify upd) (\<lambda>_. longjmp_exception ex)) st)
      in if \<not> guided_exec (cpu st) then Ret MEM_RET_OK st
         else if ifetch \<and> exceptionNo guide = EX_IPF then
           raise EX_IPF (\<lambda>s. if mode (cpu s) = MODE_M then set_csr CSR_mtval (guide_mtval guide) s
                             else set_csr CSR_stval (guide_stval guide) s)
         else if \<not> ifetch \<and> type = MEM_TYPE_READ \<and> exceptionNo guide = EX_LPF then
           raise EX_LPF (set_tval vaddr)
         else if type = MEM_TYPE_WRITE \<and> exceptionNo guide = EX_SPF then
           raise EX_SPF (set_tval vaddr)
         else Ret MEM_RET_OK st)"

definition isa_mmu_translate :: "uint64 \<Rightarrow> nat \<Rightarrow> mem_type \<Rightarrow> uint32 nemu" where
  "isa_mmu_translate vaddr len type =
     bnd (ptw vaddr type) (\<lambda>ptw_result.
       if ptw_result \<noteq> of_nat MEM_RET_FAIL
       then bnd (force_raise_pf vaddr type) (\<lambda>r.
              if r \<noteq> MEM_RET_OK then ret (of_nat MEM_RET_FAIL) else ret ptw_result)
       else ret ptw_result)"

end
