(* ===== verification/Rtl.thy ===== *)
theory Rtl
  imports Machine
begin

text \<open>
  The RTL layer of the interpreter (\<open>src/engine/interpreter/c_op.h\<close>, \<open>rtl-basic.h\<close> and
  \<open>include/rtl/pseudo.h\<close>): the C operators behind each RTL instruction, the comparison decoder, the
  register-register and register-immediate forms, the pseudo instructions and the jumps. Memory
  accesses are in theory \<open>Vaddr\<close>, host calls in theory \<open>Priv\<close>. A C division that traps on the host
  (zero divisor, or the overflowing quotient) is a host fault.
\<close>

named_theorems rtl_defs \<open>definitions of the RTL instructions\<close>

section \<open>C operators\<close>

definition c_add :: "uint64 \<Rightarrow> uint64 \<Rightarrow> uint64" where "c_add a b = a + b"
definition c_sub :: "uint64 \<Rightarrow> uint64 \<Rightarrow> uint64" where "c_sub a b = a - b"
definition c_and :: "uint64 \<Rightarrow> uint64 \<Rightarrow> uint64" where "c_and a b = a AND b"
definition c_or :: "uint64 \<Rightarrow> uint64 \<Rightarrow> uint64" where "c_or a b = a OR b"
definition c_xor :: "uint64 \<Rightarrow> uint64 \<Rightarrow> uint64" where "c_xor a b = a XOR b"

definition c_shift_mask :: uint64 where "c_shift_mask = 0x3f"

definition c_shl :: "uint64 \<Rightarrow> uint64 \<Rightarrow> uint64" where
  "c_shl a b = push_bit (unat (b AND c_shift_mask)) a"

definition c_shr :: "uint64 \<Rightarrow> uint64 \<Rightarrow> uint64" where
  "c_shr a b = drop_bit (unat (b AND c_shift_mask)) a"

definition c_sar :: "uint64 \<Rightarrow> uint64 \<Rightarrow> uint64" where
  "c_sar a b = signed_drop_bit (unat (b AND c_shift_mask)) a"

definition c_sext32to64 :: "uint32 \<Rightarrow> uint64" where
  "c_sext32to64 a = scast a"

definition c_addw :: "uint64 \<Rightarrow> uint64 \<Rightarrow> uint64" where
  "c_addw a b = c_sext32to64 (ucast (a + b))"

definition c_subw :: "uint64 \<Rightarrow> uint64 \<Rightarrow> uint64" where
  "c_subw a b = c_sext32to64 (ucast (a - b))"

definition c_shlw :: "uint64 \<Rightarrow> uint64 \<Rightarrow> uint64" where
  "c_shlw a b = c_sext32to64 (push_bit (unat (b AND 0x1f)) (ucast a))"

definition c_shrw :: "uint64 \<Rightarrow> uint64 \<Rightarrow> uint64" where
  "c_shrw a b = c_sext32to64 (drop_bit (unat (b AND 0x1f)) (ucast a))"

definition c_sarw :: "uint64 \<Rightarrow> uint64 \<Rightarrow> uint64" where
  "c_sarw a b = c_sext32to64 (signed_drop_bit (unat (b AND 0x1f)) (ucast a))"

definition c_mulu_lo :: "uint64 \<Rightarrow> uint64 \<Rightarrow> uint64" where
  "c_mulu_lo a b = a * b"

text \<open>The 128-bit products are computed at 128 bits, as in the source.\<close>

definition c_mulu_hi :: "uint64 \<Rightarrow> uint64 \<Rightarrow> uint64" where
  "c_mulu_hi a b = ucast (drop_bit 64 ((ucast a :: 128 word) * ucast b))"

definition c_muls_hi :: "uint64 \<Rightarrow> uint64 \<Rightarrow> uint64" where
  "c_muls_hi a b = ucast (signed_drop_bit 64 ((scast a :: 128 word) * scast b))"

definition c_mulw :: "uint64 \<Rightarrow> uint64 \<Rightarrow> uint64" where
  "c_mulw a b = c_sext32to64 (ucast (a * b))"

text \<open>Quotients and remainders of the host, \<open>None\<close> where the host traps.\<close>

definition c_divu_q :: "uint64 \<Rightarrow> uint64 \<Rightarrow> uint64 option" where
  "c_divu_q a b = (if b = 0 then None else Some (a div b))"

definition c_divu_r :: "uint64 \<Rightarrow> uint64 \<Rightarrow> uint64 option" where
  "c_divu_r a b = (if b = 0 then None else Some (a mod b))"

definition c_divs_q :: "uint64 \<Rightarrow> uint64 \<Rightarrow> uint64 option" where
  "c_divs_q a b = (if b = 0 \<or> sint a = - (2 ^ 63) \<and> sint b = -1 then None
                   else Some (word_of_int (sint a sdiv sint b)))"

definition c_divs_r :: "uint64 \<Rightarrow> uint64 \<Rightarrow> uint64 option" where
  "c_divs_r a b = (if b = 0 \<or> sint a = - (2 ^ 63) \<and> sint b = -1 then None
                   else Some (word_of_int (sint a smod sint b)))"

text \<open>The 32-bit forms convert both operands to \<open>int32_t\<close> or \<open>uint32_t\<close> first.\<close>

definition c_divw :: "uint64 \<Rightarrow> uint64 \<Rightarrow> uint64 option" where
  "c_divw a b = (let x = ucast a :: uint32; y = ucast b :: uint32 in
     if y = 0 \<or> sint x = - (2 ^ 31) \<and> sint y = -1 then None
     else Some (c_sext32to64 (word_of_int (sint x sdiv sint y))))"

definition c_divuw :: "uint64 \<Rightarrow> uint64 \<Rightarrow> uint64 option" where
  "c_divuw a b = (let x = ucast a :: uint32; y = ucast b :: uint32 in
     if y = 0 then None else Some (c_sext32to64 (x div y)))"

definition c_remw :: "uint64 \<Rightarrow> uint64 \<Rightarrow> uint64 option" where
  "c_remw a b = (let x = ucast a :: uint32; y = ucast b :: uint32 in
     if y = 0 \<or> sint x = - (2 ^ 31) \<and> sint y = -1 then None
     else Some (c_sext32to64 (word_of_int (sint x smod sint y))))"

definition c_remuw :: "uint64 \<Rightarrow> uint64 \<Rightarrow> uint64 option" where
  "c_remuw a b = (let x = ucast a :: uint32; y = ucast b :: uint32 in
     if y = 0 then None else Some (c_sext32to64 (x mod y)))"

lemmas c_op_defs = c_add_def c_sub_def c_and_def c_or_def c_xor_def c_shl_def c_shr_def c_sar_def
  c_addw_def c_subw_def c_shlw_def c_shrw_def c_sarw_def c_mulu_lo_def c_mulw_def

section \<open>Comparisons\<close>

text \<open>A comparison code is the union of an unsigned (8), a signed (4), an equality (2) and an
  inversion (1) bit.\<close>

definition RELOP_FALSE :: uint32 where "RELOP_FALSE = 0 OR 0 OR 0 OR 0"
definition RELOP_TRUE :: uint32 where "RELOP_TRUE = 0 OR 0 OR 0 OR 1"
definition RELOP_EQ :: uint32 where "RELOP_EQ = 0 OR 0 OR 2 OR 0"
definition RELOP_NE :: uint32 where "RELOP_NE = 0 OR 0 OR 2 OR 1"
definition RELOP_LT :: uint32 where "RELOP_LT = 0 OR 4 OR 0 OR 0"
definition RELOP_LE :: uint32 where "RELOP_LE = 0 OR 4 OR 2 OR 0"
definition RELOP_GT :: uint32 where "RELOP_GT = 0 OR 4 OR 2 OR 1"
definition RELOP_GE :: uint32 where "RELOP_GE = 0 OR 4 OR 0 OR 1"
definition RELOP_LTU :: uint32 where "RELOP_LTU = 8 OR 0 OR 0 OR 0"
definition RELOP_LEU :: uint32 where "RELOP_LEU = 8 OR 0 OR 2 OR 0"
definition RELOP_GTU :: uint32 where "RELOP_GTU = 8 OR 0 OR 2 OR 1"
definition RELOP_GEU :: uint32 where "RELOP_GEU = 8 OR 0 OR 0 OR 1"

lemmas relop_defs = RELOP_FALSE_def RELOP_TRUE_def RELOP_EQ_def RELOP_NE_def RELOP_LT_def RELOP_LE_def
  RELOP_GT_def RELOP_GE_def RELOP_LTU_def RELOP_LEU_def RELOP_GTU_def RELOP_GEU_def

text \<open>\<open>None\<close> is the \<open>panic\<close> of the default case.\<close>

definition interpret_relop :: "uint32 \<Rightarrow> uint64 \<Rightarrow> uint64 \<Rightarrow> bool option" where
  "interpret_relop relop src1 src2 =
     (if relop = RELOP_FALSE then Some False
      else if relop = RELOP_TRUE then Some True
      else if relop = RELOP_EQ then Some (src1 = src2)
      else if relop = RELOP_NE then Some (src1 \<noteq> src2)
      else if relop = RELOP_LT then Some (sint src1 < sint src2)
      else if relop = RELOP_LE then Some (sint src1 \<le> sint src2)
      else if relop = RELOP_GT then Some (sint src1 > sint src2)
      else if relop = RELOP_GE then Some (sint src1 \<ge> sint src2)
      else if relop = RELOP_LTU then Some (src1 < src2)
      else if relop = RELOP_LEU then Some (src1 \<le> src2)
      else if relop = RELOP_GTU then Some (src1 > src2)
      else if relop = RELOP_GEU then Some (src1 \<ge> src2)
      else None)"

definition relop_m :: "uint32 \<Rightarrow> uint64 \<Rightarrow> uint64 \<Rightarrow> bool nemu" where
  "relop_m relop a b = (case interpret_relop relop a b of None \<Rightarrow> die Assert_fail | Some r \<Rightarrow> ret r)"

lemma interpret_relop_simps [simp]:
  "interpret_relop RELOP_EQ a b = Some (a = b)"
  "interpret_relop RELOP_NE a b = Some (a \<noteq> b)"
  "interpret_relop RELOP_LT a b = Some (sint a < sint b)"
  "interpret_relop RELOP_GE a b = Some (sint a \<ge> sint b)"
  "interpret_relop RELOP_LTU a b = Some (a < b)"
  "interpret_relop RELOP_GEU a b = Some (a \<ge> b)"
  by (simp_all add: interpret_relop_def relop_defs)

section \<open>Compute instructions\<close>

definition def_rtl_compute_reg ::
  "(uint64 \<Rightarrow> uint64 \<Rightarrow> uint64) \<Rightarrow> ptr \<Rightarrow> ptr \<Rightarrow> ptr \<Rightarrow> unit nemu" where
  "def_rtl_compute_reg op dest src1 src2 =
     bnd (gets (\<lambda>st. op (read_ptr st src1) (read_ptr st src2))) (write_ptr dest)"

definition def_rtl_compute_imm ::
  "(uint64 \<Rightarrow> uint64 \<Rightarrow> uint64) \<Rightarrow> ptr \<Rightarrow> ptr \<Rightarrow> uint64 \<Rightarrow> unit nemu" where
  "def_rtl_compute_imm op dest src1 i = bnd (gets (\<lambda>st. op (read_ptr st src1) i)) (write_ptr dest)"

text \<open>The same macro around an operator that can trap.\<close>

definition def_rtl_compute_div ::
  "(uint64 \<Rightarrow> uint64 \<Rightarrow> uint64 option) \<Rightarrow> ptr \<Rightarrow> ptr \<Rightarrow> ptr \<Rightarrow> unit nemu" where
  "def_rtl_compute_div op dest src1 src2 =
     bnd (gets (\<lambda>st. op (read_ptr st src1) (read_ptr st src2)))
         (\<lambda>r. case r of None \<Rightarrow> die Host_fault | Some v \<Rightarrow> write_ptr dest v)"

lemmas rtl_compute_defs [rtl_defs] =
  def_rtl_compute_reg_def def_rtl_compute_imm_def def_rtl_compute_div_def

definition rtl_add :: "ptr \<Rightarrow> ptr \<Rightarrow> ptr \<Rightarrow> unit nemu" where [rtl_defs]: "rtl_add = def_rtl_compute_reg c_add"
definition rtl_sub :: "ptr \<Rightarrow> ptr \<Rightarrow> ptr \<Rightarrow> unit nemu" where [rtl_defs]: "rtl_sub = def_rtl_compute_reg c_sub"
definition rtl_and :: "ptr \<Rightarrow> ptr \<Rightarrow> ptr \<Rightarrow> unit nemu" where [rtl_defs]: "rtl_and = def_rtl_compute_reg c_and"
definition rtl_or :: "ptr \<Rightarrow> ptr \<Rightarrow> ptr \<Rightarrow> unit nemu" where [rtl_defs]: "rtl_or = def_rtl_compute_reg c_or"
definition rtl_xor :: "ptr \<Rightarrow> ptr \<Rightarrow> ptr \<Rightarrow> unit nemu" where [rtl_defs]: "rtl_xor = def_rtl_compute_reg c_xor"
definition rtl_shl :: "ptr \<Rightarrow> ptr \<Rightarrow> ptr \<Rightarrow> unit nemu" where [rtl_defs]: "rtl_shl = def_rtl_compute_reg c_shl"
definition rtl_shr :: "ptr \<Rightarrow> ptr \<Rightarrow> ptr \<Rightarrow> unit nemu" where [rtl_defs]: "rtl_shr = def_rtl_compute_reg c_shr"
definition rtl_sar :: "ptr \<Rightarrow> ptr \<Rightarrow> ptr \<Rightarrow> unit nemu" where [rtl_defs]: "rtl_sar = def_rtl_compute_reg c_sar"
definition rtl_addw :: "ptr \<Rightarrow> ptr \<Rightarrow> ptr \<Rightarrow> unit nemu" where [rtl_defs]: "rtl_addw = def_rtl_compute_reg c_addw"
definition rtl_subw :: "ptr \<Rightarrow> ptr \<Rightarrow> ptr \<Rightarrow> unit nemu" where [rtl_defs]: "rtl_subw = def_rtl_compute_reg c_subw"
definition rtl_shlw :: "ptr \<Rightarrow> ptr \<Rightarrow> ptr \<Rightarrow> unit nemu" where [rtl_defs]: "rtl_shlw = def_rtl_compute_reg c_shlw"
definition rtl_shrw :: "ptr \<Rightarrow> ptr \<Rightarrow> ptr \<Rightarrow> unit nemu" where [rtl_defs]: "rtl_shrw = def_rtl_compute_reg c_shrw"
definition rtl_sarw :: "ptr \<Rightarrow> ptr \<Rightarrow> ptr \<Rightarrow> unit nemu" where [rtl_defs]: "rtl_sarw = def_rtl_compute_reg c_sarw"
definition rtl_mulu_lo :: "ptr \<Rightarrow> ptr \<Rightarrow> ptr \<Rightarrow> unit nemu" where [rtl_defs]: "rtl_mulu_lo = def_rtl_compute_reg c_mulu_lo"
definition rtl_mulu_hi :: "ptr \<Rightarrow> ptr \<Rightarrow> ptr \<Rightarrow> unit nemu" where [rtl_defs]: "rtl_mulu_hi = def_rtl_compute_reg c_mulu_hi"
definition rtl_muls_hi :: "ptr \<Rightarrow> ptr \<Rightarrow> ptr \<Rightarrow> unit nemu" where [rtl_defs]: "rtl_muls_hi = def_rtl_compute_reg c_muls_hi"
definition rtl_divu_q :: "ptr \<Rightarrow> ptr \<Rightarrow> ptr \<Rightarrow> unit nemu" where [rtl_defs]: "rtl_divu_q = def_rtl_compute_div c_divu_q"
definition rtl_divu_r :: "ptr \<Rightarrow> ptr \<Rightarrow> ptr \<Rightarrow> unit nemu" where [rtl_defs]: "rtl_divu_r = def_rtl_compute_div c_divu_r"
definition rtl_divs_q :: "ptr \<Rightarrow> ptr \<Rightarrow> ptr \<Rightarrow> unit nemu" where [rtl_defs]: "rtl_divs_q = def_rtl_compute_div c_divs_q"
definition rtl_divs_r :: "ptr \<Rightarrow> ptr \<Rightarrow> ptr \<Rightarrow> unit nemu" where [rtl_defs]: "rtl_divs_r = def_rtl_compute_div c_divs_r"
definition rtl_mulw :: "ptr \<Rightarrow> ptr \<Rightarrow> ptr \<Rightarrow> unit nemu" where [rtl_defs]: "rtl_mulw = def_rtl_compute_reg c_mulw"
definition rtl_divw :: "ptr \<Rightarrow> ptr \<Rightarrow> ptr \<Rightarrow> unit nemu" where [rtl_defs]: "rtl_divw = def_rtl_compute_div c_divw"
definition rtl_divuw :: "ptr \<Rightarrow> ptr \<Rightarrow> ptr \<Rightarrow> unit nemu" where [rtl_defs]: "rtl_divuw = def_rtl_compute_div c_divuw"
definition rtl_remw :: "ptr \<Rightarrow> ptr \<Rightarrow> ptr \<Rightarrow> unit nemu" where [rtl_defs]: "rtl_remw = def_rtl_compute_div c_remw"
definition rtl_remuw :: "ptr \<Rightarrow> ptr \<Rightarrow> ptr \<Rightarrow> unit nemu" where [rtl_defs]: "rtl_remuw = def_rtl_compute_div c_remuw"

definition rtl_addi :: "ptr \<Rightarrow> ptr \<Rightarrow> uint64 \<Rightarrow> unit nemu" where [rtl_defs]: "rtl_addi = def_rtl_compute_imm c_add"
definition rtl_subi :: "ptr \<Rightarrow> ptr \<Rightarrow> uint64 \<Rightarrow> unit nemu" where [rtl_defs]: "rtl_subi = def_rtl_compute_imm c_sub"
definition rtl_andi :: "ptr \<Rightarrow> ptr \<Rightarrow> uint64 \<Rightarrow> unit nemu" where [rtl_defs]: "rtl_andi = def_rtl_compute_imm c_and"
definition rtl_ori :: "ptr \<Rightarrow> ptr \<Rightarrow> uint64 \<Rightarrow> unit nemu" where [rtl_defs]: "rtl_ori = def_rtl_compute_imm c_or"
definition rtl_xori :: "ptr \<Rightarrow> ptr \<Rightarrow> uint64 \<Rightarrow> unit nemu" where [rtl_defs]: "rtl_xori = def_rtl_compute_imm c_xor"
definition rtl_shli :: "ptr \<Rightarrow> ptr \<Rightarrow> uint64 \<Rightarrow> unit nemu" where [rtl_defs]: "rtl_shli = def_rtl_compute_imm c_shl"
definition rtl_shri :: "ptr \<Rightarrow> ptr \<Rightarrow> uint64 \<Rightarrow> unit nemu" where [rtl_defs]: "rtl_shri = def_rtl_compute_imm c_shr"
definition rtl_sari :: "ptr \<Rightarrow> ptr \<Rightarrow> uint64 \<Rightarrow> unit nemu" where [rtl_defs]: "rtl_sari = def_rtl_compute_imm c_sar"
definition rtl_addiw :: "ptr \<Rightarrow> ptr \<Rightarrow> uint64 \<Rightarrow> unit nemu" where [rtl_defs]: "rtl_addiw = def_rtl_compute_imm c_addw"
definition rtl_shliw :: "ptr \<Rightarrow> ptr \<Rightarrow> uint64 \<Rightarrow> unit nemu" where [rtl_defs]: "rtl_shliw = def_rtl_compute_imm c_shlw"
definition rtl_shriw :: "ptr \<Rightarrow> ptr \<Rightarrow> uint64 \<Rightarrow> unit nemu" where [rtl_defs]: "rtl_shriw = def_rtl_compute_imm c_shrw"
definition rtl_sariw :: "ptr \<Rightarrow> ptr \<Rightarrow> uint64 \<Rightarrow> unit nemu" where [rtl_defs]: "rtl_sariw = def_rtl_compute_imm c_sarw"

definition rtl_setrelop :: "uint32 \<Rightarrow> ptr \<Rightarrow> ptr \<Rightarrow> ptr \<Rightarrow> unit nemu" where [rtl_defs]:
  "rtl_setrelop relop dest src1 src2 =
     bnd (gets (\<lambda>st. (read_ptr st src1, read_ptr st src2))) (\<lambda>(a, b).
     bnd (relop_m relop a b) (\<lambda>r. write_ptr dest (if r then 1 else 0)))"

definition rtl_setrelopi :: "uint32 \<Rightarrow> ptr \<Rightarrow> ptr \<Rightarrow> uint64 \<Rightarrow> unit nemu" where [rtl_defs]:
  "rtl_setrelopi relop dest src1 i =
     bnd (gets (\<lambda>st. read_ptr st src1)) (\<lambda>a.
     bnd (relop_m relop a i) (\<lambda>r. write_ptr dest (if r then 1 else 0)))"

text \<open>The 64-by-32 divisions; the divisor is truncated to 32 bits, and so may become zero.\<close>

definition rtl_div64u_q :: "ptr \<Rightarrow> ptr \<Rightarrow> ptr \<Rightarrow> ptr \<Rightarrow> unit nemu" where [rtl_defs]:
  "rtl_div64u_q dest hi lo src2 =
     bnd (gets (\<lambda>st. (push_bit 32 (read_ptr st hi) OR read_ptr st lo, ucast (read_ptr st src2) :: uint32)))
       (\<lambda>(dividend, divisor).
          if divisor = 0 then die Host_fault else write_ptr dest (dividend div ucast divisor))"

definition rtl_div64u_r :: "ptr \<Rightarrow> ptr \<Rightarrow> ptr \<Rightarrow> ptr \<Rightarrow> unit nemu" where [rtl_defs]:
  "rtl_div64u_r dest hi lo src2 =
     bnd (gets (\<lambda>st. (push_bit 32 (read_ptr st hi) OR read_ptr st lo, ucast (read_ptr st src2) :: uint32)))
       (\<lambda>(dividend, divisor).
          if divisor = 0 then die Host_fault else write_ptr dest (dividend mod ucast divisor))"

definition rtl_div64s_q :: "ptr \<Rightarrow> ptr \<Rightarrow> ptr \<Rightarrow> ptr \<Rightarrow> unit nemu" where [rtl_defs]:
  "rtl_div64s_q dest hi lo src2 =
     bnd (gets (\<lambda>st. (push_bit 32 (read_ptr st hi) OR read_ptr st lo, ucast (read_ptr st src2) :: uint32)))
       (\<lambda>(dividend, divisor).
          case c_divs_q dividend (scast divisor) of None \<Rightarrow> die Host_fault | Some v \<Rightarrow> write_ptr dest v)"

definition rtl_div64s_r :: "ptr \<Rightarrow> ptr \<Rightarrow> ptr \<Rightarrow> ptr \<Rightarrow> unit nemu" where [rtl_defs]:
  "rtl_div64s_r dest hi lo src2 =
     bnd (gets (\<lambda>st. (push_bit 32 (read_ptr st hi) OR read_ptr st lo, ucast (read_ptr st src2) :: uint32)))
       (\<lambda>(dividend, divisor).
          case c_divs_r dividend (scast divisor) of None \<Rightarrow> die Host_fault | Some v \<Rightarrow> write_ptr dest v)"

section \<open>Pseudo instructions\<close>

definition rtl_li :: "ptr \<Rightarrow> uint64 \<Rightarrow> unit nemu" where [rtl_defs]:
  "rtl_li dest i = rtl_addi dest PRz i"

definition rtl_mv :: "ptr \<Rightarrow> ptr \<Rightarrow> unit nemu" where [rtl_defs]:
  "rtl_mv dest src1 = rtl_addi dest src1 0"

definition rtl_not :: "ptr \<Rightarrow> ptr \<Rightarrow> unit nemu" where [rtl_defs]:
  "rtl_not dest src1 = rtl_xori dest src1 (-1)"

definition rtl_neg :: "ptr \<Rightarrow> ptr \<Rightarrow> unit nemu" where [rtl_defs]:
  "rtl_neg dest src1 = rtl_sub dest PRz src1"

definition rtl_sext :: "ptr \<Rightarrow> ptr \<Rightarrow> nat \<Rightarrow> unit nemu" where [rtl_defs]:
  "rtl_sext dest src1 width =
     (if width = 8 then rtl_mv dest src1
      else seqs [assert_m (width = 1 \<or> width = 2 \<or> width = 4),
                 rtl_shli dest src1 (of_nat ((8 - width) * 8)),
                 rtl_sari dest dest (of_nat ((8 - width) * 8))])"

definition rtl_zext :: "ptr \<Rightarrow> ptr \<Rightarrow> nat \<Rightarrow> unit nemu" where [rtl_defs]:
  "rtl_zext dest src1 width =
     (if width = 8 then rtl_mv dest src1
      else seqs [assert_m (width = 1 \<or> width = 2 \<or> width = 4),
                 rtl_shli dest src1 (of_nat ((8 - width) * 8)),
                 rtl_shri dest dest (of_nat ((8 - width) * 8))])"

definition rtl_msb :: "ptr \<Rightarrow> ptr \<Rightarrow> nat \<Rightarrow> unit nemu" where [rtl_defs]:
  "rtl_msb dest src1 width =
     thn (rtl_shri dest src1 (of_nat (width * 8 - 1)))
         (if width \<noteq> 4 then rtl_andi dest dest 1 else skip)"

definition rtl_mux :: "ptr \<Rightarrow> ptr \<Rightarrow> ptr \<Rightarrow> ptr \<Rightarrow> unit nemu" where [rtl_defs]:
  "rtl_mux dest cond src1 src2 = seqs [
     rtl_setrelopi RELOP_EQ (PTmp T0) cond 0,
     rtl_subi (PTmp T0) (PTmp T0) 1,
     rtl_and (PTmp S2) src1 (PTmp T0),
     rtl_not (PTmp T0) (PTmp T0),
     rtl_and (PTmp T0) src2 (PTmp T0),
     rtl_or dest (PTmp T0) (PTmp S2)]"

section \<open>Control\<close>

definition rtl_j :: "uint64 \<Rightarrow> unit nemu" where [rtl_defs]:
  "rtl_j target = modify (\<lambda>st. st\<lparr>cpu := (cpu st)\<lparr>cpu_pc := target\<rparr>\<rparr>)"

definition rtl_jr :: "ptr \<Rightarrow> unit nemu" where [rtl_defs]:
  "rtl_jr target = bnd (gets (\<lambda>st. read_ptr st target)) rtl_j"

definition rtl_jrelop :: "decode \<Rightarrow> uint32 \<Rightarrow> ptr \<Rightarrow> ptr \<Rightarrow> uint64 \<Rightarrow> unit nemu" where [rtl_defs]:
  "rtl_jrelop s relop src1 src2 target =
     bnd (gets (\<lambda>st. (read_ptr st src1, read_ptr st src2))) (\<lambda>(a, b).
     bnd (relop_m relop a b) (\<lambda>is_jmp. rtl_j (if is_jmp then target else d_snpc s)))"

end
