(* ===== verification/Vaddr.thy ===== *)
theory Vaddr
  imports Mmu Rtl
begin

text \<open>
  Virtual memory accesses (\<open>src/memory/vaddr.c\<close>) in the build without the host TLB, the instruction
  fetch (\<open>include/cpu/ifetch.h\<close>) and the memory instructions of the RTL layer
  (\<open>src/engine/interpreter/rtl-basic.h\<close>).
\<close>

definition PAGE_SHIFT :: nat where "PAGE_SHIFT = 12"
definition PAGE_SIZE :: uint64 where "PAGE_SIZE = push_bit PAGE_SHIFT 1"
definition PAGE_MASK :: uint64 where "PAGE_MASK = PAGE_SIZE - 1"

lemmas page_defs = PAGE_SHIFT_def PAGE_SIZE_def PAGE_MASK_def

section \<open>Accesses that cross a page\<close>

text \<open>Byte by byte; a translation that does not succeed ends the access. \<open>i\<close> is the loop counter,
  \<open>n\<close> the number of bytes left.\<close>

primrec read_cross_loop :: "nat \<Rightarrow> nat \<Rightarrow> uint64 \<Rightarrow> mem_type \<Rightarrow> uint64 \<Rightarrow> uint64 nemu" where
  "read_cross_loop 0 i addr type data = ret data"
| "read_cross_loop (Suc n) i addr type data =
     bnd (isa_mmu_translate addr 1 type) (\<lambda>mmu_ret.
       if unat (ucast mmu_ret AND PAGE_MASK) \<noteq> MEM_RET_OK then ret 0
       else bnd (paddr_read ((mmu_ret AND NOT (ucast PAGE_MASK)) OR ucast (addr AND PAGE_MASK)) 1) (\<lambda>byte.
         read_cross_loop n (i + 1) (addr + 1) type (data OR push_bit (8 * i) byte)))"

definition vaddr_read_cross_page :: "uint64 \<Rightarrow> nat \<Rightarrow> mem_type \<Rightarrow> uint64 nemu" where
  "vaddr_read_cross_page addr len type = read_cross_loop len 0 addr type 0"

primrec write_cross_loop :: "nat \<Rightarrow> uint64 \<Rightarrow> uint64 \<Rightarrow> unit nemu" where
  "write_cross_loop 0 addr data = skip"
| "write_cross_loop (Suc n) addr data =
     bnd (isa_mmu_translate addr 1 MEM_TYPE_WRITE) (\<lambda>mmu_ret.
       if unat (ucast mmu_ret AND PAGE_MASK) \<noteq> MEM_RET_OK then skip
       else thn (paddr_write ((mmu_ret AND NOT (ucast PAGE_MASK)) OR ucast (addr AND PAGE_MASK)) 1 (data AND 0xff))
         (write_cross_loop n (addr + 1) (drop_bit 8 data)))"

definition vaddr_write_cross_page :: "uint64 \<Rightarrow> nat \<Rightarrow> uint64 \<Rightarrow> unit nemu" where
  "vaddr_write_cross_page addr len data = write_cross_loop len addr data"

section \<open>Translated accesses\<close>

definition vaddr_mmu_read :: "uint64 \<Rightarrow> nat \<Rightarrow> mem_type \<Rightarrow> uint64 nemu" where
  "vaddr_mmu_read addr len type =
     bnd (isa_mmu_translate addr len type) (\<lambda>pg_base.
       let r = unat (ucast pg_base AND PAGE_MASK) in
       if r = MEM_RET_OK then paddr_read (ucast (ucast pg_base OR (addr AND PAGE_MASK))) len
       else if len \<noteq> 1 \<and> r = MEM_RET_CROSS_PAGE then vaddr_read_cross_page addr len type
       else ret 0)"

definition vaddr_mmu_write :: "uint64 \<Rightarrow> nat \<Rightarrow> uint64 \<Rightarrow> unit nemu" where
  "vaddr_mmu_write addr len data =
     bnd (isa_mmu_translate addr len MEM_TYPE_WRITE) (\<lambda>pg_base.
       let r = unat (ucast pg_base AND PAGE_MASK) in
       if r = MEM_RET_OK then paddr_write (ucast (ucast pg_base OR (addr AND PAGE_MASK))) len data
       else if len \<noteq> 1 \<and> r = MEM_RET_CROSS_PAGE then vaddr_write_cross_page addr len data
       else skip)"

definition vaddr_read_internal :: "uint64 \<Rightarrow> nat \<Rightarrow> mem_type \<Rightarrow> mmu_mode \<Rightarrow> uint64 nemu" where
  "vaddr_read_internal addr len type m =
     bnd (if m = MMU_DYNAMIC then isa_mmu_check addr len type else ret m) (\<lambda>m'.
       if m' = MMU_DIRECT then paddr_read (ucast addr) len else vaddr_mmu_read addr len type)"

definition vaddr_ifetch :: "uint64 \<Rightarrow> nat \<Rightarrow> uint64 nemu" where
  "vaddr_ifetch addr len = vaddr_read_internal addr len MEM_TYPE_IFETCH MMU_DYNAMIC"

definition vaddr_read :: "uint64 \<Rightarrow> nat \<Rightarrow> mmu_mode \<Rightarrow> uint64 nemu" where
  "vaddr_read addr len m = vaddr_read_internal addr len MEM_TYPE_READ m"

definition vaddr_write :: "uint64 \<Rightarrow> nat \<Rightarrow> uint64 \<Rightarrow> mmu_mode \<Rightarrow> unit nemu" where
  "vaddr_write addr len data m =
     bnd (if m = MMU_DYNAMIC then isa_mmu_check addr len MEM_TYPE_WRITE else ret m) (\<lambda>m'.
       if m' = MMU_DIRECT then paddr_write (ucast addr) len data else vaddr_mmu_write addr len data)"

definition vaddr_read_safe :: "uint64 \<Rightarrow> nat \<Rightarrow> uint64 nemu" where
  "vaddr_read_safe addr len = vaddr_read_internal addr len MEM_TYPE_READ MMU_DYNAMIC"

text \<open>Instruction fetch returns a 32-bit value and advances the caller's program counter.\<close>

definition instr_fetch :: "uint64 \<Rightarrow> nat \<Rightarrow> (uint32 \<times> uint64) nemu" where
  "instr_fetch pc len = bnd (vaddr_ifetch pc len) (\<lambda>w. ret (ucast w, pc + of_nat len))"

section \<open>RTL memory instructions\<close>

definition rtl_lm :: "ptr \<Rightarrow> ptr \<Rightarrow> uint64 \<Rightarrow> nat \<Rightarrow> mmu_mode \<Rightarrow> unit nemu" where
  "rtl_lm dest addr offset len m =
     bnd (gets (\<lambda>st. read_ptr st addr)) (\<lambda>a. bnd (vaddr_read (a + offset) len m) (write_ptr dest))"

definition rtl_sm :: "ptr \<Rightarrow> ptr \<Rightarrow> uint64 \<Rightarrow> nat \<Rightarrow> mmu_mode \<Rightarrow> unit nemu" where
  "rtl_sm src1 addr offset len m =
     bnd (gets (\<lambda>st. (read_ptr st addr, read_ptr st src1))) (\<lambda>(a, v). vaddr_write (a + offset) len v m)"

text \<open>The sign extension of a loaded value of \<open>len\<close> bytes.\<close>

definition sext_len :: "nat \<Rightarrow> uint64 \<Rightarrow> uint64 option" where
  "sext_len len val =
     (if len = 4 then Some (scast (ucast val :: 32 word))
      else if len = 1 then Some (scast (ucast val :: 8 word))
      else if len = 2 then Some (scast (ucast val :: 16 word))
      else if len = 8 then Some val
      else None)"

definition rtl_lms :: "ptr \<Rightarrow> ptr \<Rightarrow> uint64 \<Rightarrow> nat \<Rightarrow> mmu_mode \<Rightarrow> unit nemu" where
  "rtl_lms dest addr offset len m =
     bnd (gets (\<lambda>st. read_ptr st addr)) (\<lambda>a.
     bnd (vaddr_read (a + offset) len m) (\<lambda>val.
       case sext_len len val of None \<Rightarrow> die Assert_fail | Some v \<Rightarrow> write_ptr dest v))"

text \<open>The forms on host addresses truncate to \<open>len\<close> bytes.\<close>

definition rtl_host_lm :: "ptr \<Rightarrow> uint64 \<Rightarrow> nat \<Rightarrow> unit nemu" where
  "rtl_host_lm dest addr len = bnd (host_read addr len) (write_ptr dest)"

definition rtl_host_sm :: "uint64 \<Rightarrow> ptr \<Rightarrow> nat \<Rightarrow> unit nemu" where
  "rtl_host_sm addr src1 len = bnd (gets (\<lambda>st. read_ptr st src1)) (host_write addr len)"

lemmas rtl_mem_defs = rtl_lm_def rtl_sm_def rtl_lms_def rtl_host_lm_def rtl_host_sm_def

end
