(* ===== verification/Decode.thy ===== *)
theory Decode
  imports ExecId Vaddr
begin

text \<open>
  The decoder (\<open>src/isa/riscv64/instr/decode.c\<close> and the \<open>decode.h\<close> of every extension): the pattern
  strings of \<open>include/cpu/decode.h\<close>, the instruction fields of \<open>isa-def.h\<close>, the operand helpers of each
  format and the decode tables, in the order of the source. A table maps the decode record to the record
  with its operands filled in and the identity of the execution helper; \<open>None\<close> is a failed assertion
  of the decoder. Tables that depend on the MMU state or on the FPU being enabled take the machine.
\<close>

section \<open>Pattern strings\<close>

text \<open>Key, mask and shift are accumulated character by character; spaces are skipped and any character
  other than \<open>0\<close>, \<open>1\<close> and \<open>?\<close> is a failed assertion. The unrolled macro looks at 64 characters at most.\<close>

type_synonym pat = "uint32 \<times> uint32 \<times> uint32"

definition pat_step :: "char \<Rightarrow> pat \<Rightarrow> pat option" where
  "pat_step c kms = (case kms of (key, msk, shift) \<Rightarrow>
     if c = CHR '' '' then Some (key, msk, shift)
     else if c = CHR ''0'' \<or> c = CHR ''1'' \<or> c = CHR ''?'' then
       Some (push_bit 1 key OR (if c = CHR ''1'' then 1 else 0),
             push_bit 1 msk OR (if c = CHR ''?'' then 0 else 1),
             (if c = CHR ''?'' then shift + 1 else 0))
     else None)"

fun pat_run :: "string \<Rightarrow> pat \<Rightarrow> pat option" where
  "pat_run [] kms = Some kms"
| "pat_run (c # cs) kms = (case pat_step c kms of None \<Rightarrow> None | Some kms' \<Rightarrow> pat_run cs kms')"

definition pattern_decode :: "string \<Rightarrow> pat option" where
  "pattern_decode str = (case pat_run (take 64 str) (0, 0, 0) of
     None \<Rightarrow> None
   | Some (key, msk, shift) \<Rightarrow> Some (drop_bit (unat shift) key, drop_bit (unat shift) msk, shift))"

text \<open>The guard of \<open>def_INSTR_raw\<close>.\<close>

definition instr_match :: "string \<Rightarrow> uint32 \<Rightarrow> bool" where
  "instr_match p instr = (case pattern_decode p of
     None \<Rightarrow> False
   | Some (key, msk, shift) \<Rightarrow> drop_bit (unat shift) instr AND msk = key)"

section \<open>Table entries\<close>

type_synonym dres = "(decode \<times> exec_id) option"

definition get_instr :: "decode \<Rightarrow> uint32" where "get_instr s = d_instr s"

definition tb :: "exec_id \<Rightarrow> decode \<Rightarrow> dres" where "tb i s = Some (s, i)"

definition inv :: "decode \<Rightarrow> dres" where "inv = tb (Special ID_inv)"

definition TAB :: "decode \<Rightarrow> string \<Rightarrow> (decode \<Rightarrow> dres) \<Rightarrow> bool \<times> dres" where
  "TAB s p t = (instr_match p (get_instr s), t s)"

definition IDTAB :: "decode \<Rightarrow> string \<Rightarrow> (decode \<Rightarrow> decode) \<Rightarrow> (decode \<Rightarrow> dres) \<Rightarrow> bool \<times> dres" where
  "IDTAB s p dh t = (instr_match p (get_instr s), t (dh s))"

text \<open>The same with an operand helper that asserts.\<close>

definition IDTABa :: "decode \<Rightarrow> string \<Rightarrow> (decode \<Rightarrow> decode option) \<Rightarrow> (decode \<Rightarrow> dres) \<Rightarrow> bool \<times> dres" where
  "IDTABa s p dh t = (instr_match p (get_instr s), case dh s of None \<Rightarrow> None | Some s' \<Rightarrow> t s')"

section \<open>Instruction fields\<close>

definition f_opcode1_0 :: "uint32 \<Rightarrow> uint32" where "f_opcode1_0 w = take_bit 2 w"
definition f_opcode6_2 :: "uint32 \<Rightarrow> uint32" where "f_opcode6_2 w = take_bit 5 (drop_bit 2 w)"
definition f_rd :: "uint32 \<Rightarrow> uint32" where "f_rd w = take_bit 5 (drop_bit 7 w)"
definition f_funct3 :: "uint32 \<Rightarrow> uint32" where "f_funct3 w = take_bit 3 (drop_bit 12 w)"
definition f_rs1 :: "uint32 \<Rightarrow> uint32" where "f_rs1 w = take_bit 5 (drop_bit 15 w)"
definition f_rs2 :: "uint32 \<Rightarrow> uint32" where "f_rs2 w = take_bit 5 (drop_bit 20 w)"
definition f_funct7 :: "uint32 \<Rightarrow> uint32" where "f_funct7 w = take_bit 7 (drop_bit 25 w)"
definition f_csr :: "uint32 \<Rightarrow> uint32" where "f_csr w = take_bit 12 (drop_bit 20 w)"
definition f_fmt :: "uint32 \<Rightarrow> uint32" where "f_fmt w = take_bit 2 (drop_bit 25 w)"
definition f_funct5 :: "uint32 \<Rightarrow> uint32" where "f_funct5 w = take_bit 5 (drop_bit 27 w)"

text \<open>Signed bit fields (\<open>int32_t simm : n\<close>) and the pieces of the scattered immediates.\<close>

definition i_simm11_0 :: "uint32 \<Rightarrow> uint32" where "i_simm11_0 w = signed_take_bit 11 (drop_bit 20 w)"
definition s_imm4_0 :: "uint32 \<Rightarrow> uint32" where "s_imm4_0 w = take_bit 5 (drop_bit 7 w)"
definition s_simm11_5 :: "uint32 \<Rightarrow> uint32" where "s_simm11_5 w = signed_take_bit 6 (drop_bit 25 w)"
definition b_imm11 :: "uint32 \<Rightarrow> uint32" where "b_imm11 w = take_bit 1 (drop_bit 7 w)"
definition b_imm4_1 :: "uint32 \<Rightarrow> uint32" where "b_imm4_1 w = take_bit 4 (drop_bit 8 w)"
definition b_imm10_5 :: "uint32 \<Rightarrow> uint32" where "b_imm10_5 w = take_bit 6 (drop_bit 25 w)"
definition b_simm12 :: "uint32 \<Rightarrow> uint32" where "b_simm12 w = signed_take_bit 0 (drop_bit 31 w)"
definition u_simm31_12 :: "uint32 \<Rightarrow> uint32" where "u_simm31_12 w = signed_take_bit 19 (drop_bit 12 w)"
definition j_imm19_12 :: "uint32 \<Rightarrow> uint32" where "j_imm19_12 w = take_bit 8 (drop_bit 12 w)"
definition j_imm11 :: "uint32 \<Rightarrow> uint32" where "j_imm11 w = take_bit 1 (drop_bit 20 w)"
definition j_imm10_1 :: "uint32 \<Rightarrow> uint32" where "j_imm10_1 w = take_bit 10 (drop_bit 21 w)"
definition j_simm20 :: "uint32 \<Rightarrow> uint32" where "j_simm20 w = signed_take_bit 0 (drop_bit 31 w)"

lemmas field_defs = f_opcode1_0_def f_opcode6_2_def f_rd_def f_funct3_def f_rs1_def f_rs2_def
  f_funct7_def f_csr_def f_fmt_def f_funct5_def
lemmas imm_field_defs = i_simm11_0_def s_imm4_0_def s_simm11_5_def b_imm11_def b_imm4_1_def
  b_imm10_5_def b_simm12_def u_simm31_12_def j_imm19_12_def j_imm11_def j_imm10_1_def j_simm20_def

section \<open>Operand helpers\<close>

text \<open>A register operand is loaded (\<open>flag\<close>) or a destination; the destination \<open>x0\<close> is replaced by the
  dummy word. Every index comes from a field of at most five bits, which is what \<open>check_reg_index\<close>
  asserts.\<close>

definition decode_op_i :: "uint64 \<Rightarrow> operand" where
  "decode_op_i val = Oimm val"

definition decode_op_r :: "uint32 \<Rightarrow> bool \<Rightarrow> operand" where
  "decode_op_r val flag = Oreg (if \<not> flag \<and> val = 0 then PZeroNull else PGpr (ucast val))"

definition decode_op_fr :: "uint32 \<Rightarrow> bool \<Rightarrow> operand" where
  "decode_op_fr val flag = Oreg (PFpr (ucast val))"

subsection \<open>RVI, CSR and floating-point formats\<close>

definition decode_I :: "decode \<Rightarrow> decode" where
  "decode_I s = s\<lparr>d_src1 := decode_op_r (f_rs1 (d_instr s)) True,
     d_src2 := decode_op_i (scast (i_simm11_0 (d_instr s))),
     d_dest := decode_op_r (f_rd (d_instr s)) False\<rparr>"

definition decode_R :: "decode \<Rightarrow> decode" where
  "decode_R s = s\<lparr>d_src1 := decode_op_r (f_rs1 (d_instr s)) True,
     d_src2 := decode_op_r (f_rs2 (d_instr s)) True,
     d_dest := decode_op_r (f_rd (d_instr s)) False\<rparr>"

definition decode_U :: "decode \<Rightarrow> decode" where
  "decode_U s = s\<lparr>d_src1 := decode_op_i (push_bit 12 (scast (u_simm31_12 (d_instr s)))),
     d_dest := decode_op_r (f_rd (d_instr s)) False\<rparr>"

text \<open>\<open>id_src1->imm += s->pc\<close> after \<open>decode_U\<close>.\<close>

definition decode_auipc :: "decode \<Rightarrow> decode" where
  "decode_auipc s = (let s' = decode_U s in
     s'\<lparr>d_src1 := (case d_src1 s' of Oimm i \<Rightarrow> Oimm (i + d_pc s') | Oreg p \<Rightarrow> Oreg p)\<rparr>)"

definition j_offset :: "uint32 \<Rightarrow> uint64" where
  "j_offset w = scast (push_bit 20 (j_simm20 w) OR push_bit 12 (j_imm19_12 w) OR
     push_bit 11 (j_imm11 w) OR push_bit 1 (j_imm10_1 w))"

definition decode_J :: "decode \<Rightarrow> decode" where
  "decode_J s = s\<lparr>d_src1 := decode_op_i (d_pc s + j_offset (d_instr s)),
     d_dest := decode_op_r (f_rd (d_instr s)) False,
     d_src2 := Oimm (d_snpc s)\<rparr>"

definition b_offset :: "uint32 \<Rightarrow> uint64" where
  "b_offset w = scast (push_bit 12 (b_simm12 w) OR push_bit 11 (b_imm11 w) OR
     push_bit 5 (b_imm10_5 w) OR push_bit 1 (b_imm4_1 w))"

definition decode_B :: "decode \<Rightarrow> decode" where
  "decode_B s = s\<lparr>d_dest := decode_op_i (d_pc s + b_offset (d_instr s)),
     d_src1 := decode_op_r (f_rs1 (d_instr s)) True,
     d_src2 := decode_op_r (f_rs2 (d_instr s)) True\<rparr>"

definition s_simm :: "uint32 \<Rightarrow> uint64" where
  "s_simm w = scast (push_bit 5 (s_simm11_5 w) OR s_imm4_0 w)"

definition decode_S :: "decode \<Rightarrow> decode" where
  "decode_S s = s\<lparr>d_src1 := decode_op_r (f_rs1 (d_instr s)) True,
     d_src2 := decode_op_i (s_simm (d_instr s)),
     d_dest := decode_op_r (f_rs2 (d_instr s)) True\<rparr>"

definition decode_csr :: "decode \<Rightarrow> decode" where
  "decode_csr s = s\<lparr>d_src1 := decode_op_r (f_rs1 (d_instr s)) True,
     d_src2 := decode_op_i (ucast (f_csr (d_instr s))),
     d_dest := decode_op_r (f_rd (d_instr s)) False\<rparr>"

definition decode_fr :: "decode \<Rightarrow> decode" where
  "decode_fr s = s\<lparr>d_src1 := decode_op_fr (f_rs1 (d_instr s)) False,
     d_src2 := decode_op_fr (f_rs2 (d_instr s)) False,
     d_dest := decode_op_fr (f_rd (d_instr s)) False\<rparr>"

definition decode_R4 :: "decode \<Rightarrow> decode" where
  "decode_R4 s = s\<lparr>d_src1 := decode_op_fr (f_rs1 (d_instr s)) False,
     d_src2 := decode_op_fr (f_rs2 (d_instr s)) False,
     d_dest := decode_op_fr (f_rd (d_instr s)) False\<rparr>"

definition decode_fload :: "decode \<Rightarrow> decode" where
  "decode_fload s = s\<lparr>d_src1 := decode_op_r (f_rs1 (d_instr s)) True,
     d_src2 := decode_op_i (scast (i_simm11_0 (d_instr s))),
     d_dest := decode_op_fr (f_rd (d_instr s)) False\<rparr>"

definition decode_fstore :: "decode \<Rightarrow> decode" where
  "decode_fstore s = s\<lparr>d_src1 := decode_op_r (f_rs1 (d_instr s)) True,
     d_src2 := decode_op_i (s_simm (d_instr s)),
     d_dest := decode_op_fr (f_rs2 (d_instr s)) False\<rparr>"

definition decode_fr2r :: "decode \<Rightarrow> decode" where
  "decode_fr2r s = s\<lparr>d_src1 := decode_op_fr (f_rs1 (d_instr s)) True,
     d_src2 := decode_op_fr (f_rs2 (d_instr s)) True,
     d_dest := decode_op_r (f_rd (d_instr s)) False\<rparr>"

definition decode_r2fr :: "decode \<Rightarrow> decode" where
  "decode_r2fr s = s\<lparr>d_src1 := decode_op_r (f_rs1 (d_instr s)) True,
     d_src2 := decode_op_r (f_rs2 (d_instr s)) True,
     d_dest := decode_op_fr (f_rd (d_instr s)) False\<rparr>"

subsection \<open>RVC formats\<close>

definition creg2reg :: "uint32 \<Rightarrow> uint32" where "creg2reg creg = creg + 8"

definition ror_imm :: "uint32 \<Rightarrow> nat \<Rightarrow> nat \<Rightarrow> uint32" where
  "ror_imm i len r =
     (if r = 0 then i
      else let copy = i OR push_bit len i; msk = push_bit r (BITMASK len) in copy AND msk)"

definition decode_op_C_imm6 :: "uint32 \<Rightarrow> bool \<Rightarrow> nat \<Rightarrow> nat \<Rightarrow> decode \<Rightarrow> decode" where
  "decode_op_C_imm6 imm6 sext shift rot s = s\<lparr>d_src2 := decode_op_i
     (if sext then push_bit shift (SEXT imm6 6) else ucast (ror_imm imm6 6 rot))\<rparr>"

definition decode_op_C_rd_rs1 :: "bool \<Rightarrow> decode \<Rightarrow> decode" where
  "decode_op_C_rd_rs1 creg s =
     (let instr = d_instr s; rd_rs1 = (if creg then creg2reg (BITS instr 9 7) else BITS instr 11 7) in
      s\<lparr>d_src1 := decode_op_r rd_rs1 True, d_dest := decode_op_r rd_rs1 False\<rparr>)"

definition decode_op_rd_rs1_imm6 :: "bool \<Rightarrow> nat \<Rightarrow> nat \<Rightarrow> bool \<Rightarrow> decode \<Rightarrow> decode" where
  "decode_op_rd_rs1_imm6 sext shift rot creg s =
     (let instr = d_instr s; imm6 = push_bit 5 (BITS instr 12 12) OR BITS instr 6 2 in
      decode_op_C_rd_rs1 creg (decode_op_C_imm6 imm6 sext shift rot s))"

definition decode_CI_simm :: "decode \<Rightarrow> decode" where
  "decode_CI_simm s = decode_op_rd_rs1_imm6 True 0 0 False s"

definition decode_CI_simm_lui :: "decode \<Rightarrow> decode" where
  "decode_CI_simm_lui s = (let s' = decode_CI_simm s in
     s'\<lparr>d_src1 := (case d_src2 s' of Oimm i \<Rightarrow> Oimm (push_bit 12 i) | Oreg p \<Rightarrow> Oreg p)\<rparr>)"

definition decode_CI_uimm :: "decode \<Rightarrow> decode" where
  "decode_CI_uimm s = decode_op_rd_rs1_imm6 False 0 0 False s"

definition decode_C_LI :: "decode \<Rightarrow> decode" where
  "decode_C_LI s = (decode_CI_simm s)\<lparr>d_src1 := decode_op_r 0 True\<rparr>"

definition addi16sp_simm :: "uint32 \<Rightarrow> uint64" where
  "addi16sp_simm instr = push_bit 9 (SEXT (BITS instr 12 12) 1) OR ucast (push_bit 7 (BITS instr 4 3)) OR
     ucast (push_bit 6 (BITS instr 5 5)) OR ucast (push_bit 5 (BITS instr 2 2)) OR
     ucast (push_bit 4 (BITS instr 6 6))"

definition decode_C_ADDI16SP :: "decode \<Rightarrow> decode option" where
  "decode_C_ADDI16SP s = (let simm = addi16sp_simm (d_instr s) in
     if simm = 0 then None
     else Some (s\<lparr>d_src1 := decode_op_r 2 True, d_src2 := decode_op_i simm, d_dest := decode_op_r 2 False\<rparr>))"

definition decode_C_xxSP :: "uint32 \<Rightarrow> nat \<Rightarrow> decode \<Rightarrow> decode" where
  "decode_C_xxSP imm6 rot s = decode_op_C_imm6 imm6 False 0 rot (s\<lparr>d_src1 := decode_op_r 2 True\<rparr>)"

definition decode_C_LxSP :: "nat \<Rightarrow> bool \<Rightarrow> decode \<Rightarrow> decode" where
  "decode_C_LxSP rot is_fp s =
     (let imm6 = push_bit 5 (BITS (d_instr s) 12 12) OR BITS (d_instr s) 6 2;
          rd = BITS (d_instr s) 11 7
      in (decode_C_xxSP imm6 rot s)
           \<lparr>d_dest := (if is_fp then decode_op_fr rd False else decode_op_r rd False)\<rparr>)"

definition decode_C_LWSP :: "decode \<Rightarrow> decode" where "decode_C_LWSP = decode_C_LxSP 2 False"
definition decode_C_LDSP :: "decode \<Rightarrow> decode" where "decode_C_LDSP = decode_C_LxSP 3 False"
definition decode_C_FLDSP :: "decode \<Rightarrow> decode" where "decode_C_FLDSP = decode_C_LxSP 3 True"

definition decode_C_SxSP :: "nat \<Rightarrow> bool \<Rightarrow> decode \<Rightarrow> decode" where
  "decode_C_SxSP rot is_fp s =
     (let imm6 = BITS (d_instr s) 12 7; rs2 = BITS (d_instr s) 6 2
      in (decode_C_xxSP imm6 rot s)
           \<lparr>d_dest := (if is_fp then decode_op_fr rs2 True else decode_op_r rs2 True)\<rparr>)"

definition decode_C_SWSP :: "decode \<Rightarrow> decode" where "decode_C_SWSP = decode_C_SxSP 2 False"
definition decode_C_SDSP :: "decode \<Rightarrow> decode" where "decode_C_SDSP = decode_C_SxSP 3 False"
definition decode_C_FSDSP :: "decode \<Rightarrow> decode" where "decode_C_FSDSP = decode_C_SxSP 3 True"

definition addi4spn_imm :: "uint32 \<Rightarrow> uint32" where
  "addi4spn_imm instr = ror_imm (BITS instr 12 7) 6 4 OR push_bit 3 (BITS instr 5 5) OR push_bit 2 (BITS instr 6 6)"

definition decode_C_ADDI4SPN :: "decode \<Rightarrow> decode option" where
  "decode_C_ADDI4SPN s = (let instr = d_instr s; i = addi4spn_imm instr in
     if i = 0 then None
     else Some (s\<lparr>d_src1 := decode_op_r 2 True, d_src2 := decode_op_i (ucast i),
                   d_dest := decode_op_r (creg2reg (BITS instr 4 2)) False\<rparr>))"

definition decode_C_ldst_common :: "nat \<Rightarrow> bool \<Rightarrow> bool \<Rightarrow> decode \<Rightarrow> decode" where
  "decode_C_ldst_common rot is_store is_fp s =
     (let instr = d_instr s;
          imm5 = push_bit 2 (BITS instr 12 10) OR BITS instr 6 5;
          i = push_bit 1 (ror_imm imm5 5 rot);
          r = creg2reg (BITS instr 4 2)
      in s\<lparr>d_src1 := decode_op_r (creg2reg (BITS instr 9 7)) True,
           d_src2 := decode_op_i (ucast i),
           d_dest := (if is_fp then decode_op_fr r is_store else decode_op_r r is_store)\<rparr>)"

definition decode_C_LW :: "decode \<Rightarrow> decode" where "decode_C_LW = decode_C_ldst_common 1 False False"
definition decode_C_LD :: "decode \<Rightarrow> decode" where "decode_C_LD = decode_C_ldst_common 2 False False"
definition decode_C_FLD :: "decode \<Rightarrow> decode" where "decode_C_FLD = decode_C_ldst_common 2 False True"
definition decode_C_SW :: "decode \<Rightarrow> decode" where "decode_C_SW = decode_C_ldst_common 1 True False"
definition decode_C_SD :: "decode \<Rightarrow> decode" where "decode_C_SD = decode_C_ldst_common 2 True False"
definition decode_C_FSD :: "decode \<Rightarrow> decode" where "decode_C_FSD = decode_C_ldst_common 2 True True"

definition decode_CS :: "decode \<Rightarrow> decode" where
  "decode_CS s = (decode_op_C_rd_rs1 True s)
     \<lparr>d_src2 := decode_op_r (creg2reg (BITS (d_instr s) 4 2)) True\<rparr>"

definition cb_offset :: "uint32 \<Rightarrow> uint64" where
  "cb_offset instr = push_bit 8 (SEXT (BITS instr 12 12) 1) OR ucast (push_bit 6 (BITS instr 6 5)) OR
     ucast (push_bit 5 (BITS instr 2 2)) OR ucast (push_bit 3 (BITS instr 11 10)) OR
     ucast (push_bit 1 (BITS instr 4 3))"

definition decode_CB :: "decode \<Rightarrow> decode" where
  "decode_CB s = s\<lparr>d_dest := decode_op_i (d_pc s + cb_offset (d_instr s)),
     d_src1 := decode_op_r (creg2reg (BITS (d_instr s) 9 7)) True,
     d_src2 := decode_op_r 0 True\<rparr>"

definition decode_CB_shift :: "decode \<Rightarrow> decode" where
  "decode_CB_shift s = decode_op_rd_rs1_imm6 False 0 0 True s"

definition decode_CB_andi :: "decode \<Rightarrow> decode" where
  "decode_CB_andi s = decode_op_rd_rs1_imm6 True 0 0 True s"

definition cj_offset :: "uint32 \<Rightarrow> uint64" where
  "cj_offset instr = push_bit 11 (SEXT (BITS instr 12 12) 1) OR ucast (push_bit 10 (BITS instr 8 8)) OR
     ucast (push_bit 8 (BITS instr 10 9)) OR ucast (push_bit 7 (BITS instr 6 6)) OR
     ucast (push_bit 6 (BITS instr 7 7)) OR ucast (push_bit 5 (BITS instr 2 2)) OR
     ucast (push_bit 4 (BITS instr 11 11)) OR ucast (push_bit 1 (BITS instr 5 3))"

definition decode_CJ :: "decode \<Rightarrow> decode" where
  "decode_CJ s = s\<lparr>d_src1 := decode_op_i (d_pc s + cj_offset (d_instr s))\<rparr>"

definition decode_C_rs1_rs2_rd :: "bool \<Rightarrow> bool \<Rightarrow> bool \<Rightarrow> decode \<Rightarrow> decode" where
  "decode_C_rs1_rs2_rd is_rs1_zero is_rs2_zero is_rd_zero s = s
     \<lparr>d_src1 := decode_op_r (if is_rs1_zero then 0 else BITS (d_instr s) 11 7) True,
      d_src2 := decode_op_r (if is_rs2_zero then 0 else BITS (d_instr s) 6 2) True,
      d_dest := decode_op_r (if is_rd_zero then 0 else BITS (d_instr s) 11 7) False\<rparr>"

definition decode_C_JR :: "decode \<Rightarrow> decode" where
  "decode_C_JR s = s\<lparr>d_src1 := decode_op_r (BITS (d_instr s) 11 7) True\<rparr>"

definition decode_C_MOV :: "decode \<Rightarrow> decode" where
  "decode_C_MOV s = s\<lparr>d_src1 := decode_op_r (BITS (d_instr s) 6 2) True,
     d_src2 := decode_op_r 0 True, d_dest := decode_op_r (BITS (d_instr s) 11 7) False\<rparr>"

definition decode_C_ADD :: "decode \<Rightarrow> decode" where
  "decode_C_ADD s = decode_C_rs1_rs2_rd False False False s"

definition decode_C_JALR :: "decode \<Rightarrow> decode" where
  "decode_C_JALR s = s\<lparr>d_src1 := decode_op_r (BITS (d_instr s) 11 7) True,
     d_src2 := decode_op_i 0, d_dest := decode_op_r 1 False\<rparr>"

section \<open>Decode tables\<close>

text \<open>\<open>isa_mmu_state()\<close> is only ever direct or translate; any other value is the failed assertion.\<close>

definition by_mmu :: "machine \<Rightarrow> dres \<Rightarrow> dres \<Rightarrow> dres" where
  "by_mmu st direct translated = (case get_data_mmu_state st of
     MMU_DIRECT \<Rightarrow> direct | MMU_TRANSLATE \<Rightarrow> translated | MMU_DYNAMIC \<Rightarrow> None)"

definition fp_on :: "machine \<Rightarrow> bool" where "fp_on st = (ms Ms_fs st \<noteq> 0)"

subsection \<open>Loads, stores and immediate operations\<close>

definition table_load :: "machine \<Rightarrow> decode \<Rightarrow> dres" where
  "table_load st s = by_mmu st
     (first_match [
       TAB s ''??????? ????? ????? 000 ????? ????? ??'' (tb (LdSt ID_lb MMU_DIRECT)),
       TAB s ''??????? ????? ????? 001 ????? ????? ??'' (tb (LdSt ID_lh MMU_DIRECT)),
       TAB s ''??????? ????? ????? 010 ????? ????? ??'' (tb (LdSt ID_lw MMU_DIRECT)),
       TAB s ''??????? ????? ????? 011 ????? ????? ??'' (tb (LdSt ID_ld MMU_DIRECT)),
       TAB s ''??????? ????? ????? 100 ????? ????? ??'' (tb (LdSt ID_lbu MMU_DIRECT)),
       TAB s ''??????? ????? ????? 101 ????? ????? ??'' (tb (LdSt ID_lhu MMU_DIRECT)),
       TAB s ''??????? ????? ????? 110 ????? ????? ??'' (tb (LdSt ID_lwu MMU_DIRECT))] (inv s))
     (first_match [
       TAB s ''??????? ????? ????? 000 ????? ????? ??'' (tb (LdSt ID_lb MMU_TRANSLATE)),
       TAB s ''??????? ????? ????? 001 ????? ????? ??'' (tb (LdSt ID_lh MMU_TRANSLATE)),
       TAB s ''??????? ????? ????? 010 ????? ????? ??'' (tb (LdSt ID_lw MMU_TRANSLATE)),
       TAB s ''??????? ????? ????? 011 ????? ????? ??'' (tb (LdSt ID_ld MMU_TRANSLATE)),
       TAB s ''??????? ????? ????? 100 ????? ????? ??'' (tb (LdSt ID_lbu MMU_TRANSLATE)),
       TAB s ''??????? ????? ????? 101 ????? ????? ??'' (tb (LdSt ID_lhu MMU_TRANSLATE)),
       TAB s ''??????? ????? ????? 110 ????? ????? ??'' (tb (LdSt ID_lwu MMU_TRANSLATE))] (inv s))"

definition table_store :: "machine \<Rightarrow> decode \<Rightarrow> dres" where
  "table_store st s = by_mmu st
     (first_match [
       TAB s ''??????? ????? ????? 000 ????? ????? ??'' (tb (LdSt ID_sb MMU_DIRECT)),
       TAB s ''??????? ????? ????? 001 ????? ????? ??'' (tb (LdSt ID_sh MMU_DIRECT)),
       TAB s ''??????? ????? ????? 010 ????? ????? ??'' (tb (LdSt ID_sw MMU_DIRECT)),
       TAB s ''??????? ????? ????? 011 ????? ????? ??'' (tb (LdSt ID_sd MMU_DIRECT))] (inv s))
     (first_match [
       TAB s ''??????? ????? ????? 000 ????? ????? ??'' (tb (LdSt ID_sb MMU_TRANSLATE)),
       TAB s ''??????? ????? ????? 001 ????? ????? ??'' (tb (LdSt ID_sh MMU_TRANSLATE)),
       TAB s ''??????? ????? ????? 010 ????? ????? ??'' (tb (LdSt ID_sw MMU_TRANSLATE)),
       TAB s ''??????? ????? ????? 011 ????? ????? ??'' (tb (LdSt ID_sd MMU_TRANSLATE))] (inv s))"

definition table_addi_dispatch :: "decode \<Rightarrow> dres" where
  "table_addi_dispatch s = first_match [
     TAB s ''0000000 00000 00000 ??? ????? ????? ??'' (tb (Pseudo ID_p_li_0)),
     TAB s ''0000000 00001 00000 ??? ????? ????? ??'' (tb (Pseudo ID_p_li_1)),
     TAB s ''??????? ????? 00000 ??? ????? ????? ??'' (tb (Rvc ID_c_li)),
     TAB s ''0000000 00000 ????? ??? ????? ????? ??'' (tb (Rvc ID_c_mv)),
     TAB s ''??????? ????? ????? ??? ????? ????? ??'' (tb (Rvi ID_addi))] (inv s)"

text \<open>The compressed dispatchers look at the immediate the operand helper has just stored.\<close>

definition table_c_addi_dispatch :: "decode \<Rightarrow> dres" where
  "table_c_addi_dispatch s = (case d_src2 s of
     Oreg p \<Rightarrow> None
   | Oimm i \<Rightarrow> (if i = 1 then tb (Pseudo ID_p_inc) s
                else if i = -1 then tb (Pseudo ID_p_dec) s
                else tb (Rvc ID_c_addi) s))"

definition table_c_addiw_dispatch :: "decode \<Rightarrow> dres" where
  "table_c_addiw_dispatch = tb (Rvc ID_c_addiw)"

definition table_op_imm :: "decode \<Rightarrow> dres" where
  "table_op_imm s = first_match ((if f_rd (d_instr s) = f_rs1 (d_instr s) then [
     TAB s ''??????? ????? ????? 000 ????? ????? ??'' table_c_addi_dispatch,
     TAB s ''??????? ????? ????? 111 ????? ????? ??'' (tb (Rvc ID_c_andi)),
     TAB s ''000000? ????? ????? 001 ????? ????? ??'' (tb (Rvc ID_c_slli)),
     TAB s ''010000? ????? ????? 101 ????? ????? ??'' (tb (Rvc ID_c_srai)),
     TAB s ''000000? ????? ????? 101 ????? ????? ??'' (tb (Rvc ID_c_srli))] else []) @ [
     TAB s ''??????? ????? ????? 000 ????? ????? ??'' table_addi_dispatch,
     TAB s ''??????? ????? ????? 010 ????? ????? ??'' (tb (Rvi ID_slti)),
     TAB s ''??????? ????? ????? 011 ????? ????? ??'' (tb (Rvi ID_sltui)),
     TAB s ''??????? ????? ????? 100 ????? ????? ??'' (tb (Rvi ID_xori)),
     TAB s ''??????? ????? ????? 110 ????? ????? ??'' (tb (Rvi ID_ori)),
     TAB s ''??????? ????? ????? 111 ????? ????? ??'' (tb (Rvi ID_andi)),
     TAB s ''000000? ????? ????? 001 ????? ????? ??'' (tb (Rvi ID_slli)),
     TAB s ''000000? ????? ????? 101 ????? ????? ??'' (tb (Rvi ID_srli)),
     TAB s ''010000? ????? ????? 101 ????? ????? ??'' (tb (Rvi ID_srai)),
     TAB s ''001010? ????? ????? 001 ????? ????? ??'' (tb (Rvb ID_bseti)),
     TAB s ''0010100 00111 ????? 101 ????? ????? ??'' (tb (Rvb ID_orc_b)),
     TAB s ''010010? ????? ????? 001 ????? ????? ??'' (tb (Rvb ID_bclri)),
     TAB s ''010010? ????? ????? 101 ????? ????? ??'' (tb (Rvb ID_bexti)),
     TAB s ''0110000 00000 ????? 001 ????? ????? ??'' (tb (Rvb ID_clz)),
     TAB s ''0110000 00001 ????? 001 ????? ????? ??'' (tb (Rvb ID_ctz)),
     TAB s ''0110000 00010 ????? 001 ????? ????? ??'' (tb (Rvb ID_cpop)),
     TAB s ''0110000 00100 ????? 001 ????? ????? ??'' (tb (Rvb ID_sext_b)),
     TAB s ''0110000 00101 ????? 001 ????? ????? ??'' (tb (Rvb ID_sext_h)),
     TAB s ''011000? ????? ????? 101 ????? ????? ??'' (tb (Rvb ID_rori)),
     TAB s ''011010? ????? ????? 001 ????? ????? ??'' (tb (Rvb ID_binvi)),
     TAB s ''0110100 11000 ????? 101 ????? ????? ??'' (tb (Rvb ID_rev8))]) (inv s)"

definition table_op_imm32 :: "decode \<Rightarrow> dres" where
  "table_op_imm32 s = first_match ((if f_rd (d_instr s) = f_rs1 (d_instr s) then [
     TAB s ''??????? ????? ????? 000 ????? ????? ??'' table_c_addiw_dispatch] else []) @ [
     TAB s ''0000000 00000 ????? 000 ????? ????? ??'' (tb (Pseudo ID_p_sext_w)),
     TAB s ''??????? ????? ????? 000 ????? ????? ??'' (tb (Rvi ID_addiw)),
     TAB s ''0000000 ????? ????? 001 ????? ????? ??'' (tb (Rvi ID_slliw)),
     TAB s ''0000000 ????? ????? 101 ????? ????? ??'' (tb (Rvi ID_srliw)),
     TAB s ''0100000 ????? ????? 101 ????? ????? ??'' (tb (Rvi ID_sraiw)),
     TAB s ''000010? ????? ????? 001 ????? ????? ??'' (tb (Rvb ID_slliuw)),
     TAB s ''0110000 00000 ????? 001 ????? ????? ??'' (tb (Rvb ID_clzw)),
     TAB s ''0110000 00001 ????? 001 ????? ????? ??'' (tb (Rvb ID_ctzw)),
     TAB s ''0110000 00010 ????? 001 ????? ????? ??'' (tb (Rvb ID_cpopw)),
     TAB s ''0110000 ????? ????? 101 ????? ????? ??'' (tb (Rvb ID_roriw))]) (inv s)"

subsection \<open>Register operations and control transfer\<close>

definition table_op :: "decode \<Rightarrow> dres" where
  "table_op s = first_match ((if f_rd (d_instr s) = f_rs1 (d_instr s) then [
     TAB s ''0000000 ????? ????? 000 ????? ????? ??'' (tb (Rvc ID_c_add)),
     TAB s ''0100000 ????? ????? 000 ????? ????? ??'' (tb (Rvc ID_c_sub)),
     TAB s ''0000000 ????? ????? 100 ????? ????? ??'' (tb (Rvc ID_c_xor)),
     TAB s ''0000000 ????? ????? 110 ????? ????? ??'' (tb (Rvc ID_c_or)),
     TAB s ''0000000 ????? ????? 111 ????? ????? ??'' (tb (Rvc ID_c_and))] else []) @ [
     TAB s ''0000000 ????? ????? 000 ????? ????? ??'' (tb (Rvi ID_add)),
     TAB s ''0000000 ????? ????? 001 ????? ????? ??'' (tb (Rvi ID_sll)),
     TAB s ''0000000 ????? ????? 010 ????? ????? ??'' (tb (Rvi ID_slt)),
     TAB s ''0000000 ????? ????? 011 ????? ????? ??'' (tb (Rvi ID_sltu)),
     TAB s ''0000000 ????? ????? 100 ????? ????? ??'' (tb (Rvi ID_xor)),
     TAB s ''0000000 ????? ????? 101 ????? ????? ??'' (tb (Rvi ID_srl)),
     TAB s ''0000000 ????? ????? 110 ????? ????? ??'' (tb (Rvi ID_or)),
     TAB s ''0000000 ????? ????? 111 ????? ????? ??'' (tb (Rvi ID_and)),
     TAB s ''0100000 ????? ????? 000 ????? ????? ??'' (tb (Rvi ID_sub)),
     TAB s ''0100000 ????? ????? 101 ????? ????? ??'' (tb (Rvi ID_sra)),
     TAB s ''0000101 ????? ????? 001 ????? ????? ??'' (tb (Rvb ID_clmul)),
     TAB s ''0000101 ????? ????? 010 ????? ????? ??'' (tb (Rvb ID_clmulr)),
     TAB s ''0000101 ????? ????? 011 ????? ????? ??'' (tb (Rvb ID_clmulh)),
     TAB s ''0000101 ????? ????? 100 ????? ????? ??'' (tb (Rvb ID_min)),
     TAB s ''0000101 ????? ????? 101 ????? ????? ??'' (tb (Rvb ID_minu)),
     TAB s ''0000101 ????? ????? 110 ????? ????? ??'' (tb (Rvb ID_max)),
     TAB s ''0000101 ????? ????? 111 ????? ????? ??'' (tb (Rvb ID_maxu)),
     TAB s ''0010000 ????? ????? 010 ????? ????? ??'' (tb (Rvb ID_sh1add)),
     TAB s ''0010000 ????? ????? 100 ????? ????? ??'' (tb (Rvb ID_sh2add)),
     TAB s ''0010000 ????? ????? 110 ????? ????? ??'' (tb (Rvb ID_sh3add)),
     TAB s ''0010100 ????? ????? 001 ????? ????? ??'' (tb (Rvb ID_bset)),
     TAB s ''0100000 ????? ????? 100 ????? ????? ??'' (tb (Rvb ID_xnor)),
     TAB s ''0100000 ????? ????? 110 ????? ????? ??'' (tb (Rvb ID_orn)),
     TAB s ''0100000 ????? ????? 111 ????? ????? ??'' (tb (Rvb ID_andn)),
     TAB s ''0100100 ????? ????? 001 ????? ????? ??'' (tb (Rvb ID_bclr)),
     TAB s ''0100100 ????? ????? 101 ????? ????? ??'' (tb (Rvb ID_bext)),
     TAB s ''0110000 ????? ????? 001 ????? ????? ??'' (tb (Rvb ID_rol)),
     TAB s ''0110000 ????? ????? 101 ????? ????? ??'' (tb (Rvb ID_ror)),
     TAB s ''0110100 ????? ????? 001 ????? ????? ??'' (tb (Rvb ID_binv))]) (inv s)"

definition table_op32 :: "decode \<Rightarrow> dres" where
  "table_op32 s = first_match ((if f_rd (d_instr s) = f_rs1 (d_instr s) then [
     TAB s ''0000000 ????? ????? 000 ????? ????? ??'' (tb (Rvc ID_c_addw)),
     TAB s ''0100000 ????? ????? 000 ????? ????? ??'' (tb (Rvc ID_c_subw))] else []) @ [
     TAB s ''0000000 ????? ????? 000 ????? ????? ??'' (tb (Rvi ID_addw)),
     TAB s ''0100000 ????? ????? 000 ????? ????? ??'' (tb (Rvi ID_subw)),
     TAB s ''0000000 ????? ????? 001 ????? ????? ??'' (tb (Rvi ID_sllw)),
     TAB s ''0000000 ????? ????? 101 ????? ????? ??'' (tb (Rvi ID_srlw)),
     TAB s ''0100000 ????? ????? 101 ????? ????? ??'' (tb (Rvi ID_sraw)),
     TAB s ''0000100 ????? ????? 000 ????? ????? ??'' (tb (Rvb ID_adduw)),
     TAB s ''0000100 ????? ????? 100 ????? ????? ??'' (tb (Rvb ID_zext_h)),
     TAB s ''0010000 ????? ????? 010 ????? ????? ??'' (tb (Rvb ID_sh1adduw)),
     TAB s ''0010000 ????? ????? 100 ????? ????? ??'' (tb (Rvb ID_sh2adduw)),
     TAB s ''0010000 ????? ????? 110 ????? ????? ??'' (tb (Rvb ID_sh3adduw)),
     TAB s ''0110000 ????? ????? 001 ????? ????? ??'' (tb (Rvb ID_rolw)),
     TAB s ''0110000 ????? ????? 101 ????? ????? ??'' (tb (Rvb ID_rorw))]) (inv s)"

definition table_branch :: "decode \<Rightarrow> dres" where
  "table_branch s = first_match [
     TAB s ''??????? 00000 ????? 000 ????? ????? ??'' (tb (Rvc ID_c_beqz)),
     TAB s ''??????? 00000 ????? 001 ????? ????? ??'' (tb (Rvc ID_c_bnez)),
     TAB s ''??????? 00000 ????? 100 ????? ????? ??'' (tb (Pseudo ID_p_bltz)),
     TAB s ''??????? 00000 ????? 101 ????? ????? ??'' (tb (Pseudo ID_p_bgez)),
     TAB s ''??????? ????? 00000 100 ????? ????? ??'' (tb (Pseudo ID_p_bgtz)),
     TAB s ''??????? ????? 00000 101 ????? ????? ??'' (tb (Pseudo ID_p_blez)),
     TAB s ''??????? ????? ????? 000 ????? ????? ??'' (tb (Rvi ID_beq)),
     TAB s ''??????? ????? ????? 001 ????? ????? ??'' (tb (Rvi ID_bne)),
     TAB s ''??????? ????? ????? 100 ????? ????? ??'' (tb (Rvi ID_blt)),
     TAB s ''??????? ????? ????? 101 ????? ????? ??'' (tb (Rvi ID_bge)),
     TAB s ''??????? ????? ????? 110 ????? ????? ??'' (tb (Rvi ID_bltu)),
     TAB s ''??????? ????? ????? 111 ????? ????? ??'' (tb (Rvi ID_bgeu))] (inv s)"

definition table_jal_dispatch :: "decode \<Rightarrow> dres" where
  "table_jal_dispatch s = first_match [
     TAB s ''??????? ????? ????? ??? 00000 ????? ??'' (tb (Rvc ID_c_j)),
     TAB s ''??????? ????? ????? ??? 00001 ????? ??'' (tb (Pseudo ID_p_jal)),
     TAB s ''??????? ????? ????? ??? ????? ????? ??'' (tb (Rvi ID_jal))] (inv s)"

definition table_jalr_dispatch :: "decode \<Rightarrow> dres" where
  "table_jalr_dispatch s = first_match [
     TAB s ''0000000 00000 00001 ??? 00000 ????? ??'' (tb (Pseudo ID_p_ret)),
     TAB s ''0000000 00000 ????? ??? 00000 ????? ??'' (tb (Rvc ID_c_jr)),
     TAB s ''??????? ????? ????? ??? ????? ????? ??'' (tb (Rvi ID_jalr))] (inv s)"

definition table_mem_fence :: "decode \<Rightarrow> dres" where
  "table_mem_fence s = first_match [
     TAB s ''??????? ????? ????? 000 ????? ????? ??'' (tb (Rvi ID_fence)),
     TAB s ''??????? ????? ????? 001 ????? ????? ??'' (tb (Rvi ID_fence_i))] (inv s)"

subsection \<open>RVM and floating point\<close>

definition table_rvm :: "decode \<Rightarrow> dres" where
  "table_rvm s = first_match [
     TAB s ''??????? ????? ????? 000 ????? ????? ??'' (tb (Rvm ID_mul)),
     TAB s ''??????? ????? ????? 001 ????? ????? ??'' (tb (Rvm ID_mulh)),
     TAB s ''??????? ????? ????? 010 ????? ????? ??'' (tb (Rvm ID_mulhsu)),
     TAB s ''??????? ????? ????? 011 ????? ????? ??'' (tb (Rvm ID_mulhu)),
     TAB s ''??????? ????? ????? 100 ????? ????? ??'' (tb (Rvm ID_div)),
     TAB s ''??????? ????? ????? 101 ????? ????? ??'' (tb (Rvm ID_divu)),
     TAB s ''??????? ????? ????? 110 ????? ????? ??'' (tb (Rvm ID_rem)),
     TAB s ''??????? ????? ????? 111 ????? ????? ??'' (tb (Rvm ID_remu))] (inv s)"

definition table_rvm32 :: "decode \<Rightarrow> dres" where
  "table_rvm32 s = first_match [
     TAB s ''??????? ????? ????? 000 ????? ????? ??'' (tb (Rvm ID_mulw)),
     TAB s ''??????? ????? ????? 100 ????? ????? ??'' (tb (Rvm ID_divw)),
     TAB s ''??????? ????? ????? 101 ????? ????? ??'' (tb (Rvm ID_divuw)),
     TAB s ''??????? ????? ????? 110 ????? ????? ??'' (tb (Rvm ID_remw)),
     TAB s ''??????? ????? ????? 111 ????? ????? ??'' (tb (Rvm ID_remuw))] (inv s)"

definition table_op_fp_d :: "decode \<Rightarrow> dres" where
  "table_op_fp_d s = first_match [
     IDTAB s ''00000 ?? ????? ????? ??? ????? ????? ??'' decode_fr (tb (Rvd ID_faddd)),
     IDTAB s ''00001 ?? ????? ????? ??? ????? ????? ??'' decode_fr (tb (Rvd ID_fsubd)),
     IDTAB s ''00010 ?? ????? ????? ??? ????? ????? ??'' decode_fr (tb (Rvd ID_fmuld)),
     IDTAB s ''00011 ?? ????? ????? ??? ????? ????? ??'' decode_fr (tb (Rvd ID_fdivd)),
     IDTAB s ''01011 ?? 00000 ????? ??? ????? ????? ??'' decode_fr (tb (Rvd ID_fsqrtd)),
     IDTAB s ''00100 ?? ????? ????? 000 ????? ????? ??'' decode_fr (tb (Rvd ID_fsgnjd)),
     IDTAB s ''00100 ?? ????? ????? 001 ????? ????? ??'' decode_fr (tb (Rvd ID_fsgnjnd)),
     IDTAB s ''00100 ?? ????? ????? 010 ????? ????? ??'' decode_fr (tb (Rvd ID_fsgnjxd)),
     IDTAB s ''00101 ?? ????? ????? 000 ????? ????? ??'' decode_fr (tb (Rvd ID_fmind)),
     IDTAB s ''00101 ?? ????? ????? 001 ????? ????? ??'' decode_fr (tb (Rvd ID_fmaxd)),
     IDTAB s ''01000 00 00001 ????? ??? ????? ????? ??'' decode_fr (tb (Rvd ID_fcvt_s_d)),
     IDTAB s ''01000 01 00000 ????? ??? ????? ????? ??'' decode_fr (tb (Rvd ID_fcvt_d_s)),
     IDTAB s ''10100 ?? ????? ????? 010 ????? ????? ??'' decode_fr2r (tb (Rvd ID_feqd)),
     IDTAB s ''10100 ?? ????? ????? 001 ????? ????? ??'' decode_fr2r (tb (Rvd ID_fltd)),
     IDTAB s ''10100 ?? ????? ????? 000 ????? ????? ??'' decode_fr2r (tb (Rvd ID_fled)),
     IDTAB s ''11100 ?? 00000 ????? 001 ????? ????? ??'' decode_fr2r (tb (Rvd ID_fclassd)),
     IDTAB s ''11000 ?? 00000 ????? ??? ????? ????? ??'' decode_fr2r (tb (Rvd ID_fcvt_w_d)),
     IDTAB s ''11000 ?? 00001 ????? ??? ????? ????? ??'' decode_fr2r (tb (Rvd ID_fcvt_wu_d)),
     IDTAB s ''11010 ?? 00000 ????? ??? ????? ????? ??'' decode_r2fr (tb (Rvd ID_fcvt_d_w)),
     IDTAB s ''11010 ?? 00001 ????? ??? ????? ????? ??'' decode_r2fr (tb (Rvd ID_fcvt_d_wu)),
     IDTAB s ''11000 ?? 00010 ????? ??? ????? ????? ??'' decode_fr2r (tb (Rvd ID_fcvt_l_d)),
     IDTAB s ''11000 ?? 00011 ????? ??? ????? ????? ??'' decode_fr2r (tb (Rvd ID_fcvt_lu_d)),
     IDTAB s ''11100 ?? 00000 ????? 000 ????? ????? ??'' decode_fr2r (tb (Rvd ID_fmv_x_d)),
     IDTAB s ''11010 ?? 00010 ????? ??? ????? ????? ??'' decode_r2fr (tb (Rvd ID_fcvt_d_l)),
     IDTAB s ''11010 ?? 00011 ????? ??? ????? ????? ??'' decode_r2fr (tb (Rvd ID_fcvt_d_lu)),
     IDTAB s ''11110 ?? 00000 ????? 000 ????? ????? ??'' decode_r2fr (tb (Rvd ID_fmv_d_x))] (inv s)"

definition table_fmadd_d_dispatch :: "decode \<Rightarrow> dres" where
  "table_fmadd_d_dispatch s = first_match [
     TAB s ''????? ?? ????? ????? ??? ????? 10000 11'' (tb (Rvd ID_fmaddd)),
     TAB s ''????? ?? ????? ????? ??? ????? 10001 11'' (tb (Rvd ID_fmsubd)),
     TAB s ''????? ?? ????? ????? ??? ????? 10010 11'' (tb (Rvd ID_fnmsubd)),
     TAB s ''????? ?? ????? ????? ??? ????? 10011 11'' (tb (Rvd ID_fnmaddd))] (inv s)"

definition table_fload :: "machine \<Rightarrow> decode \<Rightarrow> dres" where
  "table_fload st s = by_mmu st
     (first_match (if fp_on st then [
       TAB s ''??????? ????? ????? 010 ????? ????? ??'' (tb (FLdSt ID_flw MMU_DIRECT)),
       TAB s ''??????? ????? ????? 011 ????? ????? ??'' (tb (FLdSt ID_fld MMU_DIRECT))] else []) (inv s))
     (first_match (if fp_on st then [
       TAB s ''??????? ????? ????? 010 ????? ????? ??'' (tb (FLdSt ID_flw MMU_TRANSLATE)),
       TAB s ''??????? ????? ????? 011 ????? ????? ??'' (tb (FLdSt ID_fld MMU_TRANSLATE))] else []) (inv s))"

definition table_fstore :: "machine \<Rightarrow> decode \<Rightarrow> dres" where
  "table_fstore st s = by_mmu st
     (first_match (if fp_on st then [
       TAB s ''??????? ????? ????? 010 ????? ????? ??'' (tb (FLdSt ID_fsw MMU_DIRECT)),
       TAB s ''??????? ????? ????? 011 ????? ????? ??'' (tb (FLdSt ID_fsd MMU_DIRECT))] else []) (inv s))
     (first_match (if fp_on st then [
       TAB s ''??????? ????? ????? 010 ????? ????? ??'' (tb (FLdSt ID_fsw MMU_TRANSLATE)),
       TAB s ''??????? ????? ????? 011 ????? ????? ??'' (tb (FLdSt ID_fsd MMU_TRANSLATE))] else []) (inv s))"

definition table_op_fp :: "machine \<Rightarrow> decode \<Rightarrow> dres" where
  "table_op_fp st s =
     (if \<not> fp_on st then tb (Special ID_rt_inv) s
      else if (f_fmt (d_instr s) = 0b00 \<and> f_funct5 (d_instr s) = 0b01000) \<or> f_fmt (d_instr s) = 0b01
      then table_op_fp_d s
      else first_match [
     IDTAB s ''00000 00 ????? ????? ??? ????? ????? ??'' decode_fr (tb (Rvf ID_fadds)),
     IDTAB s ''00001 00 ????? ????? ??? ????? ????? ??'' decode_fr (tb (Rvf ID_fsubs)),
     IDTAB s ''00010 00 ????? ????? ??? ????? ????? ??'' decode_fr (tb (Rvf ID_fmuls)),
     IDTAB s ''00011 00 ????? ????? ??? ????? ????? ??'' decode_fr (tb (Rvf ID_fdivs)),
     IDTAB s ''01011 00 00000 ????? ??? ????? ????? ??'' decode_fr (tb (Rvf ID_fsqrts)),
     IDTAB s ''00100 00 ????? ????? 000 ????? ????? ??'' decode_fr (tb (Rvf ID_fsgnjs)),
     IDTAB s ''00100 00 ????? ????? 001 ????? ????? ??'' decode_fr (tb (Rvf ID_fsgnjns)),
     IDTAB s ''00100 00 ????? ????? 010 ????? ????? ??'' decode_fr (tb (Rvf ID_fsgnjxs)),
     IDTAB s ''00101 00 ????? ????? 000 ????? ????? ??'' decode_fr (tb (Rvf ID_fmins)),
     IDTAB s ''00101 00 ????? ????? 001 ????? ????? ??'' decode_fr (tb (Rvf ID_fmaxs)),
     IDTAB s ''11000 00 00000 ????? ??? ????? ????? ??'' decode_fr2r (tb (Rvf ID_fcvt_w_s)),
     IDTAB s ''11000 00 00001 ????? ??? ????? ????? ??'' decode_fr2r (tb (Rvf ID_fcvt_wu_s)),
     IDTAB s ''11100 00 00000 ????? 000 ????? ????? ??'' decode_fr2r (tb (Rvf ID_fmv_x_w)),
     IDTAB s ''10100 00 ????? ????? 010 ????? ????? ??'' decode_fr2r (tb (Rvf ID_feqs)),
     IDTAB s ''10100 00 ????? ????? 001 ????? ????? ??'' decode_fr2r (tb (Rvf ID_flts)),
     IDTAB s ''10100 00 ????? ????? 000 ????? ????? ??'' decode_fr2r (tb (Rvf ID_fles)),
     IDTAB s ''11100 00 00000 ????? 001 ????? ????? ??'' decode_fr2r (tb (Rvf ID_fclasss)),
     IDTAB s ''11010 00 00000 ????? ??? ????? ????? ??'' decode_r2fr (tb (Rvf ID_fcvt_s_w)),
     IDTAB s ''11010 00 00001 ????? ??? ????? ????? ??'' decode_r2fr (tb (Rvf ID_fcvt_s_wu)),
     IDTAB s ''11110 00 00000 ????? 000 ????? ????? ??'' decode_r2fr (tb (Rvf ID_fmv_w_x)),
     IDTAB s ''11000 00 00010 ????? ??? ????? ????? ??'' decode_fr2r (tb (Rvf ID_fcvt_l_s)),
     IDTAB s ''11000 00 00011 ????? ??? ????? ????? ??'' decode_fr2r (tb (Rvf ID_fcvt_lu_s)),
     IDTAB s ''11010 00 00010 ????? ??? ????? ????? ??'' decode_r2fr (tb (Rvf ID_fcvt_s_l)),
     IDTAB s ''11010 00 00011 ????? ??? ????? ????? ??'' decode_r2fr (tb (Rvf ID_fcvt_s_lu))] (inv s))"

definition table_fmadd_dispatch :: "machine \<Rightarrow> decode \<Rightarrow> dres" where
  "table_fmadd_dispatch st s =
     (if \<not> fp_on st then tb (Special ID_rt_inv) s
      else first_match [
     TAB s ''????? 01 ????? ????? ??? ????? ????? ??'' table_fmadd_d_dispatch,
     TAB s ''????? 00 ????? ????? ??? ????? 10000 ??'' (tb (Rvf ID_fmadds)),
     TAB s ''????? 00 ????? ????? ??? ????? 10001 ??'' (tb (Rvf ID_fmsubs)),
     TAB s ''????? 00 ????? ????? ??? ????? 10010 ??'' (tb (Rvf ID_fnmsubs)),
     TAB s ''????? 00 ????? ????? ??? ????? 10011 ??'' (tb (Rvf ID_fnmadds))] (inv s))"

subsection \<open>RVC\<close>

definition table_c_ldst :: "machine \<Rightarrow> decode \<Rightarrow> dres" where
  "table_c_ldst st s = by_mmu st
     (first_match [
       TAB s ''010 ??? ??? ?? ??? ??'' (tb (LdSt ID_lw MMU_DIRECT)),
       TAB s ''011 ??? ??? ?? ??? ??'' (tb (LdSt ID_ld MMU_DIRECT)),
       TAB s ''110 ??? ??? ?? ??? ??'' (tb (LdSt ID_sw MMU_DIRECT)),
       TAB s ''111 ??? ??? ?? ??? ??'' (tb (LdSt ID_sd MMU_DIRECT))] (inv s))
     (first_match [
       TAB s ''010 ??? ??? ?? ??? ??'' (tb (LdSt ID_lw MMU_TRANSLATE)),
       TAB s ''011 ??? ??? ?? ??? ??'' (tb (LdSt ID_ld MMU_TRANSLATE)),
       TAB s ''110 ??? ??? ?? ??? ??'' (tb (LdSt ID_sw MMU_TRANSLATE)),
       TAB s ''111 ??? ??? ?? ??? ??'' (tb (LdSt ID_sd MMU_TRANSLATE))] (inv s))"

definition table_c_fldst :: "machine \<Rightarrow> decode \<Rightarrow> dres" where
  "table_c_fldst st s = by_mmu st
     (first_match [
       TAB s ''001 ??? ??? ?? ??? ??'' (tb (FLdSt ID_fld MMU_DIRECT)),
       TAB s ''101 ??? ??? ?? ??? ??'' (tb (FLdSt ID_fsd MMU_DIRECT))] (inv s))
     (first_match [
       TAB s ''001 ??? ??? ?? ??? ??'' (tb (FLdSt ID_fld MMU_TRANSLATE)),
       TAB s ''101 ??? ??? ?? ??? ??'' (tb (FLdSt ID_fsd MMU_TRANSLATE))] (inv s))"

definition table_c_li_dispatch :: "decode \<Rightarrow> dres" where
  "table_c_li_dispatch s = first_match [
     TAB s ''??? 0 ????? 00000 ??'' (tb (Pseudo ID_p_li_0)),
     TAB s ''??? 0 ????? 00001 ??'' (tb (Pseudo ID_p_li_1)),
     TAB s ''??? ? ????? ????? ??'' (tb (Rvc ID_c_li))] (inv s)"

definition table_rvc_Q1_lui_addi16sp :: "decode \<Rightarrow> dres" where
  "table_rvc_Q1_lui_addi16sp s = first_match [
     IDTABa s ''??? ? 00010 ????? ??'' decode_C_ADDI16SP (tb (Rvc ID_c_addi)),
     IDTAB s ''??? ? ????? ????? ??'' decode_CI_simm_lui (tb (Rvi ID_lui))] (inv s)"

definition table_rvc_Q1_compute_more64 :: "decode \<Rightarrow> dres" where
  "table_rvc_Q1_compute_more64 s = first_match [
     TAB s ''??? ? ????? 00??? ??'' (tb (Rvc ID_c_sub)),
     TAB s ''??? ? ????? 01??? ??'' (tb (Rvc ID_c_xor)),
     TAB s ''??? ? ????? 10??? ??'' (tb (Rvc ID_c_or)),
     TAB s ''??? ? ????? 11??? ??'' (tb (Rvc ID_c_and))] (inv s)"

definition table_rvc_Q1_compute_more32 :: "decode \<Rightarrow> dres" where
  "table_rvc_Q1_compute_more32 s = first_match [
     TAB s ''??? ? ????? 00??? ??'' (tb (Rvc ID_c_subw)),
     TAB s ''??? ? ????? 01??? ??'' (tb (Rvc ID_c_addw))] (inv s)"

definition table_rvc_Q1_compute_more :: "decode \<Rightarrow> dres" where
  "table_rvc_Q1_compute_more s = first_match [
     TAB s ''??? 0 ????? ????? ??'' table_rvc_Q1_compute_more64,
     TAB s ''??? 1 ????? ????? ??'' table_rvc_Q1_compute_more32] (inv s)"

definition table_rvc_Q1_compute :: "decode \<Rightarrow> dres" where
  "table_rvc_Q1_compute s = first_match [
     IDTAB s ''??? ? 00??? ????? ??'' decode_CB_shift (tb (Rvc ID_c_srli)),
     IDTAB s ''??? ? 01??? ????? ??'' decode_CB_shift (tb (Rvc ID_c_srai)),
     IDTAB s ''??? ? 10??? ????? ??'' decode_CB_andi (tb (Rvc ID_c_andi)),
     IDTAB s ''??? ? 11??? ????? ??'' decode_CS table_rvc_Q1_compute_more] (inv s)"

definition table_rvc_Q2_jr_mov :: "decode \<Rightarrow> dres" where
  "table_rvc_Q2_jr_mov s = first_match [
     IDTAB s ''??? ? 00001 00000 ??'' decode_C_JR (tb (Pseudo ID_p_ret)),
     IDTAB s ''??? ? ????? 00000 ??'' decode_C_JR (tb (Rvc ID_c_jr)),
     IDTAB s ''??? ? ????? ????? ??'' decode_C_MOV (tb (Rvc ID_c_mv))] (inv s)"

definition table_rvc_Q2_jalr_add :: "decode \<Rightarrow> dres" where
  "table_rvc_Q2_jalr_add s = first_match [
     TAB s ''??? ? 00000 00000 ??'' (tb (Special ID_inv)),
     IDTAB s ''??? ? 00001 00000 ??'' decode_C_JALR (tb (Rvi ID_jalr)),
     IDTAB s ''??? ? ????? 00000 ??'' decode_C_JALR (tb (Rvc ID_c_jalr)),
     IDTAB s ''??? ? ????? ????? ??'' decode_C_ADD (tb (Rvc ID_c_add))] (inv s)"

definition table_rvc_Q2_misc :: "decode \<Rightarrow> dres" where
  "table_rvc_Q2_misc s = first_match [
     TAB s ''??? 0 ????? ????? ??'' table_rvc_Q2_jr_mov,
     TAB s ''??? 1 ????? ????? ??'' table_rvc_Q2_jalr_add] (inv s)"

definition table_rvc_Q0 :: "machine \<Rightarrow> decode \<Rightarrow> dres" where
  "table_rvc_Q0 st s = first_match [
     IDTABa s ''000 ???????? ??? ??'' decode_C_ADDI4SPN (tb (Rvi ID_addi)),
     IDTAB s ''001 ??? ??? ?? ??? ??'' decode_C_FLD (table_c_fldst st),
     IDTAB s ''010 ??? ??? ?? ??? ??'' decode_C_LW (table_c_ldst st),
     IDTAB s ''011 ??? ??? ?? ??? ??'' decode_C_LD (table_c_ldst st),
     IDTAB s ''101 ??? ??? ?? ??? ??'' decode_C_FSD (table_c_fldst st),
     IDTAB s ''110 ??? ??? ?? ??? ??'' decode_C_SW (table_c_ldst st),
     IDTAB s ''111 ??? ??? ?? ??? ??'' decode_C_SD (table_c_ldst st)] (inv s)"

definition table_rvc_Q1 :: "decode \<Rightarrow> dres" where
  "table_rvc_Q1 s = first_match [
     IDTAB s ''000 ? ????? ????? ??'' decode_CI_simm table_c_addi_dispatch,
     IDTAB s ''001 ? ????? ????? ??'' decode_CI_simm table_c_addiw_dispatch,
     IDTAB s ''010 ? ????? ????? ??'' decode_C_LI table_c_li_dispatch,
     TAB s ''011 ? ????? ????? ??'' table_rvc_Q1_lui_addi16sp,
     TAB s ''100 ? ????? ????? ??'' table_rvc_Q1_compute,
     IDTAB s ''101 ??????????? ??'' decode_CJ (tb (Rvc ID_c_j)),
     IDTAB s ''110 ??? ??? ????? ??'' decode_CB (tb (Rvc ID_c_beqz)),
     IDTAB s ''111 ??? ??? ????? ??'' decode_CB (tb (Rvc ID_c_bnez))] (inv s)"

definition table_rvc_Q2 :: "machine \<Rightarrow> decode \<Rightarrow> dres" where
  "table_rvc_Q2 st s = first_match [
     IDTAB s ''000 ? ????? ????? ??'' decode_CI_uimm (tb (Rvc ID_c_slli)),
     IDTAB s ''001 ? ????? ????? ??'' decode_C_FLDSP (table_c_fldst st),
     IDTAB s ''010 ? ????? ????? ??'' decode_C_LWSP (table_c_ldst st),
     IDTAB s ''011 ? ????? ????? ??'' decode_C_LDSP (table_c_ldst st),
     TAB s ''100 ? ????? ????? ??'' table_rvc_Q2_misc,
     IDTAB s ''101 ? ????? ????? ??'' decode_C_FSDSP (table_c_fldst st),
     IDTAB s ''110 ? ????? ????? ??'' decode_C_SWSP (table_c_ldst st),
     IDTAB s ''111 ? ????? ????? ??'' decode_C_SDSP (table_c_ldst st)] (inv s)"

definition table_rvc :: "machine \<Rightarrow> decode \<Rightarrow> dres" where
  "table_rvc st s = first_match [
     TAB s ''?????????????? 00'' (table_rvc_Q0 st),
     TAB s ''?????????????? 01'' table_rvc_Q1,
     TAB s ''?????????????? 10'' (table_rvc_Q2 st)] (inv s)"

subsection \<open>The main table\<close>

definition table_main :: "machine \<Rightarrow> decode \<Rightarrow> dres" where
  "table_main st s = first_match [
     IDTAB s ''??????? ????? ????? ??? ????? 00000 ??'' decode_I (table_load st),
     IDTAB s ''??????? ????? ????? ??? ????? 00001 ??'' decode_fload (table_fload st),
     IDTAB s ''??????? ????? ????? ??? ????? 00011 ??'' decode_I table_mem_fence,
     IDTAB s ''??????? ????? ????? ??? ????? 00100 ??'' decode_I table_op_imm,
     IDTAB s ''??????? ????? ????? ??? ????? 00101 ??'' decode_auipc (tb (Rvi ID_auipc)),
     IDTAB s ''??????? ????? ????? ??? ????? 00110 ??'' decode_I table_op_imm32,
     IDTAB s ''??????? ????? ????? ??? ????? 01000 ??'' decode_S (table_store st),
     IDTAB s ''??????? ????? ????? ??? ????? 01001 ??'' decode_fstore (table_fstore st),
     IDTAB s ''??????? ????? ????? ??? ????? 01011 ??'' decode_R (tb Atomic),
     IDTAB s ''0000001 ????? ????? ??? ????? 01100 ??'' decode_R table_rvm,
     IDTAB s ''??????? ????? ????? ??? ????? 01100 ??'' decode_R table_op,
     IDTAB s ''??????? ????? ????? ??? ????? 01101 ??'' decode_U (tb (Rvi ID_lui)),
     IDTAB s ''0000001 ????? ????? ??? ????? 01110 ??'' decode_R table_rvm32,
     IDTAB s ''??????? ????? ????? ??? ????? 01110 ??'' decode_R table_op32,
     IDTAB s ''??????? ????? ????? ??? ????? 10000 ??'' decode_R4 (table_fmadd_dispatch st),
     IDTAB s ''??????? ????? ????? ??? ????? 10001 ??'' decode_R4 (table_fmadd_dispatch st),
     IDTAB s ''??????? ????? ????? ??? ????? 10010 ??'' decode_R4 (table_fmadd_dispatch st),
     IDTAB s ''??????? ????? ????? ??? ????? 10011 ??'' decode_R4 (table_fmadd_dispatch st),
     TAB s ''??????? ????? ????? ??? ????? 10100 ??'' (table_op_fp st),
     IDTAB s ''??????? ????? ????? ??? ????? 11000 ??'' decode_B table_branch,
     IDTAB s ''??????? ????? ????? ??? ????? 11001 ??'' decode_I table_jalr_dispatch,
     TAB s ''??????? ????? ????? ??? ????? 11010 ??'' (tb (Special ID_nemu_trap)),
     IDTAB s ''??????? ????? ????? ??? ????? 11011 ??'' decode_J table_jal_dispatch,
     IDTAB s ''??????? ????? ????? ??? ????? 11100 ??'' decode_csr (tb System)] (inv s)"

section \<open>Fetch and decode\<close>

text \<open>The instruction type and the jump target recorded for the block cache.\<close>

definition jump_ids :: "exec_id set" where
  "jump_ids = {Rvc ID_c_j, Pseudo ID_p_jal, Rvi ID_jal}"

definition branch_ids :: "exec_id set" where
  "branch_ids = {Rvi ID_beq, Rvi ID_bne, Rvi ID_blt, Rvi ID_bge, Rvi ID_bltu, Rvi ID_bgeu,
     Rvc ID_c_beqz, Rvc ID_c_bnez, Pseudo ID_p_bltz, Pseudo ID_p_bgez, Pseudo ID_p_blez, Pseudo ID_p_bgtz}"

definition indirect_ids :: "exec_id set" where
  "indirect_ids = {Pseudo ID_p_ret, Rvc ID_c_jr, Rvc ID_c_jalr, Rvi ID_jalr}"

definition set_type :: "exec_id \<Rightarrow> decode \<Rightarrow> decode nemu" where
  "set_type idx s =
     (if idx \<in> jump_ids then bnd (imm (d_src1 s)) (\<lambda>t. ret (s\<lparr>d_jnpc := t, d_type := INSTR_TYPE_J\<rparr>))
      else if idx \<in> branch_ids then bnd (imm (d_dest s)) (\<lambda>t. ret (s\<lparr>d_jnpc := t, d_type := INSTR_TYPE_B\<rparr>))
      else if idx \<in> indirect_ids then ret (s\<lparr>d_type := INSTR_TYPE_I\<rparr>)
      else if idx = System \<and> f_funct3 (d_instr s) = 0 \<and>
              (f_csr (d_instr s) = 0 \<or> f_csr (d_instr s) = 0x102 \<or> f_csr (d_instr s) = 0x302)
      then ret (s\<lparr>d_type := INSTR_TYPE_I\<rparr>)
      else ret (s\<lparr>d_type := INSTR_TYPE_N\<rparr>))"

text \<open>The record is decoded in place, so a fault of the second fetch leaves the first half-word in it.\<close>

definition isa_fetch_decode :: "exec_id nemu" where
  "isa_fetch_decode =
     bnd (gets (\<lambda>st. d_snpc (cur_s st))) (\<lambda>pc0.
     bnd (instr_fetch pc0 2) (\<lambda>(lo, pc1).
     bnd (modify (\<lambda>st. st\<lparr>cur_s := (cur_s st)\<lparr>d_instr := lo, d_snpc := pc1\<rparr>\<rparr>)) (\<lambda>_.
     bnd (if f_opcode1_0 lo \<noteq> 0x3 then gets (\<lambda>st. table_rvc st (cur_s st))
          else bnd (instr_fetch pc1 2) (\<lambda>(hi, pc2).
            thn (modify (\<lambda>st. st\<lparr>cur_s := (cur_s st)\<lparr>d_instr := d_instr (cur_s st) OR push_bit 16 hi,
                                                      d_snpc := pc2\<rparr>\<rparr>))
              (gets (\<lambda>st. table_main st (cur_s st))))) (\<lambda>r.
     case r of
       None \<Rightarrow> die Assert_fail
     | Some (s, idx) \<Rightarrow> bnd (set_type idx s) (\<lambda>s'. thn (modify (\<lambda>st. st\<lparr>cur_s := s'\<rparr>)) (ret idx))))))"

end
