(* ===== verification/HostTlb.thy ===== *)
theory HostTlb
  imports Vaddr
begin

text \<open>
  The host TLB (\<open>src/memory/host-tlb.c\<close>): two direct-mapped tables of 4096 entries, one for reads and
  one for writes, that map a guest virtual page to the offset of its host memory. The performance build
  routes every translated access through \<open>hosttlb_read\<close> and \<open>hosttlb_write\<close>; every build flushes the
  tables on \<open>sfence.vma\<close>.
\<close>

definition HOSTTLB_SIZE_SHIFT :: nat where "HOSTTLB_SIZE_SHIFT = 12"
definition HOSTTLB_SIZE :: uint64 where "HOSTTLB_SIZE = push_bit HOSTTLB_SIZE_SHIFT 1"

definition hosttlb_vpn :: "uint64 \<Rightarrow> uint64" where
  "hosttlb_vpn vaddr = drop_bit PAGE_SHIFT vaddr"

definition hosttlb_idx :: "uint64 \<Rightarrow> 12 word" where
  "hosttlb_idx vaddr = ucast (hosttlb_vpn vaddr mod HOSTTLB_SIZE)"

definition flush_entry :: "uint64 \<Rightarrow> (12 word \<Rightarrow> HostTLBEntry) \<Rightarrow> (12 word \<Rightarrow> HostTLBEntry)" where
  "flush_entry vaddr tlb =
     (let idx = hosttlb_idx vaddr in
      if tlb_gvpn (tlb idx) = hosttlb_vpn vaddr then tlb(idx := (tlb idx)\<lparr>tlb_gvpn := -1\<rparr>) else tlb)"

definition hosttlb_flush :: "uint64 \<Rightarrow> unit nemu" where
  "hosttlb_flush vaddr = modify (\<lambda>st.
     if vaddr = 0 then st\<lparr>hostrtlb := (\<lambda>_. \<lparr>tlb_offset = -1, tlb_gvpn = -1\<rparr>),
                          hostwtlb := (\<lambda>_. \<lparr>tlb_offset = -1, tlb_gvpn = -1\<rparr>)\<rparr>
     else st\<lparr>hostrtlb := flush_entry vaddr (hostrtlb st), hostwtlb := flush_entry vaddr (hostwtlb st)\<rparr>)"

definition hosttlb_init :: "unit nemu" where
  "hosttlb_init = hosttlb_flush 0"

definition va2pa :: "uint64 \<Rightarrow> nat \<Rightarrow> mem_type \<Rightarrow> uint32 nemu" where
  "va2pa vaddr len type =
     bnd (isa_mmu_check vaddr len type) (\<lambda>r.
       if r = MMU_DIRECT then ret (ucast vaddr)
       else bnd (isa_mmu_translate vaddr len type) (\<lambda>pg_base.
         thn (assert_m (unat (ucast pg_base AND PAGE_MASK) = MEM_RET_OK))
           (ret (ucast (ucast pg_base OR (vaddr AND PAGE_MASK))))))"

definition tlb_entry :: "uint32 \<Rightarrow> uint64 \<Rightarrow> HostTLBEntry" where
  "tlb_entry paddr vaddr = \<lparr>tlb_offset = guest_to_host paddr - vaddr, tlb_gvpn = hosttlb_vpn vaddr\<rparr>"

definition hosttlb_read_slowpath :: "uint64 \<Rightarrow> nat \<Rightarrow> mem_type \<Rightarrow> uint64 nemu" where
  "hosttlb_read_slowpath vaddr len type =
     bnd (va2pa vaddr len type) (\<lambda>paddr.
     thn (if in_pmem paddr
          then modify (\<lambda>st. st\<lparr>hostrtlb := (hostrtlb st)(hosttlb_idx vaddr := tlb_entry paddr vaddr)\<rparr>)
          else skip)
       (paddr_read paddr len))"

definition hosttlb_write_slowpath :: "uint64 \<Rightarrow> nat \<Rightarrow> uint64 \<Rightarrow> unit nemu" where
  "hosttlb_write_slowpath vaddr len data =
     bnd (va2pa vaddr len MEM_TYPE_WRITE) (\<lambda>paddr.
     thn (if in_pmem paddr
          then modify (\<lambda>st. st\<lparr>hostwtlb := (hostwtlb st)(hosttlb_idx vaddr := tlb_entry paddr vaddr)\<rparr>)
          else skip)
       (paddr_write paddr len data))"

definition hosttlb_read :: "uint64 \<Rightarrow> nat \<Rightarrow> mem_type \<Rightarrow> uint64 nemu" where
  "hosttlb_read vaddr len type =
     bnd (gets (\<lambda>st. hostrtlb st (hosttlb_idx vaddr))) (\<lambda>e.
       if tlb_gvpn e \<noteq> hosttlb_vpn vaddr then hosttlb_read_slowpath vaddr len type
       else host_read (tlb_offset e + vaddr) len)"

definition hosttlb_write :: "uint64 \<Rightarrow> nat \<Rightarrow> uint64 \<Rightarrow> unit nemu" where
  "hosttlb_write vaddr len data =
     bnd (gets (\<lambda>st. hostwtlb st (hosttlb_idx vaddr))) (\<lambda>e.
       if tlb_gvpn e \<noteq> hosttlb_vpn vaddr then hosttlb_write_slowpath vaddr len data
       else host_write (tlb_offset e + vaddr) len data)"

end
