(* ===== verification/Priv.thy ===== *)
theory Priv
  imports HostTlb
begin

text \<open>
  Privileged state (\<open>src/isa/riscv64/system/priv.c\<close>, \<open>system/intr.c\<close> and the CSR part of
  \<open>instr/fp.c\<close>): access control and the read and write side effects of the CSRs, the return and fence
  instructions, trap entry and interrupt selection. The host-call dispatcher that reaches them is in
  theory \<open>Hostcall\<close>.
\<close>

section \<open>Floating-point status\<close>

definition FPCALL_RM_RNE :: uint32 where "FPCALL_RM_RNE = 0"
definition FPCALL_RM_RTZ :: uint32 where "FPCALL_RM_RTZ = 1"
definition FPCALL_RM_RDN :: uint32 where "FPCALL_RM_RDN = 2"
definition FPCALL_RM_RUP :: uint32 where "FPCALL_RM_RUP = 3"
definition FPCALL_RM_RMM :: uint32 where "FPCALL_RM_RMM = 4"

lemmas fpcall_rm_defs =
  FPCALL_RM_RNE_def FPCALL_RM_RTZ_def FPCALL_RM_RDN_def FPCALL_RM_RUP_def FPCALL_RM_RMM_def

text \<open>The RTL rounding mode of a RISC-V rounding mode; the reserved encodings have none.\<close>

definition rm_of :: "uint32 \<Rightarrow> uint32 option" where
  "rm_of rm = (if rm = 0 then Some FPCALL_RM_RNE else if rm = 1 then Some FPCALL_RM_RTZ
     else if rm = 2 then Some FPCALL_RM_RDN else if rm = 3 then Some FPCALL_RM_RUP
     else if rm = 4 then Some FPCALL_RM_RMM else None)"

definition fp_update_rm_cache :: "uint32 \<Rightarrow> unit nemu" where
  "fp_update_rm_cache rm = (case rm_of rm of
     None \<Rightarrow> die Assert_fail | Some r \<Rightarrow> modify (\<lambda>st. st\<lparr>nemu_rm_cache := r\<rparr>))"

definition fp_enable :: "machine \<Rightarrow> bool" where
  "fp_enable st = (ms Ms_fs st \<noteq> 0)"

definition fp_set_dirty :: "unit nemu" where
  "fp_set_dirty = modify (\<lambda>st. set_ms Ms_fs 3 (set_ms Ms_sd 1 st))"

section \<open>CSR access\<close>

datatype csr_ptr = CsrArr "12 word" | CsrPerf

text \<open>A CSR must be implemented and its address must name a privilege level that the current mode
  reaches. The address bits that mark a CSR read-only are not looked at.\<close>

definition csr_is_legal :: "uint32 \<Rightarrow> bool nemu" where
  "csr_is_legal addr st =
     (if \<not> addr < 4096 then Crash Assert_fail
      else if \<not> csr_exist (ucast addr) then Ret False st
      else let lowest_access_priv_level = drop_bit 8 (addr AND push_bit 8 0b11)
           in Ret (mode (cpu st) \<ge> ucast lowest_access_priv_level) st)"

definition csr_decode :: "uint32 \<Rightarrow> csr_ptr nemu" where
  "csr_decode addr =
     thn (assert_m (addr < 4096))
       (ret (if (addr \<ge> 0xb00 \<and> addr \<le> 0xb1f) \<or> (addr \<ge> 0x320 \<and> addr \<le> 0x33f)
             then CsrPerf else CsrArr (ucast addr)))"

text \<open>The value read, in a state where \<open>mstatus.sd\<close> has been brought up to date.\<close>

definition csr_view :: "csr_ptr \<Rightarrow> machine \<Rightarrow> uint64" where
  "csr_view src st = (case src of CsrPerf \<Rightarrow> csr_perf st | CsrArr a \<Rightarrow>
     (if a = CSR_sstatus then csr st CSR_mstatus AND SSTATUS_RMASK
      else if a = CSR_sie then csr st CSR_mie AND SIE_MASK st
      else if a = CSR_sip then csr st CSR_mip AND SIP_MASK st
      else if a = CSR_fcsr then csr st CSR_fcsr AND FCSR_MASK
      else if a = CSR_fflags then fld (fcsr_f Fcsr_fflags) (csr st CSR_fcsr) AND FFLAGS_MASK
      else if a = CSR_frm then fld (fcsr_f Fcsr_frm) (csr st CSR_fcsr) AND FRM_MASK
      else csr st a))"

definition csr_read :: "csr_ptr \<Rightarrow> uint64 nemu" where
  "csr_read src st =
     (let st' = (if src = CsrArr CSR_mstatus \<or> src = CsrArr CSR_sstatus then update_mstatus_sd st else st)
      in Ret (csr_view src st') st')"

text \<open>The first half of a CSR write: which words of the array change, and to what.\<close>

definition csr_store :: "csr_ptr \<Rightarrow> uint64 \<Rightarrow> machine \<Rightarrow> machine" where
  "csr_store dest src st = (case dest of CsrPerf \<Rightarrow> st\<lparr>csr_perf := src\<rparr> | CsrArr a \<Rightarrow>
     (if a = CSR_sstatus then set_csr CSR_mstatus (mask_bitset (csr st CSR_mstatus) SSTATUS_WMASK src) st
      else if a = CSR_sie then set_csr CSR_mie (mask_bitset (csr st CSR_mie) (SIE_MASK st) src) st
      else if a = CSR_sip then set_csr CSR_mip (mask_bitset (csr st CSR_mip) (SIP_MASK st) src) st
      else if a = CSR_medeleg then set_csr a (src AND 0xf3ff) st
      else if a = CSR_mideleg then set_csr a (src AND 0x222) st
      else if a = CSR_fflags then
        (let st1 = set_csr a (src AND FFLAGS_MASK) st
         in set_csr CSR_fcsr (push_bit 5 (csr st1 CSR_frm) OR csr st1 CSR_fflags) st1)
      else if a = CSR_frm then
        (let st1 = set_csr a (src AND FRM_MASK) st
         in set_csr CSR_fcsr (push_bit 5 (csr st1 CSR_frm) OR csr st1 CSR_fflags) st1)
      else if a = CSR_fcsr then
        set_csr CSR_frm (drop_bit 5 src AND FRM_MASK)
          (set_csr CSR_fflags (src AND FFLAGS_MASK)
            (set_csr a (src AND FCSR_MASK) st))
      else set_csr a src st))"

definition csr_write :: "csr_ptr \<Rightarrow> uint64 \<Rightarrow> unit nemu" where
  "csr_write dest src =
     (let is_write = (\<lambda>a. dest = CsrArr a);
          is_fp = (is_write CSR_fflags \<or> is_write CSR_frm \<or> is_write CSR_fcsr)
      in seqs [
        modify (csr_store dest src),
        (if is_fp then thn fp_set_dirty
           (bnd (gets (\<lambda>st. fld (fcsr_f Fcsr_frm) (csr st CSR_fcsr))) (\<lambda>rm. fp_update_rm_cache (ucast rm)))
         else skip),
        (if is_write CSR_sstatus \<or> is_write CSR_mstatus \<or> is_fp then modify update_mstatus_sd else skip),
        (if is_write CSR_mstatus \<or> is_write CSR_satp then bnd update_mmu_state (\<lambda>_. skip) else skip),
        (if is_write CSR_mstatus \<or> is_write CSR_sstatus \<or> is_write CSR_satp \<or>
            is_write CSR_mie \<or> is_write CSR_sie \<or> is_write CSR_mip \<or> is_write CSR_sip
         then set_sys_state_flag SYS_STATE_UPDATE else skip)])"

definition csrid_read :: "uint32 \<Rightarrow> uint64 nemu" where
  "csrid_read csrid = bnd (csr_decode csrid) csr_read"

text \<open>A null destination skips the read and a null source skips the write.\<close>

definition csrrw :: "ptr option \<Rightarrow> ptr option \<Rightarrow> uint32 \<Rightarrow> unit nemu" where
  "csrrw dest src csrid =
     bnd (csr_is_legal csrid) (\<lambda>legal.
       if \<not> legal then longjmp_exception EX_II
       else bnd (csr_decode csrid) (\<lambda>c.
         bnd (gets (\<lambda>st. case src of Some p \<Rightarrow> read_ptr st p | None \<Rightarrow> 0)) (\<lambda>tmp. seqs [
           (case dest of Some d \<Rightarrow> bnd (csr_read c) (write_ptr d) | None \<Rightarrow> skip),
           (case src of Some _ \<Rightarrow> csr_write c tmp | None \<Rightarrow> skip)])))"

section \<open>Privileged instructions\<close>

definition set_mode :: "uint64 \<Rightarrow> machine \<Rightarrow> machine" where
  "set_mode m st = st\<lparr>cpu := (cpu st)\<lparr>mode := m\<rparr>\<rparr>"

definition sret_state :: "machine \<Rightarrow> machine" where
  "sret_state st0 =
     (let st1 = set_ms Ms_sie (ms Ms_spie st0) st0;
          st2 = set_ms Ms_spie 1 st1;
          st3 = set_mode (ms Ms_spp st2) st2
      in set_ms Ms_spp MODE_U st3)"

definition mret_state :: "machine \<Rightarrow> machine" where
  "mret_state st0 =
     (let st1 = set_ms Ms_mie (ms Ms_mpie st0) st0;
          st2 = set_ms Ms_mpie 1 st1;
          st3 = set_mode (ms Ms_mpp st2) st2
      in set_ms Ms_mpp MODE_U st3)"

definition mmu_tlb_flush :: "uint64 \<Rightarrow> unit nemu" where
  "mmu_tlb_flush vaddr =
     thn (hosttlb_flush vaddr) (if vaddr = 0 then set_sys_state_flag SYS_STATE_FLUSH_TCACHE else skip)"

definition priv_instr :: "uint32 \<Rightarrow> ptr option \<Rightarrow> uint64 nemu" where
  "priv_instr op src =
     (if op = 0x102 then thn (modify sret_state) (gets (\<lambda>st. csr st CSR_sepc))
      else if op = 0x302 then
        thn (modify mret_state) (bnd update_mmu_state (\<lambda>_. gets (\<lambda>st. csr st CSR_mepc)))
      else if op = 0x120 then
        (case src of None \<Rightarrow> die Host_fault
         | Some p \<Rightarrow> bnd (gets (\<lambda>st. read_ptr st p)) (\<lambda>v. thn (mmu_tlb_flush v) (ret 0)))
      else if op = 0x105 then ret 0
      else if op = -1 then thn (set_sys_state_flag SYS_STATE_FLUSH_TCACHE) (ret 0)
      else die Assert_fail)"

section \<open>Traps\<close>

definition INTR_BIT :: uint64 where "INTR_BIT = push_bit 63 1"

text \<open>The faults whose \<open>tval\<close> was written when they were detected.\<close>

definition keeps_tval :: "uint64 \<Rightarrow> bool" where
  "keeps_tval NO \<longleftrightarrow> NO = EX_IPF \<or> NO = EX_LPF \<or> NO = EX_SPF \<or> NO = EX_LAM \<or> NO = EX_SAM"

definition delegS :: "uint64 \<Rightarrow> machine \<Rightarrow> bool" where
  "delegS NO st =
     (let deleg = (if NO AND INTR_BIT \<noteq> 0 then csr st CSR_mideleg else csr st CSR_medeleg)
      in deleg AND push_bit (unat (NO AND 0xf)) 1 \<noteq> 0 \<and> mode (cpu st) < MODE_M)"

definition trap_s_state :: "uint64 \<Rightarrow> uint64 \<Rightarrow> machine \<Rightarrow> machine" where
  "trap_s_state NO epc st0 =
     (let st1 = set_csr CSR_sepc epc (set_csr CSR_scause NO st0);
          st2 = set_ms Ms_spp (mode (cpu st1)) st1;
          st3 = set_ms Ms_spie (ms Ms_sie st2) st2;
          st4 = set_ms Ms_sie 0 st3;
          st5 = (if keeps_tval NO then st4 else set_csr CSR_stval 0 st4)
      in set_mode MODE_S st5)"

definition trap_m_state :: "uint64 \<Rightarrow> uint64 \<Rightarrow> machine \<Rightarrow> machine" where
  "trap_m_state NO epc st0 =
     (let st1 = set_csr CSR_mepc epc (set_csr CSR_mcause NO st0);
          st2 = set_ms Ms_mpp (mode (cpu st1)) st1;
          st3 = set_ms Ms_mpie (ms Ms_mie st2) st2;
          st4 = set_ms Ms_mie 0 st3;
          st5 = (if keeps_tval NO then st4 else set_csr CSR_mtval 0 st4)
      in set_mode MODE_M st5)"

definition raise_intr :: "uint64 \<Rightarrow> uint64 \<Rightarrow> uint64 nemu" where
  "raise_intr NO epc =
     bnd (gets (delegS NO)) (\<lambda>d.
       if d then thn (modify (trap_s_state NO epc))
                  (bnd update_mmu_state (\<lambda>_. gets (\<lambda>st. csr st CSR_stvec)))
       else thn (modify (trap_m_state NO epc))
                (bnd update_mmu_state (\<lambda>_. gets (\<lambda>st. csr st CSR_mtvec))))"

section \<open>Interrupt selection\<close>

definition IRQ_USIP :: nat where "IRQ_USIP = 0"
definition IRQ_SSIP :: nat where "IRQ_SSIP = 1"
definition IRQ_HSIP :: nat where "IRQ_HSIP = 2"
definition IRQ_MSIP :: nat where "IRQ_MSIP = 3"
definition IRQ_UTIP :: nat where "IRQ_UTIP = 4"
definition IRQ_STIP :: nat where "IRQ_STIP = 5"
definition IRQ_HTIP :: nat where "IRQ_HTIP = 6"
definition IRQ_MTIP :: nat where "IRQ_MTIP = 7"
definition IRQ_UEIP :: nat where "IRQ_UEIP = 8"
definition IRQ_SEIP :: nat where "IRQ_SEIP = 9"
definition IRQ_HEIP :: nat where "IRQ_HEIP = 10"
definition IRQ_MEIP :: nat where "IRQ_MEIP = 11"

lemmas irq_defs = IRQ_USIP_def IRQ_SSIP_def IRQ_HSIP_def IRQ_MSIP_def IRQ_UTIP_def IRQ_STIP_def
  IRQ_HTIP_def IRQ_MTIP_def IRQ_UEIP_def IRQ_SEIP_def IRQ_HEIP_def IRQ_MEIP_def

definition INTR_EMPTY :: uint64 where "INTR_EMPTY = -1"

definition irq_priority :: "nat list" where
  "irq_priority = [IRQ_MEIP, IRQ_MSIP, IRQ_MTIP, IRQ_SEIP, IRQ_SSIP, IRQ_STIP, IRQ_UEIP, IRQ_USIP, IRQ_UTIP]"

text \<open>Whether a pending and enabled interrupt is taken in the current mode.\<close>

definition irq_enabled :: "machine \<Rightarrow> nat \<Rightarrow> bool" where
  "irq_enabled st irq =
     (let deleg = (csr st CSR_mideleg AND push_bit irq 1 \<noteq> 0); m = mode (cpu st)
      in if deleg then (m = MODE_S \<and> msb_on Ms_sie st) \<or> m < MODE_S
         else (m = MODE_M \<and> msb_on Ms_mie st) \<or> m < MODE_M)"

fun query_loop :: "machine \<Rightarrow> uint64 \<Rightarrow> nat list \<Rightarrow> uint64" where
  "query_loop st intr_vec [] = INTR_EMPTY"
| "query_loop st intr_vec (irq # irqs) =
     (if intr_vec AND push_bit irq 1 \<noteq> 0 \<and> irq_enabled st irq then of_nat irq OR INTR_BIT
      else query_loop st intr_vec irqs)"

definition isa_query_intr :: "machine \<Rightarrow> uint64" where
  "isa_query_intr st =
     (let intr_vec = csr st CSR_mie AND csr st CSR_mip
      in if intr_vec = 0 then INTR_EMPTY else query_loop st intr_vec irq_priority)"

end
