(* ===== verification/Fp.thy ===== *)
theory Fp
  imports Priv
begin

text \<open>
  The floating-point unit: the call dispatcher \<open>fpcall\<close> (\<open>src/engine/interpreter/fp.c\<close>), the glue over
  Berkeley SoftFloat (\<open>softfloat-fp.h\<close>), the RISC-V rounding-mode and flag handling
  (\<open>src/isa/riscv64/instr/fp.c\<close>) and the NaN-boxing helpers (\<open>local-include/rtl.h\<close>). SoftFloat itself is
  a third-party library: its operations are the parameter \<open>fp_lib\<close>, each returning a value and the
  exception flags it raises, given the current rounding mode.
\<close>

section \<open>The library parameter\<close>

record fp_lib =
  f32_add :: "uint8 \<Rightarrow> uint32 \<Rightarrow> uint32 \<Rightarrow> uint32 \<times> uint8"
  f32_sub :: "uint8 \<Rightarrow> uint32 \<Rightarrow> uint32 \<Rightarrow> uint32 \<times> uint8"
  f32_mul :: "uint8 \<Rightarrow> uint32 \<Rightarrow> uint32 \<Rightarrow> uint32 \<times> uint8"
  f32_div :: "uint8 \<Rightarrow> uint32 \<Rightarrow> uint32 \<Rightarrow> uint32 \<times> uint8"
  f32_sqrt :: "uint8 \<Rightarrow> uint32 \<Rightarrow> uint32 \<times> uint8"
  f32_mulAdd :: "uint8 \<Rightarrow> uint32 \<Rightarrow> uint32 \<Rightarrow> uint32 \<Rightarrow> uint32 \<times> uint8"
  f32_le :: "uint32 \<Rightarrow> uint32 \<Rightarrow> bool \<times> uint8"
  f32_lt :: "uint32 \<Rightarrow> uint32 \<Rightarrow> bool \<times> uint8"
  f32_eq :: "uint32 \<Rightarrow> uint32 \<Rightarrow> bool \<times> uint8"
  f32_lt_quiet :: "uint32 \<Rightarrow> uint32 \<Rightarrow> bool \<times> uint8"
  i32_to_f32 :: "uint8 \<Rightarrow> uint32 \<Rightarrow> uint32 \<times> uint8"
  ui32_to_f32 :: "uint8 \<Rightarrow> uint32 \<Rightarrow> uint32 \<times> uint8"
  i64_to_f32 :: "uint8 \<Rightarrow> uint64 \<Rightarrow> uint32 \<times> uint8"
  ui64_to_f32 :: "uint8 \<Rightarrow> uint64 \<Rightarrow> uint32 \<times> uint8"
  f32_to_i32 :: "uint8 \<Rightarrow> uint32 \<Rightarrow> uint32 \<times> uint8"
  f32_to_ui32 :: "uint8 \<Rightarrow> uint32 \<Rightarrow> uint32 \<times> uint8"
  f32_to_i64 :: "uint8 \<Rightarrow> uint32 \<Rightarrow> uint64 \<times> uint8"
  f32_to_ui64 :: "uint8 \<Rightarrow> uint32 \<Rightarrow> uint64 \<times> uint8"
  f64_add :: "uint8 \<Rightarrow> uint64 \<Rightarrow> uint64 \<Rightarrow> uint64 \<times> uint8"
  f64_sub :: "uint8 \<Rightarrow> uint64 \<Rightarrow> uint64 \<Rightarrow> uint64 \<times> uint8"
  f64_mul :: "uint8 \<Rightarrow> uint64 \<Rightarrow> uint64 \<Rightarrow> uint64 \<times> uint8"
  f64_div :: "uint8 \<Rightarrow> uint64 \<Rightarrow> uint64 \<Rightarrow> uint64 \<times> uint8"
  f64_sqrt :: "uint8 \<Rightarrow> uint64 \<Rightarrow> uint64 \<times> uint8"
  f64_mulAdd :: "uint8 \<Rightarrow> uint64 \<Rightarrow> uint64 \<Rightarrow> uint64 \<Rightarrow> uint64 \<times> uint8"
  f64_le :: "uint64 \<Rightarrow> uint64 \<Rightarrow> bool \<times> uint8"
  f64_lt :: "uint64 \<Rightarrow> uint64 \<Rightarrow> bool \<times> uint8"
  f64_eq :: "uint64 \<Rightarrow> uint64 \<Rightarrow> bool \<times> uint8"
  f64_lt_quiet :: "uint64 \<Rightarrow> uint64 \<Rightarrow> bool \<times> uint8"
  i32_to_f64 :: "uint8 \<Rightarrow> uint32 \<Rightarrow> uint64 \<times> uint8"
  ui32_to_f64 :: "uint8 \<Rightarrow> uint32 \<Rightarrow> uint64 \<times> uint8"
  i64_to_f64 :: "uint8 \<Rightarrow> uint64 \<Rightarrow> uint64 \<times> uint8"
  ui64_to_f64 :: "uint8 \<Rightarrow> uint64 \<Rightarrow> uint64 \<times> uint8"
  f64_to_i32 :: "uint8 \<Rightarrow> uint64 \<Rightarrow> uint32 \<times> uint8"
  f64_to_ui32 :: "uint8 \<Rightarrow> uint64 \<Rightarrow> uint32 \<times> uint8"
  f64_to_i64 :: "uint8 \<Rightarrow> uint64 \<Rightarrow> uint64 \<times> uint8"
  f64_to_ui64 :: "uint8 \<Rightarrow> uint64 \<Rightarrow> uint64 \<times> uint8"
  f32_to_f64 :: "uint8 \<Rightarrow> uint32 \<Rightarrow> uint64 \<times> uint8"
  f64_to_f32 :: "uint8 \<Rightarrow> uint64 \<Rightarrow> uint32 \<times> uint8"

text \<open>A library call reads the rounding mode and accumulates the flags it raises.\<close>

definition fl_call :: "(uint8 \<Rightarrow> 'r \<times> uint8) \<Rightarrow> 'r nemu" where
  "fl_call f st = (case f (softfloat_roundingMode st) of
     (r, flags) \<Rightarrow> Ret r (st\<lparr>softfloat_exceptionFlags := softfloat_exceptionFlags st OR flags\<rparr>))"

section \<open>Call codes\<close>

definition FPCALL_W32 :: uint32 where "FPCALL_W32 = 0"
definition FPCALL_W64 :: uint32 where "FPCALL_W64 = 1"

definition FPCALL_ADD :: uint32 where "FPCALL_ADD = 0"
definition FPCALL_SUB :: uint32 where "FPCALL_SUB = 1"
definition FPCALL_MUL :: uint32 where "FPCALL_MUL = 2"
definition FPCALL_DIV :: uint32 where "FPCALL_DIV = 3"
definition FPCALL_SQRT :: uint32 where "FPCALL_SQRT = 4"
definition FPCALL_MADD :: uint32 where "FPCALL_MADD = 5"
definition FPCALL_I32ToF :: uint32 where "FPCALL_I32ToF = 6"
definition FPCALL_U32ToF :: uint32 where "FPCALL_U32ToF = 7"
definition FPCALL_I64ToF :: uint32 where "FPCALL_I64ToF = 8"
definition FPCALL_U64ToF :: uint32 where "FPCALL_U64ToF = 9"
definition FPCALL_FToI32 :: uint32 where "FPCALL_FToI32 = 10"
definition FPCALL_FToU32 :: uint32 where "FPCALL_FToU32 = 11"
definition FPCALL_FToI64 :: uint32 where "FPCALL_FToI64 = 12"
definition FPCALL_FToU64 :: uint32 where "FPCALL_FToU64 = 13"
definition FPCALL_F32ToF64 :: uint32 where "FPCALL_F32ToF64 = 14"
definition FPCALL_F64ToF32 :: uint32 where "FPCALL_F64ToF32 = 15"
definition FPCALL_NEED_RM :: uint32 where "FPCALL_NEED_RM = 16"
definition FPCALL_MAX :: uint32 where "FPCALL_MAX = 17"
definition FPCALL_MIN :: uint32 where "FPCALL_MIN = 18"
definition FPCALL_LE :: uint32 where "FPCALL_LE = 19"
definition FPCALL_EQ :: uint32 where "FPCALL_EQ = 20"
definition FPCALL_LT :: uint32 where "FPCALL_LT = 21"

lemmas fpcall_op_defs = FPCALL_W32_def FPCALL_W64_def
  FPCALL_ADD_def FPCALL_SUB_def FPCALL_MUL_def FPCALL_DIV_def FPCALL_SQRT_def FPCALL_MADD_def
  FPCALL_I32ToF_def FPCALL_U32ToF_def FPCALL_I64ToF_def FPCALL_U64ToF_def FPCALL_FToI32_def
  FPCALL_FToU32_def FPCALL_FToI64_def FPCALL_FToU64_def FPCALL_F32ToF64_def
  FPCALL_F64ToF32_def FPCALL_NEED_RM_def FPCALL_MAX_def FPCALL_MIN_def FPCALL_LE_def
  FPCALL_EQ_def FPCALL_LT_def

definition FPCALL_CMD :: "uint32 \<Rightarrow> uint32 \<Rightarrow> uint32" where "FPCALL_CMD op w = push_bit 16 op OR w"
definition FPCALL_OP :: "uint32 \<Rightarrow> uint32" where "FPCALL_OP cmd = drop_bit 16 cmd"
definition FPCALL_W :: "uint32 \<Rightarrow> uint32" where "FPCALL_W cmd = cmd AND 0x3"

definition FPCALL_EX_NX :: uint32 where "FPCALL_EX_NX = 0x01"
definition FPCALL_EX_UF :: uint32 where "FPCALL_EX_UF = 0x02"
definition FPCALL_EX_OF :: uint32 where "FPCALL_EX_OF = 0x04"
definition FPCALL_EX_DZ :: uint32 where "FPCALL_EX_DZ = 0x08"
definition FPCALL_EX_NV :: uint32 where "FPCALL_EX_NV = 0x10"

lemmas fpcall_ex_defs = FPCALL_EX_NX_def FPCALL_EX_UF_def FPCALL_EX_OF_def FPCALL_EX_DZ_def FPCALL_EX_NV_def

section \<open>NaN boxing\<close>

definition BOX_MASK :: uint64 where "BOX_MASK = 0xFFFFFFFF00000000"
definition defaultNaNF32UI :: uint64 where "defaultNaNF32UI = 0x7FC00000"
definition defaultNaNF64UI :: uint64 where "defaultNaNF64UI = 0x7FF8000000000000"

definition unbox :: "uint64 \<Rightarrow> uint64" where
  "unbox r = (if r AND BOX_MASK = BOX_MASK then r AND NOT BOX_MASK else defaultNaNF32UI)"

definition rtlToF32 :: "uint64 \<Rightarrow> uint32" where "rtlToF32 r = ucast (unbox r)"
definition rtlToF64 :: "uint64 \<Rightarrow> uint64" where "rtlToF64 r = r"

definition rtl_fbox :: "ptr \<Rightarrow> ptr \<Rightarrow> unit nemu" where
  "rtl_fbox dest src = rtl_ori dest src BOX_MASK"

definition rtl_funbox :: "ptr \<Rightarrow> ptr \<Rightarrow> unit nemu" where
  "rtl_funbox dest src =
     bnd (gets (\<lambda>st. read_ptr st src)) (\<lambda>v.
       if v AND BOX_MASK = BOX_MASK then rtl_andi dest src (NOT BOX_MASK)
       else write_ptr dest defaultNaNF32UI)"

definition rtl_fsr :: "ptr \<Rightarrow> ptr \<Rightarrow> uint32 \<Rightarrow> unit nemu" where
  "rtl_fsr fdest src width =
     thn (if width = FPCALL_W32 then rtl_fbox fdest src
          else if width = FPCALL_W64 then rtl_mv fdest src
          else die Assert_fail)
       fp_set_dirty"

section \<open>Rounding mode and flags\<close>

definition instr_rm :: "decode \<Rightarrow> uint32" where
  "instr_rm s = take_bit 3 (drop_bit 12 (d_instr s))"

definition isa_fp_get_rm :: "decode \<Rightarrow> uint32 nemu" where
  "isa_fp_get_rm s =
     (let rm = instr_rm s in
      if rm = 7 then gets nemu_rm_cache
      else (case rm_of rm of Some r \<Rightarrow> ret r | None \<Rightarrow> longjmp_exception EX_II))"

definition isa_fp_set_ex :: "uint32 \<Rightarrow> unit nemu" where
  "isa_fp_set_ex ex =
     (let f0 = 0 :: uint64;
          f1 = (if ex AND FPCALL_EX_NX \<noteq> 0 then f0 OR 0x01 else f0);
          f2 = (if ex AND FPCALL_EX_UF \<noteq> 0 then f1 OR 0x02 else f1);
          f3 = (if ex AND FPCALL_EX_OF \<noteq> 0 then f2 OR 0x04 else f2);
          f4 = (if ex AND FPCALL_EX_DZ \<noteq> 0 then f3 OR 0x08 else f3);
          f = (if ex AND FPCALL_EX_NV \<noteq> 0 then f4 OR 0x10 else f4)
      in thn (modify (\<lambda>st. set_csr CSR_fcsr
                (set_fld (fcsr_f Fcsr_fflags) (fld (fcsr_f Fcsr_fflags) (csr st CSR_fcsr) OR f)
                   (csr st CSR_fcsr)) st))
             fp_set_dirty)"

definition isa_fp_csr_check :: "unit nemu" where
  "isa_fp_csr_check = bnd (gets (ms Ms_fs)) (\<lambda>fs. if fs = 0 then longjmp_exception EX_II else skip)"

text \<open>The SoftFloat rounding modes are \<open>near_even = 0\<close>, \<open>minMag = 1\<close>, \<open>min = 2\<close>, \<open>max = 3\<close> and
  \<open>near_maxMag = 4\<close>.\<close>

definition fp_set_rm :: "uint32 \<Rightarrow> unit nemu" where
  "fp_set_rm rm =
     (if rm = FPCALL_RM_RNE then modify (\<lambda>st. st\<lparr>softfloat_roundingMode := 0\<rparr>)
      else if rm = FPCALL_RM_RTZ then modify (\<lambda>st. st\<lparr>softfloat_roundingMode := 1\<rparr>)
      else if rm = FPCALL_RM_RDN then modify (\<lambda>st. st\<lparr>softfloat_roundingMode := 2\<rparr>)
      else if rm = FPCALL_RM_RUP then modify (\<lambda>st. st\<lparr>softfloat_roundingMode := 3\<rparr>)
      else if rm = FPCALL_RM_RMM then modify (\<lambda>st. st\<lparr>softfloat_roundingMode := 4\<rparr>)
      else die Assert_fail)"

text \<open>The SoftFloat flags are \<open>inexact = 1\<close>, \<open>underflow = 2\<close>, \<open>overflow = 4\<close>, \<open>infinite = 8\<close> and
  \<open>invalid = 16\<close>.\<close>

definition fp_get_exception :: "machine \<Rightarrow> uint32" where
  "fp_get_exception st =
     (let x = softfloat_exceptionFlags st in
      (if x AND 1 \<noteq> 0 then FPCALL_EX_NX else 0) OR
      (if x AND 2 \<noteq> 0 then FPCALL_EX_UF else 0) OR
      (if x AND 4 \<noteq> 0 then FPCALL_EX_OF else 0) OR
      (if x AND 8 \<noteq> 0 then FPCALL_EX_DZ else 0) OR
      (if x AND 16 \<noteq> 0 then FPCALL_EX_NV else 0))"

definition fp_clear_exception :: "unit nemu" where
  "fp_clear_exception = modify (\<lambda>st. st\<lparr>softfloat_exceptionFlags := 0\<rparr>)"

section \<open>Classification, minimum and maximum\<close>

definition isNaNF32UI :: "uint32 \<Rightarrow> bool" where
  "isNaNF32UI a \<longleftrightarrow> (NOT a) AND 0x7F800000 = 0 \<and> a AND 0x007FFFFF \<noteq> 0"

definition isNaNF64UI :: "uint64 \<Rightarrow> bool" where
  "isNaNF64UI a \<longleftrightarrow> (NOT a) AND 0x7FF0000000000000 = 0 \<and> a AND 0x000FFFFFFFFFFFFF \<noteq> 0"

definition isSigNaNF32UI :: "uint32 \<Rightarrow> bool" where
  "isSigNaNF32UI a \<longleftrightarrow> a AND 0x7FC00000 = 0x7F800000 \<and> a AND 0x003FFFFF \<noteq> 0"

definition isSigNaNF64UI :: "uint64 \<Rightarrow> bool" where
  "isSigNaNF64UI a \<longleftrightarrow> a AND 0x7FF8000000000000 = 0x7FF0000000000000 \<and> a AND 0x0007FFFFFFFFFFFF \<noteq> 0"

definition bshl :: "bool \<Rightarrow> nat \<Rightarrow> uint64" where
  "bshl b n = push_bit n (if b then 1 else 0)"

definition classify_bits :: "bool \<Rightarrow> bool \<Rightarrow> bool \<Rightarrow> bool \<Rightarrow> bool \<Rightarrow> bool \<Rightarrow> uint64" where
  "classify_bits infOrNaN subnormalOrZero sgnb fracZero isNaN isSNaN =
     bshl (sgnb \<and> infOrNaN \<and> fracZero) 0 OR
     bshl (sgnb \<and> \<not> infOrNaN \<and> \<not> subnormalOrZero) 1 OR
     bshl (sgnb \<and> subnormalOrZero \<and> \<not> fracZero) 2 OR
     bshl (sgnb \<and> subnormalOrZero \<and> fracZero) 3 OR
     bshl (\<not> sgnb \<and> infOrNaN \<and> fracZero) 7 OR
     bshl (\<not> sgnb \<and> \<not> infOrNaN \<and> \<not> subnormalOrZero) 6 OR
     bshl (\<not> sgnb \<and> subnormalOrZero \<and> \<not> fracZero) 5 OR
     bshl (\<not> sgnb \<and> subnormalOrZero \<and> fracZero) 4 OR
     bshl (isNaN \<and> isSNaN) 8 OR
     bshl (isNaN \<and> \<not> isSNaN) 9"

definition f32_classify :: "uint32 \<Rightarrow> uint64" where
  "f32_classify a = classify_bits (drop_bit 23 a AND 0xFF = 0xFF) (drop_bit 23 a AND 0xFF = 0)
     (drop_bit 31 a \<noteq> 0) (a AND 0x007FFFFF = 0) (isNaNF32UI a) (isSigNaNF32UI a)"

definition f64_classify :: "uint64 \<Rightarrow> uint64" where
  "f64_classify a = classify_bits (drop_bit 52 a AND 0x7FF = 0x7FF) (drop_bit 52 a AND 0x7FF = 0)
     (drop_bit 63 a \<noteq> 0) (a AND 0x000FFFFFFFFFFFFF = 0) (isNaNF64UI a) (isSigNaNF64UI a)"

text \<open>\<open>min\<close> and \<open>max\<close> compare quietly, and break the tie of the two zeros by the sign of the operand
  that is returned; the comparison for equality is skipped when the first one decides.\<close>

definition f32_min :: "fp_lib \<Rightarrow> uint32 \<Rightarrow> uint32 \<Rightarrow> uint32 nemu" where
  "f32_min fl a b =
     bnd (fl_call (\<lambda>_. f32_lt_quiet fl a b)) (\<lambda>lt.
     bnd (if lt then ret True else bnd (fl_call (\<lambda>_. f32_eq fl a b)) (\<lambda>e. ret (e \<and> bit a 31))) (\<lambda>less.
       ret (if isNaNF32UI a \<and> isNaNF32UI b then rtlToF32 defaultNaNF32UI
            else if less \<or> isNaNF32UI b then a else b)))"

definition f32_max :: "fp_lib \<Rightarrow> uint32 \<Rightarrow> uint32 \<Rightarrow> uint32 nemu" where
  "f32_max fl a b =
     bnd (fl_call (\<lambda>_. f32_lt_quiet fl b a)) (\<lambda>lt.
     bnd (if lt then ret True else bnd (fl_call (\<lambda>_. f32_eq fl b a)) (\<lambda>e. ret (e \<and> bit b 31))) (\<lambda>greater.
       ret (if isNaNF32UI a \<and> isNaNF32UI b then rtlToF32 defaultNaNF32UI
            else if greater \<or> isNaNF32UI b then a else b)))"

definition f64_min :: "fp_lib \<Rightarrow> uint64 \<Rightarrow> uint64 \<Rightarrow> uint64 nemu" where
  "f64_min fl a b =
     bnd (fl_call (\<lambda>_. f64_lt_quiet fl a b)) (\<lambda>lt.
     bnd (if lt then ret True else bnd (fl_call (\<lambda>_. f64_eq fl a b)) (\<lambda>e. ret (e \<and> bit a 63))) (\<lambda>less.
       ret (if isNaNF64UI a \<and> isNaNF64UI b then rtlToF64 defaultNaNF64UI
            else if less \<or> isNaNF64UI b then a else b)))"

definition f64_max :: "fp_lib \<Rightarrow> uint64 \<Rightarrow> uint64 \<Rightarrow> uint64 nemu" where
  "f64_max fl a b =
     bnd (fl_call (\<lambda>_. f64_lt_quiet fl b a)) (\<lambda>lt.
     bnd (if lt then ret True else bnd (fl_call (\<lambda>_. f64_eq fl b a)) (\<lambda>e. ret (e \<and> bit b 63))) (\<lambda>greater.
       ret (if isNaNF64UI a \<and> isNaNF64UI b then rtlToF64 defaultNaNF64UI
            else if greater \<or> isNaNF64UI b then a else b)))"

section \<open>The dispatcher\<close>

definition of_b :: "bool \<Rightarrow> uint64" where "of_b b = (if b then 1 else 0)"

text \<open>The value the 32-bit switch assigns to \<open>*dest\<close>; \<open>v1\<close> and \<open>v2\<close> are the source words and \<open>vd\<close> the
  old destination. An \<open>int32_t\<close> result is sign-extended by the assignment, a \<open>uint32_t\<close> one is not.\<close>

definition fpcall32 :: "fp_lib \<Rightarrow> uint32 \<Rightarrow> uint64 \<Rightarrow> uint64 \<Rightarrow> uint64 \<Rightarrow> uint64 nemu" where
  "fpcall32 fl op v1 v2 vd =
     (let a = rtlToF32 v1; b = rtlToF32 v2; lift = (\<lambda>f. bnd (fl_call f) (\<lambda>r. ret (ucast r))) in
      if op = FPCALL_ADD then lift (\<lambda>m. f32_add fl m a b)
      else if op = FPCALL_SUB then lift (\<lambda>m. f32_sub fl m a b)
      else if op = FPCALL_MUL then lift (\<lambda>m. f32_mul fl m a b)
      else if op = FPCALL_DIV then lift (\<lambda>m. f32_div fl m a b)
      else if op = FPCALL_MIN then bnd (f32_min fl a b) (\<lambda>r. ret (ucast r))
      else if op = FPCALL_MAX then bnd (f32_max fl a b) (\<lambda>r. ret (ucast r))
      else if op = FPCALL_SQRT then lift (\<lambda>m. f32_sqrt fl m a)
      else if op = FPCALL_MADD then lift (\<lambda>m. f32_mulAdd fl m a b (rtlToF32 vd))
      else if op = FPCALL_LE then bnd (fl_call (\<lambda>_. f32_le fl a b)) (\<lambda>r. ret (of_b r))
      else if op = FPCALL_LT then bnd (fl_call (\<lambda>_. f32_lt fl a b)) (\<lambda>r. ret (of_b r))
      else if op = FPCALL_EQ then bnd (fl_call (\<lambda>_. f32_eq fl a b)) (\<lambda>r. ret (of_b r))
      else if op = FPCALL_I32ToF then lift (\<lambda>m. i32_to_f32 fl m (ucast v1))
      else if op = FPCALL_U32ToF then lift (\<lambda>m. ui32_to_f32 fl m (ucast v1))
      else if op = FPCALL_I64ToF then lift (\<lambda>m. i64_to_f32 fl m v1)
      else if op = FPCALL_U64ToF then lift (\<lambda>m. ui64_to_f32 fl m v1)
      else if op = FPCALL_FToI32 then bnd (fl_call (\<lambda>m. f32_to_i32 fl m a)) (\<lambda>r. ret (scast r))
      else if op = FPCALL_FToU32 then lift (\<lambda>m. f32_to_ui32 fl m a)
      else if op = FPCALL_FToI64 then fl_call (\<lambda>m. f32_to_i64 fl m a)
      else if op = FPCALL_FToU64 then fl_call (\<lambda>m. f32_to_ui64 fl m a)
      else die Assert_fail)"

definition fpcall64 :: "fp_lib \<Rightarrow> uint32 \<Rightarrow> uint64 \<Rightarrow> uint64 \<Rightarrow> uint64 \<Rightarrow> uint64 nemu" where
  "fpcall64 fl op v1 v2 vd =
     (let a = rtlToF64 v1; b = rtlToF64 v2 in
      if op = FPCALL_ADD then fl_call (\<lambda>m. f64_add fl m a b)
      else if op = FPCALL_SUB then fl_call (\<lambda>m. f64_sub fl m a b)
      else if op = FPCALL_MUL then fl_call (\<lambda>m. f64_mul fl m a b)
      else if op = FPCALL_DIV then fl_call (\<lambda>m. f64_div fl m a b)
      else if op = FPCALL_MAX then f64_max fl a b
      else if op = FPCALL_MIN then f64_min fl a b
      else if op = FPCALL_SQRT then fl_call (\<lambda>m. f64_sqrt fl m a)
      else if op = FPCALL_MADD then fl_call (\<lambda>m. f64_mulAdd fl m a b (rtlToF64 vd))
      else if op = FPCALL_LE then bnd (fl_call (\<lambda>_. f64_le fl a b)) (\<lambda>r. ret (of_b r))
      else if op = FPCALL_LT then bnd (fl_call (\<lambda>_. f64_lt fl a b)) (\<lambda>r. ret (of_b r))
      else if op = FPCALL_EQ then bnd (fl_call (\<lambda>_. f64_eq fl a b)) (\<lambda>r. ret (of_b r))
      else if op = FPCALL_I32ToF then fl_call (\<lambda>m. i32_to_f64 fl m (ucast v1))
      else if op = FPCALL_U32ToF then fl_call (\<lambda>m. ui32_to_f64 fl m (ucast v1))
      else if op = FPCALL_I64ToF then fl_call (\<lambda>m. i64_to_f64 fl m v1)
      else if op = FPCALL_U64ToF then fl_call (\<lambda>m. ui64_to_f64 fl m v1)
      else if op = FPCALL_FToI32 then bnd (fl_call (\<lambda>m. f64_to_i32 fl m a)) (\<lambda>r. ret (scast r))
      else if op = FPCALL_FToU32 then bnd (fl_call (\<lambda>m. f64_to_ui32 fl m a)) (\<lambda>r. ret (ucast r))
      else if op = FPCALL_FToI64 then fl_call (\<lambda>m. f64_to_i64 fl m a)
      else if op = FPCALL_FToU64 then fl_call (\<lambda>m. f64_to_ui64 fl m a)
      else if op = FPCALL_F32ToF64 then fl_call (\<lambda>m. f32_to_f64 fl m (rtlToF32 v1))
      else if op = FPCALL_F64ToF32 then bnd (fl_call (\<lambda>m. f64_to_f32 fl m a)) (\<lambda>r. ret (ucast r))
      else die Assert_fail)"

text \<open>The rounding mode is set only when it differs from the last one set through this path. A width
  other than 32 or 64 bits computes nothing.\<close>

definition rtl_fpcall :: "fp_lib \<Rightarrow> decode \<Rightarrow> ptr \<Rightarrow> ptr \<Rightarrow> ptr \<Rightarrow> uint32 \<Rightarrow> unit nemu" where
  "rtl_fpcall fl s dest src1 src2 cmd =
     (let w = FPCALL_W cmd; op = FPCALL_OP cmd in
      seqs [
        isa_fp_csr_check,
        (if op < FPCALL_NEED_RM then
           bnd (isa_fp_get_rm s) (\<lambda>rm.
           bnd (gets last_rm) (\<lambda>l.
             if rm \<noteq> l then thn (fp_set_rm rm) (modify (\<lambda>st. st\<lparr>last_rm := rm\<rparr>)) else skip))
         else skip),
        bnd (gets (\<lambda>st. (read_ptr st src1, read_ptr st src2, read_ptr st dest))) (\<lambda>(v1, v2, vd).
          if w = FPCALL_W32 then bnd (fpcall32 fl op v1 v2 vd) (write_ptr dest)
          else if w = FPCALL_W64 then bnd (fpcall64 fl op v1 v2 vd) (write_ptr dest)
          else skip),
        bnd (gets fp_get_exception) (\<lambda>ex.
          if ex \<noteq> 0 then thn (isa_fp_set_ex ex) fp_clear_exception else skip)])"

definition rtl_fclass :: "ptr \<Rightarrow> ptr \<Rightarrow> uint32 \<Rightarrow> unit nemu" where
  "rtl_fclass fdest src width =
     (if width = FPCALL_W32 then bnd (gets (\<lambda>st. f32_classify (rtlToF32 (read_ptr st src)))) (write_ptr fdest)
      else if width = FPCALL_W64 then bnd (gets (\<lambda>st. f64_classify (rtlToF64 (read_ptr st src)))) (write_ptr fdest)
      else die Assert_fail)"

end
