(* ===== verification/Hostcall.thy ===== *)
theory Hostcall
  imports Fp
begin

text \<open>
  Host calls (\<open>src/engine/interpreter/hostcall.c\<close>, \<open>isa_hostcall\<close> of \<open>system/priv.c\<close>): the exits from
  the RTL layer for the program end, invalid opcodes, floating point, CSR accesses, traps and privileged
  instructions, and the trap pseudo instruction built on them. The build has no port I/O.
\<close>

definition HOSTCALL_EXIT :: nat where "HOSTCALL_EXIT = 0"
definition HOSTCALL_INV :: nat where "HOSTCALL_INV = 1"
definition HOSTCALL_PIO :: nat where "HOSTCALL_PIO = 2"
definition HOSTCALL_FP :: nat where "HOSTCALL_FP = 3"
definition HOSTCALL_CSR :: nat where "HOSTCALL_CSR = 4"
definition HOSTCALL_TRAP :: nat where "HOSTCALL_TRAP = 5"
definition HOSTCALL_PRIV :: nat where "HOSTCALL_PRIV = 6"

lemmas hostcall_defs = HOSTCALL_EXIT_def HOSTCALL_INV_def HOSTCALL_PIO_def HOSTCALL_FP_def
  HOSTCALL_CSR_def HOSTCALL_TRAP_def HOSTCALL_PRIV_def

text \<open>The two words at an invalid instruction are fetched for the message; the fetch can fault, and then
  the abort is not recorded.\<close>

definition invalid_instr :: "uint64 \<Rightarrow> unit nemu" where
  "invalid_instr thispc =
     bnd (instr_fetch thispc 4) (\<lambda>(w0, pc1).
     bnd (instr_fetch pc1 4) (\<lambda>(w1, pc2).
       set_nemu_state NEMU_ABORT thispc (-1)))"

definition deref :: "ptr option \<Rightarrow> uint64 nemu" where
  "deref p = (case p of None \<Rightarrow> die Host_fault | Some q \<Rightarrow> gets (\<lambda>st. read_ptr st q))"

definition store_opt :: "ptr option \<Rightarrow> uint64 \<Rightarrow> unit nemu" where
  "store_opt dest v = (case dest of None \<Rightarrow> skip | Some d \<Rightarrow> write_ptr d v)"

definition isa_hostcall :: "nat \<Rightarrow> ptr option \<Rightarrow> ptr option \<Rightarrow> ptr option \<Rightarrow> uint64 \<Rightarrow> unit nemu" where
  "isa_hostcall hid dest src1 src2 i =
     (if hid = HOSTCALL_CSR then csrrw dest src1 (ucast i)
      else if hid = HOSTCALL_TRAP then
        bnd (deref src1) (\<lambda>epc. bnd (raise_intr i epc) (store_opt dest))
      else if hid = HOSTCALL_PRIV then bnd (priv_instr (ucast i) src1) (store_opt dest)
      else die Assert_fail)"

definition rtl_hostcall ::
  "fp_lib \<Rightarrow> decode \<Rightarrow> nat \<Rightarrow> ptr option \<Rightarrow> ptr option \<Rightarrow> ptr option \<Rightarrow> uint64 \<Rightarrow> unit nemu" where
  "rtl_hostcall fl s hid dest src1 src2 i =
     (if hid = HOSTCALL_EXIT then
        bnd (deref src1) (\<lambda>v. set_nemu_state NEMU_END (d_pc s) (ucast v))
      else if hid = HOSTCALL_INV then invalid_instr (d_pc s)
      else if hid = HOSTCALL_FP then
        (case (dest, src1, src2) of
           (Some d, Some a, Some b) \<Rightarrow> rtl_fpcall fl s d a b (ucast i)
         | _ \<Rightarrow> die Host_fault)
      else isa_hostcall hid dest src1 src2 i)"

definition rtl_trap :: "fp_lib \<Rightarrow> decode \<Rightarrow> uint64 \<Rightarrow> uint64 \<Rightarrow> unit nemu" where
  "rtl_trap fl s ret_pc NO = seqs [
     rtl_li (PTmp T0) ret_pc,
     rtl_hostcall fl s HOSTCALL_TRAP (Some (PTmp T0)) (Some (PTmp T0)) None NO,
     rtl_jr (PTmp T0)]"

lemma hostcall_cases [simp]:
  "rtl_hostcall fl s HOSTCALL_CSR dest src1 src2 i = csrrw dest src1 (ucast i)"
  "rtl_hostcall fl s HOSTCALL_TRAP dest src1 src2 i =
     bnd (deref src1) (\<lambda>epc. bnd (raise_intr i epc) (store_opt dest))"
  "rtl_hostcall fl s HOSTCALL_PRIV dest src1 src2 i = bnd (priv_instr (ucast i) src1) (store_opt dest)"
  "rtl_hostcall fl s HOSTCALL_FP (Some d) (Some a) (Some b) i = rtl_fpcall fl s d a b (ucast i)"
  "rtl_hostcall fl s HOSTCALL_INV dest src1 src2 i = invalid_instr (d_pc s)"
  "rtl_hostcall fl s HOSTCALL_EXIT dest src1 src2 i =
     bnd (deref src1) (\<lambda>v. set_nemu_state NEMU_END (d_pc s) (ucast v))"
  by (simp_all add: rtl_hostcall_def isa_hostcall_def hostcall_defs)

end
