(* ===== verification/ExecInt.thy ===== *)
theory ExecInt
  imports Decode Hostcall
begin

text \<open>
  Execution helpers of the integer base: \<open>instr/rvi/compute.h\<close>, \<open>control.h\<close>, \<open>ldst.h\<close>, the standard
  pseudo instructions (\<open>instr/pseudo.h\<close>) and the compressed instructions (\<open>instr/rvc/exec.h\<close>). A helper
  takes the decode record; the combinators below name the operand shapes that occur.
\<close>

named_theorems exec_defs \<open>definitions of the execution helpers\<close>

section \<open>Operand shapes\<close>

definition rrr :: "(ptr \<Rightarrow> ptr \<Rightarrow> ptr \<Rightarrow> unit nemu) \<Rightarrow> decode \<Rightarrow> unit nemu" where
  "rrr f s = with_ddest s (\<lambda>d. with_dsrc1 s (\<lambda>a. with_dsrc2 s (\<lambda>b. f d a b)))"

definition rri :: "(ptr \<Rightarrow> ptr \<Rightarrow> uint64 \<Rightarrow> unit nemu) \<Rightarrow> decode \<Rightarrow> unit nemu" where
  "rri f s = with_ddest s (\<lambda>d. with_dsrc1 s (\<lambda>a. bnd (imm (d_src2 s)) (\<lambda>i. f d a i)))"

definition ddr :: "(ptr \<Rightarrow> ptr \<Rightarrow> ptr \<Rightarrow> unit nemu) \<Rightarrow> decode \<Rightarrow> unit nemu" where
  "ddr f s = with_ddest s (\<lambda>d. with_dsrc2 s (\<lambda>b. f d d b))"

definition ddi :: "(ptr \<Rightarrow> ptr \<Rightarrow> uint64 \<Rightarrow> unit nemu) \<Rightarrow> decode \<Rightarrow> unit nemu" where
  "ddi f s = with_ddest s (\<lambda>d. bnd (imm (d_src2 s)) (\<lambda>i. f d d i))"

definition rr :: "(ptr \<Rightarrow> ptr \<Rightarrow> unit nemu) \<Rightarrow> decode \<Rightarrow> unit nemu" where
  "rr f s = with_ddest s (\<lambda>d. with_dsrc1 s (\<lambda>a. f d a))"

definition di1 :: "(ptr \<Rightarrow> uint64 \<Rightarrow> unit nemu) \<Rightarrow> decode \<Rightarrow> unit nemu" where
  "di1 f s = with_ddest s (\<lambda>d. bnd (imm (d_src1 s)) (\<lambda>i. f d i))"

definition di2 :: "(ptr \<Rightarrow> uint64 \<Rightarrow> unit nemu) \<Rightarrow> decode \<Rightarrow> unit nemu" where
  "di2 f s = with_ddest s (\<lambda>d. bnd (imm (d_src2 s)) (\<lambda>i. f d i))"

definition branch_rr :: "uint32 \<Rightarrow> decode \<Rightarrow> unit nemu" where
  "branch_rr relop s = with_dsrc1 s (\<lambda>a. with_dsrc2 s (\<lambda>b.
     bnd (imm (d_dest s)) (\<lambda>t. rtl_jrelop s relop a b t)))"

definition branch_rz :: "uint32 \<Rightarrow> decode \<Rightarrow> unit nemu" where
  "branch_rz relop s = with_dsrc1 s (\<lambda>a. bnd (imm (d_dest s)) (\<lambda>t. rtl_jrelop s relop a PRz t))"

definition branch_zr :: "uint32 \<Rightarrow> decode \<Rightarrow> unit nemu" where
  "branch_zr relop s = with_dsrc2 s (\<lambda>b. bnd (imm (d_dest s)) (\<lambda>t. rtl_jrelop s relop PRz b t))"

lemmas shape_defs [exec_defs] = rrr_def rri_def ddr_def ddi_def rr_def di1_def di2_def
  branch_rr_def branch_rz_def branch_zr_def

section \<open>RVI compute\<close>

definition exec_add :: "decode \<Rightarrow> unit nemu" where [exec_defs]: "exec_add = rrr rtl_add"
definition exec_sub :: "decode \<Rightarrow> unit nemu" where [exec_defs]: "exec_sub = rrr rtl_sub"
definition exec_sll :: "decode \<Rightarrow> unit nemu" where [exec_defs]: "exec_sll = rrr rtl_shl"
definition exec_sra :: "decode \<Rightarrow> unit nemu" where [exec_defs]: "exec_sra = rrr rtl_sar"
definition exec_srl :: "decode \<Rightarrow> unit nemu" where [exec_defs]: "exec_srl = rrr rtl_shr"
definition exec_slt :: "decode \<Rightarrow> unit nemu" where [exec_defs]: "exec_slt = rrr (rtl_setrelop RELOP_LT)"
definition exec_sltu :: "decode \<Rightarrow> unit nemu" where [exec_defs]: "exec_sltu = rrr (rtl_setrelop RELOP_LTU)"
definition exec_xor :: "decode \<Rightarrow> unit nemu" where [exec_defs]: "exec_xor = rrr rtl_xor"
definition exec_or :: "decode \<Rightarrow> unit nemu" where [exec_defs]: "exec_or = rrr rtl_or"
definition exec_and :: "decode \<Rightarrow> unit nemu" where [exec_defs]: "exec_and = rrr rtl_and"
definition exec_addi :: "decode \<Rightarrow> unit nemu" where [exec_defs]: "exec_addi = rri rtl_addi"
definition exec_slli :: "decode \<Rightarrow> unit nemu" where [exec_defs]: "exec_slli = rri rtl_shli"
definition exec_srai :: "decode \<Rightarrow> unit nemu" where [exec_defs]: "exec_srai = rri rtl_sari"
definition exec_srli :: "decode \<Rightarrow> unit nemu" where [exec_defs]: "exec_srli = rri rtl_shri"
definition exec_slti :: "decode \<Rightarrow> unit nemu" where [exec_defs]: "exec_slti = rri (rtl_setrelopi RELOP_LT)"
definition exec_sltui :: "decode \<Rightarrow> unit nemu" where [exec_defs]: "exec_sltui = rri (rtl_setrelopi RELOP_LTU)"
definition exec_xori :: "decode \<Rightarrow> unit nemu" where [exec_defs]: "exec_xori = rri rtl_xori"
definition exec_ori :: "decode \<Rightarrow> unit nemu" where [exec_defs]: "exec_ori = rri rtl_ori"
definition exec_andi :: "decode \<Rightarrow> unit nemu" where [exec_defs]: "exec_andi = rri rtl_andi"
definition exec_auipc :: "decode \<Rightarrow> unit nemu" where [exec_defs]: "exec_auipc = di1 rtl_li"
definition exec_lui :: "decode \<Rightarrow> unit nemu" where [exec_defs]: "exec_lui = di1 rtl_li"
definition exec_addw :: "decode \<Rightarrow> unit nemu" where [exec_defs]: "exec_addw = rrr rtl_addw"
definition exec_subw :: "decode \<Rightarrow> unit nemu" where [exec_defs]: "exec_subw = rrr rtl_subw"
definition exec_sllw :: "decode \<Rightarrow> unit nemu" where [exec_defs]: "exec_sllw = rrr rtl_shlw"
definition exec_srlw :: "decode \<Rightarrow> unit nemu" where [exec_defs]: "exec_srlw = rrr rtl_shrw"
definition exec_sraw :: "decode \<Rightarrow> unit nemu" where [exec_defs]: "exec_sraw = rrr rtl_sarw"
definition exec_addiw :: "decode \<Rightarrow> unit nemu" where [exec_defs]: "exec_addiw = rri rtl_addiw"
definition exec_slliw :: "decode \<Rightarrow> unit nemu" where [exec_defs]: "exec_slliw = rri rtl_shliw"
definition exec_srliw :: "decode \<Rightarrow> unit nemu" where [exec_defs]: "exec_srliw = rri rtl_shriw"
definition exec_sraiw :: "decode \<Rightarrow> unit nemu" where [exec_defs]: "exec_sraiw = rri rtl_sariw"

section \<open>RVI control\<close>

text \<open>The step that would clear the low bit of an indirect target is commented out in the source.\<close>

definition exec_jal :: "decode \<Rightarrow> unit nemu" where [exec_defs]:
  "exec_jal s = thn (di2 rtl_li s) (bnd (imm (d_src1 s)) rtl_j)"

definition exec_jalr :: "decode \<Rightarrow> unit nemu" where [exec_defs]:
  "exec_jalr s = seqs [
     with_dsrc1 s (\<lambda>a. bnd (imm (d_src2 s)) (\<lambda>i. rtl_addi (PTmp S0) a i)),
     with_ddest s (\<lambda>d. rtl_li d (d_snpc s)),
     rtl_jr (PTmp S0)]"

definition exec_beq :: "decode \<Rightarrow> unit nemu" where [exec_defs]: "exec_beq = branch_rr RELOP_EQ"
definition exec_bne :: "decode \<Rightarrow> unit nemu" where [exec_defs]: "exec_bne = branch_rr RELOP_NE"
definition exec_blt :: "decode \<Rightarrow> unit nemu" where [exec_defs]: "exec_blt = branch_rr RELOP_LT"
definition exec_bge :: "decode \<Rightarrow> unit nemu" where [exec_defs]: "exec_bge = branch_rr RELOP_GE"
definition exec_bltu :: "decode \<Rightarrow> unit nemu" where [exec_defs]: "exec_bltu = branch_rr RELOP_LTU"
definition exec_bgeu :: "decode \<Rightarrow> unit nemu" where [exec_defs]: "exec_bgeu = branch_rr RELOP_GEU"

section \<open>Pseudo instructions\<close>

definition exec_p_sext_w :: "decode \<Rightarrow> unit nemu" where [exec_defs]:
  "exec_p_sext_w s = rr (\<lambda>d a. rtl_addiw d a 0) s"
definition exec_p_blez :: "decode \<Rightarrow> unit nemu" where [exec_defs]: "exec_p_blez = branch_zr RELOP_GE"
definition exec_p_bgtz :: "decode \<Rightarrow> unit nemu" where [exec_defs]: "exec_p_bgtz = branch_zr RELOP_LT"
definition exec_p_bltz :: "decode \<Rightarrow> unit nemu" where [exec_defs]: "exec_p_bltz = branch_rz RELOP_LT"
definition exec_p_bgez :: "decode \<Rightarrow> unit nemu" where [exec_defs]: "exec_p_bgez = branch_rz RELOP_GE"
definition exec_p_jal :: "decode \<Rightarrow> unit nemu" where [exec_defs]:
  "exec_p_jal s = thn (bnd (imm (d_src2 s)) (rtl_li (PGpr 1))) (bnd (imm (d_src1 s)) rtl_j)"
definition exec_p_ret :: "decode \<Rightarrow> unit nemu" where [exec_defs]:
  "exec_p_ret s = rtl_jr (PGpr 1)"
definition exec_p_li_0 :: "decode \<Rightarrow> unit nemu" where [exec_defs]:
  "exec_p_li_0 s = with_ddest s (\<lambda>d. rtl_li d 0)"
definition exec_p_li_1 :: "decode \<Rightarrow> unit nemu" where [exec_defs]:
  "exec_p_li_1 s = with_ddest s (\<lambda>d. rtl_li d 1)"
definition exec_p_inc :: "decode \<Rightarrow> unit nemu" where [exec_defs]:
  "exec_p_inc s = with_ddest s (\<lambda>d. rtl_addi d d 1)"
definition exec_p_dec :: "decode \<Rightarrow> unit nemu" where [exec_defs]:
  "exec_p_dec s = with_ddest s (\<lambda>d. rtl_subi d d 1)"

section \<open>RVC\<close>

definition exec_c_j :: "decode \<Rightarrow> unit nemu" where [exec_defs]:
  "exec_c_j s = bnd (imm (d_src1 s)) rtl_j"
definition exec_c_jr :: "decode \<Rightarrow> unit nemu" where [exec_defs]:
  "exec_c_jr s = with_dsrc1 s rtl_jr"
definition exec_c_jalr :: "decode \<Rightarrow> unit nemu" where [exec_defs]:
  "exec_c_jalr s = thn (rtl_li (PGpr 1) (d_snpc s)) (with_dsrc1 s rtl_jr)"
definition exec_c_beqz :: "decode \<Rightarrow> unit nemu" where [exec_defs]: "exec_c_beqz = branch_rz RELOP_EQ"
definition exec_c_bnez :: "decode \<Rightarrow> unit nemu" where [exec_defs]: "exec_c_bnez = branch_rz RELOP_NE"
definition exec_c_li :: "decode \<Rightarrow> unit nemu" where [exec_defs]: "exec_c_li = di2 rtl_li"
definition exec_c_addi :: "decode \<Rightarrow> unit nemu" where [exec_defs]: "exec_c_addi = ddi rtl_addi"
definition exec_c_addiw :: "decode \<Rightarrow> unit nemu" where [exec_defs]: "exec_c_addiw = ddi rtl_addiw"
definition exec_c_slli :: "decode \<Rightarrow> unit nemu" where [exec_defs]: "exec_c_slli = ddi rtl_shli"
definition exec_c_srli :: "decode \<Rightarrow> unit nemu" where [exec_defs]: "exec_c_srli = ddi rtl_shri"
definition exec_c_srai :: "decode \<Rightarrow> unit nemu" where [exec_defs]: "exec_c_srai = ddi rtl_sari"
definition exec_c_andi :: "decode \<Rightarrow> unit nemu" where [exec_defs]: "exec_c_andi = ddi rtl_andi"
definition exec_c_mv :: "decode \<Rightarrow> unit nemu" where [exec_defs]: "exec_c_mv = rr rtl_mv"
definition exec_c_add :: "decode \<Rightarrow> unit nemu" where [exec_defs]: "exec_c_add = ddr rtl_add"
definition exec_c_and :: "decode \<Rightarrow> unit nemu" where [exec_defs]: "exec_c_and = ddr rtl_and"
definition exec_c_or :: "decode \<Rightarrow> unit nemu" where [exec_defs]: "exec_c_or = ddr rtl_or"
definition exec_c_xor :: "decode \<Rightarrow> unit nemu" where [exec_defs]: "exec_c_xor = ddr rtl_xor"
definition exec_c_sub :: "decode \<Rightarrow> unit nemu" where [exec_defs]: "exec_c_sub = ddr rtl_sub"
definition exec_c_addw :: "decode \<Rightarrow> unit nemu" where [exec_defs]: "exec_c_addw = ddr rtl_addw"
definition exec_c_subw :: "decode \<Rightarrow> unit nemu" where [exec_defs]: "exec_c_subw = ddr rtl_subw"

section \<open>Loads and stores\<close>

text \<open>\<open>def_ldst_template\<close>: the RTL instruction and the width of each identity; the MMU mode is the suffix
  of the identity.\<close>

definition rtl_ldst :: "(ptr \<Rightarrow> ptr \<Rightarrow> uint64 \<Rightarrow> nat \<Rightarrow> mmu_mode \<Rightarrow> unit nemu) \<Rightarrow> nat \<Rightarrow> mmu_mode \<Rightarrow> decode \<Rightarrow> unit nemu" where
  "rtl_ldst f width m s = with_ddest s (\<lambda>d. with_dsrc1 s (\<lambda>a. bnd (imm (d_src2 s)) (\<lambda>i. f d a i width m)))"

primrec exec_ldst :: "id_ldst \<Rightarrow> mmu_mode \<Rightarrow> decode \<Rightarrow> unit nemu" where
  "exec_ldst ID_ld = rtl_ldst rtl_lms 8"
| "exec_ldst ID_lw = rtl_ldst rtl_lms 4"
| "exec_ldst ID_lh = rtl_ldst rtl_lms 2"
| "exec_ldst ID_lb = rtl_ldst rtl_lms 1"
| "exec_ldst ID_lwu = rtl_ldst rtl_lm 4"
| "exec_ldst ID_lhu = rtl_ldst rtl_lm 2"
| "exec_ldst ID_lbu = rtl_ldst rtl_lm 1"
| "exec_ldst ID_sd = rtl_ldst rtl_sm 8"
| "exec_ldst ID_sw = rtl_ldst rtl_sm 4"
| "exec_ldst ID_sh = rtl_ldst rtl_sm 2"
| "exec_ldst ID_sb = rtl_ldst rtl_sm 1"

section \<open>Dispatch\<close>

text \<open>\<open>fence.i\<close> and \<open>fence\<close> (\<open>instr/rvi/fence.h\<close>). In this build \<open>rtl_priv_next\<close> expands to nothing.\<close>

definition exec_fence_i :: "decode \<Rightarrow> unit nemu" where [exec_defs]:
  "exec_fence_i s = bnd (priv_instr (ucast (-1 :: uint64)) None) (store_opt None)"

definition exec_fence :: "decode \<Rightarrow> unit nemu" where [exec_defs]:
  "exec_fence s = skip"

primrec exec_rvi :: "id_rvi \<Rightarrow> decode \<Rightarrow> unit nemu" where
  "exec_rvi ID_add = exec_add"
| "exec_rvi ID_sub = exec_sub"
| "exec_rvi ID_sll = exec_sll"
| "exec_rvi ID_sra = exec_sra"
| "exec_rvi ID_srl = exec_srl"
| "exec_rvi ID_slt = exec_slt"
| "exec_rvi ID_sltu = exec_sltu"
| "exec_rvi ID_xor = exec_xor"
| "exec_rvi ID_or = exec_or"
| "exec_rvi ID_and = exec_and"
| "exec_rvi ID_addi = exec_addi"
| "exec_rvi ID_slli = exec_slli"
| "exec_rvi ID_srai = exec_srai"
| "exec_rvi ID_srli = exec_srli"
| "exec_rvi ID_slti = exec_slti"
| "exec_rvi ID_sltui = exec_sltui"
| "exec_rvi ID_xori = exec_xori"
| "exec_rvi ID_ori = exec_ori"
| "exec_rvi ID_andi = exec_andi"
| "exec_rvi ID_auipc = exec_auipc"
| "exec_rvi ID_lui = exec_lui"
| "exec_rvi ID_addw = exec_addw"
| "exec_rvi ID_subw = exec_subw"
| "exec_rvi ID_sllw = exec_sllw"
| "exec_rvi ID_srlw = exec_srlw"
| "exec_rvi ID_sraw = exec_sraw"
| "exec_rvi ID_addiw = exec_addiw"
| "exec_rvi ID_slliw = exec_slliw"
| "exec_rvi ID_srliw = exec_srliw"
| "exec_rvi ID_sraiw = exec_sraiw"
| "exec_rvi ID_jal = exec_jal"
| "exec_rvi ID_jalr = exec_jalr"
| "exec_rvi ID_beq = exec_beq"
| "exec_rvi ID_bne = exec_bne"
| "exec_rvi ID_blt = exec_blt"
| "exec_rvi ID_bge = exec_bge"
| "exec_rvi ID_bltu = exec_bltu"
| "exec_rvi ID_bgeu = exec_bgeu"
| "exec_rvi ID_fence_i = exec_fence_i"
| "exec_rvi ID_fence = exec_fence"

primrec exec_pseudo :: "id_pseudo \<Rightarrow> decode \<Rightarrow> unit nemu" where
  "exec_pseudo ID_p_sext_w = exec_p_sext_w"
| "exec_pseudo ID_p_blez = exec_p_blez"
| "exec_pseudo ID_p_bgtz = exec_p_bgtz"
| "exec_pseudo ID_p_bltz = exec_p_bltz"
| "exec_pseudo ID_p_bgez = exec_p_bgez"
| "exec_pseudo ID_p_jal = exec_p_jal"
| "exec_pseudo ID_p_ret = exec_p_ret"
| "exec_pseudo ID_p_li_0 = exec_p_li_0"
| "exec_pseudo ID_p_li_1 = exec_p_li_1"
| "exec_pseudo ID_p_inc = exec_p_inc"
| "exec_pseudo ID_p_dec = exec_p_dec"

primrec exec_rvc :: "id_rvc \<Rightarrow> decode \<Rightarrow> unit nemu" where
  "exec_rvc ID_c_j = exec_c_j"
| "exec_rvc ID_c_jr = exec_c_jr"
| "exec_rvc ID_c_jalr = exec_c_jalr"
| "exec_rvc ID_c_beqz = exec_c_beqz"
| "exec_rvc ID_c_bnez = exec_c_bnez"
| "exec_rvc ID_c_li = exec_c_li"
| "exec_rvc ID_c_addi = exec_c_addi"
| "exec_rvc ID_c_addiw = exec_c_addiw"
| "exec_rvc ID_c_slli = exec_c_slli"
| "exec_rvc ID_c_srli = exec_c_srli"
| "exec_rvc ID_c_srai = exec_c_srai"
| "exec_rvc ID_c_andi = exec_c_andi"
| "exec_rvc ID_c_mv = exec_c_mv"
| "exec_rvc ID_c_add = exec_c_add"
| "exec_rvc ID_c_and = exec_c_and"
| "exec_rvc ID_c_or = exec_c_or"
| "exec_rvc ID_c_xor = exec_c_xor"
| "exec_rvc ID_c_sub = exec_c_sub"
| "exec_rvc ID_c_addw = exec_c_addw"
| "exec_rvc ID_c_subw = exec_c_subw"

end
