(* ===== verification/ExecM.thy ===== *)
theory ExecM
  imports ExecInt
begin

text \<open>
  Execution helpers of the M extension (\<open>instr/rvm/exec.h\<close>). The interpreter tests for the zero divisor
  and for the overflowing quotient before it lets the host divide.
\<close>

definition exec_mul :: "decode \<Rightarrow> unit nemu" where [exec_defs]: "exec_mul = rrr rtl_mulu_lo"
definition exec_mulh :: "decode \<Rightarrow> unit nemu" where [exec_defs]: "exec_mulh = rrr rtl_muls_hi"
definition exec_mulhu :: "decode \<Rightarrow> unit nemu" where [exec_defs]: "exec_mulhu = rrr rtl_mulu_hi"
definition exec_mulw :: "decode \<Rightarrow> unit nemu" where [exec_defs]: "exec_mulw = rrr rtl_mulw"

definition exec_mulhsu :: "decode \<Rightarrow> unit nemu" where [exec_defs]:
  "exec_mulhsu s = with_ddest s (\<lambda>d. with_dsrc1 s (\<lambda>a. with_dsrc2 s (\<lambda>b. seqs [
     rtl_sari (PTmp S0) a 63,
     rtl_and (PTmp S0) b (PTmp S0),
     rtl_mulu_hi (PTmp S1) a b,
     rtl_sub d (PTmp S1) (PTmp S0)])))"

text \<open>The two guards, evaluated on the source registers; the second one is read only when the first
  fails.\<close>

definition exec_div :: "decode \<Rightarrow> unit nemu" where [exec_defs]:
  "exec_div s = rrr (\<lambda>d a b. bnd (gets (\<lambda>st. (read_ptr st a, read_ptr st b))) (\<lambda>(x, y).
     if y = 0 then rtl_li d (NOT 0)
     else if x = 0x8000000000000000 \<and> y = NOT 0 then rtl_mv d a
     else rtl_divs_q d a b)) s"

definition exec_divu :: "decode \<Rightarrow> unit nemu" where [exec_defs]:
  "exec_divu s = rrr (\<lambda>d a b. bnd (gets (\<lambda>st. read_ptr st b)) (\<lambda>y.
     if y = 0 then rtl_li d (NOT 0) else rtl_divu_q d a b)) s"

definition exec_rem :: "decode \<Rightarrow> unit nemu" where [exec_defs]:
  "exec_rem s = rrr (\<lambda>d a b. bnd (gets (\<lambda>st. (read_ptr st a, read_ptr st b))) (\<lambda>(x, y).
     if y = 0 then rtl_mv d a
     else if x = 0x8000000000000000 \<and> y = NOT 0 then rtl_mv d PRz
     else rtl_divs_r d a b)) s"

definition exec_remu :: "decode \<Rightarrow> unit nemu" where [exec_defs]:
  "exec_remu s = rrr (\<lambda>d a b. bnd (gets (\<lambda>st. read_ptr st b)) (\<lambda>y.
     if y = 0 then rtl_mv d a else rtl_divu_r d a b)) s"

text \<open>The 32-bit forms extend into the temporaries first. The overflow guard of \<open>divw\<close> and \<open>remw\<close>
  compares the sign-extended dividend with \<open>0x80000000\<close>.\<close>

definition exec_divw :: "decode \<Rightarrow> unit nemu" where [exec_defs]:
  "exec_divw s = rrr (\<lambda>d a b. seqs [
     rtl_sext (PTmp S0) a 4,
     rtl_sext (PTmp S1) b 4,
     bnd (gets (\<lambda>st. (tmp_reg st S0, tmp_reg st S1))) (\<lambda>(x, y).
       if y = 0 then rtl_li (PTmp S0) (NOT 0)
       else if x = 0x80000000 \<and> y = NOT 0 then skip
       else rtl_divs_q (PTmp S0) (PTmp S0) (PTmp S1)),
     rtl_sext d (PTmp S0) 4]) s"

definition exec_remw :: "decode \<Rightarrow> unit nemu" where [exec_defs]:
  "exec_remw s = rrr (\<lambda>d a b. seqs [
     rtl_sext (PTmp S0) a 4,
     rtl_sext (PTmp S1) b 4,
     bnd (gets (\<lambda>st. (tmp_reg st S0, tmp_reg st S1))) (\<lambda>(x, y).
       if y = 0 then skip
       else if x = 0x80000000 \<and> y = NOT 0 then rtl_mv (PTmp S0) PRz
       else rtl_divs_r (PTmp S0) (PTmp S0) (PTmp S1)),
     rtl_sext d (PTmp S0) 4]) s"

definition exec_divuw :: "decode \<Rightarrow> unit nemu" where [exec_defs]:
  "exec_divuw s = rrr (\<lambda>d a b. seqs [
     rtl_zext (PTmp S0) a 4,
     rtl_zext (PTmp S1) b 4,
     bnd (gets (\<lambda>st. tmp_reg st S1)) (\<lambda>y.
       if y = 0 then rtl_li (PTmp S0) (NOT 0) else rtl_divu_q (PTmp S0) (PTmp S0) (PTmp S1)),
     rtl_sext d (PTmp S0) 4]) s"

definition exec_remuw :: "decode \<Rightarrow> unit nemu" where [exec_defs]:
  "exec_remuw s = rrr (\<lambda>d a b. seqs [
     rtl_zext (PTmp S0) a 4,
     rtl_zext (PTmp S1) b 4,
     bnd (gets (\<lambda>st. tmp_reg st S1)) (\<lambda>y.
       if y = 0 then skip else rtl_divu_r (PTmp S0) (PTmp S0) (PTmp S1)),
     rtl_sext d (PTmp S0) 4]) s"

primrec exec_rvm :: "id_rvm \<Rightarrow> decode \<Rightarrow> unit nemu" where
  "exec_rvm ID_mul = exec_mul"
| "exec_rvm ID_mulh = exec_mulh"
| "exec_rvm ID_mulhu = exec_mulhu"
| "exec_rvm ID_mulhsu = exec_mulhsu"
| "exec_rvm ID_div = exec_div"
| "exec_rvm ID_divu = exec_divu"
| "exec_rvm ID_rem = exec_rem"
| "exec_rvm ID_remu = exec_remu"
| "exec_rvm ID_mulw = exec_mulw"
| "exec_rvm ID_divw = exec_divw"
| "exec_rvm ID_remw = exec_remw"
| "exec_rvm ID_divuw = exec_divuw"
| "exec_rvm ID_remuw = exec_remuw"

end
