(* ===== verification/ExecB.thy ===== *)
theory ExecB
  imports ExecInt
begin

text \<open>
  The bit-manipulation extension: the emulation functions of \<open>instr/rvb/rvintrin.h\<close> and the execution
  helpers of \<open>instr/rvb/exec.h\<close>, which assign their results to the destination.
\<close>

section \<open>Bit manipulation intrinsics\<close>

text \<open>The compiler builtins count bits of an \<open>n\<close>-bit word from the top, from the bottom, and all.\<close>

definition builtin_clz :: "nat \<Rightarrow> uint64 \<Rightarrow> nat" where
  "builtin_clz n x = length (takeWhile (\<lambda>i. \<not> bit x i) (rev [0..<n]))"

definition builtin_ctz :: "nat \<Rightarrow> uint64 \<Rightarrow> nat" where
  "builtin_ctz n x = length (takeWhile (\<lambda>i. \<not> bit x i) [0..<n])"

definition builtin_popcount :: "nat \<Rightarrow> uint64 \<Rightarrow> nat" where
  "builtin_popcount n x = length (filter (\<lambda>i. bit x i) [0..<n])"

text \<open>An \<open>int32_t\<close> parameter truncates its argument; an \<open>int32_t\<close> result is sign-extended when it is
  assigned to the destination.\<close>

definition low32 :: "uint64 \<Rightarrow> uint64" where "low32 x = ucast (ucast x :: uint32)"

definition rv32_clz :: "uint64 \<Rightarrow> uint64" where
  "rv32_clz rs1 = (let x = low32 rs1 in if x \<noteq> 0 then of_nat (builtin_clz 32 x) else 32)"
definition rv_clz :: "uint64 \<Rightarrow> uint64" where
  "rv_clz rs1 = (if rs1 \<noteq> 0 then of_nat (builtin_clz 64 rs1) else 64)"
definition rv32_ctz :: "uint64 \<Rightarrow> uint64" where
  "rv32_ctz rs1 = (let x = low32 rs1 in if x \<noteq> 0 then of_nat (builtin_ctz 32 x) else 32)"
definition rv_ctz :: "uint64 \<Rightarrow> uint64" where
  "rv_ctz rs1 = (if rs1 \<noteq> 0 then of_nat (builtin_ctz 64 rs1) else 64)"
definition rv32_cpop :: "uint64 \<Rightarrow> uint64" where
  "rv32_cpop rs1 = of_nat (builtin_popcount 32 (low32 rs1))"
definition rv_cpop :: "uint64 \<Rightarrow> uint64" where
  "rv_cpop rs1 = of_nat (builtin_popcount 64 rs1)"

definition rv_sext_b :: "uint64 \<Rightarrow> uint64" where
  "rv_sext_b rs1 = signed_drop_bit (64 - 8) (push_bit (64 - 8) rs1)"
definition rv_sext_h :: "uint64 \<Rightarrow> uint64" where
  "rv_sext_h rs1 = signed_drop_bit (64 - 16) (push_bit (64 - 16) rs1)"
definition rv_zext_h :: "uint64 \<Rightarrow> uint64" where
  "rv_zext_h rs1 = drop_bit (64 - 16) (push_bit (64 - 16) rs1)"

definition rv_min :: "uint64 \<Rightarrow> uint64 \<Rightarrow> uint64" where
  "rv_min rs1 rs2 = (if sint rs1 < sint rs2 then rs1 else rs2)"
definition rv_minu :: "uint64 \<Rightarrow> uint64 \<Rightarrow> uint64" where
  "rv_minu rs1 rs2 = (if rs1 < rs2 then rs1 else rs2)"
definition rv_max :: "uint64 \<Rightarrow> uint64 \<Rightarrow> uint64" where
  "rv_max rs1 rs2 = (if sint rs1 > sint rs2 then rs1 else rs2)"
definition rv_maxu :: "uint64 \<Rightarrow> uint64 \<Rightarrow> uint64" where
  "rv_maxu rs1 rs2 = (if rs1 > rs2 then rs1 else rs2)"

definition sh6 :: "uint64 \<Rightarrow> nat" where "sh6 x = unat (x AND 63)"
definition sh5 :: "uint32 \<Rightarrow> nat" where "sh5 x = unat (x AND 31)"

definition rv_bset :: "uint64 \<Rightarrow> uint64 \<Rightarrow> uint64" where
  "rv_bset rs1 rs2 = rs1 OR push_bit (sh6 rs2) 1"
definition rv_bclr :: "uint64 \<Rightarrow> uint64 \<Rightarrow> uint64" where
  "rv_bclr rs1 rs2 = rs1 AND NOT (push_bit (sh6 rs2) 1)"
definition rv_binv :: "uint64 \<Rightarrow> uint64 \<Rightarrow> uint64" where
  "rv_binv rs1 rs2 = rs1 XOR push_bit (sh6 rs2) 1"
definition rv_bext :: "uint64 \<Rightarrow> uint64 \<Rightarrow> uint64" where
  "rv_bext rs1 rs2 = 1 AND signed_drop_bit (sh6 rs2) rs1"

definition rv_sll :: "uint64 \<Rightarrow> uint64 \<Rightarrow> uint64" where "rv_sll rs1 rs2 = push_bit (sh6 rs2) rs1"
definition rv_srl :: "uint64 \<Rightarrow> uint64 \<Rightarrow> uint64" where "rv_srl rs1 rs2 = drop_bit (sh6 rs2) rs1"
definition rv_rol :: "uint64 \<Rightarrow> uint64 \<Rightarrow> uint64" where
  "rv_rol rs1 rs2 = rv_sll rs1 rs2 OR rv_srl rs1 (- rs2)"
definition rv_ror :: "uint64 \<Rightarrow> uint64 \<Rightarrow> uint64" where
  "rv_ror rs1 rs2 = rv_srl rs1 rs2 OR rv_sll rs1 (- rs2)"

definition rv32_sll :: "uint32 \<Rightarrow> uint32 \<Rightarrow> uint32" where "rv32_sll rs1 rs2 = push_bit (sh5 rs2) rs1"
definition rv32_srl :: "uint32 \<Rightarrow> uint32 \<Rightarrow> uint32" where "rv32_srl rs1 rs2 = drop_bit (sh5 rs2) rs1"
definition rv32_rol :: "uint64 \<Rightarrow> uint64 \<Rightarrow> uint64" where
  "rv32_rol rs1 rs2 = scast (rv32_sll (ucast rs1) (ucast rs2) OR rv32_srl (ucast rs1) (- ucast rs2))"
definition rv32_ror :: "uint64 \<Rightarrow> uint64 \<Rightarrow> uint64" where
  "rv32_ror rs1 rs2 = scast (rv32_srl (ucast rs1) (ucast rs2) OR rv32_sll (ucast rs1) (- ucast rs2))"

text \<open>Generalised reverse and or-combine: one stage per bit of the shift amount.\<close>

definition grev_stage :: "nat \<Rightarrow> uint64 \<Rightarrow> uint64 \<Rightarrow> uint64 \<Rightarrow> uint64 \<Rightarrow> uint64" where
  "grev_stage k lo hi shamt x =
     (if shamt AND of_nat k \<noteq> 0 then push_bit k (x AND lo) OR drop_bit k (x AND hi) else x)"

definition rv_grev :: "uint64 \<Rightarrow> uint64 \<Rightarrow> uint64" where
  "rv_grev rs1 rs2 =
     (let shamt = rs2 AND 63;
          x1 = grev_stage 1 0x5555555555555555 0xAAAAAAAAAAAAAAAA shamt rs1;
          x2 = grev_stage 2 0x3333333333333333 0xCCCCCCCCCCCCCCCC shamt x1;
          x4 = grev_stage 4 0x0F0F0F0F0F0F0F0F 0xF0F0F0F0F0F0F0F0 shamt x2;
          x8 = grev_stage 8 0x00FF00FF00FF00FF 0xFF00FF00FF00FF00 shamt x4;
          x16 = grev_stage 16 0x0000FFFF0000FFFF 0xFFFF0000FFFF0000 shamt x8
      in grev_stage 32 0x00000000FFFFFFFF 0xFFFFFFFF00000000 shamt x16)"

definition gorc_stage :: "nat \<Rightarrow> uint64 \<Rightarrow> uint64 \<Rightarrow> uint64 \<Rightarrow> uint64 \<Rightarrow> uint64" where
  "gorc_stage k lo hi shamt x =
     (if shamt AND of_nat k \<noteq> 0 then x OR (push_bit k (x AND lo) OR drop_bit k (x AND hi)) else x)"

definition rv_gorc :: "uint64 \<Rightarrow> uint64 \<Rightarrow> uint64" where
  "rv_gorc rs1 rs2 =
     (let shamt = rs2 AND 63;
          x1 = gorc_stage 1 0x5555555555555555 0xAAAAAAAAAAAAAAAA shamt rs1;
          x2 = gorc_stage 2 0x3333333333333333 0xCCCCCCCCCCCCCCCC shamt x1;
          x4 = gorc_stage 4 0x0F0F0F0F0F0F0F0F 0xF0F0F0F0F0F0F0F0 shamt x2;
          x8 = gorc_stage 8 0x00FF00FF00FF00FF 0xFF00FF00FF00FF00 shamt x4;
          x16 = gorc_stage 16 0x0000FFFF0000FFFF 0xFFFF0000FFFF0000 shamt x8
      in gorc_stage 32 0x00000000FFFFFFFF 0xFFFFFFFF00000000 shamt x16)"

definition rv_rev8 :: "uint64 \<Rightarrow> uint64" where "rv_rev8 rs1 = rv_grev rs1 56"
definition rv_orc_b :: "uint64 \<Rightarrow> uint64" where "rv_orc_b rs1 = rv_gorc rs1 7"

text \<open>Carry-less products: the loop over the bits of the second operand, accumulating by exclusive or.\<close>

definition clmul_loop :: "(nat \<Rightarrow> uint64) \<Rightarrow> uint64 \<Rightarrow> nat list \<Rightarrow> uint64" where
  "clmul_loop term_i b is = fold (\<lambda>i x. if drop_bit i b AND 1 \<noteq> 0 then x XOR term_i i else x) is 0"

definition rv_clmul :: "uint64 \<Rightarrow> uint64 \<Rightarrow> uint64" where
  "rv_clmul a b = clmul_loop (\<lambda>i. push_bit i a) b [0..<64]"
definition rv_clmulh :: "uint64 \<Rightarrow> uint64 \<Rightarrow> uint64" where
  "rv_clmulh a b = clmul_loop (\<lambda>i. drop_bit (64 - i) a) b [1..<64]"
definition rv_clmulr :: "uint64 \<Rightarrow> uint64 \<Rightarrow> uint64" where
  "rv_clmulr a b = clmul_loop (\<lambda>i. drop_bit (63 - i) a) b [0..<64]"

definition rv_andn :: "uint64 \<Rightarrow> uint64 \<Rightarrow> uint64" where "rv_andn rs1 rs2 = rs1 AND NOT rs2"
definition rv_orn :: "uint64 \<Rightarrow> uint64 \<Rightarrow> uint64" where "rv_orn rs1 rs2 = rs1 OR NOT rs2"
definition rv_xnor :: "uint64 \<Rightarrow> uint64 \<Rightarrow> uint64" where "rv_xnor rs1 rs2 = rs1 XOR NOT rs2"

section \<open>Execution helpers\<close>

definition set_rr :: "(uint64 \<Rightarrow> uint64 \<Rightarrow> uint64) \<Rightarrow> decode \<Rightarrow> unit nemu" where
  "set_rr f = rrr (def_rtl_compute_reg f)"

definition set_ri :: "(uint64 \<Rightarrow> uint64 \<Rightarrow> uint64) \<Rightarrow> decode \<Rightarrow> unit nemu" where
  "set_ri f = rri (def_rtl_compute_imm f)"

definition set_r :: "(uint64 \<Rightarrow> uint64) \<Rightarrow> decode \<Rightarrow> unit nemu" where
  "set_r f = rr (\<lambda>d a. bnd (gets (\<lambda>st. f (read_ptr st a))) (write_ptr d))"

lemmas set_shape_defs [exec_defs] = set_rr_def set_ri_def set_r_def

text \<open>The \<open>.uw\<close> forms shift the truncated register at 32 bits before they widen it.\<close>

definition op_adduw :: "uint64 \<Rightarrow> uint64 \<Rightarrow> uint64" where
  "op_adduw a b = b + ucast (ucast a :: uint32)"
definition op_slliuw :: "uint64 \<Rightarrow> uint64 \<Rightarrow> uint64" where
  "op_slliuw a i = ucast (push_bit (unat (i AND 0x1f)) (ucast a :: uint32))"
definition op_shadd :: "nat \<Rightarrow> uint64 \<Rightarrow> uint64 \<Rightarrow> uint64" where
  "op_shadd k a b = push_bit k a + b"
definition op_shadduw :: "nat \<Rightarrow> uint64 \<Rightarrow> uint64 \<Rightarrow> uint64" where
  "op_shadduw k a b = ucast (push_bit k (ucast a :: uint32)) + b"

definition exec_clz :: "decode \<Rightarrow> unit nemu" where [exec_defs]: "exec_clz = set_r rv_clz"
definition exec_ctz :: "decode \<Rightarrow> unit nemu" where [exec_defs]: "exec_ctz = set_r rv_ctz"
definition exec_cpop :: "decode \<Rightarrow> unit nemu" where [exec_defs]: "exec_cpop = set_r rv_cpop"
definition exec_sext_b :: "decode \<Rightarrow> unit nemu" where [exec_defs]: "exec_sext_b = set_r rv_sext_b"
definition exec_sext_h :: "decode \<Rightarrow> unit nemu" where [exec_defs]: "exec_sext_h = set_r rv_sext_h"
definition exec_zext_h :: "decode \<Rightarrow> unit nemu" where [exec_defs]: "exec_zext_h = set_r rv_zext_h"
definition exec_rev8 :: "decode \<Rightarrow> unit nemu" where [exec_defs]: "exec_rev8 = set_r rv_rev8"
definition exec_orc_b :: "decode \<Rightarrow> unit nemu" where [exec_defs]: "exec_orc_b = set_r rv_orc_b"
definition exec_clzw :: "decode \<Rightarrow> unit nemu" where [exec_defs]: "exec_clzw = set_r rv32_clz"
definition exec_ctzw :: "decode \<Rightarrow> unit nemu" where [exec_defs]: "exec_ctzw = set_r rv32_ctz"
definition exec_cpopw :: "decode \<Rightarrow> unit nemu" where [exec_defs]: "exec_cpopw = set_r rv32_cpop"
definition exec_andn :: "decode \<Rightarrow> unit nemu" where [exec_defs]: "exec_andn = set_rr rv_andn"
definition exec_orn :: "decode \<Rightarrow> unit nemu" where [exec_defs]: "exec_orn = set_rr rv_orn"
definition exec_xnor :: "decode \<Rightarrow> unit nemu" where [exec_defs]: "exec_xnor = set_rr rv_xnor"
definition exec_rol :: "decode \<Rightarrow> unit nemu" where [exec_defs]: "exec_rol = set_rr rv_rol"
definition exec_rolw :: "decode \<Rightarrow> unit nemu" where [exec_defs]: "exec_rolw = set_rr rv32_rol"
definition exec_ror :: "decode \<Rightarrow> unit nemu" where [exec_defs]: "exec_ror = set_rr rv_ror"
definition exec_rori :: "decode \<Rightarrow> unit nemu" where [exec_defs]: "exec_rori = set_ri rv_ror"
definition exec_rorw :: "decode \<Rightarrow> unit nemu" where [exec_defs]: "exec_rorw = set_rr rv32_ror"
definition exec_roriw :: "decode \<Rightarrow> unit nemu" where [exec_defs]: "exec_roriw = set_ri rv32_ror"
definition exec_bclr :: "decode \<Rightarrow> unit nemu" where [exec_defs]: "exec_bclr = set_rr rv_bclr"
definition exec_bclri :: "decode \<Rightarrow> unit nemu" where [exec_defs]: "exec_bclri = set_ri rv_bclr"
definition exec_bset :: "decode \<Rightarrow> unit nemu" where [exec_defs]: "exec_bset = set_rr rv_bset"
definition exec_bseti :: "decode \<Rightarrow> unit nemu" where [exec_defs]: "exec_bseti = set_ri rv_bset"
definition exec_binv :: "decode \<Rightarrow> unit nemu" where [exec_defs]: "exec_binv = set_rr rv_binv"
definition exec_binvi :: "decode \<Rightarrow> unit nemu" where [exec_defs]: "exec_binvi = set_ri rv_binv"
definition exec_bext :: "decode \<Rightarrow> unit nemu" where [exec_defs]: "exec_bext = set_rr rv_bext"
definition exec_bexti :: "decode \<Rightarrow> unit nemu" where [exec_defs]: "exec_bexti = set_ri rv_bext"
definition exec_clmul :: "decode \<Rightarrow> unit nemu" where [exec_defs]: "exec_clmul = set_rr rv_clmul"
definition exec_clmulr :: "decode \<Rightarrow> unit nemu" where [exec_defs]: "exec_clmulr = set_rr rv_clmulr"
definition exec_clmulh :: "decode \<Rightarrow> unit nemu" where [exec_defs]: "exec_clmulh = set_rr rv_clmulh"
definition exec_min :: "decode \<Rightarrow> unit nemu" where [exec_defs]: "exec_min = set_rr rv_min"
definition exec_minu :: "decode \<Rightarrow> unit nemu" where [exec_defs]: "exec_minu = set_rr rv_minu"
definition exec_max :: "decode \<Rightarrow> unit nemu" where [exec_defs]: "exec_max = set_rr rv_max"
definition exec_maxu :: "decode \<Rightarrow> unit nemu" where [exec_defs]: "exec_maxu = set_rr rv_maxu"
definition exec_adduw :: "decode \<Rightarrow> unit nemu" where [exec_defs]: "exec_adduw = set_rr op_adduw"
definition exec_slliuw :: "decode \<Rightarrow> unit nemu" where [exec_defs]: "exec_slliuw = set_ri op_slliuw"
definition exec_sh1add :: "decode \<Rightarrow> unit nemu" where [exec_defs]: "exec_sh1add = set_rr (op_shadd 1)"
definition exec_sh2add :: "decode \<Rightarrow> unit nemu" where [exec_defs]: "exec_sh2add = set_rr (op_shadd 2)"
definition exec_sh3add :: "decode \<Rightarrow> unit nemu" where [exec_defs]: "exec_sh3add = set_rr (op_shadd 3)"
definition exec_sh1adduw :: "decode \<Rightarrow> unit nemu" where [exec_defs]: "exec_sh1adduw = set_rr (op_shadduw 1)"
definition exec_sh2adduw :: "decode \<Rightarrow> unit nemu" where [exec_defs]: "exec_sh2adduw = set_rr (op_shadduw 2)"
definition exec_sh3adduw :: "decode \<Rightarrow> unit nemu" where [exec_defs]: "exec_sh3adduw = set_rr (op_shadduw 3)"

primrec exec_rvb :: "id_rvb \<Rightarrow> decode \<Rightarrow> unit nemu" where
  "exec_rvb ID_clz = exec_clz"
| "exec_rvb ID_ctz = exec_ctz"
| "exec_rvb ID_cpop = exec_cpop"
| "exec_rvb ID_sext_b = exec_sext_b"
| "exec_rvb ID_sext_h = exec_sext_h"
| "exec_rvb ID_zext_h = exec_zext_h"
| "exec_rvb ID_rev8 = exec_rev8"
| "exec_rvb ID_orc_b = exec_orc_b"
| "exec_rvb ID_clzw = exec_clzw"
| "exec_rvb ID_ctzw = exec_ctzw"
| "exec_rvb ID_cpopw = exec_cpopw"
| "exec_rvb ID_andn = exec_andn"
| "exec_rvb ID_orn = exec_orn"
| "exec_rvb ID_xnor = exec_xnor"
| "exec_rvb ID_rol = exec_rol"
| "exec_rvb ID_rolw = exec_rolw"
| "exec_rvb ID_ror = exec_ror"
| "exec_rvb ID_rori = exec_rori"
| "exec_rvb ID_rorw = exec_rorw"
| "exec_rvb ID_roriw = exec_roriw"
| "exec_rvb ID_bclr = exec_bclr"
| "exec_rvb ID_bclri = exec_bclri"
| "exec_rvb ID_bset = exec_bset"
| "exec_rvb ID_bseti = exec_bseti"
| "exec_rvb ID_binv = exec_binv"
| "exec_rvb ID_binvi = exec_binvi"
| "exec_rvb ID_bext = exec_bext"
| "exec_rvb ID_bexti = exec_bexti"
| "exec_rvb ID_clmul = exec_clmul"
| "exec_rvb ID_clmulr = exec_clmulr"
| "exec_rvb ID_clmulh = exec_clmulh"
| "exec_rvb ID_min = exec_min"
| "exec_rvb ID_minu = exec_minu"
| "exec_rvb ID_max = exec_max"
| "exec_rvb ID_maxu = exec_maxu"
| "exec_rvb ID_adduw = exec_adduw"
| "exec_rvb ID_slliuw = exec_slliuw"
| "exec_rvb ID_sh1add = exec_sh1add"
| "exec_rvb ID_sh2add = exec_sh2add"
| "exec_rvb ID_sh3add = exec_sh3add"
| "exec_rvb ID_sh1adduw = exec_sh1adduw"
| "exec_rvb ID_sh2adduw = exec_sh2adduw"
| "exec_rvb ID_sh3adduw = exec_sh3adduw"

end
