(* ===== verification/ExecSys.thy ===== *)
theory ExecSys
  imports ExecInt
begin

text \<open>
  Execution helpers that are not plain data operations: the pseudo instructions for invalid opcodes and
  the end of the guest program (\<open>instr/special.h\<close>), atomics (\<open>instr/rva/amo.c\<close>), and the privileged and
  CSR instructions (\<open>instr/priv/system.c\<close>, \<open>priv/exec.h\<close>).
\<close>

section \<open>Special helpers\<close>

definition exec_inv :: "fp_lib \<Rightarrow> decode \<Rightarrow> unit nemu" where [exec_defs]:
  "exec_inv fl s = thn (rtl_hostcall fl s HOSTCALL_INV None None None 0) (longjmp_exec NEMU_EXEC_END)"

definition exec_rt_inv :: "fp_lib \<Rightarrow> decode \<Rightarrow> unit nemu" where [exec_defs]:
  "exec_rt_inv fl s = longjmp_exception EX_II"

definition exec_nemu_trap :: "fp_lib \<Rightarrow> decode \<Rightarrow> unit nemu" where [exec_defs]:
  "exec_nemu_trap fl s =
     thn (rtl_hostcall fl s HOSTCALL_EXIT None (Some (PGpr 10)) None 0) (longjmp_exec NEMU_EXEC_END)"

section \<open>Atomics\<close>

text \<open>The value an AMO stores, from the loaded word and the second source; \<open>None\<close> is the failed
  assertion on an unknown operation. The comparisons use all 64 bits, also for the word forms.\<close>

definition amo_op :: "uint32 \<Rightarrow> uint64 \<Rightarrow> uint64 \<Rightarrow> uint64 option" where
  "amo_op funct5 v0 v2 =
     (if funct5 = 0b00001 then Some v2
      else if funct5 = 0b00000 then Some (c_add v0 v2)
      else if funct5 = 0b01000 then Some (c_or v0 v2)
      else if funct5 = 0b01100 then Some (c_and v0 v2)
      else if funct5 = 0b00100 then Some (c_xor v0 v2)
      else if funct5 = 0b11100 then Some (if v0 > v2 then v0 else v2)
      else if funct5 = 0b10100 then Some (if sint v0 > sint v2 then v0 else v2)
      else if funct5 = 0b11000 then Some (if v0 < v2 then v0 else v2)
      else if funct5 = 0b10000 then Some (if sint v0 < sint v2 then v0 else v2)
      else None)"

definition set_amo_m :: "bool \<Rightarrow> unit nemu" where
  "set_amo_m b = modify (set_amo b)"

definition amo_width :: "decode \<Rightarrow> nat" where
  "amo_width s = (if f_funct3 (d_instr s) AND 1 \<noteq> 0 then 8 else 4)"

definition amo_funct5 :: "decode \<Rightarrow> uint32" where
  "amo_funct5 s = drop_bit 2 (f_funct7 (d_instr s))"

text \<open>Load-reserved: the address register is read again after the destination has been written.\<close>

definition amo_lr :: "decode \<Rightarrow> ptr \<Rightarrow> ptr \<Rightarrow> unit nemu" where
  "amo_lr s dest src1 = seqs [
     rtl_lms dest src1 0 (amo_width s) MMU_DYNAMIC,
     modify (\<lambda>st. st\<lparr>cpu := (cpu st)\<lparr>lr_addr := read_ptr st src1, lr_valid := 1\<rparr>\<rparr>)]"

text \<open>Store-conditional. The flag \<open>amo\<close> keeps the store out of the commit queue.\<close>

definition amo_sc :: "decode \<Rightarrow> ptr \<Rightarrow> ptr \<Rightarrow> ptr \<Rightarrow> unit nemu" where
  "amo_sc s dest src1 src2 =
     thn (set_amo_m True)
     (bnd (gets (\<lambda>st. lr_addr (cpu st) = read_ptr st src1 \<and> lr_valid (cpu st) \<noteq> 0)) (\<lambda>success.
       if success then seqs [
         rtl_sm src2 src1 0 (amo_width s) MMU_DYNAMIC,
         modify (\<lambda>st. st\<lparr>cpu := (cpu st)\<lparr>lr_valid := 0\<rparr>\<rparr>),
         rtl_li dest 0,
         set_amo_m False]
       else seqs [
         with_dsrc1 s (\<lambda>p. bnd (gets (\<lambda>st. read_ptr st p)) (\<lambda>a.
           bnd (isa_mmu_check a (amo_width s) MEM_TYPE_WRITE) (\<lambda>m.
             if m = MMU_TRANSLATE
             then bnd (isa_mmu_translate a (amo_width s) MEM_TYPE_WRITE) (\<lambda>_. skip) else skip))),
         bnd (gets (\<lambda>st. mem_exception (cpu st))) (\<lambda>e.
           if e \<noteq> 0 then skip else thn (rtl_li dest 1) (set_amo_m False))]))"

definition amo_rmw :: "decode \<Rightarrow> ptr \<Rightarrow> ptr \<Rightarrow> ptr \<Rightarrow> unit nemu" where
  "amo_rmw s dest src1 src2 = seqs [
     set_amo_m True,
     rtl_lms (PTmp S0) src1 0 (amo_width s) MMU_DYNAMIC,
     bnd (gets (\<lambda>st. amo_op (amo_funct5 s) (tmp_reg st S0) (read_ptr st src2))) (\<lambda>r.
       case r of None \<Rightarrow> die Assert_fail | Some v \<Rightarrow> write_ptr (PTmp S1) v),
     rtl_sm (PTmp S1) src1 0 (amo_width s) MMU_DYNAMIC,
     rtl_mv dest (PTmp S0),
     set_amo_m False]"

definition rtl_amo_slow_path :: "decode \<Rightarrow> ptr \<Rightarrow> ptr \<Rightarrow> ptr \<Rightarrow> unit nemu" where
  "rtl_amo_slow_path s dest src1 src2 =
     (if amo_funct5 s = 0b00010 then amo_lr s dest src1
      else if amo_funct5 s = 0b00011 then amo_sc s dest src1 src2
      else amo_rmw s dest src1 src2)"

definition exec_atomic :: "decode \<Rightarrow> unit nemu" where [exec_defs]:
  "exec_atomic s = rrr (rtl_amo_slow_path s) s"

section \<open>System instructions\<close>

text \<open>The result says whether the instruction jumps. Environment calls and returns jump; any other
  privileged encoding than \<open>sfence.vma\<close> and \<open>wfi\<close> counts as a jump too.\<close>

definition sys_priv :: "fp_lib \<Rightarrow> decode \<Rightarrow> ptr \<Rightarrow> uint32 \<Rightarrow> ptr \<Rightarrow> bool nemu" where
  "sys_priv fl s src1 hid jpc =
     thn (if hid = 0
          then bnd (gets (\<lambda>st. mode (cpu st))) (\<lambda>m.
                 thn (rtl_trap fl s (d_pc s) (8 + m)) (rtl_mv jpc (PTmp T0)))
          else rtl_hostcall fl s HOSTCALL_PRIV (Some jpc) (Some src1) None (ucast hid))
       (ret (hid \<noteq> 0x120 \<and> hid \<noteq> 0x105))"

definition sys_csr :: "fp_lib \<Rightarrow> decode \<Rightarrow> ptr \<Rightarrow> ptr \<Rightarrow> uint32 \<Rightarrow> bool nemu" where
  "sys_csr fl s dest src1 hid =
     (let funct3 = f_funct3 (d_instr s); use_imm = (funct3 AND 0x4 \<noteq> 0); op = funct3 AND 0x3 in
      thn (seqs [
        rtl_hostcall fl s HOSTCALL_CSR (Some (PTmp S0)) None None (ucast hid),
        (if use_imm then rtl_li (PTmp S1) (ucast (f_rs1 (d_instr s))) else rtl_mv (PTmp S1) src1),
        (if op = 2 then rtl_or (PTmp S1) (PTmp S0) (PTmp S1)
         else if op = 3 then thn (rtl_not (PTmp S1) (PTmp S1)) (rtl_and (PTmp S1) (PTmp S0) (PTmp S1))
         else skip),
        rtl_hostcall fl s HOSTCALL_CSR None (Some (PTmp S1)) None (ucast hid),
        rtl_mv dest (PTmp S0)])
      (ret False))"

definition rtl_sys_slow_path :: "fp_lib \<Rightarrow> decode \<Rightarrow> ptr \<Rightarrow> ptr \<Rightarrow> uint32 \<Rightarrow> ptr \<Rightarrow> bool nemu" where
  "rtl_sys_slow_path fl s dest src1 hid jpc =
     (if f_funct3 (d_instr s) = 0 then sys_priv fl s src1 hid jpc else sys_csr fl s dest src1 hid)"

text \<open>In this build \<open>rtl_priv_jr\<close> is \<open>rtl_jr\<close> and \<open>rtl_priv_next\<close> does nothing.\<close>

definition exec_system :: "fp_lib \<Rightarrow> decode \<Rightarrow> unit nemu" where [exec_defs]:
  "exec_system fl s = with_ddest s (\<lambda>d. with_dsrc1 s (\<lambda>a. bnd (imm (d_src2 s)) (\<lambda>i.
     bnd (rtl_sys_slow_path fl s d a (ucast i) (PTmp S0)) (\<lambda>jmp.
       if jmp then rtl_jr (PTmp S0) else skip))))"

section \<open>Dispatch of the special helpers\<close>

primrec exec_special :: "fp_lib \<Rightarrow> id_special \<Rightarrow> decode \<Rightarrow> unit nemu" where
  "exec_special fl ID_inv = exec_inv fl"
| "exec_special fl ID_rt_inv = exec_rt_inv fl"
| "exec_special fl ID_nemu_trap = exec_nemu_trap fl"

end
