(* ===== verification/ExecFp.thy ===== *)
theory ExecFp
  imports ExecInt
begin

text \<open>
  Execution helpers of the F and D extensions (\<open>instr/rvf/exec.h\<close>, \<open>instr/rvd/exec.h\<close>). Arithmetic goes
  through the host call \<open>HOSTCALL_FP\<close>; single-precision results are NaN-boxed by \<open>rtl_fsr\<close>.
\<close>

definition F32_SIGN :: uint64 where "F32_SIGN = push_bit 31 1"
definition F64_SIGN :: uint64 where "F64_SIGN = push_bit 63 1"

section \<open>Shapes\<close>

definition fcall :: "fp_lib \<Rightarrow> decode \<Rightarrow> uint32 \<Rightarrow> uint32 \<Rightarrow> ptr \<Rightarrow> ptr \<Rightarrow> ptr \<Rightarrow> unit nemu" where
  "fcall fl s op w d a b =
     rtl_hostcall fl s HOSTCALL_FP (Some d) (Some a) (Some b) (ucast (FPCALL_CMD op w))"

text \<open>\<open>def_fop_template\<close>.\<close>

definition fop :: "uint32 \<Rightarrow> uint32 \<Rightarrow> fp_lib \<Rightarrow> decode \<Rightarrow> unit nemu" where
  "fop op w fl s = rrr (\<lambda>d a b. thn (fcall fl s op w d a b) (rtl_fsr d d w)) s"

text \<open>One source; the second operand is \<open>rz\<close> and the result register is written with width \<open>w'\<close>.\<close>

definition fop1 :: "uint32 \<Rightarrow> uint32 \<Rightarrow> uint32 \<Rightarrow> fp_lib \<Rightarrow> decode \<Rightarrow> unit nemu" where
  "fop1 op w w' fl s = rr (\<lambda>d a. thn (fcall fl s op w d a PRz) (rtl_fsr d d w')) s"

text \<open>Comparison and conversion to an integer register, the latter with a sign extension of \<open>n\<close> bytes.\<close>

definition fcmp :: "uint32 \<Rightarrow> uint32 \<Rightarrow> fp_lib \<Rightarrow> decode \<Rightarrow> unit nemu" where
  "fcmp op w fl s = rrr (fcall fl s op w) s"

definition fcmp_mv :: "uint32 \<Rightarrow> uint32 \<Rightarrow> fp_lib \<Rightarrow> decode \<Rightarrow> unit nemu" where
  "fcmp_mv op w fl s = rrr (\<lambda>d a b. thn (rtl_mv d a) (fcall fl s op w d a b)) s"

definition fcvt_i :: "uint32 \<Rightarrow> uint32 \<Rightarrow> bool \<Rightarrow> fp_lib \<Rightarrow> decode \<Rightarrow> unit nemu" where
  "fcvt_i op w ext fl s = rr (\<lambda>d a. thn (fcall fl s op w d a PRz) (if ext then rtl_sext d d 4 else skip)) s"

text \<open>Fused multiply-add: the third source is a register index of the instruction word. The two flags
  say which of the addend and the first factor change sign.\<close>

definition rs3 :: "decode \<Rightarrow> ptr" where "rs3 s = PFpr (ucast (f_funct5 (d_instr s)))"

definition fmadd_body :: "bool \<Rightarrow> bool \<Rightarrow> uint64 \<Rightarrow> uint32 \<Rightarrow> fp_lib \<Rightarrow> decode \<Rightarrow> unit nemu" where
  "fmadd_body neg_prod neg_add sign_bit w fl s = rrr (\<lambda>d a b. seqs [
     rtl_mv (PTmp S0) (rs3 s),
     (if neg_prod then rtl_xori (PTmp S1) a sign_bit else skip),
     (if neg_add then rtl_xori (PTmp S0) (PTmp S0) sign_bit else skip),
     fcall fl s FPCALL_MADD w (PTmp S0) (if neg_prod then PTmp S1 else a) b,
     rtl_fsr d (PTmp S0) w]) s"

lemmas fshape_defs [exec_defs] = fop_def fop1_def fcmp_def fcmp_mv_def fcvt_i_def fmadd_body_def

section \<open>Loads and stores\<close>

text \<open>\<open>fsw\<close> stores the low word of the register, while \<open>fsw_mmu\<close> unboxes it first.\<close>

definition exec_flw :: "mmu_mode \<Rightarrow> decode \<Rightarrow> unit nemu" where [exec_defs]:
  "exec_flw m s = with_ddest s (\<lambda>d. with_dsrc1 s (\<lambda>a. bnd (imm (d_src2 s)) (\<lambda>i.
     thn (rtl_lm d a i 4 m) (rtl_fsr d d FPCALL_W32))))"

definition exec_fsw :: "decode \<Rightarrow> unit nemu" where [exec_defs]:
  "exec_fsw s = with_ddest s (\<lambda>d. with_dsrc1 s (\<lambda>a. bnd (imm (d_src2 s)) (\<lambda>i. rtl_sm d a i 4 MMU_DIRECT)))"

definition exec_fsw_mmu :: "decode \<Rightarrow> unit nemu" where [exec_defs]:
  "exec_fsw_mmu s = with_ddest s (\<lambda>d. with_dsrc1 s (\<lambda>a. bnd (imm (d_src2 s)) (\<lambda>i.
     thn (rtl_funbox (PTmp S0) d) (rtl_sm (PTmp S0) a i 4 MMU_TRANSLATE))))"

definition exec_fld :: "mmu_mode \<Rightarrow> decode \<Rightarrow> unit nemu" where [exec_defs]:
  "exec_fld m s = with_ddest s (\<lambda>d. with_dsrc1 s (\<lambda>a. bnd (imm (d_src2 s)) (\<lambda>i.
     thn (rtl_lm d a i 8 m) (rtl_fsr d d FPCALL_W64))))"

definition exec_fsd :: "mmu_mode \<Rightarrow> decode \<Rightarrow> unit nemu" where [exec_defs]:
  "exec_fsd m s = with_ddest s (\<lambda>d. with_dsrc1 s (\<lambda>a. bnd (imm (d_src2 s)) (\<lambda>i. rtl_sm d a i 8 m)))"

definition exec_fldst :: "id_fldst \<Rightarrow> mmu_mode \<Rightarrow> decode \<Rightarrow> unit nemu" where [exec_defs]:
  "exec_fldst i m = (case i of
     ID_flw \<Rightarrow> exec_flw m
   | ID_fsw \<Rightarrow> (if m = MMU_TRANSLATE then exec_fsw_mmu else exec_fsw)
   | ID_fld \<Rightarrow> exec_fld m
   | ID_fsd \<Rightarrow> exec_fsd m)"

section \<open>Single precision\<close>

definition exec_fadds :: "fp_lib \<Rightarrow> decode \<Rightarrow> unit nemu" where [exec_defs]: "exec_fadds fl = fop FPCALL_ADD FPCALL_W32 fl"
definition exec_fsubs :: "fp_lib \<Rightarrow> decode \<Rightarrow> unit nemu" where [exec_defs]: "exec_fsubs fl = fop FPCALL_SUB FPCALL_W32 fl"
definition exec_fmuls :: "fp_lib \<Rightarrow> decode \<Rightarrow> unit nemu" where [exec_defs]: "exec_fmuls fl = fop FPCALL_MUL FPCALL_W32 fl"
definition exec_fdivs :: "fp_lib \<Rightarrow> decode \<Rightarrow> unit nemu" where [exec_defs]: "exec_fdivs fl = fop FPCALL_DIV FPCALL_W32 fl"
definition exec_fmins :: "fp_lib \<Rightarrow> decode \<Rightarrow> unit nemu" where [exec_defs]: "exec_fmins fl = fop FPCALL_MIN FPCALL_W32 fl"
definition exec_fmaxs :: "fp_lib \<Rightarrow> decode \<Rightarrow> unit nemu" where [exec_defs]: "exec_fmaxs fl = fop FPCALL_MAX FPCALL_W32 fl"
definition exec_fsqrts :: "fp_lib \<Rightarrow> decode \<Rightarrow> unit nemu" where [exec_defs]: "exec_fsqrts fl = fop1 FPCALL_SQRT FPCALL_W32 FPCALL_W32 fl"
definition exec_fmadds :: "fp_lib \<Rightarrow> decode \<Rightarrow> unit nemu" where [exec_defs]: "exec_fmadds fl = fmadd_body False False F32_SIGN FPCALL_W32 fl"
definition exec_fmsubs :: "fp_lib \<Rightarrow> decode \<Rightarrow> unit nemu" where [exec_defs]: "exec_fmsubs fl = fmadd_body False True F32_SIGN FPCALL_W32 fl"
definition exec_fnmsubs :: "fp_lib \<Rightarrow> decode \<Rightarrow> unit nemu" where [exec_defs]: "exec_fnmsubs fl = fmadd_body True False F32_SIGN FPCALL_W32 fl"
definition exec_fnmadds :: "fp_lib \<Rightarrow> decode \<Rightarrow> unit nemu" where [exec_defs]: "exec_fnmadds fl = fmadd_body True True F32_SIGN FPCALL_W32 fl"
definition exec_fles :: "fp_lib \<Rightarrow> decode \<Rightarrow> unit nemu" where [exec_defs]: "exec_fles fl = fcmp FPCALL_LE FPCALL_W32 fl"
definition exec_flts :: "fp_lib \<Rightarrow> decode \<Rightarrow> unit nemu" where [exec_defs]: "exec_flts fl = fcmp_mv FPCALL_LT FPCALL_W32 fl"
definition exec_feqs :: "fp_lib \<Rightarrow> decode \<Rightarrow> unit nemu" where [exec_defs]: "exec_feqs fl = fcmp_mv FPCALL_EQ FPCALL_W32 fl"
definition exec_fcvt_s_w :: "fp_lib \<Rightarrow> decode \<Rightarrow> unit nemu" where [exec_defs]: "exec_fcvt_s_w fl = fop1 FPCALL_I32ToF FPCALL_W32 FPCALL_W32 fl"
definition exec_fcvt_s_wu :: "fp_lib \<Rightarrow> decode \<Rightarrow> unit nemu" where [exec_defs]: "exec_fcvt_s_wu fl = fop1 FPCALL_U32ToF FPCALL_W32 FPCALL_W32 fl"
definition exec_fcvt_s_l :: "fp_lib \<Rightarrow> decode \<Rightarrow> unit nemu" where [exec_defs]: "exec_fcvt_s_l fl = fop1 FPCALL_I64ToF FPCALL_W32 FPCALL_W32 fl"
definition exec_fcvt_s_lu :: "fp_lib \<Rightarrow> decode \<Rightarrow> unit nemu" where [exec_defs]: "exec_fcvt_s_lu fl = fop1 FPCALL_U64ToF FPCALL_W32 FPCALL_W32 fl"
definition exec_fcvt_w_s :: "fp_lib \<Rightarrow> decode \<Rightarrow> unit nemu" where [exec_defs]: "exec_fcvt_w_s fl = fcvt_i FPCALL_FToI32 FPCALL_W32 True fl"
definition exec_fcvt_wu_s :: "fp_lib \<Rightarrow> decode \<Rightarrow> unit nemu" where [exec_defs]: "exec_fcvt_wu_s fl = fcvt_i FPCALL_FToU32 FPCALL_W32 True fl"
definition exec_fcvt_l_s :: "fp_lib \<Rightarrow> decode \<Rightarrow> unit nemu" where [exec_defs]: "exec_fcvt_l_s fl = fcvt_i FPCALL_FToI64 FPCALL_W32 False fl"
definition exec_fcvt_lu_s :: "fp_lib \<Rightarrow> decode \<Rightarrow> unit nemu" where [exec_defs]: "exec_fcvt_lu_s fl = fcvt_i FPCALL_FToU64 FPCALL_W32 False fl"

definition exec_fsgnjs :: "fp_lib \<Rightarrow> decode \<Rightarrow> unit nemu" where [exec_defs]:
  "exec_fsgnjs fl s = rrr (\<lambda>d a b. seqs [
     rtl_funbox (PTmp S0) a,
     rtl_funbox d b,
     rtl_andi (PTmp S0) (PTmp S0) (NOT F32_SIGN),
     rtl_andi d d F32_SIGN,
     rtl_or d (PTmp S0) d,
     rtl_fsr d d FPCALL_W32]) s"

definition exec_fsgnjns :: "fp_lib \<Rightarrow> decode \<Rightarrow> unit nemu" where [exec_defs]:
  "exec_fsgnjns fl s = rrr (\<lambda>d a b. seqs [
     rtl_funbox (PTmp S0) a,
     rtl_funbox d b,
     rtl_andi (PTmp S0) (PTmp S0) (NOT F32_SIGN),
     rtl_xori d d F32_SIGN,
     rtl_andi d d F32_SIGN,
     rtl_or d (PTmp S0) d,
     rtl_fsr d d FPCALL_W32]) s"

definition exec_fsgnjxs :: "fp_lib \<Rightarrow> decode \<Rightarrow> unit nemu" where [exec_defs]:
  "exec_fsgnjxs fl s = rrr (\<lambda>d a b. seqs [
     rtl_funbox (PTmp S0) a,
     rtl_funbox d b,
     rtl_xor d (PTmp S0) d,
     rtl_andi (PTmp S0) (PTmp S0) (NOT F32_SIGN),
     rtl_andi d d F32_SIGN,
     rtl_or d (PTmp S0) d,
     rtl_fsr d d FPCALL_W32]) s"

definition exec_fmv_x_w :: "fp_lib \<Rightarrow> decode \<Rightarrow> unit nemu" where [exec_defs]:
  "exec_fmv_x_w fl s = rr (\<lambda>d a. rtl_sext d a 4) s"
definition exec_fmv_w_x :: "fp_lib \<Rightarrow> decode \<Rightarrow> unit nemu" where [exec_defs]:
  "exec_fmv_w_x fl s = rr (\<lambda>d a. rtl_fsr d a FPCALL_W32) s"
definition exec_fclasss :: "fp_lib \<Rightarrow> decode \<Rightarrow> unit nemu" where [exec_defs]:
  "exec_fclasss fl s = rr (\<lambda>d a. rtl_fclass d a FPCALL_W32) s"

section \<open>Double precision\<close>

definition exec_faddd :: "fp_lib \<Rightarrow> decode \<Rightarrow> unit nemu" where [exec_defs]: "exec_faddd fl = fop FPCALL_ADD FPCALL_W64 fl"
definition exec_fsubd :: "fp_lib \<Rightarrow> decode \<Rightarrow> unit nemu" where [exec_defs]: "exec_fsubd fl = fop FPCALL_SUB FPCALL_W64 fl"
definition exec_fmuld :: "fp_lib \<Rightarrow> decode \<Rightarrow> unit nemu" where [exec_defs]: "exec_fmuld fl = fop FPCALL_MUL FPCALL_W64 fl"
definition exec_fdivd :: "fp_lib \<Rightarrow> decode \<Rightarrow> unit nemu" where [exec_defs]: "exec_fdivd fl = fop FPCALL_DIV FPCALL_W64 fl"
definition exec_fmaxd :: "fp_lib \<Rightarrow> decode \<Rightarrow> unit nemu" where [exec_defs]: "exec_fmaxd fl = fop FPCALL_MAX FPCALL_W64 fl"
definition exec_fmind :: "fp_lib \<Rightarrow> decode \<Rightarrow> unit nemu" where [exec_defs]: "exec_fmind fl = fop FPCALL_MIN FPCALL_W64 fl"
definition exec_fsqrtd :: "fp_lib \<Rightarrow> decode \<Rightarrow> unit nemu" where [exec_defs]: "exec_fsqrtd fl = fop1 FPCALL_SQRT FPCALL_W64 FPCALL_W64 fl"
definition exec_fmaddd :: "fp_lib \<Rightarrow> decode \<Rightarrow> unit nemu" where [exec_defs]: "exec_fmaddd fl = fmadd_body False False F64_SIGN FPCALL_W64 fl"
definition exec_fmsubd :: "fp_lib \<Rightarrow> decode \<Rightarrow> unit nemu" where [exec_defs]: "exec_fmsubd fl = fmadd_body False True F64_SIGN FPCALL_W64 fl"
definition exec_fnmsubd :: "fp_lib \<Rightarrow> decode \<Rightarrow> unit nemu" where [exec_defs]: "exec_fnmsubd fl = fmadd_body True False F64_SIGN FPCALL_W64 fl"
definition exec_fnmaddd :: "fp_lib \<Rightarrow> decode \<Rightarrow> unit nemu" where [exec_defs]: "exec_fnmaddd fl = fmadd_body True True F64_SIGN FPCALL_W64 fl"
definition exec_fled :: "fp_lib \<Rightarrow> decode \<Rightarrow> unit nemu" where [exec_defs]: "exec_fled fl = fcmp FPCALL_LE FPCALL_W64 fl"
definition exec_fltd :: "fp_lib \<Rightarrow> decode \<Rightarrow> unit nemu" where [exec_defs]: "exec_fltd fl = fcmp FPCALL_LT FPCALL_W64 fl"
definition exec_feqd :: "fp_lib \<Rightarrow> decode \<Rightarrow> unit nemu" where [exec_defs]: "exec_feqd fl = fcmp FPCALL_EQ FPCALL_W64 fl"
definition exec_fcvt_d_w :: "fp_lib \<Rightarrow> decode \<Rightarrow> unit nemu" where [exec_defs]: "exec_fcvt_d_w fl = fop1 FPCALL_I32ToF FPCALL_W64 FPCALL_W64 fl"
definition exec_fcvt_d_wu :: "fp_lib \<Rightarrow> decode \<Rightarrow> unit nemu" where [exec_defs]: "exec_fcvt_d_wu fl = fop1 FPCALL_U32ToF FPCALL_W64 FPCALL_W64 fl"
definition exec_fcvt_d_l :: "fp_lib \<Rightarrow> decode \<Rightarrow> unit nemu" where [exec_defs]: "exec_fcvt_d_l fl = fop1 FPCALL_I64ToF FPCALL_W64 FPCALL_W64 fl"
definition exec_fcvt_d_lu :: "fp_lib \<Rightarrow> decode \<Rightarrow> unit nemu" where [exec_defs]: "exec_fcvt_d_lu fl = fop1 FPCALL_U64ToF FPCALL_W64 FPCALL_W64 fl"
definition exec_fcvt_w_d :: "fp_lib \<Rightarrow> decode \<Rightarrow> unit nemu" where [exec_defs]: "exec_fcvt_w_d fl = fcvt_i FPCALL_FToI32 FPCALL_W64 True fl"
definition exec_fcvt_wu_d :: "fp_lib \<Rightarrow> decode \<Rightarrow> unit nemu" where [exec_defs]: "exec_fcvt_wu_d fl = fcvt_i FPCALL_FToU32 FPCALL_W64 True fl"
definition exec_fcvt_l_d :: "fp_lib \<Rightarrow> decode \<Rightarrow> unit nemu" where [exec_defs]: "exec_fcvt_l_d fl = fcvt_i FPCALL_FToI64 FPCALL_W64 False fl"
definition exec_fcvt_lu_d :: "fp_lib \<Rightarrow> decode \<Rightarrow> unit nemu" where [exec_defs]: "exec_fcvt_lu_d fl = fcvt_i FPCALL_FToU64 FPCALL_W64 False fl"
definition exec_fcvt_d_s :: "fp_lib \<Rightarrow> decode \<Rightarrow> unit nemu" where [exec_defs]: "exec_fcvt_d_s fl = fop1 FPCALL_F32ToF64 FPCALL_W64 FPCALL_W64 fl"
definition exec_fcvt_s_d :: "fp_lib \<Rightarrow> decode \<Rightarrow> unit nemu" where [exec_defs]: "exec_fcvt_s_d fl = fop1 FPCALL_F64ToF32 FPCALL_W64 FPCALL_W32 fl"

definition exec_fsgnjd :: "fp_lib \<Rightarrow> decode \<Rightarrow> unit nemu" where [exec_defs]:
  "exec_fsgnjd fl s = rrr (\<lambda>d a b. seqs [
     rtl_andi (PTmp S0) a (NOT F64_SIGN),
     rtl_andi d b F64_SIGN,
     rtl_or d (PTmp S0) d,
     rtl_fsr d d FPCALL_W64]) s"

definition exec_fsgnjnd :: "fp_lib \<Rightarrow> decode \<Rightarrow> unit nemu" where [exec_defs]:
  "exec_fsgnjnd fl s = rrr (\<lambda>d a b. seqs [
     rtl_andi (PTmp S0) a (NOT F64_SIGN),
     rtl_xori d b F64_SIGN,
     rtl_andi d d F64_SIGN,
     rtl_or d (PTmp S0) d,
     rtl_fsr d d FPCALL_W64]) s"

definition exec_fsgnjxd :: "fp_lib \<Rightarrow> decode \<Rightarrow> unit nemu" where [exec_defs]:
  "exec_fsgnjxd fl s = rrr (\<lambda>d a b. seqs [
     rtl_andi (PTmp S0) a (NOT F64_SIGN),
     rtl_xor d a b,
     rtl_andi d d F64_SIGN,
     rtl_or d (PTmp S0) d,
     rtl_fsr d d FPCALL_W64]) s"

definition exec_fmv_x_d :: "fp_lib \<Rightarrow> decode \<Rightarrow> unit nemu" where [exec_defs]:
  "exec_fmv_x_d fl s = rr (\<lambda>d a. rtl_sext d a 8) s"
definition exec_fmv_d_x :: "fp_lib \<Rightarrow> decode \<Rightarrow> unit nemu" where [exec_defs]:
  "exec_fmv_d_x fl s = rr (\<lambda>d a. rtl_fsr d a FPCALL_W64) s"
definition exec_fclassd :: "fp_lib \<Rightarrow> decode \<Rightarrow> unit nemu" where [exec_defs]:
  "exec_fclassd fl s = rr (\<lambda>d a. rtl_fclass d a FPCALL_W64) s"

section \<open>Dispatch\<close>

primrec exec_rvf :: "fp_lib \<Rightarrow> id_rvf \<Rightarrow> decode \<Rightarrow> unit nemu" where
  "exec_rvf fl ID_fadds = exec_fadds fl"
| "exec_rvf fl ID_fsubs = exec_fsubs fl"
| "exec_rvf fl ID_fmuls = exec_fmuls fl"
| "exec_rvf fl ID_fdivs = exec_fdivs fl"
| "exec_rvf fl ID_fmins = exec_fmins fl"
| "exec_rvf fl ID_fmaxs = exec_fmaxs fl"
| "exec_rvf fl ID_fsqrts = exec_fsqrts fl"
| "exec_rvf fl ID_fmadds = exec_fmadds fl"
| "exec_rvf fl ID_fmsubs = exec_fmsubs fl"
| "exec_rvf fl ID_fnmsubs = exec_fnmsubs fl"
| "exec_rvf fl ID_fnmadds = exec_fnmadds fl"
| "exec_rvf fl ID_fles = exec_fles fl"
| "exec_rvf fl ID_flts = exec_flts fl"
| "exec_rvf fl ID_feqs = exec_feqs fl"
| "exec_rvf fl ID_fcvt_s_w = exec_fcvt_s_w fl"
| "exec_rvf fl ID_fcvt_s_wu = exec_fcvt_s_wu fl"
| "exec_rvf fl ID_fcvt_s_l = exec_fcvt_s_l fl"
| "exec_rvf fl ID_fcvt_s_lu = exec_fcvt_s_lu fl"
| "exec_rvf fl ID_fcvt_w_s = exec_fcvt_w_s fl"
| "exec_rvf fl ID_fcvt_wu_s = exec_fcvt_wu_s fl"
| "exec_rvf fl ID_fcvt_l_s = exec_fcvt_l_s fl"
| "exec_rvf fl ID_fcvt_lu_s = exec_fcvt_lu_s fl"
| "exec_rvf fl ID_fsgnjs = exec_fsgnjs fl"
| "exec_rvf fl ID_fsgnjns = exec_fsgnjns fl"
| "exec_rvf fl ID_fsgnjxs = exec_fsgnjxs fl"
| "exec_rvf fl ID_fmv_x_w = exec_fmv_x_w fl"
| "exec_rvf fl ID_fmv_w_x = exec_fmv_w_x fl"
| "exec_rvf fl ID_fclasss = exec_fclasss fl"

primrec exec_rvd :: "fp_lib \<Rightarrow> id_rvd \<Rightarrow> decode \<Rightarrow> unit nemu" where
  "exec_rvd fl ID_faddd = exec_faddd fl"
| "exec_rvd fl ID_fsubd = exec_fsubd fl"
| "exec_rvd fl ID_fmuld = exec_fmuld fl"
| "exec_rvd fl ID_fdivd = exec_fdivd fl"
| "exec_rvd fl ID_fmaxd = exec_fmaxd fl"
| "exec_rvd fl ID_fmind = exec_fmind fl"
| "exec_rvd fl ID_fsqrtd = exec_fsqrtd fl"
| "exec_rvd fl ID_fmaddd = exec_fmaddd fl"
| "exec_rvd fl ID_fmsubd = exec_fmsubd fl"
| "exec_rvd fl ID_fnmsubd = exec_fnmsubd fl"
| "exec_rvd fl ID_fnmaddd = exec_fnmaddd fl"
| "exec_rvd fl ID_fled = exec_fled fl"
| "exec_rvd fl ID_fltd = exec_fltd fl"
| "exec_rvd fl ID_feqd = exec_feqd fl"
| "exec_rvd fl ID_fcvt_d_w = exec_fcvt_d_w fl"
| "exec_rvd fl ID_fcvt_d_wu = exec_fcvt_d_wu fl"
| "exec_rvd fl ID_fcvt_d_l = exec_fcvt_d_l fl"
| "exec_rvd fl ID_fcvt_d_lu = exec_fcvt_d_lu fl"
| "exec_rvd fl ID_fcvt_w_d = exec_fcvt_w_d fl"
| "exec_rvd fl ID_fcvt_wu_d = exec_fcvt_wu_d fl"
| "exec_rvd fl ID_fcvt_l_d = exec_fcvt_l_d fl"
| "exec_rvd fl ID_fcvt_lu_d = exec_fcvt_lu_d fl"
| "exec_rvd fl ID_fcvt_d_s = exec_fcvt_d_s fl"
| "exec_rvd fl ID_fcvt_s_d = exec_fcvt_s_d fl"
| "exec_rvd fl ID_fsgnjd = exec_fsgnjd fl"
| "exec_rvd fl ID_fsgnjnd = exec_fsgnjnd fl"
| "exec_rvd fl ID_fsgnjxd = exec_fsgnjxd fl"
| "exec_rvd fl ID_fmv_x_d = exec_fmv_x_d fl"
| "exec_rvd fl ID_fmv_d_x = exec_fmv_d_x fl"
| "exec_rvd fl ID_fclassd = exec_fclassd fl"

end
