(* ===== verification/Difftest.thy ===== *)
theory Difftest
  imports CpuExec
begin

text \<open>
  The interface through which a difftest partner drives the interpreter as its reference
  (\<open>src/cpu/difftest/ref.c\<close>, \<open>src/isa/riscv64/difftest/ref.c\<close>) and the reset it starts with
  (\<open>src/isa/riscv64/init.c\<close>): register, CSR and memory copies in both directions, single steps, guided
  steps and injected interrupts. The register block of the partner is the prefix of
  \<open>riscv64_CPU_state\<close> up to the privilege mode; its memory is a byte map.
\<close>

section \<open>Reset\<close>

definition img :: "uint32 list" where
  "img = [0x800002b7, 0x0002a023, 0x0002a503, 0x0000006b]"

definition misa_ext :: "nat \<Rightarrow> uint64" where
  "misa_ext k = push_bit k 1"

text \<open>The letters of the base and the extensions are counted from \<open>'a'\<close>.\<close>

definition misa_reset :: "uint64 \<Rightarrow> uint64" where
  "misa_reset w0 =
     (let w1 = set_fld (misa_f Misa_extensions)
                 (misa_ext 8 OR misa_ext 12 OR misa_ext 0 OR misa_ext 2 OR misa_ext 18 OR misa_ext 20) w0;
          w2 = set_fld (misa_f Misa_extensions)
                 (fld (misa_f Misa_extensions) w1 OR (misa_ext 3 OR misa_ext 5)) w1
      in set_fld (misa_f Misa_mxl) 2 w2)"

text \<open>The built-in image is copied to the reset vector, word after word.\<close>

primrec copy_words :: "uint64 \<Rightarrow> uint32 list \<Rightarrow> (uint64 \<Rightarrow> uint8) \<Rightarrow> (uint64 \<Rightarrow> uint8)" where
  "copy_words a [] h = h"
| "copy_words a (w # ws) h = copy_words (a + 4) ws (store_le h a 4 (ucast w))"

definition init_isa :: "machine \<Rightarrow> machine" where
  "init_isa st0 =
     (let st1 = st0\<lparr>cpu := (cpu st0)\<lparr>gpr := (gpr (cpu st0))(0 := 0), cpu_pc := RESET_VECTOR, mode := MODE_M\<rparr>\<rparr>;
          st2 = set_csr CSR_mstatus 0 st1;
          st3 = set_csr CSR_misa (misa_reset (csr st2 CSR_misa)) st2
      in st3\<lparr>pmem := copy_words (guest_to_host (ucast RESET_VECTOR)) img (pmem st3)\<rparr>)"

definition difftest_init :: "machine \<Rightarrow> machine" where
  "difftest_init st = init_isa (init_mem st)"

section \<open>Register copies\<close>

record dut_regs =
  dr_gpr :: "5 word \<Rightarrow> uint64"
  dr_fpr :: "5 word \<Rightarrow> uint64"
  dr_pc :: uint64
  dr_shadow :: shadow_csrs
  dr_mode :: uint64

definition set_shadow :: "(shadow_csrs \<Rightarrow> shadow_csrs) \<Rightarrow> unit nemu" where
  "set_shadow f = modify (\<lambda>st. st\<lparr>cpu := (cpu st)\<lparr>shadow := f (shadow (cpu st))\<rparr>\<rparr>)"

text \<open>Reading \<open>sstatus\<close> brings the summary bit of \<open>mstatus\<close> up to date, after \<open>mstatus\<close> has been copied.\<close>

definition csr_prepare :: "unit nemu" where
  "csr_prepare = seqs [
     bnd (gets csr) (\<lambda>c. set_shadow (\<lambda>s. s\<lparr>sh_mstatus := c CSR_mstatus, sh_mcause := c CSR_mcause, sh_mepc := c CSR_mepc\<rparr>)),
     bnd (csrid_read 0x100) (\<lambda>v. set_shadow (\<lambda>s. s\<lparr>sh_sstatus := v\<rparr>)),
     bnd (gets csr) (\<lambda>c. set_shadow (\<lambda>s. s\<lparr>sh_scause := c CSR_scause, sh_sepc := c CSR_sepc,
       sh_satp := c CSR_satp, sh_mip := c CSR_mip, sh_mie := c CSR_mie, sh_mscratch := c CSR_mscratch,
       sh_sscratch := c CSR_sscratch, sh_mideleg := c CSR_mideleg, sh_medeleg := c CSR_medeleg,
       sh_mtval := c CSR_mtval, sh_stval := c CSR_stval, sh_mtvec := c CSR_mtvec, sh_stvec := c CSR_stvec\<rparr>))]"

definition csr_writeback :: "machine \<Rightarrow> machine" where
  "csr_writeback st = (let s = shadow (cpu st) in
     st\<lparr>csr := (csr st)(CSR_mstatus := sh_mstatus s, CSR_mcause := sh_mcause s, CSR_mepc := sh_mepc s,
       CSR_scause := sh_scause s, CSR_sepc := sh_sepc s, CSR_satp := sh_satp s, CSR_mip := sh_mip s,
       CSR_mie := sh_mie s, CSR_mscratch := sh_mscratch s, CSR_sscratch := sh_sscratch s,
       CSR_mideleg := sh_mideleg s, CSR_medeleg := sh_medeleg s, CSR_mtval := sh_mtval s,
       CSR_stval := sh_stval s, CSR_mtvec := sh_mtvec s, CSR_stvec := sh_stvec s)\<rparr>)"

text \<open>\<open>isa_difftest_regcpy\<close> in its two directions. The cached MMU state is not brought up to date.\<close>

definition regcpy_to_ref :: "dut_regs \<Rightarrow> unit nemu" where
  "regcpy_to_ref dut = seqs [
     modify (\<lambda>st. st\<lparr>cpu := (cpu st)\<lparr>gpr := dr_gpr dut, fpr := dr_fpr dut, cpu_pc := dr_pc dut,
       shadow := dr_shadow dut, mode := dr_mode dut\<rparr>\<rparr>),
     modify csr_writeback]"

definition regcpy_to_dut :: "dut_regs nemu" where
  "regcpy_to_dut = thn csr_prepare (gets (\<lambda>st.
     \<lparr>dr_gpr = gpr (cpu st), dr_fpr = fpr (cpu st), dr_pc = cpu_pc (cpu st), dr_shadow = shadow (cpu st),
      dr_mode = mode (cpu st)\<rparr>))"

definition csrcpy_to_ref :: "(12 word \<Rightarrow> uint64) \<Rightarrow> unit nemu" where
  "csrcpy_to_ref dut = modify (\<lambda>st. st\<lparr>csr := dut\<rparr>)"

definition csrcpy_to_dut :: "(12 word \<Rightarrow> uint64) nemu" where
  "csrcpy_to_dut = gets csr"

record SyncState =
  lrscValid :: uint64
  lrscAddr :: uint64

definition uarchstatus_to_ref :: "SyncState \<Rightarrow> unit nemu" where
  "uarchstatus_to_ref sync = modify (\<lambda>st. st\<lparr>cpu := (cpu st)\<lparr>lr_valid := lrscValid sync, lr_addr := lrscAddr sync\<rparr>\<rparr>)"

definition uarchstatus_to_dut :: "SyncState nemu" where
  "uarchstatus_to_dut = gets (\<lambda>st. \<lparr>lrscValid = lr_valid (cpu st), lrscAddr = lr_addr (cpu st)\<rparr>)"

section \<open>Memory copies\<close>

text \<open>\<open>nemu_large_memcpy\<close> over any memory: \<open>rd\<close> reads the source and \<open>wr\<close> writes the destination. A
  double-word of the source that is zero is not copied; the last bytes are copied one by one.\<close>

primrec copy_bytes :: "(uint64 \<Rightarrow> nat \<Rightarrow> ('s, uint64) m) \<Rightarrow> (uint64 \<Rightarrow> nat \<Rightarrow> uint64 \<Rightarrow> ('s, unit) m) \<Rightarrow>
    uint64 \<Rightarrow> uint64 \<Rightarrow> nat \<Rightarrow> ('s, unit) m" where
  "copy_bytes rd wr dest src 0 = skip"
| "copy_bytes rd wr dest src (Suc n) =
     thn (bnd (rd src 1) (wr dest 1)) (copy_bytes rd wr (dest + 1) (src + 1) n)"

function nemu_large_memcpy :: "(uint64 \<Rightarrow> nat \<Rightarrow> ('s, uint64) m) \<Rightarrow> (uint64 \<Rightarrow> nat \<Rightarrow> uint64 \<Rightarrow> ('s, unit) m) \<Rightarrow>
    uint64 \<Rightarrow> uint64 \<Rightarrow> nat \<Rightarrow> ('s, unit) m" where
  "nemu_large_memcpy rd wr dest src n =
     (if 8 \<le> n then
        thn (bnd (rd src 8) (\<lambda>w. if w \<noteq> 0 then wr dest 8 w else skip))
          (nemu_large_memcpy rd wr (dest + 8) (src + 8) (n - 8))
      else copy_bytes rd wr dest src n)"
  by pat_completeness auto
termination by (relation "measure (\<lambda>(rd, wr, dest, src, n). n)") auto

declare nemu_large_memcpy.simps [simp del]

text \<open>To the reference: the source is the partner's buffer, the destination guest memory.\<close>

definition memcpy_to_ref :: "uint32 \<Rightarrow> (uint64 \<Rightarrow> uint8) \<Rightarrow> uint64 \<Rightarrow> nat \<Rightarrow> unit nemu" where
  "memcpy_to_ref nemu_addr buf dut_buf n =
     nemu_large_memcpy (\<lambda>a k. ret (load_le buf a k)) host_write (guest_to_host nemu_addr) dut_buf n"

text \<open>To the partner: the state of the copy is the machine and the buffer.\<close>

definition on_fst :: "('s, 'a) m \<Rightarrow> ('s \<times> 't, 'a) m" where
  "on_fst f st = (case f (fst st) of Ret x s \<Rightarrow> Ret x (s, snd st) | LongJmp c s \<Rightarrow> LongJmp c (s, snd st) | Crash c \<Rightarrow> Crash c)"

definition memcpy_to_dut :: "uint32 \<Rightarrow> uint64 \<Rightarrow> nat \<Rightarrow> (machine \<times> (uint64 \<Rightarrow> uint8), unit) m" where
  "memcpy_to_dut nemu_addr dut_buf n =
     nemu_large_memcpy (\<lambda>a k. on_fst (host_read a k)) (\<lambda>a k v. modify (\<lambda>(st, buf). (st, store_le buf a k v)))
       dut_buf (guest_to_host nemu_addr) n"

section \<open>Steps\<close>

definition difftest_exec :: "fp_lib \<Rightarrow> uint64 \<Rightarrow> unit nemu" where
  "difftest_exec = cpu_exec"

definition difftest_raise_intr :: "uint64 \<Rightarrow> unit nemu" where
  "difftest_raise_intr NO = bnd (gets (\<lambda>st. cpu_pc (cpu st))) (\<lambda>pc. bnd (raise_intr NO pc) rtl_j)"

definition set_guided :: "bool \<Rightarrow> machine \<Rightarrow> machine" where
  "set_guided b st = st\<lparr>cpu := (cpu st)\<lparr>guided_exec := b\<rparr>\<rparr>"

definition difftest_guided_exec :: "fp_lib \<Rightarrow> execution_guide_t \<Rightarrow> unit nemu" where
  "difftest_guided_exec fl guide = seqs [
     modify (\<lambda>st. st\<lparr>cpu := (cpu st)\<lparr>execution_guide := guide\<rparr>\<rparr>),
     modify (set_guided True),
     cpu_exec fl 1,
     modify (set_guided False)]"

definition difftest_store_commit :: "uint64 \<Rightarrow> uint64 \<Rightarrow> uint8 \<Rightarrow> (nat \<times> uint64 \<times> uint64 \<times> uint8) nemu" where
  "difftest_store_commit = check_store_commit"

end
