(* ===== verification/DecodeShape.thy ===== *)
theory DecodeShape
  imports CpuExec
begin

text \<open>
  The destinations the decoder produces. A store and a few jumps do not write the register their
  destination operand names (a store reads it, a compressed jump leaves the operand of the previous
  instruction in place); every other decoded instruction has a destination that is not \<open>x0\<close>.
\<close>

definition dest_ok :: "decode \<Rightarrow> bool" where
  "dest_ok s \<longleftrightarrow> d_dest s \<noteq> Oreg (PGpr 0)"

text \<open>The helpers that write no destination operand.\<close>

definition no_dest :: "exec_id set" where
  "no_dest = range Special \<union> {Rvc ID_c_j, Rvc ID_c_jr, Pseudo ID_p_ret} \<union>
     {LdSt i m | i m. i \<in> {ID_sb, ID_sh, ID_sw, ID_sd}} \<union> {FLdSt i m | i m. i \<in> {ID_fsw, ID_fsd}}"

definition shape_ok :: "dres \<Rightarrow> bool" where
  "shape_ok r = (case r of None \<Rightarrow> True | Some (s, i) \<Rightarrow> dest_ok s \<or> i \<in> no_dest)"

named_theorems shape_rules \<open>decode tables yield well-shaped records\<close>

lemma first_match_all:
  "list_all (\<lambda>(b, r). b \<longrightarrow> P r) es \<Longrightarrow> P d \<Longrightarrow> P (first_match es d)"
  by (induction es d rule: first_match.induct) auto

lemmas shape_first_match = first_match_all [of shape_ok]

lemma entry_simps [simp]:
  "(case TAB s p t of (b, r) \<Rightarrow> b \<longrightarrow> P r) \<longleftrightarrow> (instr_match p (d_instr s) \<longrightarrow> P (t s))"
  "(case IDTAB s p dh t of (b, r) \<Rightarrow> b \<longrightarrow> P r) \<longleftrightarrow> (instr_match p (d_instr s) \<longrightarrow> P (t (dh s)))"
  "(case IDTABa s p dha t of (b, r) \<Rightarrow> b \<longrightarrow> P r) \<longleftrightarrow>
     (instr_match p (d_instr s) \<longrightarrow> P (case dha s of None \<Rightarrow> None | Some s' \<Rightarrow> t s'))"
  by (simp_all add: TAB_def IDTAB_def IDTABa_def get_instr_def)

lemma shape_tb [simp]: "shape_ok (tb i s) \<longleftrightarrow> dest_ok s \<or> i \<in> no_dest"
  by (simp add: shape_ok_def tb_def)

lemma shape_inv [simp]: "shape_ok (inv s)"
  by (simp add: inv_def no_dest_def)

lemma shape_None [simp]: "shape_ok None"
  by (simp add: shape_ok_def)

lemma shape_by_mmu: "shape_ok a \<Longrightarrow> shape_ok b \<Longrightarrow> shape_ok (by_mmu st a b)"
  by (simp add: by_mmu_def split: mmu_mode.split)

section \<open>Operand helpers\<close>

lemma dest_index: "unat val < 32 \<Longrightarrow> decode_op_r val False \<noteq> Oreg (PGpr 0)"
  by (auto simp: decode_op_r_def word_unat_eq_iff unsigned_ucast_eq take_bit_nat_eq_self)

lemma unat_take_bit_less: "unat (take_bit n (x :: uint32)) < 2 ^ n"
  by (simp only: unsigned_take_bit_eq take_bit_nat_less_exp)

lemma take_bit5_less: "unat (take_bit 5 (x :: uint32)) < 32"
  using unat_take_bit_less[of 5 x] by simp

lemma rd_field: "unat (f_rd w) < 32"
  by (simp add: f_rd_def take_bit5_less)

lemma BITS_field: "unat (BITS x 11 7) < 32" "unat (BITS x 9 7) < 8" "unat (BITS x 4 2) < 8"
proof -
  have "unat (BITS x hi lo) < 2 ^ (hi - lo + 1)" for hi lo
    unfolding BITS_def BITMASK_mask take_bit_eq_mask[symmetric] by (rule unat_take_bit_less)
  from this[of 11 7] this[of 9 7] this[of 4 2]
  show "unat (BITS x 11 7) < 32" "unat (BITS x 9 7) < 8" "unat (BITS x 4 2) < 8" by simp_all
qed

lemma creg_field: "unat x < 8 \<Longrightarrow> unat (creg2reg x) = unat x + 8"
  by (simp add: creg2reg_def unat_word_ariths)

lemma creg_index: "unat x < 8 \<Longrightarrow> decode_op_r (creg2reg x) b \<noteq> Oreg (PGpr 0)"
  by (auto simp: decode_op_r_def word_unat_eq_iff unsigned_ucast_eq take_bit_nat_eq_self creg_field)

lemma dest_fr [simp]: "decode_op_fr v b \<noteq> Oreg (PGpr 0)" "decode_op_i i \<noteq> Oreg (PGpr 0)"
  by (simp_all add: decode_op_fr_def decode_op_i_def)

lemma small_dest [simp]: "decode_op_r 2 False \<noteq> Oreg (PGpr 0)" "decode_op_r 1 False \<noteq> Oreg (PGpr 0)"
  by (simp_all add: dest_index)

text \<open>Every operand helper but the ones for integer stores and for jumps without a destination.\<close>

lemma helper_dest [simp]:
  "dest_ok (decode_I s)" "dest_ok (decode_R s)" "dest_ok (decode_U s)" "dest_ok (decode_auipc s)" "dest_ok (decode_J s)"
  "dest_ok (decode_B s)" "dest_ok (decode_csr s)" "dest_ok (decode_fr s)" "dest_ok (decode_R4 s)"
  "dest_ok (decode_fload s)" "dest_ok (decode_fstore s)" "dest_ok (decode_fr2r s)" "dest_ok (decode_r2fr s)"
  "dest_ok (decode_op_C_rd_rs1 b s)" "dest_ok (decode_op_rd_rs1_imm6 se sh r b s)"
  "dest_ok (decode_CI_simm s)" "dest_ok (decode_CI_simm_lui s)" "dest_ok (decode_CI_uimm s)" "dest_ok (decode_C_LI s)"
  "dest_ok (decode_C_LWSP s)" "dest_ok (decode_C_LDSP s)" "dest_ok (decode_C_FLDSP s)" "dest_ok (decode_C_FSDSP s)"
  "dest_ok (decode_C_LW s)" "dest_ok (decode_C_LD s)" "dest_ok (decode_C_FLD s)" "dest_ok (decode_C_SW s)"
  "dest_ok (decode_C_SD s)" "dest_ok (decode_C_FSD s)" "dest_ok (decode_CS s)" "dest_ok (decode_CB s)"
  "dest_ok (decode_CB_shift s)" "dest_ok (decode_CB_andi s)" "dest_ok (decode_C_MOV s)" "dest_ok (decode_C_ADD s)"
  "dest_ok (decode_C_JALR s)"
  by (simp_all add: dest_ok_def dest_index rd_field BITS_field creg_index Let_def
      decode_I_def decode_R_def decode_U_def decode_auipc_def decode_J_def decode_B_def decode_csr_def decode_fr_def
      decode_R4_def decode_fload_def decode_fstore_def decode_fr2r_def decode_r2fr_def decode_op_C_rd_rs1_def
      decode_op_rd_rs1_imm6_def decode_CI_simm_def decode_CI_simm_lui_def decode_CI_uimm_def decode_C_LI_def
      decode_C_LWSP_def decode_C_LDSP_def decode_C_FLDSP_def decode_C_FSDSP_def decode_C_LxSP_def decode_C_SxSP_def
      decode_C_LW_def decode_C_LD_def decode_C_FLD_def decode_C_SW_def decode_C_SD_def decode_C_FSD_def
      decode_C_ldst_common_def decode_CS_def decode_CB_def decode_CB_shift_def decode_CB_andi_def decode_C_MOV_def
      decode_C_ADD_def decode_C_rs1_rs2_rd_def decode_C_JALR_def)

lemma helper_dest_asserting [simp]:
  "shape_ok (case decode_C_ADDI16SP s of None \<Rightarrow> None | Some s' \<Rightarrow> tb i s')"
  "shape_ok (case decode_C_ADDI4SPN s of None \<Rightarrow> None | Some s' \<Rightarrow> tb i s')"
  by (simp_all add: decode_C_ADDI16SP_def decode_C_ADDI4SPN_def Let_def dest_ok_def creg_index BITS_field)

section \<open>Tables\<close>

lemma shape_tables [simp]:
  "dest_ok s \<Longrightarrow> shape_ok (table_load st s)"
  "shape_ok (table_store st s)"
  "dest_ok s \<Longrightarrow> shape_ok (table_addi_dispatch s)"
  "dest_ok s \<Longrightarrow> shape_ok (table_c_addi_dispatch s)"
  "dest_ok s \<Longrightarrow> shape_ok (table_c_addiw_dispatch s)"
  "dest_ok s \<Longrightarrow> shape_ok (table_branch s)"
  "dest_ok s \<Longrightarrow> shape_ok (table_jal_dispatch s)"
  "dest_ok s \<Longrightarrow> shape_ok (table_jalr_dispatch s)"
  "dest_ok s \<Longrightarrow> shape_ok (table_mem_fence s)"
  "dest_ok s \<Longrightarrow> shape_ok (table_rvm s)"
  "dest_ok s \<Longrightarrow> shape_ok (table_rvm32 s)"
  "dest_ok s \<Longrightarrow> shape_ok (table_fmadd_d_dispatch s)"
  "dest_ok s \<Longrightarrow> shape_ok (table_fload st s)"
  "shape_ok (table_fstore st s)"
  "shape_ok (table_op_fp_d s)"
  "dest_ok s \<Longrightarrow> shape_ok (table_c_fldst st s)"
  "dest_ok s \<Longrightarrow> shape_ok (table_c_li_dispatch s)"
  "shape_ok (table_rvc_Q1_lui_addi16sp s)"
  "dest_ok s \<Longrightarrow> shape_ok (table_rvc_Q1_compute_more64 s)"
  "dest_ok s \<Longrightarrow> shape_ok (table_rvc_Q1_compute_more32 s)"
  "shape_ok (table_rvc_Q2_jr_mov s)"
  "shape_ok (table_rvc_Q2_jalr_add s)"
  unfolding table_load_def table_store_def table_addi_dispatch_def table_c_addi_dispatch_def table_c_addiw_dispatch_def
    table_branch_def table_jal_dispatch_def table_jalr_dispatch_def table_mem_fence_def table_rvm_def table_rvm32_def
    table_fmadd_d_dispatch_def table_fload_def table_fstore_def table_op_fp_d_def table_c_fldst_def
    table_c_li_dispatch_def table_rvc_Q1_lui_addi16sp_def table_rvc_Q1_compute_more64_def
    table_rvc_Q1_compute_more32_def table_rvc_Q2_jr_mov_def table_rvc_Q2_jalr_add_def
  by (auto intro!: shape_by_mmu shape_first_match simp: no_dest_def split: operand.split)

lemma shape_op_tables [simp]:
  "dest_ok s \<Longrightarrow> shape_ok (table_op_imm s)"
  "dest_ok s \<Longrightarrow> shape_ok (table_op_imm32 s)"
  "dest_ok s \<Longrightarrow> shape_ok (table_op s)"
  "dest_ok s \<Longrightarrow> shape_ok (table_op32 s)"
  unfolding table_op_imm_def table_op_imm32_def table_op_def table_op32_def
  by (auto intro!: shape_first_match)

lemma shape_fp_tables [simp]:
  "shape_ok (table_op_fp st s)"
  "dest_ok s \<Longrightarrow> shape_ok (table_fmadd_dispatch st s)"
  unfolding table_op_fp_def table_fmadd_dispatch_def
  by (auto intro!: shape_first_match simp: no_dest_def)

text \<open>Loads and stores of the compressed set share a table; the function field keeps them apart.\<close>

lemma c_store_field:
  "instr_match ''110 ? ????? ????? ??'' w \<Longrightarrow> \<not> instr_match ''010 ??? ??? ?? ??? ??'' w"
  "instr_match ''110 ? ????? ????? ??'' w \<Longrightarrow> \<not> instr_match ''011 ??? ??? ?? ??? ??'' w"
  "instr_match ''111 ? ????? ????? ??'' w \<Longrightarrow> \<not> instr_match ''010 ??? ??? ?? ??? ??'' w"
  "instr_match ''111 ? ????? ????? ??'' w \<Longrightarrow> \<not> instr_match ''011 ??? ??? ?? ??? ??'' w"
proof -
  have p: "pattern_decode ''110 ? ????? ????? ??'' = Some (6, 7, 13)" "pattern_decode ''111 ? ????? ????? ??'' = Some (7, 7, 13)"
    "pattern_decode ''010 ??? ??? ?? ??? ??'' = Some (2, 7, 13)" "pattern_decode ''011 ??? ??? ?? ??? ??'' = Some (3, 7, 13)"
    by code_simp+
  show "instr_match ''110 ? ????? ????? ??'' w \<Longrightarrow> \<not> instr_match ''010 ??? ??? ?? ??? ??'' w"
    "instr_match ''110 ? ????? ????? ??'' w \<Longrightarrow> \<not> instr_match ''011 ??? ??? ?? ??? ??'' w"
    "instr_match ''111 ? ????? ????? ??'' w \<Longrightarrow> \<not> instr_match ''010 ??? ??? ?? ??? ??'' w"
    "instr_match ''111 ? ????? ????? ??'' w \<Longrightarrow> \<not> instr_match ''011 ??? ??? ?? ??? ??'' w"
    by (simp_all only: instr_match_def p option.case prod.case) auto
qed

lemma shape_c_ldst [simp]:
  "dest_ok s \<or> \<not> instr_match ''010 ??? ??? ?? ??? ??'' (d_instr s) \<and> \<not> instr_match ''011 ??? ??? ?? ??? ??'' (d_instr s)
   \<Longrightarrow> shape_ok (table_c_ldst st s)"
  unfolding table_c_ldst_def by (auto intro!: shape_by_mmu shape_first_match simp: no_dest_def)

lemma sp_store_instr [simp]: "d_instr (decode_C_SWSP s) = d_instr s" "d_instr (decode_C_SDSP s) = d_instr s"
  by (simp_all add: decode_C_SWSP_def decode_C_SDSP_def decode_C_SxSP_def decode_C_xxSP_def decode_op_C_imm6_def Let_def)

lemma shape_rvc_parts [simp]:
  "dest_ok s \<Longrightarrow> shape_ok (table_rvc_Q1_compute_more s)"
  "shape_ok (table_rvc_Q1_compute s)"
  "shape_ok (table_rvc_Q2_misc s)"
  unfolding table_rvc_Q1_compute_more_def table_rvc_Q1_compute_def table_rvc_Q2_misc_def
  by (auto intro!: shape_first_match)

lemma shape_rvc_quadrants [simp]:
  "shape_ok (table_rvc_Q0 st s)" "shape_ok (table_rvc_Q1 s)" "shape_ok (table_rvc_Q2 st s)"
  unfolding table_rvc_Q0_def table_rvc_Q1_def table_rvc_Q2_def
  by (auto intro!: shape_first_match simp: no_dest_def c_store_field)

text \<open>Property C8: whatever the instruction word, the state of the machine and the operands left over from
  the previous instruction are, the decoder does not hand a helper \<open>x0\<close> as the register to write: the
  destination is another register or the dummy word, or the helper writes none.\<close>

theorem decode_never_writes_x0:
  "shape_ok (table_rvc st s) \<and> shape_ok (table_main st s)"
  unfolding table_rvc_def table_main_def
  by (auto intro!: shape_first_match simp: no_dest_def)

end
