(* ===== verification/Invariant.thy ===== *)
theory Invariant
  imports DecodeShape
begin

text \<open>
  State invariants of the interpreter. The locale \<open>machine_inv\<close> names what an invariant has to survive:
  the elementary updates of the machine record, with the side conditions the code observes (the guest
  register written is not \<open>x0\<close>, a delegation register is written through its mask, a privilege mode is
  at most three). Inside the locale the invariant is carried through every function of the interpreter,
  up to \<open>exec_once\<close>; along the way every \<open>longjmp\<close> is shown to carry the cause of an exception, or to
  end the run with the run state already set. The interpretations at the end give the invariants of the
  program.
\<close>

section \<open>Exits\<close>

text \<open>The two ways out of \<open>execute\<close>.\<close>

definition exit_ok :: "nat \<Rightarrow> machine \<Rightarrow> bool" where
  "exit_ok c st \<longleftrightarrow> c = NEMU_EXEC_EXCEPTION \<or>
     c = NEMU_EXEC_END \<and> (nstate (nemu_state st) = NEMU_END \<or> nstate (nemu_state st) = NEMU_ABORT)"

abbreviation keeps :: "(machine \<Rightarrow> bool) \<Rightarrow> 'a nemu \<Rightarrow> bool" where
  "keeps I f \<equiv> pres I exit_ok f"

section \<open>The interface of an invariant\<close>

locale machine_inv =
  fixes I :: "machine \<Rightarrow> bool"
  assumes gpr: "I st \<Longrightarrow> r \<noteq> 0 \<Longrightarrow> I (st\<lparr>cpu := (cpu st)\<lparr>gpr := (gpr (cpu st))(r := v)\<rparr>\<rparr>)"
    and fpr: "I st \<Longrightarrow> I (st\<lparr>cpu := (cpu st)\<lparr>fpr := f\<rparr>\<rparr>)"
    and pc: "I st \<Longrightarrow> I (st\<lparr>cpu := (cpu st)\<lparr>cpu_pc := v\<rparr>\<rparr>)"
    and amo: "I st \<Longrightarrow> I (set_amo b st)"
    and lr: "I st \<Longrightarrow> I (st\<lparr>cpu := (cpu st)\<lparr>lr_addr := p, lr_valid := v\<rparr>\<rparr>)"
    and lr_valid: "I st \<Longrightarrow> I (st\<lparr>cpu := (cpu st)\<lparr>lr_valid := v\<rparr>\<rparr>)"
    and exc: "I st \<Longrightarrow> I (st\<lparr>cpu := (cpu st)\<lparr>guided_exec := False\<rparr>, g_ex_cause := v\<rparr>)"
    and mode: "I st \<Longrightarrow> m \<le> 3 \<Longrightarrow> I (set_mode m st)"
    and csr: "I st \<Longrightarrow> (a = CSR_medeleg \<Longrightarrow> v AND NOT 0xf3ff = 0) \<Longrightarrow>
       (a = CSR_mideleg \<Longrightarrow> v AND NOT 0x222 = 0) \<Longrightarrow> I (set_csr a v st)"
    and perf: "I st \<Longrightarrow> I (st\<lparr>csr_perf := v\<rparr>)"
    and mem: "I st \<Longrightarrow> I (st\<lparr>pmem := h\<rparr>)"
    and mmu: "I st \<Longrightarrow> I (st\<lparr>ifetch_mmu_state := i\<rparr>)" "I st \<Longrightarrow> I (st\<lparr>data_mmu_state := i\<rparr>)"
    and tmps: "I st \<Longrightarrow> I (st\<lparr>tmp_reg := t\<rparr>)" "I st \<Longrightarrow> I (st\<lparr>zero_null := v\<rparr>)"
    and run: "I st \<Longrightarrow> I (st\<lparr>nemu_state := n\<rparr>)" "I st \<Longrightarrow> I (st\<lparr>g_sys_state_flag := x\<rparr>)"
      "I st \<Longrightarrow> I (st\<lparr>g_nr_guest_instr := v\<rparr>)" "I st \<Longrightarrow> I (st\<lparr>cur_s := s\<rparr>)"
    and commit: "keeps I (store_commit_queue_push addr data len)"
    and tlb: "I st \<Longrightarrow> I (st\<lparr>hostrtlb := hr, hostwtlb := hw\<rparr>)"
    and guide: "I st \<Longrightarrow> I (st\<lparr>last_addr := l\<rparr>)" "I st \<Longrightarrow> I (st\<lparr>force_count := fc\<rparr>)"
    and fp: "I st \<Longrightarrow> I (st\<lparr>nemu_rm_cache := rm\<rparr>)" "I st \<Longrightarrow> I (st\<lparr>last_rm := rm\<rparr>)"
      "I st \<Longrightarrow> I (st\<lparr>softfloat_roundingMode := q\<rparr>)" "I st \<Longrightarrow> I (st\<lparr>softfloat_exceptionFlags := q\<rparr>)"

named_theorems keep \<open>functions that keep an invariant of the machine\<close>

lemma csr_neq: "CSR_mstatus \<noteq> CSR_medeleg" "CSR_mstatus \<noteq> CSR_mideleg" "CSR_mie \<noteq> CSR_medeleg"
  "CSR_mie \<noteq> CSR_mideleg" "CSR_mip \<noteq> CSR_medeleg" "CSR_mip \<noteq> CSR_mideleg"
  "CSR_fcsr \<noteq> CSR_medeleg" "CSR_fcsr \<noteq> CSR_mideleg" "CSR_frm \<noteq> CSR_medeleg"
  "CSR_frm \<noteq> CSR_mideleg" "CSR_fflags \<noteq> CSR_medeleg" "CSR_fflags \<noteq> CSR_mideleg"
  by (simp_all add: csr_addr_defs)

context machine_inv begin

lemmas prims = gpr fpr pc amo lr lr_valid exc perf mem mmu tmps run tlb guide fp

lemma I_set_ms: "I st \<Longrightarrow> I (set_ms f v st)"
  by (auto simp: set_ms_def csr_addr_defs intro: csr)

lemma I_set_tval: "I st \<Longrightarrow> I (set_tval v st)"
  by (auto simp: set_tval_def csr_addr_defs intro: csr)

lemma I_sd: "I st \<Longrightarrow> I (update_mstatus_sd st)"
  by (simp add: update_mstatus_sd_def I_set_ms)

lemma I_exc_stval: "I st \<Longrightarrow>
    I (set_csr CSR_stval w st\<lparr>cpu := cpu st\<lparr>guided_exec := False\<rparr>, g_ex_cause := v\<rparr>)"
  using exc[OF csr, of st CSR_stval w v] by (simp add: csr_addr_defs)

lemma keep_exception [keep]: "keeps I (longjmp_exception ex)"
  by (rule presI) (auto simp: m_simps exit_ok_def intro: exc)

lemma keep_write [keep]: "p \<noteq> PGpr 0 \<Longrightarrow> keeps I (write_ptr p v)"
  by (cases p) (auto intro!: pres_intro prims)

lemma keep_operand [keep]: "keeps I (preg x)" "keeps I (imm x)"
  by (cases x; simp add: pres_intro)+

lemma keep_flags [keep]: "keeps I (set_sys_state_flag f)" "keeps I (set_nemu_state n p r)"
  by (auto simp: set_sys_state_flag_def set_nemu_state_def intro!: pres_intro prims)

lemma keep_paddr [keep]: "keeps I (paddr_read a n)" "keeps I (paddr_write a n v)"
  by (auto simp: paddr_read_def paddr_write_def pmem_read_def pmem_write_def host_read_def host_write_def
      intro!: pres_intro keep commit prims)

section \<open>Translation and memory\<close>

lemma keep_check_permission [keep]: "keeps I (check_permission pte ok0 vaddr type)"
  by (rule presI) (auto simp: check_permission_def m_simps Let_def exit_ok_def
      split: mem_type.splits if_splits intro!: I_exc_stval exc amo I_set_tval)

lemma keep_ptw_step [keep]: "keeps I (ptw_step b vaddr l)"
  by (auto simp: ptw_step_def intro!: pres_intro keep)

lemma keep_case_ptw: "(\<And>p. keeps I (f p)) \<Longrightarrow> (\<And>p b. keeps I (g p b)) \<Longrightarrow> (\<And>p b. keeps I (h p b)) \<Longrightarrow>
    keeps I (case r of PtwBad p \<Rightarrow> f p | PtwLeaf p b \<Rightarrow> g p b | PtwNext p b \<Rightarrow> h p b)"
  by (cases r) simp_all

lemma keep_ptw_loop [keep]: "keeps I (ptw_loop vaddr l b)"
  by (induction l arbitrary: b) (auto intro!: pres_intro keep keep_case_ptw)

lemma keep_ptw [keep]: "keeps I (ptw_bad pte vaddr type)" "keeps I (ptw vaddr type)"
  by (auto simp: ptw_bad_def ptw_def intro!: pres_intro keep)

lemma keep_mmu_internal [keep]: "keeps I (update_mmu_state_internal b)"
  by (rule presI) (auto simp: update_mmu_state_internal_def split: if_splits)

lemma keep_mmu_update [keep]: "keeps I update_mmu_state"
  by (auto simp: update_mmu_state_def intro!: pres_intro keep prims)

lemma keep_mmu_check [keep]: "keeps I (isa_mmu_check vaddr len type)"
  by (rule presI) (auto simp: isa_mmu_check_def m_simps Let_def exit_ok_def
      split: mem_type.splits if_splits intro!: I_exc_stval exc I_set_tval)

lemma keep_record [keep]: "keeps I (force_raise_pf_record vaddr type)"
  by (rule presI) (auto simp: force_raise_pf_record_def Let_def split: if_splits intro!: guide(1) guide(2))

lemma keep_raise_pf: "(\<And>st. I st \<Longrightarrow> I (u st)) \<Longrightarrow>
    keeps I (bnd (force_raise_pf_record vaddr type) (\<lambda>give_up.
       if give_up then ret MEM_RET_OK else bnd (modify u) (\<lambda>_. longjmp_exception ex)))"
  by (auto intro!: pres_intro keep)

lemma keep_force_raise_pf [keep]: "keeps I (force_raise_pf vaddr type)"
proof -
  have u: "I st \<Longrightarrow> I (if mode (cpu st) = MODE_M then set_csr CSR_mtval v st else set_csr CSR_stval w st)" for st v w
    by (auto simp: csr_addr_defs intro: csr)
  show ?thesis
    by (rule presI) (auto simp: force_raise_pf_def Let_def split: if_splits
        dest: presD_Ret[OF keep_raise_pf, rotated] presD_LongJmp[OF keep_raise_pf, rotated] intro!: u I_set_tval)
qed

lemma keep_translate [keep]: "keeps I (isa_mmu_translate vaddr len type)"
  by (auto simp: isa_mmu_translate_def intro!: pres_intro keep)

lemma keep_read_cross [keep]: "keeps I (read_cross_loop n i addr type d)"
  by (induction n arbitrary: i addr d) (auto intro!: pres_intro keep)

lemma keep_write_cross [keep]: "keeps I (write_cross_loop n addr d)"
  by (induction n arbitrary: addr d) (auto intro!: pres_intro keep)

lemma keep_vaddr [keep]:
  "keeps I (vaddr_read_internal addr len type m)" "keeps I (vaddr_read addr len m)"
  "keeps I (vaddr_ifetch addr len)" "keeps I (vaddr_write addr len v m)"
  by (auto simp: vaddr_read_internal_def vaddr_read_def vaddr_ifetch_def vaddr_write_def vaddr_mmu_read_def
      vaddr_mmu_write_def vaddr_read_cross_page_def vaddr_write_cross_page_def intro!: pres_intro keep)

lemma keep_fetch [keep]: "keeps I (instr_fetch p len)"
  by (auto simp: instr_fetch_def intro!: pres_intro keep)

section \<open>Privileged state\<close>

lemma keep_tlb_flush [keep]: "keeps I (hosttlb_flush vaddr)" "keeps I (mmu_tlb_flush vaddr)"
  by (auto simp: hosttlb_flush_def mmu_tlb_flush_def intro!: pres_intro keep tlb)

lemma keep_fp_state [keep]: "keeps I (fp_update_rm_cache r)" "keeps I fp_set_dirty"
  by (auto simp: fp_update_rm_cache_def fp_set_dirty_def intro!: pres_intro fp I_set_ms)

lemma keep_csr_legal [keep]: "keeps I (csr_is_legal a)" "keeps I (csr_decode a)"
  by (rule presI; auto simp: csr_is_legal_def Let_def split: if_splits)
    (auto simp: csr_decode_def intro!: pres_intro)

lemma keep_csr_read [keep]: "keeps I (csr_read c)"
  by (rule presI) (auto simp: csr_read_def Let_def split: if_splits intro: I_sd)

lemma and_and_not: "(v AND m) AND NOT m = (0 :: uint64)"
  by (rule bit_word_eqI) (simp add: bit_simps)

lemma I_if: "(b \<Longrightarrow> I x) \<Longrightarrow> (\<not> b \<Longrightarrow> I y) \<Longrightarrow> I (if b then x else y)"
  by simp

lemma I_csr: "I st \<Longrightarrow> a \<noteq> CSR_medeleg \<Longrightarrow> a \<noteq> CSR_mideleg \<Longrightarrow> I (set_csr a v st)"
  by (rule csr) simp_all

lemma I_csr_masked: "I st \<Longrightarrow> I (set_csr CSR_medeleg (v AND 0xf3ff) st)" "I st \<Longrightarrow> I (set_csr CSR_mideleg (v AND 0x222) st)"
  by (rule csr, assumption, rule and_and_not, simp add: csr_addr_defs)
    (rule csr, assumption, simp add: csr_addr_defs, rule and_and_not)

lemma I_csr_store: "I st \<Longrightarrow> I (csr_store c v st)"
proof (cases c)
  case (CsrArr a)
  assume "I st"
  then show ?thesis unfolding CsrArr csr_store_def Let_def csr_ptr.case
    by (intro I_if) (simp_all only: I_csr I_csr_masked csr_neq not_False_eq_True)
qed (simp add: csr_store_def perf)

lemma keep_csr_write [keep]: "keeps I (csr_write c v)"
  unfolding csr_write_def Let_def by (intro pres_intro keep I_csr_store I_sd) assumption+

lemma keep_csrrw [keep]: "(\<And>d. dest = Some d \<Longrightarrow> d \<noteq> PGpr 0) \<Longrightarrow> keeps I (csrrw dest src c)"
  by (auto simp: csrrw_def intro!: pres_intro keep)

lemma fld2_le: "snd f \<le> 2 \<Longrightarrow> fld f w \<le> 3"
proof -
  assume f: "snd f \<le> 2"
  then have "(2 :: nat) ^ snd f \<le> 2 ^ 2" by (intro power_increasing) auto
  with fld_less[of f w] f have "unat (fld f w) \<le> 3" by simp
  then show ?thesis by (simp add: word_le_nat_alt)
qed

lemma ms_mode: "ms Ms_spp st \<le> 3" "ms Ms_mpp st \<le> 3"
  by (simp_all add: ms_def fld2_le)

lemma I_returns: "I st \<Longrightarrow> I (sret_state st)" "I st \<Longrightarrow> I (mret_state st)"
  by (auto simp: sret_state_def mret_state_def Let_def intro!: I_set_ms mode ms_mode)

lemma keep_priv_instr [keep]: "keeps I (priv_instr op src)"
  by (auto simp: priv_instr_def intro!: pres_intro keep I_returns)

lemma I_traps: "I st \<Longrightarrow> I (trap_s_state n epc st)" "I st \<Longrightarrow> I (trap_m_state n epc st)"
  by (auto simp: trap_s_state_def trap_m_state_def Let_def mode_defs csr_addr_defs intro!: I_set_ms mode csr)

lemma keep_raise_intr [keep]: "keeps I (raise_intr n epc)"
  by (auto simp: raise_intr_def intro!: pres_intro keep I_traps)

section \<open>RTL and host calls\<close>

lemma keep_relop [keep]: "keeps I (relop_m r a b)"
  by (auto simp: relop_m_def intro!: pres_intro)

lemma keep_jumps [keep]: "keeps I (rtl_j t)" "keeps I (rtl_jr p)" "keeps I (rtl_jrelop s r a b t)"
  by (auto simp: rtl_j_def rtl_jr_def rtl_jrelop_def intro!: pres_intro keep pc)

lemma keep_compute [keep]:
  "d \<noteq> PGpr 0 \<Longrightarrow> keeps I (def_rtl_compute_reg f d a b)" "d \<noteq> PGpr 0 \<Longrightarrow> keeps I (def_rtl_compute_div g d a b)"
  "d \<noteq> PGpr 0 \<Longrightarrow> keeps I (def_rtl_compute_imm f d a i)"
  by (auto simp: rtl_compute_defs intro!: pres_intro keep)

lemma keep_rtl_reg [keep]:
  "d \<noteq> PGpr 0 \<Longrightarrow> keeps I (rtl_add d a b)"
  "d \<noteq> PGpr 0 \<Longrightarrow> keeps I (rtl_sub d a b)"
  "d \<noteq> PGpr 0 \<Longrightarrow> keeps I (rtl_and d a b)"
  "d \<noteq> PGpr 0 \<Longrightarrow> keeps I (rtl_or d a b)"
  "d \<noteq> PGpr 0 \<Longrightarrow> keeps I (rtl_xor d a b)"
  "d \<noteq> PGpr 0 \<Longrightarrow> keeps I (rtl_shl d a b)"
  "d \<noteq> PGpr 0 \<Longrightarrow> keeps I (rtl_shr d a b)"
  "d \<noteq> PGpr 0 \<Longrightarrow> keeps I (rtl_sar d a b)"
  "d \<noteq> PGpr 0 \<Longrightarrow> keeps I (rtl_addw d a b)"
  "d \<noteq> PGpr 0 \<Longrightarrow> keeps I (rtl_subw d a b)"
  "d \<noteq> PGpr 0 \<Longrightarrow> keeps I (rtl_shlw d a b)"
  "d \<noteq> PGpr 0 \<Longrightarrow> keeps I (rtl_shrw d a b)"
  "d \<noteq> PGpr 0 \<Longrightarrow> keeps I (rtl_sarw d a b)"
  "d \<noteq> PGpr 0 \<Longrightarrow> keeps I (rtl_mulu_lo d a b)"
  "d \<noteq> PGpr 0 \<Longrightarrow> keeps I (rtl_mulu_hi d a b)"
  "d \<noteq> PGpr 0 \<Longrightarrow> keeps I (rtl_muls_hi d a b)"
  "d \<noteq> PGpr 0 \<Longrightarrow> keeps I (rtl_divu_q d a b)"
  "d \<noteq> PGpr 0 \<Longrightarrow> keeps I (rtl_divu_r d a b)"
  "d \<noteq> PGpr 0 \<Longrightarrow> keeps I (rtl_divs_q d a b)"
  "d \<noteq> PGpr 0 \<Longrightarrow> keeps I (rtl_divs_r d a b)"
  "d \<noteq> PGpr 0 \<Longrightarrow> keeps I (rtl_mulw d a b)"
  "d \<noteq> PGpr 0 \<Longrightarrow> keeps I (rtl_divw d a b)"
  "d \<noteq> PGpr 0 \<Longrightarrow> keeps I (rtl_divuw d a b)"
  "d \<noteq> PGpr 0 \<Longrightarrow> keeps I (rtl_remw d a b)"
  "d \<noteq> PGpr 0 \<Longrightarrow> keeps I (rtl_remuw d a b)"
  by (simp_all add: keep_compute rtl_defs del: rtl_compute_defs)

lemma keep_rtl_imm [keep]:
  "d \<noteq> PGpr 0 \<Longrightarrow> keeps I (rtl_addi d a i)"
  "d \<noteq> PGpr 0 \<Longrightarrow> keeps I (rtl_subi d a i)"
  "d \<noteq> PGpr 0 \<Longrightarrow> keeps I (rtl_andi d a i)"
  "d \<noteq> PGpr 0 \<Longrightarrow> keeps I (rtl_ori d a i)"
  "d \<noteq> PGpr 0 \<Longrightarrow> keeps I (rtl_xori d a i)"
  "d \<noteq> PGpr 0 \<Longrightarrow> keeps I (rtl_shli d a i)"
  "d \<noteq> PGpr 0 \<Longrightarrow> keeps I (rtl_shri d a i)"
  "d \<noteq> PGpr 0 \<Longrightarrow> keeps I (rtl_sari d a i)"
  "d \<noteq> PGpr 0 \<Longrightarrow> keeps I (rtl_addiw d a i)"
  "d \<noteq> PGpr 0 \<Longrightarrow> keeps I (rtl_shliw d a i)"
  "d \<noteq> PGpr 0 \<Longrightarrow> keeps I (rtl_shriw d a i)"
  "d \<noteq> PGpr 0 \<Longrightarrow> keeps I (rtl_sariw d a i)"
  by (simp_all add: keep_compute rtl_defs del: rtl_compute_defs)

lemma keep_setrelop [keep]:
  "d \<noteq> PGpr 0 \<Longrightarrow> keeps I (rtl_setrelop r d a b)" "d \<noteq> PGpr 0 \<Longrightarrow> keeps I (rtl_setrelopi r d a i)"
  by (auto simp: rtl_setrelop_def rtl_setrelopi_def intro!: pres_intro keep)

lemma keep_pseudo [keep]:
  "d \<noteq> PGpr 0 \<Longrightarrow> keeps I (rtl_li d i)" "d \<noteq> PGpr 0 \<Longrightarrow> keeps I (rtl_mv d a)"
  "d \<noteq> PGpr 0 \<Longrightarrow> keeps I (rtl_not d a)" "d \<noteq> PGpr 0 \<Longrightarrow> keeps I (rtl_neg d a)"
  "d \<noteq> PGpr 0 \<Longrightarrow> keeps I (rtl_sext d a n)" "d \<noteq> PGpr 0 \<Longrightarrow> keeps I (rtl_zext d a n)"
  by (auto simp: rtl_li_def rtl_mv_def rtl_not_def rtl_neg_def rtl_sext_def rtl_zext_def intro!: pres_intro keep)

lemma keep_rtl_mem [keep]:
  "d \<noteq> PGpr 0 \<Longrightarrow> keeps I (rtl_lm d a i n m)" "d \<noteq> PGpr 0 \<Longrightarrow> keeps I (rtl_lms d a i n m)"
  "keeps I (rtl_sm p a i n m)"
  by (auto simp: rtl_lm_def rtl_lms_def rtl_sm_def intro!: pres_intro keep)

section \<open>Floating point\<close>

lemma keep_fl_call [keep]: "keeps I (fl_call f)"
  by (rule presI) (auto simp: fl_call_def split: prod.splits intro!: fp)

lemma keep_minmax [keep]:
  "keeps I (f32_min fl a b)" "keeps I (f32_max fl a b)" "keeps I (f64_min fl x y)" "keeps I (f64_max fl x y)"
  by (auto simp: f32_min_def f32_max_def f64_min_def f64_max_def intro!: pres_intro keep)

lemma keep_fpcalls [keep]: "keeps I (fpcall32 fl op a b d)" "keeps I (fpcall64 fl op a b d)"
  unfolding fpcall32_def fpcall64_def Let_def by (intro pres_intro keep)+

lemma keep_fp_parts [keep]:
  "keeps I isa_fp_csr_check" "keeps I (isa_fp_get_rm s)" "keeps I (fp_set_rm rm)"
  "keeps I (isa_fp_set_ex ex)" "keeps I fp_clear_exception"
  by (auto simp: isa_fp_csr_check_def isa_fp_get_rm_def fp_set_rm_def isa_fp_set_ex_def fp_clear_exception_def Let_def
      intro!: pres_intro keep fp I_csr csr_neq)

lemma keep_fpcall [keep]: "d \<noteq> PGpr 0 \<Longrightarrow> keeps I (rtl_fpcall fl s d a b cmd)"
  unfolding rtl_fpcall_def Let_def by (intro pres_intro keep fp) assumption+

lemma keep_fbox [keep]:
  "d \<noteq> PGpr 0 \<Longrightarrow> keeps I (rtl_fbox d a)" "d \<noteq> PGpr 0 \<Longrightarrow> keeps I (rtl_funbox d a)"
  "d \<noteq> PGpr 0 \<Longrightarrow> keeps I (rtl_fsr d a w)" "d \<noteq> PGpr 0 \<Longrightarrow> keeps I (rtl_fclass d a w)"
  by (auto simp: rtl_fbox_def rtl_funbox_def rtl_fsr_def rtl_fclass_def intro!: pres_intro keep)

section \<open>Host calls\<close>

lemma keep_hostcall_parts [keep]:
  "keeps I (invalid_instr p)" "keeps I (deref q)"
  "(\<And>d. dest = Some d \<Longrightarrow> d \<noteq> PGpr 0) \<Longrightarrow> keeps I (store_opt dest v)"
  by (auto simp: invalid_instr_def deref_def store_opt_def intro!: pres_intro keep)

lemma keep_hostcall [keep]:
  "(\<And>d. dest = Some d \<Longrightarrow> d \<noteq> PGpr 0) \<Longrightarrow> keeps I (rtl_hostcall fl s hid dest a b i)"
  unfolding rtl_hostcall_def isa_hostcall_def
  by (cases dest; cases a; cases b) (auto intro!: pres_intro keep)

lemma keep_trap [keep]: "keeps I (rtl_trap fl s p n)"
  by (auto simp: rtl_trap_def intro!: pres_intro keep)

section \<open>Execution helpers\<close>

lemma keep_ddest: "dest_ok s \<Longrightarrow> (\<And>d. d \<noteq> PGpr 0 \<Longrightarrow> keeps I (k d)) \<Longrightarrow> keeps I (with_ddest s k)"
  by (cases "d_dest s") (auto simp: with_ddest_def dest_ok_def pres_def vld_def m_simps)

lemma keep_ddest_read: "(\<And>d. keeps I (k d)) \<Longrightarrow> keeps I (with_ddest s k)"
  by (auto simp: with_ddest_def intro!: pres_intro keep)

lemma keep_sources [keep]:
  "(\<And>a. keeps I (k a)) \<Longrightarrow> keeps I (with_dsrc1 s k)" "(\<And>a. keeps I (k a)) \<Longrightarrow> keeps I (with_dsrc2 s k)"
  by (auto simp: with_dsrc1_def with_dsrc2_def intro!: pres_intro keep)

lemma keep_shapes [keep]:
  "dest_ok s \<Longrightarrow> (\<And>d a b. d \<noteq> PGpr 0 \<Longrightarrow> keeps I (f3 d a b)) \<Longrightarrow> keeps I (rrr f3 s)"
  "dest_ok s \<Longrightarrow> (\<And>d a b. d \<noteq> PGpr 0 \<Longrightarrow> keeps I (f3 d a b)) \<Longrightarrow> keeps I (ddr f3 s)"
  "dest_ok s \<Longrightarrow> (\<And>d a i. d \<noteq> PGpr 0 \<Longrightarrow> keeps I (fi d a i)) \<Longrightarrow> keeps I (rri fi s)"
  "dest_ok s \<Longrightarrow> (\<And>d a i. d \<noteq> PGpr 0 \<Longrightarrow> keeps I (fi d a i)) \<Longrightarrow> keeps I (ddi fi s)"
  "dest_ok s \<Longrightarrow> (\<And>d a. d \<noteq> PGpr 0 \<Longrightarrow> keeps I (f2 d a)) \<Longrightarrow> keeps I (rr f2 s)"
  "dest_ok s \<Longrightarrow> (\<And>d i. d \<noteq> PGpr 0 \<Longrightarrow> keeps I (g d i)) \<Longrightarrow> keeps I (di1 g s)"
  "dest_ok s \<Longrightarrow> (\<And>d i. d \<noteq> PGpr 0 \<Longrightarrow> keeps I (g d i)) \<Longrightarrow> keeps I (di2 g s)"
  by (auto simp: rrr_def ddr_def rri_def ddi_def rr_def di1_def di2_def intro!: keep_ddest keep pres_intro)

lemma keep_branches [keep]:
  "keeps I (branch_rr r s)" "keeps I (branch_rz r s)" "keeps I (branch_zr r s)"
  by (auto simp: branch_rr_def branch_rz_def branch_zr_def intro!: keep pres_intro)

lemma keep_rvi: "dest_ok s \<Longrightarrow> keeps I (exec_rvi i s)"
  by (cases i) (auto simp: exec_defs simp del: shape_defs intro!: pres_intro keep keep_ddest)

lemma keep_pseudos: "dest_ok s \<Longrightarrow> keeps I (exec_pseudo i s)"
  by (cases i) (auto simp: exec_defs simp del: shape_defs intro!: pres_intro keep keep_ddest)

lemma keep_rvc: "dest_ok s \<Longrightarrow> keeps I (exec_rvc i s)"
  by (cases i) (auto simp: exec_defs simp del: shape_defs intro!: pres_intro keep keep_ddest)

lemma keep_rvm: "dest_ok s \<Longrightarrow> keeps I (exec_rvm i s)"
  by (cases i) (auto simp: exec_defs simp del: shape_defs intro!: pres_intro keep keep_ddest)

lemma keep_rvb: "dest_ok s \<Longrightarrow> keeps I (exec_rvb i s)"
  by (cases i) (auto simp: exec_defs simp del: shape_defs intro!: pres_intro keep keep_ddest)

lemma keep_no_dest: "keeps I (exec_rvc ID_c_j s)" "keeps I (exec_rvc ID_c_jr s)" "keeps I (exec_pseudo ID_p_ret s)"
  by (auto simp: exec_defs simp del: shape_defs intro!: pres_intro keep)

lemma keep_ldst: "dest_ok s \<Longrightarrow> keeps I (exec_ldst i m s)"
  by (cases i) (simp_all add: rtl_ldst_def keep_ddest keep pres_intro)

lemma keep_store: "i = ID_sb \<or> i = ID_sh \<or> i = ID_sw \<or> i = ID_sd \<Longrightarrow> keeps I (exec_ldst i m s)"
  by (elim disjE) (simp_all add: rtl_ldst_def keep_ddest_read keep pres_intro)

lemma keep_fldst: "dest_ok s \<Longrightarrow> keeps I (exec_fldst i m s)"
  by (cases i) (simp_all add: exec_fldst_def exec_flw_def exec_fsw_def exec_fsw_mmu_def exec_fld_def exec_fsd_def
      keep_ddest keep pres_intro)

lemma keep_fstore: "i = ID_fsw \<or> i = ID_fsd \<Longrightarrow> keeps I (exec_fldst i m s)"
  by (elim disjE) (simp_all add: exec_fldst_def exec_fsw_def exec_fsw_mmu_def exec_fsd_def keep_ddest_read keep pres_intro)

lemma keep_fcall [keep]: "d \<noteq> PGpr 0 \<Longrightarrow> keeps I (fcall fl s op w d a b)"
  by (auto simp: fcall_def intro!: keep)

lemma keep_rvf: "dest_ok s \<Longrightarrow> keeps I (exec_rvf fl i s)"
  by (cases i) (auto simp: exec_defs simp del: shape_defs intro!: pres_intro keep keep_ddest)

lemma keep_rvd: "dest_ok s \<Longrightarrow> keeps I (exec_rvd fl i s)"
  by (cases i) (auto simp: exec_defs simp del: shape_defs intro!: pres_intro keep keep_ddest)

lemma keep_set_amo [keep]: "keeps I (set_amo_m b)"
  by (auto simp: set_amo_m_def intro!: pres_intro amo)

lemma keep_amo [keep]: "d \<noteq> PGpr 0 \<Longrightarrow> keeps I (rtl_amo_slow_path s d a b)"
  by (auto simp: rtl_amo_slow_path_def amo_lr_def amo_sc_def amo_rmw_def intro!: pres_intro keep lr lr_valid)

lemma keep_system [keep]: "dest_ok s \<Longrightarrow> keeps I (exec_system fl s)"
  unfolding exec_system_def rtl_sys_slow_path_def sys_priv_def sys_csr_def Let_def
  by (auto intro!: pres_intro keep keep_ddest)

text \<open>The run state is set before the helper leaves through the end of execution.\<close>

lemma keep_end: "n = NEMU_END \<or> n = NEMU_ABORT \<Longrightarrow> keeps I (thn (set_nemu_state n p r) (longjmp_exec NEMU_EXEC_END))"
  by (rule presI) (auto simp: set_nemu_state_def longjmp_exec_def m_simps exit_ok_def intro: run)

lemma thn_bnd: "thn (bnd f g) h = bnd f (\<lambda>x. thn (g x) h)"
  by (rule ext) (simp add: m_simps split: res.split)

lemma keep_special: "keeps I (exec_special fl i s)"
  by (cases i) (auto simp: exec_inv_def exec_rt_inv_def exec_nemu_trap_def invalid_instr_def thn_bnd case_prod_beta
      intro!: pres_bnd keep keep_end)

lemma keep_exec_instr: "dest_ok s \<or> idx \<in> no_dest \<Longrightarrow> keeps I (exec_instr fl idx s)"
  by (cases idx) (auto simp: no_dest_def exec_atomic_def intro: keep_special keep_rvi keep_ldst keep_pseudos keep_rvc
      keep_rvm keep_rvb keep_rvf keep_rvd keep_fldst keep_store keep_fstore keep_no_dest keep_system intro!: keep)

section \<open>Fetch, decode, execute\<close>

lemma vld_keeps: "keeps I f \<Longrightarrow> vld I f (\<lambda>_. I) (\<lambda>c st. I st \<and> exit_ok c st)"
  by (simp add: pres_def)

lemma keep_table: "(\<And>st. shape_ok (t st)) \<Longrightarrow> vld I (gets t) (\<lambda>r st. I st \<and> shape_ok r) (\<lambda>c st. I st \<and> exit_ok c st)"
  by (simp add: vld_def m_simps)

lemma set_type_dest: "vld (\<lambda>st. I st \<and> (dest_ok s \<or> idx \<in> no_dest)) (set_type idx s)
    (\<lambda>s' st. I st \<and> (dest_ok s' \<or> idx \<in> no_dest)) (\<lambda>c st. I st \<and> exit_ok c st)"
  unfolding vld_def set_type_def dest_ok_def by (cases "d_src1 s"; cases "d_dest s") (simp_all add: m_simps)

lemma keep_decoded: "vld (\<lambda>st. I st \<and> shape_ok r)
    (case r of None \<Rightarrow> die Assert_fail
     | Some (s, idx) \<Rightarrow> bnd (set_type idx s) (\<lambda>s'. thn (modify (\<lambda>st. st\<lparr>cur_s := s'\<rparr>)) (ret idx)))
    (\<lambda>idx st. I st \<and> (dest_ok (cur_s st) \<or> idx \<in> no_dest)) (\<lambda>c st. I st \<and> exit_ok c st)"
proof (cases r)
  case (Some p)
  obtain s idx where p: "p = (s, idx)" by (cases p)
  have "vld (\<lambda>st. I st \<and> (dest_ok s' \<or> idx \<in> no_dest)) (thn (modify (\<lambda>st. st\<lparr>cur_s := s'\<rparr>)) (ret idx))
      (\<lambda>idx st. I st \<and> (dest_ok (cur_s st) \<or> idx \<in> no_dest)) (\<lambda>c st. I st \<and> exit_ok c st)" for s'
    by (auto simp: vld_def m_simps run)
  from vld_bnd[OF set_type_dest this] show ?thesis by (simp add: Some p shape_ok_def)
qed (simp add: vld_def m_simps)

lemma fetch_shape: "vld I (fetch_decode p) (\<lambda>idx st. I st \<and> (dest_ok (cur_s st) \<or> idx \<in> no_dest))
    (\<lambda>c st. I st \<and> exit_ok c st)"
proof -
  have t: "vld I (if b then gets (\<lambda>st. table_rvc st (cur_s st))
      else bnd (instr_fetch p1 2) (\<lambda>(hi, p2). thn (modify (\<lambda>st. st\<lparr>cur_s := f hi p2 st\<rparr>)) (gets (\<lambda>st. table_main st (cur_s st)))))
      (\<lambda>r st. I st \<and> shape_ok r) (\<lambda>c st. I st \<and> exit_ok c st)" for b p1 f
    unfolding thn_def using decode_never_writes_x0
    by (auto simp: case_prod_beta intro!: keep_table vld_bnd[OF vld_keeps[OF keep_fetch]]
        vld_bnd[OF vld_keeps[OF pres_modify]] run)
  show ?thesis unfolding fetch_decode_def isa_fetch_decode_def thn_def
    apply (rule vld_bnd[OF vld_keeps])
     apply (auto intro!: pres_intro run)[1]
    apply (rule vld_bnd[OF vld_keeps], rule pres_intro)
    apply (rule vld_bnd[OF vld_keeps], rule keep_fetch)
    apply (subst case_prod_beta)
    apply (rule vld_bnd[OF vld_keeps])
     apply (auto intro!: pres_intro run)[1]
    apply (rule vld_bnd[OF t[unfolded thn_def] keep_decoded[unfolded thn_def]])
    done
qed

lemma keep_exec_once: "keeps I (exec_once fl)"
proof -
  have r: "vld (\<lambda>st. I st \<and> (dest_ok (cur_s st) \<or> idx \<in> no_dest)) (seqs [
       modify (\<lambda>st. st\<lparr>cpu := (cpu st)\<lparr>cpu_pc := d_snpc (cur_s st)\<rparr>\<rparr>),
       bnd (gets cur_s) (exec_instr fl idx),
       modify (\<lambda>st. st\<lparr>g_nr_guest_instr := g_nr_guest_instr st + 1\<rparr>)]) (\<lambda>_. I) (\<lambda>c st. I st \<and> exit_ok c st)" for idx
    unfolding vld_def
  proof (intro allI impI, elim conjE)
    fix st assume st: "I st" "dest_ok (cur_s st) \<or> idx \<in> no_dest"
    let ?st = "st\<lparr>cpu := (cpu st)\<lparr>cpu_pc := d_snpc (cur_s st)\<rparr>\<rparr>"
    have "I ?st" using st(1) by (rule pc)
    with keep_exec_instr[OF st(2), of fl]
    show "case seqs [modify (\<lambda>st. st\<lparr>cpu := (cpu st)\<lparr>cpu_pc := d_snpc (cur_s st)\<rparr>\<rparr>), bnd (gets cur_s) (exec_instr fl idx),
       modify (\<lambda>st. st\<lparr>g_nr_guest_instr := g_nr_guest_instr st + 1\<rparr>)] st of
      Ret x st' \<Rightarrow> I st' | LongJmp c st' \<Rightarrow> I st' \<and> exit_ok c st' | Crash _ \<Rightarrow> True"
      by (cases "exec_instr fl idx (cur_s st) ?st") (auto simp: m_simps run dest: presD_Ret presD_LongJmp)
  qed
  show ?thesis unfolding exec_once_def pres_def
    by (rule vld_bnd[OF vld_keeps[OF pres_pure(3)] vld_bnd[OF fetch_shape r]])
qed

lemma keep_execute: "keeps I (execute fl n)"
  by (induction n) (auto intro!: pres_intro keep_exec_once)

end

end
