(* ===== verification/RunLoop.thy ===== *)
theory RunLoop
  imports Invariant
begin

text \<open>
  The run loop of \<open>cpu_exec\<close>: it ends, whatever the guest program does, because a batch has one
  instruction and a trap leaves the loop; no \<open>longjmp\<close> escapes it; and it does nothing once the run is
  over. The locale \<open>run_inv\<close> extends \<open>machine_inv\<close> by the counters of the loop and carries an invariant
  through \<open>cpu_exec\<close>; its interpretations are the invariants of the machine.
\<close>

section \<open>Traps do not jump\<close>

lemma update_mmu_never_jumps: "update_mmu_state st \<noteq> LongJmp c st'"
  by (auto simp: update_mmu_state_def update_mmu_state_internal_def m_simps split: res.splits if_splits)

lemma raise_intr_no_jump: "raise_intr n epc st \<noteq> LongJmp c st'"
  by (auto simp: raise_intr_def m_simps update_mmu_never_jumps split: res.splits if_splits)

section \<open>The counters\<close>

text \<open>Executing an instruction leaves the budget of the loop alone.\<close>

interpretation budget: machine_inv "\<lambda>st. n_remain_total st = k"
  by unfold_locales (auto simp: set_amo_def set_mode_def set_csr_def store_commit_queue_push_def Let_def
      intro!: presI split: if_splits option.splits)

lemma execute_exits: "execute fl n st = LongJmp c st' \<Longrightarrow> exit_ok c st'"
  using budget.keep_execute[of "n_remain_total st" fl n] by (rule presD_LongJmp[THEN conjunct2]) simp_all

lemma execute_budget: "execute fl n st = Ret r st' \<Longrightarrow> n_remain_total st' = n_remain_total st"
  using budget.keep_execute[of "n_remain_total st" fl n] by (rule presD_Ret) simp_all

section \<open>Termination\<close>

text \<open>A loop that is not running stops at once, and one with a pending exception after one iteration.\<close>

lemma stopped_ends: "\<not> running st \<Longrightarrow> exec_loop (Suc k) fl n c st = Some (Ret () st)"
  by simp

lemma exception_ends:
  "\<exists>r. (\<forall>k. exec_loop (Suc k) fl n NEMU_EXEC_EXCEPTION st = Some r) \<and> (\<forall>c st'. r \<noteq> LongJmp c st')"
proof (cases "running st")
  case True
  then show ?thesis
    by (cases "raise_intr (g_ex_cause st) (d_pc (cur_s st)) st") (auto simp: loop_step_def m_simps raise_intr_no_jump)
qed auto

lemma after_jump_ends:
  assumes "exit_ok c st"
  shows "\<exists>r. (\<forall>k. exec_loop (Suc k) fl n c (at_setjmp st) = Some r) \<and> (\<forall>c st'. r \<noteq> LongJmp c st')"
proof (cases "c = NEMU_EXEC_EXCEPTION")
  case True
  then show ?thesis using exception_ends by simp
next
  case False
  with assms have "\<not> running (at_setjmp st)" by (auto simp: exit_ok_def running_def at_setjmp_def)
  then show ?thesis by auto
qed

lemma first_iteration:
  assumes "running st" "n_remain_total st = 1"
  shows "exec_loop (Suc k) fl 1 0 st = (case execute fl 1 st of
      Ret r st' \<Rightarrow> exec_loop k fl 1 0 (st'\<lparr>n_remain := int r, n_remain_total := 0\<rparr>)
    | LongJmp c st' \<Rightarrow> exec_loop k fl 1 c (at_setjmp st')
    | Crash c \<Rightarrow> Some (Crash c))"
  using assms execute_budget[of fl 1 st]
  by (auto simp: loop_step_def BATCH_SIZE_def exec_cause_defs split: res.split)

lemma exec_loop_total:
  assumes "n_remain_total st = n" "n \<le> 1"
  shows "\<exists>r. (\<forall>k. exec_loop (k + 2) fl n 0 st = Some r) \<and> (\<forall>c st'. r \<noteq> LongJmp c st')"
proof (cases "running st")
  case False
  then show ?thesis by (auto simp: numeral_2_eq_2)
next
  case True
  with assms have n: "n = 1" by (auto simp: running_def word_le_nat_alt word_less_nat_alt word_unat_eq_iff)
  show ?thesis
  proof (cases "execute fl 1 st")
    case (Ret r st')
    then show ?thesis using first_iteration[OF True assms(1)[unfolded n]] stopped_ends n
      by (auto simp: numeral_2_eq_2 running_def)
  next
    case (LongJmp c st')
    with after_jump_ends[OF execute_exits[OF LongJmp], of fl 1] first_iteration[OF True assms(1)[unfolded n], of _ fl]
    show ?thesis using n by (auto simp: numeral_2_eq_2 simp del: exec_loop.simps)
  next
    case (Crash c)
    then show ?thesis using first_iteration[OF True assms(1)[unfolded n]] n by (simp add: numeral_2_eq_2 del: exec_loop.simps)
  qed
qed

lemma after_loop_returns: "\<exists>st'. after_loop st = Ret () st'"
  by (simp add: after_loop_def monitor_statistic_def update_instr_cnt_def m_simps)

text \<open>Property C2: \<open>cpu_exec\<close> ends for every machine state and every budget it accepts: any fuel of two or
  more iterations gives the result of the model, and no \<open>longjmp\<close> leaves it. What ends it is that a batch
  is one instruction, that a trap leaves the loop, and that the run state is set before a helper jumps
  out with the end of execution.\<close>

theorem cpu_exec_total:
  "cpu_exec_fuel (k + 2) fl n st = Some (cpu_exec fl n st) \<and> cpu_exec fl n st \<noteq> LongJmp c st'"
proof -
  let ?s = "(set_nstate NEMU_RUNNING st)\<lparr>n_remain_total := n\<rparr>"
  show ?thesis
  proof (cases "n \<le> 1")
    case True
    with exec_loop_total[of ?s n fl] obtain r where
      r: "\<And>k. exec_loop (k + 2) fl n 0 ?s = Some r" "\<And>c st'. r \<noteq> LongJmp c st'" by auto
    have "\<exists>r'. (\<forall>k. cpu_exec_fuel (k + 2) fl n st = Some r') \<and> (\<forall>c st'. r' \<noteq> LongJmp c st')"
      using True r(2) after_loop_returns unfolding cpu_exec_fuel_def r(1)
      by (cases r) (auto, metis res.distinct(1))
    then obtain r' where r': "\<And>k. cpu_exec_fuel (k + 2) fl n st = Some r'" "\<And>c st'. r' \<noteq> LongJmp c st'" by blast
    from r'(1)[of 1] have "cpu_exec fl n st = r'" by (simp add: cpu_exec_def numeral_3_eq_3)
    with r' show ?thesis by simp
  qed (simp_all add: cpu_exec_def cpu_exec_fuel_def)
qed

text \<open>Once the run has ended or aborted, \<open>cpu_exec\<close> returns the machine unchanged.\<close>

theorem cpu_exec_stopped:
  "nstate (nemu_state st) = NEMU_END \<or> nstate (nemu_state st) = NEMU_ABORT \<Longrightarrow> n \<le> 1 \<Longrightarrow>
     cpu_exec fl n st = Ret () st"
  by (auto simp: cpu_exec_def cpu_exec_fuel_def)

theorem cpu_exec_stopped_witness:
  "\<forall>fl. cpu_exec fl 1 (set_nstate NEMU_ABORT static_machine) = Ret () (set_nstate NEMU_ABORT static_machine)"
  using cpu_exec_stopped[of "set_nstate NEMU_ABORT static_machine" 1] by (simp add: set_nstate_def)

end
