(* ===== verification/MachineWf.thy ===== *)
theory MachineWf
  imports RunLoop
begin

text \<open>
  The invariants of the machine. \<open>run_inv\<close> adds the counters of the run loop to the interface of an
  invariant and carries it through \<open>cpu_exec\<close>; the four interpretations are \<open>x0\<close>, the privilege mode,
  the delegation masks and the shape of the store-commit queue.
\<close>

section \<open>Invariants of the run loop\<close>

locale run_inv = machine_inv +
  assumes counts: "I st \<Longrightarrow> I (st\<lparr>n_remain := i\<rparr>)" "I st \<Longrightarrow> I (st\<lparr>n_remain_total := x\<rparr>)"

context run_inv begin

lemma keep_loop_step:
  assumes "I st"
  shows "case loop_step fl n c st of Ret r st' \<Rightarrow> I st' | LongJmp d st' \<Rightarrow> I st' | Crash _ \<Rightarrow> True"
proof (cases "c = NEMU_EXEC_EXCEPTION")
  case True
  with assms show ?thesis
    by (cases "raise_intr (g_ex_cause st) (d_pc (cur_s st)) st")
      (auto simp: loop_step_def m_simps dest: presD_Ret[OF keep_raise_intr] presD_LongJmp[OF keep_raise_intr] intro: pc)
next
  case False
  let ?b = "if BATCH_SIZE \<le> n then BATCH_SIZE else n"
  have "st'\<lparr>n_remain := a, n_remain_total := b\<rparr> = (st'\<lparr>n_remain := a\<rparr>)\<lparr>n_remain_total := b\<rparr>" for st' :: machine and a b
    by simp
  with False assms show ?thesis
    by (cases "execute fl (unat ?b) st")
      (auto simp: loop_step_def Let_def at_setjmp_def
        dest: presD_Ret[OF keep_execute] presD_LongJmp[OF keep_execute] intro!: counts)
qed

lemma keep_exec_loop: "I st \<Longrightarrow> exec_loop k fl n c st = Some (Ret u st') \<Longrightarrow> I st'"
proof (induction k fl n c st rule: exec_loop.induct)
  case (2 k fl n c st)
  then show ?case using keep_loop_step[of st fl n c] by (auto split: if_splits res.splits option.splits)
qed simp

lemma I_update_cnt: "I st \<Longrightarrow> update_instr_cnt st = Ret u st' \<Longrightarrow> I st'"
proof -
  have e: "st\<lparr>n_remain_total := a, g_nr_guest_instr := b, n_remain := c\<rparr> =
    ((st\<lparr>n_remain_total := a\<rparr>)\<lparr>g_nr_guest_instr := b\<rparr>)\<lparr>n_remain := c\<rparr>" for a b c
    by simp
  assume "I st" "update_instr_cnt st = Ret u st'"
  then show ?thesis by (auto simp: update_instr_cnt_def m_simps Let_def intro!: counts run)
qed

lemma keep_cpu_exec: "I st \<Longrightarrow> cpu_exec fl n st = Ret u st' \<Longrightarrow> I st'"
proof -
  assume i: "I st" and e: "cpu_exec fl n st = Ret u st'"
  have "I ((set_nstate NEMU_RUNNING st)\<lparr>n_remain_total := n\<rparr>)"
    using i by (auto simp: set_nstate_def intro!: counts run)
  with i e show ?thesis
    by (auto simp: cpu_exec_def cpu_exec_fuel_def after_loop_def monitor_statistic_def set_nstate_def m_simps
        split: option.splits res.splits if_splits dest: keep_exec_loop I_update_cnt intro: run)
qed

end

section \<open>The invariants\<close>

definition x0_zero :: "machine \<Rightarrow> bool" where
  "x0_zero st \<longleftrightarrow> gpr (cpu st) 0 = 0"

definition mode_ok :: "machine \<Rightarrow> bool" where
  "mode_ok st \<longleftrightarrow> mode (cpu st) \<le> 3"

definition deleg_ok :: "machine \<Rightarrow> bool" where
  "deleg_ok st \<longleftrightarrow> csr st CSR_medeleg AND NOT 0xf3ff = 0 \<and> csr st CSR_mideleg AND NOT 0x222 = 0"

definition queue_ok :: "machine \<Rightarrow> bool" where
  "queue_ok st \<longleftrightarrow> length (store_commit_queue st) = STORE_QUEUE_SIZE \<and>
     unat (scq_head st) < STORE_QUEUE_SIZE \<and> unat (scq_tail st) < STORE_QUEUE_SIZE"

lemmas frame_simps = set_amo_def set_mode_def set_csr_def

lemma push_cpu_frame: "keeps I (store_commit_queue_push addr data len)"
  if "\<And>st xs b t. I st \<Longrightarrow> I (st\<lparr>store_commit_queue := xs, scq_overflow := b, scq_tail := t\<rparr>)"
  using that by (auto simp: store_commit_queue_push_def Let_def intro!: presI split: if_splits option.splits)

interpretation x0: run_inv x0_zero
  by unfold_locales (auto simp: x0_zero_def frame_simps intro!: push_cpu_frame)

interpretation privilege: run_inv mode_ok
  by unfold_locales (auto simp: mode_ok_def frame_simps intro!: push_cpu_frame)

interpretation delegation: run_inv deleg_ok
  by unfold_locales (auto simp: deleg_ok_def frame_simps intro!: push_cpu_frame)

lemma queue_push: "keeps queue_ok (store_commit_queue_push addr data len)"
  by (rule presI) (auto simp: store_commit_queue_push_def Let_def queue_ok_def STORE_QUEUE_SIZE_def unat_mod
      split: if_splits option.splits)

interpretation queue: run_inv queue_ok
  by unfold_locales (auto simp: queue_ok_def frame_simps intro: queue_push)

definition machine_wf :: "machine \<Rightarrow> bool" where
  "machine_wf st \<longleftrightarrow> x0_zero st \<and> mode_ok st \<and> deleg_ok st \<and> queue_ok st"

end
