(* ===== verification/Reach.thy ===== *)
theory Reach
  imports Difftest MachineWf
begin

text \<open>
  The states that a difftest partner can bring the reference into: reset followed by any sequence of the
  calls of \<open>src/cpu/difftest/ref.c\<close>. A call that dies has no successor state. What the partner copies in is
  free: registers, CSRs, memory, the reservation and the guide. Since the copies are not checked, what they
  bring in may break an invariant until the next copy of the same registers; the relation therefore keeps
  the copies of registers made so far, the last one first.
\<close>

section \<open>Calls of the interface\<close>

datatype reg_copy = Regs_copy dut_regs | Csrs_copy "12 word \<Rightarrow> uint64"

inductive ref_step :: "fp_lib \<Rightarrow> machine \<Rightarrow> machine \<Rightarrow> bool" for fl :: fp_lib where
  Exec: "difftest_exec fl n st = Ret u st' \<Longrightarrow> ref_step fl st st'"
| Guided: "difftest_guided_exec fl guide st = Ret u st' \<Longrightarrow> ref_step fl st st'"
| Intr: "difftest_raise_intr NO st = Ret u st' \<Longrightarrow> ref_step fl st st'"
| Regs_out: "regcpy_to_dut st = Ret dut st' \<Longrightarrow> ref_step fl st st'"
| Csrs_out: "csrcpy_to_dut st = Ret c st' \<Longrightarrow> ref_step fl st st'"
| Uarch_in: "uarchstatus_to_ref sync st = Ret u st' \<Longrightarrow> ref_step fl st st'"
| Mem_in: "memcpy_to_ref a buf b n st = Ret u st' \<Longrightarrow> ref_step fl st st'"
| Mem_out: "memcpy_to_dut a b n (st, buf) = Ret u (st', buf') \<Longrightarrow> ref_step fl st st'"
| Commit: "difftest_store_commit addr data msk st = Ret r st' \<Longrightarrow> ref_step fl st st'"

inductive_cases ref_stepE: "ref_step fl st st'"

inductive reachable :: "fp_lib \<Rightarrow> reg_copy list \<Rightarrow> machine \<Rightarrow> bool" for fl :: fp_lib where
  Reset: "reachable fl [] (difftest_init static_machine)"
| Step: "reachable fl cs st \<Longrightarrow> ref_step fl st st' \<Longrightarrow> reachable fl cs st'"
| Regs_in: "reachable fl cs st \<Longrightarrow> regcpy_to_ref dut st = Ret u st' \<Longrightarrow> reachable fl (Regs_copy dut # cs) st'"
| Csrs_in: "reachable fl cs st \<Longrightarrow> csrcpy_to_ref c st = Ret u st' \<Longrightarrow> reachable fl (Csrs_copy c # cs) st'"

text \<open>What the copies made so far have left in \<open>x0\<close>, in the mode and in the delegation registers: the CSR
  copy leaves the first two alone.\<close>

fun x0_copied :: "reg_copy list \<Rightarrow> uint64" where
  "x0_copied [] = 0"
| "x0_copied (Regs_copy dut # cs) = dr_gpr dut 0"
| "x0_copied (Csrs_copy c # cs) = x0_copied cs"

fun mode_copied :: "reg_copy list \<Rightarrow> uint64" where
  "mode_copied [] = MODE_M"
| "mode_copied (Regs_copy dut # cs) = dr_mode dut"
| "mode_copied (Csrs_copy c # cs) = mode_copied cs"

fun deleg_copied :: "reg_copy list \<Rightarrow> uint64 \<times> uint64" where
  "deleg_copied [] = (0, 0)"
| "deleg_copied (Regs_copy dut # cs) = (sh_medeleg (dr_shadow dut), sh_mideleg (dr_shadow dut))"
| "deleg_copied (Csrs_copy c # cs) = (c CSR_medeleg, c CSR_mideleg)"

definition deleg_sane :: "uint64 \<times> uint64 \<Rightarrow> bool" where
  "deleg_sane d \<longleftrightarrow> fst d AND NOT 0xf3ff = 0 \<and> snd d AND NOT 0x222 = 0"

section \<open>Copies keep what their accesses keep\<close>

lemma pres_copy_bytes: "(\<And>a k. pres I E (rd a k)) \<Longrightarrow> (\<And>a k v. pres I E (wr a k v)) \<Longrightarrow> pres I E (copy_bytes rd wr d s n)"
  by (induction n arbitrary: d s) (auto intro!: pres_intro)

lemma pres_memcpy: "(\<And>a k. pres I E (rd a k)) \<Longrightarrow> (\<And>a k v. pres I E (wr a k v)) \<Longrightarrow> pres I E (nemu_large_memcpy rd wr d s n)"
proof (induction rd wr d s n rule: nemu_large_memcpy.induct)
  case (1 rd wr d s n)
  have "pres I E (bnd (rd s 8) (\<lambda>w. if w \<noteq> 0 then wr d 8 w else skip))"
    by (intro pres_bnd pres_if pres_pure 1(2,3))
  moreover have "8 \<le> n \<Longrightarrow> pres I E (nemu_large_memcpy rd wr (d + 8) (s + 8) (n - 8))"
    using 1 by blast
  moreover have "pres I E (copy_bytes rd wr d s n)"
    by (rule pres_copy_bytes) (rule 1(2,3))+
  ultimately show ?case
    unfolding nemu_large_memcpy.simps[of rd wr d s n] by (simp add: pres_thn)
qed

lemma pres_on_fst: "pres I E f \<Longrightarrow> pres (\<lambda>p. I (fst p)) (\<lambda>c p. E c (fst p)) (on_fst f)"
  by (rule presI) (auto simp: on_fst_def split: res.splits dest: presD_Ret presD_LongJmp)

section \<open>Invariants of the interface\<close>

text \<open>\<open>api_inv\<close> is the interface of an invariant of the calls: it extends the run loop's with the
  copies. \<open>G\<close> is what the invariant asks of the copies made so far.\<close>

locale api_inv = run_inv +
  fixes G :: "reg_copy list \<Rightarrow> bool"
  assumes reset: "I (difftest_init static_machine)"
    and exec_guide: "I st \<Longrightarrow> I (st\<lparr>cpu := (cpu st)\<lparr>execution_guide := g\<rparr>\<rparr>)"
    and guided: "I st \<Longrightarrow> I (set_guided b st)"
    and regs_in: "(G cs \<Longrightarrow> I st) \<Longrightarrow> G (Regs_copy dut # cs) \<Longrightarrow> regcpy_to_ref dut st = Ret u st' \<Longrightarrow> I st'"
    and shadow_out: "I st \<Longrightarrow> I (st\<lparr>cpu := (cpu st)\<lparr>shadow := sh\<rparr>\<rparr>)"
    and csrs_in: "(G cs \<Longrightarrow> I st) \<Longrightarrow> G (Csrs_copy c # cs) \<Longrightarrow> I (st\<lparr>csr := c\<rparr>)"
    and popped: "I st \<Longrightarrow> store_commit_queue_pop st = Ret r st' \<Longrightarrow> I st'"

context api_inv begin

lemma keep_host: "keeps I (host_read a n)" "keeps I (host_write a n v)"
  by (auto simp: host_read_def host_write_def intro!: pres_intro prims)

lemma keep_memcpy_in: "keeps I (memcpy_to_ref a buf b n)"
  by (auto simp: memcpy_to_ref_def intro!: pres_intro pres_memcpy keep_host)

lemma keep_memcpy_out: "pres (\<lambda>p. I (fst p)) (\<lambda>c p. exit_ok c (fst p)) (memcpy_to_dut a b n)"
  by (auto simp: memcpy_to_dut_def intro!: pres_intro pres_memcpy pres_on_fst keep_host)

lemma keep_intr_call: "keeps I (difftest_raise_intr n)"
  by (auto simp: difftest_raise_intr_def intro!: pres_intro keep)

lemma keep_shadow: "keeps I (set_shadow f)"
  by (auto simp: set_shadow_def intro!: pres_intro shadow_out)

lemma keep_regs_out: "keeps I regcpy_to_dut"
  by (auto simp: regcpy_to_dut_def csr_prepare_def csrid_read_def intro!: pres_intro keep keep_shadow)

lemma keep_csrs_out: "keeps I csrcpy_to_dut"
  by (auto simp: csrcpy_to_dut_def intro!: pres_intro)

lemma keep_uarch: "keeps I (uarchstatus_to_ref sync)"
proof -
  have "c\<lparr>lr_valid := v, lr_addr := a\<rparr> = c\<lparr>lr_addr := a, lr_valid := v\<rparr>" for c :: cpu_state and v a
    by simp
  then show ?thesis unfolding uarchstatus_to_ref_def by (intro pres_modify) (simp only: lr)
qed

lemma keep_commit_call: "keeps I (difftest_store_commit addr data msk)"
proof -
  have "keeps I store_commit_queue_pop"
    by (rule presI) (auto simp: store_commit_queue_pop_def Let_def split: if_splits intro: popped)
  then show ?thesis by (auto simp: difftest_store_commit_def check_store_commit_def Let_def intro!: pres_intro)
qed

lemma keep_guided_call:
  assumes "I st" "difftest_guided_exec fl g st = Ret u st'"
  shows "I st'"
proof -
  let ?s = "set_guided True (st\<lparr>cpu := (cpu st)\<lparr>execution_guide := g\<rparr>\<rparr>)"
  from assms(2) obtain v s where s: "cpu_exec fl 1 ?s = Ret v s" "st' = set_guided False s"
    by (auto simp: difftest_guided_exec_def m_simps split: res.splits)
  have "I ?s" by (intro guided exec_guide assms(1))
  from keep_cpu_exec[OF this s(1)] show ?thesis by (simp add: s(2) guided)
qed

lemma keep_ref_step: "ref_step fl st st' \<Longrightarrow> I st \<Longrightarrow> I st'"
proof (erule ref_stepE)
  fix n u assume "I st" "difftest_exec fl n st = Ret u st'"
  then show "I st'" unfolding difftest_exec_def by (rule keep_cpu_exec)
next
  fix a b n buf u buf' assume "I st" "memcpy_to_dut a b n (st, buf) = Ret u (st', buf')"
  then show "I st'" using presD_Ret[OF keep_memcpy_out, of "(st, buf)" a b n u "(st', buf')"] by simp
qed (blast intro: keep_guided_call presD_Ret[OF keep_intr_call] presD_Ret[OF keep_regs_out] presD_Ret[OF keep_csrs_out]
  presD_Ret[OF keep_uarch] presD_Ret[OF keep_memcpy_in] presD_Ret[OF keep_commit_call])+

lemma keep_reachable: "reachable fl cs st \<Longrightarrow> G cs \<Longrightarrow> I st"
proof (induction rule: reachable.induct)
  case (Csrs_in cs st c u st')
  have "I (st\<lparr>csr := c\<rparr>)" by (rule csrs_in[OF Csrs_in.IH Csrs_in.prems])
  with Csrs_in.hyps(2) show ?case by (auto simp: csrcpy_to_ref_def modify_apply)
qed (auto intro: reset keep_ref_step regs_in)

end

section \<open>The invariants hold of every reachable state\<close>

text \<open>Reset.\<close>

lemma init_frame [simp]:
  "gpr (cpu (difftest_init st)) = (gpr (cpu st))(0 := 0)" "mode (cpu (difftest_init st)) = MODE_M"
  "csr (difftest_init st) CSR_medeleg = csr st CSR_medeleg" "csr (difftest_init st) CSR_mideleg = csr st CSR_mideleg"
  "scq_head (difftest_init st) = scq_head st" "scq_tail (difftest_init st) = scq_tail st"
  "length (store_commit_queue (difftest_init st)) = length (store_commit_queue st)"
  by (simp_all add: difftest_init_def init_isa_def init_mem_def set_csr_def csr_addr_defs Let_def)

lemma init_wf: "machine_wf (difftest_init static_machine)"
  by (simp add: machine_wf_def x0_zero_def mode_ok_def deleg_ok_def queue_ok_def MODE_M_def STORE_QUEUE_SIZE_def)

lemmas init_invs = init_wf[unfolded machine_wf_def, THEN conjunct1]
  init_wf[unfolded machine_wf_def, THEN conjunct2, THEN conjunct1]
  init_wf[unfolded machine_wf_def, THEN conjunct2, THEN conjunct2, THEN conjunct1]
  init_wf[unfolded machine_wf_def, THEN conjunct2, THEN conjunct2, THEN conjunct2]

lemma regs_in_frame:
  assumes "regcpy_to_ref dut st = Ret u st'"
  shows "gpr (cpu st') = dr_gpr dut" "mode (cpu st') = dr_mode dut"
    "csr st' CSR_medeleg = sh_medeleg (dr_shadow dut)" "csr st' CSR_mideleg = sh_mideleg (dr_shadow dut)"
    "store_commit_queue st' = store_commit_queue st" "scq_head st' = scq_head st" "scq_tail st' = scq_tail st"
proof -
  from assms have "st' = csr_writeback (st\<lparr>cpu := (cpu st)\<lparr>gpr := dr_gpr dut, fpr := dr_fpr dut, cpu_pc := dr_pc dut,
       shadow := dr_shadow dut, mode := dr_mode dut\<rparr>\<rparr>)"
    by (simp add: regcpy_to_ref_def m_simps)
  then show "gpr (cpu st') = dr_gpr dut" "mode (cpu st') = dr_mode dut"
    "csr st' CSR_medeleg = sh_medeleg (dr_shadow dut)" "csr st' CSR_mideleg = sh_mideleg (dr_shadow dut)"
    "store_commit_queue st' = store_commit_queue st" "scq_head st' = scq_head st" "scq_tail st' = scq_tail st"
    by (simp_all add: csr_writeback_def Let_def csr_addr_defs)
qed

lemma pop_frame:
  assumes "store_commit_queue_pop st = Ret r st'"
  shows "cpu st' = cpu st" "csr st' = csr st"
  using assms by (auto simp: store_commit_queue_pop_def Let_def split: if_splits)

lemmas api_simps = regs_in_frame pop_frame set_guided_def deleg_sane_def

interpretation x0: api_inv x0_zero "\<lambda>cs. x0_copied cs = 0"
  by unfold_locales (auto simp: init_invs, auto simp: x0_zero_def api_simps)

interpretation privilege: api_inv mode_ok "\<lambda>cs. mode_copied cs \<le> 3"
  by unfold_locales (auto simp: init_invs, auto simp: mode_ok_def api_simps)

interpretation delegation: api_inv deleg_ok "\<lambda>cs. deleg_sane (deleg_copied cs)"
  by unfold_locales (auto simp: init_invs, auto simp: deleg_ok_def api_simps)

lemma queue_pop: "queue_ok st \<Longrightarrow> store_commit_queue_pop st = Ret r st' \<Longrightarrow> queue_ok st'"
  by (auto simp: store_commit_queue_pop_def Let_def queue_ok_def STORE_QUEUE_SIZE_def unat_mod split: if_splits)

interpretation queue: api_inv queue_ok "\<lambda>_. True"
proof unfold_locales
  show "queue_ok st \<Longrightarrow> store_commit_queue_pop st = Ret r st' \<Longrightarrow> queue_ok st'" for st r st'
    by (rule queue_pop)
qed (auto simp: init_invs, auto simp: queue_ok_def regs_in_frame set_guided_def)

text \<open>Property C1: after reset and any sequence of calls of a partner, with any contents of the copies, the
  store-commit queue of the reference has all its entries and both indices inside; \<open>x0\<close> is zero unless the
  last register copy made brought in another value; the privilege mode is at most 3 unless the last register
  copy brought in a greater one; and the delegation registers hold implemented bits only unless the last
  register or CSR copy brought in others.\<close>

theorem reachable_wf:
  "reachable fl cs st \<Longrightarrow> queue_ok st \<and> (x0_copied cs = 0 \<longrightarrow> x0_zero st) \<and> (mode_copied cs \<le> 3 \<longrightarrow> mode_ok st) \<and>
     (deleg_sane (deleg_copied cs) \<longrightarrow> deleg_ok st)"
  using x0.keep_reachable privilege.keep_reachable delegation.keep_reachable queue.keep_reachable by blast

text \<open>A partner that starts a user-mode program: reset, then one register copy.\<close>

definition user_block :: dut_regs where
  "user_block = \<lparr>dr_gpr = (\<lambda>_. 0)(5 := 7), dr_fpr = (\<lambda>_. 0), dr_pc = 0x80001000,
     dr_shadow = static_shadow\<lparr>sh_satp := 0x8000000000080002, sh_medeleg := 0xb109\<rparr>, dr_mode = 0\<rparr>"

definition user_machine :: machine where
  "user_machine = (case regcpy_to_ref user_block (difftest_init static_machine) of Ret _ st \<Rightarrow> st | _ \<Rightarrow> static_machine)"

lemma user_machine_reachable: "reachable fl [Regs_copy user_block] user_machine"
proof -
  have "regcpy_to_ref user_block (difftest_init static_machine) = Ret () user_machine"
    by (simp add: user_machine_def regcpy_to_ref_def m_simps)
  then show ?thesis by (rule reachable.Regs_in[OF reachable.Reset])
qed

theorem reachable_wf_witness:
  "\<forall>fl. reachable fl [Regs_copy user_block] user_machine \<and> queue_ok user_machine \<and> x0_zero user_machine \<and>
     mode_ok user_machine \<and> deleg_ok user_machine"
proof
  fix fl
  show "reachable fl [Regs_copy user_block] user_machine \<and> queue_ok user_machine \<and> x0_zero user_machine \<and>
     mode_ok user_machine \<and> deleg_ok user_machine"
    using reachable_wf[of fl, OF user_machine_reachable] user_machine_reachable
    by (simp add: user_block_def deleg_sane_def static_shadow_def)
qed

end
