(* ===== verification/Traps.thy ===== *)
theory Traps
  imports MachineWf
begin

text \<open>
  Properties of trap entry, trap return, interrupt selection and the cached MMU state
  (\<open>system/intr.c\<close>, \<open>system/priv.c\<close>, \<open>system/mmu.c\<close>). The specifications are stated over the fields of
  the CSRs; the lemmas below turn the sequences of field assignments of the code into them.
\<close>

section \<open>Fields after a sequence of assignments\<close>

lemma take_bit_ms: "snd (mstatus_f f) = n \<Longrightarrow> take_bit n (ms f st) = ms f st"
  by (auto simp: ms_def fld_def)

lemma ms_mod_2 [simp]: "snd (mstatus_f f) = 1 \<Longrightarrow> ms f st mod 2 = ms f st"
  using take_bit_ms[of f 1 st] by (simp add: take_bit_eq_mod)

lemma ms_frames [simp]:
  "a \<noteq> CSR_mstatus \<Longrightarrow> ms f (set_csr a v st) = ms f st" "ms f (set_mode m st) = ms f st"
  by (simp_all add: ms_def set_mode_def)

lemma set_mode_frames [simp]:
  "csr (set_mode m st) = csr st" "mode (cpu (set_mode m st)) = m"
  by (simp_all add: set_mode_def)

lemma mode_frames [simp]: "mode (cpu (set_csr a v st)) = mode (cpu st)" "mode (cpu (set_ms f v st)) = mode (cpu st)"
  by simp_all

lemma csr_addr_distinct [simp]:
  "CSR_sepc \<noteq> CSR_mstatus" "CSR_scause \<noteq> CSR_mstatus" "CSR_stval \<noteq> CSR_mstatus" "CSR_mepc \<noteq> CSR_mstatus"
  "CSR_mcause \<noteq> CSR_mstatus" "CSR_mtval \<noteq> CSR_mstatus" "CSR_satp \<noteq> CSR_mstatus"
  by (simp_all add: csr_addr_defs)

section \<open>The cached MMU state\<close>

text \<open>What the two cached modes have to be: Sv39 translation when the access is made below machine mode
  and \<open>satp\<close> selects it.\<close>

definition mmu_want :: "bool \<Rightarrow> machine \<Rightarrow> mmu_mode" where
  "mmu_want ifetch st =
     (if ucast (eff_mode ifetch st) < (3 :: uint32) \<and> satp_mode st = 8 then MMU_TRANSLATE else MMU_DIRECT)"

definition mmu_coherent :: "machine \<Rightarrow> bool" where
  "mmu_coherent st \<longleftrightarrow> ifetch_mmu_state st = mmu_want True st \<and> data_mmu_state st = mmu_want False st"

lemma mmu_want_frame [simp]:
  "mmu_want b (st\<lparr>ifetch_mmu_state := i\<rparr>) = mmu_want b st" "mmu_want b (st\<lparr>data_mmu_state := i\<rparr>) = mmu_want b st"
  by (simp_all add: mmu_want_def eff_mode_def msb_on_def ms_def satp_mode_def)

lemma update_internal_Ret: "update_mmu_state_internal b st = Ret m st' \<Longrightarrow> m = mmu_want b st \<and> st' = st"
  by (auto simp: update_mmu_state_internal_def mmu_want_def split: if_splits)

lemma update_mmu_Ret:
  assumes "update_mmu_state st = Ret b st'"
  shows "st' = st\<lparr>ifetch_mmu_state := mmu_want True st, data_mmu_state := mmu_want False st\<rparr>"
  using assms by (auto simp: update_mmu_state_def m_simps split: res.splits dest!: update_internal_Ret)

lemma update_mmu_no_jump: "update_mmu_state st \<noteq> LongJmp c st'"
  by (auto simp: update_mmu_state_def update_mmu_state_internal_def m_simps split: if_splits res.splits)

definition satp_ok :: "machine \<Rightarrow> bool" where
  "satp_ok st \<longleftrightarrow> satp_mode st = 0 \<or> satp_mode st = 8"

lemma update_internal_total: "satp_ok st \<Longrightarrow> update_mmu_state_internal b st = Ret (mmu_want b st) st"
  by (auto simp: update_mmu_state_internal_def mmu_want_def satp_ok_def)

lemma update_mmu_total:
  assumes "satp_ok st"
  obtains b st' where "update_mmu_state st = Ret b st'"
proof -
  have "satp_ok (st\<lparr>ifetch_mmu_state := i\<rparr>)" for i
    using assms by (simp add: satp_ok_def satp_mode_def)
  with assms that show ?thesis by (simp add: update_mmu_state_def m_simps update_internal_total)
qed

lemma update_mmu_coherent: "update_mmu_state st = Ret b st' \<Longrightarrow> mmu_coherent st'"
  by (drule update_mmu_Ret) (simp add: mmu_coherent_def mmu_want_def eff_mode_def msb_on_def ms_def satp_mode_def)

section \<open>Trap entry\<close>

definition trap_post :: "uint64 \<Rightarrow> uint64 \<Rightarrow> machine \<Rightarrow> machine \<Rightarrow> bool" where
  "trap_post NO epc st st' \<longleftrightarrow>
     (if delegS NO st then
        mode (cpu st') = MODE_S \<and> csr st' CSR_scause = NO \<and> csr st' CSR_sepc = epc \<and>
        csr st' CSR_stval = (if keeps_tval NO then csr st CSR_stval else 0) \<and>
        (\<forall>a. a \<notin> {CSR_mstatus, CSR_scause, CSR_sepc, CSR_stval} \<longrightarrow> csr st' a = csr st a) \<and>
        (\<forall>f. ms f st' = (if f = Ms_spp then take_bit 1 (mode (cpu st)) else if f = Ms_spie then ms Ms_sie st
                         else if f = Ms_sie then 0 else ms f st))
      else
        mode (cpu st') = MODE_M \<and> csr st' CSR_mcause = NO \<and> csr st' CSR_mepc = epc \<and>
        csr st' CSR_mtval = (if keeps_tval NO then csr st CSR_mtval else 0) \<and>
        (\<forall>a. a \<notin> {CSR_mstatus, CSR_mcause, CSR_mepc, CSR_mtval} \<longrightarrow> csr st' a = csr st a) \<and>
        (\<forall>f. ms f st' = (if f = Ms_mpp then take_bit 2 (mode (cpu st)) else if f = Ms_mpie then ms Ms_mie st
                         else if f = Ms_mie then 0 else ms f st)))"

lemma trap_s_fields:
  "mode (cpu (trap_s_state NO epc st)) = MODE_S" "csr (trap_s_state NO epc st) CSR_scause = NO"
  "csr (trap_s_state NO epc st) CSR_sepc = epc"
  "csr (trap_s_state NO epc st) CSR_stval = (if keeps_tval NO then csr st CSR_stval else 0)"
  "a \<noteq> CSR_mstatus \<Longrightarrow> a \<noteq> CSR_scause \<Longrightarrow> a \<noteq> CSR_sepc \<Longrightarrow> a \<noteq> CSR_stval \<Longrightarrow> csr (trap_s_state NO epc st) a = csr st a"
  "ms f (trap_s_state NO epc st) = (if f = Ms_spp then take_bit 1 (mode (cpu st)) else if f = Ms_spie then ms Ms_sie st
     else if f = Ms_sie then 0 else ms f st)"
  by (simp_all add: trap_s_state_def Let_def ms_set_ms take_bit_ms) (simp_all add: csr_addr_defs)

lemma trap_m_fields:
  "mode (cpu (trap_m_state NO epc st)) = MODE_M" "csr (trap_m_state NO epc st) CSR_mcause = NO"
  "csr (trap_m_state NO epc st) CSR_mepc = epc"
  "csr (trap_m_state NO epc st) CSR_mtval = (if keeps_tval NO then csr st CSR_mtval else 0)"
  "a \<noteq> CSR_mstatus \<Longrightarrow> a \<noteq> CSR_mcause \<Longrightarrow> a \<noteq> CSR_mepc \<Longrightarrow> a \<noteq> CSR_mtval \<Longrightarrow> csr (trap_m_state NO epc st) a = csr st a"
  "ms f (trap_m_state NO epc st) = (if f = Ms_mpp then take_bit 2 (mode (cpu st)) else if f = Ms_mpie then ms Ms_mie st
     else if f = Ms_mie then 0 else ms f st)"
  by (simp_all add: trap_m_state_def Let_def ms_set_ms take_bit_ms) (simp_all add: csr_addr_defs)

lemma raise_intr_Ret:
  assumes "raise_intr NO epc st = Ret pc st'"
  obtains b where "delegS NO st" "update_mmu_state (trap_s_state NO epc st) = Ret b st'" "pc = csr st' CSR_stvec"
  | b where "\<not> delegS NO st" "update_mmu_state (trap_m_state NO epc st) = Ret b st'" "pc = csr st' CSR_mtvec"
  using assms by (auto simp: raise_intr_def m_simps split: if_splits res.splits)

lemma update_mmu_fields:
  assumes "update_mmu_state st = Ret b st'"
  shows "cpu st' = cpu st" "csr st' = csr st" "ms f st' = ms f st"
  using update_mmu_Ret[OF assms] by (simp_all add: ms_def)

lemma raise_intr_post:
  assumes "raise_intr NO epc st = Ret pc st'"
  shows "trap_post NO epc st st' \<and> mmu_coherent st' \<and> gpr (cpu st') = gpr (cpu st) \<and>
    pc = (if delegS NO st then csr st CSR_stvec else csr st CSR_mtvec)"
  using assms
proof (cases rule: raise_intr_Ret)
  case (1 b)
  have "csr st' CSR_stvec = csr st CSR_stvec" "gpr (cpu st') = gpr (cpu st)"
    by (simp_all add: update_mmu_fields[OF 1(2)] trap_s_fields csr_addr_defs)
      (simp add: trap_s_state_def Let_def set_mode_def)
  with 1 update_mmu_fields[OF 1(2)] update_mmu_coherent[OF 1(2)] show ?thesis
    by (simp add: trap_post_def trap_s_fields)
next
  case (2 b)
  have "csr st' CSR_mtvec = csr st CSR_mtvec" "gpr (cpu st') = gpr (cpu st)"
    by (simp_all add: update_mmu_fields[OF 2(2)] trap_m_fields csr_addr_defs)
      (simp add: trap_m_state_def Let_def set_mode_def)
  with 2 update_mmu_fields[OF 2(2)] update_mmu_coherent[OF 2(2)] show ?thesis
    by (simp add: trap_post_def trap_m_fields)
qed

text \<open>Property C17: trap entry. An exception or interrupt that is delegated, and arrives below machine mode,
  enters supervisor mode: cause, pc and the two stacked bits of \<open>mstatus\<close> are saved, interrupts of that
  level go off, the trap value is kept for the faults that set it and cleared for the others, and the pc
  is \<open>stvec\<close>; any other trap enters machine mode in the same way. No other CSR, no other field of
  \<open>mstatus\<close> and no register changes, and the cached MMU state is the one of the new mode.\<close>

theorem trap_entry:
  "raise_intr NO epc st = Ret pc st' \<Longrightarrow> trap_post NO epc st st' \<and> mmu_coherent st' \<and>
     gpr (cpu st') = gpr (cpu st) \<and> pc = (if delegS NO st then csr st CSR_stvec else csr st CSR_mtvec)"
  by (rule raise_intr_post)

section \<open>Trap return\<close>

lemma sret_fields:
  "mode (cpu (sret_state st)) = ms Ms_spp st" "a \<noteq> CSR_mstatus \<Longrightarrow> csr (sret_state st) a = csr st a"
  "ms f (sret_state st) = (if f = Ms_sie then ms Ms_spie st else if f = Ms_spie then 1
     else if f = Ms_spp then 0 else ms f st)"
  by (simp_all add: sret_state_def Let_def ms_set_ms MODE_U_def)

lemma mret_fields:
  "mode (cpu (mret_state st)) = ms Ms_mpp st" "a \<noteq> CSR_mstatus \<Longrightarrow> csr (mret_state st) a = csr st a"
  "ms f (mret_state st) = (if f = Ms_mie then ms Ms_mpie st else if f = Ms_mpie then 1
     else if f = Ms_mpp then 0 else ms f st)"
  by (simp_all add: mret_state_def Let_def ms_set_ms MODE_U_def)

lemma sret_Ret: "priv_instr 0x102 src st = Ret (csr st CSR_sepc) (sret_state st)"
  by (simp add: priv_instr_def m_simps sret_fields)

lemma mret_total:
  assumes "satp_ok st"
  obtains st' where "priv_instr 0x302 src st = Ret (csr st CSR_mepc) st'" "mode (cpu st') = ms Ms_mpp st"
    "csr st' = csr (mret_state st)" "gpr (cpu st') = gpr (cpu st)" "mmu_coherent st'"
proof -
  have "satp_ok (mret_state st)" using assms by (simp add: satp_ok_def satp_mode_def mret_fields)
  then obtain b st' where u: "update_mmu_state (mret_state st) = Ret b st'" by (rule update_mmu_total)
  have "gpr (cpu (mret_state st)) = gpr (cpu st)" by (simp add: mret_state_def Let_def set_mode_def)
  with u update_mmu_fields[OF u] update_mmu_coherent[OF u] show ?thesis
    by (intro that[of st']) (simp_all add: priv_instr_def m_simps mret_fields)
qed

lemma raise_intr_total:
  assumes "satp_ok st"
  obtains pc st' where "raise_intr NO epc st = Ret pc st'" "satp_ok st'"
proof -
  have "satp_ok (trap_s_state NO epc st)" "satp_ok (trap_m_state NO epc st)"
    using assms by (simp_all add: satp_ok_def satp_mode_def trap_s_fields trap_m_fields csr_addr_defs)
  then obtain b s b' s' where u: "update_mmu_state (trap_s_state NO epc st) = Ret b s"
      "update_mmu_state (trap_m_state NO epc st) = Ret b' s'"
    by (metis update_mmu_total)
  have "satp_ok s" "satp_ok s'"
    using assms by (simp_all add: satp_ok_def satp_mode_def update_mmu_fields[OF u(1)] update_mmu_fields[OF u(2)]
        trap_s_fields trap_m_fields csr_addr_defs)
  with u that[of _ s] that[of _ s'] show ?thesis by (cases "delegS NO st") (simp_all add: raise_intr_def m_simps)
qed

lemma mode_bits: "m \<le> 3 \<Longrightarrow> take_bit 2 m = m" for m :: uint64
  by (simp add: take_bit_eq_mod word_le_nat_alt word_unat_eq_iff unat_mod)

lemma mode_bit: "m \<le> 1 \<Longrightarrow> m mod 2 = m" for m :: uint64
  by (simp add: word_le_nat_alt word_unat_eq_iff unat_mod)

text \<open>Property C21: return undoes entry. A trap taken in machine mode followed by \<open>mret\<close> returns to the
  interrupted pc with the privilege mode, the interrupt enable bit and the registers it had, and the
  MMU state of that mode; so does a delegated trap followed by \<open>sret\<close>, if the trap came from user or
  supervisor mode (the saved mode has one bit there), except for the MMU state.\<close>

theorem trap_return:
  assumes "satp_ok st" "mode_ok st"
  shows "\<exists>pc st1. raise_intr NO epc st = Ret pc st1 \<and>
    (if delegS NO st
     then mode (cpu st) \<le> 1 \<longrightarrow> (\<exists>st2. priv_instr 0x102 src st1 = Ret epc st2 \<and>
            mode (cpu st2) = mode (cpu st) \<and> ms Ms_sie st2 = ms Ms_sie st \<and> gpr (cpu st2) = gpr (cpu st))
     else \<exists>st2. priv_instr 0x302 src st1 = Ret epc st2 \<and> mode (cpu st2) = mode (cpu st) \<and>
            ms Ms_mie st2 = ms Ms_mie st \<and> gpr (cpu st2) = gpr (cpu st) \<and> mmu_coherent st2)"
proof -
  from assms(1) obtain pc st1 where r: "raise_intr NO epc st = Ret pc st1" "satp_ok st1" by (rule raise_intr_total)
  note p = raise_intr_post[OF r(1)]
  show ?thesis
  proof (cases "delegS NO st")
    case True
    have "gpr (cpu (sret_state st1)) = gpr (cpu st1)" by (simp add: sret_state_def Let_def set_mode_def)
    with True p r(1) show ?thesis
      by (auto simp: trap_post_def sret_Ret sret_fields mode_bit)
  next
    case False
    from r(2) obtain st2 where m: "priv_instr 0x302 src st1 = Ret (csr st1 CSR_mepc) st2"
      "mode (cpu st2) = ms Ms_mpp st1" "csr st2 = csr (mret_state st1)" "gpr (cpu st2) = gpr (cpu st1)" "mmu_coherent st2"
      by (rule mret_total)
    have "ms Ms_mie st2 = ms Ms_mpie st1" using mret_fields(3)[of Ms_mie st1] m(3) by (simp add: ms_def)
    with False p r(1) m assms(2) show ?thesis
      by (auto simp: trap_post_def mode_bits mode_ok_def)
  qed
qed

section \<open>Interrupt selection\<close>

lemma and_push_bit: "w AND push_bit n 1 \<noteq> 0 \<longleftrightarrow> bit w n" for w :: uint64
  by (simp add: push_bit_eq_mult and_exp_eq_0_iff_not_bit)

lemma query_loop_find:
  "query_loop st v irqs = (case find (\<lambda>i. bit v i \<and> irq_enabled st i) irqs of None \<Rightarrow> INTR_EMPTY | Some i \<Rightarrow> of_nat i OR INTR_BIT)"
  by (induction irqs) (simp_all add: and_exp_eq_0_iff_not_bit)

lemma query_find:
  "isa_query_intr st = (case find (\<lambda>i. bit (csr st CSR_mie AND csr st CSR_mip) i \<and> irq_enabled st i) irq_priority of
     None \<Rightarrow> INTR_EMPTY | Some i \<Rightarrow> of_nat i OR INTR_BIT)"
proof (cases "csr st CSR_mie AND csr st CSR_mip = 0")
  case True
  then have "find (\<lambda>i. bit (csr st CSR_mie AND csr st CSR_mip) i \<and> irq_enabled st i) irq_priority = None"
    by (simp add: find_None_iff)
  with True show ?thesis by (simp add: isa_query_intr_def)
qed (simp add: isa_query_intr_def query_loop_find)

lemma irq_small: "i \<in> set irq_priority \<Longrightarrow> i < 12"
  by (auto simp: irq_priority_def irq_defs)

lemma irq_cause: 
  assumes "i < 12"
  shows "(of_nat i OR INTR_BIT) AND INTR_BIT \<noteq> 0" "unat ((of_nat i OR INTR_BIT) AND 0xf) = i" "of_nat i OR INTR_BIT \<noteq> INTR_EMPTY"
proof -
  have "i \<in> {0,1,2,3,4,5,6,7,8,9,10,11}" using assms by (simp only: insert_iff empty_iff) presburger
  then show "(of_nat i OR INTR_BIT) AND INTR_BIT \<noteq> 0" "unat ((of_nat i OR INTR_BIT) AND 0xf) = i"
    "of_nat i OR INTR_BIT \<noteq> INTR_EMPTY"
    by (auto simp: INTR_BIT_def INTR_EMPTY_def)
qed

text \<open>The selection as the architecture has it: interrupt \<open>i\<close> is for privilege level \<open>i mod 4\<close> and of kind
  \<open>i div 4\<close> (software, timer, external). It is taken when it is enabled and pending, and the current mode is
  below the level it is handled in, or is that level and the level's interrupts are on in \<open>mstatus\<close>. Higher
  levels go first, and within a level external before software before timer.\<close>

definition irq_level :: "machine \<Rightarrow> nat \<Rightarrow> uint64" where
  "irq_level st i = (if bit (csr st CSR_mideleg) i then 1 else 3)"

definition irq_taken :: "machine \<Rightarrow> nat \<Rightarrow> bool" where
  "irq_taken st i \<longleftrightarrow> i < 12 \<and> i mod 4 \<noteq> 2 \<and> bit (csr st CSR_mie) i \<and> bit (csr st CSR_mip) i \<and>
     (mode (cpu st) < irq_level st i \<or>
      mode (cpu st) = irq_level st i \<and> bit (csr st CSR_mstatus) (if bit (csr st CSR_mideleg) i then 1 else 3))"

definition irq_rank :: "nat \<Rightarrow> nat" where
  "irq_rank i = 4 * (i mod 4) + (if i div 4 = 2 then 3 else if i div 4 = 0 then 2 else 1)"

lemma priority_sorted: "sorted_wrt (\<lambda>i j. irq_rank j < irq_rank i) irq_priority"
  by (simp add: irq_priority_def irq_defs irq_rank_def)

lemma priority_set: "set irq_priority = {i. i < 12 \<and> i mod 4 \<noteq> 2}"
proof -
  have "{i :: nat. i < 12 \<and> i mod 4 \<noteq> 2} = set (filter (\<lambda>i. i mod 4 \<noteq> 2) [0..<12])" by auto
  also have "\<dots> = set irq_priority" by (auto simp: irq_priority_def irq_defs upt_rec)
  finally show ?thesis by simp
qed

lemma sorted_find:
  "sorted_wrt R xs \<Longrightarrow> find P xs = Some i \<Longrightarrow> j \<in> set xs \<Longrightarrow> P j \<Longrightarrow> j = i \<or> R i j"
  by (induction xs) (auto split: if_splits)

lemma ie_bits: "msb_on Ms_sie st = bit (csr st CSR_mstatus) 1" "msb_on Ms_mie st = bit (csr st CSR_mstatus) 3"
  by (simp_all add: msb_on_def ms_def fld_def bit_iff_odd_drop_bit odd_iff_mod_2_eq_one)

lemma irq_taken_iff:
  "i \<in> set irq_priority \<Longrightarrow> irq_taken st i \<longleftrightarrow> bit (csr st CSR_mie AND csr st CSR_mip) i \<and> irq_enabled st i"
  by (auto simp: priority_set irq_taken_def irq_level_def irq_enabled_def bit_and_iff ie_bits mode_defs Let_def
      and_exp_eq_0_iff_not_bit)

text \<open>Property C37: the interrupt query returns the empty code exactly when no interrupt is taken;
  otherwise it returns the code of a taken interrupt that ranks before every other one taken, which is never
  the empty code, and the trap of that code goes to supervisor mode exactly when the interrupt is delegated,
  and never to a level below the current mode.\<close>

theorem interrupt_selection:
  "(isa_query_intr st = INTR_EMPTY \<longleftrightarrow> (\<nexists>i. irq_taken st i)) \<and>
   ((\<exists>i. irq_taken st i) \<longrightarrow> (\<exists>i. irq_taken st i \<and> (\<forall>j. irq_taken st j \<longrightarrow> j = i \<or> irq_rank j < irq_rank i) \<and>
      isa_query_intr st = of_nat i OR 2 ^ 63 \<and> delegS (isa_query_intr st) st = bit (csr st CSR_mideleg) i \<and>
      mode (cpu st) \<le> irq_level st i))"
proof -
  let ?P = "\<lambda>i. bit (csr st CSR_mie AND csr st CSR_mip) i \<and> irq_enabled st i"
  show ?thesis
  proof (cases "find ?P irq_priority")
    case None
    then have "\<not> irq_taken st i" for i
      using irq_taken_iff[of i st] by (auto simp: find_None_iff irq_taken_def priority_set)
    with None show ?thesis by (simp add: query_find)
  next
    case (Some i)
    then have i: "i \<in> set irq_priority" "?P i" by (auto simp: find_Some_iff)
    then have t: "irq_taken st i" by (simp add: irq_taken_iff)
    have best: "j = i \<or> irq_rank j < irq_rank i" if "irq_taken st j" for j
      using sorted_find[OF priority_sorted Some, of j] that irq_taken_iff[of j st] by (auto simp: irq_taken_def priority_set)
    have m: "mode (cpu st) \<le> irq_level st i" using t by (auto simp: irq_taken_def)
    have "delegS (isa_query_intr st) st = bit (csr st CSR_mideleg) i"
      using Some t irq_cause[OF irq_small[OF i(1)]]
      by (auto simp: query_find irq_taken_def irq_level_def delegS_def Let_def mode_defs and_exp_eq_0_iff_not_bit split: if_splits)
    moreover have "isa_query_intr st = of_nat i OR 2 ^ 63" "isa_query_intr st \<noteq> INTR_EMPTY"
      using Some irq_cause[OF irq_small[OF i(1)]] by (simp_all add: query_find INTR_BIT_def)
    ultimately show ?thesis using t best m by blast
  qed
qed

lemma find_cong_None: "(\<And>x. x \<in> set xs \<Longrightarrow> \<not> P x) \<Longrightarrow> find P xs = None"
  by (auto simp: find_None_iff)

text \<open>After a trap into machine mode no interrupt is taken, whatever is pending, until the
  handler turns interrupts on; after a trap into supervisor mode none that is delegated is.\<close>

theorem trap_masks_interrupts:
  assumes "raise_intr NO epc st = Ret pc st'"
  shows "if delegS NO st then (\<forall>i. bit (csr st' CSR_mideleg) i \<longrightarrow> \<not> irq_enabled st' i)
    else isa_query_intr st' = INTR_EMPTY"
proof -
  note p = raise_intr_post[OF assms]
  show ?thesis
  proof (cases "delegS NO st")
    case True
    with p have "mode (cpu st') = MODE_S" "ms Ms_sie st' = 0" by (simp_all add: trap_post_def)
    with True show ?thesis by (simp add: irq_enabled_def msb_on_def and_exp_eq_0_iff_not_bit Let_def)
  next
    case False
    with p have "mode (cpu st') = MODE_M" "ms Ms_mie st' = 0" by (simp_all add: trap_post_def)
    then have "\<not> irq_enabled st' i" for i by (simp add: irq_enabled_def msb_on_def Let_def mode_defs)
    with False show ?thesis by (simp add: query_find find_cong_None)
  qed
qed

section \<open>Keeping the cached MMU state\<close>

text \<open>The two cached modes depend on the privilege mode, two fields of \<open>mstatus\<close> and \<open>satp\<close>.\<close>

definition mmu_inputs :: "machine \<Rightarrow> uint64 \<times> uint64 \<times> uint64 \<times> uint64" where
  "mmu_inputs st = (mode (cpu st), ms Ms_mprv st, ms Ms_mpp st, csr st CSR_satp)"

lemma mmu_coherent_cong:
  "mmu_inputs st' = mmu_inputs st \<Longrightarrow> ifetch_mmu_state st' = ifetch_mmu_state st \<Longrightarrow>
     data_mmu_state st' = data_mmu_state st \<Longrightarrow> mmu_coherent st \<Longrightarrow> mmu_coherent st'"
  by (simp add: mmu_coherent_def mmu_want_def eff_mode_def msb_on_def mmu_inputs_def satp_mode_def)

definition same_mmu :: "machine \<Rightarrow> machine \<Rightarrow> bool" where
  "same_mmu st st' \<longleftrightarrow> mmu_inputs st' = mmu_inputs st \<and> ifetch_mmu_state st' = ifetch_mmu_state st \<and>
     data_mmu_state st' = data_mmu_state st"

lemma same_mmu_trans: "same_mmu a b \<Longrightarrow> same_mmu b c \<Longrightarrow> same_mmu a c"
  by (simp add: same_mmu_def)

lemma same_mmu_set_csr: "a \<noteq> CSR_mstatus \<Longrightarrow> a \<noteq> CSR_satp \<Longrightarrow> same_mmu st (set_csr a v st)"
  by (simp add: same_mmu_def mmu_inputs_def)

lemma same_mmu_set_ms: "f \<noteq> Ms_mprv \<Longrightarrow> f \<noteq> Ms_mpp \<Longrightarrow> same_mmu st (set_ms f v st)"
  by (simp add: same_mmu_def mmu_inputs_def ms_set_ms)

lemma same_mmu_sd: "same_mmu st (update_mstatus_sd st)"
  by (simp add: update_mstatus_sd_def same_mmu_set_ms)

lemma fld_mask_bitset:
  assumes "fld f msk = 0"
  shows "fld f (mask_bitset old msk v) = fld f old"
proof (rule bit_word_eqI)
  fix n assume "n < LENGTH(64)"
  from assms have "\<not> bit (fld f msk) n" by simp
  then show "bit (fld f (mask_bitset old msk v)) n = bit (fld f old) n"
    by (auto simp: bit_fld mask_bitset_def bit_simps dest: bit_imp_le_length)
qed

lemma sstatus_outside:
  "f \<in> {Ms_mprv, Ms_mpp, Ms_mie, Ms_mpie} \<Longrightarrow> fld (mstatus_f f) (mask_bitset old SSTATUS_WMASK v) = fld (mstatus_f f) old"
  by (rule fld_mask_bitset) (auto simp: SSTATUS_WMASK_def fld_def)

lemma same_mmu_store: "c \<noteq> CsrArr CSR_mstatus \<Longrightarrow> c \<noteq> CsrArr CSR_satp \<Longrightarrow> same_mmu st (csr_store c v st)"
  using sstatus_outside[of Ms_mprv "csr st CSR_mstatus" v] sstatus_outside[of Ms_mpp "csr st CSR_mstatus" v]
  by (cases c) (auto simp: csr_store_def Let_def same_mmu_def mmu_inputs_def csr_addr_defs ms_def)

lemma same_mmu_other [simp]:
  "same_mmu st (st\<lparr>nemu_rm_cache := r\<rparr>)" "same_mmu st (st\<lparr>g_sys_state_flag := x\<rparr>)" "same_mmu st st"
  by (simp_all add: same_mmu_def mmu_inputs_def ms_def)

lemma same_mmu_modify: "(\<And>st. same_mmu st (f st)) \<Longrightarrow> pres (same_mmu s0) E (modify f)"
  by (rule pres_modify) (rule same_mmu_trans)

lemma same_mmu_fp: "pres (same_mmu s0) E fp_set_dirty" "pres (same_mmu s0) E (fp_update_rm_cache rm)"
    "pres (same_mmu s0) E (set_sys_state_flag x)"
  unfolding fp_set_dirty_def fp_update_rm_cache_def set_sys_state_flag_def
  by (auto intro!: pres_intro same_mmu_modify same_mmu_trans[OF same_mmu_set_ms same_mmu_set_ms])

lemma same_mmu_write:
  "c \<noteq> CsrArr CSR_mstatus \<Longrightarrow> c \<noteq> CsrArr CSR_satp \<Longrightarrow> pres (same_mmu s0) (\<lambda>_ _. True) (csr_write c v)"
  unfolding csr_write_def Let_def
  by (simp only: simp_thms if_False) (intro pres_seqs pres_thn pres_if pres_bnd pres_pure same_mmu_modify same_mmu_store same_mmu_sd same_mmu_fp)

text \<open>Property C26: the cached MMU state stays coherent over every CSR write: a write of \<open>mstatus\<close> or
  \<open>satp\<close> makes it coherent whatever it was, and no other CSR, the supervisor view of \<open>mstatus\<close>
  included, can change what the state depends on.\<close>

theorem csr_write_mmu:
  assumes "csr_write c v st = Ret u st'" "mmu_coherent st \<or> c = CsrArr CSR_mstatus \<or> c = CsrArr CSR_satp"
  shows "mmu_coherent st'"
proof (cases "c = CsrArr CSR_mstatus \<or> c = CsrArr CSR_satp")
  case True
  from assms(1) obtain s b s' x where "update_mmu_state s = Ret b s'" "st' = s'\<lparr>g_sys_state_flag := x\<rparr>"
    using True by (auto simp: csr_write_def m_simps set_sys_state_flag_def csr_addr_defs split: res.splits if_splits)
  then show ?thesis
    using update_mmu_coherent[of s b s'] same_mmu_other(2)[of s' x] by (auto simp: same_mmu_def intro: mmu_coherent_cong)
next
  case False
  then have "same_mmu st st'"
    using presD_Ret[OF same_mmu_write _ assms(1), of st] by (simp add: same_mmu_other)
  with False assms(2) show ?thesis by (auto simp: same_mmu_def intro: mmu_coherent_cong)
qed

lemma spp_small: "ms Ms_spp st < 3" "ucast (ms Ms_spp st) < (3 :: uint32)"
proof -
  have "unat (ms Ms_spp st mod 2) < 2" by (simp only: unat_mod) simp
  then have "unat (ms Ms_spp st) < 2" by simp
  then show "ms Ms_spp st < 3" "ucast (ms Ms_spp st) < (3 :: uint32)"
    by (simp_all add: word_less_nat_alt unsigned_ucast_eq take_bit_nat_eq_self)
qed

lemma low_mode: "m < MODE_M \<Longrightarrow> ucast m < (3 :: uint32)" for m :: uint64
  by (simp add: MODE_M_def word_less_nat_alt unsigned_ucast_eq take_bit_nat_eq_self)

text \<open>\<open>sret\<close> does not recompute the cached MMU state. Executed below machine mode it keeps
  it coherent nevertheless; executed in machine mode with translation on, it enters the lower mode with
  the untranslated state of machine mode.\<close>

theorem sret_mmu:
  assumes "mmu_coherent st"
  shows "priv_instr 0x102 src st = Ret (csr st CSR_sepc) (sret_state st) \<and>
    (mode (cpu st) < MODE_M \<longrightarrow> mmu_coherent (sret_state st)) \<and>
    (mode (cpu st) = MODE_M \<longrightarrow> satp_mode st = 8 \<longrightarrow> mode (cpu (sret_state st)) < MODE_M \<and>
       \<not> mmu_coherent (sret_state st))"
proof -
  have f: "ms f (sret_state st) = ms f st" if "f \<in> {Ms_mprv, Ms_mpp}" for f
    using that by (auto simp: sret_fields)
  have s: "satp_mode (sret_state st) = satp_mode st" by (simp add: satp_mode_def sret_fields)
  have i: "ifetch_mmu_state (sret_state st) = ifetch_mmu_state st" "data_mmu_state (sret_state st) = data_mmu_state st"
    by (simp_all add: sret_state_def Let_def set_mode_def)
  have "mmu_coherent (sret_state st)" if "mode (cpu st) < MODE_M"
    using assms low_mode[OF that] spp_small(2)[of st]
    by (auto simp: mmu_coherent_def mmu_want_def eff_mode_def msb_on_def f s i sret_fields(1))
  moreover have "\<not> mmu_coherent (sret_state st)" if "mode (cpu st) = MODE_M" "satp_mode st = 8"
    using assms that spp_small(2)[of st]
    by (auto simp: mmu_coherent_def mmu_want_def eff_mode_def msb_on_def f s i sret_fields(1) mode_defs)
  ultimately show ?thesis using spp_small(1)[of st] by (simp add: sret_Ret sret_fields MODE_M_def)
qed

text \<open>\<open>mret\<close> and \<open>sret\<close> do not look at the mode they run in: no state makes them raise an
  exception, and where they return the new mode is the stacked one, so a user program reaches machine
  mode through a stacked machine mode.\<close>

theorem xret_unchecked:
  "priv_instr 0x302 src st \<noteq> LongJmp c st' \<and>
   (satp_ok st \<longrightarrow> (\<exists>st'. priv_instr 0x302 src st = Ret (csr st CSR_mepc) st' \<and> mode (cpu st') = ms Ms_mpp st)) \<and>
   priv_instr 0x102 src st = Ret (csr st CSR_sepc) (sret_state st) \<and> mode (cpu (sret_state st)) = ms Ms_spp st"
proof -
  have "priv_instr 0x302 src st \<noteq> LongJmp c st'"
    by (auto simp: priv_instr_def m_simps update_mmu_no_jump split: res.splits)
  then show ?thesis using mret_total[of st src] by (auto simp: sret_Ret sret_fields)
qed

section \<open>Witnesses\<close>

text \<open>A user program traps on a page fault that is delegated, with an external interrupt pending.\<close>

definition trap_example :: machine where
  "trap_example = set_csr CSR_mstatus 0x8 (set_csr CSR_medeleg 0xb109 (set_csr CSR_stvec 0x100 (set_mode MODE_U
     (set_csr CSR_mtvec 0x200 (set_csr CSR_mie 0x800 (set_csr CSR_mip 0x800 static_machine))))))"

lemma trap_example_ok: "satp_ok trap_example" "mode_ok trap_example" "mmu_coherent trap_example"
  by (simp_all add: trap_example_def satp_ok_def satp_mode_def mode_ok_def MODE_U_def mmu_coherent_def mmu_want_def
      eff_mode_def msb_on_def ms_def fld_def csr_addr_defs set_mode_def)

lemma trap_example_deleg: "delegS EX_LPF trap_example" "\<not> delegS 2 trap_example"
  by (simp_all add: trap_example_def delegS_def INTR_BIT_def EX_LPF_def csr_addr_defs mode_defs)

theorem trap_entry_witness:
  "\<exists>pc st'. raise_intr EX_LPF 0x80000000 trap_example = Ret pc st' \<and> pc = 0x100 \<and> csr st' CSR_sepc = 0x80000000"
proof -
  obtain pc st' where r: "raise_intr EX_LPF 0x80000000 trap_example = Ret pc st'"
    using trap_example_ok(1) by (rule raise_intr_total)
  from trap_entry[OF r] trap_example_deleg(1) have "pc = csr trap_example CSR_stvec" "csr st' CSR_sepc = 0x80000000"
    by (simp_all add: trap_post_def)
  with r show ?thesis by (simp add: trap_example_def csr_addr_defs)
qed

theorem trap_return_witness:
  "\<exists>pc st1 st2. raise_intr 2 0x80000000 trap_example = Ret pc st1 \<and> priv_instr 0x302 None st1 = Ret 0x80000000 st2 \<and>
     mode (cpu st2) = MODE_U"
proof -
  have "mode (cpu trap_example) = MODE_U" by (simp add: trap_example_def)
  with trap_return[OF trap_example_ok(1,2), of "2" "0x80000000" "None"] trap_example_deleg(2)
  show ?thesis by auto
qed

theorem interrupt_selection_witness: "isa_query_intr trap_example = 0x800000000000000b"
proof -
  have t: "irq_taken trap_example 11"
    by (simp add: irq_taken_def irq_level_def trap_example_def csr_addr_defs mode_defs)
  then obtain i where "11 = i \<or> irq_rank 11 < irq_rank i" "isa_query_intr trap_example = of_nat i OR 2 ^ 63"
    using interrupt_selection[of trap_example] by blast
  moreover have "irq_rank i \<le> 15" by (auto simp: irq_rank_def) 
  moreover have "irq_rank 11 = 15" by (simp add: irq_rank_def)
  ultimately show ?thesis by auto
qed

theorem trap_masks_interrupts_witness:
  "\<exists>pc st'. raise_intr 2 0x80000000 trap_example = Ret pc st' \<and> isa_query_intr st' = INTR_EMPTY"
proof -
  obtain pc st' where r: "raise_intr 2 0x80000000 trap_example = Ret pc st'"
    using trap_example_ok(1) by (rule raise_intr_total)
  with trap_masks_interrupts[OF r] trap_example_deleg(2) show ?thesis by auto
qed

lemma csr_write_satp:
  assumes "satp_ok (set_csr CSR_satp v st)"
  obtains st' where "csr_write (CsrArr CSR_satp) v st = Ret () st'"
proof -
  obtain b s where "update_mmu_state (set_csr CSR_satp v st) = Ret b s"
    using assms by (rule update_mmu_total)
  then show ?thesis
    by (intro that) (simp add: csr_write_def csr_store_def m_simps set_sys_state_flag_def csr_addr_defs)
qed

theorem csr_write_mmu_witness:
  "\<exists>st'. csr_write (CsrArr CSR_satp) 0x8000000000080000 trap_example = Ret () st' \<and> mmu_coherent st'"
proof -
  have "satp_ok (set_csr CSR_satp 0x8000000000080000 trap_example)"
    by (simp add: satp_ok_def satp_mode_def fld_def)
  then obtain st' where w: "csr_write (CsrArr CSR_satp) 0x8000000000080000 trap_example = Ret () st'"
    by (rule csr_write_satp)
  with csr_write_mmu[OF w] show ?thesis by blast
qed

text \<open>Machine mode with translation on.\<close>

theorem sret_mmu_witness:
  "mmu_coherent (set_mode MODE_M (set_csr CSR_satp 0x8000000000080000 static_machine)) \<and>
   \<not> mmu_coherent (sret_state (set_mode MODE_M (set_csr CSR_satp 0x8000000000080000 static_machine)))"
proof -
  let ?s = "set_mode MODE_M (set_csr CSR_satp 0x8000000000080000 static_machine)"
  have c: "mmu_coherent ?s" "satp_mode ?s = 8" "mode (cpu ?s) = MODE_M"
    by (simp_all add: mmu_coherent_def mmu_want_def eff_mode_def msb_on_def ms_def fld_def satp_mode_def set_mode_def
        csr_addr_defs MODE_M_def)
  with sret_mmu[OF c(1)] show ?thesis by simp
qed

theorem xret_unchecked_witness:
  "\<exists>st'. priv_instr 0x302 None (set_csr CSR_mstatus 0x1800 static_machine) = Ret 0 st' \<and> mode (cpu st') = MODE_M \<and>
     mode (cpu (set_csr CSR_mstatus 0x1800 static_machine)) = MODE_U"
proof -
  let ?s = "set_csr CSR_mstatus 0x1800 static_machine"
  have "satp_ok ?s" "ms Ms_mpp ?s = MODE_M"
    by (simp_all add: satp_ok_def satp_mode_def ms_def fld_def MODE_M_def)
  then show ?thesis using xret_unchecked[of None ?s] by (auto simp: MODE_U_def csr_addr_defs)
qed

end
