(* ===== verification/CsrProps.thy ===== *)
theory CsrProps
  imports Traps Fp
begin

text \<open>
  Properties of CSR access (\<open>system/priv.c\<close>, \<open>instr/fp.c\<close>): the supervisor views are windows on the
  machine registers, the three floating-point CSRs are two fields of one register, an illegal access
  raises an exception before anything changes, and the writes that take the host down.
\<close>

section \<open>Fields of masked writes\<close>

lemma fld_mask_all:
  assumes "fld f msk = mask (snd f)" "fst f + snd f \<le> 64"
  shows "fld f (mask_bitset old msk v) = fld f v"
proof (rule bit_word_eqI)
  fix n assume "n < LENGTH(64)"
  with assms have m: "n < snd f \<longrightarrow> bit msk (fst f + n)"
    using bit_fld[of f msk n] by (auto simp: bit_mask_iff)
  with \<open>n < LENGTH(64)\<close> assms(2) show "bit (fld f (mask_bitset old msk v)) n = bit (fld f v) n"
    by (auto simp: bit_fld mask_bitset_def bit_simps)
qed

lemma fld_and_all: "fld f msk = mask (snd f) \<Longrightarrow> fst f + snd f \<le> 64 \<Longrightarrow> fld f (w AND msk) = fld f w"
  by (rule bit_word_eqI) (use bit_fld[of f msk] in \<open>auto simp: bit_fld bit_simps\<close>)

lemma fld_and_none: "fld f msk = 0 \<Longrightarrow> fld f (w AND msk) = 0"
  by (rule bit_word_eqI) (use bit_fld[of f msk] in \<open>auto simp: bit_fld bit_simps\<close>)

section \<open>The supervisor view of \<open>mstatus\<close>\<close>

definition sstatus_writable :: "mstatus_field set" where
  "sstatus_writable = {Ms_sie, Ms_spie, Ms_spp, Ms_fs, Ms_sum, Ms_mxr}"

definition sstatus_readable :: "mstatus_field set" where
  "sstatus_readable = sstatus_writable \<union> {Ms_xs, Ms_uxl, Ms_sd}"

lemma wmask_fields: "fld (mstatus_f f) SSTATUS_WMASK = (if f \<in> sstatus_writable then mask (snd (mstatus_f f)) else 0)"
  by (cases f) (simp_all add: SSTATUS_WMASK_def sstatus_writable_def fld_def mask_numeral)

lemma rmask_fields: "fld (mstatus_f f) SSTATUS_RMASK = (if f \<in> sstatus_readable then mask (snd (mstatus_f f)) else 0)"
  by (cases f) (simp_all add: SSTATUS_RMASK_def SSTATUS_WMASK_def sstatus_writable_def sstatus_readable_def fld_def mask_numeral)

lemma sstatus_store_fields:
  "ms f (csr_store (CsrArr CSR_sstatus) v st) = (if f \<in> sstatus_writable then fld (mstatus_f f) v else ms f st)"
  using wmask_fields[of f] mstatus_bound[of f]
  by (simp add: csr_store_def ms_def fld_mask_all fld_mask_bitset)

lemma write_sstatus_Ret:
  "csr_write (CsrArr CSR_sstatus) v st =
     Ret () (update_mstatus_sd (csr_store (CsrArr CSR_sstatus) v st)
       \<lparr>g_sys_state_flag := g_sys_state_flag st OR SYS_STATE_UPDATE\<rparr>)"
  by (simp add: csr_write_def m_simps set_sys_state_flag_def csr_addr_defs update_mstatus_sd_def set_ms_def csr_store_def
      set_csr_def)

lemma ms_sd: "ms f (update_mstatus_sd st) = (if f = Ms_sd then (if ms Ms_fs st = 3 then 1 else 0) else ms f st)"
  by (simp add: update_mstatus_sd_def ms_set_ms)

lemma view_sstatus: "fld (mstatus_f f) (csr_view (CsrArr CSR_sstatus) st) = (if f \<in> sstatus_readable then ms f st else 0)"
  using rmask_fields[of f] mstatus_bound[of f] by (simp add: csr_view_def ms_def fld_and_all fld_and_none)

text \<open>\<open>sstatus\<close> is a window on \<open>mstatus\<close>. A write through it changes the six writable fields
  to the value written and the summary bit, and leaves every machine-level field and every other CSR
  alone; a read returns the readable fields of the result and zero in the others.\<close>

theorem sstatus_window:
  "\<exists>st'. csr_write (CsrArr CSR_sstatus) v st = Ret () st' \<and>
     (\<forall>f. ms f st' = (if f \<in> sstatus_writable then fld (mstatus_f f) v
        else if f = Ms_sd then (if fld (mstatus_f Ms_fs) v = 3 then 1 else 0) else ms f st)) \<and>
     csr st' = (csr st)(CSR_mstatus := csr st' CSR_mstatus) \<and>
     (\<forall>f. fld (mstatus_f f) (csr_view (CsrArr CSR_sstatus) st') = (if f \<in> sstatus_readable then ms f st' else 0))"
proof -
  let ?s = "update_mstatus_sd (csr_store (CsrArr CSR_sstatus) v st)
       \<lparr>g_sys_state_flag := g_sys_state_flag st OR SYS_STATE_UPDATE\<rparr>"
  have "ms f ?s = ms f (update_mstatus_sd (csr_store (CsrArr CSR_sstatus) v st))" for f
    by (simp add: ms_def)
  moreover have "csr ?s = (csr st)(CSR_mstatus := csr ?s CSR_mstatus)"
    by (rule ext) (simp add: update_mstatus_sd_def csr_store_def)
  moreover have "Ms_fs \<in> sstatus_writable" "Ms_sd \<notin> sstatus_writable" by (simp_all add: sstatus_writable_def)
  ultimately show ?thesis
    by (intro exI[of _ ?s]) (auto simp: write_sstatus_Ret ms_sd sstatus_store_fields view_sstatus)
qed

section \<open>The floating-point CSRs\<close>

text \<open>Three addresses, two fields, and two places that hold them: a read shows the fields of the word of
  \<open>fcsr\<close>, and the words of \<open>frm\<close> and \<open>fflags\<close> are kept beside it. The two places agree after a write to
  any of the three, and part when an instruction raises a flag.\<close>

definition fp_kept :: "machine \<Rightarrow> uint64 \<times> uint64" where
  "fp_kept st = (csr st CSR_frm, csr st CSR_fflags)"

definition kept_ok :: "machine \<Rightarrow> bool" where
  "kept_ok st \<longleftrightarrow> take_bit 3 (csr st CSR_frm) = csr st CSR_frm \<and> take_bit 5 (csr st CSR_fflags) = csr st CSR_fflags"

definition fp_sync :: "machine \<Rightarrow> bool" where
  "fp_sync st \<longleftrightarrow> csr st CSR_fcsr = push_bit 5 (csr st CSR_frm) OR csr st CSR_fflags \<and> kept_ok st"

definition fp_abs :: "machine \<Rightarrow> uint64 \<times> uint64" where
  "fp_abs st = (fld (fcsr_f Fcsr_frm) (csr st CSR_fcsr), fld (fcsr_f Fcsr_fflags) (csr st CSR_fcsr))"

definition fp_addrs :: "12 word set" where
  "fp_addrs = {CSR_fflags, CSR_frm, CSR_fcsr}"

definition fp_write :: "12 word \<Rightarrow> uint64 \<Rightarrow> uint64 \<times> uint64 \<Rightarrow> uint64 \<times> uint64" where
  "fp_write a v p = (if a = CSR_fflags then (fst p, take_bit 5 v) else if a = CSR_frm then (take_bit 3 v, snd p)
     else (take_bit 3 (drop_bit 5 v), take_bit 5 v))"

definition fp_view :: "12 word \<Rightarrow> uint64 \<times> uint64 \<Rightarrow> uint64" where
  "fp_view a p = (if a = CSR_fflags then snd p else if a = CSR_frm then fst p else push_bit 5 (fst p) OR snd p)"

lemma fp_masks: "FFLAGS_MASK = mask 5" "FRM_MASK = mask 3" "FCSR_MASK = mask 8"
  by (simp_all add: FFLAGS_MASK_def FRM_MASK_def FCSR_MASK_def mask_numeral)

lemma fp_join0:
  fixes r f :: uint64
  shows "take_bit 3 (drop_bit 5 (push_bit 5 (take_bit 3 r) OR take_bit 5 f)) = take_bit 3 r"
    "take_bit 5 (push_bit 5 (take_bit 3 r) OR take_bit 5 f) = take_bit 5 f"
  by (rule bit_word_eqI; auto simp: bit_simps)+

lemma fp_join:
  fixes r f :: uint64
  assumes "take_bit 3 r = r" "take_bit 5 f = f"
  shows "take_bit 3 (drop_bit 5 (push_bit 5 r OR f)) = r" "take_bit 5 (push_bit 5 r OR f) = f"
  using fp_join0[of r f] unfolding assms by blast+

lemma fp_split: "push_bit 5 (take_bit 3 (drop_bit 5 v)) OR take_bit 5 v = take_bit 8 v" for v :: uint64
  by (rule bit_word_eqI) (auto simp: bit_simps)

lemma fcsr_flds: "fld (5, 3) w = take_bit 3 (drop_bit 5 w)" "fld (0, 5) w = take_bit 5 w"
  by (simp_all add: fld_def)

lemma fp_abs_sync: "fp_sync st \<Longrightarrow> fp_abs st = fp_kept st"
  using fp_join[of "csr st CSR_frm" "csr st CSR_fflags"] unfolding fp_abs_def fp_sync_def fp_kept_def kept_ok_def
  by (auto simp only: fcsr_f.simps fcsr_flds)

lemma fp_store:
  assumes "kept_ok st" "a \<in> fp_addrs"
  shows "fp_sync (csr_store (CsrArr a) v st)" "fp_kept (csr_store (CsrArr a) v st) = fp_write a v (fp_kept st)"
    "fp_abs (csr_store (CsrArr a) v st) = fp_write a v (fp_kept st)"
proof -
  have d: "CSR_fflags \<noteq> CSR_frm" "CSR_fflags \<noteq> CSR_fcsr" "CSR_frm \<noteq> CSR_fcsr"
    by (simp_all add: csr_addr_defs)
  have "fp_sync (csr_store (CsrArr a) v st) \<and> fp_kept (csr_store (CsrArr a) v st) = fp_write a v (fp_kept st)"
    using assms d fp_split[of v]
    by (auto simp: fp_addrs_def csr_store_def Let_def fp_sync_def kept_ok_def fp_kept_def fp_write_def fp_masks
        take_bit_eq_mask[symmetric] csr_addr_defs)
  then show "fp_sync (csr_store (CsrArr a) v st)" "fp_kept (csr_store (CsrArr a) v st) = fp_write a v (fp_kept st)"
    "fp_abs (csr_store (CsrArr a) v st) = fp_write a v (fp_kept st)"
    using fp_abs_sync by auto
qed

lemma fp_frame:
  assumes "csr st' CSR_fcsr = csr st CSR_fcsr" "csr st' CSR_frm = csr st CSR_frm" "csr st' CSR_fflags = csr st CSR_fflags"
  shows "fp_sync st' = fp_sync st" "fp_abs st' = fp_abs st" "fp_kept st' = fp_kept st"
  using assms by (simp_all add: fp_sync_def fp_abs_def fp_kept_def kept_ok_def)

lemma fp_views:
  assumes "b \<in> fp_addrs"
  shows "csr_view (CsrArr b) st = fp_view b (fp_abs st)" "csr_read (CsrArr b) st = Ret (fp_view b (fp_abs st)) st"
proof -
  have d: "b \<noteq> CSR_sstatus \<and> b \<noteq> CSR_sie \<and> b \<noteq> CSR_sip \<and> b \<noteq> CSR_mstatus"
    "CSR_fflags \<noteq> CSR_frm" "CSR_fflags \<noteq> CSR_fcsr" "CSR_frm \<noteq> CSR_fcsr"
    using assms by (auto simp: fp_addrs_def csr_addr_defs)
  show v: "csr_view (CsrArr b) st = fp_view b (fp_abs st)"
    using assms d fp_split[of "csr st CSR_fcsr"]
    by (auto simp: fp_addrs_def csr_view_def fp_view_def fp_masks take_bit_eq_mask[symmetric] fp_abs_def fcsr_flds)
  then show "csr_read (CsrArr b) st = Ret (fp_view b (fp_abs st)) st" using d by (simp add: csr_read_def)
qed

text \<open>The flags of an exception set, bit by bit: inexact, underflow, overflow, division by zero, invalid.\<close>

definition ex_flag :: "uint32 \<Rightarrow> nat \<Rightarrow> bool" where
  "ex_flag ex i \<longleftrightarrow> i < 5 \<and> ex AND [FPCALL_EX_NX, FPCALL_EX_UF, FPCALL_EX_OF, FPCALL_EX_DZ, FPCALL_EX_NV] ! i \<noteq> 0"

lemma ex_flag_cases:
  "ex_flag ex i \<longleftrightarrow> (((ex AND FPCALL_EX_NX \<noteq> 0 \<and> i = 0 \<or> ex AND FPCALL_EX_UF \<noteq> 0 \<and> i = 1) \<or>
     ex AND FPCALL_EX_OF \<noteq> 0 \<and> i = 2) \<or> ex AND FPCALL_EX_DZ \<noteq> 0 \<and> i = 3) \<or> ex AND FPCALL_EX_NV \<noteq> 0 \<and> i = 4"
proof -
  have "i < 5 \<longleftrightarrow> i = 0 \<or> i = 1 \<or> i = 2 \<or> i = 3 \<or> i = 4" by presburger
  then show ?thesis unfolding ex_flag_def by (elim ssubst) auto
qed

lemma flag_bits:
  "bit (1 :: uint64) i = (i = 0)" "bit (2 :: uint64) i = (i = 1)" "bit (4 :: uint64) i = (i = 2)"
  "bit (8 :: uint64) i = (i = 3)" "bit (0x10 :: uint64) i = (i = 4)"
proof -
  have e: "bit ((2 :: uint64) ^ k) i = (i = k)" if "k < 64" for k using that by (auto simp: bit_exp_iff)
  show "bit (1 :: uint64) i = (i = 0)" by (simp add: bit_1_iff)
  show "bit (2 :: uint64) i = (i = 1)" using e[of 1] by simp
  have n: "(4 :: uint64) = 2 ^ 2" "(8 :: uint64) = 2 ^ 3" "(0x10 :: uint64) = 2 ^ 4" by simp_all
  show "bit (4 :: uint64) i = (i = 2)" "bit (8 :: uint64) i = (i = 3)" "bit (0x10 :: uint64) i = (i = 4)"
    unfolding n by (rule e, simp)+
qed

lemma bit_if: "bit (if P then w else 0) i \<longleftrightarrow> P \<and> bit w i"
  by simp

lemma raise_flags:
  "\<exists>st' fs. isa_fp_set_ex ex st = Ret () st' \<and> fp_abs st' = (fst (fp_abs st), snd (fp_abs st) OR fs) \<and>
     (\<forall>i. bit fs i \<longleftrightarrow> ex_flag ex i) \<and> fp_kept st' = fp_kept st \<and> ms Ms_fs st' = 3 \<and> ms Ms_sd st' = 1"
proof -
  obtain fs where fs: "isa_fp_set_ex ex st = Ret () (set_ms Ms_fs 3 (set_ms Ms_sd 1 (set_csr CSR_fcsr
      (set_fld (fcsr_f Fcsr_fflags) (fld (fcsr_f Fcsr_fflags) (csr st CSR_fcsr) OR fs) (csr st CSR_fcsr)) st)))"
    "\<forall>i. bit fs i \<longleftrightarrow> ex_flag ex i"
  proof
    let ?f = "((((if ex AND FPCALL_EX_NX \<noteq> 0 then 1 else 0) OR (if ex AND FPCALL_EX_UF \<noteq> 0 then 2 else 0)) OR
      (if ex AND FPCALL_EX_OF \<noteq> 0 then 4 else 0)) OR (if ex AND FPCALL_EX_DZ \<noteq> 0 then 8 else 0)) OR
      (if ex AND FPCALL_EX_NV \<noteq> 0 then 0x10 else 0) :: uint64"
    show "isa_fp_set_ex ex st = Ret () (set_ms Ms_fs 3 (set_ms Ms_sd 1 (set_csr CSR_fcsr
      (set_fld (fcsr_f Fcsr_fflags) (fld (fcsr_f Fcsr_fflags) (csr st CSR_fcsr) OR ?f) (csr st CSR_fcsr)) st)))"
      by (simp add: isa_fp_set_ex_def m_simps fp_set_dirty_def Let_def)
    show "\<forall>i. bit ?f i \<longleftrightarrow> ex_flag ex i"
    proof
      fix i :: nat
      have "bit ?f i \<longleftrightarrow> (((ex AND FPCALL_EX_NX \<noteq> 0 \<and> i = 0 \<or> ex AND FPCALL_EX_UF \<noteq> 0 \<and> i = 1) \<or>
          ex AND FPCALL_EX_OF \<noteq> 0 \<and> i = 2) \<or> ex AND FPCALL_EX_DZ \<noteq> 0 \<and> i = 3) \<or> ex AND FPCALL_EX_NV \<noteq> 0 \<and> i = 4"
        by (simp only: bit_or_iff bit_if flag_bits)
      then show "bit ?f i \<longleftrightarrow> ex_flag ex i" by (simp only: ex_flag_cases)
    qed
  qed
  have fs5: "take_bit 5 (take_bit 5 w OR fs) = take_bit 5 w OR fs" for w
    using fs(2) by (intro bit_word_eqI) (auto simp: bit_simps ex_flag_def)
  let ?w = "csr st CSR_fcsr"
  let ?w' = "set_fld (fcsr_f Fcsr_fflags) (fld (fcsr_f Fcsr_fflags) ?w OR fs) ?w"
  let ?st' = "set_ms Ms_fs 3 (set_ms Ms_sd 1 (set_csr CSR_fcsr ?w' st))"
  have "fld (fcsr_f Fcsr_fflags) ?w' = fld (fcsr_f Fcsr_fflags) ?w OR fs"
    using fld_set_fld_same[of "(0, 5)" "take_bit 5 ?w OR fs" ?w] fs5[of ?w] by (simp only: fcsr_f.simps fcsr_flds) simp
  moreover have "fld (fcsr_f Fcsr_frm) ?w' = fld (fcsr_f Fcsr_frm) ?w"
    by (rule fld_set_fld_other) (simp_all add: fld_disjoint_def)
  ultimately have "fp_abs ?st' = (fst (fp_abs st), snd (fp_abs st) OR fs)"
    by (simp add: fp_abs_def csr_addr_defs del: fcsr_f.simps)
  moreover have "fp_kept ?st' = fp_kept st" "ms Ms_fs ?st' = 3" "ms Ms_sd ?st' = 1"
    by (simp_all add: fp_kept_def csr_addr_defs ms_set_ms)
  ultimately show ?thesis using fs by blast
qed

lemma rm_of_small: "rm_of (ucast r) = (if r \<le> 4 then Some (ucast r) else None)" if "r < 8" for r :: uint64
proof -
  have "r \<in> {0, 1, 2, 3, 4, 5, 6, 7}"
    using that by (simp add: word_less_nat_alt word_unat_eq_iff) presburger
  then show ?thesis by (auto simp: rm_of_def fpcall_rm_defs)
qed

lemma frm_bound: "fst (fp_abs st) < 8"
  using fld_less[of "fcsr_f Fcsr_frm" "csr st CSR_fcsr"] by (simp add: fp_abs_def word_less_nat_alt)

lemma write_fp:
  fixes v st
  assumes "a \<in> fp_addrs"
  defines "s1 \<equiv> csr_store (CsrArr a) v st"
  shows "csr_write (CsrArr a) v st = (if fst (fp_abs s1) \<le> 4
     then Ret () (update_mstatus_sd ((set_ms Ms_fs 3 (set_ms Ms_sd 1 s1))\<lparr>nemu_rm_cache := ucast (fst (fp_abs s1))\<rparr>))
     else Crash Assert_fail)"
proof -
  let ?s2 = "set_ms Ms_fs 3 (set_ms Ms_sd 1 s1)"
  have f: "fld (fcsr_f Fcsr_frm) (csr ?s2 CSR_fcsr) = fst (fp_abs s1)"
    by (simp add: fp_abs_def csr_addr_defs)
  have d: "a \<noteq> CSR_sstatus" "a \<noteq> CSR_mstatus" "a \<noteq> CSR_satp" "a \<noteq> CSR_sie" "a \<noteq> CSR_mie" "a \<noteq> CSR_mip" "a \<noteq> CSR_sip"
    "a = CSR_fflags \<or> a = CSR_frm \<or> a = CSR_fcsr"
    using assms(1) by (auto simp: fp_addrs_def csr_addr_defs)
  show ?thesis
    using f rm_of_small[OF frm_bound, of s1] d
    by (simp add: csr_write_def m_simps fp_set_dirty_def fp_update_rm_cache_def s1_def[symmetric] del: fcsr_f.simps)
qed


text \<open>The flags that an instruction raises are lost by the next write of the rounding mode.
  The instruction adds them to the word of \<open>fcsr\<close> only; the write rebuilds that word from the word of
  \<open>fflags\<close>, so the flags afterwards are those from before the instruction.\<close>

theorem frm_write_loses_flags:
  assumes "fp_sync st" "isa_fp_set_ex ex st = Ret u st1" "csr_write (CsrArr CSR_frm) v st1 = Ret u' st2"
  shows "fp_abs st2 = (take_bit 3 v, snd (fp_abs st))"
proof -
  have a: "CSR_frm \<in> fp_addrs" by (simp add: fp_addrs_def)
  have k: "fp_kept st1 = fp_kept st" using raise_flags[of ex st] assms(2) by auto
  then have "kept_ok st1" using assms(1) by (simp add: fp_sync_def kept_ok_def fp_kept_def)
  from fp_store(3)[OF this a, of v] have "fp_abs (csr_store (CsrArr CSR_frm) v st1) = fp_write CSR_frm v (fp_abs st)"
    by (simp add: k fp_abs_sync[OF assms(1)])
  moreover have "fp_abs st2 = fp_abs (csr_store (CsrArr CSR_frm) v st1)"
    using write_fp[OF a, of v st1] assms(3)
    by (auto simp: fp_abs_def update_mstatus_sd_def csr_addr_defs split: if_splits simp del: fcsr_f.simps)
  ultimately show ?thesis by (simp add: fp_write_def csr_addr_defs)
qed

section \<open>Access control\<close>

definition csr_accessible :: "uint32 \<Rightarrow> machine \<Rightarrow> bool" where
  "csr_accessible addr st \<longleftrightarrow> csr_exist (ucast addr) \<and> ucast (drop_bit 8 addr AND 3) \<le> mode (cpu st)"

lemma csr_is_legal_accessible: "addr < 4096 \<Longrightarrow> csr_is_legal addr st = Ret (csr_accessible addr st) st"
proof -
  have "drop_bit 8 (addr AND push_bit 8 0b11) = drop_bit 8 addr AND 3"
    by (rule bit_word_eqI) (auto simp: bit_simps push_bit_eq_mult)
  then show "addr < 4096 \<Longrightarrow> csr_is_legal addr st = Ret (csr_accessible addr st) st"
    by (simp add: csr_is_legal_def csr_accessible_def)
qed

text \<open>The CSRs that are plain words: no view, no mask, no side effect.\<close>

definition plain_csrs :: "12 word set" where
  "plain_csrs = {CSR_misa, CSR_mtvec, CSR_mcounteren, CSR_mscratch, CSR_mepc, CSR_mcause, CSR_mtval, CSR_pmpcfg0,
     CSR_pmpaddr0, CSR_pmpaddr1, CSR_pmpaddr2, CSR_pmpaddr3, CSR_mhartid, CSR_stvec, CSR_scounteren,
     CSR_sscratch, CSR_sepc, CSR_scause, CSR_stval}"

lemma plain_access:
  assumes "a \<in> plain_csrs"
  shows "csr_read (CsrArr a) st = Ret (csr st a) st" "csr_write (CsrArr a) v st = Ret () (set_csr a v st)"
  using assms
  by (auto simp: plain_csrs_def csr_read_def csr_view_def csr_write_def csr_store_def m_simps csr_addr_defs)

lemma csr_decode_arr:
  assumes "addr < 4096" "csr_exist (ucast addr)"
  shows "csr_decode addr st = Ret (CsrArr (ucast addr)) st"
proof -
  have "unat addr < 2 ^ 12" using assms(1) by (simp add: word_less_nat_alt)
  then have "addr = ucast (ucast addr :: 12 word)"
    by (simp add: word_unat_eq_iff unsigned_ucast_eq unsigned_take_bit_eq take_bit_nat_eq_self)
  moreover obtain c where "c = (ucast addr :: 12 word)" "c \<in> set CSRS"
    using assms(2) by (simp add: csr_exist_def)
  ultimately have "addr \<in> ucast ` set CSRS" by (metis imageI)
  then have "\<not> (addr \<ge> 0xb00 \<and> addr \<le> 0xb1f \<or> addr \<ge> 0x320 \<and> addr \<le> 0x33f)"
    by (auto simp: CSRS_def csr_addr_defs word_le_nat_alt)
  with assms(1) show ?thesis by (simp add: csr_decode_def m_simps)
qed

text \<open>A CSR instruction that names an unimplemented CSR, or one of a higher privilege level,
  raises the illegal-instruction exception before any register or CSR changes. A legal one on a plain
  CSR swaps: the CSR gets the source and the destination gets the old value, also when source and
  destination are the same register.\<close>

theorem csrrw_access:
  assumes "addr < 4096"
  shows "(\<not> csr_accessible addr st \<longrightarrow> csrrw dest src addr st = longjmp_exception EX_II st) \<and>
    (csr_accessible addr st \<longrightarrow> ucast addr \<in> plain_csrs \<longrightarrow>
       csrrw (Some (PGpr d)) (Some (PGpr r)) addr st =
         Ret () (set_csr (ucast addr) (gpr (cpu st) r)
           (st\<lparr>cpu := (cpu st)\<lparr>gpr := (gpr (cpu st))(d := csr st (ucast addr))\<rparr>\<rparr>)))"
  using csr_is_legal_accessible[OF assms] csr_decode_arr[OF assms]
  by (auto simp: csrrw_def m_simps plain_access csr_accessible_def)

text \<open>The read-only CSRs are not. Machine mode writes \<open>mhartid\<close>, whose address marks it
  read-only, without an exception.\<close>

theorem mhartid_writable:
  assumes "mode (cpu st) = MODE_M"
  shows "csrrw None (Some p) 0xf14 st = Ret () (set_csr CSR_mhartid (read_ptr st p) st)"
proof -
  have "csr_accessible 0xf14 st" using assms
    by (simp add: csr_accessible_def csr_exist_def CSRS_def csr_addr_defs MODE_M_def)
  then show ?thesis
    using csr_is_legal_accessible[of "0xf14" st] csr_decode_arr[of "0xf14" st] plain_access[of CSR_mhartid]
    by (simp add: csrrw_def m_simps csr_accessible_def CSR_mhartid_def plain_csrs_def)
qed

section \<open>Witnesses\<close>


theorem frm_write_loses_flags_witness:
  "\<exists>st1 st2. isa_fp_set_ex FPCALL_EX_NV static_machine = Ret () st1 \<and> snd (fp_abs st1) = 0x10 \<and>
     csr_write (CsrArr CSR_frm) 0 st1 = Ret () st2 \<and> snd (fp_abs st2) = 0"
proof -
  have s: "fp_sync static_machine" by (simp add: fp_sync_def kept_ok_def)
  define st1 where "st1 = set_ms Ms_fs 3 (set_ms Ms_sd 1 (set_csr CSR_fcsr 0x10 static_machine))"
  have 1: "isa_fp_set_ex FPCALL_EX_NV static_machine = Ret () st1" "snd (fp_abs st1) = 0x10"
    by (simp_all add: st1_def isa_fp_set_ex_def m_simps fp_set_dirty_def fpcall_ex_defs fp_abs_def csr_addr_defs
        fld_def set_fld_def Let_def)
  have "fst (fp_abs (csr_store (CsrArr CSR_frm) 0 st1)) = 0"
    by (simp add: fp_abs_def csr_store_def st1_def csr_addr_defs fld_def FRM_MASK_def)
  then obtain st2 where 2: "csr_write (CsrArr CSR_frm) 0 st1 = Ret () st2"
    using write_fp[of CSR_frm 0 st1] by (simp add: fp_addrs_def)
  from frm_write_loses_flags[OF s 1(1) 2] have "snd (fp_abs st2) = 0" by (simp add: fp_abs_def fcsr_flds)
  with 1 2 show ?thesis by blast
qed

theorem csrrw_access_witness:
  "csrrw (Some (PGpr 1)) None 0x300 static_machine = longjmp_exception EX_II static_machine \<and>
   csrrw (Some (PGpr 1)) (Some (PGpr 1)) 0x340 (set_csr CSR_mscratch 5 (set_mode MODE_M static_machine)) =
     Ret () (set_csr CSR_mscratch 0 (set_csr CSR_mscratch 5 (set_mode MODE_M
       (static_machine\<lparr>cpu := (cpu static_machine)\<lparr>gpr := (\<lambda>_. 0)(1 := 5)\<rparr>\<rparr>))))"
proof -
  have "\<not> csr_accessible 0x300 static_machine" by (simp add: csr_accessible_def)
  moreover have "csr_accessible 0x340 (set_csr CSR_mscratch 5 (set_mode MODE_M static_machine))"
    by (simp add: csr_accessible_def csr_exist_def CSRS_def csr_addr_defs MODE_M_def)
  ultimately show ?thesis
    using csrrw_access[of "0x300" static_machine "Some (PGpr 1)" None 0 0]
      csrrw_access[of "0x340" "set_csr CSR_mscratch 5 (set_mode MODE_M static_machine)" None None 1 1]
    by (simp add: plain_csrs_def csr_addr_defs set_mode_def set_csr_def)
qed

theorem mhartid_writable_witness:
  "csrrw None (Some (PGpr 1)) 0xf14 (set_mode MODE_M static_machine) = Ret () (set_csr CSR_mhartid 0 (set_mode MODE_M static_machine))"
  using mhartid_writable[of "set_mode MODE_M static_machine" "PGpr 1"] by (simp add: set_mode_def)

end
