(* ===== verification/Sv39.thy ===== *)
theory Sv39
  imports Vaddr Reach
begin

text \<open>
  The page-table walk against the Sv39 scheme of the privileged architecture: \<open>walks\<close> is the relation
  between an address and the leaf entry it leads to, \<open>permitted\<close> the access rules on that entry, and
  \<open>translates\<close> the two together with the alignment of superpages. The walk returns exactly what
  \<open>translates\<close> relates, and faults exactly where it relates nothing.
\<close>

section \<open>The scheme\<close>

definition canonical :: "uint64 \<Rightarrow> bool" where
  "canonical va \<longleftrightarrow> (\<forall>i. 38 \<le> i \<and> i < 64 \<longrightarrow> bit va i = bit va 38)"

definition pte_at :: "machine \<Rightarrow> uint64 \<Rightarrow> uint64 option" where
  "pte_at st a = (case paddr_read (ucast a) PTE_SIZE st of Ret v _ \<Rightarrow> Some v | _ \<Rightarrow> None)"

definition pte_ok :: "uint64 \<Rightarrow> bool" where
  "pte_ok pte \<longleftrightarrow> pteb Pte_v pte \<and> (pteb Pte_w pte \<longrightarrow> pteb Pte_r pte)"

definition pte_leaf :: "uint64 \<Rightarrow> bool" where
  "pte_leaf pte \<longleftrightarrow> pteb Pte_r pte \<or> pteb Pte_x pte"

definition frame :: "uint64 \<Rightarrow> uint64" where
  "frame pte = PGBASE (fld (pte_f Pte_ppn) pte)"

inductive walks :: "machine \<Rightarrow> uint64 \<Rightarrow> nat \<Rightarrow> uint64 \<Rightarrow> uint64 \<Rightarrow> nat \<Rightarrow> bool" for st va where
  leaf: "pte_at st (base + VPNi va l * 8) = Some pte \<Longrightarrow> pte_ok pte \<Longrightarrow> pte_leaf pte \<Longrightarrow>
     walks st va l base pte l"
| down: "pte_at st (base + VPNi va (Suc l) * 8) = Some pte \<Longrightarrow> pte_ok pte \<Longrightarrow> \<not> pte_leaf pte \<Longrightarrow>
     walks st va l (frame pte) pte' l' \<Longrightarrow> walks st va (Suc l) base pte' l'"

inductive_simps walks_0: "walks st va 0 base pte l'"
inductive_simps walks_Suc: "walks st va (Suc l) base pte l'"

definition permitted :: "machine \<Rightarrow> mem_type \<Rightarrow> uint64 \<Rightarrow> bool" where
  "permitted st type pte \<longleftrightarrow>
     (let m = access_mode (type = MEM_TYPE_IFETCH) st in
      (m = 0 \<longrightarrow> pteb Pte_u pte) \<and>
      (m = 1 \<longrightarrow> pteb Pte_u pte \<longrightarrow> msb_on Ms_sum st \<and> type \<noteq> MEM_TYPE_IFETCH) \<and>
      pteb Pte_a pte \<and>
      (case type of MEM_TYPE_IFETCH \<Rightarrow> pteb Pte_x pte
       | MEM_TYPE_READ \<Rightarrow> pteb Pte_r pte \<or> msb_on Ms_mxr st \<and> pteb Pte_x pte
       | MEM_TYPE_WRITE \<Rightarrow> pteb Pte_w pte \<and> pteb Pte_d pte))"

definition page_bits :: "nat \<Rightarrow> uint64" where
  "page_bits l = mask (12 + 9 * l)"

definition translates :: "machine \<Rightarrow> mem_type \<Rightarrow> uint64 \<Rightarrow> uint64 \<Rightarrow> bool" where
  "translates st type va pa \<longleftrightarrow> canonical va \<and>
     (\<exists>pte l. walks st va 2 (PGBASE (satp_ppn st)) pte l \<and> permitted st type pte \<and>
        frame pte AND page_bits l = 0 \<and> pa = frame pte OR (va AND page_bits l AND NOT PGMASK))"

definition low_mode :: "machine \<Rightarrow> mem_type \<Rightarrow> bool" where
  "low_mode st type \<longleftrightarrow> access_mode (type = MEM_TYPE_IFETCH) st = 0 \<or> access_mode (type = MEM_TYPE_IFETCH) st = 1"

section \<open>The walk\<close>

lemma paddr_read_state: "paddr_read a n st = Ret v st' \<Longrightarrow> st' = st"
  by (auto simp: paddr_read_def pmem_read_def host_read_def m_simps split: if_splits)

lemma step_Some:
  "pte_at st (base + VPNi va l * 8) = Some pte \<Longrightarrow> ptw_step base va l st =
     Ret (if \<not> pte_ok pte then PtwBad pte else if pte_leaf pte then PtwLeaf pte (frame pte) else PtwNext pte (frame pte)) st"
  by (auto simp: ptw_step_def pte_at_def m_simps Let_def pte_ok_def pte_leaf_def frame_def PTE_SIZE_def
      dest: paddr_read_state split: res.splits)

lemma step_None: "pte_at st (base + VPNi va l * 8) = None \<Longrightarrow> ptw_step base va l st \<noteq> Ret r st'"
  by (auto simp: ptw_step_def pte_at_def m_simps PTE_SIZE_def split: res.splits)

lemma loop_Ret:
  "ptw_loop va l base st = Ret (pte, Some (l', b)) st' \<longleftrightarrow> st' = st \<and> walks st va l base pte l' \<and> b = frame pte"
proof (induction l arbitrary: base)
  case 0
  show ?case
    using step_None[of st base va 0]
    by (cases "pte_at st (base + VPNi va 0 * 8)") (auto simp: m_simps walks_0 step_Some split: res.splits if_splits)
next
  case (Suc l)
  show ?case
    using step_None[of st base va "Suc l"]
    by (cases "pte_at st (base + VPNi va (Suc l) * 8)")
      (auto simp: m_simps walks_Suc Suc.IH step_Some split: res.splits if_splits)
qed

lemma loop_state: "ptw_loop va l base st = Ret r st' \<Longrightarrow> st' = st"
proof (induction l arbitrary: base)
  case 0
  then show ?case
    using step_None[of st base va 0]
    by (cases "pte_at st (base + VPNi va 0 * 8)") (auto simp: m_simps step_Some split: res.splits if_splits)
next
  case (Suc l)
  then show ?case
    using step_None[of st base va "Suc l"]
    by (cases "pte_at st (base + VPNi va (Suc l) * 8)") (auto simp: m_simps step_Some split: res.splits if_splits)
qed

lemma walks_ok: "walks st va l base pte l' \<Longrightarrow> pte_ok pte \<and> pte_leaf pte \<and> l' \<le> l"
  by (induction rule: walks.induct) auto

section \<open>Permissions and faults\<close>

definition fault_cause :: "mem_type \<Rightarrow> machine \<Rightarrow> uint64" where
  "fault_cause type st = (case type of MEM_TYPE_IFETCH \<Rightarrow> EX_IPF
     | MEM_TYPE_READ \<Rightarrow> if amo (cpu st) then EX_SPF else EX_LPF | MEM_TYPE_WRITE \<Rightarrow> EX_SPF)"

definition fault_state :: "mem_type \<Rightarrow> uint64 \<Rightarrow> machine \<Rightarrow> machine" where
  "fault_state type va st = (if type = MEM_TYPE_IFETCH then set_csr CSR_stval va st else set_amo False (set_tval va st))"

definition page_fault :: "mem_type \<Rightarrow> uint64 \<Rightarrow> 'a nemu" where
  "page_fault type va st = longjmp_exception (fault_cause type st) (fault_state type va st)"

lemma allowed_iff:
  "perm_ok pte ok True st \<and> pteb Pte_x pte \<and> pteb Pte_a pte \<longleftrightarrow> ok \<and> pteb Pte_v pte \<and> permitted st MEM_TYPE_IFETCH pte"
  "perm_ok pte ok False st \<and> (pteb Pte_r pte \<or> msb_on Ms_mxr st \<and> pteb Pte_x pte) \<and> pteb Pte_a pte \<longleftrightarrow>
     ok \<and> pteb Pte_v pte \<and> permitted st MEM_TYPE_READ pte"
  "perm_ok pte ok False st \<and> pteb Pte_w pte \<and> pteb Pte_a pte \<and> pteb Pte_d pte \<longleftrightarrow>
     ok \<and> pteb Pte_v pte \<and> permitted st MEM_TYPE_WRITE pte"
  unfolding perm_ok_def permitted_def Let_def by (simp_all add: mode_defs) blast+

lemma check_permission_eq:
  "check_permission pte ok va type st =
     (if \<not> low_mode st type then Crash Assert_fail
      else if ok \<and> pteb Pte_v pte \<and> permitted st type pte then Ret True st
      else if type = MEM_TYPE_IFETCH \<and> amo (cpu st) then Crash Assert_fail
      else page_fault type va st)"
proof (cases type)
  case MEM_TYPE_IFETCH
  then show ?thesis using allowed_iff(1)[of pte ok st]
    by (auto simp: check_permission_def Let_def low_mode_def mode_defs page_fault_def fault_cause_def fault_state_def simp del: de_Morgan_conj)
next
  case MEM_TYPE_READ
  then show ?thesis using allowed_iff(2)[of pte ok st]
    by (auto simp: check_permission_def Let_def low_mode_def mode_defs page_fault_def fault_cause_def fault_state_def simp del: de_Morgan_conj)
next
  case MEM_TYPE_WRITE
  then show ?thesis using allowed_iff(3)[of pte ok st]
    by (auto simp: check_permission_def Let_def low_mode_def mode_defs page_fault_def fault_cause_def fault_state_def simp del: de_Morgan_conj)
qed

lemma ptw_bad_no_return: "ptw_bad pte va type st \<noteq> Ret r st'"
  by (auto simp: ptw_bad_def m_simps check_permission_eq page_fault_def)

lemma sext39_canonical: "sext39 va = va \<longleftrightarrow> canonical va"
proof -
  have b: "bit (sext39 va) i \<longleftrightarrow> (if i < 38 then bit va i else i < 64 \<and> bit va 38)" for i
    by (cases "i = 38") (auto simp: sext39_def bit_signed_drop_bit_iff bit_push_bit_iff min_def)
  show ?thesis
  proof
    assume e: "sext39 va = va"
    show "canonical va" unfolding canonical_def
    proof (intro allI impI)
      fix i :: nat assume "38 \<le> i \<and> i < 64"
      then show "bit va i = bit va 38" using b[of i] unfolding e by simp
    qed
  next
    assume c: "canonical va"
    show "sext39 va = va"
    proof (rule bit_word_eqI)
      fix n :: nat assume "n < LENGTH(64)"
      moreover have "38 \<le> n \<Longrightarrow> n < 64 \<Longrightarrow> bit va n = bit va 38" using c unfolding canonical_def by blast
      ultimately show "bit (sext39 va) n = bit va n" using b[of n] by auto
    qed
  qed
qed

section \<open>Refinement\<close>

lemma page_mask: "2 ^ VPNiSHFT l - 1 = page_bits l"
  by (simp add: page_bits_def VPNiSHFT_def PGSHFT_def mask_eq_decr_exp push_bit_eq_mult)

lemma PGMASK_mask: "PGMASK = mask 12"
  by (simp add: PGMASK_def PGSHFT_def mask_eq_decr_exp)

lemma page_bits_0: "va AND page_bits 0 AND NOT PGMASK = 0"
  by (rule bit_word_eqI) (auto simp: page_bits_def PGMASK_mask bit_simps)

lemma frame_low: "frame pte AND page_bits 0 = 0"
  by (rule bit_word_eqI) (auto simp: frame_def PGBASE_def page_bits_def PGSHFT_def bit_simps)

lemma frame_aligned: "frame pte AND page_bits l = 0 \<Longrightarrow> frame pte AND NOT (page_bits l) = frame pte"
proof (rule bit_word_eqI)
  fix n assume "frame pte AND page_bits l = 0" "n < LENGTH(64)"
  then have "\<not> (bit (frame pte) n \<and> bit (page_bits l) n)" by (metis bit_0_eq bit_and_iff bot_fun_def bot_bool_def)
  then show "bit (frame pte AND NOT (page_bits l)) n = bit (frame pte) n"
    using \<open>n < LENGTH(64)\<close> by (auto simp: bit_simps)
qed

lemma ptw_walked:
  assumes "canonical va" "ptw_loop va 2 (PGBASE (satp_ppn st)) st = Ret (pte, Some (l, frame pte)) st"
  shows "ptw va type st =
    (if \<not> low_mode st type then Crash Assert_fail
     else if pteb Pte_v pte \<and> permitted st type pte then
       (if frame pte AND page_bits l = 0 then Ret (ucast (frame pte OR (va AND page_bits l AND NOT PGMASK))) st
        else ptw_bad pte va type st)
     else if type = MEM_TYPE_IFETCH \<and> amo (cpu st) then Crash Assert_fail
     else page_fault type va st)"
  using assms
  by (auto simp: ptw_def sext39_canonical m_simps PTW_LEVEL_def page_mask check_permission_eq MEM_RET_OK_def
      frame_low frame_aligned page_bits_0 page_fault_def Let_def)

lemma ptw_Ret:
  "ptw va type st = Ret r st' \<longleftrightarrow> st' = st \<and> low_mode st type \<and> (\<exists>pa. translates st type va pa \<and> r = ucast pa)"
proof (cases "canonical va \<and> (\<exists>pte l. walks st va 2 (PGBASE (satp_ppn st)) pte l)")
  case True
  then obtain pte l where w: "canonical va" "walks st va 2 (PGBASE (satp_ppn st)) pte l" by blast
  then have loop: "ptw_loop va 2 (PGBASE (satp_ppn st)) st = Ret (pte, Some (l, frame pte)) st" by (simp add: loop_Ret)
  have uniq: "walks st va 2 (PGBASE (satp_ppn st)) pte' l' \<longleftrightarrow> pte' = pte \<and> l' = l" for pte' l'
    using loop_Ret[of va 2 "PGBASE (satp_ppn st)" st pte' l' "frame pte'" st] loop w(2) by auto
  have "pteb Pte_v pte" using walks_ok[OF w(2)] by (simp add: pte_ok_def)
  with w(1) uniq show ?thesis
    by (auto simp: ptw_walked[OF w(1) loop] translates_def ptw_bad_no_return page_fault_def m_simps)
next
  case False
  have "ptw va type st \<noteq> Ret r st'"
  proof (cases "canonical va")
    case True
    with False have n: "ptw_loop va 2 (PGBASE (satp_ppn st)) st \<noteq> Ret (pte, Some (l, b)) s" for pte l b s
      by (simp add: loop_Ret)
    with True show ?thesis
      by (auto simp: ptw_def sext39_canonical m_simps PTW_LEVEL_def ptw_bad_no_return split: res.splits option.splits)
  qed (simp add: ptw_def sext39_canonical ptw_bad_no_return)
  moreover have "\<not> translates st type va pa" for pa using False by (auto simp: translates_def)
  ultimately show ?thesis by blast
qed

text \<open>Property C3: the walk implements the Sv39 scheme: it returns a page exactly when the address is
  canonical, the tables lead it to a leaf entry, the access is permitted by that entry and a superpage is
  aligned, and then the page is the one the scheme assigns (cut to the 32 bits of \<open>paddr_t\<close>); it changes
  nothing.\<close>

theorem ptw_refines:
  "ptw va type st = Ret r st' \<longleftrightarrow> st' = st \<and> low_mode st type \<and> (\<exists>pa. translates st type va pa \<and> r = ucast pa)"
  by (rule ptw_Ret)

section \<open>Faults\<close>

text \<open>The other way a walk can end: at an entry whose address is outside physical memory.\<close>

inductive leaves_memory :: "machine \<Rightarrow> uint64 \<Rightarrow> nat \<Rightarrow> uint64 \<Rightarrow> uint64 \<Rightarrow> bool" for st va where
  out: "a = base + VPNi va l * 8 \<Longrightarrow> \<not> in_pmem (ucast a) \<Longrightarrow> leaves_memory st va l base a"
| down: "pte_at st (base + VPNi va (Suc l) * 8) = Some pte \<Longrightarrow> pte_ok pte \<Longrightarrow> \<not> pte_leaf pte \<Longrightarrow>
     leaves_memory st va l (frame pte) a \<Longrightarrow> leaves_memory st va (Suc l) base a"

inductive_simps leaves_0: "leaves_memory st va 0 base a"
inductive_simps leaves_Suc: "leaves_memory st va (Suc l) base a"

text \<open>A table starts on a page boundary, so its entries are aligned and none straddles the end of memory.\<close>

lemma PGBASE_low: "take_bit 3 (PGBASE x) = 0"
  by (simp add: PGBASE_def PGSHFT_def take_bit_push_bit)

lemma entry_fits:
  assumes "take_bit 3 base = 0" "in_pmem (ucast (base + VPNi va l * 8))"
  shows "fits_pmem (ucast (base + VPNi va l * 8)) 8"
proof -
  let ?b = "uint base" and ?x = "uint (VPNi va l)"
  have "?b mod 8 = 0" using arg_cong[OF assms(1), of uint] by (simp add: take_bit_eq_mod uint_mod)
  then have "(?b + ?x * 8) mod 2 ^ 64 mod 2 ^ 32 mod 8 = 0" by (simp add: mod_mod_cancel)
  then have "uint (ucast (base + VPNi va l * 8) :: uint32) mod 8 = 0"
    by (simp add: unsigned_ucast_eq take_bit_eq_mod uint_word_ariths mod_mod_cancel mod_simps)
  with assms(2) show ?thesis by (auto simp: fits_pmem_def in_pmem_range)
qed

lemma entry_in:
  assumes "take_bit 3 base = 0" "in_pmem (ucast (base + VPNi va l * 8))"
  shows "\<exists>pte. pte_at st (base + VPNi va l * 8) = Some pte"
  using paddr_read_ok[OF entry_fits[OF assms], of st] by (simp add: pte_at_def PTE_SIZE_def legal_len_def)

lemma entry_out:
  assumes "\<not> in_pmem (ucast (base + VPNi va l * 8))"
  shows "pte_at st (base + VPNi va l * 8) = None" "ptw_step base va l st = longjmp_exception EX_II st"
  using assms by (simp_all add: pte_at_def ptw_step_def paddr_read_def PTE_SIZE_def m_simps Let_def)

lemma loop_total:
  "take_bit 3 base = 0 \<Longrightarrow> if \<exists>a. leaves_memory st va l base a then ptw_loop va l base st = longjmp_exception EX_II st
    else \<exists>r. ptw_loop va l base st = Ret r st"
proof (induction l arbitrary: base)
  case 0
  show ?case
  proof (cases "in_pmem (ucast (base + VPNi va 0 * 8))")
    case True
    then obtain pte where "pte_at st (base + VPNi va 0 * 8) = Some pte" using entry_in[OF 0] by blast
    with True show ?thesis by (simp add: leaves_0 m_simps step_Some)
  qed (simp add: leaves_0 entry_out m_simps)
next
  case (Suc l)
  show ?case
  proof (cases "in_pmem (ucast (base + VPNi va (Suc l) * 8))")
    case True
    then obtain pte where "pte_at st (base + VPNi va (Suc l) * 8) = Some pte" using entry_in[OF Suc.prems] by blast
    moreover have "take_bit 3 (frame pte) = 0" by (simp add: frame_def PGBASE_low)
    ultimately show ?thesis using True Suc.IH[of "frame pte"]
      by (auto simp: leaves_Suc m_simps step_Some split: if_splits)
  next
    case False
    then have "\<exists>a. leaves_memory st va (Suc l) base a" by (blast intro: leaves_memory.out)
    with False show ?thesis by (simp add: entry_out m_simps)
  qed
qed

lemma ptw_bad_fault:
  "low_mode st type \<Longrightarrow> \<not> (type = MEM_TYPE_IFETCH \<and> amo (cpu st)) \<Longrightarrow> ptw_bad pte va type st = page_fault type va st"
  "\<not> low_mode st type \<or> type = MEM_TYPE_IFETCH \<and> amo (cpu st) \<Longrightarrow> ptw_bad pte va type st = Crash Assert_fail"
  by (auto simp: ptw_bad_def m_simps check_permission_eq page_fault_def)

text \<open>The walk by cases, where it returns nothing.\<close>

lemma ptw_unassigned:
  assumes "\<not> low_mode st type \<or> (\<forall>pa. \<not> translates st type va pa)"
    "\<not> (canonical va \<and> (\<exists>a. leaves_memory st va 2 (PGBASE (satp_ppn st)) a))"
  shows "ptw va type st = (if \<not> low_mode st type \<or> type = MEM_TYPE_IFETCH \<and> amo (cpu st) then Crash Assert_fail
    else page_fault type va st)"
proof (cases "canonical va")
  case True
  with assms(2) obtain pte leaf where l: "ptw_loop va 2 (PGBASE (satp_ppn st)) st = Ret (pte, leaf) st"
    using loop_total[OF PGBASE_low, of st va 2 "satp_ppn st"] by (auto split: if_splits)
  show ?thesis
  proof (cases leaf)
    case None
    with True l show ?thesis
      by (auto simp: ptw_def sext39_canonical m_simps PTW_LEVEL_def ptw_bad_fault)
  next
    case (Some p)
    then obtain lv where lv: "leaf = Some (lv, frame pte)" "walks st va 2 (PGBASE (satp_ppn st)) pte lv"
      using l by (cases p) (auto simp: loop_Ret)
    with assms(1) True have "\<not> low_mode st type \<or> \<not> (permitted st type pte \<and> frame pte AND page_bits lv = 0)"
      by (auto simp: translates_def)
    with ptw_walked[OF True l[unfolded lv(1)]] show ?thesis by (auto simp: ptw_bad_fault)
  qed
qed (auto simp: ptw_def sext39_canonical ptw_bad_fault)

lemma ptw_leaves:
  assumes "canonical va" "leaves_memory st va 2 (PGBASE (satp_ppn st)) a"
  shows "ptw va type st = longjmp_exception EX_II st"
  using loop_total[OF PGBASE_low, of st va 2 "satp_ppn st"] assms
  by (auto simp: ptw_def sext39_canonical m_simps PTW_LEVEL_def split: if_splits)

text \<open>Property C40: every outcome of the walk. When the tables lead a canonical address to an entry outside
  physical memory, the walk raises an illegal-instruction exception, whatever the access; otherwise, in a
  mode that is neither user nor supervisor, it dies of its assertion; otherwise, where the scheme assigns a
  page, it returns that page and changes nothing; otherwise, on a fetch with the atomic flag set, it dies of
  its assertion; and in all other cases it raises the page fault of the access: fetch, load or store (a load
  of an atomic reports a store fault), with the faulting address in \<open>stval\<close>, or in \<open>mtval\<close> when the current
  mode is machine mode and the access is not a fetch, the atomic flag reset on loads and stores, and
  registers and memory unchanged.\<close>

theorem ptw_faults:
  "if canonical va \<and> (\<exists>a. leaves_memory st va 2 (PGBASE (satp_ppn st)) a)
   then \<exists>st'. ptw va type st = LongJmp NEMU_EXEC_EXCEPTION st' \<and> g_ex_cause st' = EX_II \<and> csr st' = csr st \<and>
     gpr (cpu st') = gpr (cpu st) \<and> pmem st' = pmem st
   else if \<not> low_mode st type then ptw va type st = Crash Assert_fail
   else if \<exists>pa. translates st type va pa then \<exists>pa. translates st type va pa \<and> ptw va type st = Ret (ucast pa) st
   else if type = MEM_TYPE_IFETCH \<and> amo (cpu st) then ptw va type st = Crash Assert_fail
   else \<exists>st'. ptw va type st = LongJmp NEMU_EXEC_EXCEPTION st' \<and> g_ex_cause st' = fault_cause type st \<and>
     csr st' = (csr st)((if type \<noteq> MEM_TYPE_IFETCH \<and> mode (cpu st) = MODE_M then CSR_mtval else CSR_stval) := va) \<and>
     amo (cpu st') = (type = MEM_TYPE_IFETCH \<and> amo (cpu st)) \<and> gpr (cpu st') = gpr (cpu st) \<and> pmem st' = pmem st"
  by (auto simp: ptw_leaves ptw_unassigned ptw_Ret page_fault_def longjmp_exception_apply fault_state_def set_amo_def
      set_tval_def set_csr_def)

section \<open>Translated accesses\<close>

lemma PAGE_MASK_mask: "PAGE_MASK = mask 12"
  by (simp add: page_defs mask_eq_decr_exp)

lemma translates_low:
  assumes "translates st type va pa" "n < 12"
  shows "\<not> bit pa n"
proof -
  have "bit (PGMASK) n" using assms(2) by (simp add: PGMASK_mask bit_simps)
  moreover have "\<not> bit (frame pte) n" for pte
    using arg_cong[OF frame_low[of pte], of "\<lambda>w. bit w n"] assms(2) by (simp add: bit_and_iff page_bits_def bit_mask_iff)
  ultimately show ?thesis using assms(1) by (auto simp: translates_def bit_simps)
qed

lemma translate_ok:
  assumes "\<not> guided_exec (cpu st)" "low_mode st type" "translates st type va pa"
  shows "isa_mmu_translate va len type st = Ret (ucast pa) st"
proof -
  have "(ucast pa :: uint32) \<noteq> 1"
  proof
    assume e: "(ucast pa :: uint32) = 1"
    have "bit (ucast pa :: uint32) 0" unfolding e by simp
    then show False using translates_low[OF assms(3), of 0] by (simp add: bit_ucast_iff)
  qed
  then show ?thesis
    using assms ptw_Ret[of va type st "ucast pa" st]
    by (auto simp: isa_mmu_translate_def m_simps force_raise_pf_def MEM_RET_FAIL_def MEM_RET_OK_def Let_def)
qed

text \<open>A load under translation reads physical memory at the page of its first byte plus the
  page offset, whatever its length: the translation never reports that an access crosses a page, so the
  bytes beyond the page come from the next physical page and not from the next virtual one.\<close>

theorem mmu_read_contiguous:
  assumes "\<not> guided_exec (cpu st)" "low_mode st type" "translates st type va pa"
  shows "vaddr_mmu_read va len type st = paddr_read (ucast (pa OR (va AND PAGE_MASK))) len st"
proof -
  have "ucast (ucast pa :: uint32) AND PAGE_MASK = 0"
    using translates_low[OF assms(3)] by (auto simp: PAGE_MASK_mask bit_eq_iff bit_simps)
  moreover have "(ucast (ucast (ucast pa :: uint32) OR (va AND PAGE_MASK)) :: uint32) = ucast (pa OR (va AND PAGE_MASK))"
    by (rule bit_word_eqI) (auto simp: bit_simps)
  ultimately show ?thesis
    by (simp add: vaddr_mmu_read_def m_simps translate_ok[OF assms] MEM_RET_OK_def Let_def)
qed

section \<open>Witnesses\<close>

text \<open>Supervisor mode with a root table at \<open>0x80001000\<close> whose third entry maps the gigapage at
  \<open>0x80000000\<close> to itself, readable, writable, executable and accessed, but not yet dirty.\<close>

definition sv_example :: machine where
  "sv_example = (set_mode MODE_S (set_csr CSR_satp 0x8000000000080001 static_machine))
     \<lparr>pmem := store_le (\<lambda>_. 0) (guest_to_host 0x80001010) 8 0x2000004f\<rparr>"

lemma sv_pte: "pte_at sv_example 0x80001010 = Some 0x2000004f"
proof -
  have "paddr_read 0x80001010 8 sv_example = Ret (load_le (pmem sv_example) (guest_to_host 0x80001010) 8) sv_example"
    by (rule paddr_read_ok) (simp_all add: fits_pmem_def in_pmem_range legal_len_def)
  also have "load_le (pmem sv_example) (guest_to_host 0x80001010) 8 = 0x2000004f"
    by (simp add: sv_example_def load_store_same)
  finally show ?thesis by (simp add: pte_at_def PTE_SIZE_def)
qed

lemma sv_root: "PGBASE (satp_ppn sv_example) = 0x80001000" "csr sv_example CSR_mstatus = 0"
  by (simp_all add: sv_example_def satp_ppn_def PGBASE_def PGSHFT_def fld_def set_mode_def csr_addr_defs)

lemma sv_mode: "access_mode b sv_example = 1" "low_mode sv_example type" "\<not> amo (cpu sv_example)"
    "\<not> guided_exec (cpu sv_example)" "mode (cpu sv_example) = MODE_S"
  by (simp_all add: low_mode_def access_mode_def eff_mode_def msb_on_def ms_def sv_root fld_def)
    (simp_all add: sv_example_def set_mode_def mode_defs)

lemma sv_walk: "walks sv_example 0x80000008 2 0x80001000 0x2000004f 2"
  by (rule walks.leaf) (simp_all add: VPNi_def VPNiSHFT_def PGSHFT_def VPNMASK_def sv_pte pte_ok_def pte_leaf_def pteb_def fld_def)

lemma sv_loop: "ptw_loop 0x80000008 2 0x80001000 sv_example = Ret (0x2000004f, Some (2, frame 0x2000004f)) sv_example"
  by (simp add: loop_Ret sv_walk)

lemma sv_uniq: "walks sv_example 0x80000008 2 0x80001000 pte l \<longleftrightarrow> pte = 0x2000004f \<and> l = 2"
  using loop_Ret[of "0x80000008" 2 "0x80001000" sv_example pte l "frame pte" sv_example] sv_loop by auto

lemma sv_canonical: "canonical 0x80000008"
  using sext39_canonical[of "0x80000008"] by (simp add: sext39_def)

lemma sv_frame: "frame 0x2000004f = 0x80000000" "page_bits 2 = 0x3fffffff" "PGMASK = 0xfff"
  by (simp_all add: frame_def pteb_def fld_def PGBASE_def PGSHFT_def page_bits_def mask_eq_decr_exp PGMASK_def)

lemma sv_permitted: "permitted sv_example MEM_TYPE_READ 0x2000004f" "\<not> permitted sv_example MEM_TYPE_WRITE 0x2000004f"
  by (simp_all add: permitted_def sv_mode(1) mode_defs pteb_def fld_def Let_def)

lemma sv_read: "translates sv_example MEM_TYPE_READ 0x80000008 0x80000000"
  using sv_walk sv_permitted(1) sv_canonical by (auto simp: translates_def sv_root(1) sv_uniq sv_frame)

theorem ptw_refines_witness: "ptw 0x80000008 MEM_TYPE_READ sv_example = Ret 0x80000000 sv_example"
  using ptw_refines[of "0x80000008" MEM_TYPE_READ sv_example "0x80000000" sv_example] sv_read sv_mode(2) by force

text \<open>A store to the page, which is not dirty, faults; with the root table outside memory the load does
  not report a fault of the access, but an illegal instruction.\<close>

lemma sv_store: "\<not> leaves_memory sv_example 0x80000008 2 0x80001000 a" "\<not> translates sv_example MEM_TYPE_WRITE 0x80000008 pa"
  using sv_loop loop_total[of "0x80001000" sv_example "0x80000008" 2]
  by (auto simp: translates_def sv_root sv_uniq sv_permitted m_simps take_bit_eq_mod split: if_splits)

theorem ptw_faults_witness:
  "(\<exists>st'. ptw 0x80000008 MEM_TYPE_WRITE sv_example = LongJmp NEMU_EXEC_EXCEPTION st' \<and> g_ex_cause st' = EX_SPF \<and>
     csr st' CSR_stval = 0x80000008) \<and>
   (\<exists>st'. ptw 0 MEM_TYPE_READ (set_csr CSR_satp 0x8000000000000001 sv_example) = LongJmp NEMU_EXEC_EXCEPTION st' \<and>
     g_ex_cause st' = EX_II)"
proof
  show "\<exists>st'. ptw 0x80000008 MEM_TYPE_WRITE sv_example = LongJmp NEMU_EXEC_EXCEPTION st' \<and> g_ex_cause st' = EX_SPF \<and>
     csr st' CSR_stval = 0x80000008"
    using ptw_faults[of "0x80000008" sv_example MEM_TYPE_WRITE]
    by (auto simp: sv_root sv_store sv_mode fault_cause_def mode_defs split: if_splits)
next
  let ?st = "set_csr CSR_satp 0x8000000000000001 sv_example"
  have "leaves_memory ?st 0 2 (PGBASE (satp_ppn ?st)) 0x1000"
    by (rule leaves_memory.out) (simp_all add: satp_ppn_def PGBASE_def PGSHFT_def fld_def VPNi_def in_pmem_range)
  moreover have "canonical 0" by (simp add: canonical_def)
  ultimately have "canonical 0 \<and> (\<exists>a. leaves_memory ?st 0 2 (PGBASE (satp_ppn ?st)) a)" by blast
  then show "\<exists>st'. ptw 0 MEM_TYPE_READ ?st = LongJmp NEMU_EXEC_EXCEPTION st' \<and> g_ex_cause st' = EX_II"
    using ptw_faults[of 0 ?st MEM_TYPE_READ] by (simp only: if_P) blast
qed

theorem mmu_read_contiguous_witness:
  "vaddr_mmu_read 0x80000008 8 MEM_TYPE_READ sv_example = paddr_read 0x80000008 8 sv_example"
  using mmu_read_contiguous[OF sv_mode(4) sv_mode(2) sv_read, of 8] by (simp add: page_defs)

end
