(* ===== verification/Operands.thy ===== *)
theory Operands
  imports ExecInt
begin

text \<open>
  Laws of reads and writes through operand pointers, and the notion the instruction properties are stated
  with: an execution helper \<open>computes\<close> a value when it returns with that value in the destination
  register and nothing else changed but the temporaries of the RTL layer.
\<close>

section \<open>Get and put\<close>

text \<open>The state after a successful write.\<close>

fun put :: "ptr \<Rightarrow> uint64 \<Rightarrow> machine \<Rightarrow> machine" where
  "put (PGpr r) v st = st\<lparr>cpu := (cpu st)\<lparr>gpr := (gpr (cpu st))(r := v)\<rparr>\<rparr>"
| "put (PFpr r) v st = st\<lparr>cpu := (cpu st)\<lparr>fpr := (fpr (cpu st))(r := v)\<rparr>\<rparr>"
| "put PZeroNull v st = st\<lparr>zero_null := v\<rparr>"
| "put (PTmp t) v st = st\<lparr>tmp_reg := (tmp_reg st)(t := v)\<rparr>"
| "put PRz v st = st"

lemma write_put: "p \<noteq> PRz \<Longrightarrow> write_ptr p v st = Ret () (put p v st)"
  by (cases p) (simp_all add: m_simps)

lemma write_tmp [m_simps]: "write_ptr (PTmp t) v st = Ret () (put (PTmp t) v st)"
  by (simp add: m_simps)

lemma read_put: "p \<noteq> PRz \<Longrightarrow> read_ptr (put p v st) q = (if q = p then v else read_ptr st q)"
  by (cases p; cases q) auto

lemma read_put_tmp [simp]: "read_ptr (put (PTmp t) v st) q = (if q = PTmp t then v else read_ptr st q)"
  by (rule read_put) simp

section \<open>Operands of the 32-bit formats\<close>

text \<open>The destination pointer and the source values that \<open>decode_R\<close> and \<open>decode_I\<close> select.\<close>

definition rd_ptr :: "decode \<Rightarrow> ptr" where
  "rd_ptr s = (if f_rd (d_instr s) = 0 then PZeroNull else PGpr (ucast (f_rd (d_instr s))))"

definition rs1_ptr :: "decode \<Rightarrow> ptr" where "rs1_ptr s = PGpr (ucast (f_rs1 (d_instr s)))"
definition rs2_ptr :: "decode \<Rightarrow> ptr" where "rs2_ptr s = PGpr (ucast (f_rs2 (d_instr s)))"

definition rs1_val :: "decode \<Rightarrow> machine \<Rightarrow> uint64" where
  "rs1_val s st = gpr (cpu st) (ucast (f_rs1 (d_instr s)))"
definition rs2_val :: "decode \<Rightarrow> machine \<Rightarrow> uint64" where
  "rs2_val s st = gpr (cpu st) (ucast (f_rs2 (d_instr s)))"

lemma rd_ptr_cases: "rd_ptr s = PZeroNull \<or> (\<exists>r. rd_ptr s = PGpr r)"
  by (simp add: rd_ptr_def)

lemma rd_ptr_neq [simp]: "rd_ptr s \<noteq> PTmp t" "rd_ptr s \<noteq> PRz" "PTmp t \<noteq> rd_ptr s"
  by (auto simp: rd_ptr_def)

lemma rs_ptr_neq [simp]: "rs1_ptr s \<noteq> PTmp t" "rs2_ptr s \<noteq> PTmp t"
  by (auto simp: rs1_ptr_def rs2_ptr_def)

lemma read_rs [simp]: "read_ptr st (rs1_ptr s) = rs1_val s st" "read_ptr st (rs2_ptr s) = rs2_val s st"
  by (simp_all add: rs1_ptr_def rs2_ptr_def rs1_val_def rs2_val_def)

lemma rrr_decode_R: "rrr f (decode_R s) = f (rd_ptr s) (rs1_ptr s) (rs2_ptr s)"
  by (rule ext) (simp add: rrr_def with_defs decode_R_def decode_op_r_def rd_ptr_def rs1_ptr_def rs2_ptr_def m_simps)

lemma rr_decode_R: "rr f (decode_R s) = f (rd_ptr s) (rs1_ptr s)"
  by (rule ext) (simp add: rr_def with_defs decode_R_def decode_op_r_def rd_ptr_def rs1_ptr_def m_simps)

lemma write_rd [m_simps]: "write_ptr (rd_ptr s) v st = Ret () (put (rd_ptr s) v st)"
  by (simp add: write_put)

section \<open>Computing a value\<close>

definition computes :: "unit nemu \<Rightarrow> ptr \<Rightarrow> uint64 \<Rightarrow> machine \<Rightarrow> bool" where
  "computes f d v st \<longleftrightarrow> (\<exists>t. f st = Ret () (put d v (st\<lparr>tmp_reg := t\<rparr>)))"

lemma computesI: "f st = Ret () (put d v (st\<lparr>tmp_reg := t\<rparr>)) \<Longrightarrow> computes f d v st"
  by (auto simp: computes_def)

lemma computes_direct: "f st = Ret () (put d v st) \<Longrightarrow> computes f d v st"
  by (rule computesI[where t = "tmp_reg st"]) simp

lemma put_tmp_tmp: "put (PTmp t) v st = st\<lparr>tmp_reg := (tmp_reg st)(t := v)\<rparr>"
  by simp

lemma computes_compute_reg:
  "computes (def_rtl_compute_reg f (rd_ptr s) a b) (rd_ptr s) (f (read_ptr st a) (read_ptr st b)) st"
  by (rule computes_direct) (simp add: def_rtl_compute_reg_def m_simps)

lemma rs_val_frame [simp]:
  "rs1_val s (st\<lparr>tmp_reg := t\<rparr>) = rs1_val s st" "rs2_val s (st\<lparr>tmp_reg := t\<rparr>) = rs2_val s st"
  "rs1_val s (put (PTmp u) v st) = rs1_val s st" "rs2_val s (put (PTmp u) v st) = rs2_val s st"
  by (simp_all add: rs1_val_def rs2_val_def)

lemma tmp_reg_put_rd [simp]: "tmp_reg (put (rd_ptr s) v st) = tmp_reg st"
  by (simp add: rd_ptr_def)

lemma computes_rd:
  "computes f (rd_ptr s) v st \<longleftrightarrow>
     (case f st of Ret _ st' \<Rightarrow> st' = put (rd_ptr s) v (st\<lparr>tmp_reg := tmp_reg st'\<rparr>) | _ \<Rightarrow> False)"
  by (auto simp: computes_def split: res.splits)

end
