(* ===== verification/DecodeProps.thy ===== *)
theory DecodeProps
  imports MachineWf Operands
begin

text \<open>
  Properties of the decoder: what a pattern string matches, that the scattered immediates of the formats
  decode to the value they encode, and that the specialised helpers the dispatch tables choose do what
  the general instruction does.
\<close>

section \<open>Pattern strings\<close>

text \<open>The specification: without its spaces, a pattern of \<open>n\<close> characters constrains the low \<open>n\<close> bits of the
  instruction, the last character the lowest bit.\<close>

definition pat_chars :: "string \<Rightarrow> string" where
  "pat_chars p = filter (\<lambda>c. c \<noteq> CHR '' '') p"

definition pat_char :: "string \<Rightarrow> nat \<Rightarrow> char" where
  "pat_char cs i = cs ! (length cs - 1 - i)"

definition pat_matches :: "string \<Rightarrow> uint32 \<Rightarrow> bool" where
  "pat_matches p w \<longleftrightarrow> (\<forall>i<length (pat_chars p).
     (pat_char (pat_chars p) i = CHR ''1'' \<longrightarrow> bit w i) \<and> (pat_char (pat_chars p) i = CHR ''0'' \<longrightarrow> \<not> bit w i))"

definition pat_wf :: "string \<Rightarrow> bool" where
  "pat_wf p \<longleftrightarrow> set p \<subseteq> {CHR '' '', CHR ''0'', CHR ''1'', CHR ''?''} \<and> length p \<le> 64 \<and> length (pat_chars p) \<le> 32"

definition pat_inv :: "string \<Rightarrow> pat \<Rightarrow> bool" where
  "pat_inv cs kms \<longleftrightarrow> (case kms of (key, msk, shift) \<Rightarrow>
     (\<forall>i<32. bit key i \<longleftrightarrow> i < length cs \<and> pat_char cs i = CHR ''1'') \<and>
     (\<forall>i<32. bit msk i \<longleftrightarrow> i < length cs \<and> pat_char cs i \<noteq> CHR ''?'') \<and>
     unat shift \<le> length cs \<and> (\<forall>i<unat shift. pat_char cs i = CHR ''?''))"

lemma pat_inv_step:
  assumes "pat_inv cs (key, msk, shift)" "c \<in> {CHR ''0'', CHR ''1'', CHR ''?''}" "length cs < 32"
  shows "pat_inv (cs @ [c]) (push_bit 1 key OR (if c = CHR ''1'' then 1 else 0),
    push_bit 1 msk OR (if c = CHR ''?'' then 0 else 1), if c = CHR ''?'' then shift + 1 else 0)"
proof -
  have sh: "unat (shift + 1) = unat shift + 1" if "unat shift < 32"
    using that by (simp add: unat_word_ariths take_bit_nat_eq_self)
  have b: "bit (push_bit 1 w OR (if d then 1 else 0)) i = (if i = 0 then d else i < 32 \<and> bit w (i - 1))" for w :: uint32 and d i
    unfolding bit_or_iff bit_push_bit_iff by (auto simp: bit_1_iff dest: bit_imp_le_length)
  have b': "bit (push_bit 1 w OR (if d then 0 else 1)) i = (if i = 0 then \<not> d else i < 32 \<and> bit w (i - 1))" for w :: uint32 and d i
    unfolding bit_or_iff bit_push_bit_iff by (auto simp: bit_1_iff dest: bit_imp_le_length)
  have p: "pat_char (cs @ [c]) 0 = c" "\<And>i. 0 < i \<Longrightarrow> i \<le> length cs \<Longrightarrow> pat_char (cs @ [c]) i = pat_char cs (i - 1)"
    by (auto simp: pat_char_def nth_append)
  show ?thesis
    unfolding pat_inv_def split_conv b b'
  proof (intro conjI allI impI)
  qed (use assms sh p in \<open>auto simp: pat_inv_def less_Suc_eq_0_disj\<close>)
qed

lemma pat_run_inv:
  "pat_inv cs kms \<Longrightarrow> set p \<subseteq> {CHR '' '', CHR ''0'', CHR ''1'', CHR ''?''} \<Longrightarrow> length cs + length (pat_chars p) \<le> 32 \<Longrightarrow>
     \<exists>kms'. pat_run p kms = Some kms' \<and> pat_inv (cs @ pat_chars p) kms'"
proof (induction p arbitrary: cs kms)
  case Nil
  then show ?case by (simp add: pat_chars_def)
next
  case (Cons c p)
  obtain key msk shift where k: "kms = (key, msk, shift)" by (cases kms)
  show ?case
  proof (cases "c = CHR '' ''")
    case True
    with Cons k show ?thesis by (auto simp: pat_chars_def pat_step_def)
  next
    case False
    let ?k = "(push_bit 1 key OR (if c = CHR ''1'' then 1 else 0),
      push_bit 1 msk OR (if c = CHR ''?'' then 0 else 1), if c = CHR ''?'' then shift + 1 else 0)"
    have "pat_step c kms = Some ?k" using False Cons.prems(2) k by (auto simp: pat_step_def)
    moreover have "pat_inv (cs @ [c]) ?k"
      using pat_inv_step[of cs key msk shift c] Cons.prems False k by (auto simp: pat_chars_def)
    ultimately show ?thesis
      using Cons.IH[of "cs @ [c]" ?k] Cons.prems False by (simp add: pat_chars_def)
  qed
qed

lemma pat_inv_match:
  assumes "pat_inv cs (key, msk, shift)" "length cs \<le> 32" "set cs \<subseteq> {CHR ''0'', CHR ''1'', CHR ''?''}"
  shows "drop_bit (unat shift) w AND drop_bit (unat shift) msk = drop_bit (unat shift) key \<longleftrightarrow>
    (\<forall>i<length cs. (pat_char cs i = CHR ''1'' \<longrightarrow> bit w i) \<and> (pat_char cs i = CHR ''0'' \<longrightarrow> \<not> bit w i))"
    (is "?l \<longleftrightarrow> ?r")
proof -
  let ?s = "unat shift"
  have inv: "\<And>j. j < 32 \<Longrightarrow> bit key j \<longleftrightarrow> j < length cs \<and> pat_char cs j = CHR ''1''"
    "\<And>j. j < 32 \<Longrightarrow> bit msk j \<longleftrightarrow> j < length cs \<and> pat_char cs j \<noteq> CHR ''?''"
    "\<And>j. j < ?s \<Longrightarrow> pat_char cs j = CHR ''?''"
    using assms(1) by (auto simp: pat_inv_def)
  have ch: "pat_char cs j \<in> {CHR ''0'', CHR ''1'', CHR ''?''}" if "j < length cs" for j
  proof -
    have "pat_char cs j \<in> set cs" unfolding pat_char_def using that by (intro nth_mem) simp
    with assms(3) show ?thesis by blast
  qed
  have "?l \<longleftrightarrow> (\<forall>j<32. ?s \<le> j \<longrightarrow> (bit w j \<and> bit msk j \<longleftrightarrow> bit key j))"
  proof
    assume l: ?l
    show "\<forall>j<32. ?s \<le> j \<longrightarrow> (bit w j \<and> bit msk j \<longleftrightarrow> bit key j)"
    proof (intro allI impI)
      fix j :: nat assume "?s \<le> j"
      then show "bit w j \<and> bit msk j \<longleftrightarrow> bit key j"
        using arg_cong[OF l, of "\<lambda>v. bit v (j - ?s)"] by (simp add: bit_and_iff bit_drop_bit_eq)
    qed
  next
    assume "\<forall>j<32. ?s \<le> j \<longrightarrow> (bit w j \<and> bit msk j \<longleftrightarrow> bit key j)"
    then have r: "bit w j \<and> bit msk j \<longleftrightarrow> bit key j" if "?s \<le> j" for j
      using that by (cases "j < 32") (auto dest: bit_imp_le_length)
    show ?l
      by (rule bit_word_eqI) (simp add: bit_and_iff bit_drop_bit_eq r)
  qed
  also have "\<dots> \<longleftrightarrow> ?r"
  proof
    assume l: "\<forall>j<32. ?s \<le> j \<longrightarrow> (bit w j \<and> bit msk j \<longleftrightarrow> bit key j)"
    show ?r
    proof (intro allI impI)
      fix j assume j: "j < length cs"
      show "(pat_char cs j = CHR ''1'' \<longrightarrow> bit w j) \<and> (pat_char cs j = CHR ''0'' \<longrightarrow> \<not> bit w j)"
        using l[rule_format, of j] inv[of j] assms(2) j by (cases "j < ?s") auto
    qed
  next
    assume r: ?r
    show "\<forall>j<32. ?s \<le> j \<longrightarrow> (bit w j \<and> bit msk j \<longleftrightarrow> bit key j)"
    proof (intro allI impI)
      fix j :: nat assume "j < 32"
      then show "bit w j \<and> bit msk j \<longleftrightarrow> bit key j"
        using r ch[of j] inv(1,2)[of j] by (cases "j < length cs") auto
    qed
  qed
  finally show ?thesis .
qed

lemma instr_match_pat: "pat_wf p \<Longrightarrow> instr_match p w = pat_matches p w"
proof -
  assume wf: "pat_wf p"
  have "pat_inv [] (0, 0, 0)" by (simp add: pat_inv_def)
  with pat_run_inv[of "[]" "(0, 0, 0)" p] wf obtain key msk shift where
    r: "pat_run p (0, 0, 0) = Some (key, msk, shift)" "pat_inv (pat_chars p) (key, msk, shift)"
    by (auto simp: pat_wf_def)
  moreover have "set (pat_chars p) \<subseteq> {CHR ''0'', CHR ''1'', CHR ''?''}" using wf by (auto simp: pat_wf_def pat_chars_def)
  ultimately show ?thesis
    using pat_inv_match[OF r(2), of w] wf
    by (simp add: instr_match_def pattern_decode_def pat_wf_def pat_matches_def)
qed

text \<open>Property C20: the key, mask and shift that the decoder computes from a pattern string mean the pattern:
  for every well-formed string of at most 32 bits the guard holds exactly of the instructions that have
  each 1 and each 0 of the pattern in its place, whatever the other bits are.\<close>

theorem instr_match_spec: "pat_wf p \<Longrightarrow> instr_match p w = pat_matches p w"
  by (rule instr_match_pat)

theorem instr_match_spec_witness:
  "instr_match ''0000000 00000 00001 ??? 00000 ????? ??'' 0x00008067 = pat_matches ''0000000 00000 00001 ??? 00000 ????? ??'' 0x00008067"
  by (rule instr_match_spec) (simp add: pat_wf_def pat_chars_def)

section \<open>Immediates\<close>

text \<open>The encoders place the bits of an offset as the instruction formats prescribe.\<close>

definition enc_B :: "uint64 \<Rightarrow> uint32" where
  "enc_B x = (let f = (\<lambda>n k i. push_bit i (take_bit n (drop_bit k (ucast x)))) in
     f 1 12 31 OR f 6 5 25 OR f 4 1 8 OR f 1 11 7)"

definition enc_J :: "uint64 \<Rightarrow> uint32" where
  "enc_J x = (let f = (\<lambda>n k i. push_bit i (take_bit n (drop_bit k (ucast x)))) in
     f 1 20 31 OR f 10 1 21 OR f 1 11 20 OR f 8 12 12)"

definition enc_S :: "uint64 \<Rightarrow> uint32" where
  "enc_S x = (let f = (\<lambda>n k i. push_bit i (take_bit n (drop_bit k (ucast x)))) in f 7 5 25 OR f 5 0 7)"

definition enc_I :: "uint64 \<Rightarrow> uint32" where
  "enc_I x = push_bit 20 (take_bit 12 (ucast x))"

text \<open>The bits of a decoded immediate, one line of the format table each.\<close>

lemma bit_sext_word: "bit (scast (w :: uint32) :: uint64) i \<longleftrightarrow> i < 64 \<and> bit w (min i 31)"
  by (simp add: bit_signed_iff min.commute)

lemmas imm_bits = bit_sext_word imm_field_defs bit_signed_take_bit_iff bit_drop_bit_eq bit_or_iff bit_push_bit_iff
  bit_take_bit_iff

lemma bit_i_imm: "bit (scast (i_simm11_0 w) :: uint64) i \<longleftrightarrow> i < 64 \<and> bit w (if i < 11 then 20 + i else 31)"
  unfolding imm_bits by (auto simp: min_def)

lemma bit_s_imm: "bit (s_simm w) i \<longleftrightarrow> i < 64 \<and> bit w (if i < 5 then 7 + i else if i < 11 then 20 + i else 31)"
  unfolding s_simm_def imm_bits by (auto simp: min_def split: if_splits)

lemma bit_b_imm: "bit (b_offset w) i \<longleftrightarrow> i < 64 \<and> i \<noteq> 0 \<and>
    bit w (if i < 5 then 7 + i else if i < 11 then 20 + i else if i = 11 then 7 else 31)"
  unfolding b_offset_def imm_bits by (auto simp: min_def split: if_splits)

lemma bit_j_imm: "bit (j_offset w) i \<longleftrightarrow> i < 64 \<and> i \<noteq> 0 \<and>
    bit w (if i < 11 then 20 + i else if i = 11 then 20 else if i < 20 then i else 31)"
  unfolding j_offset_def imm_bits by (auto simp: min_def split: if_splits)

lemma enc_piece: "bit (push_bit k (take_bit n (drop_bit m (ucast (x :: uint64) :: uint32)))) i \<longleftrightarrow>
    k \<le> i \<and> i < k + n \<and> i < 32 \<and> m + (i - k) < 32 \<and> bit x (m + (i - k))"
  by (auto simp: bit_simps)

lemmas enc_bits = enc_S_def enc_B_def enc_J_def Let_def bit_or_iff enc_piece

text \<open>Indexed by the bit of the offset.\<close>

lemma enc_I_bit: "i < 12 \<Longrightarrow> bit (enc_I x) (20 + i) \<longleftrightarrow> bit x i" "bit (enc_I x) 31 \<longleftrightarrow> bit x 11"
  by (simp_all add: enc_I_def bit_simps)

lemma enc_S_bit:
  "i < 5 \<Longrightarrow> bit (enc_S x) (7 + i) \<longleftrightarrow> bit x i" "5 \<le> i \<Longrightarrow> i < 12 \<Longrightarrow> bit (enc_S x) (20 + i) \<longleftrightarrow> bit x i"
  "bit (enc_S x) 31 \<longleftrightarrow> bit x 11"
  unfolding enc_bits by simp_all

lemma enc_B_bit:
  "bit (enc_B x) 7 \<longleftrightarrow> bit x 11" "1 \<le> i \<Longrightarrow> i < 5 \<Longrightarrow> bit (enc_B x) (7 + i) \<longleftrightarrow> bit x i"
  "5 \<le> i \<Longrightarrow> i < 11 \<Longrightarrow> bit (enc_B x) (20 + i) \<longleftrightarrow> bit x i" "bit (enc_B x) 31 \<longleftrightarrow> bit x 12"
  unfolding enc_bits by simp_all

lemma enc_J_bit:
  "12 \<le> i \<Longrightarrow> i < 20 \<Longrightarrow> bit (enc_J x) i \<longleftrightarrow> bit x i" "bit (enc_J x) 20 \<longleftrightarrow> bit x 11"
  "1 \<le> i \<Longrightarrow> i < 11 \<Longrightarrow> bit (enc_J x) (20 + i) \<longleftrightarrow> bit x i" "bit (enc_J x) 31 \<longleftrightarrow> bit x 20"
  unfolding enc_bits by simp_all

text \<open>The values a field of \<open>n\<close> bits can hold.\<close>

definition fits :: "nat \<Rightarrow> uint64 \<Rightarrow> bool" where
  "fits n x \<longleftrightarrow> signed_take_bit (n - 1) x = x"

lemma fits_bit:
  assumes "fits n x" "n - 1 \<le> i" "i < 64"
  shows "bit x i \<longleftrightarrow> bit x (n - 1)"
proof -
  have "bit x i \<longleftrightarrow> bit (signed_take_bit (n - 1) x) i" using assms(1) by (simp add: fits_def)
  also have "\<dots> \<longleftrightarrow> bit x (n - 1)" using assms(2,3) by (simp add: bit_signed_take_bit_iff)
  finally show ?thesis .
qed

text \<open>An instruction word holds an encoded immediate when it agrees with it on the bits of the field.\<close>

definition holds :: "nat set \<Rightarrow> uint32 \<Rightarrow> uint32 \<Rightarrow> bool" where
  "holds P e w \<longleftrightarrow> (\<forall>i\<in>P. bit w i \<longleftrightarrow> bit e i)"

lemma imm_I_holds:
  assumes "fits 12 x" "holds {20..<32} (enc_I x) w"
  shows "scast (i_simm11_0 w) = x"
proof (rule bit_word_eqI)
  fix i assume "i < LENGTH(64)"
  then show "bit (scast (i_simm11_0 w) :: uint64) i = bit x i"
    using assms fits_bit[of 12 x i] by (auto simp: bit_i_imm holds_def enc_I_bit)
qed

lemma imm_S_holds:
  assumes "fits 12 x" "holds ({7..<12} \<union> {25..<32}) (enc_S x) w"
  shows "s_simm w = x"
proof (rule bit_word_eqI)
  fix i assume "i < LENGTH(64)"
  then show "bit (s_simm w) i = bit x i"
    using assms fits_bit[of 12 x i] by (auto simp: bit_s_imm holds_def enc_S_bit ball_Un)
qed

lemma imm_B_holds:
  assumes "fits 13 x" "\<not> bit x 0" "holds ({7..<12} \<union> {25..<32}) (enc_B x) w"
  shows "b_offset w = x"
proof (rule bit_word_eqI)
  fix i assume "i < LENGTH(64)"
  then show "bit (b_offset w) i = bit x i"
    using assms fits_bit[of 13 x i] by (cases "i = 0") (auto simp: bit_b_imm holds_def enc_B_bit ball_Un)
qed

lemma imm_J_holds:
  assumes "fits 21 x" "\<not> bit x 0" "holds {12..<32} (enc_J x) w"
  shows "j_offset w = x"
proof (rule bit_word_eqI)
  fix i assume "i < LENGTH(64)"
  then show "bit (j_offset w) i = bit x i"
    using assms fits_bit[of 21 x i] by (cases "i = 0") (auto simp: bit_j_imm holds_def enc_J_bit)
qed

text \<open>Property C25: encoding an offset and decoding it gives it back, for every offset the format can hold:
  twelve signed bits for loads, stores and immediate operations, even offsets of thirteen bits for
  branches and of twenty-one bits for jumps, whatever the other fields of the instruction are.\<close>

theorem immediate_roundtrip:
  "(fits 12 x \<longrightarrow> holds {20..<32} (enc_I x) w \<longrightarrow> scast (i_simm11_0 w) = x) \<and>
   (fits 12 x \<longrightarrow> holds ({7..<12} \<union> {25..<32}) (enc_S x) w \<longrightarrow> s_simm w = x) \<and>
   (fits 13 x \<longrightarrow> \<not> bit x 0 \<longrightarrow> holds ({7..<12} \<union> {25..<32}) (enc_B x) w \<longrightarrow> b_offset w = x) \<and>
   (fits 21 x \<longrightarrow> \<not> bit x 0 \<longrightarrow> holds {12..<32} (enc_J x) w \<longrightarrow> j_offset w = x)"
  by (simp add: imm_I_holds imm_S_holds imm_B_holds imm_J_holds)

theorem immediate_roundtrip_witness:
  "b_offset (enc_B (-8) OR 0x63) = -8 \<and> j_offset (enc_J 0x1000 OR 0x6f) = 0x1000"
proof -
  have "take_bit 7 (0x63 :: uint32) = 0x63" "take_bit 7 (0x6f :: uint32) = 0x6f" by simp_all
  then have "7 \<le> i \<Longrightarrow> \<not> bit (0x63 :: uint32) i" "7 \<le> i \<Longrightarrow> \<not> bit (0x6f :: uint32) i" for i
    by (metis bit_take_bit_iff not_less)+
  then have "holds ({7..<12} \<union> {25..<32}) (enc_B (-8)) (enc_B (-8) OR 0x63)" "holds {12..<32} (enc_J 0x1000) (enc_J 0x1000 OR 0x6f)"
    by (simp_all add: holds_def bit_or_iff ball_Un)
  moreover have "fits 13 (-8)" "fits 21 0x1000" by (simp_all add: fits_def)
  ultimately show ?thesis
    using immediate_roundtrip[of "-8" "enc_B (-8) OR 0x63"] immediate_roundtrip[of "0x1000" "enc_J 0x1000 OR 0x6f"]
    by simp
qed

section \<open>Dispatch\<close>

lemma field_zero: "x AND push_bit k (mask n) = 0 \<longleftrightarrow> take_bit n (drop_bit k x) = 0" for x :: uint32
proof -
  have "x AND push_bit k (mask n) = push_bit k (take_bit n (drop_bit k x))"
    by (rule bit_word_eqI) (auto simp: bit_simps)
  moreover have "push_bit k (take_bit n (drop_bit k x)) = 0 \<longleftrightarrow> take_bit n (drop_bit k x) = 0"
  proof
    assume a: "push_bit k (take_bit n (drop_bit k x)) = 0"
    show "take_bit n (drop_bit k x) = 0"
    proof (rule bit_word_eqI)
      fix i
      show "bit (take_bit n (drop_bit k x)) i = bit (0 :: uint32) i"
        using arg_cong[OF a, of "\<lambda>w. bit w (k + i)"] by (auto simp: bit_simps dest: bit_imp_le_length)
    qed
  qed simp
  ultimately show ?thesis by simp
qed

lemma and_split: "a AND c = c \<Longrightarrow> a AND b = 0 \<Longrightarrow> x AND (a OR b) = c \<longleftrightarrow> x AND a = c \<and> x AND b = 0" for x a b c :: uint32
  unfolding bit_eq_iff bit_and_iff bit_or_iff bit_0_eq bot_apply bot_bool_def by blast

lemma f3_field: "f_funct3 w = drop_bit 12 w AND 7"
  by (simp add: f_funct3_def take_bit_eq_mask mask_numeral)

lemma rs_zero: "drop_bit 12 w AND 0x1f00 = 0 \<longleftrightarrow> f_rs2 w = 0" "drop_bit 12 w AND 0xf8 = 0 \<longleftrightarrow> f_rs1 w = 0"
  using field_zero[of "drop_bit 12 w" 8 5] field_zero[of "drop_bit 12 w" 3 5]
  by (simp_all add: f_rs2_def f_rs1_def mask_numeral)

lemma branch_key: "7 AND c = c \<Longrightarrow> drop_bit 12 w AND 0x1f07 = c \<longleftrightarrow> f_rs2 w = 0 \<and> f_funct3 w = c"
    "7 AND c = c \<Longrightarrow> drop_bit 12 w AND 0xff = c \<longleftrightarrow> f_rs1 w = 0 \<and> f_funct3 w = c"
  using and_split[of 7 c "0x1f00" "drop_bit 12 w"] and_split[of 7 c "0xf8" "drop_bit 12 w"]
  by (auto simp: rs_zero f3_field)

lemmas pat_eval = instr_match_def pattern_decode_def pat_step_def

lemma branch_patterns:
  "instr_match ''??????? 00000 ????? 000 ????? ????? ??'' w \<longleftrightarrow> f_rs2 w = 0 \<and> f_funct3 w = 0"
  "instr_match ''??????? 00000 ????? 001 ????? ????? ??'' w \<longleftrightarrow> f_rs2 w = 0 \<and> f_funct3 w = 1"
  "instr_match ''??????? 00000 ????? 100 ????? ????? ??'' w \<longleftrightarrow> f_rs2 w = 0 \<and> f_funct3 w = 4"
  "instr_match ''??????? 00000 ????? 101 ????? ????? ??'' w \<longleftrightarrow> f_rs2 w = 0 \<and> f_funct3 w = 5"
  "instr_match ''??????? ????? 00000 100 ????? ????? ??'' w \<longleftrightarrow> f_rs1 w = 0 \<and> f_funct3 w = 4"
  "instr_match ''??????? ????? 00000 101 ????? ????? ??'' w \<longleftrightarrow> f_rs1 w = 0 \<and> f_funct3 w = 5"
  by (simp_all add: pat_eval branch_key)

lemma f3_patterns:
  "instr_match ''??????? ????? ????? 000 ????? ????? ??'' w \<longleftrightarrow> f_funct3 w = 0"
  "instr_match ''??????? ????? ????? 001 ????? ????? ??'' w \<longleftrightarrow> f_funct3 w = 1"
  "instr_match ''??????? ????? ????? 010 ????? ????? ??'' w \<longleftrightarrow> f_funct3 w = 2"
  "instr_match ''??????? ????? ????? 011 ????? ????? ??'' w \<longleftrightarrow> f_funct3 w = 3"
  "instr_match ''??????? ????? ????? 100 ????? ????? ??'' w \<longleftrightarrow> f_funct3 w = 4"
  "instr_match ''??????? ????? ????? 101 ????? ????? ??'' w \<longleftrightarrow> f_funct3 w = 5"
  "instr_match ''??????? ????? ????? 110 ????? ????? ??'' w \<longleftrightarrow> f_funct3 w = 6"
  "instr_match ''??????? ????? ????? 111 ????? ????? ??'' w \<longleftrightarrow> f_funct3 w = 7"
  by (simp_all add: pat_eval f3_field)

text \<open>The comparison of a branch.\<close>

definition branch_relop :: "uint32 \<Rightarrow> uint32" where
  "branch_relop f3 = (if f3 = 0 then RELOP_EQ else if f3 = 1 then RELOP_NE else if f3 = 4 then RELOP_LT
     else if f3 = 5 then RELOP_GE else if f3 = 6 then RELOP_LTU else RELOP_GEU)"

lemma decode_frames [simp]: "d_instr (decode_B s) = d_instr s" "d_instr (decode_I s) = d_instr s" "d_instr (decode_J s) = d_instr s"
  by (simp_all add: decode_B_def decode_I_def decode_J_def)

lemma f3_cases: "f_funct3 w \<in> {0, 1, 2, 3, 4, 5, 6, 7}"
proof -
  have "unat (f_funct3 w) < 2 ^ 3" unfolding f_funct3_def by (rule unat_take_bit_less)
  then show ?thesis by (simp add: word_unat_eq_iff) presburger
qed

lemma jrelop_cong: "read_ptr st a = read_ptr st a' \<Longrightarrow> read_ptr st b = read_ptr st b' \<Longrightarrow>
    rtl_jrelop s relop a b t st = rtl_jrelop s relop a' b' t st"
  by (simp add: rtl_jrelop_def bnd_apply gets_apply)

lemma branch_ops:
  "d_src1 (decode_B s) = Oreg (PGpr (ucast (f_rs1 (d_instr s))))" "d_src2 (decode_B s) = Oreg (PGpr (ucast (f_rs2 (d_instr s))))"
  "d_dest (decode_B s) = Oimm (d_pc s + b_offset (d_instr s))"
  by (simp_all add: decode_B_def decode_op_r_def decode_op_i_def)

lemma branch_shapes:
  "branch_rr relop (decode_B s) st = rtl_jrelop (decode_B s) relop (PGpr (ucast (f_rs1 (d_instr s))))
     (PGpr (ucast (f_rs2 (d_instr s)))) (d_pc s + b_offset (d_instr s)) st"
  "branch_rz relop (decode_B s) st = rtl_jrelop (decode_B s) relop (PGpr (ucast (f_rs1 (d_instr s)))) PRz
     (d_pc s + b_offset (d_instr s)) st"
  "branch_zr relop (decode_B s) st = rtl_jrelop (decode_B s) relop PRz (PGpr (ucast (f_rs2 (d_instr s))))
     (d_pc s + b_offset (d_instr s)) st"
  by (simp_all add: branch_rr_def branch_rz_def branch_zr_def with_defs branch_ops m_simps)

lemmas branch_execs = exec_beq_def exec_bne_def exec_blt_def exec_bge_def exec_bltu_def exec_bgeu_def exec_c_beqz_def
  exec_c_bnez_def exec_p_bltz_def exec_p_bgez_def exec_p_bgtz_def exec_p_blez_def

definition set_pc :: "uint64 \<Rightarrow> machine \<Rightarrow> machine" where
  "set_pc a st = st\<lparr>cpu := (cpu st)\<lparr>cpu_pc := a\<rparr>\<rparr>"

text \<open>The conditions of the ISA.\<close>

definition branch_taken :: "uint32 \<Rightarrow> uint64 \<Rightarrow> uint64 \<Rightarrow> bool" where
  "branch_taken f3 x y = (if f3 = 0 then x = y else if f3 = 1 then x \<noteq> y else if f3 = 4 then sint x < sint y
     else if f3 = 5 then sint y \<le> sint x else if f3 = 6 then x < y else y \<le> x)"

lemma relop_taken: "f3 \<in> {0, 1, 2, 3, 4, 5, 6, 7} \<Longrightarrow> f3 \<notin> {2, 3} \<Longrightarrow> relop_m (branch_relop f3) x y = ret (branch_taken f3 x y)"
  by (auto simp: branch_relop_def branch_taken_def relop_m_def)

lemma snpc_frames [simp]: "d_snpc (decode_B s) = d_snpc s" "d_snpc (decode_I s) = d_snpc s" "d_snpc (decode_J s) = d_snpc s"
  by (simp_all add: decode_B_def decode_I_def decode_J_def)

lemma branch_rr_spec:
  assumes "f_funct3 (d_instr s) \<notin> {2, 3}"
  shows "branch_rr (branch_relop (f_funct3 (d_instr s))) (decode_B s) st = Ret () (set_pc
    (if branch_taken (f_funct3 (d_instr s)) (rs1_val s st) (rs2_val s st) then d_pc s + b_offset (d_instr s) else d_snpc s) st)"
  by (simp add: branch_shapes rtl_jrelop_def relop_taken[OF f3_cases assms] rtl_j_def m_simps rs1_val_def rs2_val_def set_pc_def)

lemma branch_dispatch_rr:
  assumes "x0_zero st" "f_funct3 (d_instr s) \<notin> {2, 3}"
  shows "\<exists>idx. table_branch (decode_B s) = Some (decode_B s, idx) \<and>
      exec_instr fl idx (decode_B s) st = branch_rr (branch_relop (f_funct3 (d_instr s))) (decode_B s) st"
proof -
  have z: "rtl_jrelop d relop PRz b t st = rtl_jrelop d relop (PGpr 0) b t st"
    "rtl_jrelop d relop a PRz t st = rtl_jrelop d relop a (PGpr 0) t st" for d relop a b t
    using assms by (auto intro!: jrelop_cong simp: x0_zero_def)
  show ?thesis
    using f3_cases[of "d_instr s"] assms(2)
    by (auto simp: table_branch_def TAB_def get_instr_def branch_patterns f3_patterns tb_def branch_relop_def
        branch_execs branch_shapes z)
qed

text \<open>Property C18: branches. The decoder replaces a comparison with \<open>x0\<close> by a helper that compares with the
  constant zero; for every encoding the chosen helper goes to the target, the program counter plus the
  decoded offset, exactly when the condition that \<open>funct3\<close> selects holds of the two registers, and to the
  next instruction otherwise, and changes nothing else; the two reserved encodings are invalid.\<close>

theorem branch_dispatch:
  assumes "x0_zero st"
  shows "if f_funct3 (d_instr s) \<in> {2, 3} then table_branch (decode_B s) = Some (decode_B s, Special ID_inv)
    else \<exists>idx. table_branch (decode_B s) = Some (decode_B s, idx) \<and>
      exec_instr fl idx (decode_B s) st = Ret () (set_pc
        (if branch_taken (f_funct3 (d_instr s)) (rs1_val s st) (rs2_val s st)
         then d_pc s + b_offset (d_instr s) else d_snpc s) st)"
proof (cases "f_funct3 (d_instr s) \<in> {2, 3}")
  case True
  then show ?thesis
    by (auto simp: table_branch_def TAB_def get_instr_def branch_patterns f3_patterns tb_def inv_def)
next
  case False
  with branch_dispatch_rr[OF assms False, of fl] branch_rr_spec[OF False] show ?thesis by auto
qed

theorem branch_dispatch_witness:
  "\<forall>fl. \<exists>idx. table_branch (decode_B (static_decode\<lparr>d_pc := 0, d_instr := 0x00055463, d_snpc := 4\<rparr>)) =
       Some (decode_B (static_decode\<lparr>d_pc := 0, d_instr := 0x00055463, d_snpc := 4\<rparr>), idx) \<and>
     exec_instr fl idx (decode_B (static_decode\<lparr>d_pc := 0, d_instr := 0x00055463, d_snpc := 4\<rparr>)) static_machine =
       Ret () (set_pc 8 static_machine)"
proof -
  have "x0_zero static_machine" by (simp add: x0_zero_def)
  from branch_dispatch[OF this, of "static_decode\<lparr>d_pc := 0, d_instr := 0x00055463, d_snpc := 4\<rparr>"] show ?thesis
    by (simp add: f_funct3_def branch_taken_def rs1_val_def rs2_val_def b_offset_def b_simm12_def b_imm11_def b_imm10_5_def b_imm4_1_def)
qed

section \<open>Immediate additions\<close>

abbreviation i_imm :: "decode \<Rightarrow> uint64" where
  "i_imm s \<equiv> scast (i_simm11_0 (d_instr s))"

lemma decode_I_ops: "d_dest (decode_I s) = Oreg (rd_ptr s)" "d_src1 (decode_I s) = Oreg (rs1_ptr s)"
    "d_src2 (decode_I s) = Oimm (i_imm s)"
  by (simp_all add: decode_I_def decode_op_r_def decode_op_i_def rd_ptr_def rs1_ptr_def)

lemma i_imm_take: "i_simm11_0 w = signed_take_bit 11 (take_bit 12 (drop_bit 20 w))"
  by (rule bit_word_eqI) (auto simp: i_simm11_0_def bit_signed_take_bit_iff bit_take_bit_iff min_def)

lemma addi_keys:
  "drop_bit 15 w AND 0x1ffff = 0 \<Longrightarrow> f_rs1 w = 0 \<and> i_simm11_0 w = 0"
  "drop_bit 15 w AND 0x1ffff = 0x20 \<Longrightarrow> f_rs1 w = 0 \<and> i_simm11_0 w = 1"
  "drop_bit 15 w AND 0x1f = 0 \<Longrightarrow> f_rs1 w = 0"
  "drop_bit 20 w AND 0xfff = 0 \<Longrightarrow> i_simm11_0 w = 0"
proof -
  have split: "take_bit 5 (take_bit 17 (drop_bit 15 w)) = f_rs1 w" "drop_bit 5 (take_bit 17 (drop_bit 15 w)) = take_bit 12 (drop_bit 20 w)"
    by (auto simp: f_rs1_def intro!: bit_word_eqI simp: bit_simps)
  have m: "drop_bit 15 w AND 0x1ffff = take_bit 17 (drop_bit 15 w)" "drop_bit 15 w AND 0x1f = f_rs1 w"
    "drop_bit 20 w AND 0xfff = take_bit 12 (drop_bit 20 w)"
    by (simp_all add: take_bit_eq_mask mask_numeral f_rs1_def)
  show "drop_bit 15 w AND 0x1ffff = 0 \<Longrightarrow> f_rs1 w = 0 \<and> i_simm11_0 w = 0"
    "drop_bit 15 w AND 0x1ffff = 0x20 \<Longrightarrow> f_rs1 w = 0 \<and> i_simm11_0 w = 1"
    "drop_bit 15 w AND 0x1f = 0 \<Longrightarrow> f_rs1 w = 0" "drop_bit 20 w AND 0xfff = 0 \<Longrightarrow> i_simm11_0 w = 0"
    unfolding m i_imm_take using split by auto
qed

definition adds :: "decode \<Rightarrow> machine \<Rightarrow> (machine, unit) res \<Rightarrow> bool" where
  "adds s st r \<longleftrightarrow> (\<exists>v. r = Ret () (put (rd_ptr s) v st) \<and> (f_rd (d_instr s) \<noteq> 0 \<longrightarrow> v = rs1_val s st + i_imm s))"

lemma addsI: "r = Ret () (put (rd_ptr s) v st) \<Longrightarrow> (f_rd (d_instr s) \<noteq> 0 \<Longrightarrow> v = rs1_val s st + i_imm s) \<Longrightarrow> adds s st r"
  by (auto simp: adds_def)

lemmas addi_execs = exec_defs rtl_defs decode_I_ops with_defs m_simps c_add_def c_sub_def

lemma addi_helpers:
  "adds s st (exec_addi (decode_I s) st)"
  "f_rd (d_instr s) = f_rs1 (d_instr s) \<Longrightarrow> adds s st (exec_c_addi (decode_I s) st)"
  "f_rd (d_instr s) = f_rs1 (d_instr s) \<Longrightarrow> i_imm s = 1 \<Longrightarrow> adds s st (exec_p_inc (decode_I s) st)"
  "f_rd (d_instr s) = f_rs1 (d_instr s) \<Longrightarrow> i_imm s = -1 \<Longrightarrow> adds s st (exec_p_dec (decode_I s) st)"
  "rs1_val s st = 0 \<Longrightarrow> adds s st (exec_c_li (decode_I s) st)"
  "i_imm s = 0 \<Longrightarrow> adds s st (exec_c_mv (decode_I s) st)"
  "rs1_val s st = 0 \<Longrightarrow> i_imm s = 0 \<Longrightarrow> adds s st (exec_p_li_0 (decode_I s) st)"
  "rs1_val s st = 0 \<Longrightarrow> i_imm s = 1 \<Longrightarrow> adds s st (exec_p_li_1 (decode_I s) st)"
  by (rule addsI; simp add: addi_execs; fail | rule addsI, simp add: addi_execs, simp add: addi_execs rd_ptr_def rs1_val_def; fail)+

lemma addi_dispatch_sound:
  assumes "x0_zero st"
  shows "\<exists>idx. table_addi_dispatch (decode_I s) = Some (decode_I s, idx) \<and> adds s st (exec_instr fl idx (decode_I s) st)"
proof -
  have z: "f_rs1 (d_instr s) = 0 \<Longrightarrow> rs1_val s st = 0" using assms by (simp add: rs1_val_def x0_zero_def)
  show ?thesis
    using addi_helpers(1,5-8)[of s st] addi_keys[of "d_instr s"] z
    by (simp add: table_addi_dispatch_def TAB_def get_instr_def pat_eval tb_def)
qed

lemma c_addi_dispatch_sound:
  assumes "f_rd (d_instr s) = f_rs1 (d_instr s)"
  shows "\<exists>idx. table_c_addi_dispatch (decode_I s) = Some (decode_I s, idx) \<and> adds s st (exec_instr fl idx (decode_I s) st)"
  using addi_helpers(2-4)[OF assms] by (simp add: table_c_addi_dispatch_def decode_I_ops tb_def)

text \<open>Property C19: immediate additions. The decoder has eight helpers for \<open>addi\<close> (increment, decrement, load
  of a constant, of zero and of one, move, two-operand and general addition); for every encoding the one
  it chooses leaves the sum of the source register and the immediate in the destination register and
  changes nothing else (a destination \<open>x0\<close> goes to the dummy word).\<close>

theorem addi_dispatch:
  assumes "x0_zero st" "f_funct3 (d_instr s) = 0"
  shows "\<exists>idx v. table_op_imm (decode_I s) = Some (decode_I s, idx) \<and>
    exec_instr fl idx (decode_I s) st = Ret () (put (rd_ptr s) v st) \<and>
    (f_rd (d_instr s) \<noteq> 0 \<longrightarrow> v = rs1_val s st + i_imm s)"
proof (cases "f_rd (d_instr s) = f_rs1 (d_instr s)")
  case True
  then have "table_op_imm (decode_I s) = table_c_addi_dispatch (decode_I s)"
    using assms(2) by (simp add: table_op_imm_def TAB_def get_instr_def f3_patterns)
  with c_addi_dispatch_sound[OF True] show ?thesis by (auto simp: adds_def)
next
  case False
  then have "table_op_imm (decode_I s) = table_addi_dispatch (decode_I s)"
    using assms(2) by (simp add: table_op_imm_def TAB_def get_instr_def f3_patterns)
  with addi_dispatch_sound[OF assms(1)] show ?thesis by (auto simp: adds_def)
qed

theorem addi_dispatch_witness:
  "\<forall>fl. \<exists>idx v. table_op_imm (decode_I (static_decode\<lparr>d_instr := 0x00100293\<rparr>)) =
       Some (decode_I (static_decode\<lparr>d_instr := 0x00100293\<rparr>), idx) \<and>
     exec_instr fl idx (decode_I (static_decode\<lparr>d_instr := 0x00100293\<rparr>)) static_machine =
       Ret () (put (PGpr 5) 1 static_machine)"
proof -
  have "x0_zero static_machine" by (simp add: x0_zero_def)
  from addi_dispatch[OF this, of "static_decode\<lparr>d_instr := 0x00100293\<rparr>"] show ?thesis
    by (simp add: f_funct3_def f_rd_def f_rs1_def rd_ptr_def rs1_val_def i_simm11_0_def)
qed

section \<open>Jumps\<close>

lemma rd_patterns:
  "instr_match ''??????? ????? ????? ??? 00000 ????? ??'' w \<longleftrightarrow> f_rd w = 0"
  "instr_match ''??????? ????? ????? ??? 00001 ????? ??'' w \<longleftrightarrow> f_rd w = 1"
  "instr_match ''??????? ????? ????? ??? ????? ????? ??'' w"
  by (simp_all add: pat_eval f_rd_def take_bit_eq_mask mask_numeral)

lemma decode_J_ops: "d_dest (decode_J s) = Oreg (rd_ptr s)" "d_src1 (decode_J s) = Oimm (d_pc s + j_offset (d_instr s))"
    "d_src2 (decode_J s) = Oimm (d_snpc s)"
  by (simp_all add: decode_J_def decode_op_r_def decode_op_i_def rd_ptr_def)

lemma put_zero_null [simp]: "put PZeroNull (zero_null st) st = st"
  by simp

text \<open>Direct jumps. Whichever of its three helpers the decoder chooses, a jump goes to the program
  counter plus the decoded offset and leaves the address of the next instruction in the destination
  register.\<close>

theorem jal_dispatch:
  "\<exists>idx v. table_jal_dispatch (decode_J s) = Some (decode_J s, idx) \<and>
     exec_instr fl idx (decode_J s) st = Ret () (set_pc (d_pc s + j_offset (d_instr s)) (put (rd_ptr s) v st)) \<and>
     (f_rd (d_instr s) = 0 \<or> v = d_snpc s)"
  by (auto simp: table_jal_dispatch_def TAB_def get_instr_def rd_patterns tb_def addi_execs decode_J_ops rd_ptr_def set_pc_def
      intro!: exI[of _ "zero_null st"])

lemma field_of_key: "x AND m = c \<Longrightarrow> take_bit n (drop_bit k m) = mask n \<Longrightarrow> take_bit n (drop_bit k x) = take_bit n (drop_bit k c)"
  for x m c :: uint32
proof -
  assume c: "x AND m = c" and m: "take_bit n (drop_bit k m) = mask n"
  have "i < n \<Longrightarrow> k + i < 32 \<Longrightarrow> bit m (k + i)" for i
    using arg_cong[OF m, of "\<lambda>w. bit w i"] by (simp add: bit_simps)
  moreover have "bit x (k + i) \<Longrightarrow> k + i < 32" for i using bit_imp_le_length[of x "k + i"] by simp
  ultimately show ?thesis unfolding c[symmetric] by (auto simp: bit_simps intro!: bit_word_eqI)
qed

lemma ret_keys:
  assumes "drop_bit 7 w AND 0x1ffff1f = 256"
  shows "f_rd w = 0 \<and> f_rs1 w = 1 \<and> i_simm11_0 w = 0"
proof -
  have "f_rd w = take_bit 5 (drop_bit 0 (drop_bit 7 w))" "f_rs1 w = take_bit 5 (drop_bit 8 (drop_bit 7 w))"
    "i_simm11_0 w = signed_take_bit 11 (take_bit 12 (drop_bit 13 (drop_bit 7 w)))"
    by (simp_all add: f_rd_def f_rs1_def i_imm_take)
  with field_of_key[OF assms, of 5 0] field_of_key[OF assms, of 5 8] field_of_key[OF assms, of 12 13]
  show ?thesis by (simp add: mask_numeral)
qed

lemma jr_keys:
  assumes "drop_bit 7 w AND 0x1ffe01f = 0"
  shows "f_rd w = 0 \<and> i_simm11_0 w = 0"
proof -
  have "f_rd w = take_bit 5 (drop_bit 0 (drop_bit 7 w))" 
    "i_simm11_0 w = signed_take_bit 11 (take_bit 12 (drop_bit 13 (drop_bit 7 w)))"
    by (simp_all add: f_rd_def i_imm_take)
  with field_of_key[OF assms, of 5 0] field_of_key[OF assms, of 12 13] show ?thesis by (simp add: mask_numeral)
qed

text \<open>Indirect jumps. Whichever of its three helpers the decoder chooses, an indirect jump goes to
  the sum of the register and the immediate and leaves the address of the next instruction in the
  destination register. The low bit of the sum is kept, which the architecture asks to clear: with 1 as
  the immediate, the target is odd for every even register.\<close>

theorem jalr_dispatch:
  "\<exists>idx v t. table_jalr_dispatch (decode_I s) = Some (decode_I s, idx) \<and>
     exec_instr fl idx (decode_I s) st = Ret () (set_pc (rs1_val s st + i_imm s) (put (rd_ptr s) v (st\<lparr>tmp_reg := t\<rparr>))) \<and>
     (f_rd (d_instr s) = 0 \<or> v = d_snpc s)"
proof -
  let ?post = "\<lambda>r. \<exists>v t. r = Ret () (set_pc (rs1_val s st + i_imm s) (put (rd_ptr s) v (st\<lparr>tmp_reg := t\<rparr>))) \<and>
     (f_rd (d_instr s) = 0 \<or> v = d_snpc s)"
  have jalr: "?post (exec_jalr (decode_I s) st)"
    by (rule exI[of _ "d_snpc s"], rule exI[of _ "(tmp_reg st)(S0 := rs1_val s st + i_imm s)"]) (simp add: addi_execs set_pc_def rd_ptr_def)
  have jr: "f_rd (d_instr s) = 0 \<Longrightarrow> i_imm s = 0 \<Longrightarrow> ?post (exec_c_jr (decode_I s) st)"
    by (rule exI[of _ "zero_null st"], rule exI[of _ "tmp_reg st"]) (simp add: addi_execs set_pc_def rd_ptr_def)
  have ret: "f_rd (d_instr s) = 0 \<Longrightarrow> i_imm s = 0 \<Longrightarrow> f_rs1 (d_instr s) = 1 \<Longrightarrow> ?post (exec_p_ret (decode_I s) st)"
    by (rule exI[of _ "zero_null st"], rule exI[of _ "tmp_reg st"]) (simp add: addi_execs set_pc_def rd_ptr_def rs1_val_def)
  show ?thesis
    using jalr jr ret ret_keys[of "d_instr s"] jr_keys[of "d_instr s"]
    by (simp add: table_jalr_dispatch_def TAB_def get_instr_def pat_eval tb_def)
qed

end
