(* ===== verification/MulDiv.thy ===== *)
theory MulDiv
  imports Operands ExecM
begin

text \<open>
  The multiply and divide instructions against the integer specification of the M extension: division
  rounds towards zero, division by zero and the overflowing quotient have the results the architecture
  prescribes, the high products are the upper halves of the exact 128-bit products, and no operand makes
  the host divide trap.
\<close>

section \<open>Specification\<close>

definition spec_div :: "uint64 \<Rightarrow> uint64 \<Rightarrow> uint64" where
  "spec_div x y = (if y = 0 then -1 else word_of_int (sint x sdiv sint y))"
definition spec_rem :: "uint64 \<Rightarrow> uint64 \<Rightarrow> uint64" where
  "spec_rem x y = (if y = 0 then x else word_of_int (sint x smod sint y))"
definition spec_divu :: "uint64 \<Rightarrow> uint64 \<Rightarrow> uint64" where
  "spec_divu x y = (if y = 0 then -1 else word_of_int (uint x div uint y))"
definition spec_remu :: "uint64 \<Rightarrow> uint64 \<Rightarrow> uint64" where
  "spec_remu x y = (if y = 0 then x else word_of_int (uint x mod uint y))"

lemma sint_eq: "sint x = sint y \<longleftrightarrow> x = y"
  by (auto intro: signed_word_eqI)

lemma sint_min64: "sint (x :: uint64) = - 9223372036854775808 \<longleftrightarrow> x = 0x8000000000000000"
  using sint_eq[of x "0x8000000000000000"] by simp

lemma sint_m1: "sint (x :: 'a::len word) = -1 \<longleftrightarrow> x = -1"
  using sint_eq[of x "-1"] by simp

lemma divs_q: "y \<noteq> 0 \<Longrightarrow> \<not> (x = 0x8000000000000000 \<and> y = -1) \<Longrightarrow> c_divs_q x y = Some (spec_div x y)"
  by (auto simp: c_divs_q_def spec_div_def sint_min64 sint_m1)

lemma divs_r: "y \<noteq> 0 \<Longrightarrow> \<not> (x = 0x8000000000000000 \<and> y = -1) \<Longrightarrow> c_divs_r x y = Some (spec_rem x y)"
  by (auto simp: c_divs_r_def spec_rem_def sint_min64 sint_m1)

lemma spec_overflow: "spec_div 0x8000000000000000 (-1) = 0x8000000000000000" "spec_rem 0x8000000000000000 (-1) = 0"
  by (simp_all add: spec_div_def spec_rem_def signed_modulo_int_def)

lemma divu_q: "y \<noteq> 0 \<Longrightarrow> c_divu_q x y = Some (spec_divu x y)"
  by (simp add: c_divu_q_def spec_divu_def word_div_def)

lemma divu_r: "y \<noteq> 0 \<Longrightarrow> c_divu_r x y = Some (spec_remu x y)"
  by (simp add: c_divu_r_def spec_remu_def word_mod_def)

section \<open>Division\<close>

text \<open>Property C23: signed and unsigned division and remainder return, never trap the host, and leave the
  architectural result in the destination for all operands, zero divisors and the overflow included.\<close>

theorem div_rem_spec:
  "computes (exec_div (decode_R s)) (rd_ptr s) (spec_div (rs1_val s st) (rs2_val s st)) st \<and>
   computes (exec_rem (decode_R s)) (rd_ptr s) (spec_rem (rs1_val s st) (rs2_val s st)) st \<and>
   computes (exec_divu (decode_R s)) (rd_ptr s) (spec_divu (rs1_val s st) (rs2_val s st)) st \<and>
   computes (exec_remu (decode_R s)) (rd_ptr s) (spec_remu (rs1_val s st) (rs2_val s st)) st"
proof (intro conjI)
  let ?x = "rs1_val s st" and ?y = "rs2_val s st"
  show "computes (exec_div (decode_R s)) (rd_ptr s) (spec_div ?x ?y) st"
    by (rule computes_direct)
      (auto simp: exec_div_def rrr_decode_R m_simps rtl_defs c_op_defs divs_q spec_overflow spec_div_def[of _ 0])
  show "computes (exec_rem (decode_R s)) (rd_ptr s) (spec_rem ?x ?y) st"
    by (rule computes_direct)
      (auto simp: exec_rem_def rrr_decode_R m_simps rtl_defs c_op_defs divs_r spec_overflow spec_rem_def[of _ 0])
  show "computes (exec_divu (decode_R s)) (rd_ptr s) (spec_divu ?x ?y) st"
    by (rule computes_direct)
      (auto simp: exec_divu_def rrr_decode_R m_simps rtl_defs c_op_defs divu_q spec_divu_def[of _ 0])
  show "computes (exec_remu (decode_R s)) (rd_ptr s) (spec_remu ?x ?y) st"
    by (rule computes_direct)
      (auto simp: exec_remu_def rrr_decode_R m_simps rtl_defs c_op_defs divu_r spec_remu_def[of _ 0])
qed

section \<open>Word division\<close>

definition spec_divw :: "uint32 \<Rightarrow> uint32 \<Rightarrow> uint32" where
  "spec_divw x y = (if y = 0 then -1 else word_of_int (sint x sdiv sint y))"
definition spec_remw :: "uint32 \<Rightarrow> uint32 \<Rightarrow> uint32" where
  "spec_remw x y = (if y = 0 then x else word_of_int (sint x smod sint y))"
definition spec_divuw :: "uint32 \<Rightarrow> uint32 \<Rightarrow> uint32" where
  "spec_divuw x y = (if y = 0 then -1 else x div y)"
definition spec_remuw :: "uint32 \<Rightarrow> uint32 \<Rightarrow> uint32" where
  "spec_remuw x y = (if y = 0 then x else x mod y)"

definition sext32 :: "uint64 \<Rightarrow> uint64" where "sext32 x = scast (ucast x :: uint32)"
definition zext32 :: "uint64 \<Rightarrow> uint64" where "zext32 x = ucast (ucast x :: uint32)"

lemma shift32: "unat ((32 :: uint64) AND c_shift_mask) = 32"
  by (simp add: c_shift_mask_def)

lemma sext32_shift: "signed_drop_bit 32 (push_bit 32 x) = sext32 x"
  unfolding sext32_def
proof (rule bit_word_eqI)
  fix n show "bit (signed_drop_bit 32 (push_bit 32 x)) n \<longleftrightarrow> bit (scast (ucast x :: uint32) :: uint64) n"
    if "n < LENGTH(64)"
    using that by (cases "n = 31") (auto simp: bit_simps min_def)
qed

lemma zext32_shift: "drop_bit 32 (push_bit 32 x) = zext32 x"
  unfolding zext32_def by (rule bit_word_eqI) (auto simp: bit_simps)

lemma rtl_sext4: "d \<noteq> PRz \<Longrightarrow> rtl_sext d a 4 st = Ret () (put d (sext32 (read_ptr st a)) st)"
  by (cases d) (simp_all add: rtl_sext_def m_simps rtl_defs c_shl_def c_sar_def shift32 sext32_shift)

lemma rtl_zext4: "d \<noteq> PRz \<Longrightarrow> rtl_zext d a 4 st = Ret () (put d (zext32 (read_ptr st a)) st)"
  by (cases d) (simp_all add: rtl_zext_def m_simps rtl_defs c_shl_def c_shr_def shift32 zext32_shift)

lemma sint_sext32: "sint (sext32 x) = sint (ucast x :: uint32)"
  by (simp add: sext32_def sint_up_scast is_up)

lemma sext32_zero: "sext32 x = 0 \<longleftrightarrow> (ucast x :: uint32) = 0"
  by (metis sint_0 sint_eq sint_sext32)

lemma sext32_range: "- (2 ^ 31) \<le> sint (sext32 x) \<and> sint (sext32 x) < 2 ^ 31"
  using sint_range_size[of "ucast x :: uint32"] by (simp add: sint_sext32 word_size)

text \<open>The overflow guard of the word forms never fires: a sign-extended dividend is never \<open>0x80000000\<close>.\<close>

lemma guard_dead: "sext32 x \<noteq> 0x80000000"
proof
  assume "sext32 x = 0x80000000"
  then have "sint (sext32 x) = 0x80000000" by simp
  with sext32_range[of x] show False by simp
qed

lemma ucast_word_of_int: "(ucast (word_of_int i :: uint64) :: uint32) = word_of_int i"
  by (rule bit_word_eqI) (simp add: bit_simps)

lemma divw_value: "sext32 y \<noteq> 0 \<Longrightarrow>
  \<exists>v. c_divs_q (sext32 x) (sext32 y) = Some v \<and> sext32 v = scast (spec_divw (ucast x) (ucast y))"
  using guard_dead[of x] sext32_range[of x]
  by (auto simp: c_divs_q_def spec_divw_def sext32_zero sint_sext32 sext32_def[of "word_of_int _"] ucast_word_of_int)

lemma remw_value: "sext32 y \<noteq> 0 \<Longrightarrow>
  \<exists>v. c_divs_r (sext32 x) (sext32 y) = Some v \<and> sext32 v = scast (spec_remw (ucast x) (ucast y))"
  using guard_dead[of x] sext32_range[of x]
  by (auto simp: c_divs_r_def spec_remw_def sext32_zero sint_sext32 sext32_def[of "word_of_int _"] ucast_word_of_int)

lemma uint_zext32: "uint (zext32 x) = uint (ucast x :: uint32)"
  using uint_lt2p[of "ucast x :: uint32"]
  by (simp add: zext32_def unsigned_ucast_eq unsigned_take_bit_eq take_bit_int_eq_self)

lemma zext32_zero: "zext32 x = 0 \<longleftrightarrow> (ucast x :: uint32) = 0"
  by (metis uint_0_iff uint_zext32)

lemma ucast_sext32: "(ucast (sext32 x) :: uint32) = ucast x"
  unfolding sext32_def
proof (rule bit_word_eqI)
  fix n show "bit (ucast (scast (ucast x :: uint32) :: uint64) :: uint32) n \<longleftrightarrow> bit (ucast x :: uint32) n"
    if "n < LENGTH(32)"
    using that by (cases "n = 31") (auto simp: bit_simps min_def)
qed

lemma sext32_idem: "sext32 (sext32 x) = scast (ucast x :: uint32)"
  by (simp add: sext32_def[of "sext32 x"] ucast_sext32)

lemma sext32_zext32: "sext32 (zext32 x) = scast (ucast x :: uint32)"
  unfolding sext32_def zext32_def
  by (rule arg_cong[where f = scast], rule bit_word_eqI) (auto simp: bit_simps)

lemma divuw_value: "zext32 y \<noteq> 0 \<Longrightarrow>
  \<exists>v. c_divu_q (zext32 x) (zext32 y) = Some v \<and> sext32 v = scast (spec_divuw (ucast x) (ucast y))"
  by (auto simp: c_divu_q_def spec_divuw_def zext32_zero word_div_def uint_zext32 sext32_def ucast_word_of_int)

lemma remuw_value: "zext32 y \<noteq> 0 \<Longrightarrow>
  \<exists>v. c_divu_r (zext32 x) (zext32 y) = Some v \<and> sext32 v = scast (spec_remuw (ucast x) (ucast y))"
  by (auto simp: c_divu_r_def spec_remuw_def zext32_zero word_mod_def uint_zext32 sext32_def ucast_word_of_int)

lemmas divw_evals = rrr_decode_R m_simps rtl_sext4 rtl_zext4 rtl_divs_q_def rtl_divs_r_def rtl_divu_q_def rtl_divu_r_def
  rtl_compute_defs rtl_li_def rtl_mv_def rtl_addi_def c_add_def

lemma sext32_m1: "sext32 (- 1) = scast (- 1 :: uint32)"
  by (rule bit_word_eqI) (auto simp: sext32_def bit_simps)

lemma divw_computes:
  "computes (exec_divw (decode_R s)) (rd_ptr s) (scast (spec_divw (ucast (rs1_val s st)) (ucast (rs2_val s st)))) st"
proof (cases "sext32 (rs2_val s st) = 0")
  case True
  then show ?thesis by (simp add: computes_rd exec_divw_def divw_evals spec_divw_def sext32_zero sext32_m1)
next
  case False
  from divw_value[OF False, of "rs1_val s st"] False guard_dead[of "rs1_val s st"] show ?thesis
    by (auto simp: computes_rd exec_divw_def divw_evals)
qed

lemma remw_computes:
  "computes (exec_remw (decode_R s)) (rd_ptr s) (scast (spec_remw (ucast (rs1_val s st)) (ucast (rs2_val s st)))) st"
proof (cases "sext32 (rs2_val s st) = 0")
  case True
  then show ?thesis by (simp add: computes_rd exec_remw_def divw_evals spec_remw_def sext32_zero sext32_idem)
next
  case False
  from remw_value[OF False, of "rs1_val s st"] False guard_dead[of "rs1_val s st"] show ?thesis
    by (auto simp: computes_rd exec_remw_def divw_evals)
qed

lemma divuw_computes:
  "computes (exec_divuw (decode_R s)) (rd_ptr s) (scast (spec_divuw (ucast (rs1_val s st)) (ucast (rs2_val s st)))) st"
proof (cases "zext32 (rs2_val s st) = 0")
  case True
  then show ?thesis by (simp add: computes_rd exec_divuw_def divw_evals spec_divuw_def zext32_zero sext32_m1)
next
  case False
  from divuw_value[OF False, of "rs1_val s st"] False show ?thesis
    by (auto simp: computes_rd exec_divuw_def divw_evals)
qed

lemma remuw_computes:
  "computes (exec_remuw (decode_R s)) (rd_ptr s) (scast (spec_remuw (ucast (rs1_val s st)) (ucast (rs2_val s st)))) st"
proof (cases "zext32 (rs2_val s st) = 0")
  case True
  then show ?thesis by (simp add: computes_rd exec_remuw_def divw_evals spec_remuw_def zext32_zero sext32_zext32)
next
  case False
  from remuw_value[OF False, of "rs1_val s st"] False show ?thesis
    by (auto simp: computes_rd exec_remuw_def divw_evals)
qed

text \<open>The word forms of division and remainder return, never trap the host, and leave the
  sign-extended 32-bit result in the destination; the overflow is right although its guard is dead.\<close>

theorem divw_remw_spec:
  "computes (exec_divw (decode_R s)) (rd_ptr s) (scast (spec_divw (ucast (rs1_val s st)) (ucast (rs2_val s st)))) st \<and>
   computes (exec_remw (decode_R s)) (rd_ptr s) (scast (spec_remw (ucast (rs1_val s st)) (ucast (rs2_val s st)))) st \<and>
   computes (exec_divuw (decode_R s)) (rd_ptr s) (scast (spec_divuw (ucast (rs1_val s st)) (ucast (rs2_val s st)))) st \<and>
   computes (exec_remuw (decode_R s)) (rd_ptr s) (scast (spec_remuw (ucast (rs1_val s st)) (ucast (rs2_val s st)))) st"
  by (simp add: divw_computes remw_computes divuw_computes remuw_computes)

section \<open>Products\<close>

lemma mulu_hi: "c_mulu_hi x y = word_of_int ((uint x * uint y) div 2 ^ 64)"
proof -
  have b: "0 \<le> uint x" "uint x < 2 ^ 64" "0 \<le> uint y" "uint y < 2 ^ 64"
    using uint_lt2p[of x] uint_lt2p[of y] by simp_all
  then have "uint x * uint y < 2 ^ 64 * 2 ^ 64" by (intro mult_strict_mono) auto
  then have "uint ((ucast x :: 128 word) * ucast y) = uint x * uint y"
    using b by (simp add: uint_word_ariths unsigned_ucast_eq take_bit_int_eq_self)
  then show ?thesis unfolding c_mulu_hi_def
    by (subst word_uint_eq_iff)
      (simp add: unsigned_ucast_eq unsigned_drop_bit_eq drop_bit_eq_div uint_word_of_int take_bit_eq_mod uint_div_distrib)
qed

lemma ucast_of_sint: "(ucast (w :: 128 word) :: uint64) = word_of_int (sint w)"
proof -
  have "(ucast (word_of_int (sint w) :: 128 word) :: uint64) = word_of_int (sint w)"
    by (rule bit_word_eqI) (simp add: bit_simps)
  then show ?thesis by simp
qed

lemma sint_range64: "- (2 ^ 63) \<le> sint (x :: uint64)" "sint x < 2 ^ 63"
  using sint_range_size[of x] by (simp_all add: word_size)

lemma abs_sint64: "\<bar>sint (x :: uint64)\<bar> \<le> 2 ^ 63"
  using sint_range64[of x] by linarith

lemma muls_hi: "c_muls_hi x y = word_of_int ((sint x * sint y) div 2 ^ 64)"
proof -
  have "\<bar>sint x * sint y\<bar> \<le> 2 ^ 63 * 2 ^ 63"
    unfolding abs_mult by (intro mult_mono abs_sint64) auto
  then have "- (2 ^ 127) \<le> sint x * sint y" "sint x * sint y < 2 ^ 127" by simp_all
  then have "sint ((scast x :: 128 word) * scast y) = sint x * sint y"
    by (simp add: sint_word_ariths sint_up_scast is_up signed_take_bit_int_eq_self)
  then show ?thesis unfolding c_muls_hi_def ucast_of_sint
    by (simp add: sint_signed_drop_bit_eq drop_bit_eq_div)
qed

lemma sint_uint64: "sint (x :: uint64) = uint x - (if bit x 63 then 2 ^ 64 else 0)"
proof -
  have "sint x = signed_take_bit 63 (uint x)" by (simp add: sint_uint)
  then show ?thesis
    using uint_lt2p[of x] by (simp add: signed_take_bit_eq_take_bit_minus bit_uint_iff take_bit_int_eq_self)
qed

lemma sar63: "c_sar x 63 = (if bit x 63 then -1 else 0)"
proof -
  have "unat ((63 :: uint64) AND c_shift_mask) = 63" by (simp add: c_shift_mask_def)
  then show ?thesis unfolding c_sar_def
    by (simp only:) (rule bit_word_eqI, auto simp: bit_simps Suc_le_eq)
qed

lemma mulhsu_value:
  "c_sub (c_mulu_hi x y) (c_and y (c_sar x 63)) = word_of_int ((sint x * uint y) div 2 ^ 64)"
proof (cases "bit x 63")
  case True
  then have "sint x * uint y = uint x * uint y + 2 ^ 64 * (- uint y)"
    by (simp add: sint_uint64 algebra_simps)
  then have "(sint x * uint y) div 2 ^ 64 = uint x * uint y div 2 ^ 64 - uint y"
    by (simp only: div_mult_self2) simp
  with True show ?thesis by (simp add: c_sub_def c_and_def sar63 mulu_hi)
next
  case False
  then show ?thesis by (simp add: c_sub_def c_and_def sar63 mulu_hi sint_uint64)
qed

lemma mulhsu_rrr: "exec_mulhsu = rrr (\<lambda>d a b. seqs [
     rtl_sari (PTmp S0) a 63, rtl_and (PTmp S0) b (PTmp S0), rtl_mulu_hi (PTmp S1) a b, rtl_sub d (PTmp S1) (PTmp S0)])"
  by (simp add: exec_mulhsu_def[abs_def] rrr_def[abs_def])

text \<open>Property C24: \<open>mul\<close>, \<open>mulh\<close>, \<open>mulhu\<close> and \<open>mulhsu\<close> leave the low half and the three high halves of the
  exact product in the destination, and \<open>mulw\<close> the sign-extended low 32 bits.\<close>

theorem mul_spec:
  "computes (exec_mul (decode_R s)) (rd_ptr s) (word_of_int (sint (rs1_val s st) * sint (rs2_val s st))) st \<and>
   computes (exec_mulh (decode_R s)) (rd_ptr s) (word_of_int ((sint (rs1_val s st) * sint (rs2_val s st)) div 2 ^ 64)) st \<and>
   computes (exec_mulhu (decode_R s)) (rd_ptr s) (word_of_int ((uint (rs1_val s st) * uint (rs2_val s st)) div 2 ^ 64)) st \<and>
   computes (exec_mulhsu (decode_R s)) (rd_ptr s) (word_of_int ((sint (rs1_val s st) * uint (rs2_val s st)) div 2 ^ 64)) st \<and>
   computes (exec_mulw (decode_R s)) (rd_ptr s)
     (scast (word_of_int (sint (rs1_val s st) * sint (rs2_val s st)) :: uint32)) st"
proof (intro conjI)
  let ?x = "rs1_val s st" and ?y = "rs2_val s st"
  note evals = rrr_decode_R m_simps rtl_defs
  show "computes (exec_mul (decode_R s)) (rd_ptr s) (word_of_int (sint ?x * sint ?y)) st"
    by (rule computes_direct) (simp add: exec_mul_def evals c_op_defs)
  show "computes (exec_mulh (decode_R s)) (rd_ptr s) (word_of_int ((sint ?x * sint ?y) div 2 ^ 64)) st"
    by (rule computes_direct) (simp add: exec_mulh_def evals muls_hi)
  show "computes (exec_mulhu (decode_R s)) (rd_ptr s) (word_of_int ((uint ?x * uint ?y) div 2 ^ 64)) st"
    by (rule computes_direct) (simp add: exec_mulhu_def evals mulu_hi)
  show "computes (exec_mulhsu (decode_R s)) (rd_ptr s) (word_of_int ((sint ?x * uint ?y) div 2 ^ 64)) st"
    by (simp add: computes_rd mulhsu_rrr evals mulhsu_value)
  show "computes (exec_mulw (decode_R s)) (rd_ptr s) (scast (word_of_int (sint ?x * sint ?y) :: uint32)) st"
    by (rule computes_direct)
      (simp add: exec_mulw_def evals c_mulw_def c_sext32to64_def flip: ucast_word_of_int)
qed

end
