(* ===== verification/DecodeTypes.thy ===== *)
theory DecodeTypes
  imports DecodeShape MulDiv
begin

text \<open>
  Type soundness of the decoder and the execution helpers. An operand of the decode record is a union of a
  register pointer and an immediate, with no tag: a helper that reads the member the decoder did not
  store would take a number for an address. Each instruction identity gets a signature, the kinds of
  operand its helper reads; the tables only pair an identity with a record of its signature, and on such
  a record the helpers of the integer instructions return.
\<close>

section \<open>Kinds and signatures\<close>

datatype kind = KReg | KImm | KAny

fun has_kind :: "kind \<Rightarrow> operand \<Rightarrow> bool" where
  "has_kind KReg (Oreg p) \<longleftrightarrow> p \<noteq> PRz"
| "has_kind KReg (Oimm w) \<longleftrightarrow> False"
| "has_kind KImm (Oimm w) \<longleftrightarrow> True"
| "has_kind KImm (Oreg p) \<longleftrightarrow> False"
| "has_kind KAny v \<longleftrightarrow> True"

text \<open>The kinds of destination, first and second source.\<close>

type_synonym signature = "kind \<times> kind \<times> kind"

definition fits_sig :: "signature \<Rightarrow> decode \<Rightarrow> bool" where
  "fits_sig = (\<lambda>(d, a, b) s. has_kind d (d_dest s) \<and> has_kind a (d_src1 s) \<and> has_kind b (d_src2 s))"

abbreviation sigR :: signature where "sigR \<equiv> (KReg, KReg, KReg)"
abbreviation sigI :: signature where "sigI \<equiv> (KReg, KReg, KImm)"
abbreviation sigU :: signature where "sigU \<equiv> (KReg, KImm, KAny)"
abbreviation sigJ :: signature where "sigJ \<equiv> (KReg, KImm, KImm)"
abbreviation sigB :: signature where "sigB \<equiv> (KImm, KReg, KReg)"
abbreviation sig0 :: signature where "sig0 \<equiv> (KAny, KAny, KAny)"

definition sig_rvi :: "id_rvi \<Rightarrow> signature" where
  "sig_rvi i = (case i of
     ID_auipc \<Rightarrow> sigU | ID_lui \<Rightarrow> sigU | ID_jal \<Rightarrow> sigJ | ID_jalr \<Rightarrow> sigI
   | ID_beq \<Rightarrow> sigB | ID_bne \<Rightarrow> sigB | ID_blt \<Rightarrow> sigB | ID_bge \<Rightarrow> sigB | ID_bltu \<Rightarrow> sigB | ID_bgeu \<Rightarrow> sigB
   | ID_addi \<Rightarrow> sigI | ID_slli \<Rightarrow> sigI | ID_srai \<Rightarrow> sigI | ID_srli \<Rightarrow> sigI | ID_slti \<Rightarrow> sigI | ID_sltui \<Rightarrow> sigI
   | ID_xori \<Rightarrow> sigI | ID_ori \<Rightarrow> sigI | ID_andi \<Rightarrow> sigI | ID_addiw \<Rightarrow> sigI | ID_slliw \<Rightarrow> sigI | ID_srliw \<Rightarrow> sigI
   | ID_sraiw \<Rightarrow> sigI | ID_fence \<Rightarrow> sig0 | ID_fence_i \<Rightarrow> sig0 | _ \<Rightarrow> sigR)"

primrec sig_pseudo :: "id_pseudo \<Rightarrow> signature" where
  "sig_pseudo ID_p_sext_w = (KReg, KReg, KAny)"
| "sig_pseudo ID_p_blez = (KImm, KAny, KReg)"
| "sig_pseudo ID_p_bgtz = (KImm, KAny, KReg)"
| "sig_pseudo ID_p_bltz = (KImm, KReg, KAny)"
| "sig_pseudo ID_p_bgez = (KImm, KReg, KAny)"
| "sig_pseudo ID_p_jal = (KAny, KImm, KImm)"
| "sig_pseudo ID_p_ret = sig0"
| "sig_pseudo ID_p_li_0 = (KReg, KAny, KAny)"
| "sig_pseudo ID_p_li_1 = (KReg, KAny, KAny)"
| "sig_pseudo ID_p_inc = (KReg, KAny, KAny)"
| "sig_pseudo ID_p_dec = (KReg, KAny, KAny)"

definition sig_rvc :: "id_rvc \<Rightarrow> signature" where
  "sig_rvc i = (case i of
     ID_c_j \<Rightarrow> (KAny, KImm, KAny) | ID_c_jr \<Rightarrow> (KAny, KReg, KAny) | ID_c_jalr \<Rightarrow> (KAny, KReg, KAny)
   | ID_c_beqz \<Rightarrow> (KImm, KReg, KAny) | ID_c_bnez \<Rightarrow> (KImm, KReg, KAny) | ID_c_mv \<Rightarrow> (KReg, KReg, KAny)
   | ID_c_add \<Rightarrow> (KReg, KAny, KReg) | ID_c_and \<Rightarrow> (KReg, KAny, KReg) | ID_c_or \<Rightarrow> (KReg, KAny, KReg)
   | ID_c_xor \<Rightarrow> (KReg, KAny, KReg) | ID_c_sub \<Rightarrow> (KReg, KAny, KReg) | ID_c_addw \<Rightarrow> (KReg, KAny, KReg)
   | ID_c_subw \<Rightarrow> (KReg, KAny, KReg) | _ \<Rightarrow> (KReg, KAny, KImm))"

definition sig_rvb :: "id_rvb \<Rightarrow> signature" where
  "sig_rvb i =
     (if i \<in> {ID_clz, ID_ctz, ID_cpop, ID_sext_b, ID_sext_h, ID_zext_h, ID_rev8, ID_orc_b, ID_clzw, ID_ctzw, ID_cpopw}
      then (KReg, KReg, KAny)
      else if i \<in> {ID_rori, ID_roriw, ID_bclri, ID_bseti, ID_binvi, ID_bexti, ID_slliuw} then sigI else sigR)"

text \<open>No claim is made of the other families.\<close>

definition sig_of :: "exec_id \<Rightarrow> signature" where
  "sig_of i = (case i of Rvi j \<Rightarrow> sig_rvi j | Pseudo j \<Rightarrow> sig_pseudo j | Rvc j \<Rightarrow> sig_rvc j
     | Rvm j \<Rightarrow> sigR | Rvb j \<Rightarrow> sig_rvb j | _ \<Rightarrow> sig0)"

definition int_instr :: "exec_id \<Rightarrow> bool" where
  "int_instr i = (case i of Rvi _ \<Rightarrow> True | Pseudo _ \<Rightarrow> True | Rvc _ \<Rightarrow> True | Rvm _ \<Rightarrow> True | Rvb _ \<Rightarrow> True | _ \<Rightarrow> False)"

section \<open>Decoding\<close>

definition typed :: "dres \<Rightarrow> bool" where
  "typed r = (case r of None \<Rightarrow> True | Some (s, i) \<Rightarrow> fits_sig (sig_of i) s)"

lemmas typed_first_match = first_match_all [of typed]

lemma typed_simps [simp]:
  "typed (tb i s) \<longleftrightarrow> fits_sig (sig_of i) s" "typed (inv s)" "typed None"
  by (simp_all add: typed_def tb_def inv_def fits_sig_def sig_of_def)

lemma typed_by_mmu: "typed a \<Longrightarrow> typed b \<Longrightarrow> typed (by_mmu st a b)"
  by (simp add: by_mmu_def split: mmu_mode.split)

lemma op_kinds [simp]:
  "has_kind KReg (decode_op_r v b)" "has_kind KImm (decode_op_i w)" "has_kind KReg (decode_op_fr v b)"
  by (simp_all add: decode_op_r_def decode_op_i_def decode_op_fr_def)

lemma helper_sigs [simp]:
  "fits_sig sigI (decode_I s)" "fits_sig sigR (decode_R s)" "fits_sig sigU (decode_U s)" "fits_sig sigU (decode_auipc s)"
  "fits_sig sigJ (decode_J s)" "fits_sig sigB (decode_B s)" "fits_sig sigI (decode_CI_simm s)" "fits_sig sigI (decode_CI_uimm s)"
  "fits_sig sigU (decode_CI_simm_lui s)" "fits_sig sigI (decode_C_LI s)" "fits_sig sigR (decode_CS s)" "fits_sig sigB (decode_CB s)"
  "fits_sig sigI (decode_CB_shift s)" "fits_sig sigI (decode_CB_andi s)" "fits_sig sigR (decode_C_MOV s)" "fits_sig sigR (decode_C_ADD s)"
  "fits_sig sigI (decode_C_JALR s)" "has_kind KImm (d_src1 (decode_CJ s))" "has_kind KReg (d_src1 (decode_C_JR s))"
  by (simp_all add: fits_sig_def Let_def decode_I_def decode_R_def decode_U_def decode_auipc_def decode_J_def decode_B_def
      decode_CI_simm_def decode_CI_simm_lui_def decode_CI_uimm_def decode_C_LI_def decode_op_rd_rs1_imm6_def
      decode_op_C_imm6_def decode_op_C_rd_rs1_def decode_CS_def decode_CB_def decode_CB_shift_def decode_CB_andi_def
      decode_C_MOV_def decode_C_ADD_def decode_C_rs1_rs2_rd_def decode_C_JALR_def decode_CJ_def decode_C_JR_def
      decode_op_i_def split: operand.splits)

lemmas sig_defs = sig_of_def sig_rvi_def sig_rvc_def sig_rvb_def fits_sig_def

lemma typed_asserting [simp]:
  "typed (case decode_C_ADDI16SP s of None \<Rightarrow> None | Some s' \<Rightarrow> tb (Rvc ID_c_addi) s')"
  "typed (case decode_C_ADDI4SPN s of None \<Rightarrow> None | Some s' \<Rightarrow> tb (Rvi ID_addi) s')"
  by (simp_all add: decode_C_ADDI16SP_def decode_C_ADDI4SPN_def Let_def sig_defs)

lemmas helper_kinds [simp] = helper_sigs [unfolded fits_sig_def prod.case]

lemma typed_dispatch [simp]:
  "fits_sig sigI s \<Longrightarrow> typed (table_c_addi_dispatch s)"
  "fits_sig sigI s \<Longrightarrow> typed (table_c_addiw_dispatch s)"
  by (auto simp: table_c_addi_dispatch_def table_c_addiw_dispatch_def sig_defs split: operand.splits)

lemma typed_tables [simp]:
  "fits_sig sigI s \<Longrightarrow> typed (table_addi_dispatch s)"
  "fits_sig sigB s \<Longrightarrow> typed (table_branch s)"
  "fits_sig sigJ s \<Longrightarrow> typed (table_jal_dispatch s)"
  "fits_sig sigI s \<Longrightarrow> typed (table_jalr_dispatch s)"
  "typed (table_mem_fence s)"
  "fits_sig sigR s \<Longrightarrow> typed (table_rvm s)"
  "fits_sig sigR s \<Longrightarrow> typed (table_rvm32 s)"
  "fits_sig sigI s \<Longrightarrow> typed (table_c_li_dispatch s)"
  "typed (table_rvc_Q1_lui_addi16sp s)"
  "fits_sig sigR s \<Longrightarrow> typed (table_rvc_Q1_compute_more64 s)"
  "fits_sig sigR s \<Longrightarrow> typed (table_rvc_Q1_compute_more32 s)"
  "typed (table_rvc_Q2_jr_mov s)"
  "typed (table_rvc_Q2_jalr_add s)"
  unfolding table_addi_dispatch_def table_branch_def table_jal_dispatch_def table_jalr_dispatch_def table_mem_fence_def
    table_rvm_def table_rvm32_def table_c_li_dispatch_def table_rvc_Q1_lui_addi16sp_def table_rvc_Q1_compute_more64_def
    table_rvc_Q1_compute_more32_def table_rvc_Q2_jr_mov_def table_rvc_Q2_jalr_add_def
  by (rule typed_first_match, simp_all add: sig_defs)+

text \<open>The tables of the operation major opcodes, with the identities of a register destination that is
  also the first source.\<close>

lemma typed_op_tables [simp]:
  "fits_sig sigI s \<Longrightarrow> typed (table_op_imm s)"
  "fits_sig sigI s \<Longrightarrow> typed (table_op_imm32 s)"
  "fits_sig sigR s \<Longrightarrow> typed (table_op s)"
  "fits_sig sigR s \<Longrightarrow> typed (table_op32 s)"
  unfolding table_op_imm_def table_op_imm32_def table_op_def table_op32_def
  by (rule typed_first_match; simp add: sig_of_def sig_rvi_def sig_rvc_def sig_rvb_def; simp add: fits_sig_def)+

lemma typed_memory_tables [simp]:
  "typed (table_load st s)" "typed (table_store st s)" "typed (table_fload st s)" "typed (table_fstore st s)"
  "typed (table_c_ldst st s)" "typed (table_c_fldst st s)"
  unfolding table_load_def table_store_def table_fload_def table_fstore_def table_c_ldst_def table_c_fldst_def
  by (intro typed_by_mmu typed_first_match; simp add: sig_of_def fits_sig_def)+

lemma typed_fp_tables [simp]:
  "typed (table_op_fp_d s)" "typed (table_fmadd_d_dispatch s)" "typed (table_op_fp st s)" "typed (table_fmadd_dispatch st s)"
  unfolding table_op_fp_d_def table_fmadd_d_dispatch_def table_op_fp_def table_fmadd_dispatch_def
  by (auto intro!: typed_first_match simp: sig_of_def fits_sig_def)

lemma typed_rvc_more [simp]: "fits_sig sigR s \<Longrightarrow> typed (table_rvc_Q1_compute_more s)"
  unfolding table_rvc_Q1_compute_more_def by (rule typed_first_match) simp_all

lemma typed_rvc_parts [simp]:
  "typed (table_rvc_Q1_compute s)" "typed (table_rvc_Q2_misc s)"
  unfolding table_rvc_Q1_compute_def table_rvc_Q2_misc_def
  by (rule typed_first_match; simp; simp add: sig_defs)+

lemma typed_rvc_quadrants [simp]:
  "typed (table_rvc_Q0 st s)" "typed (table_rvc_Q1 s)" "typed (table_rvc_Q2 st s)"
  unfolding table_rvc_Q0_def table_rvc_Q1_def table_rvc_Q2_def
  by (rule typed_first_match; simp; simp add: sig_defs)+

lemma decode_typed: "typed (table_rvc st s)" "typed (table_main st s)"
  unfolding table_rvc_def table_main_def
  by (rule typed_first_match; simp; simp add: sig_defs)+

section \<open>Execution\<close>

text \<open>A helper that returns whatever the state is.\<close>

definition returns :: "unit nemu \<Rightarrow> bool" where
  "returns f \<longleftrightarrow> (\<forall>st. \<exists>st'. f st = Ret () st')"

named_theorems returns_intro \<open>functions that return\<close>

lemma returns_write [returns_intro]: "d \<noteq> PRz \<Longrightarrow> returns (write_ptr d v)"
  by (simp add: returns_def write_put)

lemma returns_basic [returns_intro]: "returns skip" "returns (modify f)"
  by (simp_all add: returns_def m_simps)

lemma returns_thn [returns_intro]: "returns f \<Longrightarrow> returns g \<Longrightarrow> returns (thn f g)"
  unfolding returns_def thn_apply by (metis res.simps(10))

lemma returns_seqs [returns_intro]: "returns (seqs [])" "returns f \<Longrightarrow> returns (seqs fs) \<Longrightarrow> returns (seqs (f # fs))"
  by (simp_all add: returns_basic returns_thn)

lemma returns_gets [returns_intro]: "(\<And>x. returns (g x)) \<Longrightarrow> returns (bnd (gets f) g)"
  by (simp add: returns_def m_simps)

lemma returns_if [returns_intro]: "(b \<Longrightarrow> returns f) \<Longrightarrow> (\<not> b \<Longrightarrow> returns g) \<Longrightarrow> returns (if b then f else g)"
  by simp

lemma returns_prod [returns_intro]: "(\<And>a b. returns (f a b)) \<Longrightarrow> returns (case p of (a, b) \<Rightarrow> f a b)"
  by (cases p) simp

text \<open>Reading an operand of the right kind.\<close>

lemma returns_dest [returns_intro]:
  "has_kind KReg (d_dest s) \<Longrightarrow> (\<And>d. d \<noteq> PRz \<Longrightarrow> returns (k d)) \<Longrightarrow> returns (with_ddest s k)"
  by (cases "d_dest s") (simp_all add: returns_def with_ddest_def m_simps)

lemma returns_src1 [returns_intro]:
  "has_kind KReg (d_src1 s) \<Longrightarrow> (\<And>d. d \<noteq> PRz \<Longrightarrow> returns (k d)) \<Longrightarrow> returns (with_dsrc1 s k)"
  by (cases "d_src1 s") (simp_all add: returns_def with_dsrc1_def m_simps)

lemma returns_src2 [returns_intro]:
  "has_kind KReg (d_src2 s) \<Longrightarrow> (\<And>d. d \<noteq> PRz \<Longrightarrow> returns (k d)) \<Longrightarrow> returns (with_dsrc2 s k)"
  by (cases "d_src2 s") (simp_all add: returns_def with_dsrc2_def m_simps)

lemma returns_imm [returns_intro]: "has_kind KImm v \<Longrightarrow> (\<And>w. returns (k w)) \<Longrightarrow> returns (bnd (imm v) k)"
  by (cases v) (simp_all add: returns_def m_simps)

lemma returns_relop [returns_intro]:
  "interpret_relop r a b \<noteq> None \<Longrightarrow> (\<And>x. returns (k x)) \<Longrightarrow> returns (bnd (relop_m r a b) k)"
  by (auto simp: returns_def relop_m_def m_simps)

lemma fence_i_returns: "returns (exec_fence_i s)"
proof -
  have "ucast (-1 :: uint64) = (-1 :: uint32)" by (rule bit_word_eqI) (simp add: bit_simps)
  then show ?thesis
    by (simp add: returns_def exec_fence_i_def priv_instr_def set_sys_state_flag_def store_opt_def m_simps)
qed

lemma rvi_returns: "fits_sig (sig_rvi i) s \<Longrightarrow> returns (exec_rvi i s)"
proof (cases "i = ID_fence_i")
  case False
  then show "fits_sig (sig_rvi i) s \<Longrightarrow> returns (exec_rvi i s)"
    by (cases i) (auto simp: sig_rvi_def fits_sig_def exec_defs rtl_defs intro!: returns_intro)
qed (simp add: fence_i_returns)

lemma pseudo_returns: "fits_sig (sig_pseudo i) s \<Longrightarrow> returns (exec_pseudo i s)"
  by (cases i) (auto simp: fits_sig_def exec_defs rtl_defs intro!: returns_intro)

lemma rvc_returns: "fits_sig (sig_rvc i) s \<Longrightarrow> returns (exec_rvc i s)"
  by (cases i) (auto simp: sig_rvc_def fits_sig_def exec_defs rtl_defs intro!: returns_intro)

lemma rvb_returns: "fits_sig (sig_rvb i) s \<Longrightarrow> returns (exec_rvb i s)"
  by (cases i) (auto simp: sig_rvb_def fits_sig_def exec_defs rtl_defs intro!: returns_intro)

text \<open>The divisions: the guards leave no operands on which the host divides and traps.\<close>

lemma returns_rrr: "fits_sig sigR s \<Longrightarrow> (\<And>d a b. d \<noteq> PRz \<Longrightarrow> returns (f d a b)) \<Longrightarrow> returns (rrr f s)"
  by (auto simp: fits_sig_def rrr_def intro!: returns_intro)

lemmas div_evals = returns_def m_simps write_put rtl_sext4 rtl_zext4 rtl_divs_q_def rtl_divs_r_def rtl_divu_q_def
  rtl_divu_r_def rtl_compute_defs rtl_li_def rtl_mv_def rtl_addi_def

lemma div_returns:
  assumes "fits_sig sigR s"
  shows "returns (exec_div s)" "returns (exec_rem s)" "returns (exec_divu s)" "returns (exec_remu s)"
  unfolding exec_div_def exec_rem_def exec_divu_def exec_remu_def
  by (rule returns_rrr[OF assms]; auto simp: div_evals divs_q divs_r divu_q divu_r)+

lemma word_div_some:
  "c_divs_q (sext32 x) (sext32 y) = None \<Longrightarrow> sext32 y = 0" "c_divs_r (sext32 x) (sext32 y) = None \<Longrightarrow> sext32 y = 0"
  "c_divu_q (zext32 x) (zext32 y) = None \<Longrightarrow> zext32 y = 0" "c_divu_r (zext32 x) (zext32 y) = None \<Longrightarrow> zext32 y = 0"
  using divw_value[of y x] remw_value[of y x] divuw_value[of y x] remuw_value[of y x] by auto

lemma divw_returns:
  assumes "fits_sig sigR s"
  shows "returns (exec_divw s)" "returns (exec_remw s)" "returns (exec_divuw s)" "returns (exec_remuw s)"
  unfolding exec_divw_def exec_remw_def exec_divuw_def exec_remuw_def
  by (rule returns_rrr[OF assms]; auto simp: div_evals guard_dead split: option.split dest: word_div_some)+

lemma rvm_returns: "fits_sig sigR s \<Longrightarrow> returns (exec_rvm i s)"
  by (cases i) (auto simp: div_returns divw_returns,
      auto simp: fits_sig_def exec_mul_def exec_mulh_def exec_mulhu_def exec_mulhsu_def exec_mulw_def rrr_def rtl_defs intro!: returns_intro)

lemma set_type_returns:
  assumes "fits_sig (sig_of i) s" shows "\<exists>s2. set_type i s st = Ret s2 st"
proof -
  have "i \<in> jump_ids \<Longrightarrow> has_kind KImm (d_src1 s)" "i \<in> branch_ids \<Longrightarrow> has_kind KImm (d_dest s)"
    using assms by (auto simp: jump_ids_def branch_ids_def sig_defs)
  then show ?thesis
    by (cases "d_src1 s"; cases "d_dest s") (auto simp: set_type_def m_simps)
qed

text \<open>Property C7: well-typed instructions do not go wrong. Whatever word the decoder accepts, the record
  it fills has the operands the jump-target step and, for an integer instruction (base, compressed, pseudo,
  multiply and divide, bit manipulation; memory accesses and system instructions apart), the execution helper
  read. In every machine state that helper returns: it reads no operand as the wrong member of its union,
  writes no read-only word, makes the host divide neither by zero nor with an overflowing quotient, meets
  no \<open>panic\<close> of a comparison, and raises no exception.\<close>

theorem decoded_instructions_return:
  assumes "table_main st s = Some (s', i) \<or> table_rvc st s = Some (s', i)"
  shows "fits_sig (sig_of i) s' \<and> (\<exists>s2. set_type i s' st1 = Ret s2 st1) \<and>
    (int_instr i \<longrightarrow> (\<exists>st2. exec_instr fl i s' st1 = Ret () st2))"
proof -
  have t: "fits_sig (sig_of i) s'" using decode_typed[of st s] assms(1) by (auto simp: typed_def)
  then have "int_instr i \<Longrightarrow> returns (exec_instr fl i s')"
    using rvi_returns pseudo_returns rvc_returns rvm_returns rvb_returns
    by (auto simp: int_instr_def sig_of_def split: exec_id.splits)
  with t set_type_returns[OF t] show ?thesis by (auto simp: returns_def)
qed

lemma decoded_instructions_return_witness:
  "\<forall>fl. \<exists>s' st2. table_rvc static_machine (static_decode\<lparr>d_instr := 0x0040\<rparr>) = Some (s', Rvi ID_addi) \<and>
     exec_instr fl (Rvi ID_addi) s' static_machine = Ret () st2"
proof
  fix fl
  have m: "instr_match ''?????????????? 00'' 0x0040" "instr_match ''000 ???????? ??? ??'' 0x0040" "addi4spn_imm 0x0040 \<noteq> 0"
    by code_simp+
  then obtain s' where "table_rvc static_machine (static_decode\<lparr>d_instr := 0x0040\<rparr>) = Some (s', Rvi ID_addi)"
    by (simp add: table_rvc_def table_rvc_Q0_def TAB_def IDTABa_def get_instr_def tb_def decode_C_ADDI4SPN_def Let_def)
  with decoded_instructions_return[of static_machine _ s' "Rvi ID_addi" static_machine fl]
  show "\<exists>s' st2. table_rvc static_machine (static_decode\<lparr>d_instr := 0x0040\<rparr>) = Some (s', Rvi ID_addi) \<and>
     exec_instr fl (Rvi ID_addi) s' static_machine = Ret () st2"
    by (auto simp: int_instr_def)
qed

end
