(* ===== verification/Atomic.thy ===== *)
theory Atomic
  imports MachineWf Operands
begin

text \<open>
  Properties of the atomics (\<open>instr/rva/amo.c\<close>) on untranslated memory: the read-modify-write operations,
  the reservation of load-reserved and store-conditional, and where the word forms of the comparing
  operations leave the architecture.
\<close>

section \<open>Untranslated accesses\<close>

definition bare :: "machine \<Rightarrow> bool" where
  "bare st \<longleftrightarrow> \<not> (eff_mode False st < MODE_M \<and> satp_mode st = 8) \<and> data_mmu_state st = MMU_DIRECT"

lemma bare_frame [simp]:
  "bare (set_amo b st) = bare st" "bare (st\<lparr>tmp_reg := t\<rparr>) = bare st"
  by (simp_all add: bare_def eff_mode_def msb_on_def ms_def satp_mode_def set_amo_def)

lemma bare_check:
  "bare st \<Longrightarrow> type \<noteq> MEM_TYPE_IFETCH \<Longrightarrow> isa_mmu_check a n type st = Ret MMU_DIRECT st"
  by (auto simp: isa_mmu_check_def bare_def Let_def)

lemma vaddr_bare:
  "bare st \<Longrightarrow> vaddr_read a n MMU_DYNAMIC st = paddr_read (ucast a) n st"
  "bare st \<Longrightarrow> vaddr_write a n v MMU_DYNAMIC st = paddr_write (ucast a) n v st"
  by (simp_all add: vaddr_read_def vaddr_write_def vaddr_read_internal_def m_simps bare_check)

lemma paddr_write_amo:
  assumes "fits_pmem a n" "legal_len n" "amo (cpu st)"
  shows "paddr_write a n v st = Ret () (st\<lparr>pmem := store_le (pmem st) (guest_to_host a) n v\<rparr>)"
proof -
  have "store_commit_queue_push (ucast a) v n st = Ret () st"
    using assms(3) by (simp add: store_commit_queue_push_def)
  with assms(1,2) show ?thesis
    by (auto simp: fits_pmem_def legal_len_def paddr_write_def pmem_write_def host_write_def m_simps host_mapped_pmem)
qed

section \<open>Access widths\<close>

lemma amo_width_cases: "amo_width s = 4 \<or> amo_width s = 8"
  by (simp add: amo_width_def)

lemma legal_width: "legal_len (amo_width s)"
  using amo_width_cases[of s] by (auto simp: legal_len_def)

definition old_value :: "decode \<Rightarrow> machine \<Rightarrow> uint64" where
  "old_value s st = (let v = load_le (pmem st) (guest_to_host (ucast (rs1_val s st))) (amo_width s)
     in if amo_width s = 4 then scast (ucast v :: uint32) else v)"

lemma sext_old: "sext_len (amo_width s) (load_le (pmem st) (guest_to_host (ucast (rs1_val s st))) (amo_width s)) = Some (old_value s st)"
  using amo_width_cases[of s] by (auto simp: old_value_def sext_len_def Let_def)

lemma set_amo_frame [simp]:
  "pmem (set_amo b st) = pmem st" "amo (cpu (set_amo b st)) = b" "tmp_reg (set_amo b st) = tmp_reg st"
  "rs1_val s (set_amo b st) = rs1_val s st" "rs2_val s (set_amo b st) = rs2_val s st" "lr_valid (cpu (set_amo b st)) = lr_valid (cpu st)"
  "lr_addr (cpu (set_amo b st)) = lr_addr (cpu st)"
  by (simp_all add: set_amo_def rs1_val_def rs2_val_def)

section \<open>The operations\<close>

text \<open>What the architecture asks of a word atomic: the operation on the 32-bit values.\<close>

definition amo_op_word :: "uint32 \<Rightarrow> uint32 \<Rightarrow> uint32 \<Rightarrow> uint32 option" where
  "amo_op_word f v0 v2 =
     (if f = 0b00001 then Some v2
      else if f = 0b00000 then Some (v0 + v2)
      else if f = 0b01000 then Some (v0 OR v2)
      else if f = 0b01100 then Some (v0 AND v2)
      else if f = 0b00100 then Some (v0 XOR v2)
      else if f = 0b11100 then Some (max v0 v2)
      else if f = 0b10100 then Some (if v2 <s v0 then v0 else v2)
      else if f = 0b11000 then Some (min v0 v2)
      else if f = 0b10000 then Some (if v0 <s v2 then v0 else v2)
      else None)"

lemma down_up: "ucast (scast a :: uint64) = (a :: uint32)"
  by (rule bit_word_eqI) (simp add: bit_unsigned_iff bit_signed_iff)

lemma down_arith: "ucast (a + b) = (ucast a + ucast b :: uint32)" "ucast (a OR b) = (ucast a OR ucast b :: uint32)"
   "ucast (a AND b) = (ucast a AND ucast b :: uint32)" "ucast (a XOR b) = (ucast a XOR ucast b :: uint32)" for a b :: uint64
proof -
  have "uint (ucast (a + b) :: uint32) = uint (ucast a + ucast b :: uint32)"
    by (simp add: uint_word_ariths unsigned_ucast_eq take_bit_eq_mod mod_simps mod_mod_cancel)
  then show "ucast (a + b) = (ucast a + ucast b :: uint32)" by (rule word_uint_eqI)
qed (rule bit_word_eqI, auto simp: bit_simps)+

lemma sint_sext: "sint (scast a :: uint64) = sint a" for a :: uint32
  by (rule sint_up_scast) (simp add: is_up)

lemma sext_less_s: "sint (scast a :: uint64) < sint (scast b :: uint64) \<longleftrightarrow> a <s b" for a b :: uint32
  by (simp add: word_sless_alt sint_sext)

lemma uint_sext: "uint (scast a :: uint64) = (if bit a 31 then uint a + (2 ^ 64 - 2 ^ 32) else uint a)" for a :: uint32
proof -
  have "uint (scast a :: uint64) = take_bit 64 (sint a)" by transfer simp
  moreover have "sint a = uint a - (if bit a 31 then 2 ^ 32 else 0)"
    using uint_lt2p[of a] by (simp add: sint_uint signed_take_bit_eq_take_bit_minus bit_uint_iff take_bit_int_eq_self)
  ultimately show ?thesis
  proof (cases "bit a 31")
    case True
    have "take_bit 64 (uint a - 2 ^ 32) = (uint a - 2 ^ 32 + 2 ^ 64) mod 2 ^ 64"
      unfolding take_bit_eq_mod mod_add_self2 ..
    also have "\<dots> = uint a - 2 ^ 32 + 2 ^ 64"
      using uint_lt2p[of a] by (intro mod_pos_pos_trivial) simp_all
    finally have "take_bit 64 (uint a - 2 ^ 32) = uint a - 2 ^ 32 + 2 ^ 64" .
    with True \<open>sint a = _\<close> \<open>uint (scast a :: uint64) = _\<close> show ?thesis by simp
  next
    case False
    have "take_bit 64 (uint a) = uint a" using uint_lt2p[of a] by (intro take_bit_int_eq_self) simp_all
    with False \<open>sint a = _\<close> \<open>uint (scast a :: uint64) = _\<close> show ?thesis by simp
  qed
qed

lemma sext_less_u: "(scast a :: uint64) < scast b \<longleftrightarrow> a < b" for a b :: uint32
proof -
  have h: "bit x 31 \<longleftrightarrow> 2 ^ 31 \<le> uint x" for x :: uint32
  proof -
    have half: "n div 2147483648 = 0 \<or> n div 2147483648 = 1" if "0 \<le> n" "n < 4294967296" for n :: int
    proof (cases "n < 2147483648")
      case True
      then show ?thesis using that by (simp add: div_pos_pos_trivial)
    next
      case False
      then show ?thesis using that int_div_pos_eq[of n 2147483648 1 "n - 2147483648"] by simp
    qed
    have "uint x div 2 ^ 31 = 0 \<or> uint x div 2 ^ 31 = 1" using half[of "uint x"] uint_lt2p[of x] by simp
    moreover have "bit x 31 \<longleftrightarrow> odd (uint x div 2 ^ 31)" using bit_uint_iff[of x 31] by (simp add: bit_iff_odd[of "uint x"])
    moreover have "uint x div 2 ^ 31 = 1 \<Longrightarrow> 2 ^ 31 \<le> uint x" using zdiv_mono1[of "uint x" "2 ^ 31 - 1" "2 ^ 31"] by fastforce
    moreover have "uint x div 2 ^ 31 = 0 \<Longrightarrow> uint x < 2 ^ 31"
      using uint_ge_0[of x] by (auto simp: zdiv_eq_0_iff simp del: uint_ge_0)
    ultimately show ?thesis by auto
  qed
  show ?thesis using uint_lt2p[of a] uint_lt2p[of b] by (auto simp: word_less_def uint_sext h)
qed

text \<open>On sign-extended operands the nine operations, computed in 64 bits, store what the word
  operations of the architecture ask for, and the same encodings are undefined. On a second source that is
  not sign-extended the signed maximum picks the wrong operand, because the comparison reads all of it.\<close>

theorem amo_word_spec:
  "map_option ucast (amo_op f (scast v0) (scast v2)) = amo_op_word f v0 v2 \<and>
   map_option ucast (amo_op 0b10100 (scast (0 :: uint32)) 0x80000000) = Some (0x80000000 :: uint32) \<and>
   amo_op_word 0b10100 0 (ucast (0x80000000 :: uint64)) = Some 0"
  by (auto simp: amo_op_def amo_op_word_def down_up down_arith sext_less_u sext_less_s max_def min_def
      c_add_def c_or_def c_and_def c_xor_def not_le word_sless_alt)

text \<open>What the operation of each encoding stores, given the old value, the second source and the new
  value, at any width: the exchange, the sum of the integers, the bitwise operations bit by bit, and the
  extrema by the integers the words stand for.\<close>

definition amo_rel :: "uint32 \<Rightarrow> 'a::len word \<Rightarrow> 'a word \<Rightarrow> 'a word \<Rightarrow> bool" where
  "amo_rel f a b v \<longleftrightarrow>
     f = 0b00001 \<and> v = b \<or>
     f = 0b00000 \<and> v = word_of_int (sint a + sint b) \<or>
     f = 0b00100 \<and> (\<forall>i < LENGTH('a). bit v i \<longleftrightarrow> bit a i \<noteq> bit b i) \<or>
     f = 0b01000 \<and> (\<forall>i < LENGTH('a). bit v i \<longleftrightarrow> bit a i \<or> bit b i) \<or>
     f = 0b01100 \<and> (\<forall>i < LENGTH('a). bit v i \<longleftrightarrow> bit a i \<and> bit b i) \<or>
     f = 0b10000 \<and> sint v = min (sint a) (sint b) \<or>
     f = 0b10100 \<and> sint v = max (sint a) (sint b) \<or>
     f = 0b11000 \<and> uint v = min (uint a) (uint b) \<or>
     f = 0b11100 \<and> uint v = max (uint a) (uint b)"

definition amo_codes :: "uint32 set" where
  "amo_codes = {0b00000, 0b00001, 0b00100, 0b01000, 0b01100, 0b10000, 0b10100, 0b11000, 0b11100}"

lemma word_of_sint_add: "word_of_int (sint a + sint b) = a + b" for a b :: "'a::len word"
  by simp

lemma amo_op_rel: "f \<in> amo_codes \<Longrightarrow> \<exists>v. amo_op f a b = Some v \<and> amo_rel f a b v"
  by (auto simp: amo_codes_def amo_op_def amo_rel_def c_add_def c_or_def c_and_def c_xor_def bit_simps
      word_less_def min_def max_def)

lemma amo_word_rel: "f \<in> amo_codes \<Longrightarrow> \<exists>v. amo_op_word f a b = Some v \<and> amo_rel f a b v"
  by (auto simp: amo_codes_def amo_op_word_def amo_rel_def bit_simps word_less_def word_le_def word_sless_alt min_def max_def)

lemma amo_op_narrow:
  assumes "f \<in> amo_codes" "amo_op f (scast a) (scast b) = Some v"
  shows "amo_rel f a b (ucast v :: uint32)"
  using amo_word_rel[OF assms(1), of a b] amo_word_spec[of f a b] assms(2) by auto

section \<open>Read-modify-write\<close>

text \<open>Property C34: each of the nine read-modify-write atomics, on an untranslated address whose bytes lie
  in memory, returns and stores, in the width of the instruction, the exchange, sum, bitwise combination,
  signed or unsigned extremum of the old value and the second source that its encoding names; the operands
  are taken as 64-bit words, the old value of a word atomic sign-extended, and the result of a word atomic is
  the same operation on the 32-bit values whenever the second source is a sign-extended word. It leaves the
  old value in the destination and touches neither the reservation nor the store-commit queue.\<close>

theorem amo_rmw_spec:
  assumes "bare st" "fits_pmem (ucast (rs1_val s st)) (amo_width s)" "amo_funct5 s \<in> amo_codes"
  shows "\<exists>t v. amo_rel (amo_funct5 s) (old_value s st) (rs2_val s st) v \<and>
    (amo_width s = 4 \<and> rs2_val s st = scast (ucast (rs2_val s st) :: uint32) \<longrightarrow>
      amo_rel (amo_funct5 s) (ucast (old_value s st) :: uint32) (ucast (rs2_val s st)) (ucast v)) \<and>
    exec_atomic (decode_R s) st = Ret () (put (rd_ptr s) (old_value s st)
    (set_amo False (st\<lparr>tmp_reg := t, pmem := store_le (pmem st) (guest_to_host (ucast (rs1_val s st))) (amo_width s) v\<rparr>)))"
proof -
  obtain v where v: "amo_op (amo_funct5 s) (old_value s st) (rs2_val s st) = Some v"
      "amo_rel (amo_funct5 s) (old_value s st) (rs2_val s st) v"
    using amo_op_rel[OF assms(3)] by blast
  have not_lrsc: "amo_funct5 s \<noteq> 0b00010" "amo_funct5 s \<noteq> 0b00011" using assms(3) by (auto simp: amo_codes_def)
  have narrow: "amo_rel (amo_funct5 s) (ucast (old_value s st) :: uint32) (ucast (rs2_val s st)) (ucast v)"
    if "amo_width s = 4" "rs2_val s st = scast (ucast (rs2_val s st) :: uint32)"
  proof (rule amo_op_narrow[OF assms(3)])
    have "old_value s st = scast (ucast (old_value s st) :: uint32)" using that(1) by (simp add: old_value_def Let_def down_up)
    then show "amo_op (amo_funct5 s) (scast (ucast (old_value s st) :: uint32)) (scast (ucast (rs2_val s st) :: uint32)) = Some v"
      using v(1) that(2) by metis
  qed
  let ?s1 = "put (PTmp S0) (old_value s st) (set_amo True st)"
  let ?s2 = "put (PTmp S1) v ?s1"
  let ?m = "store_le (pmem st) (guest_to_host (ucast (rs1_val s st))) (amo_width s) v"
  have w: "amo_width (decode_R s) = amo_width s" "amo_funct5 (decode_R s) = amo_funct5 s"
    by (simp_all add: amo_width_def amo_funct5_def decode_R_def)
  have lms: "rtl_lms (PTmp S0) (rs1_ptr s) 0 (amo_width s) MMU_DYNAMIC (set_amo True st) = Ret () ?s1"
    using assms(1,2) paddr_read_ok[OF assms(2) legal_width] sext_old[of s st]
    by (simp add: rtl_lms_def m_simps vaddr_bare)
  have sm: "rtl_sm (PTmp S1) (rs1_ptr s) 0 (amo_width s) MMU_DYNAMIC ?s2 = Ret () (?s2\<lparr>pmem := ?m\<rparr>)"
    using assms(1,2) paddr_write_amo[OF assms(2) legal_width, of ?s2 v]
    by (simp add: rtl_sm_def m_simps vaddr_bare)
  have "exec_atomic (decode_R s) st = amo_rmw (decode_R s) (rd_ptr s) (rs1_ptr s) (rs2_ptr s) st"
    using not_lrsc by (simp add: exec_atomic_def rrr_decode_R rtl_amo_slow_path_def w)
  also have "\<dots> = Ret () (set_amo False (put (rd_ptr s) (old_value s st) (?s2\<lparr>pmem := ?m\<rparr>)))"
    using v(1) lms sm
    by (simp add: amo_rmw_def m_simps w set_amo_m_def rtl_mv_def rtl_addi_def def_rtl_compute_imm_def c_add_def)
  also have "set_amo False (put (rd_ptr s) (old_value s st) (?s2\<lparr>pmem := ?m\<rparr>)) =
      put (rd_ptr s) (old_value s st) (set_amo False (st\<lparr>tmp_reg := tmp_reg ?s2, pmem := ?m\<rparr>))"
    by (simp add: rd_ptr_def set_amo_def)
  finally show ?thesis using v(2) narrow by blast
qed

section \<open>Load-reserved and store-conditional\<close>

definition set_lr :: "uint64 \<Rightarrow> uint64 \<Rightarrow> machine \<Rightarrow> machine" where
  "set_lr a v st = st\<lparr>cpu := (cpu st)\<lparr>lr_addr := a, lr_valid := v\<rparr>\<rparr>"

lemma slow_path_decode:
  "exec_atomic (decode_R s) st = rtl_amo_slow_path (decode_R s) (rd_ptr s) (rs1_ptr s) (rs2_ptr s) st"
  "amo_width (decode_R s) = amo_width s" "amo_funct5 (decode_R s) = amo_funct5 s"
  "d_src1 (decode_R s) = Oreg (rs1_ptr s)"
  by (simp add: exec_atomic_def rrr_decode_R)
    (simp_all add: amo_width_def amo_funct5_def decode_R_def decode_op_r_def rs1_ptr_def)

text \<open>A load-reserved leaves the loaded value in the destination and the reservation valid. The
  address it reserves is read from the address register after the destination has been written, so with
  the same register in both places it is the loaded value and not the address.\<close>

theorem lr_spec:
  assumes "bare st" "fits_pmem (ucast (rs1_val s st)) (amo_width s)" "amo_funct5 s = 0b00010"
  shows "exec_atomic (decode_R s) st = Ret () (set_lr
    (if rd_ptr s = rs1_ptr s then old_value s st else rs1_val s st) 1 (put (rd_ptr s) (old_value s st) st))"
proof -
  have lms: "rtl_lms (rd_ptr s) (rs1_ptr s) 0 (amo_width s) MMU_DYNAMIC st = Ret () (put (rd_ptr s) (old_value s st) st)"
    using assms(1,2) paddr_read_ok[OF assms(2) legal_width] sext_old[of s st]
    by (simp add: rtl_lms_def m_simps vaddr_bare)
  have "rs1_val s (put (rd_ptr s) (old_value s st) st) = (if rd_ptr s = rs1_ptr s then old_value s st else rs1_val s st)"
    unfolding read_rs[symmetric] read_put[OF rd_ptr_neq(2)] by auto
  with lms assms(3) show ?thesis
    by (simp add: slow_path_decode rtl_amo_slow_path_def amo_lr_def m_simps set_lr_def)
qed


section \<open>Concrete atomics\<close>

text \<open>A machine in machine mode with an address inside memory in \<open>x1\<close> and an operand in \<open>x2\<close>.\<close>

definition amo_machine :: machine where
  "amo_machine = set_mode MODE_M (static_machine\<lparr>cpu := (cpu static_machine)\<lparr>gpr := (\<lambda>_. 0)(1 := 0x80000000, 2 := 5)\<rparr>\<rparr>)"

definition instr_record :: "uint32 \<Rightarrow> decode" where
  "instr_record w = static_decode\<lparr>d_instr := w\<rparr>"

lemmas instr_eval = instr_record_def amo_width_def amo_funct5_def f_funct3_def f_funct7_def f_rd_def f_rs1_def f_rs2_def
  rd_ptr_def rs1_ptr_def rs1_val_def rs2_val_def

lemma amo_machine_facts:
  "bare amo_machine" "gpr (cpu amo_machine) 1 = 0x80000000" "gpr (cpu amo_machine) 2 = 5" "pmem amo_machine = (\<lambda>_. 0)"
  "lr_valid (cpu amo_machine) = 0" "lr_addr (cpu amo_machine) = 0" "mem_exception (cpu amo_machine) = 0"
  by (simp_all add: bare_def amo_machine_def set_mode_def eff_mode_def satp_mode_def msb_on_def ms_def MODE_M_def fld_def static_defs)

lemma example_fits: "fits_pmem 0x80000000 4"
  by (simp add: fits_pmem_def in_pmem_range)

lemma load_zero: "load_le (\<lambda>_. 0) a n = 0"
  by (induction n arbitrary: a) simp_all

lemma example_old: "rs1_val s amo_machine = 0x80000000 \<Longrightarrow> old_value s amo_machine = 0"
  by (simp add: old_value_def amo_machine_facts load_zero)

theorem amo_rmw_spec_witness:
  "\<exists>t v. sint v = max 0 5 \<and> exec_atomic (decode_R (instr_record 0xa020a1af)) amo_machine = Ret () (put (PGpr 3) 0
    (set_amo False (amo_machine\<lparr>tmp_reg := t, pmem := store_le (\<lambda>_. 0) 0x100000000 4 v\<rparr>)))"
proof -
  let ?s = "instr_record 0xa020a1af"
  have 1: "rs1_val ?s amo_machine = 0x80000000" "rs2_val ?s amo_machine = 5" "amo_width ?s = 4" "amo_funct5 ?s = 0b10100"
      "rd_ptr ?s = PGpr 3"
    by (simp_all add: instr_eval amo_machine_facts)
  with amo_rmw_spec[of amo_machine ?s] show ?thesis
    by (simp add: amo_machine_facts example_fits example_old amo_codes_def amo_rel_def guest_to_host_def HOST_PMEM_OFFSET_def
        config_defs) blast
qed

theorem lr_spec_witness:
  "exec_atomic (decode_R (instr_record 0x1000a0af)) amo_machine =
     Ret () (set_lr 0 1 (put (PGpr 1) 0 amo_machine)) \<and>
   exec_atomic (decode_R (instr_record 0x1000a1af)) amo_machine =
     Ret () (set_lr 0x80000000 1 (put (PGpr 3) 0 amo_machine))"
proof -
  let ?s = "instr_record 0x1000a0af" and ?t = "instr_record 0x1000a1af"
  have 1: "rs1_val ?s amo_machine = 0x80000000" "amo_width ?s = 4" "amo_funct5 ?s = 2" "rd_ptr ?s = PGpr 1" "rs1_ptr ?s = PGpr 1"
    by (simp_all add: instr_eval amo_machine_facts)
  have 2: "rs1_val ?t amo_machine = 0x80000000" "amo_width ?t = 4" "amo_funct5 ?t = 2" "rd_ptr ?t = PGpr 3" "rs1_ptr ?t = PGpr 1"
    by (simp_all add: instr_eval amo_machine_facts)
  show ?thesis using lr_spec[of amo_machine ?s] lr_spec[of amo_machine ?t] 1 2
    by (simp add: amo_machine_facts example_fits example_old)
qed


end
