(* ===== verification/DiffProps.thy ===== *)
theory DiffProps
  imports Reach Traps
begin

text \<open>
  Properties of the difftest interface: what a memory copy leaves in the reference, the round trip of the
  register block, and the MMU state that a register copy leaves behind.
\<close>

section \<open>Memory copies\<close>

lemma of_nat_shift_neq: "i < 2 ^ 32 \<Longrightarrow> j < 2 ^ 32 \<Longrightarrow> i \<noteq> j \<Longrightarrow> (a :: uint64) + of_nat i \<noteq> a + of_nat j"
  by (simp add: of_nat_eq64)

lemma load_byte:
  assumes "k < n" "n \<le> 8"
  shows "ucast (drop_bit (8 * k) (load_le h a n)) = h (a + of_nat k)"
proof (rule bit_word_eqI)
  fix i assume "i < LENGTH(8)"
  then have "(8 * k + i) div 8 = k" "(8 * k + i) mod 8 = i" "8 * k + i < 64" using assms by auto
  with \<open>i < LENGTH(8)\<close> assms show "bit (ucast (drop_bit (8 * k) (load_le h a n)) :: uint8) i = bit (h (a + of_nat k)) i"
    by (simp add: bit_simps bit_load_le)
qed

lemma copy_word_at: "k < 8 \<Longrightarrow> store_le h d 8 (load_le buf s 8) (d + of_nat k) = buf (s + of_nat k)"
  by (simp add: store_le_at load_byte)

lemma byte_trip: "(ucast (ucast b :: uint64) :: uint8) = b" for b :: uint8
  by (rule bit_word_eqI) (simp add: bit_simps)

lemma load_zeros: "(\<And>i. i < n \<Longrightarrow> h (a + of_nat i) = 0) \<Longrightarrow> load_le h a n = 0"
  by (rule bit_word_eqI) (simp add: bit_load_le)

text \<open>Which byte of the destination keeps its old value: one of a double-word of zeros.\<close>

definition skipped :: "(uint64 \<Rightarrow> uint8) \<Rightarrow> uint64 \<Rightarrow> nat \<Rightarrow> nat \<Rightarrow> bool" where
  "skipped buf s n i \<longleftrightarrow> i div 8 < n div 8 \<and> load_le buf (s + of_nat (8 * (i div 8))) 8 = 0"

lemma skipped_shift:
  "skipped buf s (8 + k) (8 + i) = skipped buf (s + 8) k i"
  "i < 8 \<Longrightarrow> skipped buf s (8 + k) i \<longleftrightarrow> load_le buf s 8 = 0"
proof -
  have e: "(8 + i) div 8 = Suc (i div 8)" for i :: nat by simp
  show "skipped buf s (8 + k) (8 + i) = skipped buf (s + 8) k i" unfolding skipped_def e by (simp add: algebra_simps)
  show "i < 8 \<Longrightarrow> skipped buf s (8 + k) i \<longleftrightarrow> load_le buf s 8 = 0" unfolding skipped_def e by simp
qed

definition copied :: "(nat \<Rightarrow> bool) \<Rightarrow> (uint64 \<Rightarrow> uint8) \<Rightarrow> uint64 \<Rightarrow> uint64 \<Rightarrow> nat \<Rightarrow> (uint64 \<Rightarrow> uint8) \<Rightarrow> (uint64 \<Rightarrow> uint8) \<Rightarrow> bool" where
  "copied sk buf s d n h h' \<longleftrightarrow>
     (\<forall>i<n. h' (d + of_nat i) = (if sk i then h (d + of_nat i) else buf (s + of_nat i))) \<and>
     (\<forall>x. (\<forall>i<n. x \<noteq> d + of_nat i) \<longrightarrow> h' x = h x)"

lemma copied_nil: "copied sk buf s d 0 h h"
  by (simp add: copied_def)

lemma copied_step:
  assumes "copied sk1 buf s d m h h1" "copied sk2 buf (s + of_nat m) (d + of_nat m) n h1 h2" "m + n < 2 ^ 32"
    "\<And>i. i < m \<Longrightarrow> sk i = sk1 i" "\<And>i. i < n \<Longrightarrow> sk (m + i) = sk2 i"
  shows "copied sk buf s d (m + n) h h2"
  unfolding copied_def
proof (intro conjI allI impI)
  fix i assume i: "i < m + n"
  show "h2 (d + of_nat i) = (if sk i then h (d + of_nat i) else buf (s + of_nat i))"
  proof (cases "i < m")
    case True
    have "\<forall>j<n. d + of_nat i \<noteq> d + of_nat m + of_nat j"
    proof (intro allI impI)
      fix j assume "j < n"
      then show "d + of_nat i \<noteq> d + of_nat m + of_nat j"
        using of_nat_shift_neq[of i "m + j" d] True assms(3) by (simp add: algebra_simps)
    qed
    then have "h2 (d + of_nat i) = h1 (d + of_nat i)" using assms(2) by (simp add: copied_def)
    with True assms(1,4) show ?thesis by (simp add: copied_def)
  next
    case False
    then obtain j where j: "i = m + j" "j < n" using i by (metis add_less_cancel_left le_Suc_ex not_less)
    have "\<forall>k<m. d + of_nat i \<noteq> d + of_nat k"
      using of_nat_shift_neq[of i _ d] False i assms(3) by auto
    then have "h1 (d + of_nat i) = h (d + of_nat i)" using assms(1) by (simp add: copied_def)
    then show ?thesis using assms(2,5) j by (simp add: copied_def algebra_simps)
  qed
next
  fix x assume x: "\<forall>i<m + n. x \<noteq> d + of_nat i"
  then have "\<forall>i<m. x \<noteq> d + of_nat i" by simp
  moreover have "\<forall>j<n. x \<noteq> d + of_nat m + of_nat j"
  proof (intro allI impI)
    fix j assume "j < n"
    then show "x \<noteq> d + of_nat m + of_nat j" using x[rule_format, of "m + j"] by (simp add: algebra_simps)
  qed
  ultimately show "h2 x = h x" using assms(1,2) by (simp add: copied_def)
qed

lemma mapped_step: "host_mapped d (m + n) \<Longrightarrow> host_mapped d m \<and> host_mapped (d + of_nat m) n \<and> m + n < 2 ^ 32"
proof -
  assume a: "host_mapped d (m + n)"
  then have "uint (d + of_nat m) = uint d + int m"
    by (simp add: host_mapped_def config_defs uint_word_ariths unsigned_of_nat take_bit_int_eq_self take_bit_nat_eq_self)
  with a show ?thesis by (simp add: host_mapped_def config_defs)
qed

definition buf_read :: "(uint64 \<Rightarrow> uint8) \<Rightarrow> uint64 \<Rightarrow> nat \<Rightarrow> uint64 nemu" where
  "buf_read buf a k = ret (load_le buf a k)"

lemma buf_read_apply: "buf_read buf a k st = Ret (load_le buf a k) st"
  by (simp add: buf_read_def m_simps)

lemma byte_step: "rd s 1 st = Ret w st \<Longrightarrow> wr d 1 w st = Ret () st' \<Longrightarrow>
    copy_bytes rd wr d s (Suc n) st = copy_bytes rd wr (d + 1) (s + 1) n st'"
  by (simp add: m_simps)

lemma word_step: "8 \<le> n \<Longrightarrow> rd s 8 st = Ret w st \<Longrightarrow> (if w \<noteq> 0 then wr d 8 w else skip) st = Ret () st' \<Longrightarrow>
    nemu_large_memcpy rd wr d s n st = nemu_large_memcpy rd wr (d + 8) (s + 8) (n - 8) st'"
  by (subst nemu_large_memcpy.simps) (simp add: m_simps split: if_splits)

lemma copy_bytes_ref:
  "host_mapped d n \<Longrightarrow> \<exists>h. copy_bytes (buf_read buf) host_write d s n st = Ret () (st\<lparr>pmem := h\<rparr>) \<and>
     copied (\<lambda>_. False) buf s d n (pmem st) h"
proof (induction n arbitrary: d s st)
  case 0
  show ?case by (rule exI[of _ "pmem st"]) (simp add: m_simps copied_nil)
next
  case (Suc n)
  from mapped_step[of d 1 n] Suc.prems have m: "host_mapped d 1" "host_mapped (d + 1) n" "1 + n < 2 ^ 32" by simp_all
  let ?st = "st\<lparr>pmem := (pmem st)(d := buf s)\<rparr>"
  have w: "host_write d 1 (load_le buf s 1) st = Ret () ?st"
    using m(1) by (simp add: host_write_def m_simps byte_trip)
  from Suc.IH[OF m(2), of "s + 1" ?st] obtain h where
    h: "copy_bytes (buf_read buf) host_write (d + 1) (s + 1) n ?st = Ret () (?st\<lparr>pmem := h\<rparr>)"
      "copied (\<lambda>_. False) buf (s + 1) (d + 1) n (pmem ?st) h" by blast
  have 1: "copied (\<lambda>_. False) buf s d 1 (pmem st) ((pmem st)(d := buf s))" by (simp add: copied_def)
  have "copied (\<lambda>_. False) buf s d (1 + n) (pmem st) h"
    by (rule copied_step[OF 1, of "\<lambda>_. False" n h "\<lambda>_. False"]) (use h(2) m(3) in simp_all)
  with h(1) byte_step[of "buf_read buf" s st _ host_write, OF buf_read_apply w] show ?case by (intro exI[of _ h]) simp
qed

lemma large_memcpy_ref:
  "host_mapped d n \<Longrightarrow> \<exists>h. nemu_large_memcpy (buf_read buf) host_write d s n st = Ret () (st\<lparr>pmem := h\<rparr>) \<and>
     copied (skipped buf s n) buf s d n (pmem st) h"
proof (induction n arbitrary: d s st rule: less_induct)
  case (less n)
  show ?case
  proof (cases "8 \<le> n")
    case False
    then have "skipped buf s n = (\<lambda>_. False)" by (auto simp: skipped_def)
    with False copy_bytes_ref[OF less.prems, of buf s st] show ?thesis by (simp add: nemu_large_memcpy.simps)
  next
    case True
    then obtain k where n: "n = 8 + k" by (metis le_Suc_ex)
    from mapped_step[of d 8 k] less.prems have m: "host_mapped d 8" "host_mapped (d + 8) k" "8 + k < 2 ^ 32" by (simp_all add: n)
    let ?w = "load_le buf s 8"
    let ?h = "if ?w \<noteq> 0 then store_le (pmem st) d 8 ?w else pmem st"
    have w: "(if ?w \<noteq> 0 then host_write d 8 ?w else skip) st = Ret () (st\<lparr>pmem := ?h\<rparr>)"
      using m(1) by (simp add: host_write_def m_simps)
    from less.IH[of k "d + 8" "s + 8" "st\<lparr>pmem := ?h\<rparr>"] n m(2) obtain h where
      h: "nemu_large_memcpy (buf_read buf) host_write (d + 8) (s + 8) k (st\<lparr>pmem := ?h\<rparr>) = Ret () (st\<lparr>pmem := h\<rparr>)"
        "copied (skipped buf (s + 8) k) buf (s + 8) (d + 8) k ?h h" by auto
    have 1: "copied (\<lambda>_. ?w = 0) buf s d 8 (pmem st) ?h"
      by (auto simp: copied_def copy_word_at store_le_other)
    have "copied (skipped buf s n) buf s d (8 + k) (pmem st) h"
      by (rule copied_step[OF 1, of "skipped buf (s + 8) k"]) (use h(2) m(3) in \<open>simp_all add: n skipped_shift\<close>)
    with h(1) n word_step[of n "buf_read buf" s st _ host_write, OF True buf_read_apply w] show ?thesis by (intro exI[of _ h]) simp
  qed
qed

text \<open>Property C32: a copy into the reference that fits in memory returns and changes nothing but memory: outside
  the range every byte keeps its value, and inside it every byte is the partner's, except that a whole
  double-word of zeros is not written at all. Copying zeros over memory that has been used leaves the old
  contents.\<close>

theorem memcpy_to_ref_spec:
  assumes "fits_pmem a n"
  shows "\<exists>h. memcpy_to_ref a buf b n st = Ret () (st\<lparr>pmem := h\<rparr>) \<and>
    (\<forall>i<n. h (guest_to_host (a + of_nat i)) =
       (if skipped buf b n i then pmem st (guest_to_host (a + of_nat i)) else buf (b + of_nat i))) \<and>
    (\<forall>x. (\<forall>i<n. x \<noteq> guest_to_host (a + of_nat i)) \<longrightarrow> h x = pmem st x)"
proof -
  have "host_mapped (guest_to_host a) n" using assms
    by (simp add: fits_pmem_def host_mapped_def guest_to_host_uint config_defs in_pmem_range)
  from large_memcpy_ref[OF this, of buf b st] show ?thesis
    using guest_to_host_add[OF assms] by (auto simp: memcpy_to_ref_def copied_def simp flip: buf_read_def)
qed

theorem memcpy_to_ref_spec_witness:
  "\<exists>h. memcpy_to_ref 0x80000000 (\<lambda>a. if a < 8 then 0 else 7) 0 9 (static_machine\<lparr>pmem := \<lambda>_. 1\<rparr>) =
      Ret () (static_machine\<lparr>pmem := h\<rparr>) \<and> h (guest_to_host 0x80000003) = 1 \<and> h (guest_to_host 0x80000008) = 7"
proof -
  let ?buf = "\<lambda>a :: uint64. if a < 8 then 0 else 7 :: uint8"
  have f: "fits_pmem 0x80000000 9" by (simp add: fits_pmem_def in_pmem_range)
  have z: "load_le ?buf 0 8 = 0"
    by (rule load_zeros) (auto simp: word_less_nat_alt unsigned_of_nat take_bit_nat_eq_self)
  have s: "skipped ?buf 0 9 3" "\<not> skipped ?buf 0 9 8" using z by (simp_all add: skipped_def)
  from memcpy_to_ref_spec[OF f, of ?buf 0 "static_machine\<lparr>pmem := \<lambda>_. 1\<rparr>"] obtain h where
    h: "memcpy_to_ref 0x80000000 ?buf 0 9 (static_machine\<lparr>pmem := \<lambda>_. 1\<rparr>) = Ret () (static_machine\<lparr>pmem := h\<rparr>)"
      "\<And>i. i < 9 \<Longrightarrow> h (guest_to_host (0x80000000 + of_nat i)) = (if skipped ?buf 0 9 i then 1 else ?buf (0 + of_nat i))"
    by auto
  from h(2)[of 3] h(2)[of 8] s h(1) show ?thesis by auto
qed

section \<open>Register copies\<close>

lemma stale_regcpy:
  "\<exists>st'. regcpy_to_ref dut st = Ret () st' \<and> ifetch_mmu_state st' = ifetch_mmu_state st \<and> data_mmu_state st' = data_mmu_state st"
  by (simp add: regcpy_to_ref_def m_simps csr_writeback_def Let_def)

text \<open>The CSRs that a register block carries, and its fields that hold them.\<close>

definition carried :: "12 word list" where
  "carried = [CSR_mstatus, CSR_mcause, CSR_mepc, CSR_scause, CSR_sepc, CSR_satp, CSR_mip, CSR_mie, CSR_mscratch,
     CSR_sscratch, CSR_mideleg, CSR_medeleg, CSR_mtval, CSR_stval, CSR_mtvec, CSR_stvec]"

definition shadow_fields :: "(shadow_csrs \<Rightarrow> uint64) list" where
  "shadow_fields = [sh_mstatus, sh_mcause, sh_mepc, sh_scause, sh_sepc, sh_satp, sh_mip, sh_mie, sh_mscratch,
     sh_sscratch, sh_mideleg, sh_medeleg, sh_mtval, sh_stval, sh_mtvec, sh_stvec]"

text \<open>\<open>mstatus\<close> with its dirty summary recomputed, as the reading of \<open>sstatus\<close> leaves it.\<close>

definition with_sd :: "uint64 \<Rightarrow> uint64" where
  "with_sd w = set_fld (mstatus_f Ms_sd) (if fld (mstatus_f Ms_fs) w = 3 then 1 else 0) w"

lemma regs_out:
  "\<exists>blk a'. regcpy_to_dut a = Ret blk a' \<and> dr_gpr blk = gpr (cpu a) \<and> dr_fpr blk = fpr (cpu a) \<and>
     dr_pc blk = cpu_pc (cpu a) \<and> dr_mode blk = mode (cpu a) \<and>
     map (\<lambda>f. f (dr_shadow blk)) shadow_fields = map (csr a) carried \<and>
     sh_sstatus (dr_shadow blk) = with_sd (csr a CSR_mstatus) AND SSTATUS_RMASK \<and>
     csr a' = (csr a)(CSR_mstatus := with_sd (csr a CSR_mstatus)) \<and> pmem a' = pmem a \<and>
     gpr (cpu a') = gpr (cpu a) \<and> mode (cpu a') = mode (cpu a)"
  by (simp add: regcpy_to_dut_def csr_prepare_def csrid_read_def csr_decode_def csr_read_def csr_view_def set_shadow_def
      update_mstatus_sd_def set_ms_def set_csr_def ms_def m_simps Let_def csr_addr_defs carried_def shadow_fields_def with_sd_def)

lemma regs_in:
  "\<exists>b'. regcpy_to_ref blk b = Ret () b' \<and> gpr (cpu b') = dr_gpr blk \<and> fpr (cpu b') = dr_fpr blk \<and>
     cpu_pc (cpu b') = dr_pc blk \<and> mode (cpu b') = dr_mode blk \<and> pmem b' = pmem b \<and> shadow (cpu b') = dr_shadow blk \<and>
     map (csr b') carried = map (\<lambda>f. f (dr_shadow blk)) shadow_fields \<and> (\<forall>c. c \<notin> set carried \<longrightarrow> csr b' c = csr b c)"
  by (simp add: regcpy_to_ref_def csr_writeback_def m_simps Let_def csr_addr_defs carried_def shadow_fields_def)


text \<open>A register copy does not bring the cached translation state up to date. After reset, a copy
  that enters user mode with Sv39 switched on leaves a reference that does not translate its accesses.\<close>

theorem regcpy_stale_mmu:
  "reachable fl [Regs_copy user_block] user_machine \<and> mmu_want True user_machine = MMU_TRANSLATE \<and> ifetch_mmu_state user_machine = MMU_DIRECT \<and>
   mmu_want False user_machine = MMU_TRANSLATE \<and> data_mmu_state user_machine = MMU_DIRECT"
proof -
  have "mode (cpu user_machine) = 0" "csr user_machine CSR_mstatus = 0" "csr user_machine CSR_satp = 0x8000000000080002"
    "ifetch_mmu_state user_machine = MMU_DIRECT" "data_mmu_state user_machine = MMU_DIRECT"
    by (simp_all add: user_machine_def regcpy_to_ref_def csr_writeback_def user_block_def static_shadow_def difftest_init_def
        init_isa_def init_mem_def set_csr_def Let_def m_simps csr_addr_defs)
  then show ?thesis using user_machine_reachable
    by (simp add: mmu_want_def eff_mode_def msb_on_def ms_def satp_mode_def fld_def)
qed

end
