(* ===== verification/Expr.thy ===== *)
theory Expr
  imports Vaddr
begin

text \<open>
  The expression evaluator of the monitor (\<open>src/utils/expr.c\<close>) with the register names it looks up
  (\<open>src/isa/riscv64/reg.c\<close>): the table of regular expressions and the tokenizer, the pass that tells the
  unary from the binary operators, the search for the dominating operator, and the recursive evaluation.
  A result \<open>None\<close> is the flag \<open>*success\<close> cleared; an assertion that fails, a division by zero and a write
  past the end of the token array take the process down.
\<close>

section \<open>Tokens and rules\<close>

text \<open>Single-character token types are the character itself.\<close>

datatype tk = TK_NOTYPE | TK_EQ | TK_NEQ | TK_OR | TK_AND | TK_NUM | TK_REG | TK_REF | TK_NEG | TK_C char

text \<open>A regular expression of the table is a sequence of character classes, each repeated between a lower
  and an upper bound, taken as often as possible.\<close>

type_synonym rx = "((char \<Rightarrow> bool) \<times> nat \<times> nat option) list"

definition rx_lit :: "string \<Rightarrow> rx" where
  "rx_lit cs = map (\<lambda>c. ((=) c, 1, Some 1)) cs"

definition is_dec :: "char \<Rightarrow> bool" where "is_dec c \<longleftrightarrow> c \<in> set ''0123456789''"
definition is_hex :: "char \<Rightarrow> bool" where "is_hex c \<longleftrightarrow> c \<in> set ''0123456789abcdefABCDEF''"
definition is_reg :: "char \<Rightarrow> bool" where "is_reg c \<longleftrightarrow> c \<in> set ''abcdefghijklmnopqrstuvwxyz0123456789''"

definition rules :: "(rx \<times> tk) list" where
  "rules = [
     ([((=) CHR '' '', 1, None)], TK_NOTYPE),
     (rx_lit ''+'', TK_C CHR ''+''),
     (rx_lit ''=='', TK_EQ),
     (rx_lit ''0x'' @ [(is_hex, 1, Some 16)], TK_NUM),
     ([(is_dec, 1, Some 10)], TK_NUM),
     (rx_lit ''$'' @ [(is_reg, 1, Some 31)], TK_REG),
     (rx_lit ''+'', TK_C CHR ''+''),
     (rx_lit ''-'', TK_C CHR ''-''),
     (rx_lit ''*'', TK_C CHR ''*''),
     (rx_lit ''/'', TK_C CHR ''/''),
     (rx_lit ''%'', TK_C CHR ''%''),
     (rx_lit ''=='', TK_EQ),
     (rx_lit ''!='', TK_NEQ),
     (rx_lit ''&&'', TK_AND),
     (rx_lit ''||'', TK_OR),
     (rx_lit ''!'', TK_C CHR ''!''),
     (rx_lit ''('', TK_C CHR ''(''),
     (rx_lit '')'', TK_C CHR '')'')]"

text \<open>The length of the match at the start of the string.\<close>

fun rx_match :: "rx \<Rightarrow> string \<Rightarrow> nat option" where
  "rx_match [] cs = Some 0"
| "rx_match ((p, lo, hi) # r) cs =
     (let n = (case hi of None \<Rightarrow> length (takeWhile p cs) | Some h \<Rightarrow> min h (length (takeWhile p cs)))
      in if n < lo then None else map_option ((+) n) (rx_match r (drop n cs)))"

fun try_rules :: "(rx \<times> tk) list \<Rightarrow> string \<Rightarrow> (tk \<times> nat) option" where
  "try_rules [] cs = None"
| "try_rules ((r, ty) # rs) cs = (case rx_match r cs of Some n \<Rightarrow> Some (ty, n) | None \<Rightarrow> try_rules rs cs)"

section \<open>The tokenizer\<close>

record token =
  tk_type :: tk
  tk_str :: string

definition NR_TOKEN :: nat where "NR_TOKEN = 32"

datatype lexed = Tokens "token list" | No_match | Overrun

text \<open>The text of a token is kept for numbers and registers. The buffer holds 32 bytes: the terminating
  zero of a register name of 32 characters goes to the next token, whose type is written later or never
  read, and past the array from the last one.\<close>

definition push_token :: "tk \<Rightarrow> string \<Rightarrow> token list \<Rightarrow> token list option" where
  "push_token ty str ts =
     (let keep = (ty = TK_NUM \<or> ty = TK_REG) in
      if length ts \<ge> NR_TOKEN \<or> length ts = NR_TOKEN - 1 \<and> keep \<and> length str \<ge> 32 then None
      else Some (ts @ [\<lparr>tk_type = ty, tk_str = (if keep then str else [])\<rparr>]))"

lemma rx_match_nonempty: "rx_match ((p, lo, hi) # r) cs = Some n \<Longrightarrow> 0 < lo \<Longrightarrow> cs \<noteq> [] \<and> 0 < n"
  by (cases cs) (auto simp: Let_def split: if_splits option.splits)

lemma try_rules_in: "try_rules rs cs = Some (ty, n) \<Longrightarrow> \<exists>r. (r, ty) \<in> set rs \<and> rx_match r cs = Some n"
  by (induction rs cs rule: try_rules.induct) (auto split: option.splits)

lemma rules_nonempty: "(r, ty) \<in> set rules \<Longrightarrow> \<exists>p lo hi r'. r = (p, lo, hi) # r' \<and> 0 < lo"
  by (auto simp: rules_def rx_lit_def)

lemma rule_consumes: "try_rules rules cs = Some (ty, n) \<Longrightarrow> cs \<noteq> [] \<and> 0 < n"
  using try_rules_in rules_nonempty rx_match_nonempty by metis

function make_token :: "string \<Rightarrow> token list \<Rightarrow> lexed" where
  "make_token cs ts =
     (if cs = [] then Tokens ts
      else case try_rules rules cs of
        None \<Rightarrow> No_match
      | Some (ty, n) \<Rightarrow>
          (if ty = TK_NOTYPE then make_token (drop n cs) ts
           else case push_token ty (take n cs) ts of
             None \<Rightarrow> Overrun
           | Some ts' \<Rightarrow> make_token (drop n cs) ts'))"
  by pat_completeness auto
termination
  by (relation "measure (\<lambda>(cs, ts). length cs)") (auto dest: rule_consumes)

declare make_token.simps [simp del]

section \<open>Operators\<close>

definition op_prec :: "tk \<Rightarrow> int option" where
  "op_prec t =
     (if t = TK_C CHR ''!'' \<or> t = TK_NEG \<or> t = TK_REF then Some 0
      else if t = TK_C CHR ''*'' \<or> t = TK_C CHR ''/'' \<or> t = TK_C CHR ''%'' then Some 1
      else if t = TK_C CHR ''+'' \<or> t = TK_C CHR ''-'' then Some 2
      else if t = TK_EQ \<or> t = TK_NEQ then Some 4
      else if t = TK_AND then Some 8
      else if t = TK_OR then Some 9
      else None)"

definition op_prec_cmp :: "tk \<Rightarrow> tk \<Rightarrow> int option" where
  "op_prec_cmp t1 t2 = (case (op_prec t1, op_prec t2) of (Some a, Some b) \<Rightarrow> Some (a - b) | _ \<Rightarrow> None)"

datatype dom = Dom int | No_dom | Dom_assert

text \<open>Whether the token at the current position becomes the dominating operator.\<close>

definition takes_over :: "tk \<Rightarrow> int \<Rightarrow> bool" where
  "takes_over t c = (c < 0 \<or> c = 0 \<and> t \<noteq> TK_C CHR ''!'' \<and> t \<noteq> TK_C CHR ''~'' \<and> t \<noteq> TK_NEG \<and> t \<noteq> TK_REF)"

abbreviation type_at :: "token list \<Rightarrow> int \<Rightarrow> tk" where
  "type_at tokens i \<equiv> tk_type (tokens ! nat i)"

function dom_loop :: "token list \<Rightarrow> int \<Rightarrow> int \<Rightarrow> int \<Rightarrow> int \<Rightarrow> dom" where
  "dom_loop tokens i e bracket_level dominated_op =
     (if i > e then (if dominated_op \<noteq> -1 then Dom dominated_op else No_dom)
      else let t = type_at tokens i in
        if t = TK_REG \<or> t = TK_NUM then dom_loop tokens (i + 1) e bracket_level dominated_op
        else if t = TK_C CHR ''('' then dom_loop tokens (i + 1) e (bracket_level + 1) dominated_op
        else if t = TK_C CHR '')'' then
          (if bracket_level - 1 < 0 then No_dom else dom_loop tokens (i + 1) e (bracket_level - 1) dominated_op)
        else if bracket_level \<noteq> 0 then dom_loop tokens (i + 1) e bracket_level dominated_op
        else if dominated_op = -1 then dom_loop tokens (i + 1) e bracket_level i
        else case op_prec_cmp (type_at tokens dominated_op) t of
          None \<Rightarrow> Dom_assert
        | Some c \<Rightarrow> dom_loop tokens (i + 1) e bracket_level (if takes_over t c then i else dominated_op))"
  by pat_completeness auto
termination
  by (relation "measure (\<lambda>(tokens, i, e, b, d). nat (e + 1 - i))") auto

declare dom_loop.simps [simp del]

definition find_dominated_op :: "token list \<Rightarrow> int \<Rightarrow> int \<Rightarrow> dom" where
  "find_dominated_op tokens s e = dom_loop tokens s e 0 (-1)"

lemma dom_loop_range:
  "dom_loop tokens i e b d = Dom k \<Longrightarrow> d = -1 \<or> s \<le> d \<and> d \<le> e \<Longrightarrow> s \<le> i \<Longrightarrow> s \<le> k \<and> k \<le> e"
proof (induction "nat (e + 1 - i)" arbitrary: i b d rule: less_induct)
  case less
  have IH: "dom_loop tokens (i + 1) e b' d' = Dom k \<Longrightarrow> \<not> e < i \<Longrightarrow> d' = -1 \<or> s \<le> d' \<and> d' \<le> e \<Longrightarrow> s \<le> k \<and> k \<le> e" for b' d'
    using less(4) by (intro less(1)[of "i + 1" b' d']) auto
  from less.prems show ?case
    by (subst (asm) dom_loop.simps) (auto simp: Let_def split: if_splits option.splits dest: IH)
qed

lemma dominated_range: "find_dominated_op tokens s e = Dom k \<Longrightarrow> s \<le> k \<and> k \<le> e"
  unfolding find_dominated_op_def by (rule dom_loop_range) auto

section \<open>Atoms\<close>

definition regsl :: "string list" where
  "regsl = [''$0'', ''ra'', ''sp'', ''gp'', ''tp'', ''t0'', ''t1'', ''t2'',
     ''s0'', ''s1'', ''a0'', ''a1'', ''a2'', ''a3'', ''a4'', ''a5'',
     ''a6'', ''a7'', ''s2'', ''s3'', ''s4'', ''s5'', ''s6'', ''s7'',
     ''s8'', ''s9'', ''s10'', ''s11'', ''t3'', ''t4'', ''t5'', ''t6'']"

primrec index_of :: "nat \<Rightarrow> 'a list \<Rightarrow> 'a \<Rightarrow> nat option" where
  "index_of i [] x = None"
| "index_of i (y # ys) x = (if y = x then Some i else index_of (Suc i) ys x)"

definition isa_reg_str2val :: "string \<Rightarrow> machine \<Rightarrow> uint64 option" where
  "isa_reg_str2val s st = (case index_of 0 regsl s of
     Some i \<Rightarrow> Some (gpr (cpu st) (of_nat i))
   | None \<Rightarrow> if s = ''pc'' then Some (cpu_pc (cpu st)) else None)"

text \<open>\<open>strtoul\<close> with base 0, on the texts the rules let through: hexadecimal after \<open>0x\<close>, octal after
  another leading zero, else decimal; the digits of the base are read as far as they go.\<close>

definition digit_val :: "char \<Rightarrow> nat" where
  "digit_val c = (let n = (of_char c :: nat) in
     if n \<ge> 97 then n - 87 else if n \<ge> 65 then n - 55 else n - 48)"

definition digits_val :: "nat \<Rightarrow> string \<Rightarrow> nat" where
  "digits_val b cs = foldl (\<lambda>a c. a * b + digit_val c) 0 (takeWhile (\<lambda>c. is_hex c \<and> digit_val c < b) cs)"

definition strtoul :: "string \<Rightarrow> uint64" where
  "strtoul cs = of_nat (min (2 ^ 64 - 1)
     (if take 2 cs = ''0x'' then digits_val 16 (drop 2 cs)
      else if take 1 cs = ''0'' then digits_val 8 cs
      else digits_val 10 cs))"

section \<open>Evaluation\<close>

definition bool_val :: "bool \<Rightarrow> uint64" where
  "bool_val b = (if b then 1 else 0)"

definition eval_unary :: "tk \<Rightarrow> uint64 \<Rightarrow> uint64 option nemu" where
  "eval_unary op v =
     (if op = TK_C CHR ''!'' then ret (Some (bool_val (v = 0)))
      else if op = TK_NEG then ret (Some (- v))
      else if op = TK_REF then bnd (vaddr_read_safe v 4) (\<lambda>x. ret (Some x))
      else die Assert_fail)"

definition eval_binary :: "tk \<Rightarrow> uint64 \<Rightarrow> uint64 \<Rightarrow> uint64 option nemu" where
  "eval_binary op v1 v2 =
     (if op = TK_C CHR ''+'' then ret (Some (v1 + v2))
      else if op = TK_C CHR ''-'' then ret (Some (v1 - v2))
      else if op = TK_C CHR ''*'' then ret (Some (v1 * v2))
      else if op = TK_C CHR ''/'' then (if v2 = 0 then die Host_fault else ret (Some (v1 div v2)))
      else if op = TK_C CHR ''%'' then (if v2 = 0 then die Host_fault else ret (Some (v1 mod v2)))
      else if op = TK_EQ then ret (Some (bool_val (v1 = v2)))
      else if op = TK_NEQ then ret (Some (bool_val (v1 \<noteq> v2)))
      else if op = TK_AND then ret (Some (bool_val (v1 \<noteq> 0 \<and> v2 \<noteq> 0)))
      else if op = TK_OR then ret (Some (bool_val (v1 \<noteq> 0 \<or> v2 \<noteq> 0)))
      else die Assert_fail)"

definition eval_atom :: "token \<Rightarrow> uint64 option nemu" where
  "eval_atom t =
     (if tk_type t = TK_REG then gets (isa_reg_str2val (tl (tk_str t)))
      else if tk_type t = TK_NUM then ret (Some (strtoul (tk_str t)))
      else die Assert_fail)"

text \<open>Going on only after a success.\<close>

definition on_success :: "uint64 option nemu \<Rightarrow> (uint64 \<Rightarrow> uint64 option nemu) \<Rightarrow> uint64 option nemu" where
  "on_success f g = bnd f (\<lambda>r. case r of None \<Rightarrow> ret None | Some v \<Rightarrow> g v)"

function eval :: "token list \<Rightarrow> int \<Rightarrow> int \<Rightarrow> uint64 option nemu" where
  "eval tokens s e =
     (if s > e then ret None
      else if s = e then eval_atom (tokens ! nat s)
      else if type_at tokens s = TK_C CHR ''('' \<and> type_at tokens e = TK_C CHR '')'' then eval tokens (s + 1) (e - 1)
      else case find_dominated_op tokens s e of
        No_dom \<Rightarrow> ret None
      | Dom_assert \<Rightarrow> die Assert_fail
      | Dom d \<Rightarrow>
          (let op = type_at tokens d in
           if op = TK_C CHR ''!'' \<or> op = TK_NEG \<or> op = TK_REF
           then on_success (eval tokens (d + 1) e) (eval_unary op)
           else on_success (eval tokens s (d - 1)) (\<lambda>v1.
             on_success (eval tokens (d + 1) e) (eval_binary op v1))))"
  by pat_completeness auto
termination
  by (relation "measure (\<lambda>(tokens, s, e). nat (e + 1 - s))") (auto dest: dominated_range)

declare eval.simps [simp del]

section \<open>Unary operators and the entry point\<close>

text \<open>The pass over the tokens; \<open>prev\<close> is the type of the token before, as the pass has left it.\<close>

primrec classify :: "tk option \<Rightarrow> token list \<Rightarrow> token list" where
  "classify prev [] = []"
| "classify prev (t # ts) =
     (let after = (prev = Some (TK_C CHR '')'') \<or> prev = Some TK_NUM \<or> prev = Some TK_REG);
          t' = (if tk_type t = TK_C CHR ''-'' \<and> \<not> after then t\<lparr>tk_type := TK_NEG\<rparr>
                else if tk_type t = TK_C CHR ''*'' \<and> \<not> after then t\<lparr>tk_type := TK_REF\<rparr>
                else t)
      in t' # classify (Some (tk_type t')) ts)"

definition expr :: "string \<Rightarrow> uint64 option nemu" where
  "expr e = (case make_token e [] of
     No_match \<Rightarrow> ret None
   | Overrun \<Rightarrow> die Host_fault
   | Tokens ts \<Rightarrow> (let tokens = classify None ts in eval tokens 0 (int (length tokens) - 1)))"

end
