(* ===== verification/Watchpoint.thy ===== *)
theory Watchpoint
  imports Expr Difftest
begin

text \<open>
  The watchpoints of the monitor (\<open>src/monitor/watchpoint.c\<close>): a pool of 32 nodes, threaded by their
  \<open>next\<close> pointers into a list of active and a list of free nodes. A pointer into the pool is an index. The
  state of the operations that evaluate expressions is the machine and the pool.
\<close>

section \<open>The pool\<close>

definition NR_WP :: nat where "NR_WP = 32"

record wp =
  wp_NO :: nat
  wp_next :: "nat option"
  wp_expr :: "string option"
  wp_old_val :: uint64

record wps =
  wp_pool :: "wp list"
  wp_head :: "nat option"
  wp_free :: "nat option"

definition static_wps :: wps where
  "static_wps = \<lparr>wp_pool = replicate NR_WP \<lparr>wp_NO = 0, wp_next = None, wp_expr = None, wp_old_val = 0\<rparr>,
     wp_head = None, wp_free = None\<rparr>"

definition upd_wp :: "nat \<Rightarrow> (wp \<Rightarrow> wp) \<Rightarrow> wps \<Rightarrow> wps" where
  "upd_wp i f w = w\<lparr>wp_pool := (wp_pool w)[i := f (wp_pool w ! i)]\<rparr>"

definition next_wp :: "wps \<Rightarrow> nat \<Rightarrow> nat option" where
  "next_wp w i = wp_next (wp_pool w ! i)"

text \<open>The loop over the first \<open>k\<close> nodes.\<close>

primrec init_nodes :: "nat \<Rightarrow> wps \<Rightarrow> wps" where
  "init_nodes 0 w = w"
| "init_nodes (Suc i) w = upd_wp i (\<lambda>n. n\<lparr>wp_NO := i, wp_next := Some (i + 1)\<rparr>) (init_nodes i w)"

definition init_wp_pool :: "wps \<Rightarrow> wps" where
  "init_wp_pool w =
     (let w2 = upd_wp (NR_WP - 1) (\<lambda>n. n\<lparr>wp_next := None\<rparr>) (init_nodes NR_WP w)
      in w2\<lparr>wp_head := None, wp_free := Some 0\<rparr>)"

section \<open>Operations\<close>

definition new_WP :: "(wps, nat) m" where
  "new_WP w = (case wp_free w of None \<Rightarrow> Crash Assert_fail | Some p \<Rightarrow> Ret p (w\<lparr>wp_free := next_wp w p\<rparr>))"

definition free_WP :: "nat \<Rightarrow> (wps, unit) m" where
  "free_WP p w =
     (if p < NR_WP then
        Ret () ((upd_wp p (\<lambda>n. n\<lparr>wp_expr := None, wp_next := wp_free w\<rparr>) w)\<lparr>wp_free := Some p\<rparr>)
      else Crash Assert_fail)"

definition on_snd :: "('t, 'a) m \<Rightarrow> ('s \<times> 't, 'a) m" where
  "on_snd f st = (case f (snd st) of Ret x t \<Rightarrow> Ret x (fst st, t) | LongJmp c t \<Rightarrow> LongJmp c (fst st, t) | Crash c \<Rightarrow> Crash c)"

type_synonym monitor = "machine \<times> wps"

text \<open>The result is the number of the watchpoint, or -1 when the expression fails.\<close>

definition set_watchpoint :: "string \<Rightarrow> (monitor, int) m" where
  "set_watchpoint e =
     bnd (on_fst (expr e)) (\<lambda>r. case r of
       None \<Rightarrow> ret (-1)
     | Some val \<Rightarrow>
         bnd (on_snd new_WP) (\<lambda>p.
         bnd (on_snd (modify (\<lambda>w. (upd_wp p (\<lambda>n. n\<lparr>wp_expr := Some e, wp_old_val := val, wp_next := wp_head w\<rparr>) w)
                                     \<lparr>wp_head := Some p\<rparr>))) (\<lambda>_.
         gets (\<lambda>(_, w). int (wp_NO (wp_pool w ! p))))))"

text \<open>The loops over the active list have fuel for their iterations; the pool bounds them when its lists are
  lists, as theory \<open>WatchProps\<close> proves. \<open>None\<close> is running out of it.\<close>

fun find_wp :: "nat \<Rightarrow> wps \<Rightarrow> int \<Rightarrow> nat option \<Rightarrow> nat option \<Rightarrow> (nat option \<times> nat option) option" where
  "find_wp 0 w NO p prev = None"
| "find_wp (Suc k) w NO p prev = (case p of
     None \<Rightarrow> Some (None, prev)
   | Some i \<Rightarrow> if int (wp_NO (wp_pool w ! i)) = NO then Some (Some i, prev) else find_wp k w NO (next_wp w i) (Some i))"

definition delete_watchpoint :: "int \<Rightarrow> (wps, bool) m" where
  "delete_watchpoint NO w = (case find_wp (NR_WP + 1) w NO (wp_head w) None of
     None \<Rightarrow> Crash Host_fault
   | Some (None, _) \<Rightarrow> Ret False w
   | Some (Some p, prev) \<Rightarrow>
       (let w' = (case prev of
            None \<Rightarrow> w\<lparr>wp_head := next_wp w p\<rparr>
          | Some q \<Rightarrow> upd_wp q (\<lambda>n. n\<lparr>wp_next := next_wp w p\<rparr>) w)
        in thn (free_WP p) (ret True) w'))"

text \<open>The scan stops the run at the first watchpoint whose value has changed. The expression of an active
  watchpoint is never null; the value of one that no longer evaluates is 0.\<close>

fun scan_loop :: "nat \<Rightarrow> nat option \<Rightarrow> (monitor, unit) m" where
  "scan_loop 0 p = die Host_fault"
| "scan_loop (Suc k) p = (case p of
     None \<Rightarrow> skip
   | Some i \<Rightarrow>
       bnd (gets (\<lambda>(_, w). wp_expr (wp_pool w ! i))) (\<lambda>e. case e of
         None \<Rightarrow> die Host_fault
       | Some s \<Rightarrow>
           bnd (on_fst (expr s)) (\<lambda>r.
           bnd (gets (\<lambda>(_, w). wp_old_val (wp_pool w ! i))) (\<lambda>old.
             let new_val = (case r of None \<Rightarrow> 0 | Some v \<Rightarrow> v) in
             if old \<noteq> new_val
             then thn (on_snd (modify (upd_wp i (\<lambda>n. n\<lparr>wp_old_val := new_val\<rparr>))))
                      (on_fst (modify (set_nstate NEMU_STOP)))
             else bnd (gets (\<lambda>(_, w). next_wp w i)) (scan_loop k)))))"

definition scan_watchpoint :: "(monitor, unit) m" where
  "scan_watchpoint = bnd (gets (\<lambda>(_, w). wp_head w)) (scan_loop (NR_WP + 1))"

end
