(* ===== verification/WatchProps.thy ===== *)
theory WatchProps
  imports Watchpoint
begin

text \<open>
  The pool of watchpoints implements a list of numbered expressions. \<open>wp_inv\<close> says that its two lists
  are disjoint and together hold every node; each operation keeps it and does to the abstract list what
  it promises, and no loop runs out of fuel.
\<close>

section \<open>Threaded lists\<close>

primrec wlist :: "wps \<Rightarrow> nat option \<Rightarrow> nat list \<Rightarrow> bool" where
  "wlist w p [] \<longleftrightarrow> p = None"
| "wlist w p (i # is) \<longleftrightarrow> p = Some i \<and> wlist w (next_wp w i) is"

definition wp_inv :: "wps \<Rightarrow> nat list \<Rightarrow> nat list \<Rightarrow> bool" where
  "wp_inv w act fr \<longleftrightarrow> length (wp_pool w) = 32 \<and> wlist w (wp_head w) act \<and> wlist w (wp_free w) fr \<and>
     distinct (act @ fr) \<and> set (act @ fr) = {..<32} \<and> (\<forall>i<32. wp_NO (wp_pool w ! i) = i) \<and>
     (\<forall>i\<in>set act. wp_expr (wp_pool w ! i) \<noteq> None)"

text \<open>A watchpoint as the user sees it: its number, its expression and the value it had.\<close>

definition wp_abs :: "wps \<Rightarrow> nat list \<Rightarrow> (nat \<times> string \<times> uint64) list" where
  "wp_abs w act = map (\<lambda>i. (i, the (wp_expr (wp_pool w ! i)), wp_old_val (wp_pool w ! i))) act"

lemma upd_wp_simps [simp]:
  "wp_head (upd_wp i f w) = wp_head w" "wp_free (upd_wp i f w) = wp_free w" "length (wp_pool (upd_wp i f w)) = length (wp_pool w)"
  by (simp_all add: upd_wp_def)

lemma nth_upd_wp: "i < length (wp_pool w) \<Longrightarrow> wp_pool (upd_wp i f w) ! j = (if i = j then f (wp_pool w ! i) else wp_pool w ! j)"
  by (auto simp: upd_wp_def)

lemma next_upd_wp: "i < length (wp_pool w) \<Longrightarrow>
    next_wp (upd_wp i f w) j = (if i = j then wp_next (f (wp_pool w ! i)) else next_wp w j)"
  by (simp add: next_wp_def nth_upd_wp)

lemma next_frame [simp]: "next_wp (w\<lparr>wp_head := p\<rparr>) i = next_wp w i" "next_wp (w\<lparr>wp_free := p\<rparr>) i = next_wp w i"
  by (simp_all add: next_wp_def)

lemma wlist_frame [simp]: "wlist (w\<lparr>wp_head := p\<rparr>) q is = wlist w q is" "wlist (w\<lparr>wp_free := p\<rparr>) q is = wlist w q is"
  by (induction "is" arbitrary: q) simp_all

lemma wlist_upd: "i < length (wp_pool w) \<Longrightarrow> i \<notin> set is \<Longrightarrow> wlist (upd_wp i f w) p is = wlist w p is"
  by (induction "is" arbitrary: p) (auto simp: next_upd_wp)

lemma wlist_app: "wlist w p (xs @ i # ys) \<Longrightarrow> wlist w (next_wp w i) ys"
  by (induction xs arbitrary: p) simp_all

lemma wlist_first: "wlist w p xs \<Longrightarrow> p = (case xs of [] \<Rightarrow> None | i # _ \<Rightarrow> Some i)"
  by (cases xs) simp_all

lemma wlist_keep:
  assumes "i < length (wp_pool w)" "wp_next (f (wp_pool w ! i)) = next_wp w i"
  shows "wlist (upd_wp i f w) p is = wlist w p is"
proof -
  have "next_wp (upd_wp i f w) j = next_wp w j" for j using assms by (cases "i = j") (simp_all add: next_upd_wp)
  then show ?thesis by (induction "is" arbitrary: p) simp_all
qed

text \<open>Unlinking a node behind another.\<close>

lemma wlist_unlink:
  "wlist w p (xs @ q # i # ys) \<Longrightarrow> distinct (xs @ q # i # ys) \<Longrightarrow> q < length (wp_pool w) \<Longrightarrow>
     wlist (upd_wp q (\<lambda>n. n\<lparr>wp_next := next_wp w i\<rparr>) w) p (xs @ q # ys)"
  by (induction xs arbitrary: p) (auto simp: next_upd_wp wlist_upd)

section \<open>Initialisation\<close>

lemma init_nodes_ok:
  assumes "length (wp_pool w) = 32"
  shows "k \<le> 32 \<Longrightarrow> length (wp_pool (init_nodes k w)) = 32 \<and>
    (\<forall>i<k. wp_NO (wp_pool (init_nodes k w) ! i) = i \<and> next_wp (init_nodes k w) i = Some (i + 1))"
proof (induction k)
  case (Suc k)
  let ?w = "init_nodes k w"
  from Suc have IH: "length (wp_pool ?w) = 32" "\<And>i. i < k \<Longrightarrow> wp_NO (wp_pool ?w ! i) = i" "\<And>i. i < k \<Longrightarrow> next_wp ?w i = Some (i + 1)"
    and k: "k < 32" by simp_all
  show ?case
  proof (intro conjI allI impI)
    fix i assume i: "i < Suc k"
    show "wp_NO (wp_pool (init_nodes (Suc k) w) ! i) = i" "next_wp (init_nodes (Suc k) w) i = Some (i + 1)"
      using IH i k by (cases "i = k"; simp add: nth_upd_wp next_upd_wp)+
  qed (simp add: IH)
qed (simp add: assms)

lemma wlist_interval: "(\<forall>i. a \<le> i \<and> i < b - 1 \<longrightarrow> next_wp w i = Some (i + 1)) \<Longrightarrow> a < b \<Longrightarrow> next_wp w (b - 1) = None \<Longrightarrow>
    wlist w (Some a) [a..<b]"
proof (induction "b - a" arbitrary: a)
  case (Suc n)
  show ?case
  proof (cases "Suc a < b")
    case True
    then have "a < b - 1" by simp
    then have "next_wp w a = Some (Suc a)" using Suc.prems(1) by simp
    moreover have "wlist w (Some (Suc a)) [Suc a..<b]" using Suc True by (intro Suc.hyps(1)) simp_all
    ultimately show ?thesis using Suc.prems by (simp add: upt_conv_Cons)
  next
    case False
    with Suc.prems have "b = Suc a" by simp
    with Suc.prems show ?thesis by simp
  qed
qed simp

lemma init_inv:
  assumes "length (wp_pool w) = 32"
  shows "wp_inv (init_wp_pool w) [] [0..<32]"
proof -
  define w1 where "w1 = init_nodes 32 w"
  let ?w2 = "upd_wp 31 (\<lambda>n. n\<lparr>wp_next := None\<rparr>) w1"
  have 1: "length (wp_pool w1) = 32" "\<forall>i<32. wp_NO (wp_pool w1 ! i) = i \<and> next_wp w1 i = Some (i + 1)"
    using init_nodes_ok[OF assms, of 32] by (simp_all add: w1_def del: init_nodes.simps)
  then have "wlist ?w2 (Some 0) [0..<32]"
    by (intro wlist_interval) (auto simp: next_upd_wp)
  moreover have "\<forall>i<32. wp_NO (wp_pool ?w2 ! i) = i" using 1 by (auto simp: nth_upd_wp)
  moreover have "init_wp_pool w = ?w2\<lparr>wp_head := None, wp_free := Some 0\<rparr>"
    by (simp add: init_wp_pool_def NR_WP_def Let_def w1_def del: init_nodes.simps)
  ultimately show ?thesis using 1 by (auto simp: wp_inv_def)
qed

section \<open>Operations\<close>

lemma set_ok:
  assumes "wp_inv w act fr" "expr e st = Ret r st'"
  shows "case r of
      None \<Rightarrow> set_watchpoint e (st, w) = Ret (-1) (st', w)
    | Some v \<Rightarrow> (case fr of
        [] \<Rightarrow> set_watchpoint e (st, w) = Crash Assert_fail
      | p # fr' \<Rightarrow> \<exists>w'. set_watchpoint e (st, w) = Ret (int p) (st', w') \<and> wp_inv w' (p # act) fr' \<and>
          wp_abs w' (p # act) = (p, e, v) # wp_abs w act)"
proof (cases r)
  case None
  with assms(2) show ?thesis by (simp add: set_watchpoint_def on_fst_def m_simps)
next
  case (Some v)
  show ?thesis
  proof (cases fr)
    case Nil
    with assms Some show ?thesis by (auto simp: set_watchpoint_def on_fst_def on_snd_def new_WP_def m_simps wp_inv_def)
  next
    case (Cons p fr')
    let ?w = "(upd_wp p (\<lambda>n. n\<lparr>wp_expr := Some e, wp_old_val := v, wp_next := wp_head w\<rparr>) (w\<lparr>wp_free := next_wp w p\<rparr>))\<lparr>wp_head := Some p\<rparr>"
    from assms(1) Cons have i: "wp_free w = Some p" "p < 32" "p \<notin> set act" "p \<notin> set fr'" "wp_NO (wp_pool w ! p) = p"
      by (auto simp: wp_inv_def)
    have n: "\<And>j. wp_pool ?w ! j = (if p = j then (wp_pool w ! p)\<lparr>wp_expr := Some e, wp_old_val := v, wp_next := wp_head w\<rparr> else wp_pool w ! j)"
      using i assms(1) by (simp add: nth_upd_wp wp_inv_def)
    have "set_watchpoint e (st, w) = Ret (int p) (st', ?w)"
      using assms(2) Some i n[of p] by (simp add: set_watchpoint_def on_fst_def on_snd_def new_WP_def m_simps)
    moreover have "wp_inv ?w (p # act) fr'"
      using assms(1) Cons i by (auto simp: wp_inv_def wlist_upd next_upd_wp nth_upd_wp)
    moreover have "wp_abs ?w (p # act) = (p, e, v) # wp_abs w act"
      using i(3) unfolding wp_abs_def list.map n by auto
    ultimately show ?thesis using Some Cons by auto
  qed
qed

lemma find_skip:
  "wlist w p xs \<Longrightarrow> \<forall>i\<in>set xs. int (wp_NO (wp_pool w ! i)) \<noteq> NO \<Longrightarrow> length xs < k \<Longrightarrow>
     find_wp k w NO p prev = Some (None, if xs = [] then prev else Some (last xs))"
proof (induction xs arbitrary: p prev k)
  case Nil
  then show ?case by (cases k) simp_all
next
  case (Cons i xs)
  then show ?case by (cases k) auto
qed

lemma find_hit:
  "wlist w p (xs @ i # ys) \<Longrightarrow> \<forall>j\<in>set xs. int (wp_NO (wp_pool w ! j)) \<noteq> NO \<Longrightarrow> int (wp_NO (wp_pool w ! i)) = NO \<Longrightarrow>
     length xs < k \<Longrightarrow> find_wp k w NO p prev = Some (Some i, if xs = [] then prev else Some (last xs))"
proof (induction xs arbitrary: p prev k)
  case Nil
  then show ?case by (cases k) simp_all
next
  case (Cons j xs)
  then show ?case by (cases k) auto
qed

lemma free_ok:
  assumes "wlist w (wp_head w) act" "wlist w (wp_free w) fr" "length (wp_pool w) = 32" "p < 32" "p \<notin> set act" "p \<notin> set fr"
  shows "\<exists>w'. free_WP p w = Ret () w' \<and> wlist w' (wp_head w') act \<and> wlist w' (wp_free w') (p # fr) \<and>
    length (wp_pool w') = 32 \<and> (\<forall>j. wp_NO (wp_pool w' ! j) = wp_NO (wp_pool w ! j)) \<and> (\<forall>j. j \<noteq> p \<longrightarrow> wp_pool w' ! j = wp_pool w ! j)"
  using assms by (auto simp: free_WP_def NR_WP_def wlist_upd next_upd_wp nth_upd_wp)

lemma act_length: "wp_inv w act fr \<Longrightarrow> length act \<le> 32"
proof -
  assume "wp_inv w act fr"
  then have "set act \<subseteq> {..<32}" "distinct act" by (auto simp: wp_inv_def)
  then show ?thesis using card_mono[of "{..<32 :: nat}" "set act"] by (simp add: distinct_card)
qed

text \<open>The node in the middle of the active list is unlinked, whether or not it is the first.\<close>

lemma unlink_ok:
  assumes inv: "wp_inv w (xs @ p # ys) fr"
    and w1: "w1 = (if xs = [] then w\<lparr>wp_head := next_wp w p\<rparr> else upd_wp (last xs) (\<lambda>n. n\<lparr>wp_next := next_wp w p\<rparr>) w)"
  shows "wlist w1 (wp_head w1) (xs @ ys)" "wlist w1 (wp_free w1) fr" "length (wp_pool w1) = 32"
    "wp_NO (wp_pool w1 ! j) = wp_NO (wp_pool w ! j)" "wp_expr (wp_pool w1 ! j) = wp_expr (wp_pool w ! j)"
    "wp_old_val (wp_pool w1 ! j) = wp_old_val (wp_pool w ! j)"
proof -
  have x: "last xs < 32 \<and> last xs \<notin> set fr" if "xs \<noteq> []"
  proof -
    from that have "last xs \<in> set xs" by simp
    moreover have "set xs \<subseteq> {..<32}" "set xs \<inter> set fr = {}" using inv by (auto simp: wp_inv_def)
    ultimately show ?thesis by auto
  qed
  show "wlist w1 (wp_head w1) (xs @ ys)"
  proof (cases xs rule: rev_cases)
    case (snoc zs q)
    from inv have "distinct (xs @ p # ys)" "wlist w (wp_head w) (xs @ p # ys)" "length (wp_pool w) = 32" by (auto simp: wp_inv_def)
    with snoc show ?thesis using wlist_unlink[of w "wp_head w" zs q p ys] x by (simp add: w1)
  qed (use inv in \<open>simp add: wp_inv_def w1\<close>)
  show "wlist w1 (wp_free w1) fr" using inv x by (simp add: wp_inv_def wlist_upd w1)
  show "length (wp_pool w1) = 32" using inv by (simp add: wp_inv_def w1)
  show "wp_NO (wp_pool w1 ! j) = wp_NO (wp_pool w ! j)" "wp_expr (wp_pool w1 ! j) = wp_expr (wp_pool w ! j)"
    "wp_old_val (wp_pool w1 ! j) = wp_old_val (wp_pool w ! j)"
    using x inv by (auto simp: nth_upd_wp wp_inv_def w1)
qed

lemma delete_ok:
  assumes inv: "wp_inv w act fr"
  shows "if NO \<in> int ` set act
    then \<exists>w'. delete_watchpoint NO w = Ret True w' \<and> wp_inv w' (filter (\<lambda>i. int i \<noteq> NO) act) (nat NO # fr) \<and>
      wp_abs w' (filter (\<lambda>i. int i \<noteq> NO) act) = filter (\<lambda>(i, _). int i \<noteq> NO) (wp_abs w act)
    else delete_watchpoint NO w = Ret False w"
proof (cases "NO \<in> int ` set act")
  case False
  have "\<forall>i\<in>set act. int (wp_NO (wp_pool w ! i)) \<noteq> NO" using inv False by (auto simp: wp_inv_def)
  then have "find_wp (NR_WP + 1) w NO (wp_head w) None = Some (None, if act = [] then None else Some (last act))"
    using inv act_length[OF inv] by (intro find_skip) (simp_all add: wp_inv_def NR_WP_def)
  with False show ?thesis by (simp add: delete_watchpoint_def)
next
  case True
  then obtain p xs ys where p: "NO = int p" and act: "act = xs @ p # ys" by (metis imageE split_list)
  have d: "distinct (xs @ p # ys)" "p < 32" "p \<notin> set fr" using inv by (auto simp: wp_inv_def act)
  have "p \<notin> set zs \<Longrightarrow> filter (\<lambda>i. int i \<noteq> NO) zs = zs" for zs by (auto simp: p intro!: filter_True)
  with d have flt: "filter (\<lambda>i. int i \<noteq> NO) act = xs @ ys" by (simp add: act p)
  have "\<forall>j\<in>set xs. int (wp_NO (wp_pool w ! j)) \<noteq> NO" using inv d by (auto simp: wp_inv_def act p)
  then have f: "find_wp (NR_WP + 1) w NO (wp_head w) None = Some (Some p, if xs = [] then None else Some (last xs))"
    using inv act_length[OF inv] d by (intro find_hit[where ys = ys]) (simp_all add: wp_inv_def NR_WP_def act p)
  define w1 where "w1 = (if xs = [] then w\<lparr>wp_head := next_wp w p\<rparr> else upd_wp (last xs) (\<lambda>n. n\<lparr>wp_next := next_wp w p\<rparr>) w)"
  note u = unlink_ok[OF inv[unfolded act] w1_def]
  from u(1-3) d obtain w' where w': "free_WP p w1 = Ret () w'" "wlist w' (wp_head w') (xs @ ys)" "wlist w' (wp_free w') (p # fr)"
      "length (wp_pool w') = 32" "\<forall>j. wp_NO (wp_pool w' ! j) = wp_NO (wp_pool w1 ! j)" "\<forall>j. j \<noteq> p \<longrightarrow> wp_pool w' ! j = wp_pool w1 ! j"
    using free_ok[of w1 "xs @ ys" fr p] by auto
  have same: "\<forall>j\<in>set (xs @ ys). wp_expr (wp_pool w' ! j) = wp_expr (wp_pool w ! j) \<and> wp_old_val (wp_pool w' ! j) = wp_old_val (wp_pool w ! j)"
  proof
    fix j assume "j \<in> set (xs @ ys)"
    with d have "j \<noteq> p" by auto
    then show "wp_expr (wp_pool w' ! j) = wp_expr (wp_pool w ! j) \<and> wp_old_val (wp_pool w' ! j) = wp_old_val (wp_pool w ! j)"
      using w'(6) u(5,6) by metis
  qed
  have "delete_watchpoint NO w = Ret True w'" using f w'(1) by (auto simp: delete_watchpoint_def m_simps w1_def split: if_splits)
  moreover have "wp_inv w' (xs @ ys) (p # fr)"
    using inv d w' u(4) same by (auto simp: wp_inv_def act)
  moreover have "wp_abs w' (xs @ ys) = filter (\<lambda>(i, _). int i \<noteq> NO) (wp_abs w act)"
    using same by (auto simp: wp_abs_def filter_map comp_def flt)
  ultimately show ?thesis using True p flt by auto
qed

section \<open>Scanning\<close>

text \<open>What a scan promises on the list of watchpoints: the first one whose value has changed takes its new
  value and stops the run; the ones behind it are not looked at.\<close>

fun scan_spec :: "(nat \<times> string \<times> uint64) list \<Rightarrow> (machine, (nat \<times> string \<times> uint64) list) m" where
  "scan_spec [] = ret []"
| "scan_spec ((n, e, old) # A) = bnd (expr e) (\<lambda>r.
     let v = (case r of None \<Rightarrow> 0 | Some v \<Rightarrow> v) in
     if old \<noteq> v then thn (modify (set_nstate NEMU_STOP)) (ret ((n, e, v) # A))
     else bnd (scan_spec A) (\<lambda>A'. ret ((n, e, old) # A')))"

definition shows_wps :: "wps \<Rightarrow> (nat \<times> string \<times> uint64) list \<Rightarrow> bool" where
  "shows_wps w A \<longleftrightarrow> (\<exists>act fr. wp_inv w act fr \<and> wp_abs w act = A)"

text \<open>An outcome on the pool shows the outcome on the list; a jump out of an expression leaves the pool alone.\<close>

fun scan_agrees :: "wps \<Rightarrow> (monitor, unit) res \<Rightarrow> (machine, (nat \<times> string \<times> uint64) list) res \<Rightarrow> bool" where
  "scan_agrees w (Ret _ (st, w')) (Ret A' st') \<longleftrightarrow> st = st' \<and> shows_wps w' A'"
| "scan_agrees w (LongJmp c (st, w')) (LongJmp c' st') \<longleftrightarrow> c = c' \<and> st = st' \<and> w' = w"
| "scan_agrees w (Crash c) (Crash c') \<longleftrightarrow> c = c'"
| "scan_agrees w _ _ \<longleftrightarrow> False"

lemma scan_loop_ok:
  "wp_inv w (pre @ rest) fr \<Longrightarrow> length rest < k \<Longrightarrow>
     scan_agrees w (scan_loop k (case rest of [] \<Rightarrow> None | i # _ \<Rightarrow> Some i) (st, w))
       (bnd (scan_spec (wp_abs w rest)) (\<lambda>A'. ret (wp_abs w pre @ A')) st)"
proof (induction rest arbitrary: pre k st)
  case Nil
  then show ?case by (cases k) (auto simp: wp_abs_def m_simps shows_wps_def)
next
  case (Cons i rest)
  then obtain k' where k: "k = Suc k'" by (cases k) auto
  obtain e where e: "wp_expr (wp_pool w ! i) = Some e" using Cons.prems by (auto simp: wp_inv_def)
  have i: "i < 32" "i \<notin> set pre" "i \<notin> set rest" "i \<notin> set fr" using Cons.prems by (auto simp: wp_inv_def)
  have nxt: "next_wp w i = (case rest of [] \<Rightarrow> None | i # _ \<Rightarrow> Some i)"
    using Cons.prems wlist_app[of w "wp_head w" pre i rest] wlist_first by (auto simp: wp_inv_def)
  have split: "wp_abs w (i # rest) = (i, e, wp_old_val (wp_pool w ! i)) # wp_abs w rest"
    "wp_abs w (pre @ [i]) = wp_abs w pre @ [(i, e, wp_old_val (wp_pool w ! i))]"
    by (simp_all add: wp_abs_def e)
  show ?case
  proof (cases "expr e st")
    case (Ret r st')
    define v where "v = (case r of None \<Rightarrow> 0 | Some v \<Rightarrow> v)"
    show ?thesis
    proof (cases "wp_old_val (wp_pool w ! i) = v")
      case True
      with Cons.IH[of "pre @ [i]" k' st'] Cons.prems show ?thesis
        by (simp add: k split m_simps on_fst_def e Ret v_def[symmetric] nxt Let_def split: res.splits)
    next
      case False
      let ?w = "upd_wp i (\<lambda>n. n\<lparr>wp_old_val := v\<rparr>) w"
      have "wp_inv ?w (pre @ i # rest) fr"
        using Cons.prems i by (auto simp: wp_inv_def nth_upd_wp wlist_keep next_wp_def)
      moreover have "wp_abs ?w (pre @ i # rest) = wp_abs w pre @ (i, e, v) # wp_abs w rest"
        using Cons.prems i e by (auto simp: wp_abs_def wp_inv_def nth_upd_wp)
      ultimately show ?thesis using False
        by (auto simp: k split m_simps on_fst_def on_snd_def e Ret v_def[symmetric] Let_def shows_wps_def)
    qed
  qed (simp_all add: k split m_simps on_fst_def e)
qed

section \<open>The monitor's use of the pool\<close>

text \<open>The states of machine and pool that the monitor can reach: the guest runs between the commands, and a
  command that jumps out leaves a machine the guest can be run on.\<close>

inductive wp_reaches :: "monitor \<Rightarrow> bool" where
  wp_start: "wp_reaches (st, init_wp_pool static_wps)"
| wp_guest: "wp_reaches (st, w) \<Longrightarrow> wp_reaches (st', w)"
| wp_set: "wp_reaches c \<Longrightarrow> set_watchpoint e c = Ret n c' \<Longrightarrow> wp_reaches c'"
| wp_delete: "wp_reaches (st, w) \<Longrightarrow> delete_watchpoint NO w = Ret b w' \<Longrightarrow> wp_reaches (st, w')"
| wp_scan: "wp_reaches c \<Longrightarrow> scan_watchpoint c = Ret u c' \<Longrightarrow> wp_reaches c'"

lemma set_step: "wp_inv w act fr \<Longrightarrow> set_watchpoint e (st, w) = Ret n (st', w') \<Longrightarrow> \<exists>act' fr'. wp_inv w' act' fr'"
proof -
  assume a: "wp_inv w act fr" "set_watchpoint e (st, w) = Ret n (st', w')"
  then obtain r s where "expr e st = Ret r s"
    by (cases "expr e st") (simp_all add: set_watchpoint_def on_fst_def m_simps)
  from set_ok[OF a(1) this] a show ?thesis by (auto split: option.splits list.splits)
qed

lemma delete_step: "wp_inv w act fr \<Longrightarrow> delete_watchpoint NO w = Ret b w' \<Longrightarrow> \<exists>act' fr'. wp_inv w' act' fr'"
  using delete_ok[of w act fr NO] by (auto split: if_splits)

lemma scan_ok:
  assumes "wp_inv w act fr"
  shows "scan_agrees w (scan_watchpoint (st, w)) (scan_spec (wp_abs w act) st)"
proof -
  have "bnd (scan_spec (wp_abs w act)) (\<lambda>A'. ret (wp_abs w [] @ A')) = scan_spec (wp_abs w act)"
    by (rule ext) (simp add: m_simps wp_abs_def split: res.splits)
  moreover have "wp_head w = (case act of [] \<Rightarrow> None | i # _ \<Rightarrow> Some i)"
    using assms wlist_first[of w "wp_head w" act] by (simp add: wp_inv_def)
  ultimately show ?thesis
    using scan_loop_ok[of w "[]" act fr 33 st] act_length[OF assms] assms
    by (simp add: scan_watchpoint_def m_simps NR_WP_def del: scan_loop.simps)
qed

lemma scan_step: "wp_inv w act fr \<Longrightarrow> scan_watchpoint (st, w) = Ret u (st', w') \<Longrightarrow> \<exists>act' fr'. wp_inv w' act' fr'"
  using scan_ok[of w act fr st] by (cases "scan_spec (wp_abs w act) st") (auto simp: shows_wps_def)

lemma reaches_inv: "wp_reaches c \<Longrightarrow> \<exists>act fr. wp_inv (snd c) act fr"
proof (induction rule: wp_reaches.induct)
  case (wp_start st)
  have "length (wp_pool static_wps) = 32" by (simp add: static_wps_def NR_WP_def)
  then have "wp_inv (init_wp_pool static_wps) [] [0..<32]" by (rule init_inv)
  then show ?case unfolding snd_conv by (rule exI[where x = "[]", OF exI[where x = "[0..<32]"]])
next
  case (wp_set c e n c')
  then show ?case using set_step[of "snd c" _ _ e "fst c" n "fst c'" "snd c'"] unfolding prod.collapse by blast
next
  case (wp_scan c u c')
  then show ?case using scan_step[of "snd c" _ _ "fst c" u "fst c'" "snd c'"] unfolding prod.collapse by blast
next
  case (wp_delete st w NO b w')
  then show ?case using delete_step unfolding snd_conv by blast
qed simp

lemma wp_reaches_one:
  "\<exists>w. set_watchpoint ''7'' (static_machine, init_wp_pool static_wps) = Ret 0 (static_machine, w) \<and> wp_reaches (static_machine, w) \<and>
     shows_wps w [(0, ''7'', 7)]"
proof -
  have e: "expr ''7'' static_machine = Ret (Some 7) static_machine"
  proof -
    have "make_token ''7'' [] = Tokens [\<lparr>tk_type = TK_NUM, tk_str = ''7''\<rparr>]" by code_simp
    then show ?thesis by (simp add: expr_def eval.simps eval_atom_def m_simps strtoul_def digits_val_def digit_val_def is_hex_def)
  qed
  have "length (wp_pool static_wps) = 32" by (simp add: static_wps_def NR_WP_def)
  from init_inv[OF this] have i: "wp_inv (init_wp_pool static_wps) [] (0 # [1..<32])" by (simp add: upt_conv_Cons)
  from set_ok[OF i e] obtain w where "set_watchpoint ''7'' (static_machine, init_wp_pool static_wps) = Ret 0 (static_machine, w)"
    "wp_inv w [0] [1..<32]" "wp_abs w [0] = [(0, ''7'', 7)]" by (auto simp: wp_abs_def)
  then show ?thesis using wp_set[OF wp_start] by (auto simp: shows_wps_def)
qed

lemma inv_length: "wp_inv w act fr \<Longrightarrow> length act + length fr = 32"
  using distinct_card[of "act @ fr"] by (simp add: wp_inv_def)

text \<open>Property C5: however the user has set, deleted and scanned watchpoints, the linked lists of the pool hold
  a list of watchpoints under distinct numbers below 32, and the operations do to it what they promise.
  Setting one evaluates its expression and, when that succeeds, puts it with its value at the front under an
  unused number; with all 32 in use it stops at the assertion, and when the expression fails nothing changes.
  Deleting removes the one with the number, or reports that there is none. A scan goes through the list in
  order and stops the run at the first changed value. No loop over the list runs forever.\<close>

theorem watchpoints_refine:
  assumes "wp_reaches (st, w)"
  shows "(\<exists>A. shows_wps w A) \<and> (\<forall>A. shows_wps w A \<longrightarrow> distinct (map fst A) \<and> fst ` set A \<subseteq> {..<32} \<and>
    (\<forall>e r st'. expr e st = Ret r st' \<longrightarrow> (case r of
       None \<Rightarrow> set_watchpoint e (st, w) = Ret (-1) (st', w)
     | Some v \<Rightarrow> if length A = 32 then set_watchpoint e (st, w) = Crash Assert_fail
         else \<exists>p w'. p < 32 \<and> p \<notin> fst ` set A \<and> set_watchpoint e (st, w) = Ret (int p) (st', w') \<and> shows_wps w' ((p, e, v) # A))) \<and>
    (\<forall>NO. if NO \<in> int ` fst ` set A
       then \<exists>w'. delete_watchpoint NO w = Ret True w' \<and> shows_wps w' (filter (\<lambda>(i, _). int i \<noteq> NO) A)
       else delete_watchpoint NO w = Ret False w) \<and>
    scan_agrees w (scan_watchpoint (st, w)) (scan_spec A st))"
proof (intro conjI allI impI)
  from reaches_inv[OF assms] show "\<exists>A. shows_wps w A" by (auto simp: shows_wps_def)
next
  fix A
  assume "shows_wps w A"
  then obtain act fr where inv: "wp_inv w act fr" and A: "wp_abs w act = A" by (auto simp: shows_wps_def)
  have fst: "map fst (wp_abs w act) = act" "fst ` set (wp_abs w act) = set act" "length (wp_abs w act) = length act"
    by (force simp: wp_abs_def comp_def)+
  have set: "case r of None \<Rightarrow> set_watchpoint e (st, w) = Ret (-1) (st', w)
     | Some v \<Rightarrow> if length act = 32 then set_watchpoint e (st, w) = Crash Assert_fail
         else \<exists>p w'. p < 32 \<and> p \<notin> set act \<and> set_watchpoint e (st, w) = Ret (int p) (st', w') \<and> shows_wps w' ((p, e, v) # wp_abs w act)"
    if "expr e st = Ret r st'" for e r st'
  proof (cases fr)
    case Nil
    then show ?thesis using set_ok[OF inv that] inv_length[OF inv] by (simp split: option.splits)
  next
    case (Cons p fr')
    then have "p < 32" "p \<notin> set act" "length act \<noteq> 32" using inv inv_length[OF inv] by (auto simp: wp_inv_def)
    then show ?thesis using set_ok[OF inv that] Cons by (fastforce simp: shows_wps_def split: option.splits)
  qed
  have del: "if NO \<in> int ` set act
       then \<exists>w'. delete_watchpoint NO w = Ret True w' \<and> shows_wps w' (filter (\<lambda>(i, _). int i \<noteq> NO) (wp_abs w act))
       else delete_watchpoint NO w = Ret False w" for NO
    using delete_ok[OF inv, of NO] by (auto simp: shows_wps_def split: if_splits)
  show "distinct (map fst A)" "fst ` set A \<subseteq> {..<32}" using inv by (auto simp: A[symmetric] fst wp_inv_def)
  show "scan_agrees w (scan_watchpoint (st, w)) (scan_spec A st)" unfolding A[symmetric] by (rule scan_ok[OF inv])
  show "case r of
       None \<Rightarrow> set_watchpoint e (st, w) = Ret (-1) (st', w)
     | Some v \<Rightarrow> if length A = 32 then set_watchpoint e (st, w) = Crash Assert_fail
         else \<exists>p w'. p < 32 \<and> p \<notin> fst ` set A \<and> set_watchpoint e (st, w) = Ret (int p) (st', w') \<and> shows_wps w' ((p, e, v) # A)"
    if "expr e st = Ret r st'" for e r st' using set[OF that] unfolding A[symmetric] fst .
  show "if NO \<in> int ` fst ` set A
       then \<exists>w'. delete_watchpoint NO w = Ret True w' \<and> shows_wps w' (filter (\<lambda>(i, _). int i \<noteq> NO) A)
       else delete_watchpoint NO w = Ret False w" for NO using del[of NO] unfolding A[symmetric] fst .
qed

theorem watchpoints_refine_witness:
  "\<exists>w w'. wp_reaches (static_machine, w) \<and> delete_watchpoint 0 w = Ret True w' \<and> shows_wps w' [] \<and>
     scan_agrees w (scan_watchpoint (static_machine, w)) (scan_spec [(0, ''7'', 7)] static_machine)"
proof -
  from wp_reaches_one obtain w where w: "wp_reaches (static_machine, w)" "shows_wps w [(0, ''7'', 7)]" by auto
  from watchpoints_refine[OF w(1)] w(2) have
    d: "if 0 \<in> int ` fst ` set [(0::nat, ''7'', 7::uint64)]
       then \<exists>w'. delete_watchpoint 0 w = Ret True w' \<and> shows_wps w' (filter (\<lambda>(i, _). int i \<noteq> 0) [(0, ''7'', 7)])
       else delete_watchpoint 0 w = Ret False w"
    and s: "scan_agrees w (scan_watchpoint (static_machine, w)) (scan_spec [(0, ''7'', 7)] static_machine)" by blast+
  from d obtain w' where "delete_watchpoint 0 w = Ret True w'" "shows_wps w' []" by auto
  with w s show ?thesis by blast
qed

end
