(* ===== verification/Io.thy ===== *)
theory Io
  imports Memory Csr Fifo Difftest
begin

text \<open>
  The state of the devices and the bus they hang on (\<open>src/device/io\<close>, \<open>include/device/map.h\<close>) in a build
  with \<open>CONFIG_DEVICE\<close> and the default addresses and sizes of \<open>src/device/Kconfig\<close>. A pointer into the
  register space \<open>io_space\<close> is an offset; a callback is named by a datatype. What the host contributes, the
  bytes waiting in the input pipe, the clock and the image files, is part of the state.
\<close>

section \<open>State\<close>

datatype io_callback = Serial_io_handler | Rtc_io_handler | I8042_data_io_handler | Audio_io_handler
  | Disk_io_handler | Sdcard_io_handler | Clint_io_handler | Uartlite_io_handler

record iomap =
  io_name :: string
  io_low :: uint32
  io_high :: uint32
  io_at :: nat
  io_callback_of :: "io_callback option"

datatype alarm_handler = Timer_intr | Set_device_update_flag | Update_clint

text \<open>A ring of 1024 cells with the indices of its first and its next free cell.\<close>

record 'a ring =
  cells :: "'a list"
  front :: nat
  rear :: nat

text \<open>A stdio stream: the contents of the file and the position.\<close>

record fstream =
  f_bytes :: "uint8 list"
  f_pos :: nat

record sdcard =
  sd_base :: nat
  sd_fp :: "fstream option"
  blkcnt :: uint32
  blk_addr :: uint64
  sd_addr :: uint32
  write_cmd :: bool
  read_ext_csd :: bool

record devs =
  d_mach :: machine
  io_space :: "uint64 \<Rightarrow> uint8"
  p_space :: nat
  mmio_maps :: "iomap list"
  pio_maps :: "iomap list"
  alarms :: "alarm_handler list"
  device_update_flag :: bool
  host_us :: uint64
  boot_time :: uint64
  ser_base :: nat
  ser_queue :: "uint8 ring"
  ser_pipe :: "uint8 list"
  stderr_out :: "uint8 list"
  rtc_base :: nat
  kb_base :: nat
  keymap :: "uint32 list"
  key_queue :: "uint32 ring"
  vgactl_base :: nat
  vmem_base :: nat
  audio_base :: nat
  sbuf_base :: nat
  audio_tail :: int
  disk_base :: nat
  disk_fp :: "fstream option"
  sdc :: sdcard
  clint_base :: nat
  clint_boot :: uint64

type_synonym 'a dev = "(devs, 'a) m"

section \<open>The register space\<close>

definition IO_SPACE_MAX :: nat where "IO_SPACE_MAX = 2 * 1024 * 1024"

text \<open>Rounding to pages: \<open>(size + (PAGE_SIZE - 1)) & ~PAGE_MASK\<close> on a positive size.\<close>

definition page_round :: "nat \<Rightarrow> nat" where
  "page_round sz = (sz + 4095) div 4096 * 4096"

definition new_space :: "nat \<Rightarrow> nat dev" where
  "new_space sz d =
     (let p = p_space d; p' = p + page_round sz
      in if p' < IO_SPACE_MAX then Ret p (d\<lparr>p_space := p'\<rparr>) else Crash Assert_fail)"

definition io_read :: "nat \<Rightarrow> nat \<Rightarrow> uint64 dev" where
  "io_read a len =
     (if len = 1 \<or> len = 2 \<or> len = 4 \<or> len = 8
      then (if a + len \<le> IO_SPACE_MAX then gets (\<lambda>d. load_le (io_space d) (of_nat a) len) else die Host_fault)
      else die Assert_fail)"

definition io_write :: "nat \<Rightarrow> nat \<Rightarrow> uint64 \<Rightarrow> unit dev" where
  "io_write a len data =
     (if len = 1 \<or> len = 2 \<or> len = 4 \<or> len = 8
      then (if a + len \<le> IO_SPACE_MAX then modify (\<lambda>d. d\<lparr>io_space := store_le (io_space d) (of_nat a) len data\<rparr>)
            else die Host_fault)
      else die Assert_fail)"

text \<open>A device's own accesses to its registers: \<open>base[i]\<close> of an array of bytes, words or double words.\<close>

definition reg8 :: "nat \<Rightarrow> nat \<Rightarrow> devs \<Rightarrow> uint8" where
  "reg8 b i d = io_space d (of_nat (b + i))"

definition reg32 :: "nat \<Rightarrow> nat \<Rightarrow> devs \<Rightarrow> uint32" where
  "reg32 b i d = ucast (load_le (io_space d) (of_nat (b + 4 * i)) 4)"

definition reg64 :: "nat \<Rightarrow> nat \<Rightarrow> devs \<Rightarrow> uint64" where
  "reg64 b i d = load_le (io_space d) (of_nat (b + 8 * i)) 8"

definition set_reg8 :: "nat \<Rightarrow> nat \<Rightarrow> uint8 \<Rightarrow> devs \<Rightarrow> devs" where
  "set_reg8 b i v d = d\<lparr>io_space := (io_space d)(of_nat (b + i) := v)\<rparr>"

definition set_reg32 :: "nat \<Rightarrow> nat \<Rightarrow> uint32 \<Rightarrow> devs \<Rightarrow> devs" where
  "set_reg32 b i v d = d\<lparr>io_space := store_le (io_space d) (of_nat (b + 4 * i)) 4 (ucast v)\<rparr>"

definition set_reg64 :: "nat \<Rightarrow> nat \<Rightarrow> uint64 \<Rightarrow> devs \<Rightarrow> devs" where
  "set_reg64 b i v d = d\<lparr>io_space := store_le (io_space d) (of_nat (b + 8 * i)) 8 v\<rparr>"

section \<open>Maps\<close>

definition NR_MAP :: nat where "NR_MAP = 16"

definition add_mmio_map :: "string \<Rightarrow> uint32 \<Rightarrow> nat \<Rightarrow> uint32 \<Rightarrow> io_callback option \<Rightarrow> unit dev" where
  "add_mmio_map name addr space len callback =
     bnd (gets (\<lambda>d. length (mmio_maps d))) (\<lambda>nr_map.
     thn (assert_m (nr_map < NR_MAP))
         (modify (\<lambda>d. d\<lparr>mmio_maps := mmio_maps d @ [\<lparr>io_name = name, io_low = addr, io_high = addr + len - 1,
            io_at = space, io_callback_of = callback\<rparr>]\<rparr>)))"

definition PORT_IO_SPACE_MAX :: nat where "PORT_IO_SPACE_MAX = 65535"

definition add_pio_map :: "string \<Rightarrow> 16 word \<Rightarrow> nat \<Rightarrow> uint32 \<Rightarrow> io_callback option \<Rightarrow> unit dev" where
  "add_pio_map name addr space len callback =
     bnd (gets (\<lambda>d. length (pio_maps d))) (\<lambda>nr_map.
     thn (assert_m (nr_map < NR_MAP))
     (thn (assert_m (unat (ucast addr + len :: uint32) \<le> PORT_IO_SPACE_MAX))
         (modify (\<lambda>d. d\<lparr>pio_maps := pio_maps d @ [\<lparr>io_name = name, io_low = ucast addr, io_high = ucast addr + len - 1,
            io_at = space, io_callback_of = callback\<rparr>]\<rparr>))))"

definition map_inside :: "iomap \<Rightarrow> uint32 \<Rightarrow> bool" where
  "map_inside mp addr \<longleftrightarrow> addr \<ge> io_low mp \<and> addr \<le> io_high mp"

text \<open>The map of the first entry that contains the address. Telling a difftest partner to skip the access is
  left out.\<close>

primrec find_map :: "iomap list \<Rightarrow> uint32 \<Rightarrow> iomap option" where
  "find_map [] addr = None"
| "find_map (mp # mps) addr = (if map_inside mp addr then Some mp else find_map mps addr)"

section \<open>Rings\<close>

definition QUEUE_SIZE :: nat where "QUEUE_SIZE = 1024"

definition ring_empty :: "'a ring \<Rightarrow> bool" where
  "ring_empty q \<longleftrightarrow> front q = rear q"

section \<open>Host services\<close>

text \<open>The clock is \<open>host_us\<close>.\<close>

definition get_time :: "uint64 dev" where
  "get_time = thn (modify (\<lambda>d. if boot_time d = 0 then d\<lparr>boot_time := host_us d\<rparr> else d))
     (gets (\<lambda>d. host_us d - boot_time d))"

text \<open>\<open>fread\<close> and \<open>fwrite\<close> of \<open>n\<close> bytes at the position; a short read gives what is left, a write past the
  end leaves zeros between.\<close>

definition fseek :: "nat \<Rightarrow> fstream \<Rightarrow> fstream" where
  "fseek p f = f\<lparr>f_pos := p\<rparr>"

definition fread :: "nat \<Rightarrow> fstream \<Rightarrow> uint8 list \<times> fstream" where
  "fread n f = (let bs = take n (drop (f_pos f) (f_bytes f)) in (bs, f\<lparr>f_pos := f_pos f + length bs\<rparr>))"

definition fwrite :: "uint8 list \<Rightarrow> fstream \<Rightarrow> fstream" where
  "fwrite bs f = f\<lparr>f_bytes := take (f_pos f) (f_bytes f @ replicate (f_pos f - length (f_bytes f)) 0) @ bs @
       drop (f_pos f + length bs) (f_bytes f), f_pos := f_pos f + length bs\<rparr>"

text \<open>Copying bytes to and from consecutive addresses.\<close>

primrec put_bytes :: "(uint64 \<Rightarrow> uint8) \<Rightarrow> uint64 \<Rightarrow> uint8 list \<Rightarrow> uint64 \<Rightarrow> uint8" where
  "put_bytes h a [] = h"
| "put_bytes h a (b # bs) = put_bytes (h(a := b)) (a + 1) bs"

definition get_bytes :: "(uint64 \<Rightarrow> uint8) \<Rightarrow> uint64 \<Rightarrow> nat \<Rightarrow> uint8 list" where
  "get_bytes h a n = map (\<lambda>i. h (a + of_nat i)) [0..<n]"

end
