(* ===== verification/Devices.thy ===== *)
theory Devices
  imports Io
begin

text \<open>
  The devices (\<open>src/device\<close>): serial port with its input queue, real-time clock, keyboard, screen, audio,
  disk, SD card and the core-local timer of riscv64 (\<open>clint.c\<close>); their handlers, the bus accesses that call
  them, and their initialisation. SDL is outside: the scan codes are the parameter \<open>sc\<close>, the pending events
  and the length of an audio request are arguments, and the screen itself is left out.
\<close>

section \<open>Serial port\<close>

definition LSR_TX_READY :: uint8 where "LSR_TX_READY = 0x20"
definition LSR_RX_READY :: uint8 where "LSR_RX_READY = 0x01"

definition ring_put :: "'a \<Rightarrow> 'a ring \<Rightarrow> 'a ring" where
  "ring_put x q = q\<lparr>cells := (cells q)[rear q := x], rear := (rear q + 1) mod QUEUE_SIZE\<rparr>"

definition serial_enqueue :: "uint8 \<Rightarrow> uint8 ring \<Rightarrow> uint8 ring" where
  "serial_enqueue ch q = (if (rear q + 1) mod QUEUE_SIZE \<noteq> front q then ring_put ch q else q)"

definition serial_dequeue :: "uint8 ring \<Rightarrow> uint8 \<times> uint8 ring" where
  "serial_dequeue q =
     (if front q \<noteq> rear q then (cells q ! front q, q\<lparr>front := (front q + 1) mod QUEUE_SIZE\<rparr>) else (0xff, q))"

text \<open>One \<open>read\<close> of the pipe takes at most 256 bytes; 256 of them fail the assertion. The once-a-second log
  line is left out, but not its reading of the clock.\<close>

definition serial_rx_ready_flag :: "uint8 dev" where
  "serial_rx_ready_flag = bnd get_time (\<lambda>_.
     thn (bnd (gets (\<lambda>d. ring_empty (ser_queue d))) (\<lambda>empty.
       if empty
       then bnd (gets (\<lambda>d. take 256 (ser_pipe d))) (\<lambda>input.
         thn (assert_m (length input < 256))
             (modify (\<lambda>d. d\<lparr>ser_pipe := drop 256 (ser_pipe d), ser_queue := fold serial_enqueue input (ser_queue d)\<rparr>)))
       else skip))
     (gets (\<lambda>d. if ring_empty (ser_queue d) then 0 else LSR_RX_READY)))"

definition debian_cmd :: "uint8 list" where
  "debian_cmd = map of_char (''root'' @ [CHR 0x0A])"

definition preset_input :: "devs \<Rightarrow> devs" where
  "preset_input d = d\<lparr>ser_queue := fold serial_enqueue debian_cmd (ser_queue d)\<rparr>"

definition serial_io_handler :: "uint32 \<Rightarrow> nat \<Rightarrow> bool \<Rightarrow> unit dev" where
  "serial_io_handler offset len is_write = thn (assert_m (len = 1))
     (if offset = 0 then
        (if is_write then modify (\<lambda>d. d\<lparr>stderr_out := stderr_out d @ [reg8 (ser_base d) 0 d]\<rparr>)
         else modify (\<lambda>d. case serial_dequeue (ser_queue d) of (ch, q) \<Rightarrow> set_reg8 (ser_base d) 0 ch (d\<lparr>ser_queue := q\<rparr>)))
      else if offset = 5 \<and> \<not> is_write then
        bnd serial_rx_ready_flag (\<lambda>v. modify (\<lambda>d. set_reg8 (ser_base d) 5 (LSR_TX_READY OR v) d))
      else skip)"

definition init_serial :: "unit dev" where
  "init_serial = bnd (new_space 8) (\<lambda>b. seqs [
     modify (\<lambda>d. d\<lparr>ser_base := b\<rparr>),
     add_pio_map ''serial'' 0x3f8 b 8 (Some Serial_io_handler),
     add_mmio_map ''serial'' 0xa10003f8 b 8 (Some Serial_io_handler),
     modify preset_input])"

text \<open>The alternative \<open>uartlite.c\<close> keeps its base in \<open>ser_base\<close> too.\<close>

definition uartlite_io_handler :: "uint32 \<Rightarrow> nat \<Rightarrow> bool \<Rightarrow> unit dev" where
  "uartlite_io_handler offset len is_write = thn (assert_m (len = 1))
     (if offset = 4 then
        (if is_write then modify (\<lambda>d. d\<lparr>stderr_out := stderr_out d @ [reg8 (ser_base d) 4 d]\<rparr>) else die Assert_fail)
      else if offset = 8 \<and> \<not> is_write then modify (\<lambda>d. set_reg8 (ser_base d) 8 0 d)
      else skip)"

definition init_uartlite :: "unit dev" where
  "init_uartlite = bnd (new_space 0xd) (\<lambda>b. seqs [
     modify (\<lambda>d. d\<lparr>ser_base := b\<rparr>),
     add_pio_map ''uartlite'' 0x3f8 b 0xd (Some Uartlite_io_handler),
     add_mmio_map ''uartlite'' 0xa10003f8 b 0xd (Some Uartlite_io_handler)])"

section \<open>Alarm and real-time clock\<close>

definition MAX_HANDLER :: nat where "MAX_HANDLER = 8"

definition add_alarm_handle :: "alarm_handler \<Rightarrow> unit dev" where
  "add_alarm_handle h = bnd (gets (\<lambda>d. length (alarms d))) (\<lambda>idx.
     thn (assert_m (idx < MAX_HANDLER)) (modify (\<lambda>d. d\<lparr>alarms := alarms d @ [h]\<rparr>)))"

definition dev_raise_intr :: "devs \<Rightarrow> devs" where
  "dev_raise_intr d = d\<lparr>d_mach := (d_mach d)\<lparr>cpu := (cpu (d_mach d))\<lparr>INTR := True\<rparr>\<rparr>\<rparr>"

definition dev_running :: "devs \<Rightarrow> bool" where
  "dev_running d \<longleftrightarrow> nstate (nemu_state (d_mach d)) = NEMU_RUNNING"

definition timer_intr :: "devs \<Rightarrow> devs" where
  "timer_intr d = (if dev_running d then dev_raise_intr d else d)"

definition rtc_io_handler :: "uint32 \<Rightarrow> nat \<Rightarrow> bool \<Rightarrow> unit dev" where
  "rtc_io_handler offset len is_write = thn (assert_m (offset = 0 \<or> offset = 4))
     (if \<not> is_write \<and> offset = 4
      then bnd get_time (\<lambda>us. modify (\<lambda>d.
        set_reg32 (rtc_base d) 1 (ucast (drop_bit 32 us)) (set_reg32 (rtc_base d) 0 (ucast us) d)))
      else skip)"

definition init_timer :: "unit dev" where
  "init_timer = bnd (new_space 8) (\<lambda>b. seqs [
     modify (\<lambda>d. d\<lparr>rtc_base := b\<rparr>),
     add_pio_map ''rtc'' 0x48 b 8 (Some Rtc_io_handler),
     add_mmio_map ''rtc'' 0xa1000048 b 8 (Some Rtc_io_handler),
     add_alarm_handle Timer_intr])"

section \<open>Core-local timer\<close>

definition CLINT_MTIMECMP :: nat where "CLINT_MTIMECMP = 0x4000 div 8"
definition CLINT_MTIME :: nat where "CLINT_MTIME = 0xBFF8 div 8"
definition TIMEBASE :: uint64 where "TIMEBASE = 10000000"

definition set_mtip :: "bool \<Rightarrow> devs \<Rightarrow> devs" where
  "set_mtip b d = d\<lparr>d_mach := set_csr CSR_mip
     (set_fld (mip_f Mip_mtip) (if b then 1 else 0) (csr (d_mach d) CSR_mip)) (d_mach d)\<rparr>"

definition update_clint :: "unit dev" where
  "update_clint = bnd get_time (\<lambda>t.
     thn (modify (\<lambda>d. set_reg64 (clint_base d) CLINT_MTIME (TIMEBASE * (t - clint_boot d) div 1000000) d))
         (modify (\<lambda>d. set_mtip (reg64 (clint_base d) CLINT_MTIME d \<ge> reg64 (clint_base d) CLINT_MTIMECMP d) d)))"

definition clint_uptime :: "uint64 dev" where
  "clint_uptime = thn update_clint (gets (\<lambda>d. reg64 (clint_base d) CLINT_MTIME d))"

definition clint_io_handler :: "uint32 \<Rightarrow> nat \<Rightarrow> bool \<Rightarrow> unit dev" where
  "clint_io_handler offset len is_write = update_clint"

definition init_clint :: "unit dev" where
  "init_clint = bnd (new_space 0x10000) (\<lambda>b. seqs [
     modify (\<lambda>d. d\<lparr>clint_base := b\<rparr>),
     add_mmio_map ''clint'' 0x38000000 b 0x10000 (Some Clint_io_handler),
     add_alarm_handle Update_clint,
     bnd get_time (\<lambda>t. modify (\<lambda>d. d\<lparr>clint_boot := t\<rparr>))])"

section \<open>Keyboard\<close>

text \<open>\<open>_KEYS\<close>: the key named at index \<open>i\<close> has code \<open>i + 1\<close>; code 0 is no key.\<close>

definition key_names :: "string list" where
  "key_names = [
     ''ESCAPE'', ''F1'', ''F2'', ''F3'', ''F4'', ''F5'', ''F6'', ''F7'', ''F8'', ''F9'', ''F10'', ''F11'', ''F12'',
     ''GRAVE'', ''1'', ''2'', ''3'', ''4'', ''5'', ''6'', ''7'', ''8'', ''9'', ''0'', ''MINUS'', ''EQUALS'', ''BACKSPACE'',
     ''TAB'', ''Q'', ''W'', ''E'', ''R'', ''T'', ''Y'', ''U'', ''I'', ''O'', ''P'', ''LEFTBRACKET'', ''RIGHTBRACKET'', ''BACKSLASH'',
     ''CAPSLOCK'', ''A'', ''S'', ''D'', ''F'', ''G'', ''H'', ''J'', ''K'', ''L'', ''SEMICOLON'', ''APOSTROPHE'', ''RETURN'',
     ''LSHIFT'', ''Z'', ''X'', ''C'', ''V'', ''B'', ''N'', ''M'', ''COMMA'', ''PERIOD'', ''SLASH'', ''RSHIFT'',
     ''LCTRL'', ''APPLICATION'', ''LALT'', ''SPACE'', ''RALT'', ''RCTRL'',
     ''UP'', ''DOWN'', ''LEFT'', ''RIGHT'', ''INSERT'', ''DELETE'', ''HOME'', ''END'', ''PAGEUP'', ''PAGEDOWN'']"

primrec map_keys :: "(string \<Rightarrow> uint8) \<Rightarrow> nat \<Rightarrow> string list \<Rightarrow> uint32 list \<Rightarrow> uint32 list" where
  "map_keys sc i [] km = km"
| "map_keys sc i (k # ks) km = map_keys sc (i + 1) ks (km[unat (sc k) := of_nat i])"

definition init_keymap :: "(string \<Rightarrow> uint8) \<Rightarrow> devs \<Rightarrow> devs" where
  "init_keymap sc d = d\<lparr>keymap := map_keys sc 1 key_names (keymap d)\<rparr>"

definition KEYDOWN_MASK :: uint32 where "KEYDOWN_MASK = 0x8000"

definition send_key :: "uint8 \<Rightarrow> bool \<Rightarrow> unit dev" where
  "send_key scancode is_keydown d =
     (let k = keymap d ! unat scancode in
      if dev_running d \<and> k \<noteq> 0
      then let q = ring_put (k OR (if is_keydown then KEYDOWN_MASK else 0)) (key_queue d)
           in if rear q \<noteq> front q then Ret () (d\<lparr>key_queue := q\<rparr>) else Crash Assert_fail
      else Ret () d)"

definition i8042_data_io_handler :: "uint32 \<Rightarrow> nat \<Rightarrow> bool \<Rightarrow> unit dev" where
  "i8042_data_io_handler offset len is_write = seqs [
     assert_m (\<not> is_write),
     assert_m (offset = 0),
     modify (\<lambda>d. let q = key_queue d in
       if front q \<noteq> rear q
       then set_reg32 (kb_base d) 0 (cells q ! front q) (d\<lparr>key_queue := q\<lparr>front := (front q + 1) mod QUEUE_SIZE\<rparr>\<rparr>)
       else set_reg32 (kb_base d) 0 0 d)]"

definition init_i8042 :: "(string \<Rightarrow> uint8) \<Rightarrow> unit dev" where
  "init_i8042 sc = bnd (new_space 4) (\<lambda>b. seqs [
     modify (\<lambda>d. d\<lparr>kb_base := b\<rparr>),
     modify (\<lambda>d. set_reg32 b 0 0 d),
     add_pio_map ''keyboard'' 0x60 b 4 (Some I8042_data_io_handler),
     add_mmio_map ''keyboard'' 0xa1000060 b 4 (Some I8042_data_io_handler),
     modify (init_keymap sc)])"

section \<open>Screen\<close>

definition SCREEN_W :: nat where "SCREEN_W = 400"
definition SCREEN_H :: nat where "SCREEN_H = 300"
definition SCREEN_SIZE :: nat where "SCREEN_SIZE = SCREEN_H * SCREEN_W * 4"

definition vga_update_screen :: "devs \<Rightarrow> devs" where
  "vga_update_screen d = (if reg32 (vgactl_base d) 1 d \<noteq> 0 then set_reg32 (vgactl_base d) 1 0 d else d)"

definition init_vga :: "unit dev" where
  "init_vga = bnd (new_space 8) (\<lambda>b. seqs [
     modify (\<lambda>d. d\<lparr>vgactl_base := b\<rparr>),
     modify (\<lambda>d. set_reg32 b 0 (push_bit 16 (of_nat SCREEN_W) OR of_nat SCREEN_H) d),
     add_pio_map ''screen'' 0x100 b 8 None,
     add_mmio_map ''screen'' 0xa1000100 b 8 None,
     bnd (new_space SCREEN_SIZE) (\<lambda>v. seqs [
       modify (\<lambda>d. d\<lparr>vmem_base := v\<rparr>),
       add_mmio_map ''vmem'' 0xa0000000 v (of_nat SCREEN_SIZE) None])])"

section \<open>Audio\<close>

definition SB_SIZE :: nat where "SB_SIZE = 0x10000"

definition reg_sbuf_size :: nat where "reg_sbuf_size = 3"
definition reg_init :: nat where "reg_init = 4"
definition reg_count :: nat where "reg_count = 5"

text \<open>The callback that fills \<open>len\<close> bytes of the host's stream; the result is what it leaves there. A
  negative number of bytes is a huge one for \<open>memcpy\<close>.\<close>

definition audio_play :: "nat \<Rightarrow> uint8 list dev" where
  "audio_play len d =
     (let count = sint (reg32 (audio_base d) reg_count d);
          nread = (if count < int len then count else int len);
          at = (\<lambda>i. of_nat (sbuf_base d) + of_int i);
          copied = (if nread + audio_tail d < int SB_SIZE
                    then (get_bytes (io_space d) (at (audio_tail d)) (nat nread), audio_tail d + nread)
                    else let first = int SB_SIZE - audio_tail d
                         in (get_bytes (io_space d) (at (audio_tail d)) (nat first) @
                             get_bytes (io_space d) (at 0) (nat (nread - first)), nread - first))
      in if nread < 0 then Crash Host_fault
         else Ret (fst copied @ replicate (len - nat nread) 0)
           (set_reg32 (audio_base d) reg_count (reg32 (audio_base d) reg_count d - of_int nread) (d\<lparr>audio_tail := snd copied\<rparr>)))"

definition audio_io_handler :: "uint32 \<Rightarrow> nat \<Rightarrow> bool \<Rightarrow> unit dev" where
  "audio_io_handler offset len is_write =
     (if offset = of_nat (reg_init * 4) \<and> len = 4 \<and> is_write
      then modify (\<lambda>d. set_reg32 (audio_base d) reg_count 0 (d\<lparr>audio_tail := 0\<rparr>))
      else skip)"

definition init_audio :: "unit dev" where
  "init_audio = bnd (new_space 24) (\<lambda>b. seqs [
     modify (\<lambda>d. d\<lparr>audio_base := b\<rparr>),
     add_pio_map ''audio'' 0x200 b 24 (Some Audio_io_handler),
     add_mmio_map ''audio'' 0xa1000200 b 24 (Some Audio_io_handler),
     modify (\<lambda>d. set_reg32 b reg_sbuf_size (of_nat SB_SIZE) d),
     bnd (new_space SB_SIZE) (\<lambda>s. seqs [
       modify (\<lambda>d. d\<lparr>sbuf_base := s\<rparr>),
       add_mmio_map ''audio-sbuf'' 0xa0800000 s (of_nat SB_SIZE) None])])"

end
