(* ===== verification/Bus.thy ===== *)
theory Bus
  imports Devices
begin

text \<open>
  The two block devices (\<open>src/device/disk.c\<close>, \<open>src/device/sdcard.c\<close>), the bus accesses that go through
  the maps to the handlers (\<open>src/device/io\<close>, the \<open>!CONFIG_SHARE\<close> branch of \<open>src/memory/paddr.c\<close>), the
  events of the host, and the initialisation of all devices.
\<close>

section \<open>Disk\<close>

definition disk_CMD :: nat where "disk_CMD = 1"
definition disk_BUF :: nat where "disk_BUF = 2"
definition disk_START :: nat where "disk_START = 3"
definition disk_COUNT :: nat where "disk_COUNT = 4"

text \<open>The sectors go straight to guest memory. The sector number times 512 is a 32-bit product, the byte
  count a 64-bit one; a short read and a read of nothing fail the assertion; a stream that could not be
  opened is null.\<close>

definition disk_io_handler :: "uint32 \<Rightarrow> nat \<Rightarrow> bool \<Rightarrow> unit dev" where
  "disk_io_handler offset len is_write d =
     (if offset = of_nat (disk_CMD * 4) \<and> len = 4 \<and> is_write then
        let b = disk_base d; n = unat (reg32 b disk_COUNT d) * 512
        in if reg32 b disk_CMD d \<noteq> 0 then Crash Assert_fail
        else case disk_fp d of
          None \<Rightarrow> Crash Host_fault
        | Some f \<Rightarrow>
            (case fread n (fseek (unat (reg32 b disk_START d * 512)) f) of (bs, f') \<Rightarrow>
              if n = 0 \<or> length bs < n then Crash Assert_fail
              else let a = guest_to_host (reg32 b disk_BUF d) in
                if host_mapped a n
                then Ret () (d\<lparr>disk_fp := Some f', d_mach := (d_mach d)\<lparr>pmem := put_bytes (pmem (d_mach d)) a bs\<rparr>\<rparr>)
                else Crash Host_fault)
      else Ret () d)"

definition init_disk :: "uint8 list option \<Rightarrow> unit dev" where
  "init_disk file = bnd (new_space 20) (\<lambda>b. seqs [
     modify (\<lambda>d. d\<lparr>disk_base := b\<rparr>),
     add_pio_map ''disk'' 0x300 b 20 (Some Disk_io_handler),
     add_mmio_map ''disk'' 0xa1000300 b 20 (Some Disk_io_handler),
     modify (\<lambda>d. case file of
       Some bs \<Rightarrow> set_reg32 b 0 (of_nat (length bs div 512 + 1)) (d\<lparr>disk_fp := Some \<lparr>f_bytes = bs, f_pos = 0\<rparr>\<rparr>)
     | None \<Rightarrow> set_reg32 b 0 0 (d\<lparr>disk_fp := None\<rparr>))])"

section \<open>SD card\<close>

definition MEMORY_SIZE :: nat where "MEMORY_SIZE = 16 * 1024 * 1024 * 1024"
definition READ_BL_LEN :: nat where "READ_BL_LEN = 15"
definition BLOCK_LEN :: nat where "BLOCK_LEN = 2 ^ READ_BL_LEN"
definition NR_BLOCK :: nat where "NR_BLOCK = MEMORY_SIZE div BLOCK_LEN"
definition C_SIZE_MULT :: nat where "C_SIZE_MULT = 7"
definition MULT :: nat where "MULT = 2 ^ (C_SIZE_MULT + 2)"
definition C_SIZE :: nat where "C_SIZE = NR_BLOCK div MULT - 1"

definition SDCMD :: nat where "SDCMD = 0"
definition SDARG :: nat where "SDARG = 1"
definition SDRSP0 :: nat where "SDRSP0 = 4"
definition SDRSP1 :: nat where "SDRSP1 = 5"
definition SDRSP2 :: nat where "SDRSP2 = 6"
definition SDRSP3 :: nat where "SDRSP3 = 7"
definition SDDATA :: nat where "SDDATA = 16"

lemmas sd_regs = SDCMD_def SDARG_def SDRSP0_def SDRSP1_def SDRSP2_def SDRSP3_def SDDATA_def

definition sd_get :: "nat \<Rightarrow> devs \<Rightarrow> uint32" where
  "sd_get i d = reg32 (sd_base (sdc d)) i d"

definition sd_set :: "nat \<Rightarrow> uint32 \<Rightarrow> devs \<Rightarrow> devs" where
  "sd_set i v d = set_reg32 (sd_base (sdc d)) i v d"

definition upd_sd :: "(sdcard \<Rightarrow> sdcard) \<Rightarrow> devs \<Rightarrow> devs" where
  "upd_sd f d = d\<lparr>sdc := f (sdc d)\<rparr>"

definition prepare_rw :: "bool \<Rightarrow> devs \<Rightarrow> devs" where
  "prepare_rw is_write d =
     (let a = ucast (sd_get SDARG d) :: uint64
      in upd_sd (\<lambda>s. s\<lparr>blk_addr := a, sd_addr := 0, sd_fp := map_option (fseek (unat (push_bit 9 a))) (sd_fp s),
           write_cmd := is_write\<rparr>) d)"

definition sdcard_handle_cmd :: "uint32 \<Rightarrow> unit dev" where
  "sdcard_handle_cmd cmd =
     (if cmd = 0 then skip
      else if cmd = 1 then modify (sd_set SDRSP0 0x80ff8000)
      else if cmd = 2 then modify (sd_set SDRSP3 0x15000000 \<circ> sd_set SDRSP2 0 \<circ> sd_set SDRSP1 0 \<circ> sd_set SDRSP0 1)
      else if cmd = 52 then skip
      else if cmd = 9 then modify (sd_set SDRSP3 0x9026012a \<circ>
          sd_set SDRSP2 (0x0f508000 OR of_nat (C_SIZE div 4) OR of_nat (READ_BL_LEN * 2 ^ 16)) \<circ>
          sd_set SDRSP1 (0x124b97e3 OR of_nat (C_SIZE mod 4 * 2 ^ 30)) \<circ> sd_set SDRSP0 0x92404001)
      else if cmd = 8 then modify (upd_sd (\<lambda>s. s\<lparr>read_ext_csd := True, sd_addr := 0\<rparr>))
      else if cmd \<in> {5, 55, 3, 7} then skip
      else if cmd = 23 then modify (\<lambda>d. upd_sd (\<lambda>s. s\<lparr>blkcnt := sd_get SDARG d AND 0xffff\<rparr>) d)
      else if cmd = 18 then modify (prepare_rw False)
      else if cmd = 25 then modify (prepare_rw True)
      else if cmd = 13 then modify (sd_set SDRSP0 0 \<circ> sd_set SDRSP1 0 \<circ> sd_set SDRSP2 0 \<circ> sd_set SDRSP3 0)
      else if cmd = 12 then skip
      else die Assert_fail)"

text \<open>The four bytes of a word in memory order.\<close>

definition bytes4 :: "uint32 \<Rightarrow> uint8 list" where
  "bytes4 w = map (\<lambda>i. ucast (drop_bit (8 * i) w)) [0..<4]"

definition ext_csd_word :: "uint32 \<Rightarrow> uint32" where
  "ext_csd_word a = (if a = 192 then 2 else if a = 212 then of_nat (MEMORY_SIZE div 512) else 0)"

definition sd_data_transfer :: "devs \<Rightarrow> devs" where
  "sd_data_transfer d =
     (let s = sdc d in
      if read_ext_csd s then
        upd_sd (\<lambda>s. if sd_addr s = 512 - 4 then s\<lparr>read_ext_csd := False\<rparr> else s) (sd_set SDDATA (ext_csd_word (sd_addr s)) d)
      else case sd_fp s of
        None \<Rightarrow> d
      | Some f \<Rightarrow>
          if \<not> write_cmd s
          then (case fread 4 f of (bs, f') \<Rightarrow>
            upd_sd (\<lambda>s. s\<lparr>sd_fp := Some f'\<rparr>)
              (d\<lparr>io_space := put_bytes (io_space d) (of_nat (sd_base s + 4 * SDDATA)) bs\<rparr>))
          else upd_sd (\<lambda>s. s\<lparr>sd_fp := Some (fwrite (bytes4 (sd_get SDDATA d)) f)\<rparr>) d)"

definition sdcard_io_handler :: "uint32 \<Rightarrow> nat \<Rightarrow> bool \<Rightarrow> unit dev" where
  "sdcard_io_handler offset len is_write =
     (let idx = unat (offset div 4) in
      if idx = SDCMD then bnd (gets (sd_get SDCMD)) (\<lambda>c. sdcard_handle_cmd (c AND 0x3f))
      else if idx \<in> {SDARG, SDRSP0, SDRSP1, SDRSP2, SDRSP3} then skip
      else if idx = SDDATA then modify (upd_sd (\<lambda>s. s\<lparr>sd_addr := sd_addr s + 4\<rparr>) \<circ> sd_data_transfer)
      else die Assert_fail)"

definition init_sdcard :: "uint8 list option \<Rightarrow> unit dev" where
  "init_sdcard file = bnd (new_space 0x80) (\<lambda>b. seqs [
     modify (upd_sd (\<lambda>s. s\<lparr>sd_base := b\<rparr>)),
     add_mmio_map ''sdhci'' 0xa3000000 b 0x80 (Some Sdcard_io_handler),
     assert_m (C_SIZE < 2 ^ 12),
     modify (upd_sd (\<lambda>s. s\<lparr>sd_fp := map_option (\<lambda>bs. \<lparr>f_bytes = bs, f_pos = 0\<rparr>) file\<rparr>))])"

section \<open>Accesses through the maps\<close>

definition handler_of :: "io_callback \<Rightarrow> uint32 \<Rightarrow> nat \<Rightarrow> bool \<Rightarrow> unit dev" where
  "handler_of c = (case c of
     Serial_io_handler \<Rightarrow> serial_io_handler
   | Rtc_io_handler \<Rightarrow> rtc_io_handler
   | I8042_data_io_handler \<Rightarrow> i8042_data_io_handler
   | Audio_io_handler \<Rightarrow> audio_io_handler
   | Disk_io_handler \<Rightarrow> disk_io_handler
   | Sdcard_io_handler \<Rightarrow> sdcard_io_handler
   | Clint_io_handler \<Rightarrow> clint_io_handler
   | Uartlite_io_handler \<Rightarrow> uartlite_io_handler)"

definition invoke_callback :: "io_callback option \<Rightarrow> uint32 \<Rightarrow> nat \<Rightarrow> bool \<Rightarrow> unit dev" where
  "invoke_callback c offset len is_write = (case c of None \<Rightarrow> skip | Some f \<Rightarrow> handler_of f offset len is_write)"

text \<open>The check of the bounds tests the first byte only; \<open>None\<close> is the null map.\<close>

definition check_bound :: "iomap option \<Rightarrow> uint32 \<Rightarrow> unit dev" where
  "check_bound mp addr = (case mp of None \<Rightarrow> die Assert_fail | Some mp \<Rightarrow> assert_m (map_inside mp addr))"

definition map_read :: "uint32 \<Rightarrow> nat \<Rightarrow> iomap option \<Rightarrow> uint64 dev" where
  "map_read addr len m = thn (assert_m (len \<ge> 1 \<and> len \<le> 8)) (thn (check_bound m addr)
     (let mp = the m; offset = addr - io_low mp
      in thn (invoke_callback (io_callback_of mp) offset len False) (io_read (io_at mp + unat offset) len)))"

definition map_write :: "uint32 \<Rightarrow> nat \<Rightarrow> uint64 \<Rightarrow> iomap option \<Rightarrow> unit dev" where
  "map_write addr len data m = thn (assert_m (len \<ge> 1 \<and> len \<le> 8)) (thn (check_bound m addr)
     (let mp = the m; offset = addr - io_low mp
      in thn (io_write (io_at mp + unat offset) len data) (invoke_callback (io_callback_of mp) offset len True)))"

definition mmio_read :: "uint32 \<Rightarrow> nat \<Rightarrow> uint64 dev" where
  "mmio_read addr len = bnd (gets (\<lambda>d. find_map (mmio_maps d) addr)) (map_read addr len)"

definition mmio_write :: "uint32 \<Rightarrow> nat \<Rightarrow> uint64 \<Rightarrow> unit dev" where
  "mmio_write addr len data = bnd (gets (\<lambda>d. find_map (mmio_maps d) addr)) (map_write addr len data)"

definition pio_read :: "16 word \<Rightarrow> nat \<Rightarrow> uint32 dev" where
  "pio_read addr len = thn (assert_m (unat addr + len < PORT_IO_SPACE_MAX + 1))
     (bnd (gets (\<lambda>d. find_map (pio_maps d) (ucast addr))) (\<lambda>m. case m of
       None \<Rightarrow> ret 0xffffffff
     | Some mp \<Rightarrow> bnd (map_read (ucast addr) len m) (\<lambda>v. ret (ucast v))))"

definition pio_write :: "16 word \<Rightarrow> nat \<Rightarrow> uint32 \<Rightarrow> unit dev" where
  "pio_write addr len data = thn (assert_m (unat addr + len < PORT_IO_SPACE_MAX + 1))
     (bnd (gets (\<lambda>d. find_map (pio_maps d) (ucast addr))) (\<lambda>m. case m of
       None \<Rightarrow> skip
     | Some mp \<Rightarrow> map_write (ucast addr) len (ucast data) m))"

text \<open>Running an operation of the machine inside the devices.\<close>

definition on_mach :: "'a nemu \<Rightarrow> 'a dev" where
  "on_mach f d = (case f (d_mach d) of Ret x s \<Rightarrow> Ret x (d\<lparr>d_mach := s\<rparr>) | LongJmp c s \<Rightarrow> LongJmp c (d\<lparr>d_mach := s\<rparr>)
     | Crash c \<Rightarrow> Crash c)"

definition dev_paddr_read :: "uint32 \<Rightarrow> nat \<Rightarrow> uint64 dev" where
  "dev_paddr_read addr len = (if in_pmem addr then on_mach (pmem_read addr len) else mmio_read addr len)"

definition dev_paddr_write :: "uint32 \<Rightarrow> nat \<Rightarrow> uint64 \<Rightarrow> unit dev" where
  "dev_paddr_write addr len data = (if in_pmem addr then on_mach (pmem_write addr len data) else mmio_write addr len data)"

section \<open>Events and initialisation\<close>

datatype sdl_event = SDL_QUIT | SDL_KEYDOWN uint8 | SDL_KEYUP uint8 | SDL_other

definition handle_event :: "sdl_event \<Rightarrow> unit dev" where
  "handle_event e = (case e of
     SDL_QUIT \<Rightarrow> modify (\<lambda>d. d\<lparr>d_mach := set_nstate NEMU_QUIT (d_mach d)\<rparr>)
   | SDL_KEYDOWN k \<Rightarrow> send_key k True
   | SDL_KEYUP k \<Rightarrow> send_key k False
   | SDL_other \<Rightarrow> skip)"

definition device_update :: "sdl_event list \<Rightarrow> unit dev" where
  "device_update events = bnd (gets device_update_flag) (\<lambda>b.
     if \<not> b then skip
     else thn (modify (\<lambda>d. vga_update_screen (d\<lparr>device_update_flag := False\<rparr>))) (seqs (map handle_event events)))"

definition run_alarm :: "alarm_handler \<Rightarrow> unit dev" where
  "run_alarm h = (case h of
     Timer_intr \<Rightarrow> modify timer_intr
   | Set_device_update_flag \<Rightarrow> modify (\<lambda>d. d\<lparr>device_update_flag := True\<rparr>)
   | Update_clint \<Rightarrow> update_clint)"

definition alarm_sig_handler :: "unit dev" where
  "alarm_sig_handler = bnd (gets alarms) (\<lambda>hs. seqs (map run_alarm hs))"

definition init_device :: "(string \<Rightarrow> uint8) \<Rightarrow> uint8 list option \<Rightarrow> uint8 list option \<Rightarrow> unit dev" where
  "init_device sc disk_img sd_img = seqs [init_serial, init_timer, init_vga, init_i8042 sc, init_audio,
     init_disk disk_img, init_sdcard sd_img, add_alarm_handle Set_device_update_flag]"

text \<open>The order of \<open>init_monitor\<close>: the timer comes with the machine, the others after the image is loaded.\<close>

definition init_platform :: "(string \<Rightarrow> uint8) \<Rightarrow> uint8 list option \<Rightarrow> uint8 list option \<Rightarrow> unit dev" where
  "init_platform sc disk_img sd_img = thn init_clint (init_device sc disk_img sd_img)"

definition static_devs :: devs where
  "static_devs = \<lparr>d_mach = static_machine, io_space = (\<lambda>_. 0), p_space = 0, mmio_maps = [], pio_maps = [], alarms = [],
     device_update_flag = False, host_us = 0, boot_time = 0, ser_base = 0,
     ser_queue = \<lparr>cells = replicate QUEUE_SIZE 0, front = 0, rear = 0\<rparr>, ser_pipe = [], stderr_out = [], rtc_base = 0,
     kb_base = 0, keymap = replicate 256 0, key_queue = \<lparr>cells = replicate QUEUE_SIZE 0, front = 0, rear = 0\<rparr>,
     vgactl_base = 0, vmem_base = 0, audio_base = 0, sbuf_base = 0, audio_tail = 0, disk_base = 0, disk_fp = None,
     sdc = \<lparr>sd_base = 0, sd_fp = None, blkcnt = 0, blk_addr = 0, sd_addr = 0, write_cmd = False, read_ext_csd = False\<rparr>,
     clint_base = 0, clint_boot = 0\<rparr>"

end
