(* ===== verification/DevProps.thy ===== *)
theory DevProps
  imports Bus
begin

text \<open>
  Properties of the devices: the memory map that initialisation builds, the input rings as queues, and the
  behaviour of the devices seen through bus accesses.
\<close>

section \<open>The memory map\<close>

lemma page_round_simps [simp]:
  "page_round 8 = 4096" "page_round 4 = 4096" "page_round SCREEN_SIZE = 483328" "page_round 24 = 4096" "page_round SB_SIZE = 65536"
  "page_round 20 = 4096" "page_round 0x80 = 4096" "page_round 0x10000 = 65536"
  by (simp_all add: page_round_def SCREEN_SIZE_def SCREEN_W_def SCREEN_H_def SB_SIZE_def)

text \<open>The maps in the order of their registration: name, first and last address, offset in the register
  space, handler.\<close>

definition device_maps :: "iomap list" where
  "device_maps = [
     \<lparr>io_name = ''clint'', io_low = 0x38000000, io_high = 0x3800ffff, io_at = 0, io_callback_of = Some Clint_io_handler\<rparr>,
     \<lparr>io_name = ''serial'', io_low = 0xa10003f8, io_high = 0xa10003ff, io_at = 65536, io_callback_of = Some Serial_io_handler\<rparr>,
     \<lparr>io_name = ''rtc'', io_low = 0xa1000048, io_high = 0xa100004f, io_at = 69632, io_callback_of = Some Rtc_io_handler\<rparr>,
     \<lparr>io_name = ''screen'', io_low = 0xa1000100, io_high = 0xa1000107, io_at = 73728, io_callback_of = None\<rparr>,
     \<lparr>io_name = ''vmem'', io_low = 0xa0000000, io_high = 0xa00752ff, io_at = 77824, io_callback_of = None\<rparr>,
     \<lparr>io_name = ''keyboard'', io_low = 0xa1000060, io_high = 0xa1000063, io_at = 561152, io_callback_of = Some I8042_data_io_handler\<rparr>,
     \<lparr>io_name = ''audio'', io_low = 0xa1000200, io_high = 0xa1000217, io_at = 565248, io_callback_of = Some Audio_io_handler\<rparr>,
     \<lparr>io_name = ''audio-sbuf'', io_low = 0xa0800000, io_high = 0xa080ffff, io_at = 569344, io_callback_of = None\<rparr>,
     \<lparr>io_name = ''disk'', io_low = 0xa1000300, io_high = 0xa1000313, io_at = 634880, io_callback_of = Some Disk_io_handler\<rparr>,
     \<lparr>io_name = ''sdhci'', io_low = 0xa3000000, io_high = 0xa300007f, io_at = 638976, io_callback_of = Some Sdcard_io_handler\<rparr>]"

lemma sets_frame [simp]:
  "mmio_maps (set_reg32 b i v d) = mmio_maps d" "pio_maps (set_reg32 b i v d) = pio_maps d" "alarms (set_reg32 b i v d) = alarms d"
  "p_space (set_reg32 b i v d) = p_space d" "sdc (set_reg32 b i v d) = sdc d" "kb_base (set_reg32 b i v d) = kb_base d"
  "key_queue (set_reg32 b i v d) = key_queue d" "keymap (set_reg32 b i v d) = keymap d" "ser_queue (set_reg32 b i v d) = ser_queue d"
  "ser_base (set_reg32 b i v d) = ser_base d" "d_mach (set_reg32 b i v d) = d_mach d" "ser_pipe (set_reg32 b i v d) = ser_pipe d"
  "boot_time (set_reg32 b i v d) = boot_time d" "host_us (set_reg32 b i v d) = host_us d"
  by (simp_all add: set_reg32_def)

lemma device_init_frame [simp]:
  "mmio_maps (init_keymap sc d) = mmio_maps d" "pio_maps (init_keymap sc d) = pio_maps d" "alarms (init_keymap sc d) = alarms d"
  "p_space (init_keymap sc d) = p_space d" "sdc (init_keymap sc d) = sdc d" "kb_base (init_keymap sc d) = kb_base d"
  "mmio_maps (preset_input d) = mmio_maps d" "pio_maps (preset_input d) = pio_maps d" "alarms (preset_input d) = alarms d"
  "p_space (preset_input d) = p_space d" "sdc (preset_input d) = sdc d" "kb_base (preset_input d) = kb_base d"
  "mmio_maps (upd_sd f d) = mmio_maps d" "pio_maps (upd_sd f d) = pio_maps d" "alarms (upd_sd f d) = alarms d"
  "p_space (upd_sd f d) = p_space d" "sdc (upd_sd f d) = f (sdc d)"  "kb_base (upd_sd f d) = kb_base d"
  by (simp_all add: init_keymap_def preset_input_def upd_sd_def)

text \<open>What registering a device does when the tables and the space have room.\<close>

lemma new_space_ok: "p_space d + page_round n < 2097152 \<Longrightarrow> new_space n d = Ret (p_space d) (d\<lparr>p_space := p_space d + page_round n\<rparr>)"
  by (simp add: new_space_def IO_SPACE_MAX_def Let_def)

lemma add_mmio_ok: "length (mmio_maps d) < 16 \<Longrightarrow> add_mmio_map nm a b n c d = Ret () (d\<lparr>mmio_maps := mmio_maps d @
    [\<lparr>io_name = nm, io_low = a, io_high = a + n - 1, io_at = b, io_callback_of = c\<rparr>]\<rparr>)"
  by (simp add: add_mmio_map_def m_simps NR_MAP_def)

lemma add_pio_ok: "length (pio_maps d) < 16 \<Longrightarrow> unat (ucast a + n :: uint32) \<le> 65535 \<Longrightarrow>
   add_pio_map nm a b n c d = Ret () (d\<lparr>pio_maps := pio_maps d @
    [\<lparr>io_name = nm, io_low = ucast a, io_high = ucast a + n - 1, io_at = b, io_callback_of = c\<rparr>]\<rparr>)"
  by (simp add: add_pio_map_def m_simps NR_MAP_def PORT_IO_SPACE_MAX_def)

lemma add_alarm_ok: "length (alarms d) < 8 \<Longrightarrow> add_alarm_handle h d = Ret () (d\<lparr>alarms := alarms d @ [h]\<rparr>)"
  by (simp add: add_alarm_handle_def m_simps MAX_HANDLER_def)

lemmas register_ok = new_space_ok add_mmio_ok add_pio_ok add_alarm_ok

definition timers :: "iomap list \<Rightarrow> nat" where
  "timers mps = length (filter (\<lambda>mp. io_callback_of mp = Some Clint_io_handler \<or> io_callback_of mp = Some Rtc_io_handler) mps)"

lemma timers_append: "timers (xs @ ys) = timers xs + timers ys"
  by (simp add: timers_def)

lemma timers_take: "timers (take j xs) \<le> timers xs"
  by (metis append_take_drop_id le_add1 timers_append)

definition grows :: "devs \<Rightarrow> nat \<Rightarrow> iomap list \<Rightarrow> devs \<Rightarrow> bool" where
  "grows d n mps d' \<longleftrightarrow> p_space d' = p_space d + n \<and> mmio_maps d' = mmio_maps d @ mps \<and>
     length (pio_maps d') \<le> length (pio_maps d) + 1 \<and> length (alarms d') \<le> length (alarms d) + timers mps \<and> d_mach d' = d_mach d"

definition room :: "devs \<Rightarrow> bool" where
  "room d \<longleftrightarrow> length (mmio_maps d) < 15 \<and> length (pio_maps d) < 16 \<and> length (alarms d) < 8 \<and> p_space d < 1000000"

text \<open>The fields that the other devices leave alone.\<close>

definition inputs :: "devs \<Rightarrow> uint8 ring \<times> nat \<times> uint32 ring \<times> uint32 list \<times> nat \<times> sdcard" where
  "inputs d = (ser_queue d, ser_base d, key_queue d, keymap d, kb_base d, sdc d)"

lemmas init_simps = m_simps register_ok room_def grows_def inputs_def timers_def

lemma init_clint_ok: "room d \<Longrightarrow> \<exists>d'. init_clint d = Ret () d' \<and>
    grows d 65536 [\<lparr>io_name = ''clint'', io_low = 0x38000000, io_high = 0x3800ffff, io_at = p_space d, io_callback_of = Some Clint_io_handler\<rparr>] d' \<and>
    inputs d' = inputs d \<and> clint_base d' = p_space d"
  by (simp add: init_clint_def init_simps get_time_def)

lemma init_serial_ok: "room d \<Longrightarrow> \<exists>d'. init_serial d = Ret () d' \<and>
    grows d 4096 [\<lparr>io_name = ''serial'', io_low = 0xa10003f8, io_high = 0xa10003ff, io_at = p_space d, io_callback_of = Some Serial_io_handler\<rparr>] d' \<and>
    inputs d' = (fold serial_enqueue debian_cmd (ser_queue d), p_space d, key_queue d, keymap d, kb_base d, sdc d)"
  by (simp add: init_serial_def init_simps) (simp add: preset_input_def)

lemma init_timer_ok: "room d \<Longrightarrow> \<exists>d'. init_timer d = Ret () d' \<and>
    grows d 4096 [\<lparr>io_name = ''rtc'', io_low = 0xa1000048, io_high = 0xa100004f, io_at = p_space d, io_callback_of = Some Rtc_io_handler\<rparr>] d' \<and>
    inputs d' = inputs d"
  by (simp add: init_timer_def init_simps)

lemma init_vga_ok: "room d \<Longrightarrow> \<exists>d'. init_vga d = Ret () d' \<and>
    grows d 487424 [\<lparr>io_name = ''screen'', io_low = 0xa1000100, io_high = 0xa1000107, io_at = p_space d, io_callback_of = None\<rparr>,
      \<lparr>io_name = ''vmem'', io_low = 0xa0000000, io_high = 0xa00752ff, io_at = p_space d + 4096, io_callback_of = None\<rparr>] d' \<and>
    inputs d' = inputs d"
  by (simp add: init_vga_def init_simps) (simp add: SCREEN_SIZE_def SCREEN_W_def SCREEN_H_def)

lemma init_i8042_ok: "room d \<Longrightarrow> \<exists>d'. init_i8042 sc d = Ret () d' \<and>
    grows d 4096 [\<lparr>io_name = ''keyboard'', io_low = 0xa1000060, io_high = 0xa1000063, io_at = p_space d, io_callback_of = Some I8042_data_io_handler\<rparr>] d' \<and>
    inputs d' = (ser_queue d, ser_base d, key_queue d, map_keys sc 1 key_names (keymap d), p_space d, sdc d)"
  by (simp add: init_i8042_def init_simps) (simp add: init_keymap_def)

lemma init_audio_ok: "room d \<Longrightarrow> \<exists>d'. init_audio d = Ret () d' \<and>
    grows d 69632 [\<lparr>io_name = ''audio'', io_low = 0xa1000200, io_high = 0xa1000217, io_at = p_space d, io_callback_of = Some Audio_io_handler\<rparr>,
      \<lparr>io_name = ''audio-sbuf'', io_low = 0xa0800000, io_high = 0xa080ffff, io_at = p_space d + 4096, io_callback_of = None\<rparr>] d' \<and>
    inputs d' = inputs d"
  by (simp add: init_audio_def init_simps) (simp add: SB_SIZE_def)

lemma init_disk_ok: "room d \<Longrightarrow> \<exists>d'. init_disk f d = Ret () d' \<and>
    grows d 4096 [\<lparr>io_name = ''disk'', io_low = 0xa1000300, io_high = 0xa1000313, io_at = p_space d, io_callback_of = Some Disk_io_handler\<rparr>] d' \<and>
    inputs d' = inputs d"
  by (cases f) (simp_all add: init_disk_def init_simps)

lemma C_SIZE_val: "C_SIZE = 1023"
  by (simp add: C_SIZE_def NR_BLOCK_def MULT_def C_SIZE_MULT_def MEMORY_SIZE_def BLOCK_LEN_def READ_BL_LEN_def)

lemma init_sdcard_ok: "room d \<Longrightarrow> \<exists>d'. init_sdcard f d = Ret () d' \<and>
    grows d 4096 [\<lparr>io_name = ''sdhci'', io_low = 0xa3000000, io_high = 0xa300007f, io_at = p_space d, io_callback_of = Some Sdcard_io_handler\<rparr>] d' \<and>
    inputs d' = (ser_queue d, ser_base d, key_queue d, keymap d, kb_base d,
      (sdc d)\<lparr>sd_base := p_space d, sd_fp := map_option (\<lambda>bs. \<lparr>f_bytes = bs, f_pos = 0\<rparr>) f\<rparr>)"
  by (simp add: init_sdcard_def init_simps C_SIZE_val upd_sd_def)

definition at_stage :: "nat \<Rightarrow> nat \<Rightarrow> nat \<Rightarrow> devs \<Rightarrow> bool" where
  "at_stage k j n d \<longleftrightarrow> mmio_maps d = take j device_maps \<and> p_space d = n \<and> length (pio_maps d) \<le> k \<and> length (alarms d) \<le> timers (take j device_maps) \<and>
     d_mach d = static_machine"

lemma stage_room: "at_stage k j n d \<Longrightarrow> k < 8 \<Longrightarrow> n < 1000000 \<Longrightarrow> room d"
proof -
  assume a: "at_stage k j n d" "k < 8" "n < 1000000"
  have "timers device_maps = 2" "length device_maps = 10" by (simp_all add: timers_def device_maps_def)
  then show ?thesis using a timers_take[of j device_maps] by (simp add: at_stage_def room_def)
qed

lemma stage_step: "at_stage k j n d \<Longrightarrow> grows d m mps d' \<Longrightarrow> take j device_maps @ mps = take j' device_maps \<Longrightarrow>
    k' = k + 1 \<Longrightarrow> n' = n + m \<Longrightarrow> at_stage k' j' n' d'"
proof -
  assume a: "at_stage k j n d" "grows d m mps d'" "take j device_maps @ mps = take j' device_maps" "k' = k + 1" "n' = n + m"
  have "timers (take j' device_maps) = timers (take j device_maps) + timers mps" unfolding a(3)[symmetric] by (rule timers_append)
  with a show ?thesis by (auto simp: at_stage_def grows_def)
qed

lemma init_platform_ok:
  "\<exists>d. init_platform sc di si static_devs = Ret () d \<and> mmio_maps d = device_maps \<and> d_mach d = static_machine \<and>
     inputs d = (fold serial_enqueue debian_cmd (ser_queue static_devs), 65536, key_queue static_devs,
       map_keys sc 1 key_names (keymap static_devs), 561152,
       (sdc static_devs)\<lparr>sd_base := 638976, sd_fp := map_option (\<lambda>bs. \<lparr>f_bytes = bs, f_pos = 0\<rparr>) si\<rparr>)"
proof -
  let ?s = static_devs
  have s0: "at_stage 0 0 0 ?s" by (simp add: at_stage_def static_devs_def timers_def)
  from init_clint_ok[OF stage_room[OF s0]] obtain m1 d1 where d1: "init_clint ?s = Ret () d1" "grows ?s 65536 m1 d1" and m1: "take 0 device_maps @ m1 = take 1 device_maps"
    and i1: "inputs d1 = inputs ?s" using s0 by (force simp: at_stage_def device_maps_def numeral_2_eq_2)
  have s1: "at_stage 1 1 65536 d1" by (rule stage_step[OF s0 d1(2) m1]) simp_all
  from init_serial_ok[OF stage_room[OF s1]] obtain m2 d2 where d2: "init_serial d1 = Ret () d2" "grows d1 4096 m2 d2" and m2: "take 1 device_maps @ m2 = take 2 device_maps"
    and i2: "inputs d2 = (fold serial_enqueue debian_cmd (ser_queue d1), 65536, key_queue d1, keymap d1, kb_base d1, sdc d1)" using s1 by (force simp: at_stage_def device_maps_def numeral_2_eq_2)
  have s2: "at_stage 2 2 69632 d2" by (rule stage_step[OF s1 d2(2) m2]) simp_all
  from init_timer_ok[OF stage_room[OF s2]] obtain m3 d3 where d3: "init_timer d2 = Ret () d3" "grows d2 4096 m3 d3" and m3: "take 2 device_maps @ m3 = take 3 device_maps"
    and i3: "inputs d3 = inputs d2" using s2 by (force simp: at_stage_def device_maps_def numeral_2_eq_2)
  have s3: "at_stage 3 3 73728 d3" by (rule stage_step[OF s2 d3(2) m3]) simp_all
  from init_vga_ok[OF stage_room[OF s3]] obtain m4 d4 where d4: "init_vga d3 = Ret () d4" "grows d3 487424 m4 d4" and m4: "take 3 device_maps @ m4 = take 5 device_maps"
    and i4: "inputs d4 = inputs d3" using s3 by (force simp: at_stage_def device_maps_def numeral_2_eq_2)
  have s4: "at_stage 4 5 561152 d4" by (rule stage_step[OF s3 d4(2) m4]) simp_all
  from init_i8042_ok[OF stage_room[OF s4]] obtain m5 d5 where d5: "init_i8042 sc d4 = Ret () d5" "grows d4 4096 m5 d5" and m5: "take 5 device_maps @ m5 = take 6 device_maps"
    and i5: "inputs d5 = (ser_queue d4, ser_base d4, key_queue d4, map_keys sc 1 key_names (keymap d4), 561152, sdc d4)" using s4 by (force simp: at_stage_def device_maps_def numeral_2_eq_2)
  have s5: "at_stage 5 6 565248 d5" by (rule stage_step[OF s4 d5(2) m5]) simp_all
  from init_audio_ok[OF stage_room[OF s5]] obtain m6 d6 where d6: "init_audio d5 = Ret () d6" "grows d5 69632 m6 d6" and m6: "take 6 device_maps @ m6 = take 8 device_maps"
    and i6: "inputs d6 = inputs d5" using s5 by (force simp: at_stage_def device_maps_def numeral_2_eq_2)
  have s6: "at_stage 6 8 634880 d6" by (rule stage_step[OF s5 d6(2) m6]) simp_all
  from init_disk_ok[OF stage_room[OF s6]] obtain m7 d7 where d7: "init_disk di d6 = Ret () d7" "grows d6 4096 m7 d7" and m7: "take 8 device_maps @ m7 = take 9 device_maps"
    and i7: "inputs d7 = inputs d6" using s6 by (force simp: at_stage_def device_maps_def numeral_2_eq_2)
  have s7: "at_stage 7 9 638976 d7" by (rule stage_step[OF s6 d7(2) m7]) simp_all
  from init_sdcard_ok[OF stage_room[OF s7]] obtain m8 d8 where d8: "init_sdcard si d7 = Ret () d8" "grows d7 4096 m8 d8" and m8: "take 9 device_maps @ m8 = take 10 device_maps"
    and i8: "inputs d8 = (ser_queue d7, ser_base d7, key_queue d7, keymap d7, kb_base d7, (sdc d7)\<lparr>sd_base := 638976, sd_fp := map_option (\<lambda>bs. \<lparr>f_bytes = bs, f_pos = 0\<rparr>) si\<rparr>)" using s7 by (force simp: at_stage_def device_maps_def numeral_2_eq_2)
  have s8: "at_stage 8 10 643072 d8" by (rule stage_step[OF s7 d8(2) m8]) simp_all
  have "add_alarm_handle Set_device_update_flag d8 = Ret () (d8\<lparr>alarms := alarms d8 @ [Set_device_update_flag]\<rparr>)"
    using stage_room[of 7 10 643072 d8] s8 by (simp add: add_alarm_ok at_stage_def room_def timers_def device_maps_def)
  then show ?thesis using d1 d2 d3 d4 d5 d6 d7 d8 i1 i2 i3 i4 i5 i6 i7 i8 s8
    by (simp add: init_platform_def init_device_def m_simps inputs_def at_stage_def device_maps_def)
qed

text \<open>Two maps are apart when no address and no register byte belongs to both.\<close>

definition map_bytes :: "iomap \<Rightarrow> nat" where
  "map_bytes mp = unat (io_high mp - io_low mp) + 1"

definition apart :: "iomap \<Rightarrow> iomap \<Rightarrow> bool" where
  "apart a b \<longleftrightarrow> (io_high a < io_low b \<or> io_high b < io_low a) \<and>
     (io_at a + map_bytes a \<le> io_at b \<or> io_at b + map_bytes b \<le> io_at a)"

lemma maps_apart: "sorted_wrt apart device_maps"
  by (simp add: device_maps_def apart_def map_bytes_def)

lemma maps_ordered: "\<forall>mp\<in>set device_maps. io_low mp \<le> io_high mp \<and> io_at mp + map_bytes mp \<le> 643072 \<and> (io_high mp < 0x80000000 \<or> 0x90000000 \<le> io_low mp)"
  by (simp add: device_maps_def map_bytes_def)

lemma find_map_apart: "sorted_wrt apart mps \<Longrightarrow> mp \<in> set mps \<Longrightarrow> map_inside mp a \<Longrightarrow> find_map mps a = Some mp"
  by (induction mps) (auto simp: map_inside_def apart_def)

lemma find_map_None: "\<forall>mp\<in>set mps. \<not> map_inside mp a \<Longrightarrow> find_map mps a = None"
  by (induction mps) auto

text \<open>Property C38: initialising the devices succeeds, whatever the image files: the tables, the alarm handlers and
  the register space have room for all of them. Afterwards every address belongs to at most one device, the
  bus finds the device it belongs to, no device shadows memory, and the registers of two devices do not
  overlap.\<close>

theorem device_map_ok:
  "\<exists>d. init_platform sc di si static_devs = Ret () d \<and>
     (\<forall>mp\<in>set (mmio_maps d). io_at mp + map_bytes mp \<le> IO_SPACE_MAX \<and>
        (\<forall>a. map_inside mp a \<longrightarrow> \<not> in_pmem a \<and> find_map (mmio_maps d) a = Some mp)) \<and>
     sorted_wrt apart (mmio_maps d) \<and> length (mmio_maps d) = 10"
proof -
  obtain d where d: "init_platform sc di si static_devs = Ret () d" "mmio_maps d = device_maps"
    using init_platform_ok[of sc di si] by blast
  have "\<not> in_pmem a" if "mp \<in> set device_maps" "map_inside mp a" for mp a
  proof -
    from maps_ordered that have "a < 0x80000000 \<or> 0x90000000 \<le> a" by (auto simp: map_inside_def)
    then show ?thesis by (auto simp: in_pmem_range word_le_def word_less_def)
  qed
  moreover have "io_at mp + map_bytes mp \<le> IO_SPACE_MAX" if "mp \<in> set device_maps" for mp
    using maps_ordered that by (auto simp: IO_SPACE_MAX_def)
  moreover have "length device_maps = 10" by (simp add: device_maps_def)
  ultimately show ?thesis using d maps_apart find_map_apart by auto
qed

theorem device_map_ok_witness:
  "\<exists>d. init_platform (\<lambda>_. 0) None None static_devs = Ret () d \<and> length (mmio_maps d) = 10"
  using device_map_ok[of "\<lambda>_. 0" None None] by blast

section \<open>Rings as queues\<close>

definition ring_inv :: "'a ring \<Rightarrow> bool" where
  "ring_inv q \<longleftrightarrow> length (cells q) = 1024 \<and> front q < 1024 \<and> rear q < 1024"

definition ring_len :: "'a ring \<Rightarrow> nat" where
  "ring_len q = (rear q + 1024 - front q) mod 1024"

definition ring_abs :: "'a ring \<Rightarrow> 'a list" where
  "ring_abs q = take (ring_len q) (rotate (front q) (cells q))"

definition ring_get :: "'a ring \<Rightarrow> ('a \<times> 'a ring) option" where
  "ring_get q = (if front q \<noteq> rear q then Some (cells q ! front q, q\<lparr>front := (front q + 1) mod QUEUE_SIZE\<rparr>) else None)"

lemma ring_len_less: "ring_inv q \<Longrightarrow> ring_len q < 1024"
  by (simp add: ring_len_def)

lemma ring_abs_length: "ring_inv q \<Longrightarrow> length (ring_abs q) = ring_len q"
  using ring_len_less[of q] by (simp add: ring_abs_def ring_inv_def)

lemma ring_rear: "ring_inv q \<Longrightarrow> (front q + ring_len q) mod 1024 = rear q"
  by (auto simp: ring_inv_def ring_len_def mod_simps)

lemma ring_empty_abs: "ring_inv q \<Longrightarrow> ring_abs q = [] \<longleftrightarrow> front q = rear q"
  using ring_abs_length[of q] ring_rear[of q] by (auto simp: ring_inv_def ring_len_def)

lemma ring_full: "ring_inv q \<Longrightarrow> (rear q + 1) mod 1024 = front q \<longleftrightarrow> length (ring_abs q) = 1023"
  by (auto simp: ring_abs_length ring_inv_def ring_len_def mod_if split: if_splits)

lemma ring_put_ok:
  assumes "ring_inv q" "length (ring_abs q) < 1023"
  shows "ring_inv (ring_put x q)" "ring_abs (ring_put x q) = ring_abs q @ [x]" "ring_len (ring_put x q) = ring_len q + 1"
proof -
  have l: "ring_len q < 1023" using assms(2) by (simp add: ring_abs_length[OF assms(1)])
  have i: "length (cells q) = 1024" "front q < 1024" "rear q < 1024" using assms(1) by (auto simp: ring_inv_def)
  show "ring_inv (ring_put x q)" using i by (simp add: ring_inv_def ring_put_def QUEUE_SIZE_def)
  show n: "ring_len (ring_put x q) = ring_len q + 1"
    using i l by (auto simp: ring_put_def ring_len_def QUEUE_SIZE_def mod_if split: if_splits)
  have "rotate (front q) ((cells q)[rear q := x]) = (rotate (front q) (cells q))[ring_len q := x]"
    using rotate_update[of "ring_len q" "cells q" "front q" x] i l ring_rear[OF assms(1)] by simp
  then show "ring_abs (ring_put x q) = ring_abs q @ [x]"
    using i l by (simp add: ring_abs_def n) (simp add: ring_put_def take_Suc_conv_app_nth)
qed

lemma ring_get_ok:
  assumes "ring_inv q" "ring_abs q = x # xs"
  shows "\<exists>q'. ring_get q = Some (x, q') \<and> ring_inv q' \<and> ring_abs q' = xs"
proof -
  have i: "length (cells q) = 1024" "front q < 1024" "rear q < 1024" using assms by (auto simp: ring_inv_def)
  have ne: "front q \<noteq> rear q" using assms ring_empty_abs by fastforce
  let ?q = "q\<lparr>front := (front q + 1) mod 1024\<rparr>"
  have n: "ring_len q = Suc (ring_len ?q)"
    using i ne by (auto simp: ring_len_def mod_if split: if_splits)
  have l: "length xs = ring_len ?q" using ring_abs_length[OF assms(1)] assms(2) n by simp
  have r: "rotate (front q) (cells q) = x # drop 1 (rotate (front q) (cells q))"
    using assms(2) n i by (cases "rotate (front q) (cells q)") (auto simp: ring_abs_def)
  have "rotate (Suc (front q)) (cells q) = drop 1 (rotate (front q) (cells q)) @ [x]"
    by (subst rotate_Suc, subst r) simp
  then have "ring_abs ?q = take (ring_len ?q) (drop 1 (rotate (front q) (cells q)))"
    using i n rotate_conv_mod[of "Suc (front q)" "cells q"] ring_len_less[OF assms(1)] by (simp add: ring_abs_def del: rotate_Suc)
  moreover have "take (Suc (ring_len ?q)) (x # drop 1 (rotate (front q) (cells q))) = x # xs"
    using assms(2) r n by (simp add: ring_abs_def)
  moreover have "cells q ! front q = x" using r i nth_rotate[of 0 "cells q" "front q"] by (metis One_nat_def add.right_neutral mod_less nth_Cons_0 zero_less_numeral)
  moreover have "ring_inv ?q" using i by (simp add: ring_inv_def)
  ultimately show ?thesis using ne by (simp add: ring_get_def QUEUE_SIZE_def)
qed

text \<open>The serial input queue and the keyboard queue satisfy the contract of the queues, with room for 1023
  elements.\<close>

definition serial_get :: "uint8 ring \<Rightarrow> (uint8 \<times> uint8 ring) option" where
  "serial_get q = (if ring_empty q then None else Some (serial_dequeue q))"

lemma serial_put: "ring_inv q \<Longrightarrow> serial_enqueue x q = (if length (ring_abs q) < 1023 then ring_put x q else q)"
  using ring_full[of q] ring_len_less[of q] ring_abs_length[of q] by (auto simp: serial_enqueue_def QUEUE_SIZE_def)

lemma serial_get_ring: "serial_get q = ring_get q"
  by (simp add: serial_get_def serial_dequeue_def ring_get_def ring_empty_def)

interpretation keys: fifo ring_inv ring_abs 1023 ring_put ring_get
  by unfold_locales (auto simp: ring_put_ok ring_empty_abs ring_get_def dest: ring_get_ok)

interpretation serial: fifo ring_inv ring_abs 1023 serial_enqueue serial_get
  by unfold_locales (auto simp: serial_put ring_put_ok serial_get_ring ring_empty_abs ring_get_def dest: ring_get_ok)

lemma ring_zero: "ring_inv \<lparr>cells = replicate QUEUE_SIZE z, front = 0, rear = 0\<rparr>" "ring_abs \<lparr>cells = replicate QUEUE_SIZE z, front = 0, rear = 0\<rparr> = []"
  by (simp_all add: ring_inv_def ring_abs_def ring_len_def QUEUE_SIZE_def)

section \<open>Bus accesses to a device\<close>

lemma reg32_set [simp]: "reg32 b i (set_reg32 b i v d) = v"
  by (simp add: reg32_def set_reg32_def load_store_same) (rule bit_word_eqI, auto simp: bit_simps)

lemma io_read_reg: "a + 4 \<le> IO_SPACE_MAX \<Longrightarrow> io_read a 4 d = Ret (ucast (reg32 a 0 d)) d"
proof -
  assume a: "a + 4 \<le> IO_SPACE_MAX"
  have "load_le h x 4 = ucast (ucast (load_le h x 4) :: uint32)" for h :: "uint64 \<Rightarrow> uint8" and x
    by (rule bit_word_eqI) (auto simp: bit_load_le bit_simps)
  with a show ?thesis by (simp add: io_read_def m_simps reg32_def)
qed

text \<open>A read that hits a map calls its handler and then reads the register.\<close>

lemma dev_read_map:
  assumes "find_map (mmio_maps d) a = Some mp" "map_inside mp a" "\<not> in_pmem a" "1 \<le> n" "n \<le> 8"
  shows "dev_paddr_read a n d = bnd (invoke_callback (io_callback_of mp) (a - io_low mp) n False)
     (\<lambda>_. io_read (io_at mp + unat (a - io_low mp)) n) d"
  using assms by (simp add: dev_paddr_read_def mmio_read_def map_read_def check_bound_def m_simps Let_def)

lemma dev_write_map:
  assumes "find_map (mmio_maps d) a = Some mp" "map_inside mp a" "\<not> in_pmem a" "1 \<le> n" "n \<le> 8"
  shows "dev_paddr_write a n v d = bnd (io_write (io_at mp + unat (a - io_low mp)) n v)
     (\<lambda>_. invoke_callback (io_callback_of mp) (a - io_low mp) n True) d"
  using assms by (simp add: dev_paddr_write_def mmio_write_def map_write_def check_bound_def m_simps Let_def)

section \<open>Keyboard\<close>

lemma map_keys_other: "(\<forall>k\<in>set ks. sc k \<noteq> x) \<Longrightarrow> map_keys sc i ks km ! unat x = km ! unat x"
proof (induction ks arbitrary: i km)
  case (Cons k ks)
  then have "unat (sc k) \<noteq> unat x" by (simp add: word_unat_eq_iff)
  with Cons show ?case by simp
qed simp

lemma map_keys_nth: "distinct ks \<Longrightarrow> inj_on sc (set ks) \<Longrightarrow> length km = 256 \<Longrightarrow> j < length ks \<Longrightarrow>
    map_keys sc i ks km ! unat (sc (ks ! j)) = of_nat (i + j)"
proof (induction ks arbitrary: i km j)
  case (Cons k ks)
  show ?case
  proof (cases j)
    case 0
    have "\<forall>k'\<in>set ks. sc k' \<noteq> sc k" using Cons.prems(1,2) by (metis distinct.simps(2) inj_onD list.set_intros)
    moreover have "unat (sc k) < 256" using unsigned_less[of "sc k", where ?'a = nat] by simp
    ultimately show ?thesis using 0 Cons.prems by (simp add: map_keys_other)
  next
    case (Suc j')
    with Cons.prems Cons.IH[of _ j' "i + 1"] show ?thesis by simp
  qed
qed simp

text \<open>The code the guest sees for a key: its position in the table, counted from 1.\<close>

definition key_code :: "string \<Rightarrow> uint32" where
  "key_code k = of_nat (the (map_of (zip key_names [1..<length key_names + 1]) k))"

lemma key_names_distinct: "distinct key_names" "length key_names = 82"
  by (simp_all add: key_names_def)

lemma key_code_nth: "j < 82 \<Longrightarrow> key_code (key_names ! j) = of_nat (j + 1)"
  using key_names_distinct by (simp add: key_code_def map_of_zip_nth del: upt_Suc)

text \<open>What happens to the keyboard: the host reports a key, or the guest reads the data port.\<close>

datatype kb_op = Press string | Release string | Read_key

primrec kb_run :: "(string \<Rightarrow> uint8) \<Rightarrow> kb_op list \<Rightarrow> uint64 list dev" where
  "kb_run sc [] = ret []"
| "kb_run sc (x # xs) = (case x of
     Press k \<Rightarrow> thn (send_key (sc k) True) (kb_run sc xs)
   | Release k \<Rightarrow> thn (send_key (sc k) False) (kb_run sc xs)
   | Read_key \<Rightarrow> bnd (dev_paddr_read 0xa1000060 4) (\<lambda>v. bnd (kb_run sc xs) (\<lambda>vs. ret (v # vs))))"

text \<open>What the guest should see, given the events it has not read yet; \<open>None\<close> is the overflow.\<close>

fun kb_spec :: "kb_op list \<Rightarrow> uint32 list \<Rightarrow> uint64 list option" where
  "kb_spec [] q = Some []"
| "kb_spec (Press k # xs) q = (if length q < 1023 then kb_spec xs (q @ [key_code k OR KEYDOWN_MASK]) else None)"
| "kb_spec (Release k # xs) q = (if length q < 1023 then kb_spec xs (q @ [key_code k]) else None)"
| "kb_spec (Read_key # xs) [] = map_option ((#) 0) (kb_spec xs [])"
| "kb_spec (Read_key # xs) (c # q) = map_option ((#) (ucast c)) (kb_spec xs q)"

primrec known_key :: "kb_op \<Rightarrow> bool" where
  "known_key (Press k) \<longleftrightarrow> k \<in> set key_names"
| "known_key (Release k) \<longleftrightarrow> k \<in> set key_names"
| "known_key Read_key \<longleftrightarrow> True"

definition kb_ok :: "(string \<Rightarrow> uint8) \<Rightarrow> devs \<Rightarrow> bool" where
  "kb_ok sc d \<longleftrightarrow> mmio_maps d = device_maps \<and> dev_running d \<and> kb_base d = 561152 \<and> ring_inv (key_queue d) \<and>
     (\<forall>k\<in>set key_names. keymap d ! unat (sc k) = key_code k)"

lemma key_code_pos: "k \<in> set key_names \<Longrightarrow> key_code k \<noteq> 0"
proof -
  assume "k \<in> set key_names"
  then obtain j where "j < 82" "k = key_names ! j" using key_names_distinct(2) by (auto simp: in_set_conv_nth)
  then show ?thesis using key_code_nth[of j] by (simp add: word_unat_eq_iff unat_word_ariths unat_of_nat)
qed

lemma send_ok:
  assumes "kb_ok sc d" "k \<in> set key_names"
  shows "if length (ring_abs (key_queue d)) < 1023
    then \<exists>d'. send_key (sc k) down d = Ret () d' \<and> kb_ok sc d' \<and>
      ring_abs (key_queue d') = ring_abs (key_queue d) @ [key_code k OR (if down then KEYDOWN_MASK else 0)]
    else send_key (sc k) down d = Crash Assert_fail"
proof -
  let ?q = "key_queue d"
  have inv: "ring_inv ?q" and k: "dev_running d" "keymap d ! unat (sc k) = key_code k" "key_code k \<noteq> 0"
    using assms key_code_pos by (auto simp: kb_ok_def)
  have full: "rear (ring_put x ?q) = front (ring_put x ?q) \<longleftrightarrow> \<not> length (ring_abs ?q) < 1023" for x
    using ring_full[OF inv] ring_len_less[OF inv] ring_abs_length[OF inv] by (auto simp: ring_put_def QUEUE_SIZE_def)
  show ?thesis
    using assms(1) k keys.enq_inv[OF inv] keys.enq_abs[OF inv] by (auto simp: send_key_def Let_def full kb_ok_def dev_running_def)
qed

lemma kb_map: "find_map device_maps 0xa1000060 = Some \<lparr>io_name = ''keyboard'', io_low = 0xa1000060, io_high = 0xa1000063, io_at = 561152, io_callback_of = Some I8042_data_io_handler\<rparr>"
  by (simp add: device_maps_def map_inside_def)

lemma read_key_ok:
  assumes "kb_ok sc d"
  shows "\<exists>d'. dev_paddr_read 0xa1000060 4 d = Ret (case ring_abs (key_queue d) of [] \<Rightarrow> 0 | c # _ \<Rightarrow> ucast c) d' \<and> kb_ok sc d' \<and>
     ring_abs (key_queue d') = tl (ring_abs (key_queue d))"
proof -
  let ?q = "key_queue d"
  have inv: "ring_inv ?q" and m: "mmio_maps d = device_maps" "kb_base d = 561152" using assms by (auto simp: kb_ok_def)
  define d1 where "d1 = (case ring_get ?q of None \<Rightarrow> set_reg32 561152 0 0 d | Some (c, q) \<Rightarrow> set_reg32 561152 0 c (d\<lparr>key_queue := q\<rparr>))"
  have "i8042_data_io_handler 0 4 False d = Ret () d1"
    using m by (simp add: i8042_data_io_handler_def m_simps d1_def ring_get_def Let_def)
  then have rd: "dev_paddr_read 0xa1000060 4 d = Ret (ucast (reg32 561152 0 d1)) d1"
    by (subst dev_read_map) (auto simp: m kb_map map_inside_def in_pmem_range m_simps invoke_callback_def handler_of_def io_read_reg IO_SPACE_MAX_def)
  show ?thesis
  proof (cases "ring_abs ?q")
    case Nil
    then have "ring_get ?q = None" using ring_empty_abs[OF inv] by (simp add: ring_get_def)
    then have "d1 = set_reg32 561152 0 0 d" by (simp add: d1_def)
    with rd Nil assms show ?thesis by (simp add: kb_ok_def dev_running_def)
  next
    case (Cons c cs)
    then obtain q where q: "ring_get ?q = Some (c, q)" "ring_inv q" "ring_abs q = cs" using keys.deq_some[OF inv] by blast
    then have "d1 = set_reg32 561152 0 c (d\<lparr>key_queue := q\<rparr>)" by (simp add: d1_def)
    with rd Cons assms q show ?thesis by (simp add: kb_ok_def dev_running_def)
  qed
qed

lemma kb_run_ok: "kb_ok sc d \<Longrightarrow> list_all known_key ops \<Longrightarrow> (case kb_spec ops (ring_abs (key_queue d)) of
     None \<Rightarrow> kb_run sc ops d = Crash Assert_fail | Some vs \<Rightarrow> \<exists>d'. kb_run sc ops d = Ret vs d')"
proof (induction ops arbitrary: d)
  case (Cons x ops)
  have k: "list_all known_key ops" using Cons.prems by simp
  let ?q = "ring_abs (key_queue d)"
  have send: "case (if length ?q < 1023 then kb_spec ops (?q @ [key_code s OR (if down then KEYDOWN_MASK else 0)]) else None) of
      None \<Rightarrow> thn (send_key (sc s) down) (kb_run sc ops) d = Crash Assert_fail
    | Some vs \<Rightarrow> \<exists>d'. thn (send_key (sc s) down) (kb_run sc ops) d = Ret vs d'" if "s \<in> set key_names" for s down
  proof (cases "length ?q < 1023")
    case True
    with send_ok[OF Cons.prems(1) that, of down] obtain d' where "send_key (sc s) down d = Ret () d'" "kb_ok sc d'"
      "ring_abs (key_queue d') = ?q @ [key_code s OR (if down then KEYDOWN_MASK else 0)]" by auto
    with Cons.IH[OF _ k, of d'] True show ?thesis by (auto simp: m_simps split: option.splits)
  next
    case False
    with send_ok[OF Cons.prems(1) that, of down] show ?thesis by (simp add: m_simps)
  qed
  show ?case
  proof (cases x)
    case (Press s)
    with Cons.prems send[of s True, unfolded if_True] show ?thesis unfolding Press by (auto split: if_splits option.splits)
  next
    case (Release s)
    with Cons.prems send[of s False, unfolded if_False or.right_neutral] show ?thesis unfolding Release by (auto split: if_splits option.splits)
  next
    case Read_key
    from read_key_ok[OF Cons.prems(1)] obtain d' where d': "dev_paddr_read 0xa1000060 4 d = Ret (case ring_abs (key_queue d) of [] \<Rightarrow> 0 | c # _ \<Rightarrow> ucast c) d'"
      "kb_ok sc d'" "ring_abs (key_queue d') = tl (ring_abs (key_queue d))" by blast
    from Cons.IH[OF d'(2) k] d' Read_key show ?thesis
      by (cases "ring_abs (key_queue d)") (auto simp: m_simps split: option.splits)
  qed
qed (simp add: m_simps)

text \<open>Property C12: after the devices have been initialised, with scan codes that tell the keys apart, and while the
  guest runs, every sequence of key events and reads of the keyboard port shows the guest the events in
  their order, each as the code of its key with bit 15 for a press, and 0 when there is none. With 1023
  events unread the next one fails the assertion on the overflow.\<close>

theorem keyboard_fifo:
  assumes "init_platform sc di si static_devs = Ret () d" "inj_on sc (set key_names)" "list_all known_key ops"
  shows "case kb_spec ops [] of
     None \<Rightarrow> kb_run sc ops (d\<lparr>d_mach := set_nstate NEMU_RUNNING (d_mach d)\<rparr>) = Crash Assert_fail
   | Some vs \<Rightarrow> \<exists>d'. kb_run sc ops (d\<lparr>d_mach := set_nstate NEMU_RUNNING (d_mach d)\<rparr>) = Ret vs d'"
proof -
  have i: "mmio_maps d = device_maps" "key_queue d = \<lparr>cells = replicate QUEUE_SIZE 0, front = 0, rear = 0\<rparr>" "kb_base d = 561152"
    "keymap d = map_keys sc 1 key_names (replicate 256 0)"
    using init_platform_ok[of sc di si] assms(1) by (auto simp: inputs_def static_devs_def)
  have "keymap d ! unat (sc k) = key_code k" if "k \<in> set key_names" for k
  proof -
    from that obtain j where "j < 82" "k = key_names ! j" using key_names_distinct(2) by (auto simp: in_set_conv_nth)
    then show ?thesis using map_keys_nth[of key_names sc "replicate 256 0" j 1] key_names_distinct assms(2)
      by (simp add: i key_code_nth)
  qed
  then have "kb_ok sc (d\<lparr>d_mach := set_nstate NEMU_RUNNING (d_mach d)\<rparr>)"
    using i ring_zero[of "0 :: uint32"] by (simp add: kb_ok_def dev_running_def set_nstate_def)
  from kb_run_ok[OF this assms(3)] show ?thesis using i ring_zero[of "0 :: uint32"] by simp
qed

theorem keyboard_fifo_witness:
  "\<exists>sc d d'. init_platform sc None None static_devs = Ret () d \<and>
     kb_run sc [Press ''A'', Release ''A'', Read_key, Read_key, Read_key]
       (d\<lparr>d_mach := set_nstate NEMU_RUNNING (d_mach d)\<rparr>) = Ret [0x802B, 0x2B, 0] d'"
proof -
  define sc :: "string \<Rightarrow> uint8" where "sc k = of_nat (the (map_of (zip key_names [1..<length key_names + 1]) k))" for k
  have sc: "unat (sc (key_names ! j)) = j + 1" if "j < 82" for j
    using that key_names_distinct by (simp add: sc_def map_of_zip_nth unat_of_nat del: upt_Suc of_nat_Suc)
  obtain d where d: "init_platform sc None None static_devs = Ret () d" using init_platform_ok[of sc None None] by blast
  have "inj_on sc (set key_names)"
  proof (rule inj_onI)
    fix k k' assume "k \<in> set key_names" "k' \<in> set key_names" "sc k = sc k'"
    then obtain i j where ij: "i < 82" "k = key_names ! i" "j < 82" "k' = key_names ! j" using key_names_distinct(2) by (auto simp: in_set_conv_nth)
    from \<open>sc k = sc k'\<close> have "sc (key_names ! i) = sc (key_names ! j)" unfolding ij .
    then have "i + 1 = j + 1" unfolding sc[OF ij(1), symmetric] sc[OF ij(3), symmetric] by (rule arg_cong)
    then show "k = k'" unfolding ij by simp
  qed
  moreover have "''A'' \<in> set key_names" by (simp add: key_names_def)
  moreover have "key_code ''A'' = 0x2B" using key_code_nth[of 42] by (simp add: key_names_def)
  ultimately show ?thesis
    using keyboard_fifo[OF d, of "[Press ''A'', Release ''A'', Read_key, Read_key, Read_key]"] d by (auto simp: KEYDOWN_MASK_def)
qed

section \<open>Core-local timer\<close>

lemma reg64_set_mtip [simp]: "reg64 b i (set_mtip v d) = reg64 b i d" "clint_base (set_mtip v d) = clint_base d"
  by (simp_all add: set_mtip_def reg64_def)

end
