(* ===== verification/PortProps.thy ===== *)
theory PortProps
  imports DevProps
begin

text \<open>
  The core-local timer, the serial port and the SD card as the guest sees them through the bus.
\<close>

section \<open>Registers\<close>

lemma space_neq: "i < k \<Longrightarrow> j < n \<Longrightarrow> a + n \<le> b \<or> b + k \<le> a \<Longrightarrow> a + n \<le> 2 ^ 32 \<Longrightarrow> b + k \<le> 2 ^ 32 \<Longrightarrow>
    (of_nat b :: uint64) + of_nat i \<noteq> of_nat a + of_nat j"
proof
  assume *: "i < k" "j < n" "a + n \<le> b \<or> b + k \<le> a" "a + n \<le> 2 ^ 32" "b + k \<le> 2 ^ 32"
    and "(of_nat b :: uint64) + of_nat i = of_nat a + of_nat j"
  then have "(of_nat (b + i) :: uint64) = of_nat (a + j)" by simp
  with * have "b + i = a + j" by (subst (asm) of_nat_eq64) auto
  with * show False by auto
qed

lemma reg64_set [simp]: "reg64 b i (set_reg64 b i v d) = v"
  by (simp add: reg64_def set_reg64_def load_store_same) (rule bit_word_eqI, auto simp: bit_simps)

lemma reg64_other:
  assumes "i \<noteq> j" "b + 8 * i + 8 \<le> 2 ^ 32" "b + 8 * j + 8 \<le> 2 ^ 32"
  shows "reg64 b i (set_reg64 b j v d) = reg64 b i d"
proof -
  have "load_le (store_le (io_space d) (of_nat (b + 8 * j)) 8 v) (of_nat (b + 8 * i)) 8 = load_le (io_space d) (of_nat (b + 8 * i)) 8"
    by (rule load_store_other, intro allI impI, rule space_neq[of _ 8 _ 8]) (use assms in auto)
  then show ?thesis unfolding reg64_def set_reg64_def by simp
qed

lemma set_reg64_frame [simp]:
  "clint_base (set_reg64 b i v d) = clint_base d" "boot_time (set_reg64 b i v d) = boot_time d" "host_us (set_reg64 b i v d) = host_us d"
  "clint_boot (set_reg64 b i v d) = clint_boot d" "mmio_maps (set_reg64 b i v d) = mmio_maps d" "d_mach (set_reg64 b i v d) = d_mach d"
  by (simp_all add: set_reg64_def)

section \<open>Core-local timer\<close>

definition boot_of :: "devs \<Rightarrow> uint64" where
  "boot_of d = (if boot_time d = 0 then host_us d else boot_time d)"

text \<open>The time in ticks of the 10 MHz clock since the timer was initialised.\<close>

definition ticks :: "devs \<Rightarrow> uint64" where
  "ticks d = TIMEBASE * (host_us d - boot_of d - clint_boot d) div 1000000"

definition clint_now :: "devs \<Rightarrow> devs" where
  "clint_now d = set_reg64 (clint_base d) CLINT_MTIME (ticks d) (d\<lparr>boot_time := boot_of d\<rparr>)"

lemma update_clint_Ret: "update_clint d = Ret () (set_mtip
    (reg64 (clint_base d) CLINT_MTIMECMP (clint_now d) \<le> ticks d) (clint_now d))"
  by (cases "boot_time d = 0") (simp_all add: update_clint_def get_time_def m_simps clint_now_def ticks_def boot_of_def)

lemma mtip_bit: "bit (csr (d_mach (set_mtip p d)) CSR_mip) n \<longleftrightarrow> (if n = 7 then p else bit (csr (d_mach d) CSR_mip) n)"
  by (auto simp: set_mtip_def set_csr_def bit_set_fld dest: bit_imp_le_length)

definition in_clint :: "uint32 \<Rightarrow> bool" where
  "in_clint a \<longleftrightarrow> 0x38000000 \<le> a \<and> a \<le> 0x3800ffff"

lemma clint_map:
  assumes "in_clint a"
  shows "find_map device_maps a = Some (device_maps ! 0)" "map_inside (device_maps ! 0) a" "\<not> in_pmem a"
    "unat (a - 0x38000000) < 0x10000"
proof -
  from assms show "find_map device_maps a = Some (device_maps ! 0)" "map_inside (device_maps ! 0) a"
    by (simp_all add: in_clint_def device_maps_def map_inside_def)
  from assms show "\<not> in_pmem a" by (auto simp: in_clint_def in_pmem_range word_le_def)
  from assms show "unat (a - 0x38000000) < 0x10000"
    by (simp add: in_clint_def unat_sub) (simp add: word_le_nat_alt, linarith)
qed

lemma io_write_reg64: "io_write (8 * i) 8 v d = (if 8 * i + 8 \<le> IO_SPACE_MAX then Ret () (set_reg64 0 i v d) else Crash Host_fault)"
  by (simp add: io_write_def m_simps set_reg64_def)

lemma io_read_reg64: "io_read (8 * i) 8 d = (if 8 * i + 8 \<le> IO_SPACE_MAX then Ret (reg64 0 i d) d else Crash Host_fault)"
  by (simp add: io_read_def m_simps reg64_def)

lemmas clint_regs = CLINT_MTIMECMP_def CLINT_MTIME_def

text \<open>An access of the timer is an access of its registers and an update, whatever the address and the width.
  The bytes of an access that starts before the end and crosses it are those of the next device.\<close>

definition clint_put :: "uint32 \<Rightarrow> nat \<Rightarrow> uint64 \<Rightarrow> devs \<Rightarrow> devs" where
  "clint_put a n v d = d\<lparr>io_space := store_le (io_space d) (ucast (a - 0x38000000)) n v\<rparr>"

definition clint_get :: "uint32 \<Rightarrow> nat \<Rightarrow> devs \<Rightarrow> uint64" where
  "clint_get a n d = load_le (io_space d) (ucast (a - 0x38000000)) n"

lemma clint_access:
  assumes "mmio_maps d = device_maps" "in_clint a" "legal_len n"
  shows "dev_paddr_write a n v d = update_clint (clint_put a n v d)"
    "dev_paddr_read a n d = bnd update_clint (\<lambda>_. gets (clint_get a n)) d"
proof -
  have c: "io_low (device_maps ! 0) = 0x38000000" "io_at (device_maps ! 0) = 0" "io_callback_of (device_maps ! 0) = Some Clint_io_handler"
    by (simp_all add: device_maps_def)
  have n: "1 \<le> n" "n \<le> 8" "n = 1 \<or> n = 2 \<or> n = 4 \<or> n = 8" using assms(3) by (auto simp: legal_len_def)
  have f: "find_map (mmio_maps d) a = Some (device_maps ! 0)" by (simp add: assms(1) clint_map(1)[OF assms(2)])
  have io: "unat (a - 0x38000000) + n \<le> IO_SPACE_MAX" using clint_map(4)[OF assms(2)] n(2) by (simp add: IO_SPACE_MAX_def)
  have o: "(of_nat (unat w) :: uint64) = ucast w" for w :: uint32 by (simp add: word_uint_eq_iff unsigned_ucast_eq)
  show "dev_paddr_write a n v d = update_clint (clint_put a n v d)"
    using io n(3)
    by (simp add: dev_write_map[OF f clint_map(2,3)[OF assms(2)] n(1,2)] c io_write_def m_simps invoke_callback_def
        handler_of_def clint_io_handler_def clint_put_def o)
  show "dev_paddr_read a n d = bnd update_clint (\<lambda>_. gets (clint_get a n)) d"
    using io n(3)
    by (auto simp: dev_read_map[OF f clint_map(2,3)[OF assms(2)] n(1,2)] c io_read_def m_simps invoke_callback_def
        handler_of_def clint_io_handler_def clint_get_def o split: res.splits)
qed

lemma clint_now_regs: "reg64 0 CLINT_MTIME (clint_now d) = ticks d" "reg64 0 CLINT_MTIMECMP (clint_now d) = reg64 0 CLINT_MTIMECMP d"
  if "clint_base d = 0"
  using that by (simp_all add: clint_now_def reg64_other clint_regs) (simp add: reg64_def)

text \<open>What an access must leave: the time register holds the clock's time, and bit 7 of \<open>mip\<close> says whether
  it has reached the compare register; the other bits of \<open>mip\<close> are as they were.\<close>

definition timer_ok :: "devs \<Rightarrow> devs \<Rightarrow> bool" where
  "timer_ok d d' \<longleftrightarrow> reg64 0 CLINT_MTIME d' = ticks d \<and>
     (\<forall>k. bit (csr (d_mach d') CSR_mip) k \<longleftrightarrow>
        (if k = 7 then reg64 0 CLINT_MTIMECMP d' \<le> ticks d else bit (csr (d_mach d) CSR_mip) k))"

lemma update_timer:
  assumes "clint_base d = 0"
  shows "\<exists>d'. update_clint d = Ret () d' \<and> timer_ok d d' \<and> reg64 0 CLINT_MTIMECMP d' = reg64 0 CLINT_MTIMECMP d"
proof -
  have r: "reg64 0 i (set_mtip p e) = reg64 0 i e" for i p e by (simp add: set_mtip_def reg64_def)
  have m: "d_mach (clint_now d) = d_mach d" by (simp add: clint_now_def)
  show ?thesis using assms
    by (simp add: update_clint_Ret timer_ok_def r mtip_bit m clint_now_regs)
qed

lemma clint_put_frame [simp]: "clint_base (clint_put a n v d) = clint_base d" "d_mach (clint_put a n v d) = d_mach d"
  "ticks (clint_put a n v d) = ticks d"
  by (simp_all add: clint_put_def ticks_def boot_of_def)

text \<open>Property C39: with the memory map of the initialised devices, every access to the core-local timer keeps
  its interrupt up to date. Whatever the host's clock shows, a read or a write of 1, 2, 4 or 8 bytes at any
  address of the timer returns; the time register then holds the number of 10 MHz ticks since the timer was
  initialised, and bit 7 of \<open>mip\<close> is set exactly when that has reached the compare register, the other bits
  being as they were. A read returns the registers so updated and leaves the compare register alone; a write
  changes the compare register in the bytes written and no others. So the whole compare register can be
  written, the time can be read, and a write of the time is lost.\<close>

theorem clint_pending:
  assumes "mmio_maps d = device_maps" "clint_base d = 0"
  shows "(\<forall>a n. in_clint a \<and> legal_len n \<longrightarrow>
      (\<exists>d'. dev_paddr_read a n d = Ret (clint_get a n d') d' \<and> timer_ok d d' \<and>
         reg64 0 CLINT_MTIMECMP d' = reg64 0 CLINT_MTIMECMP d) \<and>
      (\<forall>v. \<exists>d'. dev_paddr_write a n v d = Ret () d' \<and> timer_ok d d' \<and>
         reg64 0 CLINT_MTIMECMP d' = reg64 0 CLINT_MTIMECMP (clint_put a n v d)))
    \<and> (\<forall>v. \<exists>d'. dev_paddr_write 0x38004000 8 v d = Ret () d' \<and> timer_ok d d' \<and> reg64 0 CLINT_MTIMECMP d' = v)
    \<and> (\<exists>d'. dev_paddr_read 0x3800BFF8 8 d = Ret (ticks d) d' \<and> timer_ok d d')
    \<and> (\<forall>v. \<exists>d'. dev_paddr_write 0x3800BFF8 8 v d = Ret () d' \<and> reg64 0 CLINT_MTIME d' = ticks d)"
proof -
  have r: "\<exists>d'. dev_paddr_read a n d = Ret (clint_get a n d') d' \<and> timer_ok d d' \<and>
      reg64 0 CLINT_MTIMECMP d' = reg64 0 CLINT_MTIMECMP d" if "in_clint a" "legal_len n" for a n
    using update_timer[OF assms(2)] by (auto simp: clint_access[OF assms(1) that] m_simps)
  have w: "\<exists>d'. dev_paddr_write a n v d = Ret () d' \<and> timer_ok d d' \<and>
      reg64 0 CLINT_MTIMECMP d' = reg64 0 CLINT_MTIMECMP (clint_put a n v d)" if "in_clint a" "legal_len n" for a n v
    using update_timer[of "clint_put a n v d"] assms(2) by (auto simp: clint_access[OF assms(1) that] timer_ok_def)
  have c: "in_clint 0x38004000" "in_clint 0x3800BFF8" "legal_len 8" by (simp_all add: in_clint_def legal_len_def)
  have cmp: "reg64 0 CLINT_MTIMECMP (clint_put 0x38004000 8 v d) = v" for v
    using reg64_set[of 0 CLINT_MTIMECMP v d] by (simp add: clint_put_def set_reg64_def clint_regs)
  have now: "clint_get 0x3800BFF8 8 e = ticks d" if "timer_ok d e" for e
    using that by (simp add: clint_get_def reg64_def clint_regs timer_ok_def)
  have "\<exists>d'. dev_paddr_write 0x38004000 8 v d = Ret () d' \<and> timer_ok d d' \<and> reg64 0 CLINT_MTIMECMP d' = v" for v
    using w[OF c(1,3), of v] unfolding cmp by blast
  moreover have "\<exists>d'. dev_paddr_read 0x3800BFF8 8 d = Ret (ticks d) d' \<and> timer_ok d d'"
  proof -
    from r[OF c(2,3)] obtain d' where "dev_paddr_read 0x3800BFF8 8 d = Ret (clint_get 0x3800BFF8 8 d') d'" "timer_ok d d'"
      by blast
    with now show ?thesis by auto
  qed
  moreover have "\<exists>d'. dev_paddr_write 0x3800BFF8 8 v d = Ret () d' \<and> reg64 0 CLINT_MTIME d' = ticks d" for v
    using w[OF c(2,3), of v] unfolding timer_ok_def by blast
  ultimately show ?thesis using r w by blast
qed

theorem clint_pending_witness:
  "(\<exists>d'. dev_paddr_write 0x38004000 8 5 (static_devs\<lparr>mmio_maps := device_maps\<rparr>) = Ret () d' \<and> \<not> bit (csr (d_mach d') CSR_mip) 7) \<and>
   (\<exists>v d'. dev_paddr_read 0x38004004 4 (static_devs\<lparr>mmio_maps := device_maps\<rparr>) = Ret v d' \<and> bit (csr (d_mach d') CSR_mip) 7)"
proof -
  let ?d = "static_devs\<lparr>mmio_maps := device_maps\<rparr>"
  have t: "ticks ?d = 0" by (simp add: ticks_def boot_of_def static_devs_def)
  have d: "mmio_maps ?d = device_maps" "clint_base ?d = 0" by (simp_all add: static_devs_def)
  note p = clint_pending[OF d]
  from p obtain d' where "dev_paddr_write 0x38004000 8 5 ?d = Ret () d'" "timer_ok ?d d'" "reg64 0 CLINT_MTIMECMP d' = 5"
    by blast
  then have 1: "\<exists>d'. dev_paddr_write 0x38004000 8 5 ?d = Ret () d' \<and> \<not> bit (csr (d_mach d') CSR_mip) 7"
    by (auto simp: timer_ok_def t)
  have "in_clint 0x38004004 \<and> legal_len 4" by (simp add: in_clint_def legal_len_def)
  with p obtain v d' where "dev_paddr_read 0x38004004 4 ?d = Ret v d'" "timer_ok ?d d'"
      "reg64 0 CLINT_MTIMECMP d' = reg64 0 CLINT_MTIMECMP ?d"
    by metis
  moreover have "reg64 0 CLINT_MTIMECMP ?d = 0"
    by (rule bit_word_eqI) (simp add: reg64_def bit_load_le static_devs_def)
  ultimately have "\<exists>v d'. dev_paddr_read 0x38004004 4 ?d = Ret v d' \<and> bit (csr (d_mach d') CSR_mip) 7"
    by (auto simp: timer_ok_def t)
  with 1 show ?thesis by blast
qed

section \<open>Serial port\<close>

context fifo begin

lemma enq_all: "inv s \<Longrightarrow> length (abs s) + length xs \<le> cap \<Longrightarrow> inv (fold enq xs s) \<and> abs (fold enq xs s) = abs s @ xs"
  by (induction xs arbitrary: s) (auto simp: enq_inv enq_abs)

end

lemma serial_map: "find_map device_maps 0xa10003f8 = Some (device_maps ! Suc 0)" "find_map device_maps 0xa10003fd = Some (device_maps ! Suc 0)"
  and serial_inside: "map_inside (device_maps ! Suc 0) 0xa10003f8" "map_inside (device_maps ! Suc 0) 0xa10003fd"
  and serial_entry: "io_low (device_maps ! Suc 0) = 0xa10003f8" "io_at (device_maps ! Suc 0) = 65536" "io_callback_of (device_maps ! Suc 0) = Some Serial_io_handler"
  by (simp_all add: device_maps_def map_inside_def)

lemma io_byte: "a < 2 ^ 20 \<Longrightarrow> io_read a (Suc 0) d = Ret (ucast (reg8 a 0 d)) d"
  "a < 2 ^ 20 \<Longrightarrow> io_write a (Suc 0) v d = Ret () (set_reg8 a 0 (ucast v) d)"
  by (simp_all add: io_read_def io_write_def m_simps IO_SPACE_MAX_def reg8_def set_reg8_def)

lemma reg8_set [simp]: "reg8 b i (set_reg8 b i v d) = v"
  by (simp add: reg8_def set_reg8_def)

lemma reg8_shift: "reg8 65536 5 d = reg8 65541 0 d" "set_reg8 65536 5 v d = set_reg8 65541 0 v d"
  by (simp_all add: reg8_def set_reg8_def)

lemma set_reg8_frame [simp]:
  "ser_queue (set_reg8 b i v d) = ser_queue d" "ser_pipe (set_reg8 b i v d) = ser_pipe d" "stderr_out (set_reg8 b i v d) = stderr_out d"
  "mmio_maps (set_reg8 b i v d) = mmio_maps d" "ser_base (set_reg8 b i v d) = ser_base d"
  by (simp_all add: set_reg8_def)

definition serial_ok :: "devs \<Rightarrow> bool" where
  "serial_ok d \<longleftrightarrow> mmio_maps d = device_maps \<and> ser_base d = 65536 \<and> ring_inv (ser_queue d)"

lemmas serial_bus = serial_map serial_inside serial_entry in_pmem_range m_simps invoke_callback_def handler_of_def serial_io_handler_def
  io_byte reg8_shift

lemma rx_ready:
  assumes "ring_inv (ser_queue d)"
  shows "if ring_abs (ser_queue d) = [] \<and> length (ser_pipe d) \<ge> 256 then serial_rx_ready_flag d = Crash Assert_fail
    else \<exists>d'. serial_rx_ready_flag d = Ret (if ring_abs (ser_queue d) = [] \<and> ser_pipe d = [] then 0 else LSR_RX_READY) d' \<and>
      mmio_maps d' = mmio_maps d \<and> ser_base d' = ser_base d \<and> ring_inv (ser_queue d') \<and>
      ring_abs (ser_queue d') = (if ring_abs (ser_queue d) = [] then ser_pipe d else ring_abs (ser_queue d))"
proof (cases "ring_abs (ser_queue d) = []")
  case True
  have e: "ring_empty (ser_queue d)" using True ring_empty_abs[OF assms] by (simp add: ring_empty_def)
  show ?thesis
  proof (cases "length (ser_pipe d) < 256")
    case less: True
    then have q: "ring_inv (fold serial_enqueue (ser_pipe d) (ser_queue d))" "ring_abs (fold serial_enqueue (ser_pipe d) (ser_queue d)) = ser_pipe d"
      using serial.enq_all[OF assms, of "ser_pipe d"] True by simp_all
    show ?thesis using e True less q ring_empty_abs[OF q(1)]
      by (cases "boot_time d = 0") (auto simp: serial_rx_ready_flag_def get_time_def m_simps ring_empty_def)
  next
    case False
    with e True show ?thesis by (cases "boot_time d = 0") (auto simp: serial_rx_ready_flag_def get_time_def m_simps)
  qed
next
  case False
  then have "\<not> ring_empty (ser_queue d)" using ring_empty_abs[OF assms] by (simp add: ring_empty_def)
  with False assms show ?thesis by (cases "boot_time d = 0") (auto simp: serial_rx_ready_flag_def get_time_def m_simps)
qed

text \<open>The serial port is a queue between the host's pipe and the guest. Reading the line status takes
  what waits in the pipe when the queue is empty and shows a byte exactly when there is one; reading the data
  register takes the bytes in their order, and 255 when there is none; a byte written goes out. With 256 or
  more bytes waiting, reading the line status fails the assertion.\<close>

theorem serial_queue:
  assumes "serial_ok d"
  shows "(if ring_abs (ser_queue d) = [] \<and> length (ser_pipe d) \<ge> 256 then dev_paddr_read 0xa10003fd 1 d = Crash Assert_fail
      else \<exists>d'. dev_paddr_read 0xa10003fd 1 d = Ret (if ring_abs (ser_queue d) = [] \<and> ser_pipe d = [] then 0x20 else 0x21) d' \<and>
        serial_ok d' \<and> ring_abs (ser_queue d') = (if ring_abs (ser_queue d) = [] then ser_pipe d else ring_abs (ser_queue d)))
    \<and> (\<exists>d'. dev_paddr_read 0xa10003f8 1 d = Ret (case ring_abs (ser_queue d) of [] \<Rightarrow> 0xff | c # _ \<Rightarrow> ucast c) d' \<and>
        serial_ok d' \<and> ring_abs (ser_queue d') = tl (ring_abs (ser_queue d)))
    \<and> (\<exists>d'. dev_paddr_write 0xa10003f8 1 v d = Ret () d' \<and> serial_ok d' \<and> stderr_out d' = stderr_out d @ [ucast v])"
proof (intro conjI)
  have ok: "mmio_maps d = device_maps" "ser_base d = 65536" and inv: "ring_inv (ser_queue d)" using assms by (auto simp: serial_ok_def)
  show "if ring_abs (ser_queue d) = [] \<and> length (ser_pipe d) \<ge> 256 then dev_paddr_read 0xa10003fd 1 d = Crash Assert_fail
      else \<exists>d'. dev_paddr_read 0xa10003fd 1 d = Ret (if ring_abs (ser_queue d) = [] \<and> ser_pipe d = [] then 0x20 else 0x21) d' \<and>
        serial_ok d' \<and> ring_abs (ser_queue d') = (if ring_abs (ser_queue d) = [] then ser_pipe d else ring_abs (ser_queue d))"
    using rx_ready[OF inv] ok
    by (auto simp: dev_read_map[where mp = "device_maps ! Suc 0"] serial_bus LSR_TX_READY_def LSR_RX_READY_def serial_ok_def split: if_splits)
  show "\<exists>d'. dev_paddr_write 0xa10003f8 1 v d = Ret () d' \<and> serial_ok d' \<and> stderr_out d' = stderr_out d @ [ucast v]"
    using ok inv by (simp add: dev_write_map[where mp = "device_maps ! Suc 0"] serial_bus serial_ok_def)
  have rd: "dev_paddr_read 0xa10003f8 1 d = (case serial_dequeue (ser_queue d) of (ch, q) \<Rightarrow> Ret (ucast ch) (set_reg8 65536 0 ch (d\<lparr>ser_queue := q\<rparr>)))"
    using ok by (simp add: dev_read_map[where mp = "device_maps ! Suc 0"] serial_bus split: prod.splits)
  show "\<exists>d'. dev_paddr_read 0xa10003f8 1 d = Ret (case ring_abs (ser_queue d) of [] \<Rightarrow> 0xff | c # _ \<Rightarrow> ucast c) d' \<and>
        serial_ok d' \<and> ring_abs (ser_queue d') = tl (ring_abs (ser_queue d))"
  proof (cases "ring_abs (ser_queue d)")
    case Nil
    then have "serial_dequeue (ser_queue d) = (0xff, ser_queue d)" using ring_empty_abs[OF inv] by (simp add: serial_dequeue_def)
    with rd Nil ok inv show ?thesis by (simp add: serial_ok_def)
  next
    case (Cons c cs)
    then obtain q where "serial_dequeue (ser_queue d) = (c, q)" "ring_inv q" "ring_abs q = cs"
      using serial.deq_some[OF inv Cons] by (auto simp: serial_get_def split: if_splits)
    with rd Cons ok show ?thesis by (simp add: serial_ok_def)
  qed
qed

theorem serial_queue_witness:
  "\<exists>d'. dev_paddr_read 0xa10003fd 1 (static_devs\<lparr>mmio_maps := device_maps, ser_base := 65536, ser_pipe := [104, 105]\<rparr>) = Ret 0x21 d' \<and>
     ring_abs (ser_queue d') = [104, 105]"
  using serial_queue[of "static_devs\<lparr>mmio_maps := device_maps, ser_base := 65536, ser_pipe := [104, 105]\<rparr>"] ring_zero[of "0 :: uint8"]
  by (auto simp: serial_ok_def static_devs_def)

end
