(* ===== verification/SdProps.thy ===== *)
theory SdProps
  imports PortProps
begin

text \<open>
  The SD card as the guest sees it: data written to a block with the multiple-block commands is what reading
  the block gives back, and lands at the offset of the block in the image.
\<close>

section \<open>Streams\<close>

text \<open>The bytes \<open>xs\<close> laid over \<open>bs\<close> at offset \<open>p\<close>, with zeros up to there when \<open>bs\<close> is shorter.\<close>

definition overlay :: "nat \<Rightarrow> uint8 list \<Rightarrow> uint8 list \<Rightarrow> uint8 list" where
  "overlay p xs bs = take p (bs @ replicate (p - length bs) 0) @ xs @ drop (p + length xs) bs"

lemma overlay_length: "length (take p (bs @ replicate (p - length bs) (0::uint8))) = p"
  by simp

lemma overlay_app: "overlay (p + length xs) ys (overlay p xs bs) = overlay p (xs @ ys) bs"
proof -
  let ?h = "take p (bs @ replicate (p - length bs) (0::uint8))"
  have "length (overlay p xs bs) \<ge> p + length xs" by (simp add: overlay_def)
  moreover have "take (p + length xs) (overlay p xs bs) = ?h @ xs" by (simp add: overlay_def)
  moreover have "drop (p + length xs + length ys) (overlay p xs bs) = drop (p + length xs + length ys) bs"
    by (cases "p \<le> length bs") (simp_all add: overlay_def add.commute)
  ultimately show ?thesis unfolding overlay_def[of "p + length xs"] by (simp add: overlay_def[of p] ac_simps)
qed

lemma overlay_nil: "p \<le> length bs \<Longrightarrow> overlay p [] bs = bs"
  by (simp add: overlay_def)

lemma fwrite_overlay: "f_bytes (fwrite xs f) = overlay (f_pos f) xs (f_bytes f)" "f_pos (fwrite xs f) = f_pos f + length xs"
  by (simp_all add: fwrite_def overlay_def)

lemma overlay_read: "take (length xs) (drop p (overlay p xs bs)) = xs"
  by (simp add: overlay_def)

section \<open>Words and bytes\<close>

lemma bytes4_length [simp]: "length (bytes4 w) = 4"
  by (simp add: bytes4_def)

lemma put_bytes_other: "(\<forall>i<length bs. x \<noteq> a + of_nat i) \<Longrightarrow> put_bytes h a bs x = h x"
proof (induction bs arbitrary: h a)
  case (Cons b bs)
  have "\<forall>i<length bs. x \<noteq> a + 1 + of_nat i"
  proof (intro allI impI)
    fix i assume "i < length bs"
    with Cons.prems have "x \<noteq> a + of_nat (Suc i)" by (metis Suc_less_eq length_Cons)
    then show "x \<noteq> a + 1 + of_nat i" by (simp add: add.assoc)
  qed
  moreover have "x \<noteq> a" using Cons.prems[rule_format, of 0] by simp
  ultimately show ?case using Cons.IH by simp
qed simp

lemma put_bytes_at: "i < length bs \<Longrightarrow> length bs \<le> 8 \<Longrightarrow> put_bytes h a bs (a + of_nat i) = bs ! i"
proof (induction bs arbitrary: h a i)
  case (Cons b bs)
  show ?case
  proof (cases i)
    case 0
    have "a \<noteq> a + 1 + of_nat j" if "j < length bs" for j
    proof
      assume "a = a + 1 + of_nat j"
      then have "of_nat (Suc j) = (0 :: uint64)" by (simp add: add.assoc)
      then show False using that Cons.prems of_nat_eq64[of "Suc j" 0] by simp
    qed
    with 0 show ?thesis by (simp add: put_bytes_other)
  next
    case (Suc j)
    have "put_bytes (h(a := b)) (a + 1) bs (a + 1 + of_nat j) = bs ! j"
      using Cons.prems Suc by (intro Cons.IH) simp_all
    moreover have "a + of_nat i = a + 1 + of_nat j" by (simp add: Suc)
    ultimately show ?thesis unfolding Suc put_bytes.simps nth_Cons_Suc by (simp only: Suc)
  qed
qed simp

lemma load_bytes4: "load_le (put_bytes h a (bytes4 w)) a 4 = ucast w"
proof (rule bit_word_eqI)
  fix i assume "i < LENGTH(64)"
  show "bit (load_le (put_bytes h a (bytes4 w)) a 4) i = bit (ucast w :: uint64) i"
  proof (cases "i div 8 < 4")
    case True
    then have "put_bytes h a (bytes4 w) (a + of_nat (i div 8)) = ucast (drop_bit (8 * (i div 8)) w)"
      by (simp add: put_bytes_at bytes4_def)
    with True \<open>i < LENGTH(64)\<close> show ?thesis by (simp add: bit_load_le bit_simps)
  next
    case False
    with \<open>i < LENGTH(64)\<close> show ?thesis by (auto simp: bit_load_le bit_simps dest: bit_imp_le_length)
  qed
qed

lemma store_low4: "store_le h a 4 (ucast (ucast v :: uint32)) = store_le h a 4 v"
proof
  fix x
  show "store_le h a 4 (ucast (ucast v :: uint32)) x = store_le h a 4 v x"
  proof (cases "\<exists>k<4. x = a + of_nat k")
    case True
    then obtain k where k: "k < 4" "x = a + of_nat k" by blast
    have "(ucast (drop_bit (8 * k) (ucast (ucast v :: uint32) :: uint64)) :: uint8) = ucast (drop_bit (8 * k) v)"
      using k(1) by (intro bit_word_eqI) (auto simp: bit_simps)
    with k show ?thesis by (simp add: store_le_at)
  qed (auto simp: store_le_other)
qed

lemma reg32_other:
  assumes "i \<noteq> j" "b + 4 * i + 4 \<le> 2 ^ 32" "b + 4 * j + 4 \<le> 2 ^ 32"
  shows "reg32 b i (set_reg32 b j v d) = reg32 b i d"
proof -
  have "load_le (store_le (io_space d) (of_nat (b + 4 * j)) 4 (ucast v)) (of_nat (b + 4 * i)) 4 = load_le (io_space d) (of_nat (b + 4 * i)) 4"
    by (rule load_store_other, intro allI impI, rule space_neq[of _ 4 _ 4]) (use assms in auto)
  then show ?thesis unfolding reg32_def set_reg32_def by simp
qed

section \<open>Register accesses\<close>

definition sd_ok :: "fstream \<Rightarrow> devs \<Rightarrow> bool" where
  "sd_ok f d \<longleftrightarrow> mmio_maps d = device_maps \<and> sd_base (sdc d) = 638976 \<and> sd_fp (sdc d) = Some f \<and> \<not> read_ext_csd (sdc d)"

lemma sd_frame [simp]:
  "mmio_maps (sd_set i v d) = mmio_maps d" "sdc (sd_set i v d) = sdc d" "sd_get i (sd_set i v d) = v"
  by (simp_all add: sd_set_def sd_get_def)

lemma sd_get_other: "i \<noteq> j \<Longrightarrow> sd_base (sdc d) = 638976 \<Longrightarrow> i < 32 \<Longrightarrow> j < 32 \<Longrightarrow> sd_get i (sd_set j v d) = sd_get i d"
  by (simp add: sd_get_def sd_set_def reg32_other)

lemma sd_map: "find_map device_maps 0xa3000004 = Some (device_maps ! 9)" "find_map device_maps 0xa3000000 = Some (device_maps ! 9)"
    "find_map device_maps 0xa3000040 = Some (device_maps ! 9)"
  and sd_inside: "map_inside (device_maps ! 9) 0xa3000004" "map_inside (device_maps ! 9) 0xa3000000" "map_inside (device_maps ! 9) 0xa3000040"
  and sd_entry: "io_low (device_maps ! 9) = 0xa3000000" "io_at (device_maps ! 9) = 638976" "io_callback_of (device_maps ! 9) = Some Sdcard_io_handler"
  by (simp_all add: device_maps_def map_inside_def)

lemma io_write_sd: "sd_base (sdc d) = 638976 \<Longrightarrow> i < 32 \<Longrightarrow> io_write (638976 + 4 * i) 4 v d = Ret () (sd_set i (ucast v) d)"
  by (simp add: io_write_def m_simps sd_set_def set_reg32_def store_low4 IO_SPACE_MAX_def)

lemmas sd_bus = sd_map sd_inside sd_entry in_pmem_range m_simps invoke_callback_def handler_of_def

lemma sd_access:
  assumes "mmio_maps d = device_maps" "sd_base (sdc d) = 638976"
  shows "dev_paddr_write 0xa3000004 4 v d = Ret () (sd_set SDARG (ucast v) d)"
    "dev_paddr_write 0xa3000000 4 v d = sdcard_handle_cmd (ucast v AND 0x3f) (sd_set SDCMD (ucast v) d)"
    "dev_paddr_write 0xa3000040 4 v d = Ret () (upd_sd (\<lambda>s. s\<lparr>sd_addr := sd_addr s + 4\<rparr>) (sd_data_transfer (sd_set SDDATA (ucast v) d)))"
    "dev_paddr_read 0xa3000040 4 d = (let d1 = upd_sd (\<lambda>s. s\<lparr>sd_addr := sd_addr s + 4\<rparr>) (sd_data_transfer d)
       in io_read (638976 + 64) 4 d1)"
  using assms io_write_sd[OF assms(2), of 1 v] io_write_sd[OF assms(2), of 0 v] io_write_sd[OF assms(2), of 16 v]
  by (simp_all add: dev_write_map[where mp = "device_maps ! 9"] dev_read_map[where mp = "device_maps ! 9"] sd_bus
      sdcard_io_handler_def sd_regs Let_def)

section \<open>Transfers\<close>

text \<open>The driver's side: a command with its argument, and the words of a transfer.\<close>

definition sd_command :: "uint32 \<Rightarrow> uint32 \<Rightarrow> unit dev" where
  "sd_command c arg = thn (dev_paddr_write 0xa3000004 4 (ucast arg)) (dev_paddr_write 0xa3000000 4 (ucast c))"

definition sd_store :: "uint32 \<Rightarrow> uint32 list \<Rightarrow> unit dev" where
  "sd_store n ws = thn (sd_command 25 n) (seqs (map (\<lambda>w. dev_paddr_write 0xa3000040 4 (ucast w)) ws))"

primrec sd_words :: "nat \<Rightarrow> uint64 list dev" where
  "sd_words 0 = ret []"
| "sd_words (Suc k) = bnd (dev_paddr_read 0xa3000040 4) (\<lambda>w. bnd (sd_words k) (\<lambda>ws. ret (w # ws)))"

definition sd_load :: "uint32 \<Rightarrow> nat \<Rightarrow> uint64 list dev" where
  "sd_load n k = thn (sd_command 18 n) (sd_words k)"

lemma block_offset: "unat (push_bit 9 (ucast (n :: uint32) :: uint64)) = 512 * unat n"
proof -
  have "unat n < 2 ^ 32" using unsigned_less[of n, where ?'a = nat] by simp
  then show ?thesis by (simp add: push_bit_eq_mult unat_word_ariths unsigned_ucast_eq take_bit_nat_eq_self)
qed

lemma ucast_there_and_back [simp]: "(ucast (ucast (w :: uint32) :: uint64) :: uint32) = w"
  by (rule bit_word_eqI) (auto simp: bit_simps)

lemma take_split: "take (length xs + n) r = xs @ ys \<Longrightarrow> take (length xs) r = xs \<and> take n (drop (length xs) r) = ys"
proof -
  assume a: "take (length xs + n) r = xs @ ys"
  then have "length xs \<le> length r" by (metis le_add1 le_trans length_append length_take min.cobounded1)
  with a show ?thesis unfolding take_add by (simp add: append_eq_append_conv)
qed

lemma sd_rw_command:
  assumes "sd_ok f d" "c = 18 \<and> \<not> b \<or> c = 25 \<and> b"
  shows "\<exists>d'. sd_command c n d = Ret () d' \<and> sd_ok (fseek (512 * unat n) f) d' \<and> write_cmd (sdc d') = b"
proof -
  let ?d = "sd_set SDCMD c (sd_set SDARG n d)"
  have "sd_get SDARG ?d = n" using assms(1) by (simp add: sd_get_other sd_ok_def sd_regs)
  moreover have "sdcard_handle_cmd (c AND 0x3f) ?d = Ret () (prepare_rw b ?d)"
    using assms(2) by (auto simp: sdcard_handle_cmd_def m_simps)
  ultimately show ?thesis using assms(1)
    by (auto simp: sd_command_def m_simps sd_access sd_ok_def prepare_rw_def upd_sd_def block_offset)
qed

lemma sd_put:
  assumes "sd_ok f d" "write_cmd (sdc d)"
  shows "\<exists>d'. dev_paddr_write 0xa3000040 4 (ucast w) d = Ret () d' \<and> sd_ok (fwrite (bytes4 w) f) d' \<and> write_cmd (sdc d')"
  using assms by (simp add: sd_ok_def sd_access sd_data_transfer_def upd_sd_def)

lemma sd_take:
  assumes "sd_ok f d" "\<not> write_cmd (sdc d)" "take 4 (drop (f_pos f) (f_bytes f)) = bytes4 w"
  shows "\<exists>d'. dev_paddr_read 0xa3000040 4 d = Ret (ucast w) d' \<and> sd_ok (f\<lparr>f_pos := f_pos f + 4\<rparr>) d' \<and> \<not> write_cmd (sdc d')"
  using assms by (simp add: sd_ok_def sd_access sd_data_transfer_def upd_sd_def fread_def io_read_def m_simps IO_SPACE_MAX_def
      SDDATA_def load_bytes4)

lemma sd_put_all: "sd_ok f d \<Longrightarrow> write_cmd (sdc d) \<Longrightarrow>
  \<exists>d' f'. seqs (map (\<lambda>w. dev_paddr_write 0xa3000040 4 (ucast w)) ws) d = Ret () d' \<and> sd_ok f' d' \<and>
     (ws \<noteq> [] \<longrightarrow> f_bytes f' = overlay (f_pos f) (concat (map bytes4 ws)) (f_bytes f)) \<and> (ws = [] \<longrightarrow> f' = f)"
proof (induction ws arbitrary: d f)
  case Nil
  then show ?case by (auto simp: m_simps)
next
  case (Cons w ws)
  from sd_put[OF Cons.prems] obtain d1 where d1: "dev_paddr_write 0xa3000040 4 (ucast w) d = Ret () d1"
    "sd_ok (fwrite (bytes4 w) f) d1" "write_cmd (sdc d1)" by blast
  from Cons.IH[OF d1(2,3)] obtain d' f' where "seqs (map (\<lambda>w. dev_paddr_write 0xa3000040 4 (ucast w)) ws) d1 = Ret () d'" "sd_ok f' d'"
    "ws \<noteq> [] \<longrightarrow> f_bytes f' = overlay (f_pos f + length (bytes4 w)) (concat (map bytes4 ws)) (overlay (f_pos f) (bytes4 w) (f_bytes f))"
    "ws = [] \<longrightarrow> f' = fwrite (bytes4 w) f"
    unfolding fwrite_overlay by blast
  then show ?case using d1(1) unfolding overlay_app by (cases ws) (auto simp: m_simps fwrite_overlay)
qed

lemma sd_words_ok: "sd_ok f d \<Longrightarrow> \<not> write_cmd (sdc d) \<Longrightarrow>
    take (length (concat (map bytes4 ws))) (drop (f_pos f) (f_bytes f)) = concat (map bytes4 ws) \<Longrightarrow>
    \<exists>d' p. sd_words (length ws) d = Ret (map ucast ws) d' \<and> sd_ok (f\<lparr>f_pos := p\<rparr>) d'"
proof (induction ws arbitrary: d f)
  case Nil
  then show ?case by (auto simp: m_simps intro!: exI[of _ "f_pos f"])
next
  case (Cons w ws)
  let ?r = "drop (f_pos f) (f_bytes f)"
  have "take (length (bytes4 w) + length (concat (map bytes4 ws))) ?r = bytes4 w @ concat (map bytes4 ws)" using Cons.prems(3) by simp
  from take_split[OF this] have "take 4 ?r = bytes4 w" "take (length (concat (map bytes4 ws))) (drop 4 ?r) = concat (map bytes4 ws)"
    unfolding bytes4_length by blast+
  with sd_take[OF Cons.prems(1,2), of w] obtain d1 where d1: "dev_paddr_read 0xa3000040 4 d = Ret (ucast w) d1"
    "sd_ok (f\<lparr>f_pos := f_pos f + 4\<rparr>) d1" "\<not> write_cmd (sdc d1)" by blast
  from Cons.IH[OF d1(2,3)] \<open>take (length _) (drop 4 ?r) = _\<close> obtain d' p where
    "sd_words (length ws) d1 = Ret (map ucast ws) d'" "sd_ok (f\<lparr>f_pos := p\<rparr>) d'" by (auto simp: add.commute)
  with d1(1) show ?case by (auto simp: m_simps)
qed

text \<open>Property C13: what the guest writes to the SD card from block \<open>n\<close> on, with the command to write multiple
  blocks, is what it reads back from there; the image holds the words, low byte first, at offset \<open>512 n\<close>, and
  is otherwise as it was. The card must have an image and no transfer of the extended register in progress.\<close>

theorem sdcard_roundtrip:
  assumes "sd_ok f d" "ws \<noteq> []"
  shows "\<exists>d1 d2 f'. sd_store n ws d = Ret () d1 \<and> sd_load n (length ws) d1 = Ret (map ucast ws) d2 \<and>
     sd_ok f' d2 \<and> f_bytes f' = overlay (512 * unat n) (concat (map bytes4 ws)) (f_bytes f)"
proof -
  let ?xs = "concat (map bytes4 ws)"
  from sd_rw_command[OF assms(1), of 25 True n] obtain d0 where d0: "sd_command 25 n d = Ret () d0" "sd_ok (fseek (512 * unat n) f) d0"
    "write_cmd (sdc d0)" by auto
  from sd_put_all[OF d0(2,3), of ws] assms(2) obtain d1 f1 where d1: "seqs (map (\<lambda>w. dev_paddr_write 0xa3000040 4 (ucast w)) ws) d0 = Ret () d1"
    "sd_ok f1 d1" "f_bytes f1 = overlay (512 * unat n) ?xs (f_bytes f)" by (auto simp: fseek_def)
  from sd_rw_command[OF d1(2), of 18 False n] obtain d2 where d2: "sd_command 18 n d1 = Ret () d2" "sd_ok (fseek (512 * unat n) f1) d2"
    "\<not> write_cmd (sdc d2)" by auto
  have at: "f_pos (fseek p g) = p" "f_bytes (fseek p g) = f_bytes g" for p g by (simp_all add: fseek_def)
  have "take (length ?xs) (drop (f_pos (fseek (512 * unat n) f1)) (f_bytes (fseek (512 * unat n) f1))) = ?xs"
    unfolding at d1(3) by (rule overlay_read)
  from sd_words_ok[OF d2(2,3) this] obtain d3 p where "sd_words (length ws) d2 = Ret (map ucast ws) d3"
    "sd_ok (fseek (512 * unat n) f1\<lparr>f_pos := p\<rparr>) d3" by blast
  then show ?thesis using d0(1) d1(1,3) d2(1)
    by (intro exI[of _ d1] exI[of _ d3] exI) (auto simp: sd_store_def sd_load_def m_simps fseek_def)
qed

theorem sdcard_roundtrip_witness:
  "\<exists>d d1 d2. init_platform (\<lambda>_. 0) None (Some []) static_devs = Ret () d \<and> sd_store 1 [0x12345678, 7] d = Ret () d1 \<and>
     sd_load 1 2 d1 = Ret [0x12345678, 7] d2"
proof -
  obtain d where d: "init_platform (\<lambda>_. 0) None (Some []) static_devs = Ret () d" "mmio_maps d = device_maps"
    "sdc d = (sdc static_devs)\<lparr>sd_base := 638976, sd_fp := Some \<lparr>f_bytes = [], f_pos = 0\<rparr>\<rparr>"
    using init_platform_ok[of "\<lambda>_. 0" None "Some []"] by (auto simp: inputs_def)
  then have "sd_ok \<lparr>f_bytes = [], f_pos = 0\<rparr> d" by (simp add: sd_ok_def static_devs_def)
  from sdcard_roundtrip[OF this, of "[0x12345678, 7]" 1] obtain d1 d2 where s: "sd_store 1 [0x12345678, 7] d = Ret () d1"
    and l: "sd_load 1 (length [0x12345678, 7 :: uint32]) d1 = Ret (map ucast [0x12345678, 7 :: uint32]) d2" by blast
  have "length [0x12345678, 7 :: uint32] = 2" "map ucast [0x12345678, 7 :: uint32] = [0x12345678, 7 :: uint64]" by simp_all
  with d(1) s l show ?thesis by metis
qed

text \<open>The card-specific data that the driver asks for describes the 16 GB of the card: its block length, size and
  multiplier fields, at the bit positions of the register, give that capacity.\<close>

lemma sd_csd_capacity:
  assumes "sd_base (sdc d) = 638976"
  shows "\<exists>d'. sdcard_handle_cmd 9 d = Ret () d' \<and>
    (let c_size = 4 * unat (take_bit 10 (sd_get SDRSP2 d')) + unat (drop_bit 30 (sd_get SDRSP1 d'));
         mult = unat (take_bit 3 (drop_bit 15 (sd_get SDRSP1 d')));
         read_bl_len = unat (take_bit 4 (drop_bit 16 (sd_get SDRSP2 d')))
     in (c_size + 1) * 2 ^ (mult + 2) * 2 ^ read_bl_len = MEMORY_SIZE)"
  using assms by (simp add: sdcard_handle_cmd_def m_simps sd_get_other sd_regs C_SIZE_val READ_BL_LEN_def MEMORY_SIZE_def Let_def)

end
