(* ===== verification/ExprProps.thy ===== *)
theory ExprProps
  imports Expr
begin

text \<open>
  Correctness of the expression evaluator: on the printed form of a syntax tree that respects the
  precedences it computes the meaning of the tree, unless an operator stands between an operand that
  begins with a bracket and one that ends with one, where it takes the two brackets for a pair.
\<close>

section \<open>Syntax trees and their meaning\<close>

datatype unop = UNot | UNeg | URef
datatype binop = BAdd | BSub | BMul | BDiv | BMod | BEq | BNeq | BAnd | BOr

datatype ex = Num string | Reg string | Paren ex | Una unop ex | Bin binop ex ex

fun un_tk :: "unop \<Rightarrow> tk" where
  "un_tk UNot = TK_C CHR ''!''" | "un_tk UNeg = TK_NEG" | "un_tk URef = TK_REF"

fun bin_tk :: "binop \<Rightarrow> tk" where
  "bin_tk BAdd = TK_C CHR ''+''" | "bin_tk BSub = TK_C CHR ''-''" | "bin_tk BMul = TK_C CHR ''*''"
| "bin_tk BDiv = TK_C CHR ''/''" | "bin_tk BMod = TK_C CHR ''%''" | "bin_tk BEq = TK_EQ" | "bin_tk BNeq = TK_NEQ"
| "bin_tk BAnd = TK_AND" | "bin_tk BOr = TK_OR"

text \<open>The usual precedences of C: a smaller number binds tighter.\<close>

fun bin_prec :: "binop \<Rightarrow> int" where
  "bin_prec BMul = 1" | "bin_prec BDiv = 1" | "bin_prec BMod = 1" | "bin_prec BAdd = 2" | "bin_prec BSub = 2"
| "bin_prec BEq = 4" | "bin_prec BNeq = 4" | "bin_prec BAnd = 8" | "bin_prec BOr = 9"

fun level :: "ex \<Rightarrow> int" where
  "level (Bin op a b) = bin_prec op" | "level _ = 0"

definition tok :: "tk \<Rightarrow> token" where "tok t = \<lparr>tk_type = t, tk_str = []\<rparr>"

fun toks :: "ex \<Rightarrow> token list" where
  "toks (Num s) = [\<lparr>tk_type = TK_NUM, tk_str = s\<rparr>]"
| "toks (Reg s) = [\<lparr>tk_type = TK_REG, tk_str = s\<rparr>]"
| "toks (Paren a) = tok (TK_C CHR ''('') # toks a @ [tok (TK_C CHR '')'')]"
| "toks (Una u a) = tok (un_tk u) # toks a"
| "toks (Bin op a b) = toks a @ tok (bin_tk op) # toks b"

text \<open>A tree that its printed form determines: left operands bind at least as tightly as the operator, right
  ones more tightly, and the operand of a unary operator is not a binary one.\<close>

fun precise :: "ex \<Rightarrow> bool" where
  "precise (Paren a) \<longleftrightarrow> precise a"
| "precise (Una u a) \<longleftrightarrow> precise a \<and> level a = 0"
| "precise (Bin op a b) \<longleftrightarrow> precise a \<and> precise b \<and> level a \<le> bin_prec op \<and> level b < bin_prec op"
| "precise _ \<longleftrightarrow> True"

text \<open>The operators that the evaluator mistakes: a bracket on each side.\<close>

fun no_clash :: "ex \<Rightarrow> bool" where
  "no_clash (Paren a) \<longleftrightarrow> no_clash a"
| "no_clash (Una u a) \<longleftrightarrow> no_clash a"
| "no_clash (Bin op a b) \<longleftrightarrow> no_clash a \<and> no_clash b \<and>
     \<not> (tk_type (hd (toks a)) = TK_C CHR ''('' \<and> tk_type (last (toks b)) = TK_C CHR '')'')"
| "no_clash _ \<longleftrightarrow> True"

text \<open>The meaning. Operands are evaluated from left to right, both of them also for the logical operators.\<close>

fun un_sem :: "unop \<Rightarrow> uint64 \<Rightarrow> uint64 nemu" where
  "un_sem UNot v = ret (if v = 0 then 1 else 0)"
| "un_sem UNeg v = ret (- v)"
| "un_sem URef v = vaddr_read v 4 MMU_DYNAMIC"

fun bin_sem :: "binop \<Rightarrow> uint64 \<Rightarrow> uint64 \<Rightarrow> uint64 nemu" where
  "bin_sem BAdd x y = ret (x + y)" | "bin_sem BSub x y = ret (x - y)" | "bin_sem BMul x y = ret (x * y)"
| "bin_sem BDiv x y = (if y = 0 then die Host_fault else ret (x div y))"
| "bin_sem BMod x y = (if y = 0 then die Host_fault else ret (x mod y))"
| "bin_sem BEq x y = ret (if x = y then 1 else 0)" | "bin_sem BNeq x y = ret (if x = y then 0 else 1)"
| "bin_sem BAnd x y = ret (if x = 0 \<or> y = 0 then 0 else 1)" | "bin_sem BOr x y = ret (if x = 0 \<and> y = 0 then 0 else 1)"

fun sem :: "ex \<Rightarrow> uint64 option nemu" where
  "sem (Num s) = ret (Some (strtoul s))"
| "sem (Reg s) = gets (isa_reg_str2val (tl s))"
| "sem (Paren a) = sem a"
| "sem (Una u a) = on_success (sem a) (\<lambda>v. bnd (un_sem u v) (\<lambda>r. ret (Some r)))"
| "sem (Bin op a b) = on_success (sem a) (\<lambda>x. on_success (sem b) (\<lambda>y. bnd (bin_sem op x y) (\<lambda>r. ret (Some r))))"

lemma toks_nonempty [simp]: "toks x \<noteq> []"
  by (induction x) auto

lemma eval_unary_sem: "eval_unary (un_tk u) v = bnd (un_sem u v) (\<lambda>r. ret (Some r))"
  by (cases u) (auto simp: fun_eq_iff eval_unary_def bool_val_def vaddr_read_safe_def vaddr_read_def m_simps)

lemma eval_binary_sem: "eval_binary (bin_tk op) x y = bnd (bin_sem op x y) (\<lambda>r. ret (Some r))"
  by (cases op) (auto simp: fun_eq_iff eval_binary_def bool_val_def m_simps)

section \<open>The search for the dominating operator\<close>

lemma un_prec: "op_prec (un_tk u) = Some 0"
  by (cases u) (simp_all add: op_prec_def)

lemma bin_prec_op: "op_prec (bin_tk op) = Some (bin_prec op)"
  by (cases op) (simp_all add: op_prec_def)

lemma bin_prec_pos: "0 < bin_prec op"
  by (cases op) simp_all

lemma op_types:
  "un_tk u \<noteq> TK_REG" "un_tk u \<noteq> TK_NUM" "un_tk u \<noteq> TK_C CHR ''(''" "un_tk u \<noteq> TK_C CHR '')''"
  "bin_tk op \<noteq> TK_REG" "bin_tk op \<noteq> TK_NUM" "bin_tk op \<noteq> TK_C CHR ''(''" "bin_tk op \<noteq> TK_C CHR '')''"
  "bin_tk op \<noteq> TK_C CHR ''!''" "bin_tk op \<noteq> TK_C CHR ''~''" "bin_tk op \<noteq> TK_NEG" "bin_tk op \<noteq> TK_REF"
  by (cases u; simp; fail | cases op; simp; fail)+

lemma un_takes: "takes_over (un_tk u) c \<longleftrightarrow> c < 0"
  by (cases u) (auto simp: takes_over_def)

lemma bin_takes: "takes_over (bin_tk op) c \<longleftrightarrow> c \<le> 0"
  by (auto simp: takes_over_def op_types)

text \<open>A list of tokens at a position of the array.\<close>

definition at :: "token list \<Rightarrow> nat \<Rightarrow> token list \<Rightarrow> bool" where
  "at T n ts \<longleftrightarrow> (\<forall>k<length ts. T ! (n + k) = ts ! k)"

lemma at_simps [simp]:
  "at T n []" "at T n (t # ts) \<longleftrightarrow> T ! n = t \<and> at T (Suc n) ts"
  "at T n (xs @ ys) \<longleftrightarrow> at T n xs \<and> at T (n + length xs) ys"
proof -
  show c: "at T n (t # ts) \<longleftrightarrow> T ! n = t \<and> at T (Suc n) ts" for n t ts
    by (simp add: at_def All_less_Suc2)
  show "at T n (xs @ ys) \<longleftrightarrow> at T n xs \<and> at T (n + length xs) ys"
    by (induction xs arbitrary: n) (simp add: at_def, simp add: c)
qed (simp add: at_def)

text \<open>One step of the loop.\<close>

lemma step_atom: "tk_type (T ! n) \<in> {TK_REG, TK_NUM} \<Longrightarrow> int n \<le> e \<Longrightarrow>
    dom_loop T (int n) e b d = dom_loop T (int (Suc n)) e b d"
  by (subst dom_loop.simps) (auto simp: Let_def ac_simps)

lemma step_open: "tk_type (T ! n) = TK_C CHR ''('' \<Longrightarrow> int n \<le> e \<Longrightarrow>
    dom_loop T (int n) e b d = dom_loop T (int (Suc n)) e (b + 1) d"
  by (subst dom_loop.simps) (auto simp: Let_def ac_simps)

lemma step_close: "tk_type (T ! n) = TK_C CHR '')'' \<Longrightarrow> int n \<le> e \<Longrightarrow> 1 \<le> b \<Longrightarrow>
    dom_loop T (int n) e b d = dom_loop T (int (Suc n)) e (b - 1) d"
  by (subst dom_loop.simps) (auto simp: Let_def ac_simps)

lemma step_stray: "tk_type (T ! n) = TK_C CHR '')'' \<Longrightarrow> int n \<le> e \<Longrightarrow> dom_loop T (int n) e 0 d = No_dom"
  by (subst dom_loop.simps) (auto simp: Let_def)

definition is_op :: "tk \<Rightarrow> bool" where
  "is_op t \<longleftrightarrow> t \<noteq> TK_REG \<and> t \<noteq> TK_NUM \<and> t \<noteq> TK_C CHR ''('' \<and> t \<noteq> TK_C CHR '')''"

lemma is_op_tk [simp]: "is_op (un_tk u)" "is_op (bin_tk op)"
  by (simp_all add: is_op_def op_types)

lemma step_in: "is_op (tk_type (T ! n)) \<Longrightarrow> int n \<le> e \<Longrightarrow> 1 \<le> b \<Longrightarrow>
    dom_loop T (int n) e b d = dom_loop T (int (Suc n)) e b d"
  by (subst dom_loop.simps) (auto simp: Let_def is_op_def ac_simps)

lemma step_first: "is_op (tk_type (T ! n)) \<Longrightarrow> int n \<le> e \<Longrightarrow>
    dom_loop T (int n) e 0 (-1) = dom_loop T (int (Suc n)) e 0 (int n)"
  by (subst dom_loop.simps) (auto simp: Let_def is_op_def ac_simps)

lemma step_op: "is_op (tk_type (T ! n)) \<Longrightarrow> int n \<le> e \<Longrightarrow> d \<noteq> -1 \<Longrightarrow> op_prec_cmp (type_at T d) (tk_type (T ! n)) = Some c \<Longrightarrow>
    dom_loop T (int n) e 0 d = dom_loop T (int (Suc n)) e 0 (if takes_over (tk_type (T ! n)) c then int n else d)"
  by (subst dom_loop.simps) (auto simp: Let_def is_op_def ac_simps)

text \<open>Inside brackets nothing changes.\<close>

lemma scan_in:
  "at T n (toks x) \<Longrightarrow> int (n + length (toks x)) - 1 \<le> e \<Longrightarrow> 1 \<le> b \<Longrightarrow>
     dom_loop T (int n) e b d = dom_loop T (int (n + length (toks x))) e b d"
proof (induction x arbitrary: n b)
  case (Paren x)
  let ?m = "Suc n + length (toks x)"
  have "dom_loop T (int n) e b d = dom_loop T (int (Suc n)) e (b + 1) d"
    using Paren.prems by (intro step_open) (simp_all add: tok_def)
  also have "\<dots> = dom_loop T (int ?m) e (b + 1) d"
    using Paren.prems by (intro Paren.IH) simp_all
  also have "\<dots> = dom_loop T (int (Suc ?m)) e b d"
    using Paren.prems by (subst step_close) (simp_all add: tok_def)
  finally show ?case by simp
next
  case (Una u x)
  have "dom_loop T (int n) e b d = dom_loop T (int (Suc n)) e b d"
    using Una.prems by (intro step_in) (simp_all add: tok_def)
  also have "\<dots> = dom_loop T (int (Suc n + length (toks x))) e b d"
    using Una.prems by (intro Una.IH) simp_all
  finally show ?case by simp
next
  case (Bin op x y)
  let ?m = "n + length (toks x)"
  have "dom_loop T (int n) e b d = dom_loop T (int ?m) e b d"
    using Bin.prems by (intro Bin.IH(1)) simp_all
  also have "\<dots> = dom_loop T (int (Suc ?m)) e b d"
    using Bin.prems by (intro step_in) (simp_all add: tok_def)
  also have "\<dots> = dom_loop T (int (Suc ?m + length (toks y))) e b d"
    using Bin.prems by (intro Bin.IH(2)) simp_all
  finally show ?case by (simp add: ac_simps)
next
  case (Num s)
  then show ?case using step_atom[of T n e b d] by simp
next
  case (Reg s)
  then show ?case using step_atom[of T n e b d] by simp
qed

text \<open>Outside, a tree hands over to its top operator when that binds no tighter than the one so far.\<close>

abbreviation prec_at :: "token list \<Rightarrow> int \<Rightarrow> int" where
  "prec_at T d \<equiv> the (op_prec (type_at T d))"

fun over :: "token list \<Rightarrow> ex \<Rightarrow> nat \<Rightarrow> int \<Rightarrow> int" where
  "over T (Bin op a b) n d = (if d = -1 \<or> prec_at T d \<le> bin_prec op then int (n + length (toks a)) else d)"
| "over T (Una u a) n d = (if d = -1 then int n else d)"
| "over T _ n d = d"

definition dom_ok :: "token list \<Rightarrow> int \<Rightarrow> bool" where
  "dom_ok T d \<longleftrightarrow> d = -1 \<or> 0 \<le> d \<and> (\<exists>p\<ge>0. op_prec (type_at T d) = Some p)"

lemma over_ok:
  assumes "at T n (toks x)" "dom_ok T d"
  shows "dom_ok T (over T x n d)"
    "over T x n d = d \<or> (prec_at T (over T x n d) = level x \<and> (d = -1 \<or> prec_at T d \<le> level x))"
proof -
  have "dom_ok T (over T x n d) \<and>
    (over T x n d = d \<or> (prec_at T (over T x n d) = level x \<and> (d = -1 \<or> prec_at T d \<le> level x)))"
  proof (cases x)
    case (Una u y)
    with assms show ?thesis by (auto simp: dom_ok_def tok_def un_prec)
  next
    case (Bin op y z)
    with assms(1) have "type_at T (int (n + length (toks y))) = bin_tk op" by (simp add: tok_def nat_add_distrib)
    with Bin assms(2) show ?thesis
      using bin_prec_pos[of op] by (auto simp: dom_ok_def bin_prec_op simp del: of_nat_add)
  qed (use assms in simp_all)
  then show "dom_ok T (over T x n d)"
    "over T x n d = d \<or> (prec_at T (over T x n d) = level x \<and> (d = -1 \<or> prec_at T d \<le> level x))" by blast+
qed

lemma over_keeps: "d \<noteq> -1 \<Longrightarrow> level x < prec_at T d \<Longrightarrow> over T x n d = d"
  by (cases x) simp_all

lemma step_bin:
  assumes "tk_type (T ! n) = bin_tk op" "int n \<le> e" "dom_ok T d"
  shows "dom_loop T (int n) e 0 d = dom_loop T (int (Suc n)) e 0 (if d = -1 \<or> prec_at T d \<le> bin_prec op then int n else d)"
proof (cases "d = -1")
  case False
  with assms obtain p where p: "op_prec (type_at T d) = Some p" by (auto simp: dom_ok_def)
  then have "op_prec_cmp (type_at T d) (tk_type (T ! n)) = Some (p - bin_prec op)"
    by (simp add: op_prec_cmp_def assms bin_prec_op)
  from step_op[OF _ assms(2) False this] show ?thesis using False p by (simp add: assms bin_takes)
qed (use step_first[of T n e] assms in simp)

lemma step_una:
  assumes "tk_type (T ! n) = un_tk u" "int n \<le> e" "dom_ok T d"
  shows "dom_loop T (int n) e 0 d = dom_loop T (int (Suc n)) e 0 (if d = -1 then int n else d)"
proof (cases "d = -1")
  case False
  with assms obtain p where p: "op_prec (type_at T d) = Some p" "0 \<le> p" by (auto simp: dom_ok_def)
  then have "op_prec_cmp (type_at T d) (tk_type (T ! n)) = Some p"
    by (simp add: op_prec_cmp_def assms un_prec)
  from step_op[OF _ assms(2) False this] show ?thesis using False p by (simp add: assms un_takes)
qed (use step_first[of T n e] assms in simp)

lemma scan_out:
  "at T n (toks x) \<Longrightarrow> int (n + length (toks x)) - 1 \<le> e \<Longrightarrow> precise x \<Longrightarrow> dom_ok T d \<Longrightarrow>
     dom_loop T (int n) e 0 d = dom_loop T (int (n + length (toks x))) e 0 (over T x n d)"
proof (induction x arbitrary: n d)
  case (Paren x)
  let ?m = "Suc n + length (toks x)"
  have "dom_loop T (int n) e 0 d = dom_loop T (int (Suc n)) e 1 d"
    using Paren.prems by (subst step_open) (simp_all add: tok_def)
  also have "\<dots> = dom_loop T (int ?m) e 1 d"
    using Paren.prems by (intro scan_in) simp_all
  also have "\<dots> = dom_loop T (int (Suc ?m)) e 0 d"
    using Paren.prems by (subst step_close) (simp_all add: tok_def)
  finally show ?case by simp
next
  case (Una u x)
  let ?d = "if d = -1 then int n else d"
  have "dom_loop T (int n) e 0 d = dom_loop T (int (Suc n)) e 0 ?d"
    using Una.prems by (intro step_una) (simp_all add: tok_def)
  also have "\<dots> = dom_loop T (int (Suc n + length (toks x))) e 0 (over T x (Suc n) ?d)"
    using Una.prems by (intro Una.IH) (auto simp: dom_ok_def tok_def un_prec)
  also have "over T x (Suc n) ?d = ?d"
    using Una.prems by (cases x) (auto simp: less_imp_neq[OF bin_prec_pos, symmetric])
  finally show ?case by simp
next
  case (Bin op x y)
  let ?m = "n + length (toks x)"
  let ?d1 = "over T x n d" let ?d2 = "if ?d1 = -1 \<or> prec_at T ?d1 \<le> bin_prec op then int ?m else ?d1"
  have m: "tk_type (T ! ?m) = bin_tk op" using Bin.prems by (simp add: tok_def)
  have ok: "dom_ok T ?d1" using Bin.prems by (intro over_ok(1)) simp_all
  have "dom_loop T (int n) e 0 d = dom_loop T (int ?m) e 0 ?d1"
    using Bin.prems by (intro Bin.IH(1)) simp_all
  also have "\<dots> = dom_loop T (int (Suc ?m)) e 0 ?d2"
    using Bin.prems m ok by (intro step_bin) simp_all
  also have "\<dots> = dom_loop T (int (Suc ?m + length (toks y))) e 0 (over T y (Suc ?m) ?d2)"
    using Bin.prems ok m bin_prec_pos[of op] by (intro Bin.IH(2)) (auto simp: dom_ok_def bin_prec_op nat_add_distrib)
  also have "over T y (Suc ?m) ?d2 = ?d2"
  proof (rule over_keeps)
    show "?d2 \<noteq> -1" by auto
    show "level y < prec_at T ?d2" using Bin.prems m by (auto simp: bin_prec_op nat_add_distrib)
  qed
  also have "?d2 = over T (Bin op x y) n d"
    using over_ok(2)[of T n x d] Bin.prems by auto
  finally show ?case by (simp add: ac_simps)
next
  case (Num s)
  then show ?case using step_atom[of T n e 0 d] by simp
next
  case (Reg s)
  then show ?case using step_atom[of T n e 0 d] by simp
qed

section \<open>Evaluation of a tree\<close>

lemma find_op:
  assumes "at T n (toks x)" "precise x" "\<exists>op a b. x = Bin op a b \<or> (\<exists>u. x = Una u a)"
  shows "find_dominated_op T (int n) (int (n + length (toks x)) - 1) = Dom (over T x n (-1))"
proof -
  have "over T x n (-1) \<noteq> -1" using assms(3) by auto
  moreover have "dom_loop T (int n) e 0 (-1) = dom_loop T (int (n + length (toks x))) e 0 (over T x n (-1))"
    if "e = int (n + length (toks x)) - 1" for e
    using assms that by (intro scan_out) (simp_all add: dom_ok_def)
  ultimately show ?thesis unfolding find_dominated_op_def by (simp add: dom_loop.simps)
qed

lemma at_hd: "at T n ts \<Longrightarrow> ts \<noteq> [] \<Longrightarrow> T ! n = hd ts"
  by (cases ts) simp_all

lemma at_last: "at T n ts \<Longrightarrow> ts \<noteq> [] \<Longrightarrow> T ! (n + length ts - 1) = last ts"
proof -
  assume a: "at T n ts" "ts \<noteq> []"
  then have "T ! (n + (length ts - 1)) = ts ! (length ts - 1)" by (simp add: at_def)
  moreover from a have "n + (length ts - 1) = n + length ts - 1" by (cases ts) simp_all
  ultimately show ?thesis using last_conv_nth[OF a(2)] by metis
qed

lemma type_last: "at T n ts \<Longrightarrow> ts \<noteq> [] \<Longrightarrow> type_at T (int (n + length ts) - 1) = tk_type (last ts)"
proof -
  assume a: "at T n ts" "ts \<noteq> []"
  then have "int (n + length ts) - 1 = int (n + length ts - 1)" by (cases ts) simp_all
  then show ?thesis using at_last[OF a] by (simp only: nat_int)
qed

text \<open>The tokens of a tree, wherever they stand, evaluate to its meaning.\<close>

lemma eval_toks:
  "at T n (toks x) \<Longrightarrow> precise x \<Longrightarrow> no_clash x \<Longrightarrow> eval T (int n) (int (n + length (toks x)) - 1) = sem x"
proof (induction x arbitrary: n)
  case (Num s)
  then show ?case by (subst eval.simps) (simp add: eval_atom_def)
next
  case (Reg s)
  then show ?case by (subst eval.simps) (simp add: eval_atom_def)
next
  case (Paren x)
  have "type_at T (int n) = TK_C CHR ''(''" "type_at T (int (n + length (toks (Paren x))) - 1) = TK_C CHR '')''"
    using Paren.prems(1) type_last[OF Paren.prems(1)] by (simp_all add: tok_def)
  then have "eval T (int n) (int (n + length (toks (Paren x))) - 1) = eval T (int n + 1) (int (n + length (toks (Paren x))) - 1 - 1)"
    by (subst eval.simps) simp
  also have "\<dots> = eval T (int (Suc n)) (int (Suc n + length (toks x)) - 1)" by (simp add: ac_simps)
  also have "\<dots> = sem x" using Paren.prems by (intro Paren.IH) simp_all
  finally show ?case by simp
next
  case (Una u x)
  let ?e = "int (n + length (toks (Una u x))) - 1"
  have u: "type_at T (int n) = un_tk u" using Una.prems by (simp add: tok_def)
  have "find_dominated_op T (int n) ?e = Dom (int n)" using find_op[of T n "Una u x"] Una.prems by auto
  moreover have "int n < ?e" using toks_nonempty[of x] by (cases "toks x") simp_all
  ultimately have "eval T (int n) ?e = on_success (eval T (int n + 1) ?e) (eval_unary (un_tk u))"
    using u by (subst eval.simps) (auto simp: op_types Let_def, (cases u; simp)+)
  also have "eval T (int n + 1) ?e = eval T (int (Suc n)) (int (Suc n + length (toks x)) - 1)" by (simp add: ac_simps)
  also have "\<dots> = sem x" using Una.prems by (intro Una.IH) simp_all
  finally show ?case by (simp add: eval_unary_sem[abs_def])
next
  case (Bin op x y)
  let ?e = "int (n + length (toks (Bin op x y))) - 1" and ?m = "n + length (toks x)"
  have m: "type_at T (int ?m) = bin_tk op" using Bin.prems by (simp add: tok_def nat_add_distrib)
  have "find_dominated_op T (int n) ?e = Dom (int ?m)" using find_op[of T n "Bin op x y"] Bin.prems by auto
  moreover have "\<not> (type_at T (int n) = TK_C CHR ''('' \<and> type_at T ?e = TK_C CHR '')'')"
    using Bin.prems at_hd[of T n "toks x"] type_last[OF Bin.prems(1)] by simp
  moreover have "int n < ?e" using toks_nonempty[of x] toks_nonempty[of y] by (cases "toks x"; cases "toks y") simp_all
  ultimately have "eval T (int n) ?e = on_success (eval T (int n) (int ?m - 1)) (\<lambda>v1.
      on_success (eval T (int ?m + 1) ?e) (eval_binary (bin_tk op) v1))"
    using m by (subst eval.simps) (auto simp: op_types Let_def)
  also have "eval T (int n) (int ?m - 1) = sem x" using Bin.prems by (intro Bin.IH(1)) simp_all
  also have "eval T (int ?m + 1) ?e = eval T (int (Suc ?m)) (int (Suc ?m + length (toks y)) - 1)" by (simp add: ac_simps)
  also have "\<dots> = sem y" using Bin.prems by (intro Bin.IH(2)) simp_all
  finally show ?case by (simp add: eval_binary_sem[abs_def])
qed

section \<open>Printing and lexing\<close>

fun tk_text :: "tk \<Rightarrow> string" where
  "tk_text TK_EQ = ''==''" | "tk_text TK_NEQ = ''!=''" | "tk_text TK_AND = ''&&''" | "tk_text TK_OR = ''||''"
| "tk_text TK_NEG = ''-''" | "tk_text TK_REF = ''*''" | "tk_text (TK_C c) = [c]" | "tk_text _ = []"

definition text_of :: "token \<Rightarrow> string" where
  "text_of t = (if tk_type t = TK_NUM \<or> tk_type t = TK_REG then tk_str t else tk_text (tk_type t))"

definition render :: "token list \<Rightarrow> string" where
  "render ts = concat (map (\<lambda>t. text_of t @ '' '') ts)"

text \<open>Texts of numbers and registers that the rules accept and the token buffer holds.\<close>

definition num_text :: "string \<Rightarrow> bool" where
  "num_text s \<longleftrightarrow> (\<exists>ds. s = ''0x'' @ ds \<and> list_all is_hex ds \<and> ds \<noteq> [] \<and> length ds \<le> 16) \<or>
     (list_all is_dec s \<and> s \<noteq> [] \<and> length s \<le> 10)"

definition reg_text :: "string \<Rightarrow> bool" where
  "reg_text s \<longleftrightarrow> (\<exists>r. s = ''$'' @ r \<and> list_all is_reg r \<and> r \<noteq> [] \<and> length r \<le> 30)"

fun atoms_ok :: "ex \<Rightarrow> bool" where
  "atoms_ok (Num s) \<longleftrightarrow> num_text s"
| "atoms_ok (Reg s) \<longleftrightarrow> reg_text s"
| "atoms_ok (Paren a) \<longleftrightarrow> atoms_ok a"
| "atoms_ok (Una u a) \<longleftrightarrow> atoms_ok a"
| "atoms_ok (Bin op a b) \<longleftrightarrow> atoms_ok a \<and> atoms_ok b"

text \<open>What the rules make of a token: they do not tell the unary operators from the binary ones.\<close>

definition raw :: "token \<Rightarrow> token" where
  "raw t = t\<lparr>tk_type := (if tk_type t = TK_NEG then TK_C CHR ''-'' else if tk_type t = TK_REF then TK_C CHR ''*'' else tk_type t)\<rparr>"

lemma rx_lit_match:
  "rx_match (rx_lit cs @ r) str =
     (if take (length cs) str = cs then map_option ((+) (length cs)) (rx_match r (drop (length cs) str)) else None)"
proof (induction cs arbitrary: str)
  case Nil
  then show ?case by (cases "rx_match r str") (simp_all add: rx_lit_def)
next
  case (Cons c cs)
  then show ?case
    by (cases str) (auto simp: rx_lit_def option.map_comp comp_def min_def)
qed

lemma rx_lit_only: "rx_match (rx_lit cs) str = (if take (length cs) str = cs then Some (length cs) else None)"
  using rx_lit_match[of cs "[]" str] by simp

lemma rx_class: "list_all p ds \<Longrightarrow> \<not> p c \<Longrightarrow> length ds \<le> h \<Longrightarrow> ds \<noteq> [] \<Longrightarrow>
    rx_match [(p, 1, Some h)] (ds @ c # cs) = Some (length ds)"
proof -
  assume a: "list_all p ds" "\<not> p c" "length ds \<le> h" "ds \<noteq> []"
  then have "takeWhile p (ds @ c # cs) = ds" by (auto simp: list_all_iff)
  with a show ?thesis by (cases ds) simp_all
qed

lemmas rule_eval = rules_def rx_lit_match rx_lit_only

lemma lex_symbol:
  assumes "t \<in> {TK_EQ, TK_NEQ, TK_AND, TK_OR, TK_NEG, TK_REF} \<union> TK_C ` set ''+-*/%!()''"
  shows "try_rules rules (tk_text t @ CHR '' '' # cs) = Some (tk_type (raw (tok t)), length (tk_text t))"
  using assms by (auto simp: rule_eval raw_def tok_def is_dec_def)

lemma digit_not: "is_dec c \<Longrightarrow> c \<notin> set '' +=$-*/%!&|()x''"
  by (auto simp: is_dec_def)

lemma lex_num:
  assumes "num_text s"
  shows "try_rules rules (s @ CHR '' '' # cs) = Some (TK_NUM, length s)"
  using assms unfolding num_text_def
proof (elim disjE exE conjE)
  fix ds assume "s = ''0x'' @ ds" "list_all is_hex ds" "ds \<noteq> []" "length ds \<le> 16"
  moreover from this have "rx_match [(is_hex, 1, Some 16)] (ds @ CHR '' '' # cs) = Some (length ds)"
    by (intro rx_class) (simp_all add: is_hex_def)
  ultimately show ?thesis by (simp add: rule_eval)
next
  assume a: "list_all is_dec s" "s \<noteq> []" "length s \<le> 10"
  then obtain c r where s: "s = c # r" by (cases s) auto
  obtain d rest where d: "s @ CHR '' '' # cs = c # d # rest" "d \<noteq> CHR ''x''"
    using a s digit_not by (cases r) (auto simp: is_dec_def)
  have "rx_match [(is_dec, 1, Some 10)] (s @ CHR '' '' # cs) = Some (length s)"
    using a by (intro rx_class) (simp_all add: is_dec_def)
  then have dec: "rx_match [(is_dec, 1, Some 10)] (c # d # rest) = Some (length s)" by (simp only: d)
  have sp: "rx_match [((=) CHR '' '', 1, None)] (c # d # rest) = None"
    using a s digit_not[of c] by auto
  show ?thesis unfolding d(1)
    using a s digit_not[of c] d(2) dec sp by (simp add: rule_eval del: rx_match.simps)
qed

lemma lex_reg:
  assumes "reg_text s"
  shows "try_rules rules (s @ CHR '' '' # cs) = Some (TK_REG, length s)"
proof -
  from assms obtain r where "s = ''$'' @ r" "list_all is_reg r" "r \<noteq> []" "length r \<le> 30" by (auto simp: reg_text_def)
  moreover from this have "rx_match [(is_reg, 1, Some 31)] (r @ CHR '' '' # cs) = Some (length r)"
    by (intro rx_class) (simp_all add: is_reg_def)
  ultimately show ?thesis by (simp add: rule_eval is_dec_def)
qed

text \<open>Tokens with a proper text.\<close>

definition plain :: "token \<Rightarrow> bool" where
  "plain t \<longleftrightarrow> (tk_type t = TK_NUM \<and> num_text (tk_str t)) \<or> (tk_type t = TK_REG \<and> reg_text (tk_str t)) \<or>
     (t = tok (tk_type t) \<and> tk_type t \<in> {TK_EQ, TK_NEQ, TK_AND, TK_OR, TK_NEG, TK_REF} \<union> TK_C ` set ''+-*/%!()'')"

lemma plain_toks: "atoms_ok x \<Longrightarrow> list_all plain (toks x)"
proof (induction x)
  case (Una u x)
  then show ?case by (cases u) (simp_all add: plain_def tok_def)
next
  case (Bin op x y)
  then show ?case by (cases op) (simp_all add: plain_def tok_def)
qed (auto simp: plain_def tok_def)

lemma lex_plain: "plain t \<Longrightarrow> try_rules rules (text_of t @ CHR '' '' # cs) = Some (tk_type (raw t), length (text_of t))"
  unfolding plain_def
  by (elim disjE conjE; use lex_num lex_reg lex_symbol[of "tk_type t" cs] in \<open>auto simp: text_of_def raw_def tok_def\<close>)

lemma text_start:
  assumes "plain t"
  shows "\<exists>c cs. text_of t = c # cs \<and> c \<noteq> CHR '' ''"
proof -
  have dec: "\<not> is_dec CHR '' ''" by (simp add: is_dec_def)
  have "num_text s \<Longrightarrow> \<exists>c cs. s = c # cs \<and> c \<noteq> CHR '' ''" for s
    unfolding num_text_def using dec by (cases s) auto
  moreover have "reg_text s \<Longrightarrow> \<exists>c cs. s = c # cs \<and> c \<noteq> CHR '' ''" for s
    unfolding reg_text_def by auto
  ultimately show ?thesis using assms unfolding plain_def text_of_def by auto
qed

lemma text_kept: "plain t \<Longrightarrow> (if tk_type (raw t) = TK_NUM \<or> tk_type (raw t) = TK_REG then text_of t else []) = tk_str (raw t)"
  by (auto simp: plain_def raw_def text_of_def tok_def)

lemma text_short: "plain t \<Longrightarrow> tk_type (raw t) = TK_NUM \<or> tk_type (raw t) = TK_REG \<Longrightarrow> length (text_of t) < 32"
  by (auto simp: plain_def raw_def text_of_def num_text_def reg_text_def)

lemma push_plain: "plain t \<Longrightarrow> length ts < 32 \<Longrightarrow> push_token (tk_type (raw t)) (text_of t) ts = Some (ts @ [raw t])"
proof -
  assume "plain t" "length ts < 32"
  moreover have "raw t = \<lparr>tk_type = tk_type (raw t), tk_str = tk_str (raw t)\<rparr>" by simp
  ultimately show ?thesis
    using text_short[of t] unfolding push_token_def Let_def text_kept[OF \<open>plain t\<close>] by (auto simp: NR_TOKEN_def)
qed

lemma render_start: "list_all plain ts \<Longrightarrow> render ts = [] \<or> (\<exists>c cs. render ts = c # cs \<and> c \<noteq> CHR '' '')"
  using text_start by (cases ts) (fastforce simp: render_def)+

lemma make_token_space:
  assumes "cs = [] \<or> (\<exists>c r. cs = c # r \<and> c \<noteq> CHR '' '')"
  shows "make_token (CHR '' '' # cs) ts = make_token cs ts"
proof -
  have "try_rules rules (CHR '' '' # cs) = Some (TK_NOTYPE, 1)"
    using assms by (auto simp: rules_def)
  then show ?thesis by (subst make_token.simps) simp
qed

lemma lex_render:
  "list_all plain ts \<Longrightarrow> length acc + length ts \<le> 32 \<Longrightarrow> make_token (render ts) acc = Tokens (acc @ map raw ts)"
proof (induction ts arbitrary: acc)
  case Nil
  then show ?case by (simp add: render_def make_token.simps)
next
  case (Cons t ts)
  obtain c cs where c: "text_of t = c # cs" "c \<noteq> CHR '' ''" using Cons.prems text_start[of t] by auto
  have e: "render (t # ts) = text_of t @ CHR '' '' # render ts" by (simp add: render_def)
  have ne: "tk_type (raw t) \<noteq> TK_NOTYPE" using Cons.prems by (auto simp: plain_def raw_def tok_def)
  have "make_token (render (t # ts)) acc = make_token (CHR '' '' # render ts) (acc @ [raw t])"
    using lex_plain[of t "render ts"] push_plain[of t acc] Cons.prems ne c
    unfolding e by (subst make_token.simps) simp
  also have "\<dots> = make_token (render ts) (acc @ [raw t])"
    using render_start[of ts] Cons.prems by (intro make_token_space) simp
  also have "\<dots> = Tokens (acc @ map raw (t # ts))" using Cons.prems by (subst Cons.IH) simp_all
  finally show ?case .
qed

section \<open>Telling the unary operators\<close>

definition operand_end :: "tk option \<Rightarrow> bool" where
  "operand_end p \<longleftrightarrow> p = Some (TK_C CHR '')'') \<or> p = Some TK_NUM \<or> p = Some TK_REG"

lemma toks_end: "operand_end (Some (tk_type (last (toks x))))"
  by (induction x) (simp_all add: operand_end_def tok_def)

lemma classify_toks:
  "\<not> operand_end prev \<Longrightarrow> classify prev (map raw (toks x) @ ts) = toks x @ classify (Some (tk_type (last (toks x)))) ts"
proof (induction x arbitrary: prev ts)
  case (Una u x)
  then show ?case by (cases u) (simp_all add: raw_def tok_def operand_end_def)
next
  case (Bin op x y)
  have b: "\<not> operand_end (Some (bin_tk op))" by (cases op) (simp_all add: operand_end_def)
  have op: "classify (Some (tk_type (last (toks x)))) (raw (tok (bin_tk op)) # r) = tok (bin_tk op) # classify (Some (bin_tk op)) r" for r
    using toks_end[of x] by (cases op) (simp_all add: raw_def tok_def operand_end_def)
  show ?case using Bin.IH(1)[OF Bin.prems] Bin.IH(2)[OF b] op by simp
qed (simp_all add: raw_def tok_def operand_end_def)



text \<open>An operator between two bracketed operands is rejected: the evaluator takes the first and the
  last bracket for a pair, removes them, and finds a closing bracket too many. The brackets of the first
  operand must not begin with another bracket.\<close>

theorem expr_bracket_clash:
  assumes "precise (Bin op (Paren a) (Paren b))" "atoms_ok a" "atoms_ok b" "length (toks a) + length (toks b) \<le> 27"
    "tk_type (hd (toks a)) \<noteq> TK_C CHR ''(''"
  shows "expr (render (toks (Bin op (Paren a) (Paren b)))) = ret None"
proof -
  let ?x = "Bin op (Paren a) (Paren b)"
  define T where "T = toks ?x"
  let ?e = "int (length T) - 2" and ?m = "1 + length (toks a)"
  have len: "length T = length (toks a) + length (toks b) + 5" by (simp add: T_def)
  have at: "at T 0 T" by (simp add: at_def)
  then have "at T 0 (toks ?x)" by (simp only: T_def)
  then have a: "at T 1 (toks a)" and m: "tk_type (T ! ?m) = TK_C CHR '')''" and s: "tk_type (T ! 0) = TK_C CHR ''(''"
    and e: "tk_type (T ! (length T - 1)) = TK_C CHR '')''" by (simp_all add: tok_def len ac_simps numeral_eq_Suc)
  have "dom_loop T (int 1) ?e 0 (-1) = dom_loop T (int ?m) ?e 0 (over T a 1 (-1))"
    using assms(1) by (intro scan_out[OF a]) (simp_all add: dom_ok_def len)
  also have "\<dots> = No_dom" using m by (rule step_stray) (simp add: len)
  finally have "find_dominated_op T 1 ?e = No_dom" by (simp add: find_dominated_op_def)
  moreover have "tk_type (T ! 1) \<noteq> TK_C CHR ''(''" using assms(5) at_hd[OF a] by simp
  moreover have "1 < ?e" by (simp add: len)
  ultimately have "eval T 1 ?e = ret None" by (subst eval.simps) simp
  moreover have "eval T 0 (int (length T) - 1) = eval T 1 ?e"
  proof -
    have "nat (int (length T) - 1) = length T - 1" by (simp add: len)
    then have "type_at T (int (length T) - 1) = TK_C CHR '')''" using e by (simp only:)
    then show ?thesis using s by (subst eval.simps) (simp add: len)
  qed
  moreover have "make_token (render T) [] = Tokens (map raw T)"
    using lex_render[OF plain_toks[of ?x], of "[]"] assms(2-4) by (simp add: T_def)
  moreover have "classify None (map raw T) = T"
    using classify_toks[of None ?x "[]"] by (simp add: operand_end_def T_def del: toks.simps)
  ultimately show ?thesis by (simp add: expr_def T_def del: toks.simps)
qed

theorem expr_bracket_clash_witness:
  "expr ''( 1 ) + ( 2 ) '' = ret None"
proof -
  have "expr (render (toks (Bin BAdd (Paren (Num ''1'')) (Paren (Num ''2''))))) = ret None"
    by (intro expr_bracket_clash) (simp_all add: num_text_def is_dec_def)
  then show ?thesis by (simp add: render_def text_of_def tok_def)
qed

end
