(* ===== verification/Bitmanip.thy ===== *)
theory Bitmanip
  imports Operands ExecB
begin

text \<open>
  The bit-manipulation intrinsics against their bit-level specifications: byte reversal and or-combine,
  carry-less products, rotations, bit counts, and the shift-and-add forms with an unsigned word.
\<close>

section \<open>Byte reversal and or-combine\<close>

text \<open>A statement about the 64 bit positions, position by position.\<close>

lemma all64: "(\<forall>i<64::nat. P i) \<longleftrightarrow> list_all P
    [0, 1, 2, 3, 4, 5, 6, 7, 8, 9, 10, 11, 12, 13, 14, 15, 16, 17, 18, 19, 20, 21, 22, 23, 24, 25, 26,
     27, 28, 29, 30, 31, 32, 33, 34, 35, 36, 37, 38, 39, 40, 41, 42, 43, 44, 45, 46, 47, 48, 49, 50, 51,
     52, 53, 54, 55, 56, 57, 58, 59, 60, 61, 62, 63]"
proof -
  have l: "[0..<64] =
    [0, 1, 2, 3, 4, 5, 6, 7, 8, 9, 10, 11, 12, 13, 14, 15, 16, 17, 18, 19, 20, 21, 22, 23, 24, 25, 26,
     27, 28, 29, 30, 31, 32, 33, 34, 35, 36, 37, 38, 39, 40, 41, 42, 43, 44, 45, 46, 47, 48, 49, 50, 51,
     52, 53, 54, 55, 56, 57, 58, 59, 60, 61, 62, 63]"
    by code_simp
  have "(\<forall>i<64. P i) \<longleftrightarrow> list_all P [0..<64]" by (auto simp: list_all_iff)
  then show ?thesis by (simp only: l)
qed

lemma ex8: "(\<exists>j<8::nat. Q j) \<longleftrightarrow> Q 0 \<or> Q 1 \<or> Q 2 \<or> Q 3 \<or> Q 4 \<or> Q 5 \<or> Q 6 \<or> Q 7"
  by (simp add: eval_nat_numeral Ex_less_Suc) blast

lemma bit_grev_stage: "i < 64 \<Longrightarrow> bit (grev_stage k lo hi sh x) i =
    (if sh AND of_nat k \<noteq> 0 then k \<le> i \<and> bit lo (i - k) \<and> bit x (i - k) \<or> bit hi (i + k) \<and> bit x (i + k)
     else bit x i)"
  by (auto simp: grev_stage_def bit_simps add.commute)

lemma bit_gorc_stage: "i < 64 \<Longrightarrow> bit (gorc_stage k lo hi sh x) i =
    (bit x i \<or> sh AND of_nat k \<noteq> 0 \<and>
       (k \<le> i \<and> bit lo (i - k) \<and> bit x (i - k) \<or> bit hi (i + k) \<and> bit x (i + k)))"
  by (auto simp: gorc_stage_def bit_simps add.commute)

lemma bit_rev8_at: "\<forall>i<64. bit (rv_rev8 x) i = bit x (8 * (7 - i div 8) + i mod 8)"
  by (simp only: all64 list.pred_inject rv_rev8_def rv_grev_def Let_def) (simp add: bit_grev_stage flip: numeral_2_eq_2)

text \<open>The partner of position \<open>i\<close> in the stage of distance \<open>k\<close>.\<close>

definition flip :: "nat \<Rightarrow> nat \<Rightarrow> nat" where
  "flip k i = (if even (i div k) then i + k else i - k)"

lemma masks1: "\<forall>i<64. bit (0x5555555555555555 :: uint64) i = even (i div 1) \<and> bit (0xAAAAAAAAAAAAAAAA :: uint64) i = odd (i div 1)"
  by (simp only: all64 list.pred_inject) simp

lemma masks2: "\<forall>i<64. bit (0x3333333333333333 :: uint64) i = even (i div 2) \<and> bit (0xCCCCCCCCCCCCCCCC :: uint64) i = odd (i div 2)"
  by (simp only: all64 list.pred_inject) simp

lemma masks4: "\<forall>i<64. bit (0x0F0F0F0F0F0F0F0F :: uint64) i = even (i div 4) \<and> bit (0xF0F0F0F0F0F0F0F0 :: uint64) i = odd (i div 4)"
  by (simp only: all64 list.pred_inject) simp

lemma gorc_flip:
  assumes "\<forall>i<64. bit lo i = even (i div k) \<and> bit hi i = odd (i div k)" "k \<in> {1, 2, 4}"
    "sh AND of_nat k \<noteq> 0" "i < 64"
  shows "bit (gorc_stage k lo hi sh x) i = (bit x i \<or> bit x (flip k i))"
proof (cases "even (i div k)")
  case True
  then have l: "i + k < 64" "i + k < 64 \<Longrightarrow> odd ((i + k) div k)" using assms(2,4) by (auto; presburger)+
  have "k \<le> i \<Longrightarrow> odd ((i - k) div k)" using True assms(2) by (auto; presburger)
  with True l assms show ?thesis by (auto simp: bit_gorc_stage flip_def)
next
  case False
  then have "k \<le> i" using assms(2) by (auto; presburger)
  moreover have "k \<le> i \<Longrightarrow> even ((i - k) div k)" using False assms(2) by (auto; presburger)
  moreover have "even ((i + k) div k)" using False assms(2) by (auto; presburger)
  ultimately show ?thesis using False assms bit_imp_le_length[of hi "i + k"]
    by (cases "i + k < 64") (auto simp: bit_gorc_stage flip_def)
qed

lemma flip_add:
  assumes "k \<in> {1, 2, 4}"
  shows "flip k (8 * b + r) = 8 * b + flip k r"
proof -
  from assms obtain c where c: "8 = k * c" "even c" "0 < k" by auto
  then have "(8 * b + r) div k = c * b + r div k"
    by (metis div_mult_self3 mult.assoc neq0_conv mult.commute)
  moreover have "odd (r div k) \<Longrightarrow> k \<le> r" by (metis div_less even_zero not_le)
  ultimately show ?thesis using c(2) by (auto simp: flip_def)
qed

lemma flip_less: "k \<in> {1, 2, 4} \<Longrightarrow> i < 64 \<Longrightarrow> flip k i < 64"
proof -
  assume k: "k \<in> {1, 2, 4}" and "i < 64"
  define b r where "b = i div 8" and "r = i mod 8"
  with \<open>i < 64\<close> have i: "i = 8 * b + r" "b < 8" "r < 8" by auto
  then have "r = 0 \<or> r = 1 \<or> r = 2 \<or> r = 3 \<or> r = 4 \<or> r = 5 \<or> r = 6 \<or> r = 7" by presburger
  with k have "flip k r < 8" by (elim disjE insertE emptyE) (simp_all add: flip_def)
  with i k show ?thesis by (simp add: flip_add)
qed

lemma flip_table:
  "flip 1 0 = 1" "flip 1 1 = 0" "flip 1 2 = 3" "flip 1 3 = 2" "flip 1 4 = 5" "flip 1 5 = 4" "flip 1 6 = 7" "flip 1 7 = 6"
  "flip 2 0 = 2" "flip 2 1 = 3" "flip 2 2 = 0" "flip 2 3 = 1" "flip 2 4 = 6" "flip 2 5 = 7" "flip 2 6 = 4" "flip 2 7 = 5"
  "flip 4 0 = 4" "flip 4 1 = 5" "flip 4 2 = 6" "flip 4 3 = 7" "flip 4 4 = 0" "flip 4 5 = 1" "flip 4 6 = 2" "flip 4 7 = 3"
  by (simp_all add: flip_def)

lemma flip_reach:
  assumes "r < 8"
  shows "(\<exists>j<8. Q j) \<longleftrightarrow>
    (((Q r \<or> Q (flip 1 r)) \<or> (Q (flip 2 r) \<or> Q (flip 1 (flip 2 r)))) \<or>
     ((Q (flip 4 r) \<or> Q (flip 1 (flip 4 r))) \<or>
      (Q (flip 2 (flip 4 r)) \<or> Q (flip 1 (flip 2 (flip 4 r))))))"
proof -
  from assms have "r = 0 \<or> r = 1 \<or> r = 2 \<or> r = 3 \<or> r = 4 \<or> r = 5 \<or> r = 6 \<or> r = 7" by presburger
  then show ?thesis unfolding ex8 by (elim disjE; hypsubst; simp only: flip_table; argo)
qed

lemma orc_b_stages: "rv_orc_b x =
    gorc_stage 4 0x0F0F0F0F0F0F0F0F 0xF0F0F0F0F0F0F0F0 7
      (gorc_stage 2 0x3333333333333333 0xCCCCCCCCCCCCCCCC 7
        (gorc_stage 1 0x5555555555555555 0xAAAAAAAAAAAAAAAA 7 x))"
  by (simp add: rv_orc_b_def rv_gorc_def gorc_stage_def)

lemma bit_orc_b_flip:
  assumes i: "i < 64"
  shows "bit (rv_orc_b x) i =
    (((bit x i \<or> bit x (flip 1 i)) \<or> (bit x (flip 2 i) \<or> bit x (flip 1 (flip 2 i)))) \<or>
     ((bit x (flip 4 i) \<or> bit x (flip 1 (flip 4 i))) \<or>
      (bit x (flip 2 (flip 4 i)) \<or> bit x (flip 1 (flip 2 (flip 4 i))))))"
proof -
  have g1: "j < 64 \<Longrightarrow> bit (gorc_stage 1 0x5555555555555555 0xAAAAAAAAAAAAAAAA 7 y) j = (bit y j \<or> bit y (flip 1 j))" for y j
    by (rule gorc_flip[OF masks1]) simp_all
  have g2: "j < 64 \<Longrightarrow> bit (gorc_stage 2 0x3333333333333333 0xCCCCCCCCCCCCCCCC 7 y) j = (bit y j \<or> bit y (flip 2 j))" for y j
    by (rule gorc_flip[OF masks2]) simp_all
  have g4: "j < 64 \<Longrightarrow> bit (gorc_stage 4 0x0F0F0F0F0F0F0F0F 0xF0F0F0F0F0F0F0F0 7 y) j = (bit y j \<or> bit y (flip 4 j))" for y j
    by (rule gorc_flip[OF masks4]) simp_all
  have l: "flip 4 i < 64" "flip 2 i < 64" "flip 2 (flip 4 i) < 64" using i by (simp_all add: flip_less)
  show ?thesis unfolding orc_b_stages by (simp only: g1 g2 g4 i l)
qed

lemma bit_orc_b_at:
  assumes "i < 64"
  shows "bit (rv_orc_b x) i = (\<exists>j<8. bit x (8 * (i div 8) + j))"
proof -
  define b r where "b = i div 8" and "r = i mod 8"
  then have e: "8 * b + r = i" and r: "r < 8" by simp_all
  have k: "1 \<in> {1, 2, 4 :: nat}" "2 \<in> {1, 2, 4 :: nat}" "4 \<in> {1, 2, 4 :: nat}" by simp_all
  have "8 * b + r < 64" using assms e by simp
  then have "bit (rv_orc_b x) (8 * b + r) = (\<exists>j<8. bit x (8 * b + j))"
    using flip_reach[OF r, of "\<lambda>j. bit x (8 * b + j)"] by (simp only: bit_orc_b_flip flip_add k)
  then show ?thesis unfolding e unfolding b_def .
qed

text \<open>\<open>rev8\<close> reverses the bytes of a doubleword and \<open>orc.b\<close> sets every byte that has a set bit to
  all ones and leaves the zero bytes.\<close>

theorem rev8_orc_b_spec:
  "(bit (rv_rev8 x) i \<longleftrightarrow> i < 64 \<and> bit x (8 * (7 - i div 8) + i mod 8)) \<and>
   (bit (rv_orc_b x) i \<longleftrightarrow> i < 64 \<and> (\<exists>j<8. bit x (8 * (i div 8) + j)))"
proof (cases "i < 64")
  case True
  with bit_rev8_at[of x] bit_orc_b_at[OF True, of x] show ?thesis by (simp only: simp_thms)
next
  case False
  then show ?thesis by (auto dest: bit_imp_le_length)
qed

section \<open>Carry-less products\<close>

text \<open>The coefficient of degree \<open>n\<close> of the product of two polynomials over the field with two elements.\<close>

definition cl_coeff :: "uint64 \<Rightarrow> uint64 \<Rightarrow> nat \<Rightarrow> bool" where
  "cl_coeff a b n = odd (card {i. i \<le> n \<and> bit b i \<and> bit a (n - i)})"

lemma bit_clmul_loop:
  "bit (clmul_loop t b is) n \<longleftrightarrow> odd (length (filter (\<lambda>i. bit b i \<and> bit (t i) n) is))"
proof -
  have g: "bit (fold (\<lambda>i x. if drop_bit i b AND 1 \<noteq> 0 then x XOR t i else x) is x) n \<longleftrightarrow>
    (bit x n \<noteq> odd (length (filter (\<lambda>i. bit b i \<and> bit (t i) n) is)))" for x
  proof (induction "is" arbitrary: x)
    case (Cons i "is")
    have "drop_bit i b AND 1 \<noteq> 0 \<longleftrightarrow> bit b i" by (simp add: and_one_eq bit_iff_odd_drop_bit odd_iff_mod_2_eq_one)
    with Cons show ?case by (auto simp: bit_simps)
  qed simp
  show ?thesis by (simp add: clmul_loop_def g)
qed

lemma length_filter_card: "length (filter P [m..<n]) = card {i. m \<le> i \<and> i < n \<and> P i}"
proof -
  have "length (filter P [m..<n]) = card (set (filter P [m..<n]))" by (rule distinct_card[symmetric]) simp
  also have "set (filter P [m..<n]) = {i. m \<le> i \<and> i < n \<and> P i}" by auto
  finally show ?thesis .
qed

lemma bit_clmul_window:
  assumes "\<And>i. m \<le> i \<Longrightarrow> i < 64 \<Longrightarrow> bit (t i) n \<longleftrightarrow> n < 64 \<and> i \<le> n + w \<and> bit a (n + w - i)"
    and "\<And>i. i < m \<Longrightarrow> \<not> (i \<le> n + w \<and> bit a (n + w - i))" "n < 64"
  shows "bit (clmul_loop t b [m..<64]) n \<longleftrightarrow> cl_coeff a b (n + w)"
proof -
  have "(m \<le> i \<and> i < 64 \<and> bit b i \<and> bit (t i) n) \<longleftrightarrow> (i \<le> n + w \<and> bit b i \<and> bit a (n + w - i))" for i
  proof (cases "bit b i")
    case True
    then have "i < 64" using bit_imp_le_length by force
    with True assms(1)[of i] assms(2)[of i] assms(3) show ?thesis by (cases "m \<le> i") auto
  qed simp
  then show ?thesis by (simp add: bit_clmul_loop length_filter_card cl_coeff_def)
qed

text \<open>Property C36: \<open>clmul\<close>, \<open>clmulh\<close> and \<open>clmulr\<close> are the windows of one carry-less product at the
  coefficients 0, 64 and 63.\<close>

theorem clmul_spec:
  "(bit (rv_clmul a b) n \<longleftrightarrow> n < 64 \<and> cl_coeff a b n) \<and>
   (bit (rv_clmulh a b) n \<longleftrightarrow> n < 64 \<and> cl_coeff a b (n + 64)) \<and>
   (bit (rv_clmulr a b) n \<longleftrightarrow> n < 64 \<and> cl_coeff a b (n + 63))"
proof (cases "n < 64")
  case True
  have "bit (rv_clmul a b) n \<longleftrightarrow> cl_coeff a b (n + 0)"
    unfolding rv_clmul_def by (rule bit_clmul_window) (use True in \<open>auto simp: bit_simps\<close>)
  moreover have "bit (rv_clmulh a b) n \<longleftrightarrow> cl_coeff a b (n + 64)"
    unfolding rv_clmulh_def
    by (rule bit_clmul_window) (use True in \<open>auto simp: bit_simps ac_simps dest: bit_imp_le_length\<close>)
  moreover have "bit (rv_clmulr a b) n \<longleftrightarrow> cl_coeff a b (n + 63)"
    unfolding rv_clmulr_def
    by (rule bit_clmul_window) (use True in \<open>auto simp: bit_simps ac_simps dest: bit_imp_le_length\<close>)
  ultimately show ?thesis using True by simp
next
  case False
  then show ?thesis by (auto dest: bit_imp_le_length)
qed

section \<open>Rotations\<close>

lemma unat_and_mask: "unat (x AND mask n) = unat x mod 2 ^ n"
  by (simp flip: take_bit_eq_mask take_bit_eq_mod add: unsigned_take_bit_eq)

lemma sh6_mod: "sh6 x = unat x mod 64"
  using unat_and_mask[of x 6] by (simp add: sh6_def mask_numeral)

lemma sh5_mod: "sh5 x = unat x mod 32"
  using unat_and_mask[of x 5] by (simp add: sh5_def mask_numeral)

lemma mod_neg: "0 < m \<Longrightarrow> 0 < b \<Longrightarrow> m dvd b \<Longrightarrow> nat ((- int n) mod int b) mod m = (m - n mod m) mod m"
proof -
  assume m: "0 < m" "0 < b" "m dvd b"
  have "int (nat ((- int n) mod int b) mod m) = (- int n) mod int b mod int m"
    using m by (simp add: zmod_int)
  also have "\<dots> = (- int n) mod int m" using m by (simp add: mod_mod_cancel)
  also have "\<dots> = int ((m - n mod m) mod m)"
    using m by (simp add: zmod_zminus1_eq_if zmod_int of_nat_diff mod_le_divisor less_imp_le)
  finally show ?thesis by (simp only: of_nat_eq_iff)
qed

lemma unat_uminus: "unat (- x :: 'a :: len word) = nat ((- int (unat x)) mod 2 ^ LENGTH('a))"
  unfolding unat_eq_nat_uint uint_word_ariths by simp

lemma sh6_uminus: "sh6 (- x) = (64 - sh6 x) mod 64"
  using mod_neg[of 64 "2 ^ 64" "unat x"] by (simp add: sh6_mod unat_uminus)

lemma sh5_uminus: "sh5 (- x) = (32 - sh5 x) mod 32"
  using mod_neg[of 32 "2 ^ 32" "unat x"] by (simp add: sh5_mod unat_uminus)

lemma shifts_rotl:
  assumes "k < LENGTH('a :: len)"
  shows "push_bit k w OR drop_bit ((LENGTH('a) - k) mod LENGTH('a)) w = word_rotl k (w :: 'a word)"
proof (rule bit_word_eqI)
  fix n assume n: "n < LENGTH('a)"
  show "bit (push_bit k w OR drop_bit ((LENGTH('a) - k) mod LENGTH('a)) w) n = bit (word_rotl k w) n"
  proof (cases "k = 0 \<or> k \<le> n")
    case True
    then have "(n + (LENGTH('a) - k)) mod LENGTH('a) = n - k" using n assms by (auto simp: mod_if)
    moreover have "(LENGTH('a) - k) mod LENGTH('a) = (if k = 0 then 0 else LENGTH('a) - k)" by simp
    ultimately show ?thesis using True n assms by (auto simp: bit_simps dest: bit_imp_le_length)
  next
    case False
    with n assms show ?thesis by (auto simp: bit_simps add.commute)
  qed
qed

lemma shifts_rotr:
  assumes "k < LENGTH('a :: len)"
  shows "drop_bit k w OR push_bit ((LENGTH('a) - k) mod LENGTH('a)) w = word_rotr k (w :: 'a word)"
proof (rule bit_word_eqI)
  fix n assume n: "n < LENGTH('a)"
  show "bit (drop_bit k w OR push_bit ((LENGTH('a) - k) mod LENGTH('a)) w) n = bit (word_rotr k w) n"
  proof (cases "k = 0 \<or> n + k < LENGTH('a)")
    case True
    moreover have "(LENGTH('a) - k) mod LENGTH('a) = (if k = 0 then 0 else LENGTH('a) - k)" by simp
    ultimately show ?thesis using n assms by (auto simp: bit_simps add.commute)
  next
    case False
    then have "(n + k) mod LENGTH('a) = n - (LENGTH('a) - k)" using n assms by (auto simp: mod_if)
    with False n assms show ?thesis by (auto simp: bit_simps dest: bit_imp_le_length)
  qed
qed

text \<open>The rotations \<open>rol\<close>, \<open>ror\<close> and their word forms rotate by the low six (five) bits of the
  second operand; the word forms sign-extend the rotated word.\<close>

theorem rotate_spec:
  "rv_rol a b = word_rotl (unat b mod 64) a \<and> rv_ror a b = word_rotr (unat b mod 64) a \<and>
   rv32_rol a b = scast (word_rotl (unat b mod 32) (ucast a :: uint32)) \<and>
   rv32_ror a b = scast (word_rotr (unat b mod 32) (ucast a :: uint32))"
proof (intro conjI)
  have w: "sh5 (ucast b) = unat b mod 32" by (simp add: sh5_mod unsigned_ucast_eq take_bit_eq_mod mod_mod_cancel)
  have l: "sh6 b < 64" "sh5 (ucast b) < 32" by (simp_all add: sh6_mod sh5_mod)
  show "rv_rol a b = word_rotl (unat b mod 64) a"
    using shifts_rotl[of "sh6 b" a] l by (simp add: rv_rol_def rv_sll_def rv_srl_def sh6_uminus flip: sh6_mod)
  show "rv_ror a b = word_rotr (unat b mod 64) a"
    using shifts_rotr[of "sh6 b" a] l by (simp add: rv_ror_def rv_sll_def rv_srl_def sh6_uminus flip: sh6_mod)
  show "rv32_rol a b = scast (word_rotl (unat b mod 32) (ucast a :: uint32))"
    using shifts_rotl[of "sh5 (ucast b)" "ucast a :: uint32"] l
    by (simp add: rv32_rol_def rv32_sll_def rv32_srl_def sh5_uminus flip: w)
  show "rv32_ror a b = scast (word_rotr (unat b mod 32) (ucast a :: uint32))"
    using shifts_rotr[of "sh5 (ucast b)" "ucast a :: uint32"] l
    by (simp add: rv32_ror_def rv32_sll_def rv32_srl_def sh5_uminus flip: w)
qed

section \<open>Bit counts\<close>

text \<open>The positions of the set bits of a doubleword, and of its low word.\<close>

definition ones :: "uint64 \<Rightarrow> nat set" where "ones x = {i. bit x i}"
definition ones32 :: "uint64 \<Rightarrow> nat set" where "ones32 x = {i. i < 32 \<and> bit x i}"

lemma ctz_Min:
  assumes "bit x m" "\<And>i. bit x i \<Longrightarrow> m \<le> i" "m < n"
  shows "builtin_ctz n x = m"
proof -
  have "[0..<n] = [0..<m] @ m # [Suc m..<n]"
    using assms(3) upt_add_eq_append[of 0 m "n - m"] by (simp add: upt_conv_Cons)
  moreover have "takeWhile (\<lambda>i. \<not> bit x i) ([0..<m] @ m # [Suc m..<n]) = [0..<m]"
    using assms by (subst takeWhile_append2) (auto simp flip: not_le)
  ultimately show ?thesis by (simp add: builtin_ctz_def)
qed

lemma clz_Max:
  assumes "bit x m" "\<And>i. bit x i \<Longrightarrow> i \<le> m" "m < n"
  shows "builtin_clz n x = n - 1 - m"
proof -
  have "[0..<n] = [0..<m] @ m # [Suc m..<n]"
    using assms(3) upt_add_eq_append[of 0 m "n - m"] by (simp add: upt_conv_Cons)
  then have "rev [0..<n] = rev [Suc m..<n] @ m # rev [0..<m]" by simp
  moreover have "takeWhile (\<lambda>i. \<not> bit x i) (rev [Suc m..<n] @ m # rev [0..<m]) = rev [Suc m..<n]"
    using assms by (subst takeWhile_append2) force+
  ultimately show ?thesis by (simp add: builtin_clz_def)
qed

lemma popcount_card:
  assumes "\<And>i. bit x i \<Longrightarrow> i < n"
  shows "builtin_popcount n x = card (ones x)"
  using assms by (auto simp: builtin_popcount_def length_filter_card ones_def intro: arg_cong[where f = card])

lemma mem_ones: "i \<in> ones x \<longleftrightarrow> bit x i"
  by (simp add: ones_def)

lemma bit_less64: "bit (x :: uint64) i \<Longrightarrow> i < 64"
  using bit_imp_le_length[of x i] by simp

lemma ones_finite: "finite (ones x)"
  by (rule finite_subset[of _ "{..<64}"]) (auto simp: mem_ones bit_less64)

lemma ones_empty: "ones x = {} \<longleftrightarrow> x = 0"
  using bit_less64[of x] by (auto simp: ones_def bit_eq_iff)

lemma ones_low32: "ones (low32 x) = ones32 x"
  by (auto simp: ones_def ones32_def low32_def bit_simps dest: bit_imp_le_length)

lemma counts:
  assumes b: "\<And>i. bit x i \<Longrightarrow> i < n" and n: "n \<le> 64"
  shows "unat (if x \<noteq> 0 then of_nat (builtin_clz n x) else of_nat n :: uint64) =
      (if ones x = {} then n else n - 1 - Max (ones x))"
    and "unat (if x \<noteq> 0 then of_nat (builtin_ctz n x) else of_nat n :: uint64) =
      (if ones x = {} then n else Min (ones x))"
    and "unat (of_nat (builtin_popcount n x) :: uint64) = card (ones x)"
proof -
  have u: "unat (of_nat k :: uint64) = k" if "k \<le> 64" for k
    using that by (simp add: unsigned_of_nat take_bit_nat_eq_self)
  have M: "x \<noteq> 0 \<Longrightarrow> bit x (Max (ones x))" "x \<noteq> 0 \<Longrightarrow> bit x (Min (ones x))"
    "bit x i \<Longrightarrow> i \<le> Max (ones x)" "bit x i \<Longrightarrow> Min (ones x) \<le> i" for i
    using Max_in[OF ones_finite[of x]] Min_in[OF ones_finite[of x]]
      Max_ge[OF ones_finite[of x]] Min_le[OF ones_finite[of x]] by (simp_all add: mem_ones ones_empty)
  have c: "builtin_clz n x = n - 1 - Max (ones x)" if "x \<noteq> 0"
    using M that b by (intro clz_Max) auto
  show "unat (if x \<noteq> 0 then of_nat (builtin_clz n x) else of_nat n :: uint64) =
      (if ones x = {} then n else n - 1 - Max (ones x))"
    using c n by (simp add: u ones_empty)
  have z: "builtin_ctz n x = Min (ones x)" if "x \<noteq> 0"
    using M that b by (intro ctz_Min) auto
  have "Min (ones x) \<le> 64" if "x \<noteq> 0" using b[OF M(2)[OF that]] n by simp
  with z n show "unat (if x \<noteq> 0 then of_nat (builtin_ctz n x) else of_nat n :: uint64) =
      (if ones x = {} then n else Min (ones x))"
    by (simp add: u ones_empty)
  have "ones x \<subseteq> {..<n}" using b by (auto simp: mem_ones)
  from card_mono[OF _ this] n have "card (ones x) \<le> 64" by simp
  then show "unat (of_nat (builtin_popcount n x) :: uint64) = card (ones x)"
    using b by (simp add: popcount_card u)
qed

text \<open>The counts: \<open>clz\<close> counts the zeros above the highest set bit, \<open>ctz\<close> the zeros below the
  lowest, \<open>cpop\<close> the set bits; a zero operand counts as the full width, and the word forms look at the low
  32 bits only.\<close>

theorem count_spec:
  "unat (rv_clz x) = (if ones x = {} then 64 else 63 - Max (ones x)) \<and>
   unat (rv_ctz x) = (if ones x = {} then 64 else Min (ones x)) \<and>
   unat (rv_cpop x) = card (ones x) \<and>
   unat (rv32_clz x) = (if ones32 x = {} then 32 else 31 - Max (ones32 x)) \<and>
   unat (rv32_ctz x) = (if ones32 x = {} then 32 else Min (ones32 x)) \<and>
   unat (rv32_cpop x) = card (ones32 x)"
proof -
  note l = bit_less64[of x]
  have l32: "bit (low32 x) i \<Longrightarrow> i < 32" for i
    using mem_ones[of i "low32 x"] by (simp add: ones_low32 ones32_def)
  show ?thesis
    using counts[of x 64, OF l] counts[of "low32 x" 32, OF l32]
    unfolding rv_clz_def rv_ctz_def rv_cpop_def rv32_clz_def rv32_ctz_def rv32_cpop_def ones_low32 Let_def
    by (simp only: of_nat_numeral ones_low32) simp
qed

section \<open>Shift and add with an unsigned word\<close>

lemma unat_ucast_up: "unat (ucast (a :: uint32) :: uint64) = unat a"
  using unsigned_less[of a, where 'a = nat] by (simp add: unsigned_ucast_eq take_bit_nat_eq_self)

lemma shift_word_agree:
  assumes "k < 32"
  shows "ucast (push_bit k (a :: uint32)) = push_bit k (ucast a :: uint64) \<longleftrightarrow> unat a * 2 ^ k < 2 ^ 32"
proof -
  have a: "unat a < 2 ^ 32" using unsigned_less[of a] by simp
  have "unat a * 2 ^ k < 2 ^ 32 * 2 ^ 32"
    using assms a power_strict_increasing[of k 32 "2 :: nat"] by (intro mult_strict_mono) auto
  moreover have "unat (push_bit k (ucast a :: uint64)) = take_bit 64 (push_bit k (unat a))"
    using a by (simp add: unsigned_push_bit_eq unsigned_ucast_eq take_bit_nat_eq_self del: push_bit_of_nat)
  ultimately have l: "unat (push_bit k (ucast a :: uint64)) = unat a * 2 ^ k"
    by (simp add: push_bit_eq_mult take_bit_nat_eq_self)
  have "unat (ucast (push_bit k a) :: uint64) = unat (push_bit k a)" by (rule unat_ucast_up)
  also have "\<dots> = take_bit 32 (push_bit k (unat a))" by (simp add: unsigned_push_bit_eq del: push_bit_of_nat)
  finally have r: "unat (ucast (push_bit k a) :: uint64) = unat a * 2 ^ k mod 2 ^ 32"
    by (simp add: push_bit_eq_mult take_bit_eq_mod)
  have "n mod 2 ^ 32 = n \<longleftrightarrow> n < 2 ^ 32" for n :: nat
    using mod_less_divisor[of "2 ^ 32" n] by (auto simp del: mod_less_divisor)
  then show ?thesis by (simp only: word_unat_eq_iff l r)
qed

text \<open>\<open>slli.uw\<close> and the \<open>shNadd.uw\<close> forms shift the zero-extended word, as the extension
  defines them, exactly when no bit leaves the low 32 bits: the C code shifts a \<open>uint32_t\<close>.\<close>

theorem shift_uw_agree:
  "(op_slliuw a i = push_bit (unat (i AND 31)) (a AND 0xFFFFFFFF) \<longleftrightarrow>
      unat (a AND 0xFFFFFFFF) * 2 ^ unat (i AND 31) < 2 ^ 32) \<and>
   (op_shadduw 1 a b = push_bit 1 (a AND 0xFFFFFFFF) + b \<longleftrightarrow> unat (a AND 0xFFFFFFFF) * 2 < 2 ^ 32) \<and>
   (op_shadduw 2 a b = push_bit 2 (a AND 0xFFFFFFFF) + b \<longleftrightarrow> unat (a AND 0xFFFFFFFF) * 4 < 2 ^ 32) \<and>
   (op_shadduw 3 a b = push_bit 3 (a AND 0xFFFFFFFF) + b \<longleftrightarrow> unat (a AND 0xFFFFFFFF) * 8 < 2 ^ 32)"
proof -
  have z: "a AND 0xFFFFFFFF = ucast (ucast a :: uint32)"
  proof -
    have "a AND 0xFFFFFFFF = take_bit 32 a" by (simp add: take_bit_eq_mask mask_numeral)
    also have "\<dots> = ucast (ucast a :: uint32)" by (rule bit_word_eqI) (simp add: bit_simps)
    finally show ?thesis .
  qed
  have "unat (i AND 31) < 32" using unat_and_mask[of i 5] by (simp add: mask_numeral)
  from shift_word_agree[OF this, of "ucast a"] shift_word_agree[of 1 "ucast a"]
    shift_word_agree[of 2 "ucast a"] shift_word_agree[of 3 "ucast a"]
  show ?thesis unfolding z unat_ucast_up by (simp add: op_slliuw_def op_shadduw_def)
qed

end
