(* ===== verification/Tcache.thy ===== *)
theory Tcache
  imports CpuExec
begin

text \<open>
  The translation cache of the performance build (\<open>src/cpu/tcache.c\<close> with the configuration
  \<open>riscv64-xs_defconfig\<close>, run-time checks on, and the memory layout of the committed
  \<open>autoconf.h\<close>, in which \<open>paddr_t\<close> has 32 bits; the larger memory of that configuration would make it
  64): the table of basic blocks, the pool of decoded
  instructions, the list of placeholder records for block exits that are not decoded yet, and the
  decoder that grows blocks and links them. The static arrays of \<open>Decode\<close> form one store indexed by
  pointers, and so do the two arrays of \<open>bb_t\<close>. The pointers \<open>NULL\<close> and \<open>(void *)-1\<close> are kept
  apart; an access through either is a fault of the host.
\<close>

section \<open>Data\<close>

definition TCACHE_SIZE :: nat where "TCACHE_SIZE = 8192"
definition BB_LIST_SIZE :: nat where "BB_LIST_SIZE = 1024"
definition BB_POOL_SIZE :: nat where "BB_POOL_SIZE = 1024"
definition ILEN_MIN :: uint64 where "ILEN_MIN = 2"
definition TCACHE_BB_SIZE :: nat where "TCACHE_BB_SIZE = TCACHE_SIZE div 4 + 2"

text \<open>A \<open>Decode *\<close>: into \<open>tcache_pool\<close>, into \<open>tcache_bb_pool\<close>, or the static record \<open>ex\<close>.\<close>

datatype dptr = DNull | DWild | Tc nat | Bb nat | Ex

text \<open>A \<open>bb_t *\<close>: into \<open>bb_list\<close> or into \<open>bb_pool\<close>.\<close>

datatype bptr = BNull | BWild | Head nat | Pool nat

datatype ehelper = E_null | E_nemu_decode | E_exec exec_id

text \<open>A \<open>Decode\<close> of this build. The union members \<open>list_next\<close> and \<open>bb_src\<close> share the words of
  \<open>tnext\<close> and \<open>ntnext\<close>.\<close>

record tdecode = decode +
  tnext :: dptr
  ntnext :: dptr
  EHelper :: ehelper

record bb_t =
  bb_s :: dptr
  bb_next :: bptr
  bb_pc :: uint64

text \<open>\<open>BB_RECORD_TYPE_*\<close> are stored in the field \<open>type\<close>, where 1 and 2 are also the codes of
  \<open>INSTR_TYPE_J\<close> and \<open>INSTR_TYPE_B\<close>.\<close>

definition BB_RECORD_TYPE_NTAKEN :: instr_type where "BB_RECORD_TYPE_NTAKEN = INSTR_TYPE_J"
definition BB_RECORD_TYPE_TAKEN :: instr_type where "BB_RECORD_TYPE_TAKEN = INSTR_TYPE_B"

datatype tc_state = TCACHE_BB_BUILDING | TCACHE_RUNNING

record tcache =
  t_mach :: machine
  t_mem :: "dptr \<Rightarrow> tdecode"
  bb_mem :: "bptr \<Rightarrow> bb_t"
  tc_idx :: nat
  bb_idx :: nat
  bb_freelist :: dptr
  g_exec_nemu_decode :: ehelper
  tcache_state :: tc_state
  bb_now :: dptr
  bb_now_record :: dptr
  idx_in_bb :: nat
  prev_s :: dptr

type_synonym 'a tcm = "(tcache, 'a) m"

text \<open>Access through pointers.\<close>

primrec dvalid :: "dptr \<Rightarrow> bool" where
  "dvalid DNull = False"
| "dvalid DWild = False"
| "dvalid (Tc i) = (i < TCACHE_SIZE)"
| "dvalid (Bb i) = (i < TCACHE_BB_SIZE)"
| "dvalid Ex = True"

primrec bvalid :: "bptr \<Rightarrow> bool" where
  "bvalid BNull = False"
| "bvalid BWild = False"
| "bvalid (Head i) = (i < BB_LIST_SIZE)"
| "bvalid (Pool i) = (i < BB_POOL_SIZE)"

definition load :: "dptr \<Rightarrow> tdecode tcm" where
  "load p st = (if dvalid p then Ret (t_mem st p) st else Crash Host_fault)"

definition store :: "dptr \<Rightarrow> (tdecode \<Rightarrow> tdecode) \<Rightarrow> unit tcm" where
  "store p f st = (if dvalid p then Ret () (st\<lparr>t_mem := (t_mem st)(p := f (t_mem st p))\<rparr>) else Crash Host_fault)"

definition bb_load :: "bptr \<Rightarrow> bb_t tcm" where
  "bb_load p st = (if bvalid p then Ret (bb_mem st p) st else Crash Host_fault)"

definition bb_store :: "bptr \<Rightarrow> (bb_t \<Rightarrow> bb_t) \<Rightarrow> unit tcm" where
  "bb_store p f st = (if bvalid p then Ret () (st\<lparr>bb_mem := (bb_mem st)(p := f (bb_mem st p))\<rparr>) else Crash Host_fault)"

section \<open>Entries of the pools\<close>

definition tcache_entry_init :: "dptr \<Rightarrow> uint64 \<Rightarrow> dptr tcm" where
  "tcache_entry_init s pc =
     bnd (gets g_exec_nemu_decode) (\<lambda>h.
     thn (store s (\<lambda>e. e\<lparr>tnext := DNull, ntnext := DNull, d_type := INSTR_TYPE_N, d_pc := pc, EHelper := h\<rparr>))
       (ret s))"

definition tcache_new :: "uint64 \<Rightarrow> dptr tcm" where
  "tcache_new pc =
     bnd (gets tc_idx) (\<lambda>i.
       if i = TCACHE_SIZE then ret DNull
       else thn (assert_m (i < TCACHE_SIZE))
         (thn (modify (\<lambda>st. st\<lparr>tc_idx := i + 1\<rparr>)) (tcache_entry_init (Tc i) pc)))"

text \<open>\<open>tcache_bb_check\<close>: the pointer is one into \<open>tcache_bb_pool\<close>.\<close>

definition tcache_bb_check :: "dptr \<Rightarrow> unit tcm" where
  "tcache_bb_check s = assert_m (case s of Bb i \<Rightarrow> i < TCACHE_BB_SIZE | _ \<Rightarrow> False)"

definition check_next :: "dptr \<Rightarrow> unit tcm" where
  "check_next s = bnd (load s) (\<lambda>e. tcache_bb_check (tnext e))"

definition tcache_bb_new :: "uint64 \<Rightarrow> dptr tcm" where
  "tcache_bb_new pc =
     bnd (gets bb_freelist) (\<lambda>s. thn (seqs [
       assert_m (s \<noteq> DNull), tcache_bb_check s, check_next s,
       bnd (load s) (\<lambda>e. modify (\<lambda>st. st\<lparr>bb_freelist := tnext e\<rparr>)),
       bnd (gets bb_freelist) tcache_bb_check,
       bnd (gets bb_freelist) check_next])
     (tcache_entry_init s pc))"

definition tcache_bb_free :: "dptr \<Rightarrow> unit tcm" where
  "tcache_bb_free s = seqs [
     tcache_bb_check s,
     bnd (gets bb_freelist) tcache_bb_check,
     bnd (gets bb_freelist) (\<lambda>f. store s (\<lambda>e. e\<lparr>tnext := f\<rparr>)),
     modify (\<lambda>st. st\<lparr>bb_freelist := s\<rparr>),
     bnd (gets bb_freelist) check_next]"

section \<open>The table of basic blocks\<close>

definition bb_new :: "dptr \<Rightarrow> uint64 \<Rightarrow> bptr \<Rightarrow> bptr tcm" where
  "bb_new s pc next =
     bnd (gets bb_idx) (\<lambda>i.
       if i = BB_POOL_SIZE then ret BNull
       else thn (assert_m (i < BB_POOL_SIZE))
         (thn (modify (\<lambda>st. st\<lparr>bb_idx := i + 1\<rparr>))
         (thn (bb_store (Pool i) (\<lambda>_. \<lparr>bb_s = s, bb_next = next, bb_pc = pc\<rparr>)) (ret (Pool i)))))"

definition bb_hash :: "uint64 \<Rightarrow> nat" where
  "bb_hash pc = unat ((pc div ILEN_MIN) mod of_nat BB_LIST_SIZE)"

definition bb_insert :: "uint64 \<Rightarrow> dptr \<Rightarrow> bptr tcm" where
  "bb_insert pc fill =
     bnd (ret (Head (bb_hash pc))) (\<lambda>head.
     bnd (bb_load head) (\<lambda>h.
       if bb_next h = BWild \<and> bb_pc h = -1
       then thn (bb_store head (\<lambda>e. e\<lparr>bb_s := fill, bb_pc := pc\<rparr>)) (ret head)
       else bnd (bb_new (bb_s h) (bb_pc h) (bb_next h)) (\<lambda>bb.
         if bb = BNull then ret BNull
         else thn (bb_store head (\<lambda>e. e\<lparr>bb_s := fill, bb_pc := pc, bb_next := bb\<rparr>)) (ret head))))"

text \<open>The loop of \<open>bb_find\<close>. The chain of a bucket visits each record of the pool at most once, so the
  fuel that \<open>bb_find\<close> gives is never used up (theory \<open>TcacheProps\<close>).\<close>

primrec find_loop :: "nat \<Rightarrow> bptr \<Rightarrow> bptr \<Rightarrow> uint64 \<Rightarrow> bptr tcm" where
  "find_loop 0 head bb pc = die Host_fault"
| "find_loop (Suc n) head bb pc =
     bnd (bb_load bb) (\<lambda>b.
     bnd (ret (bb_next b)) (\<lambda>bb.
       if bb = BWild then ret BNull
       else bnd (bb_load bb) (\<lambda>b.
         if bb_pc b = pc then
           bnd (bb_load head) (\<lambda>h.
           thn (bb_store bb (\<lambda>e. e\<lparr>bb_s := bb_s h, bb_pc := bb_pc h\<rparr>))
           (thn (bb_store head (\<lambda>e. e\<lparr>bb_s := bb_s b, bb_pc := bb_pc b\<rparr>)) (ret head)))
         else find_loop n head bb pc)))"

definition bb_find :: "uint64 \<Rightarrow> bptr tcm" where
  "bb_find pc =
     bnd (ret (Head (bb_hash pc))) (\<lambda>bb.
     bnd (bb_load bb) (\<lambda>b.
       if bb_pc b = pc then ret bb else find_loop (BB_POOL_SIZE + 1) bb bb pc))"

definition tcache_bb_fetch :: "dptr \<Rightarrow> bool \<Rightarrow> uint64 \<Rightarrow> unit tcm" where
  "tcache_bb_fetch this is_taken jpc =
     bnd (bb_find jpc) (\<lambda>bb.
       if bb \<noteq> BNull then
         bnd (bb_load bb) (\<lambda>b.
           if is_taken then store this (\<lambda>e. e\<lparr>tnext := bb_s b\<rparr>) else store this (\<lambda>e. e\<lparr>ntnext := bb_s b\<rparr>))
       else
         bnd (tcache_bb_new jpc) (\<lambda>r.
         thn (if is_taken
              then thn (store r (\<lambda>e. e\<lparr>d_type := BB_RECORD_TYPE_TAKEN\<rparr>)) (store this (\<lambda>e. e\<lparr>tnext := r\<rparr>))
              else thn (store r (\<lambda>e. e\<lparr>d_type := BB_RECORD_TYPE_NTAKEN\<rparr>)) (store this (\<lambda>e. e\<lparr>ntnext := r\<rparr>)))
           (store r (\<lambda>e. e\<lparr>ntnext := this\<rparr>))))"

text \<open>\<open>memset(bb_list, -1, ...)\<close> fills every field of the heads; the loop threads the records of
  \<open>tcache_bb_pool\<close>, the last one ending the list.\<close>

definition tcache_flush :: "unit tcm" where
  "tcache_flush = modify (\<lambda>st. st\<lparr>tc_idx := 0, bb_idx := 0,
     bb_mem := (\<lambda>p. case p of Head i \<Rightarrow> \<lparr>bb_s = DWild, bb_next = BWild, bb_pc = -1\<rparr> | _ \<Rightarrow> bb_mem st p),
     t_mem := (\<lambda>p. case p of
         Bb i \<Rightarrow> if i < TCACHE_BB_SIZE - 1 then (t_mem st p)\<lparr>tnext := Bb (i + 1)\<rparr>
                 else if i = TCACHE_BB_SIZE - 1 then (t_mem st p)\<lparr>tnext := DNull\<rparr> else t_mem st p
       | _ \<Rightarrow> t_mem st p),
     bb_freelist := Bb 0\<rparr>)"

section \<open>Decoding into blocks\<close>

definition save_globals :: "dptr \<Rightarrow> unit tcm" where
  "save_globals s = modify (\<lambda>st. st\<lparr>prev_s := s\<rparr>)"

text \<open>Instruction fetch of this build goes through the host TLB when the address is translated. A physical
  address is a \<open>paddr_t\<close>, of 32 bits in the committed memory layout.\<close>

definition vaddr_ifetch_perf :: "uint64 \<Rightarrow> nat \<Rightarrow> uint64 nemu" where
  "vaddr_ifetch_perf addr len =
     bnd (isa_mmu_check addr len MEM_TYPE_IFETCH) (\<lambda>mmu_mode.
       if mmu_mode = MMU_DIRECT then paddr_read (ucast addr) len
       else hosttlb_read addr len MEM_TYPE_IFETCH)"

definition instr_fetch_perf :: "uint64 \<Rightarrow> nat \<Rightarrow> (uint32 \<times> uint64) nemu" where
  "instr_fetch_perf pc len = bnd (vaddr_ifetch_perf pc len) (\<lambda>w. ret (ucast w, pc + of_nat len))"

definition isa_fetch_decode_perf :: "exec_id nemu" where
  "isa_fetch_decode_perf =
     bnd (gets (\<lambda>st. d_snpc (cur_s st))) (\<lambda>pc0.
     bnd (instr_fetch_perf pc0 2) (\<lambda>(lo, pc1).
     bnd (modify (\<lambda>st. st\<lparr>cur_s := (cur_s st)\<lparr>d_instr := lo, d_snpc := pc1\<rparr>\<rparr>)) (\<lambda>_.
     bnd (if f_opcode1_0 lo \<noteq> 0x3 then gets (\<lambda>st. table_rvc st (cur_s st))
          else bnd (instr_fetch_perf pc1 2) (\<lambda>(hi, pc2).
            thn (modify (\<lambda>st. st\<lparr>cur_s := (cur_s st)\<lparr>d_instr := d_instr (cur_s st) OR push_bit 16 hi,
                                                      d_snpc := pc2\<rparr>\<rparr>))
              (gets (\<lambda>st. table_main st (cur_s st))))) (\<lambda>r.
     case r of
       None \<Rightarrow> die Assert_fail
     | Some (s, idx) \<Rightarrow> bnd (set_type idx s) (\<lambda>s'. thn (modify (\<lambda>st. st\<lparr>cur_s := s'\<rparr>)) (ret idx))))))"

text \<open>\<open>fetch_decode\<close> on the record a pointer designates: the machine's record stands for it while the
  instruction is decoded, and what was decoded before a \<open>longjmp\<close> stays in it.\<close>

definition with_fields :: "decode \<Rightarrow> tdecode \<Rightarrow> tdecode" where
  "with_fields d e = decode.extend d \<lparr>tnext = tnext e, ntnext = ntnext e, EHelper = EHelper e\<rparr>"

definition on_entry :: "dptr \<Rightarrow> 'a nemu \<Rightarrow> 'a tcm" where
  "on_entry p f = bnd (load p) (\<lambda>e st.
     (let put = (\<lambda>m. st\<lparr>t_mach := m, t_mem := (t_mem st)(p := with_fields (cur_s m) e)\<rparr>) in
      case f ((t_mach st)\<lparr>cur_s := decode.truncate e\<rparr>) of
        Ret x m \<Rightarrow> Ret x (put m)
      | LongJmp c m \<Rightarrow> LongJmp c (put m)
      | Crash c \<Rightarrow> Crash c))"

definition fetch_decode_perf :: "dptr \<Rightarrow> uint64 \<Rightarrow> unit tcm" where
  "fetch_decode_perf s pc =
     thn (store s (\<lambda>e. e\<lparr>d_pc := pc, d_snpc := pc\<rparr>))
       (bnd (on_entry s isa_fetch_decode_perf) (\<lambda>idx. store s (\<lambda>e. e\<lparr>EHelper := E_exec idx\<rparr>)))"

definition tcache_jr_fetch :: "dptr \<Rightarrow> uint64 \<Rightarrow> dptr tcm" where
  "tcache_jr_fetch s jpc =
     thn (store s (\<lambda>e. e\<lparr>ntnext := tnext e\<rparr>))
     (thn (tcache_bb_fetch s True jpc)
     (bnd (load s) (\<lambda>e. ret (tnext e))))"

definition jr_fetch :: "dptr \<Rightarrow> uint64 \<Rightarrow> dptr tcm" where
  "jr_fetch s target =
     bnd (load s) (\<lambda>e.
     bnd (load (tnext e)) (\<lambda>t.
       if d_pc t = target then ret (tnext e)
       else bnd (load (ntnext e)) (\<lambda>t.
         if d_pc t = target then ret (ntnext e) else tcache_jr_fetch s target)))"

definition tcache_patch_and_free :: "dptr \<Rightarrow> dptr \<Rightarrow> unit tcm" where
  "tcache_patch_and_free bb_record bb =
     bnd (load bb_record) (\<lambda>r.
     bnd (ret (ntnext r)) (\<lambda>src.
     thn (if d_type r = BB_RECORD_TYPE_TAKEN then store src (\<lambda>e. e\<lparr>tnext := bb\<rparr>) else skip)
     (bnd (load bb_record) (\<lambda>r.
       thn (if d_type r = BB_RECORD_TYPE_NTAKEN then store src (\<lambda>e. e\<lparr>ntnext := bb\<rparr>) else skip)
         (tcache_bb_free bb_record)))))"

text \<open>The pointer \<open>s + 1\<close>.\<close>

fun succ_ptr :: "dptr \<Rightarrow> dptr" where
  "succ_ptr (Tc i) = Tc (i + 1)"
| "succ_ptr (Bb i) = Bb (i + 1)"
| "succ_ptr p = DNull"

text \<open>The label \<open>full\<close>: flush and decode the instruction again.\<close>

definition tcache_full :: "uint64 \<Rightarrow> 'a tcm" where
  "tcache_full thispc =
     thn tcache_flush
     (bnd (tcache_bb_new thispc) (\<lambda>s. thn (seqs [
       bnd (gets idx_in_bb) (\<lambda>i. store s (\<lambda>e. e\<lparr>d_idx_in_bb := of_nat i\<rparr>)),
       save_globals s,
       modify (\<lambda>st. st\<lparr>bb_now := DNull, bb_now_record := DNull, tcache_state := TCACHE_RUNNING\<rparr>)])
       (jump NEMU_EXEC_AGAIN)))"

text \<open>The end of a basic block at \<open>s\<close>: insert the block, resolve the placeholder that led to it, and link
  the exits.\<close>

definition link_exits :: "dptr \<Rightarrow> unit tcm" where
  "link_exits s =
     bnd (load s) (\<lambda>e. case d_type e of
       INSTR_TYPE_J \<Rightarrow> tcache_bb_fetch s True (d_jnpc e)
     | INSTR_TYPE_B \<Rightarrow> thn (tcache_bb_fetch s True (d_jnpc e))
         (bnd (load s) (\<lambda>e. tcache_bb_fetch s False (d_snpc e)))
     | INSTR_TYPE_I \<Rightarrow> store s (\<lambda>e. e\<lparr>tnext := s, ntnext := s\<rparr>)
     | INSTR_TYPE_N \<Rightarrow> die Assert_fail)"

definition end_of_block :: "uint64 \<Rightarrow> dptr \<Rightarrow> unit tcm" where
  "end_of_block thispc s =
     bnd (gets bb_now) (\<lambda>b. bnd (load b) (\<lambda>e.
     bnd (bb_insert (d_pc e) b) (\<lambda>r.
       if r = BNull then tcache_full thispc
       else seqs [
         bnd (gets (\<lambda>st. (bb_now_record st, bb_now st))) (\<lambda>(r, b). tcache_patch_and_free r b),
         modify (\<lambda>st. st\<lparr>bb_now := DNull, bb_now_record := DNull\<rparr>),
         link_exits s,
         modify (\<lambda>st. st\<lparr>tcache_state := TCACHE_RUNNING\<rparr>)])))"

text \<open>Decoding one instruction of the block under construction, and the start of a block, which gives the
  record to decode into or the block already decoded.\<close>

definition decode_in_block :: "uint64 \<Rightarrow> dptr \<Rightarrow> dptr tcm" where
  "decode_in_block thispc s =
     thn (seqs [
       save_globals s,
       bnd (gets idx_in_bb) (\<lambda>i. store s (\<lambda>e. e\<lparr>d_idx_in_bb := of_nat i\<rparr>)),
       fetch_decode_perf s thispc,
       bnd (load s) (\<lambda>e.
         if d_type e = INSTR_TYPE_N then
           bnd (tcache_new (d_snpc e)) (\<lambda>next.
             if next = DNull then tcache_full thispc else assert_m (next = succ_ptr s))
         else end_of_block thispc s),
       modify (\<lambda>st. st\<lparr>idx_in_bb := idx_in_bb st + 1\<rparr>)])
     (ret s)"

definition tcache_decode :: "dptr \<Rightarrow> dptr tcm" where
  "tcache_decode s =
     bnd (load s) (\<lambda>e.
     bnd (ret (d_pc e)) (\<lambda>thispc.
     bnd (gets tcache_state) (\<lambda>ts.
       if ts = TCACHE_RUNNING then
         bnd (bb_find thispc) (\<lambda>bb.
           if bb \<noteq> BNull then
             bnd (bb_load bb) (\<lambda>b. thn (tcache_patch_and_free s (bb_s b)) (ret (bb_s b)))
           else
             bnd (tcache_new thispc) (\<lambda>s'.
             thn (modify (\<lambda>st. st\<lparr>idx_in_bb := 1\<rparr>))
               (if s' = DNull then tcache_full thispc
                else thn (modify (\<lambda>st. st\<lparr>bb_now_record := s, bb_now := s', tcache_state := TCACHE_BB_BUILDING\<rparr>))
                  (decode_in_block thispc s'))))
       else decode_in_block thispc s)))"

section \<open>Exceptions, flushes and start\<close>

definition tcache_handle_exception :: "uint64 \<Rightarrow> unit tcm" where
  "tcache_handle_exception jpc = seqs [
     tcache_bb_fetch Ex True jpc,
     bnd (load Ex) (\<lambda>e. save_globals (tnext e)),
     modify (\<lambda>st. st\<lparr>tcache_state := TCACHE_RUNNING\<rparr>)]"

definition tcache_handle_flush :: "uint64 \<Rightarrow> dptr tcm" where
  "tcache_handle_flush snpc =
     thn tcache_flush (thn (tcache_handle_exception snpc) (bnd (load Ex) (\<lambda>e. ret (tnext e))))"

definition tcache_init :: "ehelper \<Rightarrow> uint64 \<Rightarrow> dptr tcm" where
  "tcache_init exec_nemu_decode reset_vector =
     thn tcache_flush
     (thn (modify (\<lambda>st. st\<lparr>g_exec_nemu_decode := exec_nemu_decode\<rparr>)) (tcache_bb_new reset_vector))"

text \<open>The statics at program start.\<close>

definition static_entry :: tdecode where
  "static_entry = decode.extend static_decode \<lparr>tnext = DNull, ntnext = DNull, EHelper = E_null\<rparr>"

definition static_tcache :: "machine \<Rightarrow> tcache" where
  "static_tcache m = \<lparr>t_mach = m, t_mem = (\<lambda>_. static_entry),
     bb_mem = (\<lambda>_. \<lparr>bb_s = DNull, bb_next = BNull, bb_pc = 0\<rparr>), tc_idx = 0, bb_idx = 0,
     bb_freelist = DNull, g_exec_nemu_decode = E_null, tcache_state = TCACHE_RUNNING,
     bb_now = DNull, bb_now_record = DNull, idx_in_bb = 0, prev_s = DNull\<rparr>"

end
