(* ===== verification/TcacheProps.thy ===== *)
theory TcacheProps
  imports Tcache
begin

text \<open>
  Correctness of the translation cache: the table of basic blocks (hash buckets whose overflow chains
  live in a pool, with a found record moved to the front) is a finite map from addresses to blocks, the
  loop of \<open>bb_find\<close> ends within its fuel, the list of placeholder records, and the links between blocks.
\<close>

lemmas tc_sizes = TCACHE_SIZE_def BB_LIST_SIZE_def BB_POOL_SIZE_def TCACHE_BB_SIZE_def

section \<open>Chains\<close>

text \<open>The records of the pool reached from a \<open>next\<close> pointer, as a list and as a relation.\<close>

primrec nodes :: "(bptr \<Rightarrow> bb_t) \<Rightarrow> nat \<Rightarrow> bptr \<Rightarrow> bptr list" where
  "nodes m 0 p = []"
| "nodes m (Suc n) p = (case p of Pool i \<Rightarrow> Pool i # nodes m n (bb_next (m p)) | _ \<Rightarrow> [])"

primrec linked :: "(bptr \<Rightarrow> bb_t) \<Rightarrow> bptr \<Rightarrow> bptr list \<Rightarrow> bool" where
  "linked m p [] \<longleftrightarrow> p = BWild"
| "linked m p (q # qs) \<longleftrightarrow> p = q \<and> (\<exists>i<BB_POOL_SIZE. q = Pool i) \<and> linked m (bb_next (m q)) qs"

lemma linked_nodes: "linked m p qs \<Longrightarrow> length qs \<le> n \<Longrightarrow> nodes m n p = qs"
proof (induction qs arbitrary: p n)
  case Nil then show ?case by (cases n) auto
next
  case (Cons q qs)
  then obtain k where "n = Suc k" by (cases n) auto
  with Cons show ?case by auto
qed

lemma linked_cong: "linked m p qs \<Longrightarrow> \<forall>q\<in>set qs. bb_next (m' q) = bb_next (m q) \<Longrightarrow> linked m' p qs"
  by (induction qs arbitrary: p) auto

text \<open>The cells of a bucket, and the entries they hold.\<close>

definition unused :: "bb_t \<Rightarrow> bool" where
  "unused b \<longleftrightarrow> bb_next b = BWild \<and> bb_pc b = -1"

definition bucket :: "(bptr \<Rightarrow> bb_t) \<Rightarrow> nat \<Rightarrow> bptr list" where
  "bucket m h = (if unused (m (Head h)) then []
     else Head h # nodes m BB_POOL_SIZE (bb_next (m (Head h))))"

definition entries :: "(bptr \<Rightarrow> bb_t) \<Rightarrow> nat \<Rightarrow> (uint64 \<times> dptr) list" where
  "entries m h = map (\<lambda>p. (bb_pc (m p), bb_s (m p))) (bucket m h)"

definition bb_abs :: "tcache \<Rightarrow> uint64 \<rightharpoonup> dptr" where
  "bb_abs st pc = map_of (entries (bb_mem st) (bb_hash pc)) pc"

section \<open>The invariant of the table\<close>

text \<open>A \<open>next\<close> pointer ends the chain or leads to an earlier record of the same bucket.\<close>

definition next_ok :: "(bptr \<Rightarrow> bb_t) \<Rightarrow> nat \<Rightarrow> nat \<Rightarrow> bptr \<Rightarrow> bool" where
  "next_ok m k h p \<longleftrightarrow> p = BWild \<or> (\<exists>i<k. p = Pool i \<and> bb_hash (bb_pc (m p)) = h)"

definition head_ok :: "tcache \<Rightarrow> nat \<Rightarrow> bool" where
  "head_ok st h \<longleftrightarrow> (let b = bb_mem st (Head h) in
     unused b \<or> bb_pc b \<noteq> -1 \<and> bb_hash (bb_pc b) = h \<and> next_ok (bb_mem st) (bb_idx st) h (bb_next b))"

definition pool_ok :: "(bptr \<Rightarrow> bb_t) \<Rightarrow> nat \<Rightarrow> bool" where
  "pool_ok m i \<longleftrightarrow> (let b = m (Pool i) in
     bb_pc b \<noteq> -1 \<and> next_ok m i (bb_hash (bb_pc b)) (bb_next b))"

definition bb_inv :: "tcache \<Rightarrow> bool" where
  "bb_inv st \<longleftrightarrow> bb_idx st \<le> BB_POOL_SIZE \<and>
     (\<forall>h<BB_LIST_SIZE. head_ok st h \<and> distinct (map fst (entries (bb_mem st) h))) \<and>
     (\<forall>i<bb_idx st. pool_ok (bb_mem st) i)"

lemma hash_less: "bb_hash pc < BB_LIST_SIZE"
proof -
  have "(pc div ILEN_MIN) mod (1024 :: uint64) < 1024" by (rule word_mod_less_divisor) simp
  then show ?thesis by (simp add: bb_hash_def BB_LIST_SIZE_def word_less_nat_alt)
qed

lemma next_linked:
  assumes "next_ok m k h p" "k \<le> BB_POOL_SIZE" "\<forall>i<k. pool_ok m i"
  obtains qs where "linked m p qs" "length qs \<le> k"
    "\<forall>q\<in>set qs. (\<exists>i<k. q = Pool i) \<and> bb_hash (bb_pc (m q)) = h \<and> bb_pc (m q) \<noteq> -1"
proof -
  have "\<exists>qs. linked m p qs \<and> length qs \<le> k \<and>
      (\<forall>q\<in>set qs. (\<exists>i<k. q = Pool i) \<and> bb_hash (bb_pc (m q)) = h \<and> bb_pc (m q) \<noteq> -1)"
    using assms
  proof (induction k arbitrary: p rule: less_induct)
    case (less k)
    show ?case
    proof (cases "p = BWild")
      case True then show ?thesis by (intro exI[of _ "[]"]) simp
    next
      case False
      then obtain i where i: "i < k" "p = Pool i" "bb_hash (bb_pc (m p)) = h"
        using less.prems(1) by (auto simp: next_ok_def)
      with less.prems(3) have ok: "bb_pc (m p) \<noteq> -1" "next_ok m i h (bb_next (m p))"
        by (auto simp: pool_ok_def Let_def)
      obtain qs where qs: "linked m (bb_next (m p)) qs" "length qs \<le> i"
        "\<forall>q\<in>set qs. (\<exists>j<i. q = Pool j) \<and> bb_hash (bb_pc (m q)) = h \<and> bb_pc (m q) \<noteq> -1"
        using less.IH[OF i(1) ok(2)] less.prems(2,3) i(1) by auto
      show ?thesis
        using qs i ok(1) less.prems(2) by (intro exI[of _ "p # qs"]) (auto intro: less_trans)
    qed
  qed
  with that show thesis by blast
qed

text \<open>What the invariant says of one bucket.\<close>

lemma bucket_cases:
  assumes "bb_inv st" "h < BB_LIST_SIZE"
  obtains (empty) "unused (bb_mem st (Head h))" "bucket (bb_mem st) h = []"
  | (cells) qs where "\<not> unused (bb_mem st (Head h))" "bucket (bb_mem st) h = Head h # qs"
      "linked (bb_mem st) (bb_next (bb_mem st (Head h))) qs" "length qs \<le> bb_idx st"
      "\<forall>q\<in>set qs. \<exists>i<bb_idx st. q = Pool i"
      "\<forall>q\<in>set (Head h # qs). bb_hash (bb_pc (bb_mem st q)) = h \<and> bb_pc (bb_mem st q) \<noteq> -1"
proof (cases "unused (bb_mem st (Head h))")
  case True then show ?thesis by (intro empty) (simp_all add: bucket_def)
next
  case False
  with assms have hd: "bb_pc (bb_mem st (Head h)) \<noteq> -1" "bb_hash (bb_pc (bb_mem st (Head h))) = h"
    "next_ok (bb_mem st) (bb_idx st) h (bb_next (bb_mem st (Head h)))"
    by (auto simp: bb_inv_def head_ok_def Let_def)
  have k: "bb_idx st \<le> BB_POOL_SIZE" "\<forall>i<bb_idx st. pool_ok (bb_mem st) i"
    using assms by (auto simp: bb_inv_def)
  obtain qs where qs: "linked (bb_mem st) (bb_next (bb_mem st (Head h))) qs" "length qs \<le> bb_idx st"
    "\<forall>q\<in>set qs. (\<exists>i<bb_idx st. q = Pool i) \<and> bb_hash (bb_pc (bb_mem st q)) = h \<and> bb_pc (bb_mem st q) \<noteq> -1"
    by (rule next_linked[OF hd(3) k])
  have "bucket (bb_mem st) h = Head h # qs"
    using False linked_nodes[OF qs(1)] qs(2) k(1) by (simp add: bucket_def)
  with False qs hd show ?thesis by (intro cells) auto
qed

lemma bucket_hash: "bb_inv st \<Longrightarrow> h < BB_LIST_SIZE \<Longrightarrow> p \<in> set (bucket (bb_mem st) h) \<Longrightarrow> bb_hash (bb_pc (bb_mem st p)) = h"
  by (erule (1) bucket_cases) auto

section \<open>Lookup\<close>

text \<open>Exchanging the contents of two cells.\<close>

definition swap_cells :: "bptr \<Rightarrow> bptr \<Rightarrow> (bptr \<Rightarrow> bb_t) \<Rightarrow> (bptr \<Rightarrow> bb_t)" where
  "swap_cells a b m = m(b := (m b)\<lparr>bb_s := bb_s (m a), bb_pc := bb_pc (m a)\<rparr>,
                        a := (m a)\<lparr>bb_s := bb_s (m b), bb_pc := bb_pc (m b)\<rparr>)"

lemma swap_next [simp]: "bb_next (swap_cells a b m p) = bb_next (m p)"
  by (simp add: swap_cells_def)

lemma swap_nodes: "nodes (swap_cells a b m) n p = nodes m n p"
  by (induction n arbitrary: p) (auto split: bptr.split)

lemma find_loop_spec:
  assumes "linked (bb_mem st) (bb_next (bb_mem st bb)) qs" "length qs < n" "bvalid bb" "bvalid (Head h)"
  shows "find_loop n (Head h) bb pc st =
    (case find (\<lambda>q. bb_pc (bb_mem st q) = pc) qs of
       None \<Rightarrow> Ret BNull st
     | Some q \<Rightarrow> Ret (Head h) (st\<lparr>bb_mem := swap_cells (Head h) q (bb_mem st)\<rparr>))"
  using assms
proof (induction qs arbitrary: bb n)
  case Nil
  then show ?case by (cases n) (simp_all add: m_simps bb_load_def)
next
  case (Cons q qs)
  then obtain k where n: "n = Suc k" by (cases n) auto
  from Cons.prems obtain i where q: "q = Pool i" "i < BB_POOL_SIZE" by auto
  have sw: "(st\<lparr>bb_mem := (bb_mem st)(q := (bb_mem st q)\<lparr>bb_s := bb_s (bb_mem st (Head h)), bb_pc := bb_pc (bb_mem st (Head h))\<rparr>,
       Head h := (bb_mem st (Head h))\<lparr>bb_s := bb_s (bb_mem st q), bb_pc := bb_pc (bb_mem st q)\<rparr>)\<rparr>) =
     st\<lparr>bb_mem := swap_cells (Head h) q (bb_mem st)\<rparr>" by (simp add: swap_cells_def)
  show ?case
  proof (cases "bb_pc (bb_mem st q) = pc")
    case True
    then show ?thesis using Cons.prems q n sw by (simp add: m_simps bb_load_def bb_store_def)
  next
    case False
    with Cons.IH[of q k] Cons.prems q n show ?thesis by (simp add: m_simps bb_load_def)
  qed
qed

lemma image_exchange:
  assumes "a \<in> S" "b \<in> S" shows "(f(b := f a, a := f b)) ` S = f ` S"
proof -
  have "f a \<in> (f(b := f a, a := f b)) ` S" using assms by (intro image_eqI[of _ _ b]) auto
  moreover have "f b \<in> (f(b := f a, a := f b)) ` S" using assms by (intro image_eqI[of _ _ a]) auto
  ultimately have "f x \<in> (f(b := f a, a := f b)) ` S" if "x \<in> S" for x
    using that by (cases "x = a \<or> x = b") (auto intro: image_eqI[of _ _ x])
  then show ?thesis using assms by (auto split: if_splits)
qed

lemma distinct_exchange:
  assumes "a \<in> set ps" "b \<in> set ps" "distinct (map f ps)"
  shows "distinct (map (f(b := f a, a := f b)) ps)"
  using assms unfolding distinct_map by (auto simp: inj_on_def)

text \<open>Exchanging the head of a bucket with one of its cells permutes the entries of the bucket and leaves
  the others alone.\<close>

lemma swap_entries:
  assumes i: "bb_inv st" and h: "h < BB_LIST_SIZE" and q: "q \<in> set (bucket (bb_mem st) h)" "q \<noteq> Head h"
  shows "bb_inv (st\<lparr>bb_mem := swap_cells (Head h) q (bb_mem st)\<rparr>)"
    and "bb_abs (st\<lparr>bb_mem := swap_cells (Head h) q (bb_mem st)\<rparr>) = bb_abs st"
proof -
  let ?m = "bb_mem st" and ?m' = "swap_cells (Head h) q (bb_mem st)"
  have hd: "Head h \<in> set (bucket ?m h)" and nz: "\<not> unused (?m (Head h))"
    using q by (auto simp: bucket_def split: if_splits)
  have pcs: "bb_pc (?m p) \<noteq> -1 \<and> bb_hash (bb_pc (?m p)) = h" if "p \<in> {Head h, q}" for p
    using i h q(1) hd that by (cases rule: bucket_cases[OF i h]) auto
  have un: "unused (?m' p) = unused (?m p)" for p
    using pcs nz by (auto simp: unused_def swap_cells_def)
  have bk: "bucket ?m' h' = bucket ?m h'" for h'
    by (simp add: bucket_def un swap_nodes)
  have hash: "bb_hash (bb_pc (?m' p)) = bb_hash (bb_pc (?m p))" "bb_pc (?m' p) = -1 \<longleftrightarrow> bb_pc (?m p) = -1" for p
    using pcs by (auto simp: swap_cells_def)
  let ?f = "\<lambda>p. (bb_pc (?m p), bb_s (?m p))"
  have f': "(\<lambda>p. (bb_pc (?m' p), bb_s (?m' p))) = ?f(q := ?f (Head h), Head h := ?f q)"
    by (rule ext) (simp add: swap_cells_def)
  have other: "entries ?m' h' = entries ?m h'" if "h' \<noteq> h" "h' < BB_LIST_SIZE" for h'
  proof -
    have "p \<notin> {Head h, q}" if p: "p \<in> set (bucket ?m h')" for p
      using bucket_hash[OF i \<open>h' < BB_LIST_SIZE\<close> p] pcs[of p] \<open>h' \<noteq> h\<close> by auto
    then show ?thesis unfolding entries_def bk by (intro map_cong) (simp_all add: swap_cells_def)
  qed
  have same: "set (entries ?m' h) = set (entries ?m h)"
    unfolding entries_def bk f' set_map by (rule image_exchange[OF hd q(1)])
  have d0: "distinct (map fst (entries ?m h'))" if "h' < BB_LIST_SIZE" for h'
    using i that by (simp add: bb_inv_def)
  have fst': "map fst (entries ?m' h) = map ((\<lambda>p. bb_pc (?m p))(q := bb_pc (?m (Head h)), Head h := bb_pc (?m q))) (bucket ?m h)"
    unfolding entries_def bk map_map by (intro map_cong) (simp_all add: swap_cells_def)
  have "distinct (map (\<lambda>p. bb_pc (?m p)) (bucket ?m h))"
    using d0[OF h] by (simp add: entries_def comp_def)
  then have d: "distinct (map fst (entries ?m' h))"
    unfolding fst' by (rule distinct_exchange[OF hd q(1)])
  have d': "distinct (map fst (entries ?m' h'))" if "h' < BB_LIST_SIZE" for h'
    using d d0 other that by (cases "h' = h") simp_all
  have nx: "next_ok ?m' k g p = next_ok ?m k g p" for k g p
    by (simp add: next_ok_def hash)
  have ho: "head_ok (st\<lparr>bb_mem := ?m'\<rparr>) h' = head_ok st h'" for h'
    by (simp add: head_ok_def Let_def un nx hash)
  have po: "pool_ok ?m' j = pool_ok ?m j" for j
    by (simp add: pool_ok_def Let_def nx hash)
  show "bb_inv (st\<lparr>bb_mem := ?m'\<rparr>)"
    using i d' by (simp add: bb_inv_def ho po)
  have "map_of (entries ?m' h') = map_of (entries ?m h')" if "h' < BB_LIST_SIZE" for h'
    using other same map_of_inject_set[OF d d0[OF h]] that by (cases "h' = h") simp_all
  then show "bb_abs (st\<lparr>bb_mem := ?m'\<rparr>) = bb_abs st"
    by (intro ext) (simp add: bb_abs_def hash_less)
qed

lemma map_of_cells: "map_of (map (\<lambda>p. (f p, g p)) ps) x = map_option g (find (\<lambda>p. f p = x) ps)"
  by (induction ps) auto

text \<open>\<open>bb_find\<close> looks an address up; only the table changes, and not the map it stands for.\<close>

lemma bb_find_spec:
  assumes i: "bb_inv st" and pc: "pc \<noteq> -1"
  obtains (absent) "bb_find pc st = Ret BNull st" "bb_abs st pc = None"
  | (found) m s where "bb_find pc st = Ret (Head (bb_hash pc)) (st\<lparr>bb_mem := m\<rparr>)" "bb_abs st pc = Some s"
      "bb_s (m (Head (bb_hash pc))) = s" "bb_inv (st\<lparr>bb_mem := m\<rparr>)" "bb_abs (st\<lparr>bb_mem := m\<rparr>) = bb_abs st"
proof -
  let ?h = "bb_hash pc" and ?m = "bb_mem st"
  have v: "bvalid (Head ?h)" by (simp add: hash_less)
  have k: "bb_idx st \<le> BB_POOL_SIZE" using i by (simp add: bb_inv_def)
  have step: "bb_find pc st = (if bb_pc (?m (Head ?h)) = pc then Ret (Head ?h) st
      else find_loop (BB_POOL_SIZE + 1) (Head ?h) (Head ?h) pc st)"
    using v by (simp add: bb_find_def m_simps bb_load_def)
  show ?thesis
  proof (cases rule: bucket_cases[OF i hash_less[of pc], case_names empty cells])
    case empty
    then have "find_loop (BB_POOL_SIZE + 1) (Head ?h) (Head ?h) pc st = Ret BNull st"
      using find_loop_spec[of st "Head ?h" "[]" "BB_POOL_SIZE + 1" ?h pc] v by (simp add: unused_def)
    with empty pc step show ?thesis
      by (intro absent) (simp_all add: bb_abs_def entries_def unused_def)
  next
    case (cells qs)
    have ab: "bb_abs st pc = map_option (\<lambda>p. bb_s (?m p)) (find (\<lambda>p. bb_pc (?m p) = pc) (Head ?h # qs))"
      by (simp only: bb_abs_def entries_def cells map_of_cells)
    show ?thesis
    proof (cases "bb_pc (?m (Head ?h)) = pc")
      case True
      with step ab i show ?thesis by (intro found[of ?m]) simp_all
    next
      case False
      have loop: "bb_find pc st = (case find (\<lambda>q. bb_pc (?m q) = pc) qs of None \<Rightarrow> Ret BNull st
         | Some q \<Rightarrow> Ret (Head ?h) (st\<lparr>bb_mem := swap_cells (Head ?h) q ?m\<rparr>))"
        using step False find_loop_spec[OF cells(3) _ v v, of "BB_POOL_SIZE + 1" pc] cells(4) k by simp
      show ?thesis
      proof (cases "find (\<lambda>q. bb_pc (?m q) = pc) qs")
        case None with loop ab False show ?thesis by (intro absent) simp_all
      next
        case (Some q)
        then have q: "q \<in> set qs" by (auto simp: find_Some_iff)
        with cells have "q \<in> set (bucket ?m ?h)" "q \<noteq> Head ?h" by auto
        from swap_entries[OF i hash_less this] loop ab False Some show ?thesis
          by (intro found[of "swap_cells (Head ?h) q ?m"]) (simp_all add: swap_cells_def)
      qed
    qed
  qed
qed

section \<open>Insertion\<close>

lemma linked_keep:
  assumes "linked m p qs" "\<forall>q\<in>set qs. \<exists>i<k. q = Pool i" "\<forall>i<k. m' (Pool i) = m (Pool i)" "length qs \<le> BB_POOL_SIZE"
  shows "nodes m' BB_POOL_SIZE p = qs"
proof -
  have "\<forall>q\<in>set qs. bb_next (m' q) = bb_next (m q)" using assms(2,3) by force
  with assms(1) have "linked m' p qs" by (rule linked_cong)
  then show ?thesis using assms(4) by (rule linked_nodes)
qed

lemma entries_keep:
  assumes i: "bb_inv st" and h: "h < BB_LIST_SIZE" and hd: "m' (Head h) = bb_mem st (Head h)"
    and pool: "\<forall>i<bb_idx st. m' (Pool i) = bb_mem st (Pool i)"
  shows "entries m' h = entries (bb_mem st) h"
proof (cases rule: bucket_cases[OF i h, case_names empty cells])
  case empty then show ?thesis using hd by (simp add: entries_def bucket_def)
next
  case (cells qs)
  have k: "bb_idx st \<le> BB_POOL_SIZE" using i by (simp add: bb_inv_def)
  have "bucket m' h = Head h # qs"
    using linked_keep[OF cells(3,5) pool] cells(1,4) hd k by (simp add: bucket_def)
  moreover have "\<forall>q\<in>set (Head h # qs). m' q = bb_mem st q"
    using cells(5) hd pool by force
  ultimately show ?thesis using cells(2) by (simp add: entries_def)
qed

lemma next_keep:
  assumes "next_ok m k h p" "k \<le> k'" "\<forall>i<k. m' (Pool i) = m (Pool i)"
  shows "next_ok m' k' h p"
  using assms by (force simp: next_ok_def)

text \<open>A change that keeps every record of the pool and every head but one, whose bucket gets one entry in
  front.\<close>

lemma insert_entry:
  assumes i: "bb_inv st" and pc: "pc \<noteq> -1" and new: "bb_abs st pc = None"
    and hd: "\<forall>h. h \<noteq> bb_hash pc \<longrightarrow> m' (Head h) = bb_mem st (Head h)"
    and pool: "\<forall>i<bb_idx st. m' (Pool i) = bb_mem st (Pool i)"
    and k': "bb_idx st \<le> k'" "k' \<le> BB_POOL_SIZE"
    and h': "entries m' (bb_hash pc) = (pc, s) # entries (bb_mem st) (bb_hash pc)"
    and ho: "head_ok (st\<lparr>bb_mem := m', bb_idx := k'\<rparr>) (bb_hash pc)"
    and po: "\<forall>i. bb_idx st \<le> i \<and> i < k' \<longrightarrow> pool_ok m' i"
  shows "bb_inv (st\<lparr>bb_mem := m', bb_idx := k'\<rparr>) \<and> bb_abs (st\<lparr>bb_mem := m', bb_idx := k'\<rparr>) = (bb_abs st)(pc \<mapsto> s)"
proof -
  have keep: "entries m' h = entries (bb_mem st) h" if "h \<noteq> bb_hash pc" "h < BB_LIST_SIZE" for h
    using entries_keep[OF i that(2)] hd pool that(1) by blast
  have d: "distinct (map fst (entries m' h))" if "h < BB_LIST_SIZE" for h
  proof (cases "h = bb_hash pc")
    case True
    have "pc \<notin> fst ` set (entries (bb_mem st) (bb_hash pc))"
      using new by (simp add: bb_abs_def map_of_eq_None_iff)
    then show ?thesis using i True that by (simp add: h' bb_inv_def)
  next
    case False then show ?thesis using keep that i by (simp add: bb_inv_def)
  qed
  have old: "head_ok (st\<lparr>bb_mem := m', bb_idx := k'\<rparr>) h" if "h < BB_LIST_SIZE" for h
  proof (cases "h = bb_hash pc")
    case False
    have "head_ok st h" using i that by (simp add: bb_inv_def)
    then show ?thesis using hd False next_keep[OF _ k'(1) pool] by (auto simp: head_ok_def Let_def)
  qed (simp add: ho)
  have "pool_ok m' j" if "j < k'" for j
  proof (cases "j < bb_idx st")
    case True
    have "pool_ok (bb_mem st) j" using i True by (simp add: bb_inv_def)
    then show ?thesis using pool True next_keep[of "bb_mem st" j _ _ j m']
      by (auto simp: pool_ok_def Let_def)
  qed (use po that in simp)
  then have "bb_inv (st\<lparr>bb_mem := m', bb_idx := k'\<rparr>)" using d old k' by (simp add: bb_inv_def)
  moreover have "bb_abs (st\<lparr>bb_mem := m', bb_idx := k'\<rparr>) = (bb_abs st)(pc \<mapsto> s)"
  proof
    fix x show "bb_abs (st\<lparr>bb_mem := m', bb_idx := k'\<rparr>) x = ((bb_abs st)(pc \<mapsto> s)) x"
      using keep[OF _ hash_less, of x] h' by (cases "bb_hash x = bb_hash pc") (auto simp: bb_abs_def)
  qed
  ultimately show ?thesis by blast
qed

text \<open>Into an empty bucket, and in front of a bucket in use.\<close>

lemma insert_first:
  assumes i: "bb_inv st" and pc: "pc \<noteq> -1" and new: "bb_abs st pc = None"
    and empty: "unused (bb_mem st (Head (bb_hash pc)))"
  obtains m k where "bb_insert pc s st = Ret (Head (bb_hash pc)) (st\<lparr>bb_mem := m, bb_idx := k\<rparr>)" "k \<le> bb_idx st + 1"
    "bb_inv (st\<lparr>bb_mem := m, bb_idx := k\<rparr>)" "bb_abs (st\<lparr>bb_mem := m, bb_idx := k\<rparr>) = (bb_abs st)(pc \<mapsto> s)"
proof -
  let ?h = "bb_hash pc" and ?m = "bb_mem st" and ?k = "bb_idx st"
  let ?m' = "?m(Head ?h := (?m (Head ?h))\<lparr>bb_s := s, bb_pc := pc\<rparr>)"
  have k: "?k \<le> BB_POOL_SIZE" using i by (simp add: bb_inv_def)
  have e: "bb_insert pc s st = Ret (Head ?h) (st\<lparr>bb_mem := ?m', bb_idx := ?k\<rparr>)"
    using empty by (simp add: bb_insert_def m_simps bb_load_def bb_store_def unused_def hash_less)
  have "nodes ?m' BB_POOL_SIZE BWild = []"
    by (rule linked_nodes) simp_all
  then have "entries ?m' ?h = (pc, s) # entries ?m ?h"
    using empty pc by (simp add: entries_def bucket_def unused_def)
  moreover have "head_ok (st\<lparr>bb_mem := ?m', bb_idx := ?k\<rparr>) ?h"
    using empty pc by (simp add: head_ok_def Let_def next_ok_def unused_def)
  ultimately have "bb_inv (st\<lparr>bb_mem := ?m', bb_idx := ?k\<rparr>) \<and>
      bb_abs (st\<lparr>bb_mem := ?m', bb_idx := ?k\<rparr>) = (bb_abs st)(pc \<mapsto> s)"
    using k by (intro insert_entry[OF i pc new]) auto
  with e show ?thesis by (intro that) (blast | simp)+
qed

lemma insert_front:
  assumes i: "bb_inv st" and pc: "pc \<noteq> -1" and new: "bb_abs st pc = None"
    and used: "\<not> unused (bb_mem st (Head (bb_hash pc)))" and lt: "bb_idx st < BB_POOL_SIZE"
  obtains m k where "bb_insert pc s st = Ret (Head (bb_hash pc)) (st\<lparr>bb_mem := m, bb_idx := k\<rparr>)" "k \<le> bb_idx st + 1"
    "bb_inv (st\<lparr>bb_mem := m, bb_idx := k\<rparr>)" "bb_abs (st\<lparr>bb_mem := m, bb_idx := k\<rparr>) = (bb_abs st)(pc \<mapsto> s)"
proof (cases rule: bucket_cases[OF i hash_less[of pc], case_names empty cells])
  case empty then show ?thesis using used by simp
next
  case (cells qs)
  let ?h = "bb_hash pc" and ?m = "bb_mem st" and ?k = "bb_idx st" and ?b = "bb_mem st (Head (bb_hash pc))"
  let ?m' = "?m(Pool ?k := \<lparr>bb_s = bb_s ?b, bb_next = bb_next ?b, bb_pc = bb_pc ?b\<rparr>,
                Head ?h := ?b\<lparr>bb_s := s, bb_pc := pc, bb_next := Pool ?k\<rparr>)"
  have e: "bb_insert pc s st = Ret (Head ?h) (st\<lparr>bb_mem := ?m', bb_idx := ?k + 1\<rparr>)"
    using used lt hash_less[of pc] by (auto simp: bb_insert_def bb_new_def m_simps bb_load_def bb_store_def unused_def)
  have hd: "bb_hash (bb_pc ?b) = ?h" "bb_pc ?b \<noteq> -1" using cells(6) by auto
  have hok: "next_ok ?m ?k ?h (bb_next ?b)"
    using i used hash_less[of pc] by (auto simp: bb_inv_def head_ok_def Let_def)
  have "linked ?m' (bb_next ?b) qs"
    by (rule linked_cong[OF cells(3)]) (use cells(5) in auto)
  then have "nodes ?m' BB_POOL_SIZE (Pool ?k) = Pool ?k # qs"
    using cells(4) lt by (intro linked_nodes) simp_all
  moreover have "\<forall>q\<in>set qs. ?m' q = ?m q" using cells(5) by auto
  ultimately have "entries ?m' ?h = (pc, s) # entries ?m ?h"
    using cells(1,2) by (simp add: entries_def bucket_def unused_def)
  moreover have "head_ok (st\<lparr>bb_mem := ?m', bb_idx := ?k + 1\<rparr>) ?h"
    using pc hd by (simp add: head_ok_def Let_def next_ok_def)
  moreover have "next_ok ?m' ?k ?h (bb_next ?b)"
    by (rule next_keep[OF hok]) simp_all
  then have "\<forall>i. ?k \<le> i \<and> i < ?k + 1 \<longrightarrow> pool_ok ?m' i"
    using hd by (auto simp: pool_ok_def Let_def le_less_Suc_eq)
  ultimately have "bb_inv (st\<lparr>bb_mem := ?m', bb_idx := ?k + 1\<rparr>) \<and>
      bb_abs (st\<lparr>bb_mem := ?m', bb_idx := ?k + 1\<rparr>) = (bb_abs st)(pc \<mapsto> s)"
    using lt by (intro insert_entry[OF i pc new]) auto
  with e show ?thesis by (intro that) (blast | simp)+
qed

lemma bb_insert_spec:
  assumes i: "bb_inv st" and pc: "pc \<noteq> -1" and new: "bb_abs st pc = None"
  obtains (full) "bb_insert pc s st = Ret BNull st" "bb_idx st = BB_POOL_SIZE"
  | (inserted) m k where "bb_insert pc s st = Ret (Head (bb_hash pc)) (st\<lparr>bb_mem := m, bb_idx := k\<rparr>)" "k \<le> bb_idx st + 1"
      "bb_inv (st\<lparr>bb_mem := m, bb_idx := k\<rparr>)" "bb_abs (st\<lparr>bb_mem := m, bb_idx := k\<rparr>) = (bb_abs st)(pc \<mapsto> s)"
proof (cases "unused (bb_mem st (Head (bb_hash pc)))")
  case True
  show ?thesis by (rule insert_first[OF i pc new True, of s]) (rule inserted)
next
  case False
  show ?thesis
  proof (cases "bb_idx st = BB_POOL_SIZE")
    case True
    with False hash_less[of pc] show ?thesis
      by (intro full) (auto simp: bb_insert_def bb_new_def m_simps bb_load_def unused_def)
  next
    case neq: False
    with i have lt: "bb_idx st < BB_POOL_SIZE" by (simp add: bb_inv_def)
    show ?thesis by (rule insert_front[OF i pc new False lt, of s]) (rule inserted)
  qed
qed

section \<open>Flush\<close>

lemma flush_state:
  obtains st' where "tcache_flush st = Ret () st'" "bb_inv st'" "bb_abs st' = Map.empty" "bb_idx st' = 0" "tc_idx st' = 0"
    "bb_freelist st' = Bb 0" "t_mem st' Ex = t_mem st Ex" "g_exec_nemu_decode st' = g_exec_nemu_decode st"
    "t_mach st' = t_mach st"
    "\<forall>i<TCACHE_BB_SIZE. tnext (t_mem st' (Bb i)) = (if i = TCACHE_BB_SIZE - 1 then DNull else Bb (i + 1))"
proof -
  obtain st' where e: "tcache_flush st = Ret () st'" by (simp add: tcache_flush_def m_simps)
  then have st': "bb_idx st' = 0" "tc_idx st' = 0" "bb_freelist st' = Bb 0"
    "\<forall>h. unused (bb_mem st' (Head h))" "t_mem st' Ex = t_mem st Ex" "g_exec_nemu_decode st' = g_exec_nemu_decode st"
    "t_mach st' = t_mach st"
    "\<forall>i<TCACHE_BB_SIZE. tnext (t_mem st' (Bb i)) = (if i = TCACHE_BB_SIZE - 1 then DNull else Bb (i + 1))"
    by (auto simp: tcache_flush_def m_simps unused_def)
  have "entries (bb_mem st') h = []" for h using st'(4) by (simp add: entries_def bucket_def)
  then have "bb_inv st'" "bb_abs st' = Map.empty"
    using st'(1,4) by (auto simp: bb_inv_def bb_abs_def head_ok_def Let_def)
  with e st' show thesis by (intro that)
qed

section \<open>The table as a finite map\<close>

text \<open>The contract of a table with lookup and insertion of absent keys, and runs of its two operations,
  an insertion being preceded by a lookup.\<close>

datatype ('k, 'v) map_op = Look 'k | Put 'k 'v

fun op_key :: "('k, 'v) map_op \<Rightarrow> 'k" where
  "op_key (Look k) = k"
| "op_key (Put k v) = k"

definition look_or_put :: "('k \<Rightarrow> ('s, 'v option) m) \<Rightarrow> ('k \<Rightarrow> 'v \<Rightarrow> ('s, bool) m) \<Rightarrow> ('k, 'v) map_op \<Rightarrow> ('s, 'v option) m" where
  "look_or_put look put x = bnd (look (op_key x)) (\<lambda>r.
     case (x, r) of
       (Put k v, None) \<Rightarrow> bnd (put k v) (\<lambda>b. ret (if b then Some v else None))
     | _ \<Rightarrow> ret r)"

primrec run_table :: "('k \<Rightarrow> ('s, 'v option) m) \<Rightarrow> ('k \<Rightarrow> 'v \<Rightarrow> ('s, bool) m) \<Rightarrow> ('k, 'v) map_op list \<Rightarrow> ('s, 'v option list) m" where
  "run_table look put [] = ret []"
| "run_table look put (x # xs) =
     bnd (look_or_put look put x) (\<lambda>r. bnd (run_table look put xs) (\<lambda>rs. ret (r # rs)))"

primrec run_map :: "('k, 'v) map_op list \<Rightarrow> ('k \<rightharpoonup> 'v) \<Rightarrow> 'v option list \<times> ('k \<rightharpoonup> 'v)" where
  "run_map [] f = ([], f)"
| "run_map (x # xs) f =
     (let f' = (case x of Look k \<Rightarrow> f | Put k v \<Rightarrow> if f k = None then f(k \<mapsto> v) else f);
          (rs, g) = run_map xs f'
      in (f' (op_key x) # rs, g))"

locale lookup_table =
  fixes ok :: "'s \<Rightarrow> bool" and abs :: "'s \<Rightarrow> 'k \<rightharpoonup> 'v" and used :: "'s \<Rightarrow> nat" and cap :: nat
    and key :: "'k \<Rightarrow> bool" and look :: "'k \<Rightarrow> ('s, 'v option) m" and put :: "'k \<Rightarrow> 'v \<Rightarrow> ('s, bool) m"
  assumes look_ok: "ok s \<Longrightarrow> key k \<Longrightarrow>
      \<exists>s'. look k s = Ret (abs s k) s' \<and> ok s' \<and> abs s' = abs s \<and> used s' = used s"
    and put_ok: "ok s \<Longrightarrow> key k \<Longrightarrow> abs s k = None \<Longrightarrow> used s < cap \<Longrightarrow>
      \<exists>s'. put k v s = Ret True s' \<and> ok s' \<and> abs s' = (abs s)(k \<mapsto> v) \<and> used s' \<le> used s + 1"
begin

lemma step_sim:
  assumes "ok s" "key (op_key x)" "used s < cap"
  defines "f' \<equiv> (case x of Look k \<Rightarrow> abs s | Put k v \<Rightarrow> if abs s k = None then (abs s)(k \<mapsto> v) else abs s)"
  shows "\<exists>s'. look_or_put look put x s = Ret (f' (op_key x)) s' \<and> ok s' \<and> abs s' = f' \<and> used s' \<le> used s + 1"
proof -
  obtain s1 where s1: "look (op_key x) s = Ret (abs s (op_key x)) s1" "ok s1" "abs s1 = abs s" "used s1 = used s"
    using look_ok[OF assms(1,2)] by blast
  show ?thesis
  proof (cases x)
    case (Look k) then show ?thesis using s1 by (auto simp: look_or_put_def f'_def m_simps)
  next
    case (Put k v)
    show ?thesis
    proof (cases "abs s k")
      case None
      have "\<exists>s'. put k v s1 = Ret True s' \<and> ok s' \<and> abs s' = (abs s1)(k \<mapsto> v) \<and> used s' \<le> used s1 + 1"
        using assms(2,3) s1 None Put by (intro put_ok) simp_all
      then obtain s2 where "put k v s1 = Ret True s2 \<and> ok s2 \<and> abs s2 = (abs s1)(k \<mapsto> v) \<and> used s2 \<le> used s1 + 1" ..
      then show ?thesis using s1 None Put by (auto simp: look_or_put_def f'_def m_simps)
    next
      case (Some w) then show ?thesis using s1 Put by (auto simp: look_or_put_def f'_def m_simps)
    qed
  qed
qed

lemma run_sim:
  assumes "ok s" "\<forall>x\<in>set xs. key (op_key x)" "used s + length xs \<le> cap"
  shows "\<exists>s'. run_table look put xs s = Ret (fst (run_map xs (abs s))) s' \<and> ok s' \<and> abs s' = snd (run_map xs (abs s))"
  using assms
proof (induction xs arbitrary: s)
  case Nil then show ?case by (simp add: m_simps)
next
  case (Cons x xs)
  let ?f = "case x of Look k \<Rightarrow> abs s | Put k v \<Rightarrow> if abs s k = None then (abs s)(k \<mapsto> v) else abs s"
  obtain s1 where s1: "look_or_put look put x s = Ret (?f (op_key x)) s1" "ok s1" "abs s1 = ?f" "used s1 \<le> used s + 1"
    using step_sim[of s x] Cons.prems by auto
  obtain s2 where "run_table look put xs s1 = Ret (fst (run_map xs (abs s1))) s2" "ok s2" "abs s2 = snd (run_map xs (abs s1))"
    using Cons.IH[of s1] s1 Cons.prems by auto
  with s1 show ?case by (auto simp: m_simps Let_def split: prod.splits)
qed

end

text \<open>The operations as the decoder uses them.\<close>

definition bb_look :: "uint64 \<Rightarrow> dptr option tcm" where
  "bb_look pc = bnd (bb_find pc) (\<lambda>bb.
     if bb = BNull then ret None else bnd (bb_load bb) (\<lambda>b. ret (Some (bb_s b))))"

definition bb_put :: "uint64 \<Rightarrow> dptr \<Rightarrow> bool tcm" where
  "bb_put pc s = bnd (bb_insert pc s) (\<lambda>bb. ret (bb \<noteq> BNull))"

interpretation blocks: lookup_table bb_inv bb_abs bb_idx BB_POOL_SIZE "\<lambda>pc. pc \<noteq> -1" bb_look bb_put
proof
  fix st and pc :: uint64 assume a: "bb_inv st" "pc \<noteq> -1"
  show "\<exists>st'. bb_look pc st = Ret (bb_abs st pc) st' \<and> bb_inv st' \<and> bb_abs st' = bb_abs st \<and> bb_idx st' = bb_idx st"
    by (cases rule: bb_find_spec[OF a, case_names absent found])
       (use a in \<open>auto simp: bb_look_def m_simps bb_load_def hash_less\<close>)
next
  fix st s and pc :: uint64 assume a: "bb_inv st" "pc \<noteq> -1" "bb_abs st pc = None" "bb_idx st < BB_POOL_SIZE"
  show "\<exists>st'. bb_put pc s st = Ret True st' \<and> bb_inv st' \<and> bb_abs st' = (bb_abs st)(pc \<mapsto> s) \<and> bb_idx st' \<le> bb_idx st + 1"
    by (cases rule: bb_insert_spec[OF a(1-3), of s, case_names full inserted])
       (use a(4) in \<open>auto simp: bb_put_def m_simps\<close>)
qed

text \<open>Property C6: the block table refines a finite map. After a flush, any sequence of at most 1024
  lookups and look-up-or-insert operations on addresses other than the all-ones word returns exactly what
  the same sequence returns on a finite map from addresses to blocks that starts empty, whatever the buckets
  the addresses share and whatever the order in which found cells were moved to the front; no operation
  fails, and the search loop always ends.\<close>

theorem block_table_refines:
  assumes "\<forall>x\<in>set ops. op_key x \<noteq> -1" "length ops \<le> BB_POOL_SIZE"
  shows "\<exists>st'. thn tcache_flush (run_table bb_look bb_put ops) st = Ret (fst (run_map ops Map.empty)) st' \<and>
      bb_abs st' = snd (run_map ops Map.empty)"
proof -
  obtain s1 where s1: "tcache_flush st = Ret () s1" "bb_inv s1" "bb_abs s1 = Map.empty" "bb_idx s1 = 0"
    by (rule flush_state)
  obtain s2 where "run_table bb_look bb_put ops s1 = Ret (fst (run_map ops (bb_abs s1))) s2"
    "bb_abs s2 = snd (run_map ops (bb_abs s1))"
    using blocks.run_sim[of s1 ops] assms s1(2,4) by auto
  with s1 show ?thesis by (simp add: m_simps)
qed

lemma block_table_refines_witness:
  "\<exists>st'. thn tcache_flush (run_table bb_look bb_put
      [Put 0x80000000 (Tc 0), Put 0x80000800 (Tc 5), Put 0x80001000 (Tc 9), Look 0x80000000, Look 0x80000800, Look 4])
      (static_tcache static_machine)
    = Ret [Some (Tc 0), Some (Tc 5), Some (Tc 9), Some (Tc 0), Some (Tc 5), None] st' \<and> bb_abs st' 0x80001000 = Some (Tc 9)"
proof -
  let ?ops = "[Put 0x80000000 (Tc 0), Put 0x80000800 (Tc 5), Put 0x80001000 (Tc 9), Look 0x80000000, Look 0x80000800, Look 4]
    :: (uint64, dptr) map_op list"
  have "\<forall>x\<in>set ?ops. op_key x \<noteq> -1" "length ?ops \<le> BB_POOL_SIZE" by (simp_all add: BB_POOL_SIZE_def)
  from block_table_refines[OF this, of "static_tcache static_machine"] show ?thesis by (auto simp: Let_def)
qed

end
