(* ===== verification/TcacheLinks.thy ===== *)
theory TcacheLinks
  imports TcacheProps
begin

text \<open>
  The links between decoded blocks: the list of placeholder records, what a fetch of an exit of a block
  links to, the run-time lookup of an indirect jump, the decoder's path for a block that is decoded
  already, and how many unresolved exits the list can serve.
\<close>

section \<open>The list of placeholder records\<close>

primrec freelist :: "(dptr \<Rightarrow> tdecode) \<Rightarrow> dptr \<Rightarrow> nat list \<Rightarrow> bool" where
  "freelist t p [] \<longleftrightarrow> p = DNull"
| "freelist t p (i # fr) \<longleftrightarrow> p = Bb i \<and> i < TCACHE_BB_SIZE \<and> freelist t (tnext (t (Bb i))) fr"

definition free_ok :: "tcache \<Rightarrow> nat list \<Rightarrow> bool" where
  "free_ok st fr \<longleftrightarrow> freelist (t_mem st) (bb_freelist st) fr \<and> distinct fr"

lemma freelist_cong: "freelist t p fr \<Longrightarrow> \<forall>i\<in>set fr. tnext (t' (Bb i)) = tnext (t (Bb i)) \<Longrightarrow> freelist t' p fr"
  by (induction fr arbitrary: p) auto

lemma freelist_upto:
  assumes "\<forall>i<TCACHE_BB_SIZE. tnext (t (Bb i)) = (if i = TCACHE_BB_SIZE - 1 then DNull else Bb (i + 1))"
    and "n < TCACHE_BB_SIZE"
  shows "freelist t (Bb n) [n..<TCACHE_BB_SIZE]"
  using assms(2)
proof (induction "TCACHE_BB_SIZE - n" arbitrary: n)
  case (Suc d)
  have up: "[n..<TCACHE_BB_SIZE] = n # [Suc n..<TCACHE_BB_SIZE]" using Suc.prems by (simp add: upt_conv_Cons)
  show ?case
  proof (cases "Suc n = TCACHE_BB_SIZE")
    case True
    then have e: "[n..<TCACHE_BB_SIZE] = [n]" using up by simp
    have "tnext (t (Bb n)) = DNull" using assms(1) Suc.prems True by auto
    then show ?thesis using Suc.prems unfolding e by simp
  next
    case False
    then have "freelist t (Bb (Suc n)) [Suc n..<TCACHE_BB_SIZE]" using Suc.hyps(1)[of "Suc n"] Suc.hyps(2) Suc.prems by simp
    then show ?thesis using assms(1) Suc.prems False by (simp add: up)
  qed
qed simp

text \<open>The record as it is handed out.\<close>

definition entry_init :: "ehelper \<Rightarrow> uint64 \<Rightarrow> tdecode \<Rightarrow> tdecode" where
  "entry_init h pc e = e\<lparr>tnext := DNull, ntnext := DNull, d_type := INSTR_TYPE_N, d_pc := pc, EHelper := h\<rparr>"

lemma bb_new_ok:
  assumes "freelist (t_mem st) (bb_freelist st) (i # j # k # fr)"
  shows "tcache_bb_new pc st = Ret (Bb i) (st\<lparr>bb_freelist := Bb j,
    t_mem := (t_mem st)(Bb i := entry_init (g_exec_nemu_decode st) pc (t_mem st (Bb i)))\<rparr>)"
  using assms
  by (simp add: tcache_bb_new_def tcache_bb_check_def check_next_def tcache_entry_init_def load_def store_def
        entry_init_def m_simps)

lemma bb_new_fails:
  assumes "freelist (t_mem st) (bb_freelist st) fr" "length fr < 3"
  shows "tcache_bb_new pc st = Crash Assert_fail"
proof -
  consider "fr = []" | i where "fr = [i]" | i j where "fr = [i, j]"
    using assms(2) by (cases fr rule: remdups_adj.cases) (auto simp: neq_Nil_conv less_Suc_eq)
  then show ?thesis
    using assms(1)
    by cases (simp_all add: tcache_bb_new_def tcache_bb_check_def check_next_def load_def m_simps)
qed

lemma bb_free_ok:
  assumes "freelist (t_mem st) (bb_freelist st) (j # fr)" "i < TCACHE_BB_SIZE"
  shows "tcache_bb_free (Bb i) st = Ret () (st\<lparr>bb_freelist := Bb i,
    t_mem := (t_mem st)(Bb i := (t_mem st (Bb i))\<lparr>tnext := bb_freelist st\<rparr>)\<rparr>)"
  using assms by (simp add: tcache_bb_free_def tcache_bb_check_def check_next_def load_def store_def m_simps)

lemma free_ok_cong:
  assumes "free_ok st fr" "bb_freelist st' = bb_freelist st" "\<forall>i\<in>set fr. tnext (t_mem st' (Bb i)) = tnext (t_mem st (Bb i))"
  shows "free_ok st' fr"
  using assms freelist_cong[of "t_mem st" "bb_freelist st" fr "t_mem st'"] by (simp add: free_ok_def)

lemma free_ok_put:
  assumes "bb_freelist st = Bb i" "i < TCACHE_BB_SIZE" "tnext (t_mem st (Bb i)) = p" "freelist (t_mem st) p fr" "distinct (i # fr)"
  shows "free_ok st (i # fr)"
  using assms by (simp add: free_ok_def)

section \<open>The invariant of the cache\<close>

text \<open>The table maps an address to a decoded instruction of that address, and the free records form a
  list.\<close>

definition blocks_ok :: "tcache \<Rightarrow> bool" where
  "blocks_ok st \<longleftrightarrow> bb_inv st \<and> (\<forall>pc s. pc \<noteq> -1 \<and> bb_abs st pc = Some s \<longrightarrow>
     (\<exists>i<TCACHE_SIZE. s = Tc i) \<and> d_pc (t_mem st s) = pc)"

definition set_link :: "bool \<Rightarrow> dptr \<Rightarrow> tdecode \<Rightarrow> tdecode" where
  "set_link tk p e = (if tk then e\<lparr>tnext := p\<rparr> else e\<lparr>ntnext := p\<rparr>)"

definition get_link :: "bool \<Rightarrow> tdecode \<Rightarrow> dptr" where
  "get_link tk e = (if tk then tnext e else ntnext e)"

lemma link_simps [simp]:
  "get_link tk (set_link tk p e) = p" "tk \<noteq> tk' \<Longrightarrow> get_link tk' (set_link tk p e) = get_link tk' e"
  "d_pc (set_link tk p e) = d_pc e" "d_snpc (set_link tk p e) = d_snpc e" "d_jnpc (set_link tk p e) = d_jnpc e"
  "d_type (set_link tk p e) = d_type e" "EHelper (set_link tk p e) = EHelper e"
  by (auto simp: set_link_def get_link_def)

lemma abs_cong: "bb_mem st' = bb_mem st \<Longrightarrow> bb_abs st' = bb_abs st"
  by (rule ext) (simp add: bb_abs_def)

lemma inv_cong: "bb_mem st' = bb_mem st \<Longrightarrow> bb_idx st' = bb_idx st \<Longrightarrow> bb_inv st' = bb_inv st"
  by (simp add: bb_inv_def head_ok_def)

lemma blocks_ok_cong:
  assumes "blocks_ok st" "bb_mem st' = bb_mem st" "bb_idx st' = bb_idx st"
    and "\<forall>i<TCACHE_SIZE. d_pc (t_mem st' (Tc i)) = d_pc (t_mem st (Tc i))"
  shows "blocks_ok st'"
  using assms abs_cong[OF assms(2)] inv_cong[OF assms(2,3)] unfolding blocks_ok_def by fastforce

text \<open>\<open>tcache_bb_fetch\<close> links an exit of \<open>this\<close> to the block of the target address or to a fresh
  placeholder that remembers which link to patch.\<close>

lemma bb_fetch_spec:
  assumes b: "blocks_ok st" and f: "free_ok st fr" "2 < length fr" and tv: "dvalid this" "\<forall>i. this \<noteq> Bb i"
    and pc: "jpc \<noteq> -1"
  shows "\<exists>st' p fr'. tcache_bb_fetch this tk jpc st = Ret () st' \<and> blocks_ok st' \<and> free_ok st' fr' \<and>
    dvalid p \<and> d_pc (t_mem st' p) = jpc \<and> get_link tk (t_mem st' this) = p \<and> get_link (\<not> tk) (t_mem st' this) = get_link (\<not> tk) (t_mem st this) \<and>
    (\<forall>q. q \<noteq> this \<and> q \<noteq> p \<longrightarrow> t_mem st' q = t_mem st q) \<and>
    d_pc (t_mem st' this) = d_pc (t_mem st this) \<and> d_snpc (t_mem st' this) = d_snpc (t_mem st this) \<and>
    bb_abs st' = bb_abs st \<and> tcache_state st' = tcache_state st \<and> bb_idx st' = bb_idx st \<and> length fr \<le> length fr' + 1 \<and>
    p \<notin> Bb ` set fr' \<and> (\<forall>q. q \<notin> Bb ` set fr \<longrightarrow> d_pc (t_mem st' q) = d_pc (t_mem st q)) \<and>
    (case bb_abs st jpc of Some s \<Rightarrow> p = s \<and> fr' = fr
     | None \<Rightarrow> p = Bb (hd fr) \<and> fr' = tl fr \<and> ntnext (t_mem st' p) = this \<and>
         d_type (t_mem st' p) = (if tk then BB_RECORD_TYPE_TAKEN else BB_RECORD_TYPE_NTAKEN))"
proof -
  have bi: "bb_inv st" using b by (simp add: blocks_ok_def)
  show ?thesis
  proof (cases rule: bb_find_spec[OF bi pc, case_names absent found])
    case (found m s)
    let ?st = "st\<lparr>bb_mem := m, t_mem := (t_mem st)(this := set_link tk s (t_mem st this))\<rparr>"
    have e: "tcache_bb_fetch this tk jpc st = Ret () ?st"
      using found tv(1) by (simp add: tcache_bb_fetch_def m_simps bb_load_def store_def hash_less set_link_def)
    have abs: "bb_abs ?st = bb_abs st" using found(5) abs_cong[of ?st "st\<lparr>bb_mem := m\<rparr>"] by simp
    have inv: "bb_inv ?st" using found(4) inv_cong[of ?st "st\<lparr>bb_mem := m\<rparr>"] by simp
    have s: "dvalid s" "d_pc (t_mem st s) = jpc" "\<forall>k. s \<noteq> Bb k" using b found(2) pc by (force simp: blocks_ok_def)+
    have "blocks_ok ?st" using b abs inv by (auto simp: blocks_ok_def)
    moreover have "free_ok ?st fr" by (rule free_ok_cong[OF f(1)]) (use tv(2) in auto)
    ultimately show ?thesis using e s abs found(2) by (intro exI[of _ ?st] exI[of _ s] exI[of _ fr]) auto
  next
    case absent
    obtain i j k fr' where fr': "fr = i # j # k # fr'"
      using f(2) by (cases fr rule: remdups_adj.cases) (auto simp: neq_Nil_conv numeral_2_eq_2 length_Suc_conv)
    let ?t = "if tk then BB_RECORD_TYPE_TAKEN else BB_RECORD_TYPE_NTAKEN"
    let ?r = "(entry_init (g_exec_nemu_decode st) jpc (t_mem st (Bb i)))\<lparr>d_type := ?t, ntnext := this\<rparr>"
    let ?st = "st\<lparr>bb_freelist := Bb j, t_mem := (t_mem st)(this := set_link tk (Bb i) (t_mem st this), Bb i := ?r)\<rparr>"
    have fl: "freelist (t_mem st) (bb_freelist st) (i # j # k # fr')" and i: "i < TCACHE_BB_SIZE"
      using f(1) fr' by (auto simp: free_ok_def)
    have ne: "this \<noteq> Bb i" using tv(2) by blast
    have di: "i \<notin> set (j # k # fr')" using f(1) fr' by (simp add: free_ok_def)
    have e: "tcache_bb_fetch this tk jpc st = Ret () ?st"
      using absent tv(1) i ne by (cases tk) (simp_all add: tcache_bb_fetch_def m_simps bb_new_ok[OF fl] store_def set_link_def fun_upd_twist)
    have "blocks_ok ?st" by (rule blocks_ok_cong[OF b]) auto
    moreover have "freelist (t_mem ?st) (Bb j) (j # k # fr')"
      by (rule freelist_cong[of "t_mem st"]) (use f(1) fr' tv(2) in \<open>auto simp: free_ok_def\<close>)
    then have "free_ok ?st (tl fr)" using f(1) fr' by (simp add: free_ok_def)
    moreover have "bb_abs ?st = bb_abs st" by (rule abs_cong) simp
    ultimately show ?thesis using e absent(2) fr' i ne di
      by (intro exI[of _ ?st] exI[of _ "Bb i"] exI[of _ "tl fr"]) (auto simp: entry_init_def)
  qed
qed

section \<open>Direct jumps and branches\<close>


section \<open>Indirect jumps\<close>

text \<open>The jump cache. The record an indirect jump continues with is one for the jump's
  target, whether it was found among the last two targets, in the block table, or made as a placeholder, and
  the table and the list of free placeholders stay well formed.\<close>

theorem jr_fetch_target:
  assumes b: "blocks_ok st" and f: "free_ok st fr" "2 < length fr" and s: "s = Tc i" "i < TCACHE_SIZE"
    and links: "dvalid (tnext (t_mem st s))" "dvalid (ntnext (t_mem st s))" and pc: "target \<noteq> -1"
  shows "\<exists>p st' fr'. jr_fetch s target st = Ret p st' \<and> dvalid p \<and> d_pc (t_mem st' p) = target \<and>
    blocks_ok st' \<and> free_ok st' fr' \<and> length fr \<le> length fr' + 1"
proof -
  let ?e = "t_mem st s"
  have v: "dvalid s" "\<forall>j. s \<noteq> Bb j" using s by simp_all
  show ?thesis
  proof (cases "d_pc (t_mem st (tnext ?e)) = target \<or> d_pc (t_mem st (ntnext ?e)) = target")
    case True
    then obtain p where "jr_fetch s target st = Ret p st" "dvalid p" "d_pc (t_mem st p) = target"
      using links v by (cases "d_pc (t_mem st (tnext ?e)) = target") (auto simp: jr_fetch_def m_simps load_def)
    with b f show ?thesis by (intro exI[of _ p] exI[of _ st] exI[of _ fr]) simp
  next
    case False
    let ?st = "st\<lparr>t_mem := (t_mem st)(s := ?e\<lparr>ntnext := tnext ?e\<rparr>)\<rparr>"
    have b1: "blocks_ok ?st" by (rule blocks_ok_cong[OF b]) auto
    have f1: "free_ok ?st fr" by (rule free_ok_cong[OF f(1)]) (use s in auto)
    obtain st' p fr' where r: "tcache_bb_fetch s True target ?st = Ret () st'" "blocks_ok st'" "free_ok st' fr'"
      "dvalid p" "d_pc (t_mem st' p) = target" "get_link True (t_mem st' s) = p" "length fr \<le> length fr' + 1"
      using bb_fetch_spec[OF b1 f1 f(2) v pc, of True] by (elim exE conjE) (rule that)
    have "jr_fetch s target st = Ret p st'"
      using False links v r(1,6) by (simp add: jr_fetch_def tcache_jr_fetch_def m_simps load_def store_def get_link_def)
    with r show ?thesis by blast
  qed
qed

section \<open>Placeholders\<close>

text \<open>Property C15: resolving a placeholder. When execution reaches a placeholder for an address whose block
  is in the table, the decoder fetches nothing: it returns the block, makes the recorded exit of the source
  instruction point to it (the other exit keeps its target), and gives the placeholder back.\<close>

theorem decode_cached_block:
  assumes b: "blocks_ok st" and f: "free_ok st (j # fr)" and run: "tcache_state st = TCACHE_RUNNING"
    and r: "i < TCACHE_BB_SIZE" "i \<notin> set (j # fr)" "d_pc (t_mem st (Bb i)) = pc" "ntnext (t_mem st (Bb i)) = src"
      "d_type (t_mem st (Bb i)) = (if tk then BB_RECORD_TYPE_TAKEN else BB_RECORD_TYPE_NTAKEN)"
    and src: "src = Ex \<or> (\<exists>k<TCACHE_SIZE. src = Tc k)" and hit: "bb_abs st pc = Some blk" and pc: "pc \<noteq> -1"
  shows "\<exists>st'. tcache_decode (Bb i) st = Ret blk st' \<and> d_pc (t_mem st' blk) = pc \<and>
    get_link tk (t_mem st' src) = blk \<and> get_link (\<not> tk) (t_mem st' src) = get_link (\<not> tk) (t_mem st src) \<and>
    t_mach st' = t_mach st \<and> bb_abs st' = bb_abs st \<and> blocks_ok st' \<and> free_ok st' (i # j # fr)"
proof -
  have bi: "bb_inv st" using b by (simp add: blocks_ok_def)
  have sv: "dvalid src" "src \<noteq> Bb i" "\<forall>k. src \<noteq> Bb k" "Bb i \<noteq> src" using src by auto
  have ty: "BB_RECORD_TYPE_TAKEN \<noteq> BB_RECORD_TYPE_NTAKEN" by (simp add: BB_RECORD_TYPE_TAKEN_def BB_RECORD_TYPE_NTAKEN_def)
  obtain m where m: "bb_find pc st = Ret (Head (bb_hash pc)) (st\<lparr>bb_mem := m\<rparr>)" "bb_s (m (Head (bb_hash pc))) = blk"
    "bb_inv (st\<lparr>bb_mem := m\<rparr>)" "bb_abs (st\<lparr>bb_mem := m\<rparr>) = bb_abs st"
    using bb_find_spec[OF bi pc] hit by (metis option.distinct(1) option.inject)
  have blk: "\<exists>k<TCACHE_SIZE. blk = Tc k" "d_pc (t_mem st blk) = pc" using b hit pc by (auto simp: blocks_ok_def)
  let ?t = "(t_mem st)(src := set_link tk blk (t_mem st src))"
  let ?st = "st\<lparr>bb_mem := m, bb_freelist := Bb i, t_mem := ?t(Bb i := (t_mem st (Bb i))\<lparr>tnext := bb_freelist st\<rparr>)\<rparr>"
  have fl: "freelist ?t (bb_freelist st) (j # fr)"
    by (rule freelist_cong[of "t_mem st"]) (use f sv(3) in \<open>auto simp: free_ok_def\<close>)
  have patch: "tcache_patch_and_free (Bb i) blk (st\<lparr>bb_mem := m\<rparr>) = Ret () ?st"
    using r sv ty fl bb_free_ok[of "st\<lparr>bb_mem := m, t_mem := ?t\<rparr>" j fr i]
    by (cases tk) (simp_all add: tcache_patch_and_free_def m_simps load_def store_def set_link_def)
  have e: "tcache_decode (Bb i) st = Ret blk ?st"
    using r run m patch by (simp add: tcache_decode_def m_simps load_def bb_load_def hash_less)
  have abs: "bb_abs ?st = bb_abs st" using m(4) abs_cong[of ?st "st\<lparr>bb_mem := m\<rparr>"] by simp
  have inv: "bb_inv ?st" using m(3) inv_cong[of ?st "st\<lparr>bb_mem := m\<rparr>"] by simp
  have "blocks_ok ?st" using b abs inv by (auto simp: blocks_ok_def)
  moreover have "freelist (t_mem ?st) (bb_freelist st) (j # fr)"
    by (rule freelist_cong[OF fl]) (use r(2) in auto)
  from free_ok_put[OF _ r(1) _ this] have "free_ok ?st (i # j # fr)" using f r(2) by (simp add: free_ok_def)
  ultimately show ?thesis using e abs blk sv by (intro exI[of _ ?st]) auto
qed

text \<open>Exceptions at addresses none of which gets decoded.\<close>

primrec exceptions :: "uint64 list \<Rightarrow> unit tcm" where
  "exceptions [] = skip"
| "exceptions (pc # pcs) = thn (tcache_handle_exception pc) (exceptions pcs)"

lemma exception_step:
  assumes b: "blocks_ok st" "bb_abs st = Map.empty" and f: "free_ok st fr" and pc: "pc \<noteq> -1"
  shows "if 2 < length fr
    then \<exists>st'. tcache_handle_exception pc st = Ret () st' \<and> blocks_ok st' \<and> bb_abs st' = Map.empty \<and> free_ok st' (tl fr)
    else tcache_handle_exception pc st = Crash Assert_fail"
proof (cases "2 < length fr")
  case True
  obtain st1 where st1: "tcache_bb_fetch Ex True pc st = Ret () st1" "blocks_ok st1" "free_ok st1 (tl fr)" "bb_abs st1 = Map.empty"
    using bb_fetch_spec[OF b(1) f True _ _ pc, of Ex True] b(2) by auto
  let ?st = "st1\<lparr>prev_s := tnext (t_mem st1 Ex), tcache_state := TCACHE_RUNNING\<rparr>"
  have "tcache_handle_exception pc st = Ret () ?st"
    using st1(1) by (simp add: tcache_handle_exception_def save_globals_def m_simps load_def)
  moreover have "blocks_ok ?st" by (rule blocks_ok_cong[OF st1(2)]) simp_all
  moreover have "free_ok ?st (tl fr)" by (rule free_ok_cong[OF st1(3)]) simp_all
  moreover have "bb_abs ?st = Map.empty" using abs_cong[of ?st st1] st1(4) by simp
  ultimately show ?thesis using True by auto
next
  case False
  have "bb_inv st" using b(1) by (simp add: blocks_ok_def)
  from this pc have "bb_find pc st = Ret BNull st"
    by (cases rule: bb_find_spec) (use b(2) in simp_all)
  moreover have "tcache_bb_new pc st = Crash Assert_fail"
    using bb_new_fails[of st fr pc] f False by (simp add: free_ok_def)
  ultimately show ?thesis
    using False by (simp add: tcache_handle_exception_def tcache_bb_fetch_def m_simps)
qed

lemma exceptions_count:
  assumes "blocks_ok st" "bb_abs st = Map.empty" "free_ok st fr" "-1 \<notin> set pcs"
  shows "if length pcs + 2 \<le> length fr \<or> pcs = [] then \<exists>st'. exceptions pcs st = Ret () st'
    else exceptions pcs st = Crash Assert_fail"
  using assms
proof (induction pcs arbitrary: st fr)
  case Nil then show ?case by (simp add: m_simps)
next
  case (Cons pc pcs)
  show ?case
  proof (cases "2 < length fr")
    case True
    then obtain st1 where st1: "tcache_handle_exception pc st = Ret () st1" "blocks_ok st1" "bb_abs st1 = Map.empty" "free_ok st1 (tl fr)"
      using exception_step[OF Cons.prems(1-3), of pc] Cons.prems(4) by auto
    show ?thesis using Cons.IH[OF st1(2-4)] Cons.prems(4) st1(1) True by (cases "pcs = []") (auto simp: m_simps)
  next
    case False
    then show ?thesis using exception_step[OF Cons.prems(1-3), of pc] Cons.prems(4) by (auto simp: m_simps)
  qed
qed

lemma flush_ok:
  obtains st' where "tcache_flush st = Ret () st'" "blocks_ok st'" "bb_abs st' = Map.empty" "free_ok st' [0..<TCACHE_BB_SIZE]"
    "bb_idx st' = 0" "tc_idx st' = 0" "t_mach st' = t_mach st"
proof (rule flush_state[of st])
  fix st' assume a: "tcache_flush st = Ret () st'" "bb_inv st'" "bb_abs st' = Map.empty" "bb_freelist st' = Bb 0" "bb_idx st' = 0"
    "tc_idx st' = 0" "t_mach st' = t_mach st"
    "\<forall>i<TCACHE_BB_SIZE. tnext (t_mem st' (Bb i)) = (if i = TCACHE_BB_SIZE - 1 then DNull else Bb (i + 1))"
  have "free_ok st' [0..<TCACHE_BB_SIZE]"
    using freelist_upto[OF a(8), of 0] a(4) by (simp add: free_ok_def tc_sizes)
  with a show thesis by (intro that[of st']) (simp_all add: blocks_ok_def)
qed

text \<open>Property C28: the list of placeholders is not replenished by a flush of its own. After a flush, each
  exception whose handler address has no decoded block takes a placeholder, also when the address is the
  same every time (a handler whose first fetch faults again). The first 2048 succeed; the next one fails the
  run-time check of \<open>tcache_bb_new\<close> and ends the emulator.\<close>

theorem unresolved_exits_bounded:
  assumes "-1 \<notin> set pcs"
  shows "if length pcs \<le> 2048 then \<exists>st'. thn tcache_flush (exceptions pcs) st = Ret () st'
    else thn tcache_flush (exceptions pcs) st = Crash Assert_fail"
proof (rule flush_ok[of st])
  fix st1 assume st1: "tcache_flush st = Ret () st1" "blocks_ok st1" "bb_abs st1 = Map.empty" "free_ok st1 [0..<TCACHE_BB_SIZE]"
  from exceptions_count[OF st1(2-4) assms] st1(1) show ?thesis
    by (cases "pcs = []") (auto simp: m_simps tc_sizes)
qed

section \<open>A full cache\<close>

lemma upt_two: "2 < n \<Longrightarrow> [0..<n] = 0 # 1 # [2..<n]"
  by (simp add: upt_conv_Cons numeral_2_eq_2)

lemma upt_three: "2 < n \<Longrightarrow> [0..<n] = 0 # 1 # 2 # [3..<n]"
  by (simp add: upt_conv_Cons numeral_2_eq_2 numeral_3_eq_3)

lemma full_state:
  obtains st' where "tcache_full pc st = LongJmp NEMU_EXEC_AGAIN st'" "blocks_ok st'" "bb_abs st' = Map.empty" "tc_idx st' = 0"
    "tcache_state st' = TCACHE_RUNNING" "dvalid (prev_s st')" "d_pc (t_mem st' (prev_s st')) = pc" "t_mach st' = t_mach st"
    "bb_idx st' = 0"
proof (rule flush_ok[of st])
  fix st1 assume st1: "tcache_flush st = Ret () st1" "blocks_ok st1" "bb_abs st1 = Map.empty" "free_ok st1 [0..<TCACHE_BB_SIZE]"
    "tc_idx st1 = 0" "t_mach st1 = t_mach st" "bb_idx st1 = 0"
  have "[0..<TCACHE_BB_SIZE] = 0 # 1 # 2 # [3..<TCACHE_BB_SIZE]" by (rule upt_three) (simp add: tc_sizes)
  with st1(4) have fl: "freelist (t_mem st1) (bb_freelist st1) (0 # 1 # 2 # [3..<TCACHE_BB_SIZE])" by (simp add: free_ok_def)
  let ?t = "(t_mem st1)(Bb 0 := (entry_init (g_exec_nemu_decode st1) pc (t_mem st1 (Bb 0)))\<lparr>d_idx_in_bb := of_nat (idx_in_bb st1)\<rparr>)"
  let ?st = "st1\<lparr>bb_freelist := Bb 1, t_mem := ?t, prev_s := Bb 0, bb_now := DNull, bb_now_record := DNull, tcache_state := TCACHE_RUNNING\<rparr>"
  have "tcache_full pc st = LongJmp NEMU_EXEC_AGAIN ?st"
    using st1(1) bb_new_ok[OF fl] by (simp add: tcache_full_def save_globals_def m_simps store_def tc_sizes)
  moreover have "blocks_ok ?st" by (rule blocks_ok_cong[OF st1(2)]) simp_all
  moreover have "bb_abs ?st = Map.empty" using abs_cong[of ?st st1] st1(3) by simp
  ultimately show thesis using st1(5-7) by (intro that[of ?st]) (simp_all add: entry_init_def tc_sizes)
qed

lemma bb_find_absent: "blocks_ok st \<Longrightarrow> pc \<noteq> -1 \<Longrightarrow> bb_abs st pc = None \<Longrightarrow> bb_find pc st = Ret BNull st"
  using bb_find_spec[of st pc "bb_find pc st = Ret BNull st"] by (auto simp: blocks_ok_def)

text \<open>How an attempt to decode the instruction at \<open>pc\<close> ends when it is to be made again: it leaves to the
  execution loop with the machine as it is, and the record the loop resumes with starts a block at the same
  address in an emptied cache, decoding into the first entry of the pool.\<close>

definition retries :: "uint64 \<Rightarrow> machine \<Rightarrow> (tcache, dptr) res \<Rightarrow> bool" where
  "retries pc m r \<longleftrightarrow> (\<exists>st1 st2. r = LongJmp NEMU_EXEC_AGAIN st1 \<and> t_mach st1 = m \<and>
     tcache_decode (prev_s st1) st1 = decode_in_block pc (Tc 0) st2 \<and> t_mach st2 = m \<and> tc_idx st2 = 1 \<and> bb_idx st2 = 0 \<and>
     d_pc (t_mem st2 (Tc 0)) = pc \<and> bb_now st2 = Tc 0 \<and> idx_in_bb st2 = 1)"

lemma full_retries:
  assumes "pc \<noteq> -1" "t_mach st = m"
  shows "retries pc m (tcache_full pc st)"
proof (rule full_state[of pc st])
  fix st1 assume st1: "tcache_full pc st = (LongJmp NEMU_EXEC_AGAIN st1 :: (tcache, dptr) res)" "blocks_ok st1"
    "bb_abs st1 = Map.empty" "tc_idx st1 = 0" "tcache_state st1 = TCACHE_RUNNING" "dvalid (prev_s st1)"
    "d_pc (t_mem st1 (prev_s st1)) = pc" "t_mach st1 = t_mach st" "bb_idx st1 = 0"
  let ?t = "(t_mem st1)(Tc 0 := entry_init (g_exec_nemu_decode st1) pc (t_mem st1 (Tc 0)))"
  let ?st = "st1\<lparr>tc_idx := 1, t_mem := ?t, idx_in_bb := 1, bb_now_record := prev_s st1, bb_now := Tc 0,
     tcache_state := TCACHE_BB_BUILDING\<rparr>"
  have "bb_find pc st1 = Ret BNull st1" using bb_find_absent[OF st1(2) assms(1)] st1(3) by simp
  then have "tcache_decode (prev_s st1) st1 = decode_in_block pc (Tc 0) ?st"
    using st1 by (simp add: tcache_decode_def tcache_new_def tcache_entry_init_def m_simps load_def store_def TCACHE_SIZE_def entry_init_def)
  with st1 assms(2) show ?thesis
    unfolding retries_def by (intro exI[of _ st1] exI[of _ ?st]) (simp add: entry_init_def)
qed

text \<open>Decoding one instruction of a block: what comes first, and when the cache is used up after it. An
  instruction that does not end the block needs the next entry of the pool; one that does needs a cell for
  the block, unless its bucket is still empty.\<close>

definition begin_decode :: "uint64 \<Rightarrow> dptr \<Rightarrow> unit tcm" where
  "begin_decode pc s = seqs [save_globals s, bnd (gets idx_in_bb) (\<lambda>i. store s (\<lambda>e. e\<lparr>d_idx_in_bb := of_nat i\<rparr>)),
     fetch_decode_perf s pc]"

definition used_up :: "dptr \<Rightarrow> tcache \<Rightarrow> bool" where
  "used_up s st \<longleftrightarrow> (if d_type (t_mem st s) = INSTR_TYPE_N then tc_idx st = TCACHE_SIZE
     else dvalid (bb_now st) \<and> bb_idx st = BB_POOL_SIZE \<and>
       \<not> unused (bb_mem st (Head (bb_hash (d_pc (t_mem st (bb_now st)))))))"

lemma full_any:
  assumes "tcache_full pc st = (LongJmp c st1 :: (tcache, 'a) res)"
  shows "tcache_full pc st = (LongJmp c st1 :: (tcache, 'b) res)"
  using assms by (auto simp: tcache_full_def m_simps split: res.splits)

lemma seqs_append: "seqs xs st = Ret () st1 \<Longrightarrow> seqs (xs @ ys) st = seqs ys st1"
  by (induction xs arbitrary: st) (auto simp: thn_apply skip_apply split: res.splits)

lemma decode_full:
  assumes "dvalid s" "begin_decode pc s st = Ret () st1" "used_up s st1"
  shows "decode_in_block pc s st = tcache_full pc st1"
proof -
  obtain c st2 where full: "tcache_full pc st1 = (LongJmp c st2 :: (tcache, dptr) res)"
    by (rule full_state[of pc st1]) blast
  note fu = full_any[OF full, where 'b = unit]
  have "(if d_type (t_mem st1 s) = INSTR_TYPE_N then tcache_full pc st1
     else end_of_block pc s st1) = (LongJmp c st2 :: (tcache, unit) res)"
    using assms(3) fu by (auto simp: used_up_def end_of_block_def bb_insert_def bb_new_def m_simps load_def bb_load_def unused_def hash_less)
  then have tail: "seqs [bnd (load s) (\<lambda>e. if d_type e = INSTR_TYPE_N
      then bnd (tcache_new (d_snpc e)) (\<lambda>next. if next = DNull then tcache_full pc else assert_m (next = succ_ptr s))
      else end_of_block pc s), modify (\<lambda>st. st\<lparr>idx_in_bb := idx_in_bb st + 1\<rparr>)] st1 = LongJmp c st2"
    using assms(1,3) by (auto simp: m_simps load_def tcache_new_def used_up_def split: if_splits)
  have "decode_in_block pc s st = LongJmp c st2"
    using seqs_append[OF assms(2)[unfolded begin_decode_def]] tail
    by (simp only: decode_in_block_def append.simps thn_apply res.case)
  with full show ?thesis by simp
qed

text \<open>Property C27: a full cache does not stop the emulation, wherever in a block it fills up. When the pool
  of decoded instructions is used up at the start of a block at \<open>pc\<close> that is not in the table, and when,
  after an instruction of a block has been fetched and decoded, the pool has no entry for the next one or
  the table no cell for the finished block, the decoder empties the cache and leaves to the execution loop
  to try again, with the machine as the fetch has left it; the record the loop resumes with is one for the
  same address, and decoding it finds room: it starts a block there and goes on to decode the instruction
  into the first entry of the pool. The address is not the all-ones word, the pointers are valid, and at the
  start of a block the table is well formed.\<close>

theorem full_cache_recovers:
  assumes "dvalid s" "pc \<noteq> -1"
  shows "(blocks_ok st \<and> d_pc (t_mem st s) = pc \<and> tcache_state st = TCACHE_RUNNING \<and> bb_abs st pc = None \<and>
      tc_idx st = TCACHE_SIZE \<longrightarrow> retries pc (t_mach st) (tcache_decode s st)) \<and>
    (begin_decode pc s st = Ret () st1 \<and> used_up s st1 \<longrightarrow> retries pc (t_mach st1) (decode_in_block pc s st)) \<and>
    (begin_decode pc s st = Ret () st1 \<and> used_up s st1 \<and> d_pc (t_mem st s) = pc \<and>
      tcache_state st = TCACHE_BB_BUILDING \<longrightarrow> retries pc (t_mach st1) (tcache_decode s st))"
proof (intro conjI impI)
  assume a: "blocks_ok st \<and> d_pc (t_mem st s) = pc \<and> tcache_state st = TCACHE_RUNNING \<and> bb_abs st pc = None \<and>
      tc_idx st = TCACHE_SIZE"
  then have "tcache_decode s st = tcache_full pc (st\<lparr>idx_in_bb := 1\<rparr>)"
    using assms(1) bb_find_absent[OF _ assms(2), of st] by (simp add: tcache_decode_def tcache_new_def m_simps load_def)
  then show "retries pc (t_mach st) (tcache_decode s st)" by (simp add: full_retries[OF assms(2)])
next
  assume "begin_decode pc s st = Ret () st1 \<and> used_up s st1"
  then show "retries pc (t_mach st1) (decode_in_block pc s st)"
    by (simp add: decode_full[OF assms(1)] full_retries[OF assms(2)])
next
  assume "begin_decode pc s st = Ret () st1 \<and> used_up s st1 \<and> d_pc (t_mem st s) = pc \<and> tcache_state st = TCACHE_BB_BUILDING"
  then show "retries pc (t_mach st1) (tcache_decode s st)"
    using assms by (simp add: tcache_decode_def m_simps load_def decode_full full_retries)
qed

section \<open>The properties at concrete inputs\<close>

lemma unresolved_exits_bounded_witness:
  "thn tcache_flush (exceptions (replicate 2049 0x1000)) (static_tcache static_machine) = Crash Assert_fail"
proof -
  have "-1 \<notin> set (replicate 2049 (0x1000 :: uint64))" by simp
  from unresolved_exits_bounded[OF this, of "static_tcache static_machine"] show ?thesis
    by (simp only: length_replicate)
qed

text \<open>A flushed cache with one decoded instruction.\<close>

definition demo_setup :: "instr_type \<Rightarrow> unit tcm" where
  "demo_setup ty = thn tcache_flush (store (Tc 0) (\<lambda>e. e\<lparr>tnext := Tc 0, ntnext := Tc 0, d_type := ty,
     d_pc := 0x80000000, d_snpc := 0x80000004, d_jnpc := 0x80000010\<rparr>))"

lemma demo_state:
  obtains st where "demo_setup ty (static_tcache static_machine) = Ret () st" "blocks_ok st" "bb_abs st = Map.empty"
    "free_ok st [0..<TCACHE_BB_SIZE]" "t_mem st (Tc 0) = static_entry\<lparr>tnext := Tc 0, ntnext := Tc 0, d_type := ty,
     d_pc := 0x80000000, d_snpc := 0x80000004, d_jnpc := 0x80000010\<rparr>" "bb_idx st = 0"
proof (rule flush_ok[of "static_tcache static_machine"])
  fix st1 assume st1: "tcache_flush (static_tcache static_machine) = Ret () st1" "blocks_ok st1" "bb_abs st1 = Map.empty"
    "free_ok st1 [0..<TCACHE_BB_SIZE]" "bb_idx st1 = 0"
  have e: "t_mem st1 (Tc 0) = static_entry" using st1(1) by (auto simp: tcache_flush_def m_simps static_tcache_def)
  let ?e = "static_entry\<lparr>tnext := Tc 0, ntnext := Tc 0, d_type := ty,
     d_pc := 0x80000000, d_snpc := 0x80000004, d_jnpc := 0x80000010\<rparr>"
  let ?st = "st1\<lparr>t_mem := (t_mem st1)(Tc 0 := ?e)\<rparr>"
  have "demo_setup ty (static_tcache static_machine) = Ret () ?st"
    using st1(1) e by (simp add: demo_setup_def m_simps store_def TCACHE_SIZE_def)
  moreover have abs: "bb_abs ?st = Map.empty" using abs_cong[of ?st st1] st1(3) by simp
  moreover have "bb_inv ?st" using inv_cong[of ?st st1] st1(2) by (simp add: blocks_ok_def)
  then have "blocks_ok ?st" using abs by (simp add: blocks_ok_def)
  moreover have "free_ok ?st [0..<TCACHE_BB_SIZE]" by (rule free_ok_cong[OF st1(4)]) simp_all
  ultimately show thesis using st1(5) by (intro that[of ?st]) simp_all
qed

lemma demo_sizes: "2 < length [0..<TCACHE_BB_SIZE]" "3 < length [0..<TCACHE_BB_SIZE]" "(0 :: nat) < TCACHE_SIZE"
  by (simp_all add: tc_sizes)

lemma jr_fetch_target_witness:
  "\<exists>p st'. thn (demo_setup INSTR_TYPE_I) (jr_fetch (Tc 0) 0x80000100) (static_tcache static_machine) = Ret p st' \<and>
     dvalid p \<and> d_pc (t_mem st' p) = 0x80000100"
proof (rule demo_state[of INSTR_TYPE_I])
  fix st assume st: "demo_setup INSTR_TYPE_I (static_tcache static_machine) = Ret () st" "blocks_ok st"
    "free_ok st [0..<TCACHE_BB_SIZE]" "t_mem st (Tc 0) = static_entry\<lparr>tnext := Tc 0, ntnext := Tc 0, d_type := INSTR_TYPE_I,
     d_pc := 0x80000000, d_snpc := 0x80000004, d_jnpc := 0x80000010\<rparr>"
  have "dvalid (tnext (t_mem st (Tc 0)))" "dvalid (ntnext (t_mem st (Tc 0)))" "(0x80000100 :: uint64) \<noteq> -1"
    using st(4) demo_sizes(3) by simp_all
  from jr_fetch_target[OF st(2,3) demo_sizes(1) refl demo_sizes(3) this] st(1) show ?thesis
    by (auto simp: m_simps)
qed


text \<open>A placeholder for the decoded instruction, whose block is not in the table yet.\<close>

lemma demo_placeholder:
  obtains st where "thn (demo_setup INSTR_TYPE_J) (tcache_handle_exception 0x80000000) (static_tcache static_machine) = Ret () st"
    "blocks_ok st" "bb_abs st = Map.empty" "bb_idx st = 0" "free_ok st (1 # [2..<TCACHE_BB_SIZE])"
    "tcache_state st = TCACHE_RUNNING" "d_pc (t_mem st (Tc 0)) = 0x80000000" "d_pc (t_mem st (Bb 0)) = 0x80000000"
    "ntnext (t_mem st (Bb 0)) = Ex" "d_type (t_mem st (Bb 0)) = BB_RECORD_TYPE_TAKEN"
proof (rule demo_state[of INSTR_TYPE_J])
  fix st assume st: "demo_setup INSTR_TYPE_J (static_tcache static_machine) = Ret () st" "blocks_ok st" "bb_abs st = Map.empty"
    "free_ok st [0..<TCACHE_BB_SIZE]" "t_mem st (Tc 0) = static_entry\<lparr>tnext := Tc 0, ntnext := Tc 0, d_type := INSTR_TYPE_J,
     d_pc := 0x80000000, d_snpc := 0x80000004, d_jnpc := 0x80000010\<rparr>" "bb_idx st = 0"
  have up: "[0..<TCACHE_BB_SIZE] = 0 # 1 # [2..<TCACHE_BB_SIZE]"
    using upt_two demo_sizes(1) by simp
  have ex: "dvalid Ex" "\<forall>i. Ex \<noteq> Bb i" "(0x80000000 :: uint64) \<noteq> -1" by simp_all
  obtain s1 p fr' where s1: "tcache_bb_fetch Ex True 0x80000000 st = Ret () s1" "blocks_ok s1" "free_ok s1 fr'"
    "d_pc (t_mem s1 p) = 0x80000000" "\<forall>q. q \<noteq> Ex \<and> q \<noteq> p \<longrightarrow> t_mem s1 q = t_mem st q" "bb_abs s1 = bb_abs st"
    "bb_idx s1 = bb_idx st"
    "case bb_abs st 0x80000000 of Some s \<Rightarrow> p = s \<and> fr' = [0..<TCACHE_BB_SIZE]
     | None \<Rightarrow> p = Bb (hd [0..<TCACHE_BB_SIZE]) \<and> fr' = tl [0..<TCACHE_BB_SIZE] \<and> ntnext (t_mem s1 p) = Ex \<and>
         d_type (t_mem s1 p) = (if True then BB_RECORD_TYPE_TAKEN else BB_RECORD_TYPE_NTAKEN)"
    using bb_fetch_spec[OF st(2,4) demo_sizes(1) ex, of True] by (elim exE conjE) (rule that)
  have p: "p = Bb 0" "fr' = 1 # [2..<TCACHE_BB_SIZE]" "ntnext (t_mem s1 (Bb 0)) = Ex" "d_type (t_mem s1 (Bb 0)) = BB_RECORD_TYPE_TAKEN"
    using s1(8) st(3) up by auto
  let ?s = "s1\<lparr>prev_s := tnext (t_mem s1 Ex), tcache_state := TCACHE_RUNNING\<rparr>"
  have "thn (demo_setup INSTR_TYPE_J) (tcache_handle_exception 0x80000000) (static_tcache static_machine) = Ret () ?s"
    using st(1) s1(1) by (simp add: tcache_handle_exception_def save_globals_def m_simps load_def)
  moreover have "blocks_ok ?s" by (rule blocks_ok_cong[OF s1(2)]) simp_all
  moreover have "free_ok ?s fr'" by (rule free_ok_cong[OF s1(3)]) simp_all
  moreover have "bb_abs ?s = Map.empty" using abs_cong[of ?s s1] s1(6) st(3) by simp
  ultimately show thesis using s1 st p by (intro that[of ?s]) simp_all
qed

lemma decode_cached_block_witness:
  "\<exists>st'. seqs [thn (demo_setup INSTR_TYPE_J) (tcache_handle_exception 0x80000000), bnd (bb_put 0x80000000 (Tc 0)) (\<lambda>_. skip),
      bnd (tcache_decode (Bb 0)) (\<lambda>b. assert_m (b = Tc 0))] (static_tcache static_machine) = Ret () st' \<and>
     tnext (t_mem st' Ex) = Tc 0"
proof (rule demo_placeholder)
  fix s1 assume s1: "thn (demo_setup INSTR_TYPE_J) (tcache_handle_exception 0x80000000) (static_tcache static_machine) = Ret () s1"
    "blocks_ok s1" "bb_abs s1 = Map.empty" "bb_idx s1 = 0" "free_ok s1 (1 # [2..<TCACHE_BB_SIZE])"
    "tcache_state s1 = TCACHE_RUNNING" "d_pc (t_mem s1 (Tc 0)) = 0x80000000" "d_pc (t_mem s1 (Bb 0)) = 0x80000000"
    "ntnext (t_mem s1 (Bb 0)) = Ex" "d_type (t_mem s1 (Bb 0)) = BB_RECORD_TYPE_TAKEN"
  have pc: "(0x80000000 :: uint64) \<noteq> -1" "bb_inv s1" "bb_abs s1 0x80000000 = None" using s1 by (simp_all add: blocks_ok_def)
  obtain m k where ins: "bb_insert 0x80000000 (Tc 0) s1 = Ret (Head (bb_hash 0x80000000)) (s1\<lparr>bb_mem := m, bb_idx := k\<rparr>)"
    "bb_inv (s1\<lparr>bb_mem := m, bb_idx := k\<rparr>)" "bb_abs (s1\<lparr>bb_mem := m, bb_idx := k\<rparr>) = (bb_abs s1)(0x80000000 \<mapsto> Tc 0)"
  proof (cases rule: bb_insert_spec[OF pc(2,1,3), of "Tc 0", case_names full inserted])
    case full with s1(4) show thesis by (simp add: BB_POOL_SIZE_def)
  next
    case (inserted m k) then show thesis by (intro that[OF inserted(1,3,4)])
  qed
  let ?s = "s1\<lparr>bb_mem := m, bb_idx := k\<rparr>"
  have "blocks_ok ?s" using ins(2,3) s1(3,7) demo_sizes(3) by (auto simp: blocks_ok_def)
  moreover have "free_ok ?s (1 # [2..<TCACHE_BB_SIZE])" by (rule free_ok_cong[OF s1(5)]) simp_all
  moreover have "bb_abs ?s 0x80000000 = Some (Tc 0)" using ins(3) by simp
  moreover have "0 < TCACHE_BB_SIZE" "0 \<notin> set (1 # [2..<TCACHE_BB_SIZE])" by (simp_all add: TCACHE_BB_SIZE_def)
  ultimately obtain s2 where s2: "tcache_decode (Bb 0) ?s = Ret (Tc 0) s2" "get_link True (t_mem s2 Ex) = Tc 0"
    using decode_cached_block[where st = ?s and j = 1 and i = 0 and tk = True and pc = "0x80000000" and src = Ex and blk = "Tc 0" and fr = "[2..<TCACHE_BB_SIZE]"] s1 pc(1) by auto
  have "bnd (bb_put 0x80000000 (Tc 0)) (\<lambda>_. skip) s1 = Ret () ?s" using ins(1) by (simp add: bb_put_def m_simps)
  with s1(1) s2 show ?thesis 
    by (simp add: seqs_apply bnd_apply[of "tcache_decode (Bb 0)"] assert_m_apply get_link_def del: seqs.simps)
qed

text \<open>A block under construction at \<open>0x80000000\<close>, whose second instruction is the compressed add of an
  immediate to the stack pointer, being decoded into the last entry of the pool.\<close>

definition grow_state :: tcache where
  "grow_state = (static_tcache (static_machine\<lparr>pmem := store_le (\<lambda>_. 0) (guest_to_host 0x80000002) 2 0x0040\<rparr>))
     \<lparr>tc_idx := TCACHE_SIZE, tcache_state := TCACHE_BB_BUILDING, bb_now := Tc 8190, idx_in_bb := 2,
      t_mem := (\<lambda>_. static_entry)(Tc 8191 := static_entry\<lparr>d_pc := 0x80000002\<rparr>)\<rparr>"

lemma grow_fetch:
  assumes "cpu m = cpu static_machine" "csr m = csr static_machine" "ifetch_mmu_state m = MMU_DIRECT"
    "pmem m = store_le (\<lambda>_. 0) (guest_to_host 0x80000002) 2 0x0040"
  shows "instr_fetch_perf 0x80000002 2 m = Ret (0x0040, 0x80000004) m"
proof -
  have "isa_mmu_check 0x80000002 2 MEM_TYPE_IFETCH m = Ret MMU_DIRECT m"
    using assms by (simp add: isa_mmu_check_def Let_def eff_mode_def msb_on_def satp_mode_def ms_def MODE_M_def fld_def)
  moreover have "paddr_read 0x80000002 2 m = Ret 0x0040 m"
    using paddr_read_ok[of "0x80000002" 2 m] load_store_same[of 2 "\<lambda>_. 0" "guest_to_host 0x80000002" "0x0040"]
    by (simp add: fits_pmem_def in_pmem_range legal_len_def assms(4) take_bit_eq_mod)
  ultimately show ?thesis by (simp add: instr_fetch_perf_def vaddr_ifetch_perf_def m_simps)
qed

lemma grow_decode: "d_instr s = 0x0040 \<Longrightarrow> \<exists>s'. table_rvc m s = Some (s', Rvi ID_addi)"
proof -
  assume "d_instr s = 0x0040"
  moreover have "instr_match ''?????????????? 00'' 0x0040" "instr_match ''000 ???????? ??? ??'' 0x0040" "addi4spn_imm 0x0040 \<noteq> 0"
    by code_simp+
  ultimately show ?thesis
    by (simp add: table_rvc_def table_rvc_Q0_def TAB_def IDTABa_def get_instr_def tb_def decode_C_ADDI4SPN_def Let_def)
qed

lemma grow_begin:
  obtains st1 where "begin_decode 0x80000002 (Tc 8191) grow_state = Ret () st1" "used_up (Tc 8191) st1"
    "pmem (t_mach st1) = pmem (t_mach grow_state)"
proof -
  let ?m = "t_mach grow_state"
  have *: "\<exists>m'. isa_fetch_decode_perf (?m\<lparr>cur_s := c\<rparr>) = Ret (Rvi ID_addi) m' \<and> d_type (cur_s m') = INSTR_TYPE_N \<and>
      pmem m' = pmem ?m" if "d_snpc c = 0x80000002" for c
  proof -
    have f: "instr_fetch_perf 0x80000002 2 (?m\<lparr>cur_s := c\<rparr>) = Ret (0x0040, 0x80000004) (?m\<lparr>cur_s := c\<rparr>)"
      by (rule grow_fetch) (simp_all add: grow_state_def static_tcache_def)
    obtain s' where "table_rvc (?m\<lparr>cur_s := c\<lparr>d_instr := 0x0040, d_snpc := 0x80000004\<rparr>\<rparr>)
        (c\<lparr>d_instr := 0x0040, d_snpc := 0x80000004\<rparr>) = Some (s', Rvi ID_addi)"
      using grow_decode[of "c\<lparr>d_instr := 0x0040, d_snpc := 0x80000004\<rparr>"] by auto
    moreover have "f_opcode1_0 0x0040 \<noteq> 0x3" by code_simp
    ultimately show ?thesis using that f
      by (simp add: isa_fetch_decode_perf_def m_simps set_type_def jump_ids_def branch_ids_def indirect_ids_def)
  qed
  let ?e = "(t_mem grow_state (Tc 8191))\<lparr>d_idx_in_bb := of_nat (idx_in_bb grow_state), d_pc := 0x80000002, d_snpc := 0x80000002\<rparr>"
  have sn: "d_snpc (decode.truncate ?e) = 0x80000002" by (simp add: decode.defs)
  obtain m' where m': "isa_fetch_decode_perf (?m\<lparr>cur_s := decode.truncate ?e\<rparr>) = Ret (Rvi ID_addi) m'"
      "d_type (cur_s m') = INSTR_TYPE_N" "pmem m' = pmem ?m"
    using *[OF sn] by (elim exE conjE) (rule that)
  let ?e' = "(with_fields (cur_s m') ?e)\<lparr>EHelper := E_exec (Rvi ID_addi)\<rparr>"
  let ?st = "grow_state\<lparr>prev_s := Tc 8191, t_mach := m', t_mem := (t_mem grow_state)(Tc 8191 := ?e')\<rparr>"
  have v: "dvalid (Tc 8191)" by (simp add: TCACHE_SIZE_def)
  have st: "store (Tc 8191) f s = Ret () (s\<lparr>t_mem := (t_mem s)(Tc 8191 := f (t_mem s (Tc 8191)))\<rparr>)" for f s
    using v by (simp only: store_def if_True)
  let ?s2 = "grow_state\<lparr>prev_s := Tc 8191, t_mem := (t_mem grow_state)(Tc 8191 := ?e)\<rparr>"
  have on: "on_entry (Tc 8191) isa_fetch_decode_perf ?s2 =
      Ret (Rvi ID_addi) (?s2\<lparr>t_mach := m', t_mem := (t_mem ?s2)(Tc 8191 := with_fields (cur_s m') ?e)\<rparr>)"
    using m'(1) v by (simp add: on_entry_def m_simps load_def)
  have "fetch_decode_perf (Tc 8191) 0x80000002 (grow_state\<lparr>prev_s := Tc 8191, t_mem := (t_mem grow_state)
      (Tc 8191 := (t_mem grow_state (Tc 8191))\<lparr>d_idx_in_bb := of_nat (idx_in_bb grow_state)\<rparr>)\<rparr>) = Ret () ?st"
    using on by (simp add: fetch_decode_perf_def m_simps st)
  then have "begin_decode 0x80000002 (Tc 8191) grow_state = Ret () ?st"
    by (simp add: begin_decode_def save_globals_def m_simps st)
  moreover have "used_up (Tc 8191) ?st"
    using m'(2) by (simp add: used_up_def with_fields_def decode.defs grow_state_def)
  ultimately show thesis by (rule that) (simp add: m'(3))
qed

lemma full_cache_recovers_witness:
  "retries 0x80000000 static_machine
      (thn (demo_setup INSTR_TYPE_J) (thn (modify (\<lambda>st. st\<lparr>tc_idx := TCACHE_SIZE, tcache_state := TCACHE_RUNNING\<rparr>)) (tcache_decode (Tc 0)))
        (static_tcache static_machine)) \<and>
   (\<exists>m. pmem m = pmem (t_mach grow_state) \<and> retries 0x80000002 m (tcache_decode (Tc 8191) grow_state))"
proof
  show "retries 0x80000000 static_machine
      (thn (demo_setup INSTR_TYPE_J) (thn (modify (\<lambda>st. st\<lparr>tc_idx := TCACHE_SIZE, tcache_state := TCACHE_RUNNING\<rparr>)) (tcache_decode (Tc 0)))
        (static_tcache static_machine))"
  proof (rule demo_state[of INSTR_TYPE_J])
    fix st assume st: "demo_setup INSTR_TYPE_J (static_tcache static_machine) = Ret () st" "blocks_ok st" "bb_abs st = Map.empty"
      "t_mem st (Tc 0) = static_entry\<lparr>tnext := Tc 0, ntnext := Tc 0, d_type := INSTR_TYPE_J,
       d_pc := 0x80000000, d_snpc := 0x80000004, d_jnpc := 0x80000010\<rparr>"
    let ?s = "st\<lparr>tc_idx := TCACHE_SIZE, tcache_state := TCACHE_RUNNING\<rparr>"
    have m: "t_mach st = static_machine"
      using st(1) by (auto simp: demo_setup_def tcache_flush_def store_def m_simps static_tcache_def split: if_splits)
    have "blocks_ok ?s" by (rule blocks_ok_cong[OF st(2)]) simp_all
    moreover have "bb_abs ?s 0x80000000 = None" using abs_cong[of ?s st] st(3) by simp
    moreover have "dvalid (Tc 0)" using demo_sizes(3) by simp
    ultimately have "retries 0x80000000 (t_mach ?s) (tcache_decode (Tc 0) ?s)"
      using full_cache_recovers[of "Tc 0" "0x80000000" ?s] st(4) by simp
    with st(1) m show ?thesis by (simp add: thn_apply modify_apply)
  qed
  show "\<exists>m. pmem m = pmem (t_mach grow_state) \<and> retries 0x80000002 m (tcache_decode (Tc 8191) grow_state)"
  proof (rule grow_begin)
    fix st1 assume st1: "begin_decode 0x80000002 (Tc 8191) grow_state = Ret () st1" "used_up (Tc 8191) st1"
      "pmem (t_mach st1) = pmem (t_mach grow_state)"
    have "dvalid (Tc 8191)" "d_pc (t_mem grow_state (Tc 8191)) = 0x80000002" "tcache_state grow_state = TCACHE_BB_BUILDING"
      by (simp_all add: TCACHE_SIZE_def grow_state_def)
    with full_cache_recovers[of "Tc 8191" "0x80000002" grow_state st1] st1 show ?thesis by auto
  qed
qed

end
