(* ===== verification/Dut.thy ===== *)
theory Dut
  imports Difftest
begin

text \<open>
  The other side of the difftest interface: NEMU as the design under test (\<open>src/cpu/difftest/dut.c\<close>,
  \<open>src/isa/riscv64/difftest/dut.c\<close>, build option \<open>CONFIG_DIFFTEST\<close>). After every instruction it lets a
  reference, a shared library found at run time, execute one as well and compares the register blocks. The
  reference is a type \<open>'r\<close> of states with the exported functions over it; the library that NEMU itself
  is when built as a reference (theory Difftest) is one instance. A pointer argument of an exported function
  is the contents it designates, given to the call and returned by it.
\<close>

section \<open>The reference\<close>

definition DIFFTEST_TO_DUT :: bool where "DIFFTEST_TO_DUT = False"
definition DIFFTEST_TO_REF :: bool where "DIFFTEST_TO_REF = True"

lemmas direction_defs = DIFFTEST_TO_DUT_def DIFFTEST_TO_REF_def

type_synonym buffer = "uint64 \<Rightarrow> uint8"
type_synonym 'r memcpy_fn = "uint32 \<Rightarrow> buffer \<Rightarrow> uint64 \<Rightarrow> nat \<Rightarrow> bool \<Rightarrow> ('r, buffer) m"
type_synonym 'r regcpy_fn = "dut_regs \<Rightarrow> bool \<Rightarrow> ('r, dut_regs) m"
type_synonym 'r exec_fn = "uint64 \<Rightarrow> ('r, unit) m"
type_synonym 'r init_fn = "int \<Rightarrow> ('r, unit) m"

text \<open>What \<open>dlopen\<close> and \<open>dlsym\<close> give: the state of the library as loaded and its symbols, of which any may be
  missing.\<close>

record 'r ref_lib =
  lib_state :: 'r
  sym_memcpy :: "'r memcpy_fn option"
  sym_regcpy :: "'r regcpy_fn option"
  sym_exec :: "'r exec_fn option"
  sym_raise_intr :: "'r exec_fn option"
  sym_init :: "'r init_fn option"

section \<open>State\<close>

text \<open>The globals of \<open>dut.c\<close> beside the machine under test. A patch may touch both sides. Before a library is
  loaded the function pointers are null and nothing reads \<open>ref_st\<close>.\<close>

record 'r dut_state =
  dut :: machine
  ref_st :: 'r
  ref_difftest_memcpy :: "'r memcpy_fn option"
  ref_difftest_regcpy :: "'r regcpy_fn option"
  ref_difftest_exec :: "'r exec_fn option"
  ref_difftest_raise_intr :: "'r exec_fn option"
  is_skip_ref :: bool
  skip_dut_nr_instr :: int
  patch_fn :: "(uint64 \<Rightarrow> (machine \<times> 'r, unit) m) option"
  patch_arg :: uint64
  is_detach :: bool

definition static_dut :: "machine \<Rightarrow> 'r \<Rightarrow> 'r dut_state" where
  "static_dut st r = \<lparr>dut = st, ref_st = r, ref_difftest_memcpy = None, ref_difftest_regcpy = None,
     ref_difftest_exec = None, ref_difftest_raise_intr = None, is_skip_ref = False, skip_dut_nr_instr = 0,
     patch_fn = None, patch_arg = 0, is_detach = False\<rparr>"

definition on_ref :: "('r, 'a) m \<Rightarrow> ('r dut_state, 'a) m" where
  "on_ref f d = (case f (ref_st d) of Ret x r \<Rightarrow> Ret x (d\<lparr>ref_st := r\<rparr>)
     | LongJmp c r \<Rightarrow> LongJmp c (d\<lparr>ref_st := r\<rparr>) | Crash c \<Rightarrow> Crash c)"

definition on_dut :: "'a nemu \<Rightarrow> ('r dut_state, 'a) m" where
  "on_dut f d = (case f (dut d) of Ret x st \<Rightarrow> Ret x (d\<lparr>dut := st\<rparr>)
     | LongJmp c st \<Rightarrow> LongJmp c (d\<lparr>dut := st\<rparr>) | Crash c \<Rightarrow> Crash c)"

text \<open>A call through a function pointer; a null one faults.\<close>

definition via :: "('r dut_state \<Rightarrow> 'f option) \<Rightarrow> ('f \<Rightarrow> ('r, 'a) m) \<Rightarrow> ('r dut_state, 'a) m" where
  "via ptr app d = (case ptr d of None \<Rightarrow> Crash Host_fault | Some f \<Rightarrow> on_ref (app f) d)"

section \<open>Register and memory blocks\<close>

text \<open>The first \<open>DIFFTEST_REG_SIZE\<close> bytes of \<open>cpu\<close>, as a record and as the words in memory.\<close>

definition cpu_block :: "machine \<Rightarrow> dut_regs" where
  "cpu_block st = \<lparr>dr_gpr = gpr (cpu st), dr_fpr = fpr (cpu st), dr_pc = cpu_pc (cpu st),
     dr_shadow = shadow (cpu st), dr_mode = mode (cpu st)\<rparr>"

definition put_block :: "dut_regs \<Rightarrow> machine \<Rightarrow> machine" where
  "put_block b st = st\<lparr>cpu := (cpu st)\<lparr>gpr := dr_gpr b, fpr := dr_fpr b, cpu_pc := dr_pc b,
     shadow := dr_shadow b, mode := dr_mode b\<rparr>\<rparr>"

definition shadow_words :: "shadow_csrs \<Rightarrow> uint64 list" where
  "shadow_words s = [sh_mstatus s, sh_mcause s, sh_mepc s, sh_sstatus s, sh_scause s, sh_sepc s, sh_satp s,
     sh_mip s, sh_mie s, sh_mscratch s, sh_sscratch s, sh_mideleg s, sh_medeleg s, sh_mtval s, sh_stval s,
     sh_mtvec s, sh_stvec s]"

definition block_words :: "dut_regs \<Rightarrow> uint64 list" where
  "block_words b = map (\<lambda>i. dr_gpr b (of_nat i)) [0..<32] @ map (\<lambda>i. dr_fpr b (of_nat i)) [0..<32] @
     [dr_pc b] @ shadow_words (dr_shadow b) @ [dr_mode b]"

text \<open>\<open>ref_difftest_regcpy\<close> on a local block, and on \<open>cpu\<close>; \<open>ref_difftest_memcpy\<close> to the reference from the
  guest memory of the design under test.\<close>

definition ref_regcpy :: "dut_regs \<Rightarrow> bool \<Rightarrow> ('r dut_state, dut_regs) m" where
  "ref_regcpy b dir = via ref_difftest_regcpy (\<lambda>f. f b dir)"

definition regs_to_ref :: "('r dut_state, unit) m" where
  "regs_to_ref = bnd (gets (\<lambda>d. cpu_block (dut d))) (\<lambda>b.
     bnd (ref_regcpy b DIFFTEST_TO_REF) (\<lambda>b'. on_dut (modify (put_block b'))))"

definition mem_to_ref :: "uint32 \<Rightarrow> nat \<Rightarrow> ('r dut_state, unit) m" where
  "mem_to_ref addr n = bnd (gets (\<lambda>d. pmem (dut d))) (\<lambda>buf.
     bnd (via ref_difftest_memcpy (\<lambda>f. f addr buf (guest_to_host addr) n DIFFTEST_TO_REF))
       (\<lambda>buf'. on_dut (modify (\<lambda>st. st\<lparr>pmem := buf'\<rparr>))))"

section \<open>Skipping and patching\<close>

definition difftest_skip_ref :: "('r dut_state, unit) m" where
  "difftest_skip_ref d = (if is_detach d then Ret () d else Ret () (d\<lparr>is_skip_ref := True, skip_dut_nr_instr := 0\<rparr>))"

primrec ref_execs :: "nat \<Rightarrow> ('r dut_state, unit) m" where
  "ref_execs 0 = skip"
| "ref_execs (Suc n) = thn (via ref_difftest_exec (\<lambda>f. f 1)) (ref_execs n)"

definition difftest_skip_dut :: "int \<Rightarrow> int \<Rightarrow> ('r dut_state, unit) m" where
  "difftest_skip_dut nr_ref nr_dut d =
     (if is_detach d then Ret () d
      else ref_execs (nat nr_ref) (d\<lparr>skip_dut_nr_instr := skip_dut_nr_instr d + nr_dut\<rparr>))"

definition difftest_set_patch :: "(uint64 \<Rightarrow> (machine \<times> 'r, unit) m) option \<Rightarrow> uint64 \<Rightarrow> ('r dut_state, unit) m" where
  "difftest_set_patch fn arg = modify (\<lambda>d. d\<lparr>patch_fn := fn, patch_arg := arg\<rparr>)"

definition on_both :: "(machine \<times> 'r, unit) m \<Rightarrow> ('r dut_state, unit) m" where
  "on_both f d = (case f (dut d, ref_st d) of Ret x (st, r) \<Rightarrow> Ret x (d\<lparr>dut := st, ref_st := r\<rparr>)
     | LongJmp c (st, r) \<Rightarrow> LongJmp c (d\<lparr>dut := st, ref_st := r\<rparr>) | Crash c \<Rightarrow> Crash c)"

definition run_patch :: "('r dut_state, unit) m" where
  "run_patch d = (case patch_fn d of None \<Rightarrow> Ret () d
     | Some f \<Rightarrow> thn (on_both (f (patch_arg d))) (modify (\<lambda>d. d\<lparr>patch_fn := None\<rparr>)) d)"

section \<open>Loading the reference\<close>

definition assert_ptr :: "('r dut_state \<Rightarrow> 'f option) \<Rightarrow> ('r dut_state, unit) m" where
  "assert_ptr ptr = bnd (gets ptr) (\<lambda>p. assert_m (\<not> Option.is_none p))"

definition init_difftest :: "(string \<Rightarrow> 'r ref_lib option) \<Rightarrow> string option \<Rightarrow> nat \<Rightarrow> int \<Rightarrow> ('r dut_state, unit) m" where
  "init_difftest dlopen ref_so_file img_size port =
     (case Option.bind ref_so_file dlopen of None \<Rightarrow> die Assert_fail
      | Some l \<Rightarrow> seqs [
          modify (\<lambda>d. d\<lparr>ref_st := lib_state l, ref_difftest_memcpy := sym_memcpy l\<rparr>),
          assert_ptr ref_difftest_memcpy,
          modify (\<lambda>d. d\<lparr>ref_difftest_regcpy := sym_regcpy l\<rparr>),
          assert_ptr ref_difftest_regcpy,
          modify (\<lambda>d. d\<lparr>ref_difftest_exec := sym_exec l\<rparr>),
          assert_ptr ref_difftest_exec,
          modify (\<lambda>d. d\<lparr>ref_difftest_raise_intr := sym_raise_intr l\<rparr>),
          assert_ptr ref_difftest_raise_intr,
          (case sym_init l of None \<Rightarrow> die Assert_fail | Some f \<Rightarrow> on_ref (f port)),
          mem_to_ref (ucast RESET_VECTOR) img_size,
          regs_to_ref])"

section \<open>Comparing\<close>

text \<open>\<open>memcmp\<close> from \<open>gpr[1]\<close> to the end of the block.\<close>

definition isa_difftest_checkregs :: "dut_regs \<Rightarrow> machine \<Rightarrow> bool" where
  "isa_difftest_checkregs ref_r st = (tl (block_words (cpu_block st)) = tl (block_words ref_r))"

text \<open>Besides printing, the register display reads \<open>sstatus\<close>.\<close>

definition isa_reg_display :: "unit nemu" where
  "isa_reg_display = bnd (csrid_read 0x100) (\<lambda>_. skip)"

definition set_abort :: "uint64 \<Rightarrow> machine \<Rightarrow> machine" where
  "set_abort pc st = st\<lparr>nemu_state := (nemu_state st)\<lparr>nstate := NEMU_ABORT, halt_pc := pc\<rparr>\<rparr>"

definition checkregs :: "dut_regs \<Rightarrow> uint64 \<Rightarrow> ('r dut_state, unit) m" where
  "checkregs ref_r pc = bnd (gets (\<lambda>d. isa_difftest_checkregs ref_r (dut d))) (\<lambda>ok.
     if ok then skip
     else on_dut (seqs [isa_reg_display, modify (set_abort pc), longjmp_exec NEMU_EXEC_END]))"

text \<open>\<open>ref_r\<close> is the uninitialised local block.\<close>

definition difftest_step :: "dut_regs \<Rightarrow> uint64 \<Rightarrow> uint64 \<Rightarrow> ('r dut_state, unit) m" where
  "difftest_step ref_r pc npc d =
     (if is_detach d then Ret () d
      else if 0 < skip_dut_nr_instr d then
        bnd (ref_regcpy ref_r DIFFTEST_TO_DUT) (\<lambda>ref_r.
          if dr_pc ref_r = npc then
            thn (modify (\<lambda>d. d\<lparr>skip_dut_nr_instr := 0\<rparr>)) (checkregs ref_r npc)
          else
            thn (modify (\<lambda>d. d\<lparr>skip_dut_nr_instr := skip_dut_nr_instr d - 1\<rparr>))
              (bnd (gets skip_dut_nr_instr) (\<lambda>n. if n = 0 then die Assert_fail else skip))) d
      else if is_skip_ref d then
        thn regs_to_ref (modify (\<lambda>d. d\<lparr>is_skip_ref := False\<rparr>)) d
      else
        seqs [via ref_difftest_exec (\<lambda>f. f 1),
              run_patch,
              bnd (ref_regcpy ref_r DIFFTEST_TO_DUT) (\<lambda>ref_r. checkregs ref_r pc)] d)"

section \<open>Detaching\<close>

definition difftest_detach :: "('r dut_state, unit) m" where
  "difftest_detach = modify (\<lambda>d. d\<lparr>is_detach := True\<rparr>)"

definition isa_difftest_attach :: "('r dut_state, unit) m" where
  "isa_difftest_attach = thn (mem_to_ref CONFIG_MBASE (unat CONFIG_MSIZE)) regs_to_ref"

definition difftest_attach :: "('r dut_state, unit) m" where
  "difftest_attach =
     thn (modify (\<lambda>d. d\<lparr>is_detach := False, is_skip_ref := False, skip_dut_nr_instr := 0\<rparr>)) isa_difftest_attach"

section \<open>NEMU as the reference\<close>

text \<open>\<open>difftest_regcpy\<close> and \<open>difftest_memcpy\<close> of \<open>ref.c\<close>, with their direction argument, and the library.\<close>

definition nemu_regcpy :: "machine regcpy_fn" where
  "nemu_regcpy b dir = (if dir = DIFFTEST_TO_REF then thn (regcpy_to_ref b) (ret b) else regcpy_to_dut)"

definition nemu_memcpy :: "machine memcpy_fn" where
  "nemu_memcpy addr buf p n dir st =
     (if dir = DIFFTEST_TO_REF then thn (memcpy_to_ref addr buf p n) (ret buf) st
      else case memcpy_to_dut addr p n (st, buf) of
        Ret _ (st', buf') \<Rightarrow> Ret buf' st'
      | LongJmp c (st', buf') \<Rightarrow> LongJmp c st'
      | Crash c \<Rightarrow> Crash c)"

definition nemu_lib :: "fp_lib \<Rightarrow> machine \<Rightarrow> machine ref_lib" where
  "nemu_lib fl st = \<lparr>lib_state = st, sym_memcpy = Some nemu_memcpy, sym_regcpy = Some nemu_regcpy,
     sym_exec = Some (difftest_exec fl), sym_raise_intr = Some difftest_raise_intr,
     sym_init = Some (\<lambda>_. modify difftest_init)\<rparr>"

end
