(* ===== verification/DutProps.thy ===== *)
theory DutProps
  imports Dut Reach Traps
begin

text \<open>
  Properties of the design-under-test side of difftest. The contract \<open>reference_design\<close> is what the checker
  relies on of a reference's register copy; NEMU as a reference provides it. Over it: the verdict of a step,
  catching up after a skip, resynchronisation, and what the comparison makes of the shadow CSRs.
\<close>

named_theorems dut_simps

lemma on_ref_apply [dut_simps]: "on_ref f d = (case f (ref_st d) of Ret x r \<Rightarrow> Ret x (d\<lparr>ref_st := r\<rparr>)
     | LongJmp c r \<Rightarrow> LongJmp c (d\<lparr>ref_st := r\<rparr>) | Crash c \<Rightarrow> Crash c)"
  by (simp add: on_ref_def)

lemma on_dut_apply [dut_simps]: "on_dut f d = (case f (dut d) of Ret x st \<Rightarrow> Ret x (d\<lparr>dut := st\<rparr>)
     | LongJmp c st \<Rightarrow> LongJmp c (d\<lparr>dut := st\<rparr>) | Crash c \<Rightarrow> Crash c)"
  by (simp add: on_dut_def)

lemma via_some: "ptr d = Some f \<Longrightarrow> via ptr app d = on_ref (app f) d"
  by (simp add: via_def)

lemma res_unit [dut_simps]:
  "(case x of Ret u s \<Rightarrow> Ret () s | LongJmp c s \<Rightarrow> LongJmp c s | Crash c \<Rightarrow> Crash c) = x"
  "(case x of Ret u s \<Rightarrow> skip s | LongJmp c s \<Rightarrow> LongJmp c s | Crash c \<Rightarrow> Crash c) = x" for x :: "('s, unit) res"
  by (cases x; simp add: skip_apply)+

lemma put_cpu_block [simp]: "put_block (cpu_block st) st = st"
  by (simp add: put_block_def cpu_block_def)

section \<open>The comparison\<close>

text \<open>Two blocks agree when they differ at most in \<open>x0\<close>; a block is synced with another up to the CSRs.\<close>

definition agree :: "dut_regs \<Rightarrow> dut_regs \<Rightarrow> bool" where
  "agree a b \<longleftrightarrow> (\<forall>i. i \<noteq> 0 \<longrightarrow> dr_gpr a i = dr_gpr b i) \<and> dr_fpr a = dr_fpr b \<and> dr_pc a = dr_pc b \<and>
     dr_shadow a = dr_shadow b \<and> dr_mode a = dr_mode b"

definition synced :: "dut_regs \<Rightarrow> dut_regs \<Rightarrow> bool" where
  "synced a b \<longleftrightarrow> dr_gpr a = dr_gpr b \<and> dr_fpr a = dr_fpr b \<and> dr_pc a = dr_pc b \<and> dr_mode a = dr_mode b"

lemma length_block_words: "length (block_words b) = 83"
  by (simp add: block_words_def shadow_words_def)

lemma reg_index: "\<exists>k<32. i = of_nat k" for i :: "5 word"
  by (rule exI[of _ "unat i"]) (use unsigned_less[of i, where ?'a = nat] in simp)

lemma reg_index_pos: "i \<noteq> 0 \<Longrightarrow> \<exists>k. 1 \<le> k \<and> k < 32 \<and> i = of_nat k" for i :: "5 word"
  by (rule exI[of _ "unat i"]) (use unsigned_less[of i, where ?'a = nat] in \<open>auto simp: unat_gt_0 Suc_le_eq\<close>)

lemma tl_block_words: "tl (block_words b) = map (\<lambda>i. dr_gpr b (of_nat i)) [1..<32] @
    map (\<lambda>i. dr_fpr b (of_nat i)) [0..<32] @ [dr_pc b] @ shadow_words (dr_shadow b) @ [dr_mode b]"
  unfolding block_words_def by (subst upt_conv_Cons) simp_all

lemma shadow_words_inj: "shadow_words a = shadow_words b \<longleftrightarrow> a = b"
  by (auto simp: shadow_words_def intro: shadow_csrs.equality)

lemma checkregs_agree: "isa_difftest_checkregs b st \<longleftrightarrow> agree (cpu_block st) b"
proof -
  have g: "(\<forall>k\<in>set [1..<32]. x (of_nat k) = y (of_nat k)) \<longleftrightarrow> (\<forall>i. i \<noteq> 0 \<longrightarrow> x i = y i)" for x y :: "5 word \<Rightarrow> uint64"
  proof
    assume "\<forall>k\<in>set [1..<32]. x (of_nat k) = y (of_nat k)"
    then show "\<forall>i. i \<noteq> 0 \<longrightarrow> x i = y i" using reg_index_pos by fastforce
  next
    assume a: "\<forall>i. i \<noteq> 0 \<longrightarrow> x i = y i"
    show "\<forall>k\<in>set [1..<32]. x (of_nat k) = y (of_nat k)"
    proof
      fix k assume k: "k \<in> set [1..<32]"
      then have "unat (of_nat k :: 5 word) = k" by (simp add: unsigned_of_nat take_bit_nat_eq_self)
      with k have "(of_nat k :: 5 word) \<noteq> 0" by auto
      with a show "x (of_nat k) = y (of_nat k)" by simp
    qed
  qed
  have f: "(\<forall>k\<in>set [0..<32]. x (of_nat k) = y (of_nat k)) \<longleftrightarrow> x = y" for x y :: "5 word \<Rightarrow> uint64"
    by (metis (full_types) atLeastLessThan_iff ext le0 reg_index set_upt)
  show ?thesis
    unfolding isa_difftest_checkregs_def agree_def tl_block_words
    using g[of "dr_gpr (cpu_block st)" "dr_gpr b"] f[of "dr_fpr (cpu_block st)" "dr_fpr b"]
    by (simp add: shadow_words_inj del: set_upt)
qed

text \<open>The register display changes no register; a failed comparison ends the run as aborted at \<open>pc\<close>.\<close>

lemma isa_reg_display_apply: "\<exists>st'. isa_reg_display st = Ret () st' \<and> cpu st' = cpu st \<and> nemu_state st' = nemu_state st"
  by (simp add: isa_reg_display_def csrid_read_def csr_decode_def csr_read_def csr_view_def update_mstatus_sd_def
      set_ms_def set_csr_def m_simps Let_def csr_addr_defs)

definition aborted :: "uint64 \<Rightarrow> machine \<Rightarrow> machine \<Rightarrow> bool" where
  "aborted pc st st' \<longleftrightarrow> nstate (nemu_state st') = NEMU_ABORT \<and> halt_pc (nemu_state st') = pc \<and> cpu st' = cpu st"

lemma checkregs_cases:
  "(agree (cpu_block (dut d)) b \<longrightarrow> checkregs b pc d = Ret () d) \<and>
   (\<not> agree (cpu_block (dut d)) b \<longrightarrow>
     (\<exists>st. checkregs b pc d = LongJmp NEMU_EXEC_END (d\<lparr>dut := st\<rparr>) \<and> aborted pc (dut d) st))"
  using isa_reg_display_apply[of "dut d"]
  by (auto simp: checkregs_def checkregs_agree on_dut_def longjmp_exec_def set_abort_def aborted_def m_simps)

section \<open>A run of the design under test\<close>

text \<open>Each entry of a trace is the machine under test after one instruction, with the address of the
  instruction and of the next one; the checker is called after each.\<close>

type_synonym dut_trace = "(machine \<times> uint64 \<times> uint64) list"

primrec check_trace :: "dut_regs \<Rightarrow> dut_trace \<Rightarrow> ('r dut_state, unit) m" where
  "check_trace junk [] = skip"
| "check_trace junk (e # es) =
     (case e of (st, pc, npc) \<Rightarrow>
        thn (modify (\<lambda>d. d\<lparr>dut := st\<rparr>)) (thn (difftest_step junk pc npc) (check_trace junk es)))"

lemma check_trace_Cons: "check_trace junk ((st, pc, npc) # es) d =
    thn (difftest_step junk pc npc) (check_trace junk es) (d\<lparr>dut := st\<rparr>)"
  by (simp add: m_simps)

section \<open>The contract of a register copy\<close>

text \<open>A copy from the reference gives its whole block, whatever the buffer held, and keeps its program counter;
  after a copy to it, the reference's block is the one given, up to the CSRs.\<close>

locale reference_design =
  fixes rc :: "'r regcpy_fn" and view :: "'r \<Rightarrow> dut_regs"
  assumes out: "\<exists>r'. rc b DIFFTEST_TO_DUT r = Ret (view r) r' \<and> dr_pc (view r') = dr_pc (view r)"
    and into: "\<exists>r'. rc b DIFFTEST_TO_REF r = Ret b r' \<and> synced b (view r')"
begin

lemma read_block:
  "ref_difftest_regcpy d = Some rc \<Longrightarrow>
     \<exists>r'. ref_regcpy b DIFFTEST_TO_DUT d = Ret (view (ref_st d)) (d\<lparr>ref_st := r'\<rparr>) \<and> dr_pc (view r') = dr_pc (view (ref_st d))"
  using out[of b "ref_st d"] by (auto simp: ref_regcpy_def via_some on_ref_def)

lemma sync_block:
  "ref_difftest_regcpy d = Some rc \<Longrightarrow>
     \<exists>r'. regs_to_ref d = Ret () (d\<lparr>ref_st := r'\<rparr>) \<and> rc (cpu_block (dut d)) DIFFTEST_TO_REF (ref_st d) = Ret (cpu_block (dut d)) r' \<and>
       synced (cpu_block (dut d)) (view r')"
  using into[of "cpu_block (dut d)" "ref_st d"]
  by (auto simp: regs_to_ref_def ref_regcpy_def via_some on_ref_def on_dut_def m_simps)

lemma step_skips:
  assumes "\<not> is_detach d" "\<not> 0 < skip_dut_nr_instr d" "is_skip_ref d" "ref_difftest_regcpy d = Some rc"
  shows "\<exists>r'. difftest_step junk pc npc d = Ret () (d\<lparr>ref_st := r', is_skip_ref := False\<rparr>) \<and>
     rc (cpu_block (dut d)) DIFFTEST_TO_REF (ref_st d) = Ret (cpu_block (dut d)) r' \<and> synced (cpu_block (dut d)) (view r')"
  using sync_block[OF assms(4)] assms(1-3) by (auto simp: difftest_step_def m_simps)

lemma step_checks:
  assumes "\<not> is_detach d" "\<not> 0 < skip_dut_nr_instr d" "\<not> is_skip_ref d" "patch_fn d = None"
    "ref_difftest_regcpy d = Some rc" "ref_difftest_exec d = Some ex" "ex 1 (ref_st d) = Ret () r"
  shows "\<exists>r'. difftest_step junk pc npc d = checkregs (view r) pc (d\<lparr>ref_st := r'\<rparr>)"
  using read_block[of "d\<lparr>ref_st := r\<rparr>" junk] assms
  by (auto simp: difftest_step_def via_some on_ref_def run_patch_def m_simps res_unit)

lemma step_catches:
  assumes "\<not> is_detach d" "0 < skip_dut_nr_instr d" "ref_difftest_regcpy d = Some rc" "npc = dr_pc (view (ref_st d))"
  shows "\<exists>r'. difftest_step junk pc npc d = checkregs (view (ref_st d)) npc (d\<lparr>ref_st := r', skip_dut_nr_instr := 0\<rparr>)"
  using read_block[OF assms(3), of junk] assms by (auto simp: difftest_step_def m_simps)

lemma step_misses:
  assumes "\<not> is_detach d" "0 < skip_dut_nr_instr d" "ref_difftest_regcpy d = Some rc" "npc \<noteq> dr_pc (view (ref_st d))"
  shows "\<exists>r'. difftest_step junk pc npc d =
      (if skip_dut_nr_instr d = 1 then Crash Assert_fail
       else Ret () (d\<lparr>ref_st := r', skip_dut_nr_instr := skip_dut_nr_instr d - 1\<rparr>)) \<and>
    dr_pc (view r') = dr_pc (view (ref_st d))"
  using read_block[OF assms(3), of junk] assms by (auto simp: difftest_step_def m_simps)

text \<open>While it is catching up, a run that has not reached the reference's program counter within \<open>n\<close> steps is
  stopped by the \<open>n\<close>-th.\<close>

lemma trace_misses:
  assumes "\<not> is_detach d" "ref_difftest_regcpy d = Some rc" "0 < skip_dut_nr_instr d"
    "int (length es) \<le> skip_dut_nr_instr d" "\<forall>(st, pc, npc)\<in>set es. npc \<noteq> dr_pc (view (ref_st d))"
  shows "(int (length es) < skip_dut_nr_instr d \<longrightarrow> (\<exists>st r'. check_trace junk es d =
       Ret () (d\<lparr>dut := st, ref_st := r', skip_dut_nr_instr := skip_dut_nr_instr d - int (length es)\<rparr>) \<and>
       dr_pc (view r') = dr_pc (view (ref_st d)))) \<and>
     (int (length es) = skip_dut_nr_instr d \<longrightarrow> check_trace junk es d = Crash Assert_fail)"
  using assms
proof (induction es arbitrary: d)
  case Nil
  then show ?case by (simp add: m_simps) (intro exI[of _ "dut d"] exI[of _ "ref_st d"], simp)
next
  case (Cons e es)
  obtain st pc npc where e: "e = (st, pc, npc)" by (cases e) auto
  let ?d = "d\<lparr>dut := st\<rparr>"
  have p: "\<not> is_detach ?d" "0 < skip_dut_nr_instr ?d" "ref_difftest_regcpy ?d = Some rc" "npc \<noteq> dr_pc (view (ref_st ?d))"
    using Cons.prems by (simp_all add: e)
  from step_misses[OF p, of junk pc] obtain r' where
    s: "difftest_step junk pc npc ?d = (if skip_dut_nr_instr ?d = 1 then Crash Assert_fail
       else Ret () (?d\<lparr>ref_st := r', skip_dut_nr_instr := skip_dut_nr_instr ?d - 1\<rparr>))"
      "dr_pc (view r') = dr_pc (view (ref_st ?d))" by blast
  show ?case
  proof (cases "skip_dut_nr_instr d = 1")
    case True
    with s Cons.prems show ?thesis by (simp add: e check_trace_Cons thn_apply del: check_trace.simps)
  next
    case False
    let ?d' = "?d\<lparr>ref_st := r', skip_dut_nr_instr := skip_dut_nr_instr d - 1\<rparr>"
    have "check_trace junk (e # es) d = check_trace junk es ?d'"
      using s False by (simp add: e check_trace_Cons thn_apply del: check_trace.simps)
    moreover have "(int (length es) < skip_dut_nr_instr ?d' \<longrightarrow> (\<exists>st r'. check_trace junk es ?d' =
          Ret () (?d'\<lparr>dut := st, ref_st := r', skip_dut_nr_instr := skip_dut_nr_instr ?d' - int (length es)\<rparr>) \<and>
          dr_pc (view r') = dr_pc (view (ref_st ?d')))) \<and>
        (int (length es) = skip_dut_nr_instr ?d' \<longrightarrow> check_trace junk es ?d' = Crash Assert_fail)"
      by (rule Cons.IH) (use Cons.prems s False in auto)
    ultimately show ?thesis using s(2) by (simp add: algebra_simps del: check_trace.simps)
  qed
qed

lemma trace_app: "check_trace junk (es @ es') d = thn (check_trace junk es) (check_trace junk es') d"
  by (induction es arbitrary: d) (auto simp: m_simps split: prod.splits res.splits)

lemma trace_catches:
  assumes "\<not> is_detach d" "ref_difftest_regcpy d = Some rc"
    "int (length es) < skip_dut_nr_instr d" "\<forall>(st, pc, npc)\<in>set es. npc \<noteq> dr_pc (view (ref_st d))"
  shows "\<exists>r r'. dr_pc (view r) = dr_pc (view (ref_st d)) \<and>
    check_trace junk (es @ [(st, pc, dr_pc (view r))]) d =
      checkregs (view r) (dr_pc (view r)) (d\<lparr>dut := st, ref_st := r', skip_dut_nr_instr := 0\<rparr>)"
proof -
  from trace_misses[of d es junk] assms obtain st0 r where
    t: "check_trace junk es d = Ret () (d\<lparr>dut := st0, ref_st := r, skip_dut_nr_instr := skip_dut_nr_instr d - int (length es)\<rparr>)"
      "dr_pc (view r) = dr_pc (view (ref_st d))"
    by auto
  let ?d = "d\<lparr>ref_st := r, skip_dut_nr_instr := skip_dut_nr_instr d - int (length es), dut := st\<rparr>"
  from step_catches[of ?d "dr_pc (view r)" junk pc] assms obtain r' where
    "difftest_step junk pc (dr_pc (view r)) ?d = checkregs (view r) (dr_pc (view r)) (?d\<lparr>ref_st := r', skip_dut_nr_instr := 0\<rparr>)"
    by auto
  with t show ?thesis
    by - (rule exI[of _ r], rule exI[of _ r'],
      simp add: trace_app check_trace_Cons thn_apply res_unit del: check_trace.simps(2))
qed

end

section \<open>NEMU provides the contract\<close>

text \<open>The shadow CSRs that \<open>csr_prepare\<close> makes of a machine, and the block that a copy from it delivers.\<close>

definition mirror :: "machine \<Rightarrow> shadow_csrs" where
  "mirror st = \<lparr>sh_mstatus = csr st CSR_mstatus, sh_mcause = csr st CSR_mcause, sh_mepc = csr st CSR_mepc,
     sh_sstatus = set_fld (mstatus_f Ms_sd) (if fld (mstatus_f Ms_fs) (csr st CSR_mstatus) = 3 then 1 else 0)
       (csr st CSR_mstatus) AND SSTATUS_RMASK,
     sh_scause = csr st CSR_scause, sh_sepc = csr st CSR_sepc, sh_satp = csr st CSR_satp, sh_mip = csr st CSR_mip,
     sh_mie = csr st CSR_mie, sh_mscratch = csr st CSR_mscratch, sh_sscratch = csr st CSR_sscratch,
     sh_mideleg = csr st CSR_mideleg, sh_medeleg = csr st CSR_medeleg, sh_mtval = csr st CSR_mtval,
     sh_stval = csr st CSR_stval, sh_mtvec = csr st CSR_mtvec, sh_stvec = csr st CSR_stvec\<rparr>"

definition nemu_view :: "machine \<Rightarrow> dut_regs" where
  "nemu_view st = (cpu_block st)\<lparr>dr_shadow := mirror st\<rparr>"

lemma regs_out_apply: "\<exists>st'. regcpy_to_dut st = Ret (nemu_view st) st' \<and> cpu_pc (cpu st') = cpu_pc (cpu st)"
  by (simp add: regcpy_to_dut_def csr_prepare_def csrid_read_def csr_decode_def csr_read_def csr_view_def
      set_shadow_def update_mstatus_sd_def set_ms_def set_csr_def ms_def m_simps Let_def csr_addr_defs
      nemu_view_def mirror_def cpu_block_def)

lemma regs_in_apply: "regcpy_to_ref b st = Ret () (csr_writeback (put_block b st))"
  by (simp add: regcpy_to_ref_def put_block_def m_simps)

lemma writeback_frame [simp]: "cpu (csr_writeback st) = cpu st"
  by (simp add: csr_writeback_def Let_def)

lemma writeback_mirror: "mirror (csr_writeback st) = (shadow (cpu st))\<lparr>sh_sstatus := sh_sstatus (mirror (csr_writeback st))\<rparr>"
  by (simp add: mirror_def csr_writeback_def Let_def csr_addr_defs)

interpretation nemu: reference_design nemu_regcpy nemu_view
proof
  fix b r
  show "\<exists>r'. nemu_regcpy b DIFFTEST_TO_DUT r = Ret (nemu_view r) r' \<and> dr_pc (nemu_view r') = dr_pc (nemu_view r)"
    using regs_out_apply[of r] by (auto simp: nemu_regcpy_def direction_defs nemu_view_def cpu_block_def)
  show "\<exists>r'. nemu_regcpy b DIFFTEST_TO_REF r = Ret b r' \<and> synced b (nemu_view r')"
    by (simp add: nemu_regcpy_def m_simps regs_in_apply synced_def nemu_view_def cpu_block_def put_block_def)
qed

section \<open>The properties\<close>

definition bound_to_nemu :: "fp_lib \<Rightarrow> machine dut_state \<Rightarrow> bool" where
  "bound_to_nemu fl d \<longleftrightarrow> ref_difftest_memcpy d = Some nemu_memcpy \<and> ref_difftest_regcpy d = Some nemu_regcpy \<and>
     ref_difftest_exec d = Some (difftest_exec fl) \<and> ref_difftest_raise_intr d = Some difftest_raise_intr"

text \<open>Property C9: with no skip or patch pending, the checker returns exactly when the machine under test and the
  reference, after one instruction of its own, agree on every register of the block but \<open>x0\<close>; the machine is
  then unchanged. Otherwise the run is aborted at the address of the instruction and leaves the execution loop.\<close>

theorem difftest_step_verdict:
  assumes "bound_to_nemu fl d" "\<not> is_detach d" "skip_dut_nr_instr d = 0" "\<not> is_skip_ref d" "patch_fn d = None"
    "difftest_exec fl 1 (ref_st d) = Ret () r"
  shows "\<exists>r'. if agree (cpu_block (dut d)) (nemu_view r) then difftest_step junk pc npc d = Ret () (d\<lparr>ref_st := r'\<rparr>)
    else \<exists>st. difftest_step junk pc npc d = LongJmp NEMU_EXEC_END (d\<lparr>dut := st, ref_st := r'\<rparr>) \<and> aborted pc (dut d) st"
proof -
  from nemu.step_checks[of d "difftest_exec fl" r junk pc npc] assms obtain r' where
    s: "difftest_step junk pc npc d = checkregs (nemu_view r) pc (d\<lparr>ref_st := r'\<rparr>)"
    by (auto simp: bound_to_nemu_def)
  have e: "d\<lparr>ref_st := r', dut := st\<rparr> = d\<lparr>dut := st, ref_st := r'\<rparr>" for st by simp
  from checkregs_cases[of "d\<lparr>ref_st := r'\<rparr>" "nemu_view r" pc] show ?thesis
    by (intro exI[of _ r']) (auto simp: s e)
qed

text \<open>Property C11: while the machine under test catches up, the checker lets pass every step whose next address is
  not the reference's program counter, one fewer than the count; the first step that reaches it is compared there
  and ends the catching up; the step that uses up the count without reaching it ends the emulator.\<close>

theorem catch_up:
  assumes "bound_to_nemu fl d" "\<not> is_detach d" "0 < skip_dut_nr_instr d"
    "\<forall>(st, pc, npc)\<in>set es. npc \<noteq> cpu_pc (cpu (ref_st d))"
  shows "(int (length es) = skip_dut_nr_instr d \<longrightarrow> check_trace junk es d = Crash Assert_fail) \<and>
    (int (length es) < skip_dut_nr_instr d \<longrightarrow>
      (\<exists>r r'. cpu_pc (cpu r) = cpu_pc (cpu (ref_st d)) \<and>
         check_trace junk (es @ [(st, pc, cpu_pc (cpu r))]) d =
           checkregs (nemu_view r) (cpu_pc (cpu r)) (d\<lparr>dut := st, ref_st := r', skip_dut_nr_instr := 0\<rparr>)))"
proof -
  have v: "dr_pc (nemu_view r) = cpu_pc (cpu r)" for r by (simp add: nemu_view_def cpu_block_def)
  show ?thesis
    using nemu.trace_misses[of d es junk] nemu.trace_catches[of d es junk st pc] assms
    by (auto simp: v bound_to_nemu_def)
qed

text \<open>Property C29: a step that follows a request to skip copies the registers of the machine under test to the
  reference instead of comparing: the two agree on the register files, the program counter and the mode, memory and
  the machine under test are unchanged, and the CSRs of the reference become the shadow CSRs of the machine under
  test, not its CSRs.\<close>

theorem skip_resyncs:
  assumes "bound_to_nemu fl d" "\<not> is_detach d"
  shows "\<exists>r. thn difftest_skip_ref (difftest_step junk pc npc) d =
      Ret () (d\<lparr>ref_st := r, is_skip_ref := False, skip_dut_nr_instr := 0\<rparr>) \<and>
    synced (cpu_block (dut d)) (nemu_view r) \<and> pmem r = pmem (ref_st d) \<and>
    mirror r = (shadow (cpu (dut d)))\<lparr>sh_sstatus := sh_sstatus (mirror r)\<rparr>"
proof -
  let ?d = "d\<lparr>is_skip_ref := True, skip_dut_nr_instr := 0\<rparr>"
  from nemu.step_skips[of ?d junk pc npc] assms obtain r where
    s: "difftest_step junk pc npc ?d = Ret () (?d\<lparr>ref_st := r, is_skip_ref := False\<rparr>)"
      "nemu_regcpy (cpu_block (dut d)) DIFFTEST_TO_REF (ref_st d) = Ret (cpu_block (dut d)) r"
      "synced (cpu_block (dut d)) (nemu_view r)"
    by (auto simp: bound_to_nemu_def)
  from s(2) have r: "r = csr_writeback (put_block (cpu_block (dut d)) (ref_st d))"
    by (simp add: nemu_regcpy_def m_simps regs_in_apply)
  have "shadow (cpu (put_block (cpu_block (dut d)) (ref_st d))) = shadow (cpu (dut d))"
    by (simp add: put_block_def cpu_block_def)
  moreover have "pmem r = pmem (ref_st d)" by (simp add: r csr_writeback_def put_block_def Let_def)
  ultimately show ?thesis
    using s(1,3) assms(2) writeback_mirror[of "put_block (cpu_block (dut d)) (ref_st d)"]
    by (intro exI[of _ r]) (simp add: difftest_skip_ref_def thn_apply r[symmetric])
qed

text \<open>No instruction and no trap touches the shadow CSRs.\<close>

interpretation shadow_kept: run_inv "\<lambda>st. shadow (cpu st) = s"
  by unfold_locales (auto simp: frame_simps intro!: push_cpu_frame)

lemma shadow_exec: "cpu_exec fl n st = Ret u st' \<Longrightarrow> shadow (cpu st') = shadow (cpu st)"
  by (rule shadow_kept.keep_cpu_exec) simp_all

lemma self_comparison: "isa_difftest_checkregs (nemu_view st) st \<longleftrightarrow> shadow (cpu st) = mirror st"
  by (auto simp: checkregs_agree agree_def nemu_view_def cpu_block_def)

text \<open>Property C10: let a machine that agrees with itself, as the comparison sees it, execute an instruction. It
  still agrees with itself exactly when no CSR of the block has changed, because the comparison takes the shadow
  CSRs of the machine under test, which only a register copy prepares. So two identical machines in lockstep are
  reported as different after the first instruction or trap that changes one of these CSRs.\<close>

theorem identical_machines_diverge:
  assumes "isa_difftest_checkregs (nemu_view st) st" "cpu_exec fl n st = Ret () st'"
  shows "isa_difftest_checkregs (nemu_view st') st' \<longleftrightarrow> mirror st' = mirror st"
  using assms shadow_exec[OF assms(2)] by (auto simp: self_comparison)

section \<open>Witnesses\<close>

definition dut_of :: "fp_lib \<Rightarrow> machine \<Rightarrow> machine \<Rightarrow> machine dut_state" where
  "dut_of fl st r = (static_dut st r)\<lparr>ref_difftest_memcpy := Some nemu_memcpy, ref_difftest_regcpy := Some nemu_regcpy,
     ref_difftest_exec := Some (difftest_exec fl), ref_difftest_raise_intr := Some difftest_raise_intr\<rparr>"

lemma dut_of_simps [simp]:
  "bound_to_nemu fl (dut_of fl st r)" "dut (dut_of fl st r) = st" "ref_st (dut_of fl st r) = r"
  "is_detach (dut_of fl st r) = False" "is_skip_ref (dut_of fl st r) = False" "skip_dut_nr_instr (dut_of fl st r) = 0"
  "patch_fn (dut_of fl st r) = None"
  by (simp_all add: dut_of_def static_dut_def bound_to_nemu_def)

lemma mirror_static: "csr st = (\<lambda>_. 0) \<Longrightarrow> mirror st = static_shadow"
  by (simp add: mirror_def static_shadow_def fld_def set_fld_def)

text \<open>A machine whose program counter is outside memory traps.\<close>

lemma fetch_outside:
  assumes "ifetch_mmu_state st = MMU_DIRECT" "csr st CSR_satp = 0"
  shows "instr_fetch 0 2 st = longjmp_exception EX_II st"
proof -
  have "\<not> in_pmem 0" by (simp add: in_pmem_range)
  then show ?thesis using assms
    by (simp add: instr_fetch_def vaddr_ifetch_def vaddr_read_internal_def isa_mmu_check_def paddr_read_def
        satp_mode_def fld_def Let_def m_simps)
qed

lemma after_loop_csr: "\<exists>st'. after_loop st = Ret () st' \<and> csr st' = csr st"
  by (simp add: after_loop_def monitor_statistic_def update_instr_cnt_def set_nstate_def m_simps Let_def)

lemma trap_outside: "\<exists>st'. cpu_exec fl 1 static_machine = Ret () st' \<and> csr st' CSR_mcause = 2"
proof -
  let ?s = "(set_nstate NEMU_RUNNING static_machine)\<lparr>n_remain_total := 1\<rparr>"
  let ?t = "?s\<lparr>cur_s := (cur_s ?s)\<lparr>d_pc := 0, d_snpc := 0\<rparr>\<rparr>"
  have f: "instr_fetch 0 2 ?t = longjmp_exception EX_II ?t"
    by (rule fetch_outside) (simp_all add: set_nstate_def)
  have x: "exec_once fl ?s = LongJmp NEMU_EXEC_EXCEPTION (?t\<lparr>cpu := (cpu ?t)\<lparr>guided_exec := False\<rparr>, g_ex_cause := EX_II\<rparr>)"
    using f by (simp add: exec_once_def fetch_decode_def isa_fetch_decode_def m_simps set_nstate_def)
  let ?u = "at_setjmp (?t\<lparr>cpu := (cpu ?t)\<lparr>guided_exec := False\<rparr>, g_ex_cause := EX_II\<rparr>)"
  have u: "satp_ok ?u" "running ?u" "\<not> delegS EX_II ?u" "g_ex_cause ?u = EX_II"
    by (simp_all add: satp_ok_def satp_mode_def fld_def running_def at_setjmp_def set_nstate_def delegS_def)
  from raise_intr_total[OF u(1), of EX_II "d_pc (cur_s ?u)"] obtain pc v where
    r: "raise_intr EX_II (d_pc (cur_s ?u)) ?u = Ret pc v" by blast
  have c: "csr v CSR_mcause = 2" using raise_intr_post[OF r] u(3) by (simp add: trap_post_def EX_II_def)
  have "exec_loop 2 fl 1 NEMU_EXEC_EXCEPTION ?u = Some (Ret () (v\<lparr>cpu := (cpu v)\<lparr>cpu_pc := pc\<rparr>\<rparr>))"
    using r u by (simp add: numeral_2_eq_2 loop_step_def m_simps)
  moreover have "exec_loop 3 fl 1 0 ?s = exec_loop 2 fl 1 NEMU_EXEC_EXCEPTION ?u"
    using first_iteration[of ?s 2 fl] x by (simp add: numeral_3_eq_3 numeral_2_eq_2 running_def set_nstate_def m_simps)
  moreover obtain st' where "after_loop (v\<lparr>cpu := (cpu v)\<lparr>cpu_pc := pc\<rparr>\<rparr>) = Ret () st'" "csr st' = csr v"
    using after_loop_csr[of "v\<lparr>cpu := (cpu v)\<lparr>cpu_pc := pc\<rparr>\<rparr>"] by auto
  ultimately show ?thesis using c
    by (simp add: cpu_exec_def cpu_exec_fuel_def)
qed

text \<open>A reference whose run has ended stays where it is: a machine in the same state passes, one that has moved on
  does not.\<close>

theorem difftest_step_verdict_witness:
  "\<forall>fl junk. (\<exists>d. difftest_step junk 0 4 (dut_of fl static_machine (set_nstate NEMU_END static_machine)) = Ret () d) \<and>
     (\<exists>d. difftest_step junk 0 4 (dut_of fl (static_machine\<lparr>cpu := (cpu static_machine)\<lparr>cpu_pc := 4\<rparr>\<rparr>)
         (set_nstate NEMU_END static_machine)) = LongJmp NEMU_EXEC_END d \<and> nstate (nemu_state (dut d)) = NEMU_ABORT)"
proof (intro allI conjI)
  fix fl :: fp_lib and junk
  let ?r = "set_nstate NEMU_END static_machine"
  have e: "difftest_exec fl 1 ?r = Ret () ?r"
    by (simp add: difftest_exec_def cpu_exec_def cpu_exec_fuel_def set_nstate_def)
  have m: "mirror ?r = static_shadow" by (rule mirror_static) (simp add: set_nstate_def)
  have "agree (cpu_block static_machine) (nemu_view ?r)"
    by (simp add: agree_def nemu_view_def cpu_block_def m) (simp add: static_defs set_nstate_def)
  with difftest_step_verdict[of fl "dut_of fl static_machine ?r" ?r junk 0 4] e
  show "\<exists>d. difftest_step junk 0 4 (dut_of fl static_machine ?r) = Ret () d" by auto
  let ?s = "static_machine\<lparr>cpu := (cpu static_machine)\<lparr>cpu_pc := 4\<rparr>\<rparr>"
  have "\<not> agree (cpu_block ?s) (nemu_view ?r)"
    by (simp add: agree_def nemu_view_def cpu_block_def m) (simp add: static_defs set_nstate_def)
  with difftest_step_verdict[of fl "dut_of fl ?s ?r" ?r junk 0 4] e
  show "\<exists>d. difftest_step junk 0 4 (dut_of fl ?s ?r) = LongJmp NEMU_EXEC_END d \<and> nstate (nemu_state (dut d)) = NEMU_ABORT"
    by (auto simp: aborted_def)
qed

theorem catch_up_witness:
  "\<forall>fl junk. check_trace junk [(static_machine, 4, 8), (static_machine, 8, 12)]
       ((dut_of fl static_machine static_machine)\<lparr>skip_dut_nr_instr := 2\<rparr>) = Crash Assert_fail \<and>
     (\<forall>c. check_trace junk [(static_machine, 4, 8), (static_machine, 8, 0)]
       ((dut_of fl static_machine static_machine)\<lparr>skip_dut_nr_instr := 2\<rparr>) \<noteq> Crash c)"
proof (intro allI, rule conjI)
  fix fl :: fp_lib and junk
  let ?d = "(dut_of fl static_machine static_machine)\<lparr>skip_dut_nr_instr := 2\<rparr>"
  have b: "bound_to_nemu fl ?d" using dut_of_simps(1)[of fl static_machine static_machine] by (simp add: bound_to_nemu_def)
  show "check_trace junk [(static_machine, 4, 8), (static_machine, 8, 12)] ?d = Crash Assert_fail"
    using catch_up[OF b, of "[(static_machine, 4, 8), (static_machine, 8, 12)]" junk] by simp
  from catch_up[OF b, of "[(static_machine, 4, 8)]" junk static_machine 8] obtain r r' where
    "check_trace junk [(static_machine, 4, 8), (static_machine, 8, 0)] ?d =
       checkregs (nemu_view r) 0 (?d\<lparr>dut := static_machine, ref_st := r', skip_dut_nr_instr := 0\<rparr>)"
    by auto
  then show "\<forall>c. check_trace junk [(static_machine, 4, 8), (static_machine, 8, 0)] ?d \<noteq> Crash c"
    using checkregs_cases by (metis res.distinct(3,5))
qed

text \<open>The machine under test holds a trap vector that its shadow CSRs do not show; the reference loses its own.\<close>

theorem skip_resyncs_witness:
  "\<forall>fl junk. \<exists>d. thn difftest_skip_ref (difftest_step junk 0 4)
       (dut_of fl (set_csr CSR_mtvec 0x100 static_machine) (set_csr CSR_mtvec 0x100 static_machine)) = Ret () d \<and>
     csr (dut d) CSR_mtvec = 0x100 \<and> csr (ref_st d) CSR_mtvec = 0"
proof (intro allI)
  fix fl :: fp_lib and junk
  let ?m = "set_csr CSR_mtvec 0x100 static_machine"
  have "shadow (cpu ?m) = static_shadow" by (simp add: static_defs set_csr_def)
  with skip_resyncs[of fl "dut_of fl ?m ?m" junk 0 4] obtain r where
    r: "thn difftest_skip_ref (difftest_step junk 0 4) (dut_of fl ?m ?m) =
        Ret () ((dut_of fl ?m ?m)\<lparr>ref_st := r, is_skip_ref := False, skip_dut_nr_instr := 0\<rparr>)"
      "mirror r = static_shadow\<lparr>sh_sstatus := sh_sstatus (mirror r)\<rparr>" by auto
  from r(2) have "sh_mtvec (mirror r) = 0" by (metis shadow_csrs.select_convs(16) shadow_csrs.update_convs(4) static_shadow_def)
  then have "csr r CSR_mtvec = 0" by (simp add: mirror_def)
  with r(1) show "\<exists>d. thn difftest_skip_ref (difftest_step junk 0 4) (dut_of fl ?m ?m) = Ret () d \<and>
     csr (dut d) CSR_mtvec = 0x100 \<and> csr (ref_st d) CSR_mtvec = 0"
    by (intro exI) (auto simp: set_csr_def)
qed

theorem identical_machines_diverge_witness:
  "\<forall>fl. isa_difftest_checkregs (nemu_view static_machine) static_machine \<and>
     (\<exists>st. cpu_exec fl 1 static_machine = Ret () st \<and> \<not> isa_difftest_checkregs (nemu_view st) st)"
proof
  fix fl
  have m: "mirror static_machine = static_shadow" by (rule mirror_static) simp
  then have c: "isa_difftest_checkregs (nemu_view static_machine) static_machine"
    by (simp add: self_comparison) (simp add: static_defs)
  obtain st where st: "cpu_exec fl 1 static_machine = Ret () st" "csr st CSR_mcause = 2" using trap_outside by blast
  then have "sh_mcause (mirror st) = 2" by (simp add: mirror_def)
  then have "mirror st \<noteq> mirror static_machine" by (auto simp: m static_shadow_def)
  with identical_machines_diverge[OF c st(1)] c st(1)
  show "isa_difftest_checkregs (nemu_view static_machine) static_machine \<and>
     (\<exists>st. cpu_exec fl 1 static_machine = Ret () st \<and> \<not> isa_difftest_checkregs (nemu_view st) st)" by blast
qed

end
