(* ===== verification/Ui.thy ===== *)
theory Ui
  imports Dut Watchpoint
begin

text \<open>
  The monitor around the interpreter: command-line options, image loading and initialisation
  (\<open>src/monitor/monitor.c\<close>), the command loop (\<open>src/monitor/ui.c\<close>) and the exit status
  (\<open>src/utils/state.c\<close>, \<open>src/nemu-main.c\<close>). The lines that \<open>readline\<close> delivers are a list, what the
  commands print is a list of events, and files are contents by name. \<open>env_run\<close> is the call of
  \<open>cpu_exec\<close>, which theory DebugRun models for this build. A page fault in a command that reads guest memory leaves as the \<open>longjmp\<close> of the model.
\<close>

section \<open>State\<close>

text \<open>A snapshot file holds \<open>cpu\<close> and guest memory.\<close>

record snapshot =
  snap_cpu :: cpu_state
  snap_mem :: "uint64 \<Rightarrow> uint8"

datatype ui_event =
    O_usage string | O_step int | O_regs | O_watchpoints "(nat \<times> string option \<times> uint64) list"
  | O_missing int | O_value uint64 | O_bad | O_set int | O_memory "(uint64 \<times> uint32) list"
  | O_no_path | O_help "(string \<times> string) list" | O_unknown string

record 'r ui_state =
  ui_dut :: "'r dut_state"
  ui_wps :: wps
  ui_files :: "string \<Rightarrow> snapshot option"
  ui_out :: "ui_event list"

definition on_d :: "('r dut_state, 'a) m \<Rightarrow> ('r ui_state, 'a) m" where
  "on_d f u = (case f (ui_dut u) of Ret x d \<Rightarrow> Ret x (u\<lparr>ui_dut := d\<rparr>)
     | LongJmp c d \<Rightarrow> LongJmp c (u\<lparr>ui_dut := d\<rparr>) | Crash c \<Rightarrow> Crash c)"

definition put_mon :: "monitor \<Rightarrow> 'r ui_state \<Rightarrow> 'r ui_state" where
  "put_mon p u = u\<lparr>ui_dut := (ui_dut u)\<lparr>dut := fst p\<rparr>, ui_wps := snd p\<rparr>"

definition on_mon :: "(monitor, 'a) m \<Rightarrow> ('r ui_state, 'a) m" where
  "on_mon f u = (case f (dut (ui_dut u), ui_wps u) of Ret x p \<Rightarrow> Ret x (put_mon p u)
     | LongJmp c p \<Rightarrow> LongJmp c (put_mon p u) | Crash c \<Rightarrow> Crash c)"

definition emit :: "ui_event \<Rightarrow> ('r ui_state, unit) m" where
  "emit e = modify (\<lambda>u. u\<lparr>ui_out := ui_out u @ [e]\<rparr>)"

section \<open>Strings\<close>

text \<open>\<open>strtok\<close> with a blank as the only delimiter: the token, and the text after the delimiter that ended it,
  or nothing when the token ended with the string.\<close>

definition strtok :: "string \<Rightarrow> (string \<times> string option) option" where
  "strtok s = (case dropWhile (\<lambda>c. c = CHR '' '') s of
     [] \<Rightarrow> None
   | s' \<Rightarrow> Some (takeWhile (\<lambda>c. c \<noteq> CHR '' '') s',
       case dropWhile (\<lambda>c. c \<noteq> CHR '' '') s' of [] \<Rightarrow> None | _ # r \<Rightarrow> Some r))"

text \<open>\<open>strtol\<close> in base 10, cut to an \<open>int\<close>: blanks, a sign, digits; it saturates at the width of a \<open>long\<close>.
  \<open>sscanf\<close> with \<open>%d\<close> leaves its variable alone when there is no digit.\<close>

definition is_blank :: "char \<Rightarrow> bool" where
  "is_blank c = (c \<in> {CHR '' '', CHR 0x09, CHR 0x0A, CHR 0x0B, CHR 0x0C, CHR 0x0D})"

definition is_dec :: "char \<Rightarrow> bool" where
  "is_dec c = (48 \<le> (of_char c :: nat) \<and> (of_char c :: nat) \<le> 57)"

definition sign_split :: "string \<Rightarrow> bool \<times> string" where
  "sign_split s = (case s of c # r \<Rightarrow> if c = CHR ''-'' then (True, r) else if c = CHR ''+'' then (False, r) else (False, s)
     | [] \<Rightarrow> (False, s))"

definition strtol_int :: "string \<Rightarrow> int" where
  "strtol_int s =
     (let (neg, s1) = sign_split (dropWhile is_blank s);
          v = foldl (\<lambda>a c. 10 * a + (int (of_char c) - 48)) 0 (takeWhile is_dec s1);
          w = (if neg then - v else v)
      in signed_take_bit 31 (max (- (2 ^ 63)) (min (2 ^ 63 - 1) w)))"

definition sscanf_d :: "string \<Rightarrow> int \<Rightarrow> int" where
  "sscanf_d s old = (if takeWhile is_dec (snd (sign_split (dropWhile is_blank s))) = [] then old else strtol_int s)"

section \<open>Commands\<close>

text \<open>\<open>args\<close> is the rest of the line after the command, null when there is none; \<open>strtok(NULL, " ")\<close> goes on in
  it.\<close>

definition next_tok :: "string option \<Rightarrow> (string \<times> string option) option" where
  "next_tok args = Option.bind args strtok"

definition cmd_c :: "(uint64 \<Rightarrow> ('r ui_state, unit) m) \<Rightarrow> string option \<Rightarrow> ('r ui_state, int) m" where
  "cmd_c run args = thn (run (case args of None \<Rightarrow> -1 | Some a \<Rightarrow> word_of_int (strtol_int a))) (ret 0)"

definition cmd_si :: "(uint64 \<Rightarrow> ('r ui_state, unit) m) \<Rightarrow> string option \<Rightarrow> ('r ui_state, int) m" where
  "cmd_si run args = (case next_tok args of
     None \<Rightarrow> thn (run 1) (ret 0)
   | Some (arg, _) \<Rightarrow> let n = strtol_int arg in thn (emit (O_step n)) (thn (run (word_of_int n)) (ret 0)))"

text \<open>\<open>list_watchpoint\<close> follows the list of active watchpoints, with fuel as in theory Watchpoint.\<close>

fun list_wps :: "nat \<Rightarrow> wps \<Rightarrow> nat option \<Rightarrow> (nat \<times> string option \<times> uint64) list option" where
  "list_wps 0 w p = None"
| "list_wps (Suc k) w p = (case p of None \<Rightarrow> Some []
     | Some i \<Rightarrow> (let n = wp_pool w ! i in map_option (Cons (wp_NO n, wp_expr n, wp_old_val n)) (list_wps k w (wp_next n))))"

definition list_watchpoint :: "('r ui_state, unit) m" where
  "list_watchpoint = bnd (gets (\<lambda>u. list_wps (NR_WP + 1) (ui_wps u) (wp_head (ui_wps u)))) (\<lambda>l. case l of
     None \<Rightarrow> die Host_fault | Some xs \<Rightarrow> emit (O_watchpoints xs))"

definition cmd_info :: "string option \<Rightarrow> ('r ui_state, int) m" where
  "cmd_info args = (case next_tok args of
     None \<Rightarrow> thn (emit (O_usage ''info [r|w]'')) (ret 0)
   | Some (arg, _) \<Rightarrow>
       if arg = ''r'' then thn (on_d (on_dut isa_reg_display)) (thn (emit O_regs) (ret 0))
       else if arg = ''w'' then thn list_watchpoint (ret 0)
       else ret 0)"

text \<open>\<open>NO\<close> is an uninitialised local.\<close>

definition cmd_d :: "int \<Rightarrow> string option \<Rightarrow> ('r ui_state, int) m" where
  "cmd_d NO args = (case next_tok args of
     None \<Rightarrow> thn (emit (O_usage ''d n'')) (ret 0)
   | Some (arg, _) \<Rightarrow> let n = sscanf_d arg NO in
       bnd (on_mon (on_snd (delete_watchpoint n))) (\<lambda>b. thn (if b then skip else emit (O_missing n)) (ret 0)))"

definition cmd_p :: "string option \<Rightarrow> ('r ui_state, int) m" where
  "cmd_p args = (case args of
     None \<Rightarrow> ret 0
   | Some a \<Rightarrow> bnd (on_d (on_dut (expr a))) (\<lambda>r. thn (emit (case r of Some v \<Rightarrow> O_value v | None \<Rightarrow> O_bad)) (ret 0)))"

definition cmd_w :: "string option \<Rightarrow> ('r ui_state, int) m" where
  "cmd_w args = (case args of
     None \<Rightarrow> ret 0
   | Some a \<Rightarrow> bnd (on_mon (set_watchpoint a)) (\<lambda>NO. thn (emit (if NO \<noteq> -1 then O_set NO else O_bad)) (ret 0)))"

primrec x_words :: "nat \<Rightarrow> uint64 \<Rightarrow> (uint64 \<times> uint32) list nemu" where
  "x_words 0 addr = ret []"
| "x_words (Suc n) addr = bnd (vaddr_read_safe addr 4) (\<lambda>v. bnd (x_words n (addr + 4)) (\<lambda>r. ret ((addr, ucast v) # r)))"

text \<open>The address is what follows the terminator of the first argument. When that argument is the last on the
  line, this is \<open>beyond\<close>, whatever lies in memory after the line.\<close>

definition cmd_x :: "int \<Rightarrow> string \<Rightarrow> string option \<Rightarrow> ('r ui_state, int) m" where
  "cmd_x n beyond args = (case next_tok args of
     None \<Rightarrow> thn (emit (O_usage ''x n addr'')) (ret 0)
   | Some (arg, rest) \<Rightarrow>
       bnd (on_d (on_dut (expr (case rest of None \<Rightarrow> beyond | Some r \<Rightarrow> r)))) (\<lambda>a. case a of
         None \<Rightarrow> thn (emit O_bad) (ret 0)
       | Some addr \<Rightarrow> bnd (on_d (on_dut (x_words (nat (sscanf_d arg n)) addr)))
           (\<lambda>ws. thn (emit (O_memory ws)) (ret 0))))"

definition cmd_detach :: "('r ui_state, int) m" where
  "cmd_detach = thn (on_d difftest_detach) (ret 0)"

definition cmd_attach :: "('r ui_state, int) m" where
  "cmd_attach = thn (on_d difftest_attach) (ret 0)"

text \<open>The bytes of guest memory on the host.\<close>

definition in_host_mem :: "uint64 \<Rightarrow> bool" where
  "in_host_mem a = (uint pmem_base \<le> uint a \<and> uint a < uint pmem_base + uint CONFIG_MSIZE)"

definition take_snapshot :: "machine \<Rightarrow> snapshot" where
  "take_snapshot st = \<lparr>snap_cpu = cpu st, snap_mem = pmem st\<rparr>"

definition put_snapshot :: "snapshot \<Rightarrow> machine \<Rightarrow> machine" where
  "put_snapshot s st = st\<lparr>cpu := snap_cpu s, pmem := (\<lambda>a. if in_host_mem a then snap_mem s a else pmem st a)\<rparr>"

definition cmd_save :: "(string \<Rightarrow> bool) \<Rightarrow> string option \<Rightarrow> ('r ui_state, int) m" where
  "cmd_save writable args = (case next_tok args of
     None \<Rightarrow> thn (emit O_no_path) (ret 0)
   | Some (f, _) \<Rightarrow> thn (assert_m (writable f))
       (thn (modify (\<lambda>u. u\<lparr>ui_files := (ui_files u)(f := Some (take_snapshot (dut (ui_dut u))))\<rparr>)) (ret 0)))"

definition cmd_load :: "string option \<Rightarrow> ('r ui_state, int) m" where
  "cmd_load args = (case next_tok args of
     None \<Rightarrow> thn (emit O_no_path) (ret 0)
   | Some (f, _) \<Rightarrow> bnd (gets (\<lambda>u. ui_files u f)) (\<lambda>s. case s of
         None \<Rightarrow> die Assert_fail
       | Some s \<Rightarrow> thn (on_d (on_dut (modify (put_snapshot s)))) (ret 0)))"

section \<open>The command table and the loop\<close>

datatype ui_cmd = Cmd_help | Cmd_c | Cmd_si | Cmd_info | Cmd_x | Cmd_p | Cmd_w | Cmd_d
  | Cmd_detach | Cmd_attach | Cmd_save | Cmd_load | Cmd_q

definition cmd_table :: "(string \<times> string \<times> ui_cmd) list" where
  "cmd_table = [
     (''help'', ''Display informations about all supported commands'', Cmd_help),
     (''c'', ''Continue the execution of the program'', Cmd_c),
     (''si'', ''step'', Cmd_si),
     (''info'', ''info r - print register values; info w - show watch point state'', Cmd_info),
     (''x'', ''Examine memory'', Cmd_x),
     (''p'', ''Evaluate the value of expression'', Cmd_p),
     (''w'', ''Set watchpoint'', Cmd_w),
     (''d'', ''Delete watchpoint'', Cmd_d),
     (''detach'', ''detach diff test'', Cmd_detach),
     (''attach'', ''attach diff test'', Cmd_attach),
     (''save'', ''save snapshot'', Cmd_save),
     (''load'', ''load snapshot'', Cmd_load),
     (''q'', ''Exit NEMU'', Cmd_q)]"

definition cmd_help :: "string option \<Rightarrow> ('r ui_state, int) m" where
  "cmd_help args = thn (emit (case next_tok args of
     None \<Rightarrow> O_help (map (\<lambda>(n, d, _). (n, d)) cmd_table)
   | Some (arg, _) \<Rightarrow> (case find (\<lambda>(n, _, _). arg = n) cmd_table of
         Some (n, d, _) \<Rightarrow> O_help [(n, d)] | None \<Rightarrow> O_unknown arg))) (ret 0)"

text \<open>What the commands take from outside: the call of \<open>cpu_exec\<close>, the values of uninitialised locals, the bytes
  after the line, and which files can be created.\<close>

record 'r ui_env =
  env_run :: "uint64 \<Rightarrow> ('r ui_state, unit) m"
  env_junk :: int
  env_beyond :: string
  env_writable :: "string \<Rightarrow> bool"

primrec handler :: "'r ui_env \<Rightarrow> string option \<Rightarrow> ui_cmd \<Rightarrow> ('r ui_state, int) m" where
  "handler env args Cmd_help = cmd_help args"
| "handler env args Cmd_c = cmd_c (env_run env) args"
| "handler env args Cmd_si = cmd_si (env_run env) args"
| "handler env args Cmd_info = cmd_info args"
| "handler env args Cmd_x = cmd_x (env_junk env) (env_beyond env) args"
| "handler env args Cmd_p = cmd_p args"
| "handler env args Cmd_w = cmd_w args"
| "handler env args Cmd_d = cmd_d (env_junk env) args"
| "handler env args Cmd_detach = cmd_detach"
| "handler env args Cmd_attach = cmd_attach"
| "handler env args Cmd_save = cmd_save (env_writable env) args"
| "handler env args Cmd_load = cmd_load args"
| "handler env args Cmd_q = ret (-1)"

text \<open>One round of the loop; the result says whether to leave.\<close>

definition ui_line :: "'r ui_env \<Rightarrow> string \<Rightarrow> ('r ui_state, bool) m" where
  "ui_line env str = (case strtok str of
     None \<Rightarrow> ret False
   | Some (cmd, rest) \<Rightarrow>
       let args = (case rest of None \<Rightarrow> None | Some r \<Rightarrow> if r = [] then None else Some r) in
       (case find (\<lambda>(n, _, _). cmd = n) cmd_table of
          None \<Rightarrow> thn (emit (O_unknown cmd)) (ret False)
        | Some (_, _, h) \<Rightarrow> bnd (handler env args h) (\<lambda>r. ret (r < 0))))"

primrec ui_loop :: "'r ui_env \<Rightarrow> string list \<Rightarrow> ('r ui_state, unit) m" where
  "ui_loop env [] = skip"
| "ui_loop env (s # ss) = bnd (ui_line env s) (\<lambda>stop. if stop then skip else ui_loop env ss)"

definition ui_mainloop :: "'r ui_env \<Rightarrow> bool \<Rightarrow> string option \<Rightarrow> string list \<Rightarrow> ('r ui_state, unit) m" where
  "ui_mainloop env batch_mode max_instr input =
     (if batch_mode then bnd (cmd_c (env_run env) max_instr) (\<lambda>_. skip) else ui_loop env input)"

text \<open>The status of \<open>main\<close>.\<close>

definition is_exit_status_bad :: "machine \<Rightarrow> bool" where
  "is_exit_status_bad st = (let good = (nstate (nemu_state st) = NEMU_END \<and> halt_ret (nemu_state st) = 0) \<or>
     nstate (nemu_state st) = NEMU_QUIT in \<not> good)"

section \<open>Options\<close>

text \<open>What \<open>getopt_long\<close> returns: an option letter, an operand (the value 1), or anything else.\<close>

datatype opt = Opt_b | Opt_I string | Opt_p string | Opt_l string | Opt_d string | Opt_operand string | Opt_other

record cmdline =
  batch_mode :: bool
  max_instr :: "string option"
  difftest_port :: int
  log_file :: "string option"
  diff_so_file :: "string option"
  img_file :: "string option"

definition default_cmdline :: cmdline where
  "default_cmdline = \<lparr>batch_mode = False, max_instr = None, difftest_port = 1234, log_file = None,
     diff_so_file = None, img_file = None\<rparr>"

text \<open>The first operand ends the options; an unknown one prints the usage and exits, which is \<open>None\<close>.\<close>

fun parse_args :: "opt list \<Rightarrow> cmdline \<Rightarrow> cmdline option" where
  "parse_args [] c = Some c"
| "parse_args (Opt_b # os) c = parse_args os (c\<lparr>batch_mode := True\<rparr>)"
| "parse_args (Opt_I a # os) c = parse_args os (c\<lparr>max_instr := Some a\<rparr>)"
| "parse_args (Opt_p a # os) c = parse_args os (c\<lparr>difftest_port := sscanf_d a (difftest_port c)\<rparr>)"
| "parse_args (Opt_l a # os) c = parse_args os (c\<lparr>log_file := Some a\<rparr>)"
| "parse_args (Opt_d a # os) c = parse_args os (c\<lparr>diff_so_file := Some a\<rparr>)"
| "parse_args (Opt_operand a # os) c = Some (c\<lparr>img_file := Some a\<rparr>)"
| "parse_args (Opt_other # os) c = None"

section \<open>Loading the image\<close>

text \<open>\<open>fread\<close> into guest memory, byte after byte from a host address on.\<close>

primrec put_bytes :: "uint64 \<Rightarrow> uint8 list \<Rightarrow> (uint64 \<Rightarrow> uint8) \<Rightarrow> (uint64 \<Rightarrow> uint8)" where
  "put_bytes a [] h = h"
| "put_bytes a (b # bs) h = put_bytes (a + 1) bs (h(a := b))"

definition fread_img :: "uint8 list \<Rightarrow> nat nemu" where
  "fread_img bytes =
     (if bytes = [] then die Assert_fail
      else if host_mapped (guest_to_host (ucast RESET_VECTOR)) (length bytes)
      then thn (modify (\<lambda>st. st\<lparr>pmem := put_bytes (guest_to_host (ucast RESET_VECTOR)) bytes (pmem st)\<rparr>)) (ret (length bytes))
      else die Host_fault)"

text \<open>The loader of compressed images (\<open>CONFIG_MEM_COMPRESS\<close>). The decompressed contents are a parameter;
  \<open>gzread\<close> gives the next bytes of them, fewer than asked for only at the end. A zero is not written over a
  zero.\<close>

definition chunk_size :: nat where "chunk_size = 16384"

primrec gz_copy :: "uint64 \<Rightarrow> uint8 list \<Rightarrow> unit nemu" where
  "gz_copy a [] = skip"
| "gz_copy a (b # bs) =
     thn (bnd (host_read a 1) (\<lambda>old. if b \<noteq> 0 \<or> old \<noteq> 0 then host_write a 1 (ucast b) else skip)) (gz_copy (a + 1) bs)"

function gz_loop :: "nat \<Rightarrow> uint8 list \<Rightarrow> (nat \<times> uint8 list) nemu" where
  "gz_loop curr_size rest =
     (if curr_size < unat CONFIG_MSIZE \<and> take chunk_size rest \<noteq> [] then
        thn (gz_copy (guest_to_host (ucast RESET_VECTOR) + of_nat curr_size) (take chunk_size rest))
          (gz_loop (curr_size + length (take chunk_size rest)) (drop chunk_size rest))
      else ret (curr_size, rest))"
  by pat_completeness auto
termination by (relation "measure (\<lambda>(n, r). length r)") (auto simp: chunk_size_def)

declare gz_loop.simps [simp del]

definition load_gz_img :: "uint8 list option \<Rightarrow> nat nemu" where
  "load_gz_img contents = (case contents of
     None \<Rightarrow> die Assert_fail
   | Some bytes \<Rightarrow> bnd (gz_loop 0 bytes) (\<lambda>(curr_size, rest). thn (assert_m (take chunk_size rest = [])) (ret curr_size)))"

definition is_gz_file :: "string \<Rightarrow> bool" where
  "is_gz_file filename = (if length filename < 3 then False else drop (length filename - 3) filename = ''.gz'')"

definition load_img :: "bool \<Rightarrow> (string \<Rightarrow> uint8 list option) \<Rightarrow> (string \<Rightarrow> uint8 list option) \<Rightarrow> string option \<Rightarrow> nat nemu" where
  "load_img mem_compress gzopen fopen file = (case file of
     None \<Rightarrow> ret 4096
   | Some f \<Rightarrow> if mem_compress \<and> is_gz_file f then load_gz_img (gzopen f)
       else (case fopen f of None \<Rightarrow> die Assert_fail | Some bytes \<Rightarrow> fread_img bytes))"

section \<open>Initialisation\<close>

text \<open>\<open>init_monitor\<close> up to the devices (theory Bus), with the memory, ISA, difftest and watchpoint steps in their
  order. The log, the regular expressions and the alignment check do not touch the state. The two options are
  \<open>CONFIG_MEM_COMPRESS\<close> and \<open>CONFIG_DIFFTEST\<close>, of which a build has at most one.\<close>

definition init_monitor :: "bool \<Rightarrow> bool \<Rightarrow> (string \<Rightarrow> uint8 list option) \<Rightarrow> (string \<Rightarrow> uint8 list option) \<Rightarrow>
    (string \<Rightarrow> 'r ref_lib option) \<Rightarrow> cmdline \<Rightarrow> ('r ui_state, unit) m" where
  "init_monitor mem_compress difftest gzopen fopen dlopen c =
     thn (on_d (on_dut (modify (\<lambda>st. init_isa (init_mem st)))))
     (bnd (on_d (on_dut (load_img mem_compress gzopen fopen (img_file c)))) (\<lambda>img_size.
      thn (if difftest then on_d (init_difftest dlopen (diff_so_file c) img_size (difftest_port c)) else skip)
        (modify (\<lambda>u. u\<lparr>ui_wps := init_wp_pool (ui_wps u)\<rparr>))))"

end
