(* ===== verification/DebugRun.thy ===== *)
theory DebugRun
  imports Ui
begin

text \<open>
  The run that the commands of the monitor start (\<open>src/cpu/cpu-exec.c\<close> in the interpreter build with
  \<open>CONFIG_DEBUG\<close> and with or without \<open>CONFIG_DIFFTEST\<close>, no devices): batches of 65536 instructions, after
  each instruction the scan of the watchpoints and the difftest step, the \<open>setjmp\<close> point, traps and
  interrupts at the start of a batch. \<open>one\<close> is fetching, decoding and executing one instruction on the
  machine and counting it; \<open>exec_once\<close> of theory CpuExec is it for a machine whose addresses are memory.
\<close>

definition DEBUG_BATCH_SIZE :: uint64 where "DEBUG_BATCH_SIZE = 65536"

definition on_m :: "'a nemu \<Rightarrow> ('r ui_state, 'a) m" where
  "on_m f = on_d (on_dut f)"

definition upd_dut :: "(machine \<Rightarrow> machine) \<Rightarrow> 'r ui_state \<Rightarrow> 'r ui_state" where
  "upd_dut f u = u\<lparr>ui_dut := (ui_dut u)\<lparr>dut := f (dut (ui_dut u))\<rparr>\<rparr>"

definition set_pc :: "uint64 \<Rightarrow> unit nemu" where
  "set_pc pc = modify (\<lambda>st. st\<lparr>cpu := (cpu st)\<lparr>cpu_pc := pc\<rparr>\<rparr>)"

section \<open>A batch\<close>

text \<open>The body of the loop of \<open>execute\<close>, with \<open>debug_hook\<close>; what it writes to the log is left out.\<close>

definition debug_once :: "bool \<Rightarrow> unit nemu \<Rightarrow> dut_regs \<Rightarrow> ('r ui_state, unit) m" where
  "debug_once difftest one ref_r = seqs [
     on_m one,
     on_mon scan_watchpoint,
     (if difftest
      then bnd (gets (\<lambda>u. dut (ui_dut u))) (\<lambda>st. on_d (difftest_step ref_r (d_pc (cur_s st)) (cpu_pc (cpu st))))
      else skip)]"

primrec debug_execute :: "bool \<Rightarrow> unit nemu \<Rightarrow> dut_regs \<Rightarrow> nat \<Rightarrow> ('r ui_state, unit) m" where
  "debug_execute difftest one ref_r 0 = skip"
| "debug_execute difftest one ref_r (Suc n) = thn (debug_once difftest one ref_r) (debug_execute difftest one ref_r n)"

section \<open>The loop\<close>

text \<open>What an iteration does before the batch: the trap of the exception that has left the last one, or else
  the interrupt that is pending, which the reference is told of.\<close>

definition take_exception :: "unit nemu" where
  "take_exception = bnd (gets (\<lambda>st. (g_ex_cause st, d_pc (cur_s st)))) (\<lambda>(c, pc). bnd (raise_intr c pc) set_pc)"

definition take_interrupt :: "bool \<Rightarrow> ('r ui_state, unit) m" where
  "take_interrupt difftest = bnd (gets (\<lambda>u. isa_query_intr (dut (ui_dut u)))) (\<lambda>intr.
     if intr = INTR_EMPTY then skip
     else thn (on_m (bnd (gets (\<lambda>st. cpu_pc (cpu st))) (\<lambda>pc. bnd (raise_intr intr pc) set_pc)))
       (if difftest then on_d (via ref_difftest_raise_intr (\<lambda>f. f intr)) else skip))"

text \<open>One iteration; the result is the cause the next one starts with. A \<open>longjmp\<close> out of the batch re-enters
  at \<open>setjmp\<close>. The size of the batch is computed from \<open>n\<close>, not from what remains of it.\<close>

definition debug_step :: "bool \<Rightarrow> unit nemu \<Rightarrow> dut_regs \<Rightarrow> uint64 \<Rightarrow> nat \<Rightarrow> ('r ui_state, nat) m" where
  "debug_step difftest one ref_r n cause u =
     (let n_batch = (if n \<ge> DEBUG_BATCH_SIZE then DEBUG_BATCH_SIZE else n)
      in case thn (if cause = NEMU_EXEC_EXCEPTION then on_m take_exception else take_interrupt difftest)
                (debug_execute difftest one ref_r (unat n_batch)) u of
           Ret _ u' \<Rightarrow> Ret (if cause = NEMU_EXEC_EXCEPTION then 0 else cause)
             (upd_dut (\<lambda>st. st\<lparr>n_remain := 0, n_remain_total := n_remain_total st - n_batch\<rparr>) u')
         | LongJmp c u' \<Rightarrow> Ret c (upd_dut at_setjmp u')
         | Crash c \<Rightarrow> Crash c)"

text \<open>The loop, with fuel for its iterations; \<open>None\<close> is running out of it.\<close>

fun debug_loop :: "nat \<Rightarrow> bool \<Rightarrow> unit nemu \<Rightarrow> dut_regs \<Rightarrow> uint64 \<Rightarrow> nat \<Rightarrow> 'r ui_state \<Rightarrow> ('r ui_state, unit) res option" where
  "debug_loop 0 difftest one ref_r n cause u = None"
| "debug_loop (Suc k) difftest one ref_r n cause u =
     (if \<not> running (dut (ui_dut u)) then Some (Ret () u)
      else case debug_step difftest one ref_r n cause u of
        Ret c u' \<Rightarrow> debug_loop k difftest one ref_r n c u'
      | LongJmp c u' \<Rightarrow> Some (LongJmp c u')
      | Crash c \<Rightarrow> Some (Crash c))"

text \<open>\<open>update_instr_cnt\<close> of this build, where instructions are counted one by one.\<close>

definition debug_instr_cnt :: "machine \<Rightarrow> machine" where
  "debug_instr_cnt st =
     (let n_batch = (if n_remain_total st \<ge> DEBUG_BATCH_SIZE then DEBUG_BATCH_SIZE else n_remain_total st);
          n_executed = word_of_int (uint n_batch - n_remain st) :: uint32;
          k = (if n_remain_total st > ucast n_executed then ucast n_executed else n_remain_total st)
      in st\<lparr>n_remain_total := n_remain_total st - k, n_remain := uint n_batch\<rparr>)"

definition debug_after :: "machine \<Rightarrow> machine" where
  "debug_after st = (let s = nstate (nemu_state st) in
     if s = NEMU_RUNNING then set_nstate NEMU_STOP st
     else if s = NEMU_END \<or> s = NEMU_ABORT \<or> s = NEMU_QUIT then debug_instr_cnt st else st)"

definition debug_fuel :: "nat \<Rightarrow> bool \<Rightarrow> unit nemu \<Rightarrow> dut_regs \<Rightarrow> uint64 \<Rightarrow> 'r ui_state \<Rightarrow> ('r ui_state, unit) res option" where
  "debug_fuel k difftest one ref_r n u =
     (if nstate (nemu_state (dut (ui_dut u))) = NEMU_END \<or> nstate (nemu_state (dut (ui_dut u))) = NEMU_ABORT
      then Some (Ret () u)
      else map_option (\<lambda>r. case r of Ret _ u' \<Rightarrow> Ret () (upd_dut debug_after u') | LongJmp c u' \<Rightarrow> LongJmp c u' | Crash c \<Rightarrow> Crash c)
        (debug_loop k difftest one ref_r n 0 (upd_dut (\<lambda>st. (set_nstate NEMU_RUNNING st)\<lparr>n_remain_total := n\<rparr>) u)))"

text \<open>The call of the monitor. A guest that never stops keeps it forever; that is a fuel that is never enough,
  and has no successor state, like a crash.\<close>

definition debug_cpu_exec :: "nat \<Rightarrow> bool \<Rightarrow> unit nemu \<Rightarrow> dut_regs \<Rightarrow> uint64 \<Rightarrow> ('r ui_state, unit) m" where
  "debug_cpu_exec k difftest one ref_r n u = (case debug_fuel k difftest one ref_r n u of Some r \<Rightarrow> r | None \<Rightarrow> Crash Host_fault)"

text \<open>The commands with this run.\<close>

definition debug_env :: "nat \<Rightarrow> bool \<Rightarrow> unit nemu \<Rightarrow> dut_regs \<Rightarrow> int \<Rightarrow> string \<Rightarrow> (string \<Rightarrow> bool) \<Rightarrow> 'r ui_env" where
  "debug_env k difftest one ref_r junk beyond writable = \<lparr>env_run = debug_cpu_exec k difftest one ref_r,
     env_junk = junk, env_beyond = beyond, env_writable = writable\<rparr>"

section \<open>The budget\<close>

text \<open>More fuel does not change a run that ends.\<close>

lemma debug_loop_mono: "debug_loop k difftest one ref_r n c u = Some r \<Longrightarrow> k \<le> k' \<Longrightarrow>
    debug_loop k' difftest one ref_r n c u = Some r"
proof (induction k arbitrary: k' c u)
  case (Suc k)
  then obtain j where "k' = Suc j" "k \<le> j" by (cases k') auto
  with Suc show ?case by (auto split: res.splits if_splits)
qed simp

lemma batch_idle:
  assumes "wp_head (ui_wps u) = None"
  shows "debug_execute False skip ref_r n u = Ret () u"
  using assms
  by (induction n)
    (simp_all add: debug_once_def on_m_def on_d_def on_dut_def on_mon_def put_mon_def scan_watchpoint_def m_simps NR_WP_def eval_nat_numeral)

text \<open>A budget above the size of a batch that is not a multiple of it is overrun, and the count of what
  remains wraps around: after two batches of a budget of 65537 instructions, which here do nothing, more of
  it remains than there was, and the loop goes on.\<close>

theorem batch_overshoot:
  assumes "wp_head (ui_wps u) = None" "isa_query_intr (dut (ui_dut u)) = INTR_EMPTY"
    "nstate (nemu_state (dut (ui_dut u))) = NEMU_RUNNING" "n_remain_total (dut (ui_dut u)) = 65537"
  shows "\<exists>u1 u2. debug_step False skip ref_r 65537 0 u = Ret 0 u1 \<and> running (dut (ui_dut u1)) \<and>
    debug_step False skip ref_r 65537 0 u1 = Ret 0 u2 \<and> running (dut (ui_dut u2)) \<and>
    n_remain_total (dut (ui_dut u2)) = 2 ^ 64 - 65535"
proof -
  have step: "debug_step False skip ref_r 65537 0 v = Ret 0 (upd_dut (\<lambda>st. st\<lparr>n_remain := 0,
      n_remain_total := n_remain_total st - 65536\<rparr>) v)"
    if "wp_head (ui_wps v) = None" "isa_query_intr (dut (ui_dut v)) = INTR_EMPTY" for v :: "'a ui_state"
    using that batch_idle[OF that(1)]
    by (simp add: debug_step_def take_interrupt_def DEBUG_BATCH_SIZE_def NEMU_EXEC_EXCEPTION_def m_simps)
  have q: "isa_query_intr (st\<lparr>n_remain := i, n_remain_total := x\<rparr>) = isa_query_intr st" for st i x
  proof -
    have "query_loop (st\<lparr>n_remain := i, n_remain_total := x\<rparr>) v irqs = query_loop st v irqs" for v irqs
      by (induction irqs) (simp_all add: irq_enabled_def msb_on_def ms_def)
    then show ?thesis by (simp add: isa_query_intr_def Let_def)
  qed
  let ?u1 = "upd_dut (\<lambda>st. st\<lparr>n_remain := 0, n_remain_total := n_remain_total st - 65536\<rparr>) u"
  let ?u2 = "upd_dut (\<lambda>st. st\<lparr>n_remain := 0, n_remain_total := n_remain_total st - 65536\<rparr>) ?u1"
  have "debug_step False skip ref_r 65537 0 u = Ret 0 ?u1" by (rule step[OF assms(1,2)])
  moreover have "debug_step False skip ref_r 65537 0 ?u1 = Ret 0 ?u2"
    by (rule step) (simp_all add: assms q upd_dut_def)
  moreover have "running (dut (ui_dut ?u1))" "running (dut (ui_dut ?u2))" "n_remain_total (dut (ui_dut ?u2)) = 2 ^ 64 - 65535"
    by (simp_all add: running_def upd_dut_def assms word_gt_0)
  ultimately show ?thesis by blast
qed

theorem batch_overshoot_witness:
  "\<exists>u1 u2 :: machine ui_state. debug_step False skip (cpu_block static_machine) 65537 0
     (upd_dut (\<lambda>st. (set_nstate NEMU_RUNNING st)\<lparr>n_remain_total := 65537\<rparr>) \<lparr>ui_dut = static_dut static_machine static_machine,
       ui_wps = init_wp_pool static_wps, ui_files = (\<lambda>_. None), ui_out = []\<rparr>) = Ret 0 u1 \<and>
     debug_step False skip (cpu_block static_machine) 65537 0 u1 = Ret 0 u2 \<and> n_remain_total (dut (ui_dut u2)) = 2 ^ 64 - 65535"
proof -
  let ?u = "upd_dut (\<lambda>st. (set_nstate NEMU_RUNNING st)\<lparr>n_remain_total := 65537\<rparr>) \<lparr>ui_dut = static_dut static_machine static_machine,
       ui_wps = init_wp_pool static_wps, ui_files = (\<lambda>_. None), ui_out = []\<rparr> :: machine ui_state"
  have "wp_head (ui_wps ?u) = None" by (simp add: upd_dut_def init_wp_pool_def Let_def)
  moreover have "isa_query_intr (dut (ui_dut ?u)) = INTR_EMPTY"
    by (simp add: upd_dut_def static_dut_def isa_query_intr_def set_nstate_def)
  moreover have "nstate (nemu_state (dut (ui_dut ?u))) = NEMU_RUNNING" "n_remain_total (dut (ui_dut ?u)) = 65537"
    by (simp_all add: upd_dut_def set_nstate_def)
  ultimately show ?thesis using batch_overshoot[of ?u "cpu_block static_machine"] by blast
qed

end
