(* ===== verification/UiProps.thy ===== *)
theory UiProps
  imports DebugRun WatchProps DiffProps DecodeTypes
begin

text \<open>
  Properties of the monitor around the interpreter: the two image loaders, what a snapshot brings back, and the
  invariant of the watchpoint pool through every command line.
\<close>

section \<open>Images\<close>

lemma put_bytes_append: "put_bytes a (xs @ ys) h = put_bytes (a + of_nat (length xs)) ys (put_bytes a xs h)"
  by (induction xs arbitrary: a h) (simp_all add: algebra_simps)

lemma gz_copy_ok: "host_mapped a (length bs) \<Longrightarrow> gz_copy a bs st = Ret () (st\<lparr>pmem := put_bytes a bs (pmem st)\<rparr>)"
proof (induction bs arbitrary: a st)
  case (Cons b bs)
  from mapped_step[of a 1 "length bs"] Cons.prems have m: "host_mapped a 1" "host_mapped (a + 1) (length bs)" by simp_all
  let ?h = "(pmem st)(a := b)"
  have "load_le (pmem st) a 1 = 0 \<longleftrightarrow> pmem st a = 0"
    by simp (metis byte_trip unsigned_0)
  then have "bnd (host_read a 1) (\<lambda>old. if b \<noteq> 0 \<or> old \<noteq> 0 then host_write a 1 (ucast b) else skip) st = Ret () (st\<lparr>pmem := ?h\<rparr>)"
    using m(1) by (auto simp: host_read_def host_write_def m_simps byte_trip fun_upd_idem)
  then have "gz_copy a (b # bs) st = gz_copy (a + 1) bs (st\<lparr>pmem := ?h\<rparr>)" unfolding gz_copy.simps thn_apply by simp
  also have "\<dots> = Ret () (st\<lparr>pmem := ?h\<rparr>\<lparr>pmem := put_bytes (a + 1) bs (pmem (st\<lparr>pmem := ?h\<rparr>))\<rparr>)" by (rule Cons.IH[OF m(2)])
  finally show ?case unfolding put_bytes.simps machine.simps by simp
qed (simp add: m_simps)

lemma base_host: "guest_to_host (ucast RESET_VECTOR) = pmem_base"
  by (simp add: RESET_VECTOR_def guest_to_host_def HOST_PMEM_OFFSET_def config_defs)

lemma base_mapped: "host_mapped (pmem_base + of_nat k) n \<longleftrightarrow> k + n \<le> 0x10000000" if "k \<le> 0x10000000"
proof -
  have "uint (pmem_base + of_nat k) = 0x100000000 + int k"
    using that by (simp add: config_defs uint_word_ariths unsigned_of_nat take_bit_int_eq_self take_bit_nat_eq_self)
  then show ?thesis by (auto simp: host_mapped_def config_defs)
qed

lemma msize: "unat CONFIG_MSIZE = 0x10000000"
  by (simp add: CONFIG_MSIZE_def)

lemma gz_loop_fits:
  "n + length rest \<le> 0x10000000 \<Longrightarrow>
     gz_loop n rest st = Ret (n + length rest, []) (st\<lparr>pmem := put_bytes (pmem_base + of_nat n) rest (pmem st)\<rparr>)"
proof (induction n rest arbitrary: st rule: gz_loop.induct)
  case (1 n rest)
  show ?case
  proof (cases "rest = []")
    case True
    then show ?thesis by (simp add: gz_loop.simps m_simps)
  next
    case False
    let ?c = "take chunk_size rest" and ?r = "drop chunk_size rest"
    from False "1.prems" have b: "n < unat CONFIG_MSIZE \<and> ?c \<noteq> []" by (cases rest) (simp_all add: msize chunk_size_def)
    have l: "length ?c + length ?r = length rest" by simp
    have m: "host_mapped (pmem_base + of_nat n) (length ?c)" using "1.prems" by (simp add: base_mapped)
    let ?st = "st\<lparr>pmem := put_bytes (pmem_base + of_nat n) ?c (pmem st)\<rparr>"
    have "gz_loop n rest st = gz_loop (n + length ?c) ?r ?st"
      using b gz_copy_ok[OF m, of st] by (subst gz_loop.simps) (simp add: thn_apply base_host del: take_eq_Nil)
    also have "\<dots> = Ret (n + length ?c + length ?r, [])
        (?st\<lparr>pmem := put_bytes (pmem_base + of_nat (n + length ?c)) ?r (pmem ?st)\<rparr>)"
      by (rule "1.IH"[OF b]) (use "1.prems" l in linarith)
    also have "put_bytes (pmem_base + of_nat (n + length ?c)) ?r (pmem ?st) = put_bytes (pmem_base + of_nat n) rest (pmem st)"
      using put_bytes_append[of "pmem_base + of_nat n" ?c ?r "pmem st"] by (simp add: add.assoc)
    finally show ?thesis using l by (simp add: add.assoc)
  qed
qed

lemma gz_loop_over:
  "chunk_size dvd n \<Longrightarrow> n \<le> 0x10000000 \<Longrightarrow> 0x10000000 < n + length rest \<Longrightarrow>
     \<exists>r' st'. gz_loop n rest st = Ret (0x10000000, r') st' \<and> r' \<noteq> []"
proof (induction n rest arbitrary: st rule: gz_loop.induct)
  case (1 n rest)
  show ?case
  proof (cases "n < 0x10000000")
    case False
    with "1.prems" show ?thesis by (auto simp: gz_loop.simps msize m_simps)
  next
    case True
    let ?c = "take chunk_size rest" and ?r = "drop chunk_size rest"
    have d: "n + chunk_size \<le> 0x10000000" using True "1.prems"(1) by (auto simp: chunk_size_def elim!: dvdE)
    with "1.prems" have c: "length ?c = chunk_size" "chunk_size < length rest" by (simp_all add: chunk_size_def)
    then have b: "n < unat CONFIG_MSIZE \<and> ?c \<noteq> []" using True by (auto simp: msize chunk_size_def)
    have m: "host_mapped (pmem_base + of_nat n) (length ?c)" using d True by (simp add: base_mapped c)
    let ?st = "st\<lparr>pmem := put_bytes (pmem_base + of_nat n) ?c (pmem st)\<rparr>"
    have "gz_loop n rest st = gz_loop (n + length ?c) ?r ?st"
      using b gz_copy_ok[OF m, of st] by (subst gz_loop.simps) (simp add: thn_apply base_host del: take_eq_Nil)
    moreover have "\<exists>r' st'. gz_loop (n + length ?c) ?r ?st = Ret (0x10000000, r') st' \<and> r' \<noteq> []"
      by (rule "1.IH"[OF b]) (use "1.prems" c d in \<open>auto simp del: length_take\<close>)
    ultimately show ?thesis by simp
  qed
qed

text \<open>Property C30: loading an image. The loader of compressed images puts exactly the bytes of the image at the
  reset vector, although it skips zeros over zeros, and dies by its own check when they do not fit. The plain
  loader does the same to an image that fits, but runs past guest memory with one that does not, and fails an
  assertion on an empty file.\<close>

theorem load_img_spec:
  "load_gz_img (Some bytes) st =
     (if length bytes \<le> 0x10000000 then Ret (length bytes) (st\<lparr>pmem := put_bytes pmem_base bytes (pmem st)\<rparr>)
      else Crash Assert_fail) \<and>
   fread_img bytes st =
     (if bytes = [] then Crash Assert_fail
      else if length bytes \<le> 0x10000000 then Ret (length bytes) (st\<lparr>pmem := put_bytes pmem_base bytes (pmem st)\<rparr>)
      else Crash Host_fault)"
proof (cases "length bytes \<le> 0x10000000")
  case True
  with gz_loop_fits[of 0 bytes st] base_mapped[of 0 "length bytes"] show ?thesis
    by (simp add: load_gz_img_def fread_img_def m_simps base_host)
next
  case False
  with gz_loop_over[of 0 bytes st] base_mapped[of 0 "length bytes"] show ?thesis
    by (auto simp: load_gz_img_def fread_img_def m_simps base_host chunk_size_def)
qed

section \<open>Snapshots\<close>

lemma strtok_word:
  assumes "f \<noteq> []" "CHR '' '' \<notin> set f"
  shows "strtok f = Some (f, None)"
proof -
  obtain c r where f: "f = c # r" using assms(1) by (cases f) auto
  have "dropWhile (\<lambda>c. c \<noteq> CHR '' '') f = []" "takeWhile (\<lambda>c. c \<noteq> CHR '' '') f = f"
    using assms(2) by (auto simp: dropWhile_eq_Nil_conv takeWhile_eq_all_conv)
  moreover have "dropWhile (\<lambda>c. c = CHR '' '') f = f" using assms(2) by (auto simp: f)
  ultimately show ?thesis by (simp add: strtok_def f)
qed

lemma strtok_cmd: "c \<noteq> [] \<Longrightarrow> CHR '' '' \<notin> set c \<Longrightarrow> strtok (c @ '' '' @ s) = Some (c, Some s)"
  by (cases c) (auto simp: strtok_def takeWhile_append dropWhile_append)

text \<open>A command with one argument.\<close>

lemma ui_line_cmd:
  assumes "CHR '' '' \<notin> set c" "find (\<lambda>(n, _, _). c = n) cmd_table = Some (x, y, h)" "c \<noteq> []" "s \<noteq> []"
  shows "ui_line env (c @ '' '' @ s) = bnd (handler env (Some s) h) (\<lambda>r. ret (r < 0))"
  unfolding ui_line_def strtok_cmd[OF assms(3,1)] using assms(2,4) by simp

definition restored :: "'r ui_state \<Rightarrow> 'r ui_state \<Rightarrow> 'r ui_state \<Rightarrow> bool" where
  "restored u0 u u' \<longleftrightarrow> (let m0 = dut (ui_dut u0); m = dut (ui_dut u); m' = dut (ui_dut u') in
     cpu m' = cpu m0 \<and> (\<forall>a. in_host_mem a \<longrightarrow> pmem m' a = pmem m0 a) \<and> m' = m\<lparr>cpu := cpu m', pmem := pmem m'\<rparr> \<and>
     ref_st (ui_dut u') = ref_st (ui_dut u) \<and> ui_wps u' = ui_wps u)"

text \<open>Loading a snapshot that was saved earlier, whatever has happened since, brings back the registers
  and guest memory, and nothing else: the CSRs, the cached translation state, the run state and the difftest
  reference stay those of the machine that loads.\<close>

theorem snapshot_restores:
  assumes "f \<noteq> []" "CHR '' '' \<notin> set f" "env_writable env f"
    "ui_line env (''save '' @ f) u0 = Ret b u1" "ui_files u f = ui_files u1 f"
  shows "\<not> b \<and> (\<exists>u'. ui_line env (''load '' @ f) u = Ret False u' \<and> restored u0 u u')"
proof -
  have t: "next_tok (Some f) = Some (f, None)" by (simp add: next_tok_def strtok_word assms)
  have e: "ui_line env (''save '' @ f) = bnd (cmd_save (env_writable env) (Some f)) (\<lambda>r. ret (r < 0))"
    "ui_line env (''load '' @ f) = bnd (cmd_load (Some f)) (\<lambda>r. ret (r < 0))"
    using ui_line_cmd[of "''save''" _ _ Cmd_save f env] ui_line_cmd[of "''load''" _ _ Cmd_load f env] assms(1)
    by (simp_all add: cmd_table_def)
  have "\<not> b" "ui_files u1 f = Some (take_snapshot (dut (ui_dut u0)))"
    using assms(3) assms(4)[unfolded e] by (auto simp: cmd_save_def t m_simps)
  with assms(5) show ?thesis
    unfolding e by (simp add: cmd_load_def t m_simps on_d_def on_dut_def restored_def Let_def put_snapshot_def take_snapshot_def)
qed

section \<open>The watchpoint pool\<close>

definition pool_ok :: "'r ui_state \<Rightarrow> bool" where
  "pool_ok u \<longleftrightarrow> (\<exists>act fr. wp_inv (ui_wps u) act fr)"

abbreviation holds :: "('r ui_state, 'a) m \<Rightarrow> bool" where
  "holds \<equiv> pres pool_ok (\<lambda>_ _. True)"

lemma holds_d: "holds (on_d f)"
  by (auto simp: pres_def vld_def on_d_def pool_ok_def split: res.split)

lemma holds_emit: "holds (emit e)"
  by (auto simp: emit_def pool_ok_def intro!: pres_modify)

lemma holds_files: "holds (modify (\<lambda>u. u\<lparr>ui_files := g u\<rparr>))"
  by (rule pres_modify) (simp add: pool_ok_def)

lemma holds_die: "holds (die c)"
  by (simp add: pres_def vld_def die_def)

lemma set_no_jump: "wp_inv w act fr \<Longrightarrow> set_watchpoint e (st, w) = LongJmp c p \<Longrightarrow> snd p = w"
  by (auto simp: set_watchpoint_def on_fst_def on_snd_def new_WP_def m_simps split: res.splits option.splits)

lemma holds_set: "holds (on_mon (set_watchpoint e))"
  unfolding pres_def vld_def
proof (intro allI impI)
  fix u :: "'r ui_state" assume "pool_ok u"
  then obtain act fr where w: "wp_inv (ui_wps u) act fr" by (auto simp: pool_ok_def)
  show "case on_mon (set_watchpoint e) u of Ret x u' \<Rightarrow> pool_ok u' | LongJmp c u' \<Rightarrow> pool_ok u' \<and> True | Crash _ \<Rightarrow> True"
  proof (cases "set_watchpoint e (dut (ui_dut u), ui_wps u)")
    case (Ret n p)
    then show ?thesis using set_step[OF w, of e "dut (ui_dut u)" n "fst p" "snd p"]
      by (auto simp: on_mon_def put_mon_def pool_ok_def)
  next
    case (LongJmp c p)
    then show ?thesis using set_no_jump[OF w LongJmp] w by (auto simp: on_mon_def put_mon_def pool_ok_def)
  qed (simp add: on_mon_def)
qed

lemma delete_no_jump: "delete_watchpoint NO w \<noteq> LongJmp c w'"
  by (auto simp: delete_watchpoint_def free_WP_def Let_def m_simps split: option.splits prod.splits)

lemma holds_delete: "holds (on_mon (on_snd (delete_watchpoint NO)))"
  unfolding pres_def vld_def
proof (intro allI impI)
  fix u :: "'r ui_state" assume "pool_ok u"
  then obtain act fr where w: "wp_inv (ui_wps u) act fr" by (auto simp: pool_ok_def)
  show "case on_mon (on_snd (delete_watchpoint NO)) u of Ret x u' \<Rightarrow> pool_ok u' | LongJmp c u' \<Rightarrow> pool_ok u' \<and> True | Crash _ \<Rightarrow> True"
    using delete_step[OF w, of NO]
    by (cases "delete_watchpoint NO (ui_wps u)")
      (auto simp: on_mon_def on_snd_def put_mon_def pool_ok_def delete_no_jump)
qed

lemma list_wps_ok: "wlist w p is \<Longrightarrow> length is < k \<Longrightarrow>
    list_wps k w p = Some (map (\<lambda>i. let n = wp_pool w ! i in (wp_NO n, wp_expr n, wp_old_val n)) is)"
  by (induction "is" arbitrary: k p) (auto simp: next_wp_def Let_def less_Suc_eq_0_disj Suc_less_eq2 gr0_conv_Suc elim!: less_SucE)

lemma holds_list: "holds list_watchpoint"
  by (auto simp: list_watchpoint_def intro!: pres_intro holds_emit holds_die)

lemmas holds_intro = pres_intro holds_d holds_emit holds_files holds_set holds_delete holds_list

lemma holds_handler:
  assumes "\<And>n. holds (env_run env n)"
  shows "holds (handler env args h)"
  by (cases h) (auto simp: cmd_help_def cmd_c_def cmd_si_def cmd_info_def cmd_x_def cmd_p_def cmd_w_def cmd_d_def
      cmd_detach_def cmd_attach_def cmd_save_def cmd_load_def intro!: holds_intro holds_die assms)

lemma holds_loop:
  assumes "\<And>n. holds (env_run env n)"
  shows "holds (ui_loop env input)"
proof (induction input)
  case (Cons s input)
  have "holds (ui_line env s)"
    by (auto simp: ui_line_def Let_def intro!: holds_intro holds_handler assms)
  with Cons show ?case by (auto intro!: holds_intro)
qed (auto intro!: holds_intro)

text \<open>The run keeps the pool: a scan may change the value a watchpoint remembers, and a page fault while one is
  evaluated leaves before anything has changed.\<close>

lemma holds_scan: "holds (on_mon scan_watchpoint)"
  unfolding pres_def vld_def
proof (intro allI impI)
  fix u :: "'r ui_state" assume "pool_ok u"
  then obtain act fr where w: "wp_inv (ui_wps u) act fr" by (auto simp: pool_ok_def)
  show "case on_mon scan_watchpoint u of Ret x u' \<Rightarrow> pool_ok u' | LongJmp c u' \<Rightarrow> pool_ok u' \<and> True | Crash _ \<Rightarrow> True"
  proof (cases "scan_watchpoint (dut (ui_dut u), ui_wps u)")
    case (Ret x p)
    then show ?thesis using scan_step[OF w, of "dut (ui_dut u)" x "fst p" "snd p"]
      by (auto simp: on_mon_def put_mon_def pool_ok_def)
  next
    case (LongJmp c p)
    then have "snd p = ui_wps u" using scan_ok[OF w, of "dut (ui_dut u)"]
      by (cases "scan_spec (wp_abs (ui_wps u) act) (dut (ui_dut u))"; cases p) simp_all
    then show ?thesis using LongJmp w by (auto simp: on_mon_def put_mon_def pool_ok_def)
  qed (simp add: on_mon_def)
qed

lemma pool_upd_dut [simp]: "pool_ok (upd_dut f u) = pool_ok u"
  by (simp add: pool_ok_def upd_dut_def)

lemma holds_on_m: "holds (on_m f)"
  unfolding on_m_def by (rule holds_d)

lemma holds_batch: "holds (debug_execute difftest one ref_r n)"
  by (induction n) (auto simp: debug_once_def intro!: holds_intro holds_scan holds_on_m)

lemma holds_step: "holds (debug_step difftest one ref_r n cause)"
proof -
  let ?f = "\<lambda>k. thn (if cause = NEMU_EXEC_EXCEPTION then on_m take_exception else take_interrupt difftest)
      (debug_execute difftest one ref_r k)"
  have "holds (?f k)" for k
    by (auto simp: take_interrupt_def intro!: holds_intro holds_on_m holds_batch)
  note f = this
  show ?thesis unfolding pres_def vld_def
  proof (intro allI impI)
    fix u :: "'r ui_state" assume p: "pool_ok u"
    let ?k = "unat (if n \<ge> DEBUG_BATCH_SIZE then DEBUG_BATCH_SIZE else n)"
    show "case debug_step difftest one ref_r n cause u of Ret x u' \<Rightarrow> pool_ok u' | LongJmp c u' \<Rightarrow> pool_ok u' \<and> True | Crash _ \<Rightarrow> True"
      using presD_Ret[OF f p, of ?k] presD_LongJmp[OF f p, of ?k]
      by (cases "?f ?k u") (simp_all add: debug_step_def Let_def)
  qed
qed

lemma pool_loop: "debug_loop k difftest one ref_r n cause u = Some (Ret x u') \<Longrightarrow> pool_ok u \<Longrightarrow> pool_ok u'"
proof (induction k arbitrary: cause u)
  case (Suc k)
  then show ?case using presD_Ret[OF holds_step[of difftest one ref_r n cause], of u]
    by (auto split: if_splits res.splits)
qed simp

lemma loop_no_jump: "debug_loop k difftest one ref_r n cause u \<noteq> Some (LongJmp c u')"
  by (induction k arbitrary: cause u) (auto simp: debug_step_def Let_def split: res.splits)

lemma holds_debug_cpu_exec: "holds (debug_cpu_exec k difftest one ref_r n)"
  unfolding pres_def vld_def
proof (intro allI impI)
  fix u :: "'r ui_state" assume "pool_ok u"
  then show "case debug_cpu_exec k difftest one ref_r n u of Ret x u' \<Rightarrow> pool_ok u' | LongJmp c u' \<Rightarrow> pool_ok u' \<and> True | Crash _ \<Rightarrow> True"
    using loop_no_jump pool_loop
    by (fastforce simp: debug_cpu_exec_def debug_fuel_def split: res.splits option.splits)
qed

text \<open>Property C31: whatever lines the user enters, with the commands that run the guest going through
  \<open>cpu_exec\<close> (any fuel and any semantics of an instruction on the machine, with or without difftest), and
  from any state with a well-formed pool, such as the initialised one: when the loop returns, the pool of
  watchpoints is still well formed, its linked lists are lists, and \<open>info w\<close> prints exactly the active
  watchpoints.\<close>

theorem ui_keeps_watchpoints:
  assumes "env_run env = debug_cpu_exec k difftest one ref_r" "pool_ok u" "ui_loop env input u = Ret x u'"
  shows "pool_ok u' \<and> (\<exists>act. wlist (ui_wps u') (wp_head (ui_wps u')) act \<and>
    ui_line env ''info w'' u' = Ret False (u'\<lparr>ui_out := ui_out u' @ [O_watchpoints
      (map (\<lambda>i. (i, wp_expr (wp_pool (ui_wps u') ! i), wp_old_val (wp_pool (ui_wps u') ! i))) act)]\<rparr>))"
proof -
  have p: "pool_ok u'" by (rule presD_Ret[OF holds_loop assms(2,3)]) (simp add: assms(1) holds_debug_cpu_exec)
  then obtain act fr where w: "wp_inv (ui_wps u') act fr" by (auto simp: pool_ok_def)
  then have l: "wlist (ui_wps u') (wp_head (ui_wps u')) act" "\<forall>i\<in>set act. wp_NO (wp_pool (ui_wps u') ! i) = i"
    by (auto simp: wp_inv_def)
  have n: "list_wps (NR_WP + 1) (ui_wps u') (wp_head (ui_wps u')) =
      Some (map (\<lambda>i. (i, wp_expr (wp_pool (ui_wps u') ! i), wp_old_val (wp_pool (ui_wps u') ! i))) act)"
    using list_wps_ok[OF l(1), of "NR_WP + 1"] act_length[OF w] l(2) by (auto simp: NR_WP_def Let_def)
  have "next_tok (Some ''w'') = Some (''w'', None)" by (simp add: next_tok_def strtok_def)
  then have "cmd_info (Some ''w'') u' = Ret 0 (u'\<lparr>ui_out := ui_out u' @ [O_watchpoints
      (map (\<lambda>i. (i, wp_expr (wp_pool (ui_wps u') ! i), wp_old_val (wp_pool (ui_wps u') ! i))) act)]\<rparr>)"
    using n by (simp add: cmd_info_def list_watchpoint_def emit_def m_simps del: list_wps.simps)
  moreover have "ui_line env ''info w'' = bnd (cmd_info (Some ''w'')) (\<lambda>r. ret (r < 0))"
    using ui_line_cmd[of "''info''" _ _ Cmd_info "''w''" env] by (simp add: cmd_table_def)
  ultimately show ?thesis using p l(1) by (auto simp: bnd_apply ret_apply)
qed

section \<open>Witnesses\<close>

definition quiet_env :: "machine ui_env" where
  "quiet_env = \<lparr>env_run = (\<lambda>_. skip), env_junk = 0, env_beyond = [], env_writable = (\<lambda>_. True)\<rparr>"

definition ui_start :: "machine \<Rightarrow> machine ui_state" where
  "ui_start st = \<lparr>ui_dut = static_dut st static_machine, ui_wps = init_wp_pool static_wps, ui_files = (\<lambda>_. None), ui_out = []\<rparr>"

lemma pool_start: "pool_ok (ui_start st)"
  using reaches_inv[OF wp_start[of st]] by (simp add: pool_ok_def ui_start_def)

text \<open>A machine with a trap vector is saved; one without loads it and has none.\<close>

theorem snapshot_restores_witness:
  "\<exists>u1 u'. ui_line quiet_env ''save x'' (ui_start (set_csr CSR_mtvec 0x100 static_machine)) = Ret False u1 \<and>
     ui_line quiet_env ''load x'' ((ui_start static_machine)\<lparr>ui_files := ui_files u1\<rparr>) = Ret False u' \<and>
     cpu (dut (ui_dut u')) = cpu (dut (ui_dut u1)) \<and> csr (dut (ui_dut u')) CSR_mtvec = 0"
proof -
  let ?saved = "ui_start (set_csr CSR_mtvec 0x100 static_machine)"
  have "next_tok (Some ''x'') = Some (''x'', None)" by (simp add: next_tok_def strtok_def)
  then have "cmd_save (\<lambda>_. True) (Some ''x'') ?saved = Ret 0 (?saved\<lparr>ui_files := (ui_files ?saved)(''x'' := Some (take_snapshot (dut (ui_dut ?saved))))\<rparr>)"
    by (simp add: cmd_save_def m_simps)
  moreover have "ui_line quiet_env ''save x'' = bnd (cmd_save (\<lambda>_. True) (Some ''x'')) (\<lambda>r. ret (r < 0))"
    using ui_line_cmd[of "''save''" _ _ Cmd_save "''x''" quiet_env] by (simp add: cmd_table_def quiet_env_def)
  ultimately obtain u1 where u1: "ui_line quiet_env ''save x'' ?saved = Ret False u1" "cpu (dut (ui_dut u1)) = cpu (dut (ui_dut ?saved))"
    by (simp add: m_simps)
  let ?now = "(ui_start static_machine)\<lparr>ui_files := ui_files u1\<rparr>"
  have s: "ui_line quiet_env (''save '' @ ''x'') ?saved = Ret False u1" using u1(1) by simp
  have f: "ui_files ?now ''x'' = ui_files u1 ''x''" by simp
  from snapshot_restores[OF _ _ _ s f] obtain u' where
    u': "ui_line quiet_env ''load x'' ?now = Ret False u'" "restored ?saved ?now u'" by (auto simp: quiet_env_def)
  have d: "dut (ui_dut ?now) = static_machine" by (simp add: ui_start_def static_dut_def)
  have r: "cpu (dut (ui_dut u')) = cpu (dut (ui_dut ?saved))" "dut (ui_dut u') =
      static_machine\<lparr>cpu := cpu (dut (ui_dut u')), pmem := pmem (dut (ui_dut u'))\<rparr>"
    using u'(2) unfolding restored_def Let_def d by blast+
  have "csr (dut (ui_dut u')) = (\<lambda>_. 0)" by (subst r(2)) simp
  with u1 u'(1) r(1) show ?thesis by (intro exI[of _ u1] exI[of _ u']) simp
qed

text \<open>A machine that is about to execute a compressed addition of an immediate to the stack pointer.\<close>

definition addi_machine :: machine where
  "addi_machine = static_machine\<lparr>cpu := (cpu static_machine)\<lparr>cpu_pc := 0x80000000\<rparr>,
     pmem := store_le (\<lambda>_. 0) (guest_to_host 0x80000000) 2 0x0040\<rparr>"

lemma addi_decode: "d_instr s = 0x0040 \<Longrightarrow> \<exists>s'. table_rvc m s = Some (s', Rvi ID_addi)"
proof -
  assume "d_instr s = 0x0040"
  moreover have "instr_match ''?????????????? 00'' 0x0040" "instr_match ''000 ???????? ??? ??'' 0x0040" "addi4spn_imm 0x0040 \<noteq> 0"
    by code_simp+
  ultimately show ?thesis
    by (simp add: table_rvc_def table_rvc_Q0_def TAB_def IDTABa_def get_instr_def tb_def decode_C_ADDI4SPN_def Let_def)
qed

lemma addi_once:
  assumes "cpu m = cpu addi_machine" "csr m = csr addi_machine" "ifetch_mmu_state m = MMU_DIRECT" "pmem m = pmem addi_machine"
  shows "\<exists>m'. exec_once fl m = Ret () m'"
proof -
  have f: "instr_fetch 0x80000000 2 (m\<lparr>cur_s := c\<rparr>) = Ret (0x0040, 0x80000002) (m\<lparr>cur_s := c\<rparr>)" for c
  proof -
    have "isa_mmu_check 0x80000000 2 MEM_TYPE_IFETCH (m\<lparr>cur_s := c\<rparr>) = Ret MMU_DIRECT (m\<lparr>cur_s := c\<rparr>)"
      using assms by (simp add: isa_mmu_check_def Let_def eff_mode_def msb_on_def satp_mode_def ms_def MODE_M_def fld_def addi_machine_def)
    moreover have "paddr_read 0x80000000 2 (m\<lparr>cur_s := c\<rparr>) = Ret 0x0040 (m\<lparr>cur_s := c\<rparr>)"
      using paddr_read_ok[of "0x80000000" 2 "m\<lparr>cur_s := c\<rparr>"] load_store_same[of 2 "\<lambda>_. 0" "guest_to_host 0x80000000" "0x0040"]
      by (simp add: fits_pmem_def in_pmem_range legal_len_def assms(4) addi_machine_def take_bit_eq_mod)
    ultimately show ?thesis by (simp add: instr_fetch_def vaddr_ifetch_def vaddr_read_internal_def m_simps)
  qed
  let ?c = "(cur_s m)\<lparr>d_pc := 0x80000000, d_instr := 0x0040, d_snpc := 0x80000002\<rparr>"
  obtain s' where t: "table_rvc (m\<lparr>cur_s := ?c\<rparr>) ?c = Some (s', Rvi ID_addi)" using addi_decode[of ?c] by auto
  then have "fits_sig (sig_of (Rvi ID_addi)) s'" using decode_typed(1)[of "m\<lparr>cur_s := ?c\<rparr>" ?c] by (simp add: typed_def)
  then have "fits_sig (sig_rvi ID_addi) (s'\<lparr>d_type := INSTR_TYPE_N\<rparr>)" by (simp add: sig_of_def fits_sig_def split: prod.splits)
  from rvi_returns[OF this] obtain m2 where "exec_rvi ID_addi (s'\<lparr>d_type := INSTR_TYPE_N\<rparr>)
      (m\<lparr>cur_s := s'\<lparr>d_type := INSTR_TYPE_N\<rparr>, cpu := (cpu m)\<lparr>cpu_pc := d_snpc s'\<rparr>\<rparr>) = Ret () m2"
    by (auto simp: returns_def)
  moreover have "f_opcode1_0 0x0040 \<noteq> 0x3" by code_simp
  moreover have "cpu_pc (cpu m) = 0x80000000" by (simp add: assms(1) addi_machine_def)
  ultimately show ?thesis using t f
    by (simp add: exec_once_def fetch_decode_def isa_fetch_decode_def m_simps set_type_def jump_ids_def branch_ids_def indirect_ids_def)
qed

lemma expr_seven: "expr ''7'' st = Ret (Some 7) st"
proof -
  have "make_token ''7'' [] = Tokens [\<lparr>tk_type = TK_NUM, tk_str = ''7''\<rparr>]" by code_simp
  then show ?thesis by (simp add: expr_def eval.simps eval_atom_def m_simps strtoul_def digits_val_def digit_val_def is_hex_def)
qed

text \<open>The user watches the constant 7 and executes that instruction.\<close>

lemma one_step:
  assumes "wp_inv (ui_wps u) [0] fr" "wp_abs (ui_wps u) [0] = [(0, ''7'', 7)]" "dut (ui_dut u) = addi_machine"
  shows "\<exists>u'. debug_cpu_exec 2 False (exec_once fl) b 1 u = Ret () u'"
proof -
  let ?u = "upd_dut (\<lambda>st. (set_nstate NEMU_RUNNING st)\<lparr>n_remain_total := 1\<rparr>) u"
  let ?m = "dut (ui_dut ?u)"
  obtain m' where m': "exec_once fl ?m = Ret () m'"
    using addi_once[of ?m fl] assms(3) by (auto simp: upd_dut_def set_nstate_def addi_machine_def)
  have "scan_spec [(0, ''7'', 7)] m' = Ret [(0, ''7'', 7)] m'" by (simp add: expr_seven m_simps)
  then obtain w' where w': "scan_watchpoint (m', ui_wps u) = Ret () (m', w')"
    using scan_ok[OF assms(1), of m'] assms(2) by (cases "scan_watchpoint (m', ui_wps u)") auto
  let ?u1 = "put_mon (m', w') (upd_dut (\<lambda>_. m') ?u)"
  have total: "n_remain_total m' = 1" using execute_budget[of fl 1 ?m 0 m'] m' by (simp add: m_simps upd_dut_def)
  have "on_m (exec_once fl) ?u = Ret () (upd_dut (\<lambda>_. m') ?u)"
    using m' by (simp add: on_m_def on_d_def on_dut_def upd_dut_def)
  moreover have "on_mon scan_watchpoint (upd_dut (\<lambda>_. m') ?u) = Ret () ?u1"
    using w' by (simp add: on_mon_def upd_dut_def)
  ultimately have "debug_execute False (exec_once fl) b 1 ?u = Ret () ?u1"
    by (simp add: debug_once_def m_simps)
  moreover have "isa_query_intr ?m = INTR_EMPTY"
    by (simp add: isa_query_intr_def upd_dut_def assms(3) set_nstate_def addi_machine_def)
  ultimately have "debug_step False (exec_once fl) b 1 0 ?u =
      Ret 0 (upd_dut (\<lambda>st. st\<lparr>n_remain := 0, n_remain_total := n_remain_total st - 1\<rparr>) ?u1)"
    by (simp add: debug_step_def take_interrupt_def DEBUG_BATCH_SIZE_def NEMU_EXEC_EXCEPTION_def m_simps word_le_nat_alt)
  moreover have "running ?m" by (simp add: running_def upd_dut_def set_nstate_def)
  ultimately have "debug_loop 2 False (exec_once fl) b 1 0 ?u =
      Some (Ret () (upd_dut (\<lambda>st. st\<lparr>n_remain := 0, n_remain_total := n_remain_total st - 1\<rparr>) ?u1))"
    by (simp add: numeral_2_eq_2 running_def put_mon_def upd_dut_def total)
  then have "debug_fuel 2 False (exec_once fl) b 1 u = Some (Ret () (upd_dut debug_after
      (upd_dut (\<lambda>st. st\<lparr>n_remain := 0, n_remain_total := n_remain_total st - 1\<rparr>) ?u1)))"
    by (simp add: debug_fuel_def assms(3) addi_machine_def)
  then show ?thesis by (simp add: debug_cpu_exec_def)
qed

theorem ui_keeps_watchpoints_witness:
  "\<forall>fl b. \<exists>u'. ui_loop (debug_env 2 False (exec_once fl) b 0 [] (\<lambda>_. True)) [''w 7'', ''si''] (ui_start addi_machine) = Ret () u' \<and>
     pool_ok u'"
proof (intro allI)
  fix fl b
  let ?e = "debug_env 2 False (exec_once fl) b 0 [] (\<lambda>_. True) :: machine ui_env"
  have "length (wp_pool static_wps) = 32" by (simp add: static_wps_def NR_WP_def)
  from init_inv[OF this] have i: "wp_inv (init_wp_pool static_wps) [] (0 # [1..<32])" by (simp add: upt_conv_Cons)
  from set_ok[OF i expr_seven] obtain w where w: "set_watchpoint ''7'' (addi_machine, init_wp_pool static_wps) = Ret 0 (addi_machine, w)"
    "wp_inv w [0] [1..<32]" "wp_abs w [0] = [(0, ''7'', 7)]" by (auto simp: wp_abs_def)
  let ?u = "(ui_start addi_machine)\<lparr>ui_wps := w, ui_out := [O_set 0]\<rparr>"
  have "ui_line ?e ''w 7'' = bnd (cmd_w (Some ''7'')) (\<lambda>r. ret (r < 0))"
    using ui_line_cmd[of "''w''" _ _ Cmd_w "''7''" ?e] by (simp add: cmd_table_def)
  then have 1: "ui_line ?e ''w 7'' (ui_start addi_machine) = Ret False ?u"
    using w(1) by (simp add: cmd_w_def on_mon_def put_mon_def ui_start_def static_dut_def emit_def m_simps)
  have "\<exists>u'. debug_cpu_exec 2 False (exec_once fl) b 1 ?u = Ret () u'"
    by (rule one_step[where fr = "[1..<32]"]) (use w(2,3) in \<open>simp_all add: ui_start_def static_dut_def\<close>)
  then obtain u' where u': "debug_cpu_exec 2 False (exec_once fl) b 1 ?u = Ret () u'" by blast
  have "strtok ''si'' = Some (''si'', None)" by (simp add: strtok_def)
  then have "ui_line ?e ''si'' ?u = Ret False u'"
    using u' by (simp add: ui_line_def cmd_table_def cmd_si_def next_tok_def debug_env_def m_simps)
  with 1 have l: "ui_loop ?e [''w 7'', ''si''] (ui_start addi_machine) = Ret () u'" by (simp add: m_simps)
  have "env_run ?e = debug_cpu_exec 2 False (exec_once fl) b" by (simp add: debug_env_def)
  from ui_keeps_watchpoints[OF this pool_start l] l show "\<exists>u'. ui_loop ?e [''w 7'', ''si''] (ui_start addi_machine) = Ret () u' \<and> pool_ok u'" by blast
qed

end
