(* ===== verification/Spec2Isabelle.thy ===== *)
theory Spec2Isabelle
  imports Reach Traps CsrProps Sv39 DecodeProps DecodeTypes Atomic DiffProps WatchProps SdProps ExprProps MulDiv Bitmanip Fifo TcacheLinks DutProps UiProps
begin

text \<open>
  Verification library of NEMU (\<open>src/libraries/NEMU\<close>), the instruction-set simulator that this repository uses
  as the reference model of its processor cores: the riscv64 interpreter in the configuration committed in
  \<open>include/generated/autoconf.h\<close> (system mode, difftest reference), and around it the monitor with its
  command loop, expressions and watchpoints, the devices, the side of difftest that checks NEMU itself, and the
  translation cache of the performance build. All source paths below are relative to \<open>src/libraries/NEMU\<close>.

  \<^bold>\<open>How the program works.\<close> A partner processor drives the simulator through \<open>cpu/difftest/ref.c\<close>: it copies
  registers and memory, injects interrupts, asks for steps, and compares stores. A step (\<open>cpu/cpu-exec.c\<close>)
  fetches through the MMU, decodes with the tables of \<open>isa/riscv64/instr\<close> into a record of operand pointers,
  and runs the execution helper of the instruction, which works on the RTL layer (\<open>engine/interpreter\<close>). An
  exception leaves any helper by \<open>longjmp\<close> to the loop, which enters the trap and, like an interrupt found
  between instructions, changes privilege, CSRs and the cached MMU state. The monitor evaluates expressions over
  registers and memory, among them those of watchpoints. Built the other way round, NEMU is the design under test:
  \<open>cpu/difftest/dut.c\<close> lets a reference library follow it instruction by instruction and compares registers. In a build with devices an access outside memory goes
  through the address maps to the handler of a device.

  \<^bold>\<open>State.\<close> The globals of the C program are records: \<open>machine\<close> (theory Machine) for registers, CSR array,
  physical memory, MMU state, store-commit queue, RTL temporaries and run state; \<open>decode\<close> for the record
  \<open>Decode\<close>, its operand pointers being the datatype \<open>ptr\<close>; \<open>wps\<close> for the watchpoint pool; \<open>dut_state\<close> for a machine under test and its reference;
  \<open>ui_state\<close> for the monitor around it; \<open>tcache\<close> for the translation cache and \<open>devs\<close> for the devices
  with the machine inside. Machine integers are words of their width. A C function is a function from a state to
  an outcome (theory Prelude): \<open>Ret\<close> a result and a state, \<open>LongJmp\<close> a cause and the state reached, or \<open>Crash\<close>,
  the death of the process by a failed assertion or a host fault. Nothing is lost: every assertion, panic,
  exception and early return of the source is a branch.

  \<^bold>\<open>Theories and sources.\<close>
  \<^item> Prelude: integer types, outcomes, sequencing, invariant rules, bit fields. Machine: \<open>include/cpu\<close>, \<open>isa-def.h\<close>.
  \<^item> Memory: \<open>memory/paddr.c\<close>, \<open>memory/host.h\<close>, with the store-commit queue. Fifo: the contract of queues.
  \<^item> Csr, Priv: \<open>local-include/csr.h\<close>, \<open>system/priv.c\<close>, \<open>system/intr.c\<close>. Mmu: \<open>system/mmu.c\<close>. Vaddr: \<open>memory/vaddr.c\<close>.
    HostTlb: \<open>memory/host-tlb.c\<close>.
  \<^item> Rtl: \<open>c_op.h\<close>, \<open>rtl-basic.h\<close>, \<open>pseudo.h\<close>. Fp: \<open>engine/interpreter/fp.c\<close>, \<open>softfloat-fp.h\<close>, \<open>instr/fp.c\<close>. Hostcall:
    \<open>hostcall.c\<close>.
  \<^item> ExecId, Decode: the instruction identities, patterns, operand helpers and decode tables of every extension of
    the build. ExecInt, ExecM, ExecB, ExecSys, ExecFp: the execution helpers, one definition each. CpuExec: the
    execution table and the run loop.
  \<^item> Difftest: \<open>cpu/difftest/ref.c\<close>, \<open>isa/riscv64/difftest/ref.c\<close>, \<open>isa/riscv64/init.c\<close>.
  \<^item> Expr: \<open>utils/expr.c\<close>, \<open>isa/riscv64/reg.c\<close>. Watchpoint: \<open>monitor/watchpoint.c\<close>.
  \<^item> Io, Devices, Bus: \<open>device\<close>, \<open>device/io\<close>, \<open>isa/riscv64/clint.c\<close>, in the configuration with devices, default
    addresses and the serial input queue.
  \<^item> Tcache: \<open>cpu/tcache.c\<close> in the configuration \<open>riscv64-xs_defconfig\<close> (performance build, run-time checks on; with
    the committed memory layout, in which a physical address has 32 bits): the pools of decoded instructions and of placeholder records as one store indexed by pointers, the hash table of
    basic blocks, and the decoder that builds and links blocks, with instruction fetch through the host TLB.
  \<^item> Dut: \<open>cpu/difftest/dut.c\<close>, \<open>isa/riscv64/difftest/dut.c\<close>, with the library that NEMU is as a reference. Ui:
    \<open>monitor/ui.c\<close>, \<open>monitor/monitor.c\<close>, \<open>utils/state.c\<close>. DebugRun: \<open>cpu/cpu-exec.c\<close> as the monitor runs it, in the
    debugging build: batches of 65536 instructions with the scan of the watchpoints and the difftest step.

  \<^bold>\<open>What the lemmas show.\<close>
  \<^item> Invariant, MachineWf, Reach: an interface \<open>machine_inv\<close> of what an invariant has to survive, under which every
    helper, and the decoder, keeps it; extended by the counters of the run loop (\<open>run_inv\<close>) and the difftest calls
    (\<open>api_inv\<close>), and interpreted for x0, the privilege mode, the delegation registers and the store-commit queue.
    The queue is well formed in every state a partner can reach, the others hold
    unless the last copy of the registers concerned brought in values that break them.
  \<^item> RunLoop: the run loop ends for every machine and budget, and no \<open>longjmp\<close> leaves it.
  \<^item> Sv39: the page-table walk implements the relation \<open>walks\<close> of the privileged architecture, and every other
    outcome: faults, assertions, tables that lead out of memory. Traps: trap entry, return, the choice of the interrupt by level and rank, the cached MMU state. CsrProps: views and windows
    of CSRs, the floating-point status as a kept and a shown pair of fields, access checks.
  \<^item> DecodeProps, DecodeShape: the meaning of pattern strings, the immediates, the equivalence of the specialised
    helpers with the instruction they replace, and that no instruction is given x0 as a destination to write.
  \<^item> MulDiv, Bitmanip, Atomic (over Operands): the instructions against integer and bit-level specifications.
  \<^item> DiffProps: what the copies of the difftest interface carry over and what they leave behind.
  \<^item> ExprProps: evaluating the printed form of a syntax tree gives its meaning. WatchProps: the pool of watchpoints
    implements a list of them.
  \<^item> DevProps, PortProps, SdProps: the address map, the rings of keyboard and serial port as interpretations of the
    queue contract \<open>fifo\<close> (as is the store-commit queue in Memory), the timer, and the SD card.
  \<^item> DecodeTypes: signatures of the instruction identities; decoding yields records of the signature, on which the
    helpers of the integer instructions return in every state.
  \<^item> TcacheProps: the block table as an interpretation of the contract \<open>lookup_table\<close> of finite maps. TcacheLinks:
    links lead to records of the address jumped to, placeholders are resolved, a full cache recovers, and how many
    unresolved exits the placeholder list serves.
  \<^item> DutProps: the contract \<open>reference_design\<close> of a register copy, interpreted on the model of \<open>ref.c\<close>; the verdict of
    a step, catching up, resynchronising, and what comparing shadow CSRs does. UiProps: the two image loaders,
    snapshots, and the watchpoint pool through every command line, those that run the guest included.

  \<^bold>\<open>Fuel.\<close> \<open>cpu_exec\<close> runs its loop with fuel 3; RunLoop proves that any fuel of two or more gives the same result,
  because a batch has one instruction in this configuration. The loops over the watchpoints have fuel 33 for a pool
  of 32, and WatchProps proves that they never run out. \<open>list_wps\<close> has the same fuel, and UiProps the proof. The search of \<open>bb_find\<close> has one more than the size of the
  record pool, and TcacheProps proves that it ends within it. The loop of the debugging build (\<open>debug_loop\<close>) runs a guest that may never stop, so no fuel is enough for
  every state: running out is \<open>None\<close>, more fuel does not change a result (\<open>debug_loop_mono\<close>), and what is proved of
  it holds for every fuel. All other loops are recursion on data.

  \<^bold>\<open>Parameters.\<close> \<open>fp_lib\<close> stands for the SoftFloat library (\<open>resource/softfloat\<close>, third party): its operations on
  bit patterns with rounding mode and flags. \<open>sc\<close> stands for SDL's scan codes, assumed to tell the keys apart. What the host provides,
  the clock, the input pipe, image files and events, is part of the device state or an argument. In theory Dut the
  reference is a type of states with the functions a shared library exports; its contract is the locale
  \<open>reference_design\<close>. In theory DebugRun the semantics of one instruction on
  the machine is an argument, with \<open>exec_once\<close> as the instance. In theory Ui the call of \<open>cpu_exec\<close> (instance: \<open>debug_cpu_exec\<close>), the lines read, the options that \<open>getopt_long\<close> returns and the
  decompressed image are arguments.

  \<^bold>\<open>Not modelled.\<close> The vector extension, user-mode emulation and the other guest architectures are not part of the
  committed configuration. Logging, the host's alignment check and the text of what is printed are left out. The execution loop of the performance build (computed gotos) is left out; its cache is modelled.
  SoftFloat, kconfig, DRAMsim3 and the
  Verilog, Chisel and C++ parts of the repository are third-party, generated, or not C.
\<close>

end
